(* ===== verification/Prelude.thy ===== *)
theory Prelude
  imports Main "HOL-Library.Sublist"
begin

text \<open>
  Shared vocabulary of the development: results of fallible code, safe integers, the
  canonical representation of \<open>UtcTimestamp\<close> values, transition histories, the list and
  map lemmas the components use, and two generic contracts: a machine with an invariant
  (\<open>guarded_machine\<close>) and a table of legal transitions (\<open>lifecycle_table\<close>).
\<close>

named_theorems model_defs "definitions of model operations, unfolded together"

section \<open>Results of fallible code\<close>

text \<open>
  A function of the source that may throw returns \<open>Inl e\<close> for the thrown error and
  \<open>Inr x\<close> for a normal return.
\<close>

type_synonym ('e, 'a) result = "'e + 'a"

fun and_then :: "('e, 'a) result \<Rightarrow> ('a \<Rightarrow> ('e, 'b) result) \<Rightarrow> ('e, 'b) result" where
  "and_then (Inl e) f = Inl e"
| "and_then (Inr x) f = f x"

fun check_that :: "bool \<Rightarrow> 'e \<Rightarrow> ('e, unit) result" where
  "check_that True e = Inr ()"
| "check_that False e = Inl e"

lemma and_then_Inr [simp]: "and_then r f = Inr y \<longleftrightarrow> (\<exists>x. r = Inr x \<and> f x = Inr y)"
  by (cases r) auto

lemma and_then_Inl [simp]: "and_then r f = Inl e \<longleftrightarrow> r = Inl e \<or> (\<exists>x. r = Inr x \<and> f x = Inl e)"
  by (cases r) auto

lemma check_that_Inr [simp]: "check_that b e = Inr u \<longleftrightarrow> b"
  by (cases b) auto

lemma check_that_Inl [simp]: "check_that b e = Inl e' \<longleftrightarrow> \<not> b \<and> e' = e"
  by (cases b) auto

definition is_ok :: "('e, 'a) result \<Rightarrow> bool" where
  "is_ok r = (case r of Inl _ \<Rightarrow> False | Inr _ \<Rightarrow> True)"

lemma is_ok_simps [simp]: "is_ok (Inl e) = False" "is_ok (Inr x) = True"
  by (simp_all add: is_ok_def)

section \<open>Safe integers and timestamps\<close>

definition MAX_SAFE_INTEGER :: int where
  "MAX_SAFE_INTEGER = 9007199254740991"

definition is_safe_integer :: "int \<Rightarrow> bool" where
  "is_safe_integer n \<longleftrightarrow> - MAX_SAFE_INTEGER \<le> n \<and> n \<le> MAX_SAFE_INTEGER"

lemma is_safe_integer_mono: "is_safe_integer n \<Longrightarrow> 0 \<le> m \<Longrightarrow> m \<le> n \<Longrightarrow> is_safe_integer m"
  by (simp add: is_safe_integer_def MAX_SAFE_INTEGER_def)

text \<open>
  A \<open>UtcTimestamp\<close> is a string in the one canonical form \<open>Date.prototype.toISOString\<close>
  prints for years 0 to 9999; \<open>timestampMs\<close> refuses every other string. Such strings and
  the integers in the range below are in bijection, so the model represents the string by
  its epoch milliseconds.
\<close>

type_synonym utc_timestamp = int

definition MIN_ISO_MS :: int where "MIN_ISO_MS = -62167219200000"
definition MAX_ISO_MS :: int where "MAX_ISO_MS = 253402300799999"

definition iso_range :: "int \<Rightarrow> bool" where
  "iso_range ms \<longleftrightarrow> MIN_ISO_MS \<le> ms \<and> ms \<le> MAX_ISO_MS"

section \<open>Lists and maps\<close>

lemma list_all_butlast: "list_all P xs \<Longrightarrow> list_all P (butlast xs)"
  by (auto simp: list_all_iff dest: in_set_butlastD)

lemma dom_map_upd_some [simp]: "m k = Some v \<Longrightarrow> dom (m(k \<mapsto> w)) = dom m"
  by auto

fun find_index :: "('a \<Rightarrow> bool) \<Rightarrow> 'a list \<Rightarrow> nat option" where
  "find_index P [] = None"
| "find_index P (x # xs) = (if P x then Some 0 else map_option Suc (find_index P xs))"

lemma find_index_None: "find_index P xs = None \<longleftrightarrow> (\<forall>x \<in> set xs. \<not> P x)"
  by (induction xs) auto

lemma find_index_Some:
  "find_index P xs = Some i \<Longrightarrow> i < length xs \<and> P (xs ! i) \<and> (\<forall>j < i. \<not> P (xs ! j))"
  by (induction xs arbitrary: i) (auto split: if_splits simp: nth_Cons split: nat.splits)

text \<open>\<open>Array.prototype.splice(i, 1)\<close>: the list without its \<open>i\<close>-th entry.\<close>

definition remove_nth :: "nat \<Rightarrow> 'a list \<Rightarrow> 'a list" where
  "remove_nth i xs = take i xs @ drop (Suc i) xs"

lemma length_remove_nth: "i < length xs \<Longrightarrow> length (remove_nth i xs) = length xs - 1"
  by (simp add: remove_nth_def)

lemma set_remove_nth_subset: "set (remove_nth i xs) \<subseteq> set xs"
  by (auto simp: remove_nth_def dest: in_set_takeD in_set_dropD)

lemma subseq_remove_nth: "subseq (remove_nth i xs) xs"
proof -
  have "subseq (take i xs @ drop (Suc i) xs) (take i xs @ drop i xs)"
  proof (rule list_emb_append_mono)
    show "subseq (take i xs) (take i xs)" by simp
    have "drop (Suc i) xs = drop 1 (drop i xs)" by simp
    then show "subseq (drop (Suc i) xs) (drop i xs)"
      by (metis append_take_drop_id list_emb_append2 subseq_order.refl)
  qed
  then show ?thesis by (simp add: remove_nth_def)
qed

lemma sorted_wrt_remove_nth:
  assumes "sorted_wrt P xs"
  shows "sorted_wrt P (remove_nth i xs)"
proof -
  have "sorted_wrt P (take i xs @ drop i xs)" using assms by simp
  then show ?thesis
    using set_drop_subset_set_drop [of i "Suc i" xs] sorted_wrt_drop [OF assms, of "Suc i"]
    unfolding remove_nth_def sorted_wrt_append by auto
qed

lemma filter_update:
  assumes "i < length xs" "P (xs ! i)" "\<not> P y"
  obtains as bs where "filter P xs = as @ xs ! i # bs" "filter P (xs[i := y]) = as @ bs"
proof
  show "filter P xs = filter P (take i xs) @ xs ! i # filter P (drop (Suc i) xs)"
    using assms by (subst id_take_nth_drop [of i]) simp_all
  show "filter P (xs[i := y]) = filter P (take i xs) @ filter P (drop (Suc i) xs)"
    using assms by (simp add: upd_conv_take_nth_drop)
qed

lemma filter_update_neither:
  "\<not> P (xs ! i) \<Longrightarrow> \<not> P y \<Longrightarrow> filter P (xs[i := y]) = filter P xs"
proof (induction xs arbitrary: i)
  case (Cons x xs)
  then show ?case by (cases i) auto
qed simp

text \<open>
  The bookkeeping of promises: \<open>n\<close> requests were made, numbered in order; the answered and
  the waiting ones are all of them, none of them twice.
\<close>

definition tickets_ok :: "nat \<Rightarrow> nat list \<Rightarrow> nat list \<Rightarrow> bool" where
  "tickets_ok n answered waiting \<longleftrightarrow>
     distinct (answered @ waiting) \<and> set (answered @ waiting) = {..<n}"

lemma tickets_answer_new: "tickets_ok n as ws \<Longrightarrow> tickets_ok (Suc n) (as @ [n]) ws"
  by (auto simp: tickets_ok_def lessThan_Suc)

lemma tickets_wait_new: "tickets_ok n as ws \<Longrightarrow> tickets_ok (Suc n) as (ws @ [n])"
  by (auto simp: tickets_ok_def lessThan_Suc)

lemma tickets_answer_waiting:
  assumes "tickets_ok n as ws" "i < length ws"
  shows "tickets_ok n (as @ [ws ! i]) (remove_nth i ws)"
proof -
  have ws: "ws = take i ws @ ws ! i # drop (Suc i) ws"
    using assms(2) by (rule id_take_nth_drop)
  have "distinct (as @ take i ws @ ws ! i # drop (Suc i) ws)"
    "set (as @ take i ws @ ws ! i # drop (Suc i) ws) = {..<n}"
    using assms(1) unfolding tickets_ok_def ws [symmetric] by blast+
  then show ?thesis by (auto simp: tickets_ok_def remove_nth_def)
qed

lemma map_remove_nth: "map f (remove_nth i xs) = remove_nth i (map f xs)"
  by (simp add: remove_nth_def take_map drop_map)

section \<open>Identifier patterns\<close>

definition is_lower :: "char \<Rightarrow> bool" where
  "is_lower c \<longleftrightarrow> (let n = (of_char c :: nat) in 97 \<le> n \<and> n \<le> 122)"

definition is_digit :: "char \<Rightarrow> bool" where
  "is_digit c \<longleftrightarrow> (let n = (of_char c :: nat) in 48 \<le> n \<and> n \<le> 57)"

definition is_alnum :: "char \<Rightarrow> bool" where
  "is_alnum c \<longleftrightarrow>
     is_lower c \<or> is_digit c \<or> (let n = (of_char c :: nat) in 65 \<le> n \<and> n \<le> 90)"

definition is_id_char :: "char \<Rightarrow> bool" where
  "is_id_char c \<longleftrightarrow> is_alnum c \<or> c \<in> {CHR ''.'', CHR ''_'', CHR '':'', CHR ''-''}"

text \<open>
  The pattern \<open>^[A-Za-z0-9][A-Za-z0-9._:-]{0,n}$\<close> (the argument is \<open>n\<close>) and the pattern
  \<open>^[a-f0-9]{64}$\<close> of the hexadecimal fingerprints.
\<close>

definition safe_id :: "nat \<Rightarrow> string \<Rightarrow> bool" where
  "safe_id n s \<longleftrightarrow>
     (case s of [] \<Rightarrow> False
      | c # cs \<Rightarrow> is_alnum c \<and> list_all is_id_char cs \<and> length cs \<le> n)"

definition is_fingerprint :: "string \<Rightarrow> bool" where
  "is_fingerprint s \<longleftrightarrow> length s = 64 \<and>
     list_all (\<lambda>c. is_digit c \<or> (let n = (of_char c :: nat) in 97 \<le> n \<and> n \<le> 102)) s"

lemmas id_patterns = safe_id_def is_fingerprint_def is_id_char_def is_alnum_def is_digit_def
  is_lower_def

section \<open>A machine with an invariant\<close>

text \<open>
  Most components are state machines driven by calls: one total step per call. The
  contract: the invariant holds initially and every call keeps it. The clients of the
  contract reason about whole runs.
\<close>

locale guarded_machine =
  fixes initial :: "'s \<Rightarrow> bool"
    and step :: "'s \<Rightarrow> 'e \<Rightarrow> 's"
    and inv :: "'s \<Rightarrow> bool"
  assumes initial_inv: "initial s \<Longrightarrow> inv s"
    and step_inv: "inv s \<Longrightarrow> inv (step s e)"
begin

lemma run_inv: "inv s \<Longrightarrow> inv (foldl step s es)"
  by (induction es arbitrary: s) (auto intro: step_inv)

lemma run_inv_from_initial: "initial s \<Longrightarrow> inv (foldl step s es)"
  by (simp add: initial_inv run_inv)

end

section \<open>Transition histories\<close>

record 's transition_entry =
  tr_from :: "'s option"
  tr_to :: 's
  tr_at :: utc_timestamp

fun chain :: "('s \<Rightarrow> 's list) \<Rightarrow> 's \<Rightarrow> 's transition_entry list \<Rightarrow> 's \<Rightarrow> bool" where
  "chain legal s [] t \<longleftrightarrow> s = t"
| "chain legal s (e # es) t \<longleftrightarrow>
     tr_from e = Some s \<and> tr_to e \<in> set (legal s) \<and> chain legal (tr_to e) es t"

fun history_ok :: "('s \<Rightarrow> 's list) \<Rightarrow> 's \<Rightarrow> 's transition_entry list \<Rightarrow> 's \<Rightarrow> bool" where
  "history_ok legal s0 [] s \<longleftrightarrow> False"
| "history_ok legal s0 (e # es) s \<longleftrightarrow> tr_from e = None \<and> tr_to e = s0 \<and> chain legal s0 es s"

lemma chain_snoc:
  "chain legal s es t \<Longrightarrow> tr_from e = Some t \<Longrightarrow> tr_to e \<in> set (legal t) \<Longrightarrow>
     chain legal s (es @ [e]) (tr_to e)"
  by (induction es arbitrary: s) auto

lemma history_ok_snoc:
  "history_ok legal s0 h s \<Longrightarrow> tr_from e = Some s \<Longrightarrow> tr_to e \<in> set (legal s) \<Longrightarrow>
     history_ok legal s0 (h @ [e]) (tr_to e)"
  by (cases h) (auto intro: chain_snoc)

text \<open>
  The contract of a table of legal transitions: every legal move raises a rank. From it:
  no state is visited twice, terminal states are final, and histories are short.
\<close>

locale lifecycle_table =
  fixes legal :: "'s \<Rightarrow> 's list"
    and rank :: "'s \<Rightarrow> nat"
    and top_rank :: nat
  assumes legal_rank: "t \<in> set (legal s) \<Longrightarrow> rank s < rank t"
    and rank_top: "rank s \<le> top_rank"
begin

lemma chain_rank: "chain legal s es t \<Longrightarrow> rank s + length es \<le> rank t"
  by (induction es arbitrary: s) (auto dest!: legal_rank, fastforce)

lemma history_length: "history_ok legal s0 h s \<Longrightarrow> length h \<le> Suc top_rank"
  using rank_top [of s] by (cases h) (auto dest!: chain_rank)

lemma chain_from_terminal: "chain legal s es t \<Longrightarrow> legal s = [] \<Longrightarrow> es = [] \<and> t = s"
  by (cases es) auto

lemma chain_ranks_above: "chain legal s es t \<Longrightarrow> e \<in> set es \<Longrightarrow> rank s < rank (tr_to e)"
  by (induction es arbitrary: s) (auto dest: legal_rank intro: less_trans)

lemma chain_visits_distinct: "chain legal s es t \<Longrightarrow> distinct (s # map tr_to es)"
proof (induction es arbitrary: s)
  case (Cons e es)
  have "rank s < rank (tr_to x)" if "x \<in> set (e # es)" for x
    using Cons.prems that by (rule chain_ranks_above)
  then have "s \<notin> set (map tr_to (e # es))" by force
  moreover have "distinct (tr_to e # map tr_to es)"
    using Cons by auto
  ultimately show ?case by simp
qed simp

lemma history_visits_distinct: "history_ok legal s0 h s \<Longrightarrow> distinct (map tr_to h)"
  by (cases h) (auto dest: chain_visits_distinct)

end

end
