(* ===== verification/CircuitBreaker.thy ===== *)
theory CircuitBreaker
  imports Prelude
begin

text \<open>
  The circuit breaker of \<open>packages/executor/src/circuit-breaker.ts\<close>: one entry per
  dependency key, created on first use. \<open>clock.nowMs()\<close> is the argument \<open>now\<close> of the
  operations that read the clock.
\<close>

section \<open>State and operations\<close>

datatype circuit_state = CB_CLOSED | CB_OPEN | CB_HALF_OPEN

record circuit_entry =
  ce_state :: circuit_state
  ce_failures :: nat
  ce_openedAt :: int
  ce_probeActive :: bool

datatype circuit_permit =
  Permit_denied
| Permit_allowed circuit_state

record circuit_breaker =
  cb_failureThreshold :: int
  cb_cooldownMs :: int
  cb_circuits :: "string \<rightharpoonup> circuit_entry"

record circuit_change =
  cc_previous :: circuit_state
  cc_current :: circuit_state

text \<open>The constructor; \<open>Inl ()\<close> is its \<open>TypeError\<close>. Absent options take the defaults.\<close>

definition new_circuit_breaker ::
  "int option \<Rightarrow> int option \<Rightarrow> (unit, circuit_breaker) result" where
  "new_circuit_breaker failureThreshold cooldownMs =
     (let threshold = (case failureThreshold of None \<Rightarrow> 5 | Some n \<Rightarrow> n);
          cooldown = (case cooldownMs of None \<Rightarrow> 20000 | Some n \<Rightarrow> n)
      in if \<not> is_safe_integer threshold \<or> threshold < 1 \<or>
            \<not> is_safe_integer cooldown \<or> cooldown < 1
         then Inl ()
         else Inr \<lparr>cb_failureThreshold = threshold, cb_cooldownMs = cooldown,
                   cb_circuits = Map.empty\<rparr>)"

definition fresh_entry :: circuit_entry where
  "fresh_entry = \<lparr>ce_state = CB_CLOSED, ce_failures = 0, ce_openedAt = 0, ce_probeActive = False\<rparr>"

definition cb_entry :: "circuit_breaker \<Rightarrow> string \<Rightarrow> circuit_entry" where
  "cb_entry cb key = (case cb_circuits cb key of None \<Rightarrow> fresh_entry | Some e \<Rightarrow> e)"

definition cb_put :: "circuit_breaker \<Rightarrow> string \<Rightarrow> circuit_entry \<Rightarrow> circuit_breaker" where
  "cb_put cb key e = cb\<lparr>cb_circuits := (cb_circuits cb)(key \<mapsto> e)\<rparr>"

definition cb_acquire ::
  "circuit_breaker \<Rightarrow> int \<Rightarrow> string \<Rightarrow> circuit_permit \<times> circuit_breaker" where
  "cb_acquire cb now key =
     (let entry = cb_entry cb key in
      if ce_state entry = CB_OPEN \<and> now - ce_openedAt entry < cb_cooldownMs cb
      then (Permit_denied, cb_put cb key entry)
      else let entry = (if ce_state entry = CB_OPEN
                        then entry\<lparr>ce_state := CB_HALF_OPEN, ce_probeActive := False\<rparr>
                        else entry)
           in if ce_state entry = CB_HALF_OPEN
              then if ce_probeActive entry
                   then (Permit_denied, cb_put cb key entry)
                   else (Permit_allowed CB_HALF_OPEN,
                         cb_put cb key (entry\<lparr>ce_probeActive := True\<rparr>))
              else (Permit_allowed CB_CLOSED, cb_put cb key entry))"

definition cb_succeeded ::
  "circuit_breaker \<Rightarrow> string \<Rightarrow> circuit_change \<times> circuit_breaker" where
  "cb_succeeded cb key =
     (let entry = cb_entry cb key;
          entry' = entry\<lparr>ce_state := CB_CLOSED, ce_failures := 0, ce_probeActive := False\<rparr>
      in (\<lparr>cc_previous = ce_state entry, cc_current = ce_state entry'\<rparr>, cb_put cb key entry'))"

definition cb_failed ::
  "circuit_breaker \<Rightarrow> int \<Rightarrow> string \<Rightarrow> circuit_change \<times> circuit_breaker" where
  "cb_failed cb now key =
     (let entry = cb_entry cb key;
          previous = ce_state entry;
          entry = entry\<lparr>ce_probeActive := False\<rparr>
      in if ce_state entry = CB_HALF_OPEN
         then let entry' = entry\<lparr>ce_state := CB_OPEN, ce_openedAt := now\<rparr>
              in (\<lparr>cc_previous = previous, cc_current = ce_state entry'\<rparr>, cb_put cb key entry')
         else let entry = entry\<lparr>ce_failures := Suc (ce_failures entry)\<rparr>;
                  entry' = (if int (ce_failures entry) \<ge> cb_failureThreshold cb
                            then entry\<lparr>ce_state := CB_OPEN, ce_openedAt := now\<rparr> else entry)
              in (\<lparr>cc_previous = previous, cc_current = ce_state entry'\<rparr>, cb_put cb key entry'))"

definition cb_state :: "circuit_breaker \<Rightarrow> string \<Rightarrow> circuit_state \<times> circuit_breaker" where
  "cb_state cb key = (ce_state (cb_entry cb key), cb_put cb key (cb_entry cb key))"

lemmas cb_ops = cb_acquire_def cb_succeeded_def cb_failed_def cb_state_def Let_def

section \<open>Frame facts\<close>

lemma cb_entry_put [simp]: "cb_entry (cb_put cb k e) k' = (if k' = k then e else cb_entry cb k')"
  by (simp add: cb_entry_def cb_put_def)

lemma cb_put_config [simp]:
  "cb_failureThreshold (cb_put cb k e) = cb_failureThreshold cb"
  "cb_cooldownMs (cb_put cb k e) = cb_cooldownMs cb"
  by (simp_all add: cb_put_def)

section \<open>Calls as events, and the invariant\<close>

datatype circuit_call =
  Call_acquire string int
| Call_succeeded string
| Call_failed string int
| Call_state string

fun cb_step :: "circuit_breaker \<Rightarrow> circuit_call \<Rightarrow> circuit_breaker" where
  "cb_step cb (Call_acquire key now) = snd (cb_acquire cb now key)"
| "cb_step cb (Call_succeeded key) = snd (cb_succeeded cb key)"
| "cb_step cb (Call_failed key now) = snd (cb_failed cb now key)"
| "cb_step cb (Call_state key) = snd (cb_state cb key)"

definition entry_ok :: "int \<Rightarrow> circuit_entry \<Rightarrow> bool" where
  "entry_ok threshold e \<longleftrightarrow>
     (ce_state e = CB_CLOSED \<longleftrightarrow> int (ce_failures e) < threshold) \<and>
     (ce_probeActive e \<longrightarrow> ce_state e = CB_HALF_OPEN)"

definition cb_inv :: "circuit_breaker \<Rightarrow> bool" where
  "cb_inv cb \<longleftrightarrow> 1 \<le> cb_failureThreshold cb \<and> 1 \<le> cb_cooldownMs cb \<and>
     (\<forall>key. entry_ok (cb_failureThreshold cb) (cb_entry cb key))"

definition cb_fresh :: "circuit_breaker \<Rightarrow> bool" where
  "cb_fresh cb \<longleftrightarrow> (\<exists>t c. new_circuit_breaker t c = Inr cb)"

lemma cb_inv_put:
  "cb_inv cb \<Longrightarrow> entry_ok (cb_failureThreshold cb) e \<Longrightarrow> cb_inv (cb_put cb key e)"
  by (simp add: cb_inv_def)

lemma cb_inv_entry: "cb_inv cb \<Longrightarrow> entry_ok (cb_failureThreshold cb) (cb_entry cb key)"
  by (simp add: cb_inv_def)

lemma cb_inv_fresh: "cb_fresh cb \<Longrightarrow> cb_inv cb"
  by (auto simp: cb_fresh_def new_circuit_breaker_def cb_inv_def cb_entry_def fresh_entry_def
      entry_ok_def Let_def split: if_splits)

lemma cb_inv_step: "cb_inv cb \<Longrightarrow> cb_inv (cb_step cb c)"
proof (cases c)
  case (Call_acquire key now)
  assume inv: "cb_inv cb"
  from cb_inv_entry [OF inv, of key] Call_acquire show ?thesis
    by (auto simp: cb_ops entry_ok_def intro!: cb_inv_put [OF inv])
next
  case (Call_succeeded key)
  assume inv: "cb_inv cb"
  with Call_succeeded show ?thesis
    by (auto simp: cb_ops entry_ok_def cb_inv_def)
next
  case (Call_failed key now)
  assume inv: "cb_inv cb"
  from cb_inv_entry [OF inv, of key] Call_failed show ?thesis
    by (auto simp: cb_ops entry_ok_def intro!: cb_inv_put [OF inv] split: if_splits)
next
  case (Call_state key)
  assume inv: "cb_inv cb"
  from cb_inv_entry [OF inv, of key] Call_state show ?thesis
    by (auto simp: cb_ops intro!: cb_inv_put [OF inv])
qed

interpretation cb: guarded_machine cb_fresh cb_step cb_inv
  by unfold_locales (auto intro: cb_inv_fresh cb_inv_step)

section \<open>What the breaker promises\<close>

fun reports_on :: "string \<Rightarrow> circuit_call \<Rightarrow> bool" where
  "reports_on key (Call_succeeded k) \<longleftrightarrow> k = key"
| "reports_on key (Call_failed k now) \<longleftrightarrow> k = key"
| "reports_on key c \<longleftrightarrow> False"

fun acquires_before :: "string \<Rightarrow> int \<Rightarrow> circuit_call \<Rightarrow> bool" where
  "acquires_before key limit (Call_acquire k now) \<longleftrightarrow> k \<noteq> key \<or> now < limit"
| "acquires_before key limit c \<longleftrightarrow> True"

lemma cb_step_config [simp]:
  "cb_failureThreshold (cb_step cb c) = cb_failureThreshold cb"
  "cb_cooldownMs (cb_step cb c) = cb_cooldownMs cb"
  by (cases c; simp add: cb_ops)+

lemma cb_run_config [simp]:
  "cb_failureThreshold (foldl cb_step cb cs) = cb_failureThreshold cb"
  "cb_cooldownMs (foldl cb_step cb cs) = cb_cooldownMs cb"
  by (induction cs arbitrary: cb) simp_all

definition probing :: "circuit_breaker \<Rightarrow> string \<Rightarrow> bool" where
  "probing cb key \<longleftrightarrow>
     ce_state (cb_entry cb key) = CB_HALF_OPEN \<and> ce_probeActive (cb_entry cb key)"

lemma probing_step: "probing cb key \<Longrightarrow> \<not> reports_on key c \<Longrightarrow> probing (cb_step cb c) key"
  by (cases c) (auto simp: probing_def cb_ops)

lemma probing_run:
  "probing cb key \<Longrightarrow> list_all (\<lambda>c. \<not> reports_on key c) cs \<Longrightarrow> probing (foldl cb_step cb cs) key"
  by (induction cs arbitrary: cb) (auto intro: probing_step)

lemma probing_denied: "probing cb key \<Longrightarrow> fst (cb_acquire cb now key) = Permit_denied"
  by (simp add: probing_def cb_ops)

lemma acquire_half_open_probing:
  "cb_acquire cb now key = (Permit_allowed CB_HALF_OPEN, cb') \<Longrightarrow> probing cb' key"
  by (auto simp: probing_def cb_ops split: if_splits)

text \<open>
  C3. A half-open circuit admits one probe at a time: once a call got the half-open permit,
  every further acquire of the key is denied, at any time and whatever happens on other keys,
  until a success or a failure is reported for the key.
\<close>

theorem half_open_single_probe:
  assumes "cb_acquire cb now key = (Permit_allowed CB_HALF_OPEN, cb')"
    and "list_all (\<lambda>c. \<not> reports_on key c) calls"
  shows "fst (cb_acquire (foldl cb_step cb' calls) later key) = Permit_denied"
  using assms by (blast intro: probing_denied probing_run acquire_half_open_probing)

definition tripped :: "circuit_breaker" where
  "tripped = cb_put \<lparr>cb_failureThreshold = 1, cb_cooldownMs = 10, cb_circuits = Map.empty\<rparr> ''k''
     \<lparr>ce_state = CB_OPEN, ce_failures = 1, ce_openedAt = 100, ce_probeActive = False\<rparr>"

theorem half_open_single_probe_witness:
  "fst (cb_acquire (foldl cb_step (snd (cb_acquire tripped 110 ''k''))
      [Call_acquire ''k'' 500, Call_failed ''other'' 501]) 600 ''k'') = Permit_denied"
  by (rule half_open_single_probe [where cb = tripped and now = 110])
    (simp_all add: cb_ops tripped_def)

definition open_since :: "circuit_breaker \<Rightarrow> string \<Rightarrow> int \<Rightarrow> bool" where
  "open_since cb key t \<longleftrightarrow>
     ce_state (cb_entry cb key) = CB_OPEN \<and> ce_openedAt (cb_entry cb key) = t"

lemma open_since_step:
  "open_since cb key t \<Longrightarrow> \<not> reports_on key c \<Longrightarrow> acquires_before key (t + cb_cooldownMs cb) c \<Longrightarrow>
     open_since (cb_step cb c) key t"
  by (cases c) (auto simp: open_since_def cb_ops)

lemma open_since_run:
  "open_since cb key t \<Longrightarrow>
   list_all (\<lambda>c. \<not> reports_on key c \<and> acquires_before key (t + cb_cooldownMs cb) c) cs \<Longrightarrow>
   open_since (foldl cb_step cb cs) key t"
proof (induction cs arbitrary: cb)
  case (Cons c cs)
  then have "open_since (cb_step cb c) key t" by (simp add: open_since_step)
  then show ?case using Cons.IH [of "cb_step cb c"] Cons.prems by simp
qed simp

lemma open_since_denied:
  "open_since cb key t \<Longrightarrow> now < t + cb_cooldownMs cb \<Longrightarrow>
     fst (cb_acquire cb now key) = Permit_denied"
  by (simp add: open_since_def cb_ops)

text \<open>
  In a breaker that came from its constructor, a failure report that leaves the circuit open shuts the dependency off for the whole
  cooldown: every acquire of the key before the cooldown ends is denied, through any sequence
  of earlier acquires and of reports on other keys.
\<close>

theorem open_circuit_refuses_until_cooldown:
  assumes "cb_fresh cb0" and "cb = foldl cb_step cb0 history"
    and "cb_failed cb now key = (change, cb')" and "cc_current change = CB_OPEN"
    and "list_all (\<lambda>c. \<not> reports_on key c \<and> acquires_before key (now + cb_cooldownMs cb) c) calls"
    and "later < now + cb_cooldownMs cb"
  shows "fst (cb_acquire (foldl cb_step cb' calls) later key) = Permit_denied"
proof -
  from assms(1,2) have "cb_inv cb" by (simp add: cb.run_inv_from_initial)
  from cb_inv_entry [OF this, of key] assms(3,4)
  have "open_since cb' key now" and config: "cb_cooldownMs cb' = cb_cooldownMs cb"
    by (auto simp: open_since_def cb_ops entry_ok_def split: if_splits)
  with assms(5) have "open_since (foldl cb_step cb' calls) key now"
    by (simp add: open_since_run)
  with assms(6) config show ?thesis by (simp add: open_since_denied)
qed

definition small_breaker :: circuit_breaker where
  "small_breaker = \<lparr>cb_failureThreshold = 1, cb_cooldownMs = 10, cb_circuits = Map.empty\<rparr>"

lemma small_breaker_fresh: "cb_fresh small_breaker"
  unfolding cb_fresh_def
  by (rule exI [of _ "Some 1"], rule exI [of _ "Some 10"])
    (simp add: small_breaker_def new_circuit_breaker_def is_safe_integer_def MAX_SAFE_INTEGER_def)

theorem open_circuit_refuses_until_cooldown_witness:
  "fst (cb_acquire (foldl cb_step (snd (cb_failed small_breaker 105 ''k''))
      [Call_acquire ''k'' 108, Call_succeeded ''other'']) 114 ''k'') = Permit_denied"
  by (rule open_circuit_refuses_until_cooldown
      [where cb = small_breaker and now = 105 and history = "[]"
         and change = "fst (cb_failed small_breaker 105 ''k'')", OF small_breaker_fresh])
    (simp_all add: cb_ops small_breaker_def cb_entry_def fresh_entry_def)

lemma closed_failures_run:
  "ce_state (cb_entry cb key) = CB_CLOSED \<Longrightarrow>
   int (ce_failures (cb_entry cb key)) < cb_failureThreshold cb \<Longrightarrow>
   ce_state (cb_entry (foldl cb_step cb (map (Call_failed key) ts)) key) =
     (if cb_failureThreshold cb \<le> int (ce_failures (cb_entry cb key) + length ts)
      then CB_OPEN else CB_CLOSED)"
proof (induction ts arbitrary: cb rule: list.induct)
  case (Cons now ts)
  show ?case
  proof (cases "cb_failureThreshold cb \<le> int (Suc (ce_failures (cb_entry cb key)))")
    case True
    have stays: "ce_state (cb_entry (foldl cb_step c (map (Call_failed key) ns)) key) = CB_OPEN"
      if "ce_state (cb_entry c key) = CB_OPEN" and
         "cb_failureThreshold c \<le> int (Suc (ce_failures (cb_entry c key)))" for c ns
      using that by (induction ns arbitrary: c) (auto simp: cb_ops)
    from True Cons.prems(1) show ?thesis
      by (simp del: cb_step.simps)
        (rule stays; auto simp: cb_ops)
  next
    case False
    then show ?thesis using Cons.prems Cons.IH [of "cb_step cb (Call_failed key now)"]
      by (simp add: cb_ops)
  qed
qed simp

text \<open>
  A new breaker opens a circuit at exactly the configured number of consecutive failures:
  after any number of failure reports on a key and nothing else, the circuit is open if and
  only if that number reached the threshold.
\<close>

theorem circuit_opens_at_threshold:
  assumes "new_circuit_breaker threshold cooldown = Inr cb"
  shows "ce_state (cb_entry (foldl cb_step cb (map (Call_failed key) ts)) key) =
     (if cb_failureThreshold cb \<le> int (length ts) then CB_OPEN else CB_CLOSED)"
proof -
  from assms have "cb_fresh cb" by (auto simp: cb_fresh_def)
  then have "cb_inv cb" by (rule cb_inv_fresh)
  moreover from assms have "cb_entry cb key = fresh_entry"
    by (auto simp: new_circuit_breaker_def cb_entry_def Let_def split: if_splits)
  ultimately show ?thesis
    using closed_failures_run [of cb key ts] by (simp add: fresh_entry_def cb_inv_def)
qed

theorem circuit_opens_at_threshold_witness:
  "ce_state (cb_entry (foldl cb_step
      \<lparr>cb_failureThreshold = 2, cb_cooldownMs = 20000, cb_circuits = Map.empty\<rparr>
      (map (Call_failed ''weather'') [10, 20])) ''weather'') = CB_OPEN"
  using circuit_opens_at_threshold [of "Some 2" None
      "\<lparr>cb_failureThreshold = 2, cb_cooldownMs = 20000, cb_circuits = Map.empty\<rparr>"
      "''weather''" "[10, 20]"]
  by (simp add: new_circuit_breaker_def is_safe_integer_def MAX_SAFE_INTEGER_def)

end
