(* ===== verification/Canonical.thy ===== *)
theory Canonical
  imports Prelude "HOL-Library.List_Lexorder" "HOL-Library.Char_ord"
begin

text \<open>
  JavaScript data values and their canonical serialization,
  \<open>packages/action-lifecycle/src/canonical.ts\<close>, with the error codes of
  \<open>packages/action-lifecycle/src/errors.ts\<close>. That a serialization tells a value apart from every
  other one is shown in \<open>CanonicalBinding\<close>.
\<close>

section \<open>JavaScript values\<close>

text \<open>
  A finite nonzero number is given the way \<open>Number::toString\<close> of the language describes
  it: a sign, the shortest list of significant digits and the position of the decimal point
  (value \<open>0.d1 d2 \<dots> * 10^n\<close>). Strings are lists of code units; the model has the code units
  up to 255. A \<open>J_non_json\<close> is \<open>undefined\<close>, a function, a symbol or a bigint; \<open>J_exotic\<close>
  an object whose prototype is not the plain one, or with symbol keys; \<open>J_bad_array\<close> a sparse
  array or one with extra properties; \<open>J_backref\<close> an object that is its own ancestor.
\<close>

datatype js_number =
  Js_NaN
| Js_infinity bool
| Js_zero bool
| Js_finite bool "nat list" int

datatype json =
  J_null
| J_bool bool
| J_num js_number
| J_str string
| J_arr "json list"
| J_obj "(string \<times> json) list"
| J_non_json
| J_exotic
| J_bad_array
| J_backref

definition number_ok :: "js_number \<Rightarrow> bool" where
  "number_ok x = (case x of
     Js_finite neg ds n \<Rightarrow> ds \<noteq> [] \<and> hd ds \<noteq> 0 \<and> last ds \<noteq> 0 \<and> list_all (\<lambda>d. d < 10) ds
   | _ \<Rightarrow> True)"

text \<open>Objects of the language have one value per key.\<close>

primrec json_ok :: "json \<Rightarrow> bool" where
  "json_ok J_null = True"
| "json_ok (J_bool b) = True"
| "json_ok (J_num x) = number_ok x"
| "json_ok (J_str s) = True"
| "json_ok (J_arr vs) = list_all id (map json_ok vs)"
| "json_ok (J_obj kvs) = (distinct (map fst kvs) \<and> list_all snd (map (map_prod id json_ok) kvs))"
| "json_ok J_non_json = True"
| "json_ok J_exotic = True"
| "json_ok J_bad_array = True"
| "json_ok J_backref = True"

section \<open>Printing numbers and strings: \<open>JSON.stringify\<close> on primitives\<close>

definition digit_char :: "nat \<Rightarrow> char" where
  "digit_char d = char_of (48 + d)"

fun nat_digits :: "nat \<Rightarrow> nat list" where
  "nat_digits n = (if n < 10 then [n] else nat_digits (n div 10) @ [n mod 10])"

declare nat_digits.simps [simp del]

definition nat_string :: "nat \<Rightarrow> string" where
  "nat_string n = map digit_char (nat_digits n)"

definition finite_string :: "nat list \<Rightarrow> int \<Rightarrow> string" where
  "finite_string ds n =
     (let k = int (length ds); s = map digit_char ds in
      if k \<le> n \<and> n \<le> 21 then s @ replicate (nat (n - k)) (CHR ''0'')
      else if 0 < n \<and> n \<le> 21 then take (nat n) s @ ''.'' @ drop (nat n) s
      else if -6 < n \<and> n \<le> 0 then ''0.'' @ replicate (nat (- n)) (CHR ''0'') @ s
      else take 1 s @ (if k = 1 then [] else ''.'' @ drop 1 s) @ ''e'' @
           (if n - 1 < 0 then ''-'' else ''+'') @ nat_string (nat \<bar>n - 1\<bar>))"

text \<open>The number case of \<open>canonicalValue\<close>: not finite is an error, negative zero prints as zero.\<close>

fun canonical_number :: "js_number \<Rightarrow> string option" where
  "canonical_number Js_NaN = None"
| "canonical_number (Js_infinity neg) = None"
| "canonical_number (Js_zero neg) = Some ''0''"
| "canonical_number (Js_finite neg ds n) =
     Some ((if neg then ''-'' else []) @ finite_string ds n)"

definition hex_digit :: "nat \<Rightarrow> char" where
  "hex_digit d = (if d < 10 then char_of (48 + d) else char_of (87 + d))"

definition escape_char :: "char \<Rightarrow> string" where
  "escape_char c =
     (if c = CHR 0x22 then [CHR 0x5C, CHR 0x22]
      else if c = CHR 0x5C then [CHR 0x5C, CHR 0x5C]
      else if c = CHR 0x08 then [CHR 0x5C, CHR ''b'']
      else if c = CHR 0x0C then [CHR 0x5C, CHR ''f'']
      else if c = CHR 0x0A then [CHR 0x5C, CHR ''n'']
      else if c = CHR 0x0D then [CHR 0x5C, CHR ''r'']
      else if c = CHR 0x09 then [CHR 0x5C, CHR ''t'']
      else if (of_char c :: nat) < 32
           then [CHR 0x5C, CHR ''u'', CHR ''0'', CHR ''0'',
                 hex_digit (of_char c div 16), hex_digit (of_char c mod 16)]
      else [c])"

definition quote_string :: "string \<Rightarrow> string" where
  "quote_string s = CHR 0x22 # concat (map escape_char s) @ [CHR 0x22]"

section \<open>Canonical serialization\<close>

datatype action_error_code =
  AE_INVALID_COMMAND
| AE_ACTION_NOT_FOUND
| AE_INVALID_TRANSITION
| AE_INVALID_STATE
| AE_CONFIRMATION_TOKEN_INVALID
| AE_CONFIRMATION_EXPIRED
| AE_CONFIRMATION_IDENTITY_MISMATCH
| AE_ACTION_INTEGRITY_FAILED
| AE_REVALIDATION_FAILED
| AE_AUTHORIZATION_ALREADY_ISSUED
| AE_AUTHORIZATION_EXPIRED
| AE_AUTHORIZATION_ALREADY_USED
| AE_AUTHORIZATION_MISMATCH
| AE_INTERNAL_ERROR

fun join_comma :: "string list \<Rightarrow> string" where
  "join_comma [] = []"
| "join_comma [x] = x"
| "join_comma (x # y # zs) = x @ '','' @ join_comma (y # zs)"

fun all_some :: "'a option list \<Rightarrow> 'a list option" where
  "all_some [] = Some []"
| "all_some (None # xs) = None"
| "all_some (Some x # xs) = map_option (Cons x) (all_some xs)"

definition canonical_array :: "string option list \<Rightarrow> string option" where
  "canonical_array parts = map_option (\<lambda>ps. ''['' @ join_comma ps @ '']'') (all_some parts)"

definition canonical_member :: "string \<times> string option \<Rightarrow> string option" where
  "canonical_member kv = map_option (\<lambda>v. quote_string (fst kv) @ '':'' @ v) (snd kv)"

definition canonical_object :: "(string \<times> string option) list \<Rightarrow> string option" where
  "canonical_object kvs =
     map_option (\<lambda>ps. ''{'' @ join_comma ps @ ''}'')
       (all_some (map canonical_member (sort_key fst kvs)))"

primrec canonical_value :: "json \<Rightarrow> string option" where
  "canonical_value J_null = Some ''null''"
| "canonical_value (J_bool b) = Some (if b then ''true'' else ''false'')"
| "canonical_value (J_num x) = canonical_number x"
| "canonical_value (J_str s) = Some (quote_string s)"
| "canonical_value (J_arr vs) = canonical_array (map canonical_value vs)"
| "canonical_value (J_obj kvs) = canonical_object (map (map_prod id canonical_value) kvs)"
| "canonical_value J_non_json = None"
| "canonical_value J_exotic = None"
| "canonical_value J_bad_array = None"
| "canonical_value J_backref = None"

text \<open>Every error of \<open>canonicalValue\<close> carries the code \<open>INVALID_COMMAND\<close>.\<close>

definition canonicalSerialize :: "json \<Rightarrow> (action_error_code, string) result" where
  "canonicalSerialize v =
     (case canonical_value v of None \<Rightarrow> Inl AE_INVALID_COMMAND | Some s \<Rightarrow> Inr s)"

text \<open>
  \<open>createHash("sha256").update(_, "utf8").digest("hex")\<close> is the parameter \<open>sha\<close>: the hash
  is a library of the platform, not of the repository.
\<close>

definition js_nat :: "int \<Rightarrow> json" where
  "js_nat n =
     (if n = 0 then J_num (Js_zero False)
      else let ds = nat_digits (nat \<bar>n\<bar>)
           in J_num (Js_finite (n < 0) (rev (dropWhile (\<lambda>d. d = 0) (rev ds))) (int (length ds))))"

record fingerprint_input =
  fi_toolName :: string
  fi_validatedArguments :: json
  fi_sessionId :: string
  fi_userId :: string
  fi_vehicleId :: string
  fi_contextSnapshotId :: string
  fi_contextVersion :: int

definition fingerprint_object :: "fingerprint_input \<Rightarrow> json" where
  "fingerprint_object i = J_obj
     [(''toolName'', J_str (fi_toolName i)),
      (''validatedArguments'', fi_validatedArguments i),
      (''sessionId'', J_str (fi_sessionId i)),
      (''userId'', J_str (fi_userId i)),
      (''vehicleId'', J_str (fi_vehicleId i)),
      (''contextSnapshotId'', J_str (fi_contextSnapshotId i)),
      (''contextVersion'', js_nat (fi_contextVersion i))]"

definition createActionFingerprint ::
  "(string \<Rightarrow> string) \<Rightarrow> fingerprint_input \<Rightarrow> (action_error_code, string) result" where
  "createActionFingerprint sha i =
     (case canonicalSerialize (fingerprint_object i) of
        Inl e \<Rightarrow> Inl e
      | Inr s \<Rightarrow> Inr (sha s))"

text \<open>
  Deep equality of data (\<open>isDeepStrictEqual\<close> of \<open>node:util\<close>, and equality up to key order):
  compare with the keys of every object sorted.
\<close>

primrec json_norm :: "json \<Rightarrow> json" where
  "json_norm J_null = J_null"
| "json_norm (J_bool b) = J_bool b"
| "json_norm (J_num x) = J_num x"
| "json_norm (J_str s) = J_str s"
| "json_norm (J_arr vs) = J_arr (map json_norm vs)"
| "json_norm (J_obj kvs) = J_obj (sort_key fst (map (map_prod id json_norm) kvs))"
| "json_norm J_non_json = J_non_json"
| "json_norm J_exotic = J_exotic"
| "json_norm J_bad_array = J_bad_array"
| "json_norm J_backref = J_backref"

definition deep_strict_equal :: "json \<Rightarrow> json \<Rightarrow> bool" where
  "deep_strict_equal v w \<longleftrightarrow> json_norm v = json_norm w"

lemma deep_strict_equal_refl [simp]: "deep_strict_equal v v"
  by (simp add: deep_strict_equal_def)

lemma deep_strict_equal_sym: "deep_strict_equal v w \<Longrightarrow> deep_strict_equal w v"
  by (simp add: deep_strict_equal_def)

lemma deep_strict_equal_trans:
  "deep_strict_equal u v \<Longrightarrow> deep_strict_equal v w \<Longrightarrow> deep_strict_equal u w"
  by (simp add: deep_strict_equal_def)

section \<open>Decimal printing\<close>

definition digits_value :: "nat list \<Rightarrow> nat" where
  "digits_value ds = foldl (\<lambda>a d. 10 * a + d) 0 ds"

lemma digits_value_snoc [simp]: "digits_value (ds @ [d]) = 10 * digits_value ds + d"
  by (simp add: digits_value_def)

lemma digits_value_nat_digits [simp]: "digits_value (nat_digits n) = n"
proof (induction n rule: nat_digits.induct)
  case (1 n)
  show ?case
  proof (cases "n < 10")
    case True
    then show ?thesis by (simp add: nat_digits.simps [of n] digits_value_def)
  next
    case False
    with 1 have "digits_value (nat_digits (n div 10)) = n div 10" by simp
    with False show ?thesis by (simp add: nat_digits.simps [of n])
  qed
qed

lemma nat_digits_less: "d \<in> set (nat_digits n) \<Longrightarrow> d < 10"
proof (induction n rule: nat_digits.induct)
  case (1 n)
  then show ?case by (cases "n < 10") (auto simp: nat_digits.simps [of n])
qed

definition char_digit :: "char \<Rightarrow> nat" where
  "char_digit c = of_char c - 48"

lemma char_digit_digit_char [simp]: "d < 10 \<Longrightarrow> char_digit (digit_char d) = d"
  by (simp add: char_digit_def digit_char_def)

lemma digits_of_string [simp]:
  "\<forall>d \<in> set ds. d < 10 \<Longrightarrow> map char_digit (map digit_char ds) = ds"
  by (induction ds) auto

lemma value_nat_string [simp]: "digits_value (map char_digit (nat_string n)) = n"
  using nat_digits_less [of _ n] by (simp add: nat_string_def del: map_map)

lemma nat_string_inject [simp]: "nat_string m = nat_string n \<longleftrightarrow> m = n"
  by (metis value_nat_string)

end
