(* ===== verification/Tools.thy ===== *)
theory Tools
  imports Canonical
begin

text \<open>
  The tool contracts of \<open>packages/tools/src\<close> (\<open>contracts.ts\<close>, \<open>registry.ts\<close>, the definitions
  and the execution wrapper of \<open>definitions.ts\<close>) and the availability model of
  \<open>packages/capabilities/src\<close>. The schema library and the dependencies behind the handlers are
  parameters.
\<close>

section \<open>Names, levels and errors\<close>

datatype risk_level = R0 | R1 | R2 | R3

definition TOOL_RISK_LEVELS :: "risk_level list" where
  "TOOL_RISK_LEVELS = [R0, R1, R2, R3]"

definition FORBIDDEN_TOOL_NAMES :: "string list" where
  "FORBIDDEN_TOOL_NAMES =
     [''apply_brake'', ''control_steering'', ''set_throttle'', ''disable_aeb'', ''disable_esc'']"

definition FORMAL_TOOL_NAMES :: "string list" where
  "FORMAL_TOOL_NAMES =
     [''get_vehicle_state'', ''get_trip_state'', ''get_weather'', ''search_charging_stations'',
      ''get_charging_status'', ''set_cabin_temperature'', ''set_seat_heating'',
      ''set_media_volume'', ''set_navigation_destination'', ''reroute_to_charger'',
      ''reserve_charging_slot'', ''cancel_charging_reservation'',
      ''request_roadside_assistance'', ''request_emergency_support'']"

datatype idempotency_hint = READ_ONLY | IDEMPOTENT | NON_IDEMPOTENT

datatype audit_level = AUDIT_BASIC | AUDIT_STANDARD | AUDIT_HIGH

datatype tool_error_code =
  TE_TOOL_VALIDATION_ERROR
| TE_CAPABILITY_UNAVAILABLE
| TE_DEPENDENCY_UNAVAILABLE
| TE_DEPENDENCY_TIMEOUT
| TE_DEPENDENCY_RESPONSE_INVALID
| TE_RESOURCE_NOT_FOUND
| TE_CONFLICT

datatype failure_type =
  FT_TIMEOUT
| FT_HTTP_503
| FT_CONNECTION_ABORT
| FT_DEFINITE_FAILURE
| FT_AMBIGUOUS_SIDE_EFFECT
| FT_DUPLICATE_REQUEST

record tool_error =
  te_code :: tool_error_code
  te_toolName :: string
  te_failureType :: "failure_type option"

datatype registry_error =
  RE_DUPLICATE_TOOL
| RE_FORBIDDEN_TOOL
| RE_INVALID_TOOL_DEFINITION
| RE_REGISTRY_SEALED

section \<open>Capabilities and services\<close>

definition CAPABILITY_NAMES :: "string list" where
  "CAPABILITY_NAMES =
     [''navigation'', ''charging'', ''cabinTemperature'', ''seatHeating'', ''media'',
      ''roadsideAssistance'']"

definition SERVICE_NAMES :: "string list" where
  "SERVICE_NAMES = [''vehicleSimulator'', ''weather'', ''emergencySupport'']"

text \<open>The value of each capability and service flag, by name.\<close>

record resolution_context =
  rc_capabilities :: "(string \<times> bool) list"
  rc_services :: "(string \<times> bool) list"

text \<open>
  \<open>CapabilityResolutionContextSchema\<close>: exactly the named boolean fields, no others.
  \<open>context.capabilities[name]\<close> of an absent name is \<open>undefined\<close>, which is falsy.
\<close>

definition exact_fields :: "string list \<Rightarrow> (string \<times> 'a) list \<Rightarrow> bool" where
  "exact_fields names entries \<longleftrightarrow>
     distinct (map fst entries) \<and> length entries = length names \<and>
     list_all (\<lambda>n. n \<in> set (map fst entries)) names"

definition resolution_context_ok :: "resolution_context \<Rightarrow> bool" where
  "resolution_context_ok ctx \<longleftrightarrow>
     exact_fields CAPABILITY_NAMES (rc_capabilities ctx) \<and>
     exact_fields SERVICE_NAMES (rc_services ctx)"

definition flag :: "(string \<times> bool) list \<Rightarrow> string \<Rightarrow> bool" where
  "flag entries name \<longleftrightarrow> map_of entries name = Some True"

definition parseCapabilityResolutionContext ::
  "resolution_context option \<Rightarrow> (unit, resolution_context) result" where
  "parseCapabilityResolutionContext input =
     (case input of
        None \<Rightarrow> Inl ()
      | Some ctx \<Rightarrow> if resolution_context_ok ctx then Inr ctx else Inl ())"

definition requirementsAreAvailable ::
  "string list \<Rightarrow> string list \<Rightarrow> resolution_context \<Rightarrow> bool" where
  "requirementsAreAvailable requiredCapabilities requiredServices ctx \<longleftrightarrow>
     list_all (flag (rc_capabilities ctx)) requiredCapabilities \<and>
     list_all (flag (rc_services ctx)) requiredServices"

section \<open>Tool definitions\<close>

text \<open>
  \<open>td_ref\<close> is the identity of the definition object (\<open>===\<close>); \<open>td_input_ok\<close> is the compiled
  input schema's \<open>Check\<close>, \<open>td_schemas_compile\<close> whether both schemas compile,
  \<open>td_has_execute\<close> whether the handler is a function.
\<close>

record tool_definition =
  td_ref :: nat
  td_name :: string
  td_label :: string
  td_description :: string
  td_riskLevel :: risk_level
  td_sideEffect :: bool
  td_timeoutHintMs :: int
  td_idempotencyHint :: idempotency_hint
  td_auditLevel :: audit_level
  td_requiredCapabilities :: "string list"
  td_requiredServices :: "string list"
  td_input_ok :: "json \<Rightarrow> bool"
  td_schemas_compile :: bool
  td_has_execute :: bool

text \<open>\<open>execute\<close> of \<open>defineTool\<close>: validate, clone, call the handler, validate, clone.\<close>

datatype handler_outcome =
  Handler_returns json
| Handler_throws_tool_error tool_error
| Handler_throws_other

definition tool_execute ::
  "tool_definition \<Rightarrow> (json \<Rightarrow> bool) \<Rightarrow> (json \<Rightarrow> bool) \<Rightarrow> (json \<Rightarrow> handler_outcome) \<Rightarrow> json
     \<Rightarrow> (tool_error, json) result" where
  "tool_execute d output_ok cloneable handler input =
     (let fail = (\<lambda>code. Inl \<lparr>te_code = code, te_toolName = td_name d, te_failureType = None\<rparr>) in
      if \<not> td_input_ok d input then fail TE_TOOL_VALIDATION_ERROR
      else if \<not> cloneable input then fail TE_TOOL_VALIDATION_ERROR
      else case handler input of
        Handler_throws_tool_error e \<Rightarrow> Inl e
      | Handler_throws_other \<Rightarrow> fail TE_DEPENDENCY_UNAVAILABLE
      | Handler_returns output \<Rightarrow>
          if \<not> output_ok output then fail TE_DEPENDENCY_RESPONSE_INVALID
          else if \<not> cloneable output then fail TE_DEPENDENCY_RESPONSE_INVALID
          else Inr output)"

section \<open>The formal tools\<close>

definition formal_tool ::
  "(string \<Rightarrow> json \<Rightarrow> bool) \<Rightarrow> nat \<Rightarrow> string \<Rightarrow> string \<Rightarrow> string \<Rightarrow> risk_level \<Rightarrow> string list
     \<Rightarrow> string list \<Rightarrow> bool \<Rightarrow> int \<Rightarrow> idempotency_hint \<Rightarrow> audit_level \<Rightarrow> tool_definition" where
  "formal_tool schemas ref name label description risk caps services effect timeout hint audit =
     \<lparr>td_ref = ref, td_name = name, td_label = label, td_description = description,
      td_riskLevel = risk, td_sideEffect = effect, td_timeoutHintMs = timeout,
      td_idempotencyHint = hint, td_auditLevel = audit, td_requiredCapabilities = caps,
      td_requiredServices = services, td_input_ok = schemas name, td_schemas_compile = True,
      td_has_execute = True\<rparr>"

definition createFormalToolDefinitions :: "(string \<Rightarrow> json \<Rightarrow> bool) \<Rightarrow> tool_definition list" where
  "createFormalToolDefinitions schemas =
     [formal_tool schemas 0 ''get_vehicle_state'' ''Get vehicle state''
        ''Read the current validated vehicle state.''
        R0 [] [''vehicleSimulator''] False 1000 READ_ONLY AUDIT_BASIC,
      formal_tool schemas 1 ''get_trip_state'' ''Get trip state''
        ''Read the current validated navigation and trip state.''
        R0 [''navigation''] [''vehicleSimulator''] False 1000 READ_ONLY AUDIT_BASIC,
      formal_tool schemas 2 ''get_weather'' ''Get weather''
        ''Read deterministic development weather data.''
        R0 [] [''weather''] False 1000 READ_ONLY AUDIT_BASIC,
      formal_tool schemas 3 ''search_charging_stations'' ''Search charging stations''
        ''List charging stations exposed by the simulator.''
        R0 [''charging''] [''vehicleSimulator''] False 1000 READ_ONLY AUDIT_BASIC,
      formal_tool schemas 4 ''get_charging_status'' ''Get charging status''
        ''Read charging state and active reservations.''
        R0 [''charging''] [''vehicleSimulator''] False 1000 READ_ONLY AUDIT_BASIC,
      formal_tool schemas 5 ''set_cabin_temperature'' ''Set cabin temperature''
        ''Set the cabin temperature within the validated demo range.''
        R1 [''cabinTemperature''] [''vehicleSimulator''] True 2000 NON_IDEMPOTENT AUDIT_STANDARD,
      formal_tool schemas 6 ''set_seat_heating'' ''Set seat heating''
        ''Set a supported seat-heating level.''
        R1 [''seatHeating''] [''vehicleSimulator''] True 2000 NON_IDEMPOTENT AUDIT_STANDARD,
      formal_tool schemas 7 ''set_media_volume'' ''Set media volume''
        ''Set the cabin media volume.''
        R1 [''media''] [''vehicleSimulator''] True 2000 NON_IDEMPOTENT AUDIT_STANDARD,
      formal_tool schemas 8 ''set_navigation_destination'' ''Set navigation destination''
        ''Set a new navigation destination.''
        R2 [''navigation''] [''vehicleSimulator''] True 3000 NON_IDEMPOTENT AUDIT_HIGH,
      formal_tool schemas 9 ''reroute_to_charger'' ''Reroute to charger''
        ''Set navigation to a selected available charging station.''
        R2 [''navigation'', ''charging''] [''vehicleSimulator''] True 3000 NON_IDEMPOTENT AUDIT_HIGH,
      formal_tool schemas 10 ''reserve_charging_slot'' ''Reserve charging slot''
        ''Create a charging reservation for a station.''
        R2 [''charging''] [''vehicleSimulator''] True 3000 IDEMPOTENT AUDIT_HIGH,
      formal_tool schemas 11 ''cancel_charging_reservation'' ''Cancel charging reservation''
        ''Cancel an existing charging reservation.''
        R2 [''charging''] [''vehicleSimulator''] True 3000 NON_IDEMPOTENT AUDIT_HIGH,
      formal_tool schemas 12 ''request_roadside_assistance'' ''Request roadside assistance''
        ''Request deterministic simulator roadside support.''
        R3 [''roadsideAssistance''] [''vehicleSimulator''] True 5000 NON_IDEMPOTENT AUDIT_HIGH,
      formal_tool schemas 13 ''request_emergency_support'' ''Request emergency support''
        ''Request deterministic development emergency support; not a live service.''
        R3 [''roadsideAssistance''] [''emergencySupport''] True 5000 NON_IDEMPOTENT AUDIT_HIGH]"

section \<open>The registry\<close>

record tool_registry =
  tr_definitions :: "(string \<times> tool_definition) list"
  tr_sealed :: bool

definition new_registry :: tool_registry where
  "new_registry = \<lparr>tr_definitions = [], tr_sealed = False\<rparr>"

text \<open>The name pattern \<open>^[a-z][a-z0-9]*(?:_[a-z0-9]+)*$\<close>, as a scan.\<close>

fun snake_tail :: "string \<Rightarrow> bool" where
  "snake_tail [] = True"
| "snake_tail [c] = (is_lower c \<or> is_digit c)"
| "snake_tail (c # d # cs) =
     (if c = CHR ''_'' then (is_lower d \<or> is_digit d) \<and> snake_tail cs
      else (is_lower c \<or> is_digit c) \<and> snake_tail (d # cs))"

definition snake_case :: "string \<Rightarrow> bool" where
  "snake_case s \<longleftrightarrow> (case s of [] \<Rightarrow> False | c # cs \<Rightarrow> is_lower c \<and> snake_tail cs)"

definition blank :: "string \<Rightarrow> bool" where
  "blank s \<longleftrightarrow> list_all (\<lambda>c. (of_char c :: nat) \<in> {9, 10, 11, 12, 13, 32, 160}) s"

definition names_ok :: "string list \<Rightarrow> string list \<Rightarrow> bool" where
  "names_ok values known \<longleftrightarrow> list_all (\<lambda>v. v \<in> set known) values \<and> distinct values"

definition validateDefinition :: "tool_definition \<Rightarrow> (registry_error, unit) result" where
  "validateDefinition d =
     (let invalid = Inl RE_INVALID_TOOL_DEFINITION in
      if \<not> snake_case (td_name d) then invalid
      else if td_name d \<in> set FORBIDDEN_TOOL_NAMES then Inl RE_FORBIDDEN_TOOL
      else if blank (td_label d) \<or> blank (td_description d) then invalid
      else if \<not> is_safe_integer (td_timeoutHintMs d) \<or> td_timeoutHintMs d < 1 \<or>
              td_timeoutHintMs d > 60000 then invalid
      else if \<not> names_ok (td_requiredCapabilities d) CAPABILITY_NAMES then invalid
      else if \<not> names_ok (td_requiredServices d) SERVICE_NAMES then invalid
      else if \<not> td_has_execute d then invalid
      else if \<not> td_schemas_compile d then invalid
      else Inr ())"

definition register ::
  "tool_registry \<Rightarrow> tool_definition \<Rightarrow> (registry_error, tool_registry) result" where
  "register r d =
     (if tr_sealed r then Inl RE_REGISTRY_SEALED
      else case validateDefinition d of
        Inl e \<Rightarrow> Inl e
      | Inr _ \<Rightarrow>
          if map_of (tr_definitions r) (td_name d) \<noteq> None then Inl RE_DUPLICATE_TOOL
          else Inr (r\<lparr>tr_definitions := tr_definitions r @ [(td_name d, d)]\<rparr>))"

definition seal :: "tool_registry \<Rightarrow> tool_registry" where
  "seal r = r\<lparr>tr_sealed := True\<rparr>"

definition registry_get :: "tool_registry \<Rightarrow> string \<Rightarrow> tool_definition option" where
  "registry_get r name = map_of (tr_definitions r) name"

text \<open>\<open>localeCompare\<close> orders the names by the collation key of the platform, a parameter.\<close>

definition registry_list ::
  "(string \<Rightarrow> 'k::linorder) \<Rightarrow> tool_registry \<Rightarrow> tool_definition list" where
  "registry_list collation r = sort_key (\<lambda>d. collation (td_name d)) (map snd (tr_definitions r))"

definition resolve ::
  "(string \<Rightarrow> 'k::linorder) \<Rightarrow> tool_registry \<Rightarrow> resolution_context option
     \<Rightarrow> (unit, tool_definition list) result" where
  "resolve collation r input =
     (case parseCapabilityResolutionContext input of
        Inl e \<Rightarrow> Inl e
      | Inr ctx \<Rightarrow> Inr (filter (\<lambda>d. requirementsAreAvailable (td_requiredCapabilities d)
                                     (td_requiredServices d) ctx) (registry_list collation r)))"

datatype require_error = RQ_tool_error tool_error | RQ_context_invalid

definition requireAvailable ::
  "tool_registry \<Rightarrow> string \<Rightarrow> resolution_context option
     \<Rightarrow> (require_error, tool_definition) result" where
  "requireAvailable r name input =
     (let unavailable = Inl (RQ_tool_error \<lparr>te_code = TE_CAPABILITY_UNAVAILABLE,
                                            te_toolName = name, te_failureType = None\<rparr>) in
      case map_of (tr_definitions r) name of
        None \<Rightarrow> unavailable
      | Some d \<Rightarrow>
          (case parseCapabilityResolutionContext input of
             Inl _ \<Rightarrow> Inl RQ_context_invalid
           | Inr ctx \<Rightarrow>
               if requirementsAreAvailable (td_requiredCapabilities d) (td_requiredServices d) ctx
               then Inr d else unavailable))"

text \<open>\<open>createDriveGuardToolRegistry\<close>: register in order, stop at the first error, then seal.\<close>

fun register_all ::
  "tool_registry \<Rightarrow> tool_definition list \<Rightarrow> (registry_error, tool_registry) result" where
  "register_all r [] = Inr r"
| "register_all r (d # ds) = and_then (register r d) (\<lambda>r'. register_all r' ds)"

definition createDriveGuardToolRegistry ::
  "(string \<Rightarrow> json \<Rightarrow> bool) \<Rightarrow> (registry_error, tool_registry) result" where
  "createDriveGuardToolRegistry schemas =
     and_then (register_all new_registry (createFormalToolDefinitions schemas))
       (\<lambda>r. Inr (seal r))"

section \<open>Invariant of the registry\<close>

definition registry_inv :: "tool_registry \<Rightarrow> bool" where
  "registry_inv r \<longleftrightarrow>
     distinct (map fst (tr_definitions r)) \<and>
     (\<forall>(n, d) \<in> set (tr_definitions r). n = td_name d \<and> validateDefinition d = Inr ())"

datatype registry_call = Reg_register tool_definition | Reg_seal

fun registry_step :: "tool_registry \<Rightarrow> registry_call \<Rightarrow> tool_registry" where
  "registry_step r (Reg_register d) = (case register r d of Inl _ \<Rightarrow> r | Inr r' \<Rightarrow> r')"
| "registry_step r Reg_seal = seal r"

lemma registry_inv_new: "registry_inv new_registry"
  by (simp add: registry_inv_def new_registry_def)

lemma registry_inv_step: "registry_inv r \<Longrightarrow> registry_inv (registry_step r c)"
proof (cases c)
  case (Reg_register d)
  assume inv: "registry_inv r"
  have "td_name d \<notin> fst ` set (tr_definitions r)" if "map_of (tr_definitions r) (td_name d) = None"
    using that by (simp add: map_of_eq_None_iff)
  with inv Reg_register show ?thesis
    by (auto simp: registry_inv_def register_def split: sum.splits if_splits)
next
  case Reg_seal
  assume "registry_inv r"
  with Reg_seal show ?thesis by (simp add: registry_inv_def seal_def)
qed

interpretation reg: guarded_machine "\<lambda>r. r = new_registry" registry_step registry_inv
  by unfold_locales (auto intro: registry_inv_new registry_inv_step)

lemma registry_get_inv:
  "registry_inv r \<Longrightarrow> registry_get r n = Some d \<Longrightarrow> td_name d = n \<and> validateDefinition d = Inr ()"
  by (auto simp: registry_inv_def registry_get_def dest!: map_of_SomeD)

lemma valid_definition_not_forbidden:
  "validateDefinition d = Inr () \<Longrightarrow> td_name d \<notin> set FORBIDDEN_TOOL_NAMES"
  by (auto simp: validateDefinition_def Let_def split: if_splits)

lemma sealed_step: "tr_sealed r \<Longrightarrow> registry_step r c = r"
  by (cases c) (auto simp: register_def seal_def)

lemma sealed_run: "tr_sealed r \<Longrightarrow> foldl registry_step r cs = r"
  by (induction cs) (simp_all add: sealed_step)

section \<open>What the registry promises\<close>

text \<open>
  An RX actuator capability is never served: whatever definitions are registered, in any
  order, and whenever the registry is sealed, looking up a forbidden name finds nothing.
\<close>

theorem registry_never_serves_forbidden:
  assumes "name \<in> set FORBIDDEN_TOOL_NAMES"
  shows "registry_get (foldl registry_step new_registry calls) name = None"
proof (rule ccontr)
  assume "registry_get (foldl registry_step new_registry calls) name \<noteq> None"
  then obtain d where "registry_get (foldl registry_step new_registry calls) name = Some d"
    by blast
  with reg.run_inv_from_initial [OF refl, of calls] have "td_name d = name \<and> validateDefinition d = Inr ()"
    by (rule registry_get_inv)
  with assms show False by (auto dest: valid_definition_not_forbidden)
qed

definition brake_tool :: tool_definition where
  "brake_tool = formal_tool (\<lambda>_ _. True) 99 ''apply_brake'' ''Brake'' ''Brake.'' R3 [] [] True 1000
     NON_IDEMPOTENT AUDIT_HIGH"

theorem registry_never_serves_forbidden_witness:
  "registry_get (foldl registry_step new_registry [Reg_register brake_tool, Reg_seal])
     ''apply_brake'' = None"
  by (rule registry_never_serves_forbidden) (simp add: FORBIDDEN_TOOL_NAMES_def)

lemma snake_case_formal: "list_all snake_case FORMAL_TOOL_NAMES"
  by (simp add: FORMAL_TOOL_NAMES_def snake_case_def id_patterns)

lemma formal_not_forbidden: "name \<in> set FORMAL_TOOL_NAMES \<Longrightarrow> name \<notin> set FORBIDDEN_TOOL_NAMES"
  by (auto simp: FORMAL_TOOL_NAMES_def FORBIDDEN_TOOL_NAMES_def)

lemma formal_tool_names: "map td_name (createFormalToolDefinitions schemas) = FORMAL_TOOL_NAMES"
  by (simp add: createFormalToolDefinitions_def FORMAL_TOOL_NAMES_def formal_tool_def)

lemma formal_tools_valid:
  "list_all (\<lambda>d. validateDefinition d = Inr ()) (createFormalToolDefinitions schemas)"
proof -
  have "snake_case (td_name d) \<and> td_name d \<notin> set FORBIDDEN_TOOL_NAMES"
    if "d \<in> set (createFormalToolDefinitions schemas)" for d
  proof -
    from that have "td_name d \<in> set FORMAL_TOOL_NAMES"
      unfolding formal_tool_names [of schemas, symmetric] by simp
    then show ?thesis using snake_case_formal formal_not_forbidden by (simp add: list_all_iff)
  qed
  moreover have "list_all (\<lambda>d. \<not> blank (td_label d) \<and> \<not> blank (td_description d))
      (createFormalToolDefinitions schemas)"
    by (simp add: createFormalToolDefinitions_def formal_tool_def blank_def)
  moreover have "list_all (\<lambda>d. names_ok (td_requiredCapabilities d) CAPABILITY_NAMES \<and>
      names_ok (td_requiredServices d) SERVICE_NAMES \<and> td_has_execute d \<and> td_schemas_compile d \<and>
      is_safe_integer (td_timeoutHintMs d) \<and> 1 \<le> td_timeoutHintMs d \<and> td_timeoutHintMs d \<le> 60000)
      (createFormalToolDefinitions schemas)"
    by (simp add: createFormalToolDefinitions_def formal_tool_def names_ok_def CAPABILITY_NAMES_def
        SERVICE_NAMES_def is_safe_integer_def MAX_SAFE_INTEGER_def)
  ultimately show ?thesis
    by (auto simp: validateDefinition_def Let_def list_all_iff)
qed

lemma register_all_valid:
  "\<not> tr_sealed r \<Longrightarrow> list_all (\<lambda>d. validateDefinition d = Inr ()) ds \<Longrightarrow>
   distinct (map td_name ds) \<Longrightarrow> set (map td_name ds) \<inter> fst ` set (tr_definitions r) = {} \<Longrightarrow>
   register_all r ds =
     Inr (r\<lparr>tr_definitions := tr_definitions r @ map (\<lambda>d. (td_name d, d)) ds\<rparr>)"
proof (induction ds arbitrary: r)
  case (Cons d ds)
  then have "register r d = Inr (r\<lparr>tr_definitions := tr_definitions r @ [(td_name d, d)]\<rparr>)"
    by (simp add: register_def map_of_eq_None_iff)
  with Cons.IH [of "r\<lparr>tr_definitions := tr_definitions r @ [(td_name d, d)]\<rparr>"] Cons.prems
  show ?case by auto
qed simp

lemma distinct_formal_names: "distinct FORMAL_TOOL_NAMES"
  by (simp add: FORMAL_TOOL_NAMES_def)

text \<open>
  Building the production registry succeeds, seals it, and makes exactly the formal tools
  retrievable, each under its own name.
\<close>

theorem formal_registry_complete:
  "\<exists>r. createDriveGuardToolRegistry schemas = Inr r \<and> tr_sealed r \<and>
     {n. registry_get r n \<noteq> None} = set FORMAL_TOOL_NAMES \<and>
     list_all (\<lambda>d. registry_get r (td_name d) = Some d) (createFormalToolDefinitions schemas)"
proof -
  let ?ds = "createFormalToolDefinitions schemas"
  let ?entries = "map (\<lambda>d. (td_name d, d)) ?ds"
  let ?r = "\<lparr>tr_definitions = ?entries, tr_sealed = True\<rparr>"
  have "createDriveGuardToolRegistry schemas = Inr ?r"
    using register_all_valid [of new_registry ?ds] formal_tools_valid [of schemas]
      distinct_formal_names
    by (simp add: createDriveGuardToolRegistry_def new_registry_def seal_def formal_tool_names)
  moreover have names: "map fst ?entries = FORMAL_TOOL_NAMES"
    using formal_tool_names [of schemas] by (simp add: comp_def)
  have "dom (map_of ?entries) = set (map fst ?entries)"
    by (simp only: dom_map_of_conv_image_fst set_map)
  then have "{n. registry_get ?r n \<noteq> None} = set FORMAL_TOOL_NAMES"
    by (simp only: names registry_get_def dom_def tool_registry.select_convs)
  moreover have "list_all (\<lambda>d. registry_get ?r (td_name d) = Some d) ?ds"
  proof (unfold list_all_iff, intro ballI)
    fix d assume "d \<in> set ?ds"
    then have "(td_name d, d) \<in> set ?entries" by simp
    moreover have "distinct (map fst ?entries)" by (simp only: names distinct_formal_names)
    ultimately have "map_of ?entries (td_name d) = Some d" by (rule map_of_is_SomeI [rotated])
    then show "registry_get ?r (td_name d) = Some d"
      by (simp only: registry_get_def tool_registry.select_convs)
  qed
  ultimately show ?thesis
    by (intro exI [of _ ?r]) (simp only: tool_registry.select_convs simp_thms)
qed

end
