(* ===== verification/Recovery.thy ===== *)
theory Recovery
  imports Tools
begin

text \<open>
  Failure classification, retry and recovery of \<open>packages/executor/src\<close>: \<open>errors.ts\<close>,
  \<open>retry.ts\<close> and \<open>recovery.ts\<close>. A thrown value is an \<open>ExecutorFault\<close>, a
  \<open>ToolExecutionError\<close>, an \<open>ActionLifecycleError\<close> or anything else.
\<close>

section \<open>Errors\<close>

datatype exec_error_code =
  EE_EXECUTION_VALIDATION_ERROR
| EE_EXECUTION_NOT_AUTHORIZED
| EE_AUTHORIZATION_EXPIRED
| EE_AUTHORIZATION_ALREADY_USED
| EE_AUTHORIZATION_MISMATCH
| EE_IDEMPOTENCY_CONFLICT
| EE_DEPENDENCY_TIMEOUT
| EE_DEPENDENCY_UNAVAILABLE
| EE_EXECUTOR_BUSY
| EE_CIRCUIT_OPEN
| EE_RETRY_EXHAUSTED
| EE_OUTCOME_UNKNOWN
| EE_TOOL_EXECUTION_FAILED
| EE_INTERNAL_EXECUTION_ERROR

record safe_error =
  se_code :: exec_error_code
  se_message :: string
  se_retryable :: bool

fun safe_message :: "exec_error_code \<Rightarrow> string" where
  "safe_message EE_EXECUTION_VALIDATION_ERROR = ''Execution request failed validation''"
| "safe_message EE_EXECUTION_NOT_AUTHORIZED = ''Execution is not authorized''"
| "safe_message EE_AUTHORIZATION_EXPIRED = ''Execution authorization has expired''"
| "safe_message EE_AUTHORIZATION_ALREADY_USED = ''Execution authorization was already used''"
| "safe_message EE_AUTHORIZATION_MISMATCH =
     ''Execution authorization does not match the request''"
| "safe_message EE_IDEMPOTENCY_CONFLICT = ''Idempotency key conflicts with another action''"
| "safe_message EE_DEPENDENCY_TIMEOUT = ''Tool dependency timed out''"
| "safe_message EE_DEPENDENCY_UNAVAILABLE = ''Tool dependency is unavailable''"
| "safe_message EE_EXECUTOR_BUSY = ''Executor capacity is temporarily unavailable''"
| "safe_message EE_CIRCUIT_OPEN = ''Tool dependency circuit is open''"
| "safe_message EE_RETRY_EXHAUSTED = ''Retry attempts were exhausted''"
| "safe_message EE_OUTCOME_UNKNOWN = ''The side-effect outcome is unknown''"
| "safe_message EE_TOOL_EXECUTION_FAILED = ''Tool execution failed''"
| "safe_message EE_INTERNAL_EXECUTION_ERROR = ''Execution failed safely''"

definition safeExecutionError :: "exec_error_code \<Rightarrow> bool \<Rightarrow> safe_error" where
  "safeExecutionError code retryable =
     \<lparr>se_code = code, se_message = safe_message code, se_retryable = retryable\<rparr>"

text \<open>
  The \<open>failureType\<close> property of a thrown object: absent, one of the known types, or any
  other value. A thrown primitive has no properties.
\<close>

datatype explicit_type = No_failure_type | Known_failure_type failure_type | Other_failure_type

datatype thrown =
  Executor_fault exec_error_code "failure_type option"
| Tool_execution_error tool_error
| Action_lifecycle_error action_error_code
| Foreign_object explicit_type
| Foreign_primitive

definition of_optional_type :: "failure_type option \<Rightarrow> explicit_type" where
  "of_optional_type t = (case t of None \<Rightarrow> No_failure_type | Some f \<Rightarrow> Known_failure_type f)"

fun explicit_failure_type :: "thrown \<Rightarrow> explicit_type" where
  "explicit_failure_type (Executor_fault code t) = of_optional_type t"
| "explicit_failure_type (Tool_execution_error e) = of_optional_type (te_failureType e)"
| "explicit_failure_type (Action_lifecycle_error code) = No_failure_type"
| "explicit_failure_type (Foreign_object t) = t"
| "explicit_failure_type Foreign_primitive = No_failure_type"

definition recoveryFailureType :: "thrown \<Rightarrow> failure_type" where
  "recoveryFailureType error =
     (case explicit_failure_type error of
        Known_failure_type f \<Rightarrow> f
      | _ \<Rightarrow>
          (case error of
             Tool_execution_error e \<Rightarrow>
               if te_code e = TE_DEPENDENCY_TIMEOUT then FT_TIMEOUT
               else if te_code e = TE_DEPENDENCY_UNAVAILABLE then FT_CONNECTION_ABORT
               else FT_DEFINITE_FAILURE
           | _ \<Rightarrow> FT_DEFINITE_FAILURE))"

fun authorizationErrorCode :: "thrown \<Rightarrow> exec_error_code" where
  "authorizationErrorCode (Action_lifecycle_error code) =
     (if code = AE_AUTHORIZATION_EXPIRED then EE_AUTHORIZATION_EXPIRED
      else if code = AE_AUTHORIZATION_ALREADY_USED then EE_AUTHORIZATION_ALREADY_USED
      else if code = AE_AUTHORIZATION_MISMATCH then EE_AUTHORIZATION_MISMATCH
      else EE_EXECUTION_NOT_AUTHORIZED)"
| "authorizationErrorCode error = EE_EXECUTION_NOT_AUTHORIZED"

section \<open>Classification of a failed attempt\<close>

datatype classification = RETRYABLE | NON_RETRYABLE | AMBIGUOUS_SIDE_EFFECT

record classified_failure =
  cf_classification :: classification
  cf_code :: exec_error_code
  cf_failureType :: failure_type

fun failure_code :: "thrown \<Rightarrow> exec_error_code \<times> bool" where
  "failure_code (Executor_fault code t) =
     (code, code = EE_DEPENDENCY_TIMEOUT \<or> code = EE_DEPENDENCY_UNAVAILABLE)"
| "failure_code (Tool_execution_error e) =
     (if te_code e = TE_DEPENDENCY_TIMEOUT then (EE_DEPENDENCY_TIMEOUT, True)
      else if te_code e = TE_DEPENDENCY_UNAVAILABLE then (EE_DEPENDENCY_UNAVAILABLE, True)
      else (EE_TOOL_EXECUTION_FAILED, False))"
| "failure_code error = (EE_TOOL_EXECUTION_FAILED, False)"

definition classifyToolFailure :: "thrown \<Rightarrow> bool \<Rightarrow> bool \<Rightarrow> classified_failure" where
  "classifyToolFailure error sideEffect downstreamRetrySafe =
     (let code = fst (failure_code error);
          transient = snd (failure_code error);
          failureType = recoveryFailureType error;
          hasExplicitFailureType = explicit_failure_type error \<noteq> No_failure_type;
          explicitlyAmbiguous = hasExplicitFailureType \<and>
            (failureType = FT_TIMEOUT \<or> failureType = FT_CONNECTION_ABORT \<or>
             failureType = FT_AMBIGUOUS_SIDE_EFFECT);
          as = (\<lambda>c. \<lparr>cf_classification = c, cf_code = code, cf_failureType = failureType\<rparr>)
      in if \<not> transient then as NON_RETRYABLE
         else if sideEffect \<and>
                 (explicitlyAmbiguous \<or> (\<not> hasExplicitFailureType \<and> \<not> downstreamRetrySafe))
         then as AMBIGUOUS_SIDE_EFFECT
         else if sideEffect \<and> \<not> downstreamRetrySafe then as NON_RETRYABLE
         else as RETRYABLE)"

definition classifyToolError ::
  "thrown \<Rightarrow> bool \<Rightarrow> bool \<Rightarrow> classification \<times> exec_error_code" where
  "classifyToolError error sideEffect downstreamRetrySafe =
     (let c = classifyToolFailure error sideEffect downstreamRetrySafe
      in (cf_classification c, cf_code c))"

section \<open>Retry policy\<close>

record retry_policy =
  rp_maxAttempts :: int
  rp_backoffMs :: "int list"

definition new_retry_policy ::
  "int option \<Rightarrow> int list option \<Rightarrow> (unit, retry_policy) result" where
  "new_retry_policy maxAttempts backoffMs =
     (let n = (case maxAttempts of None \<Rightarrow> 3 | Some k \<Rightarrow> k);
          delays = (case backoffMs of None \<Rightarrow> [50, 100] | Some ds \<Rightarrow> ds)
      in if \<not> is_safe_integer n \<or> n < 1 \<or> n > 10 \<or>
            list_ex (\<lambda>d. \<not> is_safe_integer d \<or> d < 0) delays
         then Inl () else Inr \<lparr>rp_maxAttempts = n, rp_backoffMs = delays\<rparr>)"

definition shouldRetry :: "retry_policy \<Rightarrow> classification \<Rightarrow> int \<Rightarrow> bool" where
  "shouldRetry rp c attempt \<longleftrightarrow> c = RETRYABLE \<and> attempt < rp_maxAttempts rp"

text \<open>\<open>xs[i] ?? 0\<close>: zero when the index is out of range.\<close>

definition nth_or_zero :: "int list \<Rightarrow> int \<Rightarrow> int" where
  "nth_or_zero xs i = (if 0 \<le> i \<and> i < int (length xs) then xs ! nat i else 0)"

definition delayForRetry :: "retry_policy \<Rightarrow> int \<Rightarrow> int" where
  "delayForRetry rp completedAttempt =
     nth_or_zero (rp_backoffMs rp) (min (completedAttempt - 1) (int (length (rp_backoffMs rp)) - 1))"

section \<open>Recovery decisions\<close>

datatype operation_type = OP_READ | OP_WRITE

datatype reconciliation_status = RS_EXECUTED | RS_NOT_EXECUTED | RS_UNKNOWN

datatype recovery_action = RA_RETRY | RA_RECONCILE | RA_SAFE_DEGRADATION | RA_STOP

datatype recovery_status = RV_RECOVERED | RV_SAFE_DEGRADATION | RV_UNKNOWN

datatype recovery_reason =
  READ_TRANSIENT_RETRY
| READ_RETRY_EXHAUSTED
| WRITE_DEFINITE_SAFE_RETRY
| WRITE_RETRY_NOT_SAFE
| AMBIGUOUS_WRITE_REQUIRES_RECONCILIATION
| RECONCILED_EXECUTED
| RECONCILED_NOT_EXECUTED_RETRY
| RECONCILIATION_UNKNOWN

record recovery_input =
  ri_operationType :: operation_type
  ri_failureType :: failure_type
  ri_idempotencyHint :: idempotency_hint
  ri_attempt :: int
  ri_maxAttempts :: int
  ri_reconciliationStatus :: "reconciliation_status option"

record recovery_decision =
  rd_action :: recovery_action
  rd_reason :: recovery_reason

record recovery_receipt =
  rr_operationType :: operation_type
  rr_failureType :: failure_type
  rr_action :: recovery_action
  rr_status :: recovery_status
  rr_attemptCount :: int
  rr_retryCount :: int
  rr_idempotencyKeyReused :: bool
  rr_reconciliationStatus :: "reconciliation_status option"

definition decide :: "recovery_input \<Rightarrow> recovery_decision" where
  "decide i =
     (let d = (\<lambda>a r. \<lparr>rd_action = a, rd_reason = r\<rparr>); f = ri_failureType i in
      if ri_operationType i = OP_READ
      then if (f = FT_TIMEOUT \<or> f = FT_HTTP_503 \<or> f = FT_CONNECTION_ABORT \<or>
               f = FT_DUPLICATE_REQUEST) \<and> ri_attempt i < ri_maxAttempts i
           then d RA_RETRY READ_TRANSIENT_RETRY
           else d RA_SAFE_DEGRADATION READ_RETRY_EXHAUSTED
      else if f = FT_AMBIGUOUS_SIDE_EFFECT \<or> f = FT_TIMEOUT \<or> f = FT_CONNECTION_ABORT
      then case ri_reconciliationStatus i of
             None \<Rightarrow> d RA_RECONCILE AMBIGUOUS_WRITE_REQUIRES_RECONCILIATION
           | Some s \<Rightarrow>
               if s = RS_EXECUTED then d RA_STOP RECONCILED_EXECUTED
               else if s = RS_NOT_EXECUTED \<and> ri_idempotencyHint i = IDEMPOTENT \<and>
                       ri_attempt i < ri_maxAttempts i
               then d RA_RETRY RECONCILED_NOT_EXECUTED_RETRY
               else d RA_STOP RECONCILIATION_UNKNOWN
      else if (f = FT_HTTP_503 \<or> f = FT_DUPLICATE_REQUEST) \<and>
              ri_idempotencyHint i = IDEMPOTENT \<and> ri_attempt i < ri_maxAttempts i
      then d RA_RETRY WRITE_DEFINITE_SAFE_RETRY
      else d RA_SAFE_DEGRADATION WRITE_RETRY_NOT_SAFE)"

record recovery_manager =
  rm_maxReadAttempts :: int
  rm_retryDelaysMs :: "int list"

definition new_recovery_manager ::
  "int option \<Rightarrow> int list option \<Rightarrow> (unit, recovery_manager) result" where
  "new_recovery_manager maxReadAttempts retryDelaysMs =
     (let n = (case maxReadAttempts of None \<Rightarrow> 2 | Some k \<Rightarrow> k);
          ds = (case retryDelaysMs of None \<Rightarrow> [50, 150] | Some xs \<Rightarrow> xs)
      in if \<not> is_safe_integer n \<or> n < 1 \<or> n > 3 then Inl ()
         else if ds = [] \<or> list_ex (\<lambda>d. \<not> is_safe_integer d \<or> d < 0 \<or> d > 5000) ds then Inl ()
         else Inr \<lparr>rm_maxReadAttempts = n, rm_retryDelaysMs = ds\<rparr>)"

section \<open>Bounded read recovery\<close>

text \<open>
  The loop of \<open>executeRead\<close>. The caller's operation is a function of the attempt; the
  injected sleeper may throw. The result carries the log of sleeps. \<open>Read_exhausted\<close> is
  the \<open>RecoveryExhaustedError\<close>.
\<close>

datatype read_error = Read_exhausted recovery_receipt | Read_sleeper_threw thrown

definition read_receipt :: "failure_type \<Rightarrow> int \<Rightarrow> recovery_receipt" where
  "read_receipt lastFailure attempt =
     \<lparr>rr_operationType = OP_READ, rr_failureType = lastFailure, rr_action = RA_SAFE_DEGRADATION,
      rr_status = RV_SAFE_DEGRADATION, rr_attemptCount = attempt,
      rr_retryCount = max 0 (attempt - 1), rr_idempotencyKeyReused = attempt > 1,
      rr_reconciliationStatus = None\<rparr>"

function read_loop ::
  "recovery_manager \<Rightarrow> (int \<Rightarrow> (thrown, 'a) result) \<Rightarrow> (int \<Rightarrow> thrown option) \<Rightarrow> failure_type
     \<Rightarrow> int \<Rightarrow> int list \<Rightarrow> (read_error, 'a) result \<times> int list" where
  "read_loop rm operation sleeper lastFailure attempt sleeps =
     (if attempt \<le> rm_maxReadAttempts rm
      then case operation attempt of
             Inr x \<Rightarrow> (Inr x, sleeps)
           | Inl error \<Rightarrow>
               (let failure = recoveryFailureType error;
                    decision = decide \<lparr>ri_operationType = OP_READ, ri_failureType = failure,
                      ri_idempotencyHint = READ_ONLY, ri_attempt = attempt,
                      ri_maxAttempts = rm_maxReadAttempts rm, ri_reconciliationStatus = None\<rparr>
                in if rd_action decision \<noteq> RA_RETRY
                   then (Inl (Read_exhausted (read_receipt failure attempt)), sleeps)
                   else let delay = nth_or_zero (rm_retryDelaysMs rm)
                              (min (attempt - 1) (int (length (rm_retryDelaysMs rm)) - 1))
                        in case sleeper delay of
                             Some e \<Rightarrow> (Inl (Read_sleeper_threw e), sleeps @ [delay])
                           | None \<Rightarrow> read_loop rm operation sleeper failure (attempt + 1)
                                       (sleeps @ [delay]))
      else (Inl (Read_exhausted (read_receipt lastFailure (rm_maxReadAttempts rm))), sleeps))"
  by pat_completeness auto
termination
  by (relation "measure (\<lambda>(rm, _, _, _, attempt, _). nat (rm_maxReadAttempts rm + 1 - attempt))")
    auto

declare read_loop.simps [simp del]

definition executeRead ::
  "recovery_manager \<Rightarrow> (int \<Rightarrow> (thrown, 'a) result) \<Rightarrow> (int \<Rightarrow> thrown option)
     \<Rightarrow> (read_error, 'a) result \<times> int list" where
  "executeRead rm operation sleeper = read_loop rm operation sleeper FT_DEFINITE_FAILURE 1 []"

section \<open>What recovery promises\<close>

definition transient_read_failure :: "thrown \<Rightarrow> bool" where
  "transient_read_failure error \<longleftrightarrow>
     recoveryFailureType error \<in> {FT_TIMEOUT, FT_HTTP_503, FT_CONNECTION_ABORT, FT_DUPLICATE_REQUEST}"

lemma decide_read_retry:
  "ri_operationType i = OP_READ \<Longrightarrow> rd_action (decide i) = RA_RETRY \<longleftrightarrow>
     ri_failureType i \<in> {FT_TIMEOUT, FT_HTTP_503, FT_CONNECTION_ABORT, FT_DUPLICATE_REQUEST} \<and>
     ri_attempt i < ri_maxAttempts i"
  by (auto simp: decide_def Let_def)

definition read_delay :: "recovery_manager \<Rightarrow> int \<Rightarrow> int" where
  "read_delay rm attempt = nth_or_zero (rm_retryDelaysMs rm)
     (min (attempt - 1) (int (length (rm_retryDelaysMs rm)) - 1))"

text \<open>The outcome the attempt \<open>k\<close> decides, and whether it is decisive.\<close>

definition read_outcome ::
  "(int \<Rightarrow> (thrown, 'a) result) \<Rightarrow> int \<Rightarrow> (read_error, 'a) result" where
  "read_outcome operation k =
     (case operation k of
        Inr x \<Rightarrow> Inr x
      | Inl e \<Rightarrow> Inl (Read_exhausted (read_receipt (recoveryFailureType e) k)))"

definition transient_at :: "(int \<Rightarrow> (thrown, 'a) result) \<Rightarrow> int \<Rightarrow> bool" where
  "transient_at operation k \<longleftrightarrow>
     (case operation k of Inr _ \<Rightarrow> False | Inl e \<Rightarrow> transient_read_failure e)"

lemma read_loop_decisive:
  assumes "k \<le> rm_maxReadAttempts rm" "\<not> transient_at operation k \<or> k = rm_maxReadAttempts rm"
  shows "read_loop rm operation sleeper f k sleeps = (read_outcome operation k, sleeps)"
  using assms by (subst read_loop.simps)
    (auto simp: read_outcome_def transient_at_def transient_read_failure_def decide_read_retry
      Let_def split: sum.splits)

lemma read_loop_transient:
  assumes "k < rm_maxReadAttempts rm" "transient_at operation k" "sleeper (read_delay rm k) = None"
  obtains f' where "read_loop rm operation sleeper f k sleeps =
    read_loop rm operation sleeper f' (k + 1) (sleeps @ [read_delay rm k])"
  using assms by (subst (asm) read_loop.simps)
    (auto simp: transient_at_def transient_read_failure_def decide_read_retry
      read_delay_def Let_def split: sum.splits)

lemma read_loop_reference:
  assumes "j \<le> k" "k \<le> rm_maxReadAttempts rm"
    and "\<forall>i. j \<le> i \<and> i < k \<longrightarrow> transient_at operation i"
    and "\<forall>d. sleeper d = None"
    and "\<not> transient_at operation k \<or> k = rm_maxReadAttempts rm"
  shows "read_loop rm operation sleeper f j sleeps =
    (read_outcome operation k, sleeps @ map (read_delay rm) [j..k - 1])"
  using assms
proof (induction "nat (k - j)" arbitrary: j f sleeps)
  case 0
  then have "j = k" by simp
  moreover have "read_loop rm operation sleeper f k sleeps = (read_outcome operation k, sleeps)"
    using 0 by (intro read_loop_decisive)
  ultimately show ?case by simp
next
  case (Suc n)
  then have "j < k" by simp
  with Suc.prems have "j < rm_maxReadAttempts rm" "transient_at operation j"
    "sleeper (read_delay rm j) = None" by auto
  then obtain f' where "read_loop rm operation sleeper f j sleeps =
      read_loop rm operation sleeper f' (j + 1) (sleeps @ [read_delay rm j])"
    by (rule read_loop_transient)
  also have "\<dots> = (read_outcome operation k,
      (sleeps @ [read_delay rm j]) @ map (read_delay rm) [j + 1..k - 1])"
    using Suc.prems Suc.hyps(2) \<open>j < k\<close> by (intro Suc.hyps(1)) auto
  also have "\<dots> = (read_outcome operation k, sleeps @ map (read_delay rm) [j..k - 1])"
    using \<open>j < k\<close> by (simp add: upto_rec1)
  finally show ?case .
qed


definition flaky_read :: "int \<Rightarrow> (thrown, string) result" where
  "flaky_read attempt =
     (if attempt = 1 then Inl (Executor_fault EE_DEPENDENCY_TIMEOUT (Some FT_TIMEOUT)) else Inr ''ok'')"


lemma classify_not_transient:
  "\<not> snd (failure_code e) \<Longrightarrow> cf_classification (classifyToolFailure e effect safe) = NON_RETRYABLE"
  by (simp add: classifyToolFailure_def Let_def)

text \<open>
  A failed side effect is retried only when that cannot repeat it: if the classification
  says retryable, the operation has no side effect, or the tool is safe to call again and the
  failure carries an explicit type that is not one of the ambiguous ones, or no type at all.
\<close>

theorem retryable_only_when_safe:
  assumes "cf_classification (classifyToolFailure error sideEffect safe) = RETRYABLE"
  shows "snd (failure_code error) \<and>
    (\<not> sideEffect \<or>
     safe \<and> (explicit_failure_type error = No_failure_type \<or>
       recoveryFailureType error \<in> {FT_HTTP_503, FT_DEFINITE_FAILURE, FT_DUPLICATE_REQUEST}))"
  using assms
  by (cases "recoveryFailureType error")
    (auto simp: classifyToolFailure_def Let_def split: if_splits)

theorem retryable_only_when_safe_witness:
  "explicit_failure_type (Executor_fault EE_DEPENDENCY_UNAVAILABLE (Some FT_HTTP_503)) = No_failure_type \<or>
   recoveryFailureType (Executor_fault EE_DEPENDENCY_UNAVAILABLE (Some FT_HTTP_503))
     \<in> {FT_HTTP_503, FT_DEFINITE_FAILURE, FT_DUPLICATE_REQUEST}"
  using retryable_only_when_safe
    [of "Executor_fault EE_DEPENDENCY_UNAVAILABLE (Some FT_HTTP_503)" True True]
  by (simp add: classifyToolFailure_def recoveryFailureType_def of_optional_type_def)

end
