(* ===== verification/ExecRecords.thy ===== *)
theory ExecRecords
  imports Recovery
begin

text \<open>
  Execution records and single-flight idempotency of \<open>packages/executor/src\<close>:
  \<open>lifecycle.ts\<close>, \<open>idempotency.ts\<close> and the data of \<open>types.ts\<close>.
\<close>

section \<open>Execution states and records\<close>

datatype execution_state =
  X_CREATED
| X_RUNNING
| X_SUCCEEDED
| X_FAILED
| X_RETRY_EXHAUSTED
| X_OUTCOME_UNKNOWN
| X_REJECTED

datatype attempt_outcome = AO_SUCCEEDED | AO_FAILED | AO_TIMED_OUT | AO_OUTCOME_UNKNOWN

record execution_attempt =
  ea_attempt :: int
  ea_startedAt :: utc_timestamp
  ea_completedAt :: utc_timestamp
  ea_outcome :: attempt_outcome
  ea_errorCode :: "exec_error_code option"

record execution_record =
  er_executionId :: string
  er_toolName :: string
  er_actionFingerprint :: string
  er_idempotencyKey :: string
  er_state :: execution_state
  er_attempts :: "execution_attempt list"
  er_stateHistory :: "execution_state transition_entry list"
  er_createdAt :: utc_timestamp
  er_updatedAt :: utc_timestamp

record execution_result =
  xr_executionId :: string
  xr_toolName :: string
  xr_status :: execution_state
  xr_attemptCount :: int
  xr_deduplicated :: bool
  xr_startedAt :: utc_timestamp
  xr_completedAt :: utc_timestamp
  xr_result :: "json option"
  xr_error :: "safe_error option"
  xr_recovery :: "recovery_receipt option"

fun legal_execution :: "execution_state \<Rightarrow> execution_state list" where
  "legal_execution X_CREATED = [X_RUNNING, X_REJECTED]"
| "legal_execution X_RUNNING = [X_SUCCEEDED, X_FAILED, X_RETRY_EXHAUSTED, X_OUTCOME_UNKNOWN]"
| "legal_execution X_SUCCEEDED = []"
| "legal_execution X_FAILED = []"
| "legal_execution X_RETRY_EXHAUSTED = []"
| "legal_execution X_OUTCOME_UNKNOWN = []"
| "legal_execution X_REJECTED = []"

fun execution_rank :: "execution_state \<Rightarrow> nat" where
  "execution_rank X_CREATED = 0"
| "execution_rank X_RUNNING = 1"
| "execution_rank s = 2"

interpretation xl: lifecycle_table legal_execution execution_rank 2
proof
  show "execution_rank s < execution_rank t" if "t \<in> set (legal_execution s)" for s t
    using that by (cases s) auto
  show "execution_rank s \<le> 2" for s
    by (cases s) auto
qed

section \<open>The record store\<close>

type_synonym record_store = "string \<rightharpoonup> execution_record"

definition records_create ::
  "record_store \<Rightarrow> string \<Rightarrow> string \<Rightarrow> string \<Rightarrow> string \<Rightarrow> utc_timestamp
     \<Rightarrow> (exec_error_code, record_store \<times> execution_record) result" where
  "records_create rs executionId toolName fingerprint key createdAt =
     (if rs executionId \<noteq> None then Inl EE_EXECUTION_VALIDATION_ERROR
      else let r = \<lparr>er_executionId = executionId, er_toolName = toolName,
                    er_actionFingerprint = fingerprint, er_idempotencyKey = key,
                    er_state = X_CREATED, er_attempts = [],
                    er_stateHistory = [\<lparr>tr_from = None, tr_to = X_CREATED, tr_at = createdAt\<rparr>],
                    er_createdAt = createdAt, er_updatedAt = createdAt\<rparr>
           in Inr (rs(executionId \<mapsto> r), r))"

definition records_delete :: "record_store \<Rightarrow> string \<Rightarrow> bool \<times> record_store" where
  "records_delete rs executionId = (rs executionId \<noteq> None, rs(executionId := None))"

definition records_transition ::
  "record_store \<Rightarrow> string \<Rightarrow> execution_state \<Rightarrow> utc_timestamp
     \<Rightarrow> (exec_error_code, record_store \<times> execution_record) result" where
  "records_transition rs executionId next_state at =
     (case rs executionId of
        None \<Rightarrow> Inl EE_INTERNAL_EXECUTION_ERROR
      | Some current \<Rightarrow>
          if next_state \<notin> set (legal_execution (er_state current))
          then Inl EE_INTERNAL_EXECUTION_ERROR
          else let updated = current\<lparr>er_state := next_state, er_updatedAt := at,
                     er_stateHistory := er_stateHistory current @
                       [\<lparr>tr_from = Some (er_state current), tr_to = next_state, tr_at = at\<rparr>]\<rparr>
               in Inr (rs(executionId \<mapsto> updated), updated))"

definition records_addAttempt ::
  "record_store \<Rightarrow> string \<Rightarrow> execution_attempt
     \<Rightarrow> (exec_error_code, record_store \<times> execution_record) result" where
  "records_addAttempt rs executionId attempt =
     (case rs executionId of
        None \<Rightarrow> Inl EE_INTERNAL_EXECUTION_ERROR
      | Some current \<Rightarrow>
          if er_state current \<noteq> X_RUNNING then Inl EE_INTERNAL_EXECUTION_ERROR
          else let updated = current\<lparr>er_updatedAt := ea_completedAt attempt,
                                     er_attempts := er_attempts current @ [attempt]\<rparr>
               in Inr (rs(executionId \<mapsto> updated), updated))"

lemmas record_ops = records_create_def records_delete_def records_transition_def
  records_addAttempt_def

definition record_ok :: "string \<Rightarrow> execution_record \<Rightarrow> bool" where
  "record_ok executionId r \<longleftrightarrow>
     er_executionId r = executionId \<and>
     history_ok legal_execution X_CREATED (er_stateHistory r) (er_state r) \<and>
     (er_attempts r \<noteq> [] \<longrightarrow> X_RUNNING \<in> set (map tr_to (er_stateHistory r)))"

definition records_inv :: "record_store \<Rightarrow> bool" where
  "records_inv rs \<longleftrightarrow> (\<forall>k r. rs k = Some r \<longrightarrow> record_ok k r)"

lemma history_last: "history_ok legal s0 h s \<Longrightarrow> s \<in> set (map tr_to h)"
proof -
  have "chain legal a es b \<Longrightarrow> b \<in> set (a # map tr_to es)" for a b es
    by (induction es arbitrary: a) auto
  then show "history_ok legal s0 h s \<Longrightarrow> s \<in> set (map tr_to h)"
    by (cases h) force+
qed

datatype record_call =
  Rec_create string string string string utc_timestamp
| Rec_delete string
| Rec_transition string execution_state utc_timestamp
| Rec_addAttempt string execution_attempt

fun records_step :: "record_store \<Rightarrow> record_call \<Rightarrow> record_store" where
  "records_step rs (Rec_create x t f k at) =
     (case records_create rs x t f k at of Inl _ \<Rightarrow> rs | Inr (rs', _) \<Rightarrow> rs')"
| "records_step rs (Rec_delete x) = snd (records_delete rs x)"
| "records_step rs (Rec_transition x s at) =
     (case records_transition rs x s at of Inl _ \<Rightarrow> rs | Inr (rs', _) \<Rightarrow> rs')"
| "records_step rs (Rec_addAttempt x a) =
     (case records_addAttempt rs x a of Inl _ \<Rightarrow> rs | Inr (rs', _) \<Rightarrow> rs')"

lemma records_inv_put: "records_inv rs \<Longrightarrow> record_ok k r \<Longrightarrow> records_inv (rs(k \<mapsto> r))"
  by (simp add: records_inv_def)

lemma record_ok_transition:
  "record_ok k r \<Longrightarrow> s \<in> set (legal_execution (er_state r)) \<Longrightarrow>
   record_ok k (r\<lparr>er_state := s, er_updatedAt := at, er_stateHistory := er_stateHistory r @
     [\<lparr>tr_from = Some (er_state r), tr_to = s, tr_at = at\<rparr>]\<rparr>)"
  using history_ok_snoc [of legal_execution X_CREATED "er_stateHistory r" "er_state r"
      "\<lparr>tr_from = Some (er_state r), tr_to = s, tr_at = at\<rparr>"]
  by (auto simp: record_ok_def)

lemma record_ok_attempt:
  "record_ok k r \<Longrightarrow> er_state r = X_RUNNING \<Longrightarrow>
   record_ok k (r\<lparr>er_updatedAt := t, er_attempts := as\<rparr>)"
  using history_last [of legal_execution X_CREATED "er_stateHistory r" "er_state r"]
  by (simp add: record_ok_def)

lemma records_inv_step: "records_inv rs \<Longrightarrow> records_inv (records_step rs c)"
proof (cases c)
  case (Rec_create x t f k at)
  assume "records_inv rs"
  with Rec_create show ?thesis
    by (auto simp: records_create_def Let_def record_ok_def intro!: records_inv_put)
next
  case (Rec_delete x)
  assume "records_inv rs"
  with Rec_delete show ?thesis by (auto simp: records_delete_def records_inv_def)
next
  case (Rec_transition x s at)
  assume "records_inv rs"
  with Rec_transition show ?thesis
    by (auto simp: records_transition_def Let_def records_inv_def record_ok_transition
        split: option.splits if_splits)
next
  case (Rec_addAttempt x a)
  assume "records_inv rs"
  with Rec_addAttempt show ?thesis
    by (auto simp: records_addAttempt_def Let_def records_inv_def record_ok_attempt
        split: option.splits if_splits)
qed

interpretation recs: guarded_machine "\<lambda>rs. rs = Map.empty" records_step records_inv
  by unfold_locales (auto simp: records_inv_def [of Map.empty] intro: records_inv_step)

text \<open>
  C8. An execution record never leaves its lifecycle: after any sequence of store calls, the
  history of every stored record starts at \<open>CREATED\<close>, follows legal transitions to the
  current state, has at most three entries and never visits a state twice.
\<close>

theorem execution_history_is_a_lifecycle:
  assumes "foldl records_step Map.empty calls executionId = Some r"
  shows "history_ok legal_execution X_CREATED (er_stateHistory r) (er_state r) \<and>
    length (er_stateHistory r) \<le> 3 \<and> distinct (map tr_to (er_stateHistory r))"
proof -
  have "records_inv (foldl records_step Map.empty calls)"
    by (rule recs.run_inv_from_initial) simp
  with assms have "history_ok legal_execution X_CREATED (er_stateHistory r) (er_state r)"
    by (simp add: records_inv_def record_ok_def)
  with xl.history_length [OF this] xl.history_visits_distinct [OF this] show ?thesis by simp
qed

theorem execution_history_is_a_lifecycle_witness:
  "let calls = [Rec_create ''x'' ''t'' ''f'' ''k'' 1, Rec_transition ''x'' X_RUNNING 2,
                Rec_transition ''x'' X_SUCCEEDED 3, Rec_transition ''x'' X_FAILED 4];
       r = the (foldl records_step Map.empty calls ''x'')
   in history_ok legal_execution X_CREATED (er_stateHistory r) (er_state r) \<and>
      length (er_stateHistory r) \<le> 3 \<and> distinct (map tr_to (er_stateHistory r))"
  unfolding Let_def
  by (rule execution_history_is_a_lifecycle
      [where calls = "[Rec_create ''x'' ''t'' ''f'' ''k'' 1, Rec_transition ''x'' X_RUNNING 2,
         Rec_transition ''x'' X_SUCCEEDED 3, Rec_transition ''x'' X_FAILED 4]"
       and executionId = "''x''"])
    (simp add: record_ops Let_def)

lemma records_transition_terminal:
  "rs x = Some r \<Longrightarrow> legal_execution (er_state r) = [] \<Longrightarrow>
   records_transition rs x s at = Inl EE_INTERNAL_EXECUTION_ERROR"
  by (simp add: records_transition_def)

section \<open>Single-flight idempotency\<close>

text \<open>
  An entry holds the fingerprint, the request binding and the promise of the owner's result.
  Promises are numbered: a duplicate waits for the promise of the entry it found, and the
  owner's \<open>complete\<close> settles its own promise even when the entry was released meanwhile.
\<close>

record idempotency_entry =
  ie_fingerprint :: string
  ie_requestBinding :: string
  ie_promise :: nat

record idempotency_manager =
  im_entries :: "string \<rightharpoonup> idempotency_entry"
  im_promises :: "execution_result option list"

definition new_idempotency :: idempotency_manager where
  "new_idempotency = \<lparr>im_entries = Map.empty, im_promises = []\<rparr>"

datatype acquisition = Acq_owner nat | Acq_duplicate nat | Acq_conflict

definition idem_acquire ::
  "idempotency_manager \<Rightarrow> string \<Rightarrow> string \<Rightarrow> string \<Rightarrow> acquisition \<times> idempotency_manager" where
  "idem_acquire im key fingerprint requestBinding =
     (case im_entries im key of
        Some e \<Rightarrow>
          (if ie_fingerprint e = fingerprint \<and> ie_requestBinding e = requestBinding
           then Acq_duplicate (ie_promise e) else Acq_conflict, im)
      | None \<Rightarrow>
          let p = length (im_promises im)
          in (Acq_owner p, im\<lparr>im_entries := (im_entries im)(key \<mapsto>
                 \<lparr>ie_fingerprint = fingerprint, ie_requestBinding = requestBinding, ie_promise = p\<rparr>),
               im_promises := im_promises im @ [None]\<rparr>))"

text \<open>The owner's \<open>complete\<close>: settles its promise once.\<close>

definition idem_complete :: "idempotency_manager \<Rightarrow> nat \<Rightarrow> execution_result \<Rightarrow> idempotency_manager" where
  "idem_complete im p result =
     (if p < length (im_promises im) \<and> im_promises im ! p = None
      then im\<lparr>im_promises := (im_promises im)[p := Some result]\<rparr> else im)"

definition idem_release ::
  "idempotency_manager \<Rightarrow> string \<Rightarrow> string \<Rightarrow> string \<Rightarrow> bool \<times> idempotency_manager" where
  "idem_release im key fingerprint requestBinding =
     (case im_entries im key of
        None \<Rightarrow> (False, im)
      | Some e \<Rightarrow>
          if ie_fingerprint e \<noteq> fingerprint \<or> ie_requestBinding e \<noteq> requestBinding
          then (False, im) else (True, im\<lparr>im_entries := (im_entries im)(key := None)\<rparr>))"

text \<open>What an awaited promise holds: nothing while the owner runs.\<close>

definition promise_result :: "idempotency_manager \<Rightarrow> nat \<Rightarrow> execution_result option" where
  "promise_result im p = (if p < length (im_promises im) then im_promises im ! p else None)"

lemmas idem_ops = idem_acquire_def idem_complete_def idem_release_def

datatype idem_call =
  Idem_acquire string string string
| Idem_complete nat execution_result
| Idem_release string string string

fun idem_step :: "idempotency_manager \<Rightarrow> idem_call \<Rightarrow> idempotency_manager" where
  "idem_step im (Idem_acquire k f b) = snd (idem_acquire im k f b)"
| "idem_step im (Idem_complete p r) = idem_complete im p r"
| "idem_step im (Idem_release k f b) = snd (idem_release im k f b)"

fun releases :: "string \<Rightarrow> string \<Rightarrow> string \<Rightarrow> idem_call \<Rightarrow> bool" where
  "releases k f b (Idem_release k' f' b') \<longleftrightarrow> k' = k \<and> f' = f \<and> b' = b"
| "releases k f b c \<longleftrightarrow> False"

definition owned_by :: "idempotency_manager \<Rightarrow> string \<Rightarrow> string \<Rightarrow> string \<Rightarrow> nat \<Rightarrow> bool" where
  "owned_by im k f b p \<longleftrightarrow>
     im_entries im k = Some \<lparr>ie_fingerprint = f, ie_requestBinding = b, ie_promise = p\<rparr>"

definition settled_with :: "idempotency_manager \<Rightarrow> nat \<Rightarrow> execution_result \<Rightarrow> bool" where
  "settled_with im p r \<longleftrightarrow> promise_result im p = Some r"

lemma owned_by_step:
  "owned_by im k f b p \<Longrightarrow> \<not> releases k f b c \<Longrightarrow> owned_by (idem_step im c) k f b p"
  by (cases c) (auto simp: owned_by_def idem_ops Let_def split: option.splits if_splits)

lemma owned_by_run:
  "owned_by im k f b p \<Longrightarrow> list_all (\<lambda>c. \<not> releases k f b c) cs \<Longrightarrow>
   owned_by (foldl idem_step im cs) k f b p"
  by (induction cs arbitrary: im) (auto intro: owned_by_step)

lemma settled_step: "settled_with im p r \<Longrightarrow> settled_with (idem_step im c) p r"
  by (cases c) (auto simp: settled_with_def promise_result_def idem_ops Let_def nth_append
      nth_list_update split: option.splits if_splits)

lemma settled_run: "settled_with im p r \<Longrightarrow> settled_with (foldl idem_step im cs) p r"
  by (induction cs arbitrary: im) (auto intro: settled_step)

lemma owned_by_answer:
  "owned_by im k f b p \<Longrightarrow>
     fst (idem_acquire im k f' b') = (if (f', b') = (f, b) then Acq_duplicate p else Acq_conflict)"
  by (simp add: owned_by_def idem_acquire_def)

text \<open>
  C9. An idempotency key has one owner: once a caller became owner, any later call with the
  key waits for the owner's promise when it repeats the same fingerprint and binding and is a
  conflict otherwise, until the owner's own binding releases the key; and the result the owner
  settles its promise with stays the promise's result.
\<close>

theorem idempotency_single_owner:
  assumes "idem_acquire im key fingerprint binding = (Acq_owner p, im')"
    and "list_all (\<lambda>c. \<not> releases key fingerprint binding c) calls"
  shows "fst (idem_acquire (foldl idem_step im' calls) key f b) =
      (if (f, b) = (fingerprint, binding) then Acq_duplicate p else Acq_conflict) \<and>
    promise_result (foldl idem_step (idem_complete im' p r) later) p = Some r"
proof
  have owned: "owned_by im' key fingerprint binding p"
    and fresh: "promise_result im' p = None" "p < length (im_promises im')"
    using assms(1)
    by (auto simp: owned_by_def idem_acquire_def promise_result_def Let_def split: option.splits if_splits)
  show "fst (idem_acquire (foldl idem_step im' calls) key f b) =
      (if (f, b) = (fingerprint, binding) then Acq_duplicate p else Acq_conflict)"
    by (rule owned_by_answer [OF owned_by_run [OF owned assms(2)]])
  have "settled_with (idem_complete im' p r) p r"
    using fresh by (simp add: settled_with_def promise_result_def idem_complete_def)
  then show "promise_result (foldl idem_step (idem_complete im' p r) later) p = Some r"
    using settled_run [of "idem_complete im' p r" p r later] by (simp add: settled_with_def)
qed

definition sample_result :: "execution_state \<Rightarrow> execution_result" where
  "sample_result status =
     \<lparr>xr_executionId = ''x'', xr_toolName = ''t'', xr_status = status, xr_attemptCount = 1,
      xr_deduplicated = False, xr_startedAt = 1, xr_completedAt = 2, xr_result = None,
      xr_error = None, xr_recovery = None\<rparr>"

theorem idempotency_single_owner_witness:
  "let im' = snd (idem_acquire new_idempotency ''k'' ''f'' ''b'');
       im = foldl idem_step im' [Idem_acquire ''k'' ''g'' ''b'', Idem_release ''k'' ''f'' ''c'']
   in fst (idem_acquire im ''k'' ''f'' ''b'') = Acq_duplicate 0 \<and>
      promise_result (foldl idem_step (idem_complete im' 0 (sample_result X_SUCCEEDED))
        [Idem_complete 0 (sample_result X_FAILED)]) 0 = Some (sample_result X_SUCCEEDED)"
  using idempotency_single_owner [of new_idempotency "''k''" "''f''" "''b''" 0 _
      "[Idem_acquire ''k'' ''g'' ''b'', Idem_release ''k'' ''f'' ''c'']" "''f''" "''b''"
      "sample_result X_SUCCEEDED" "[Idem_complete 0 (sample_result X_FAILED)]", OF _ _ ]
  by (simp add: idem_ops new_idempotency_def Let_def)

end
