(* ===== verification/ExecConcurrency.thy ===== *)
theory ExecConcurrency
  imports Prelude
begin

text \<open>
  Bounded execution admission, \<open>packages/executor/src/concurrency.ts\<close>: reads are capped
  independently, side effects are capped globally and serialized per vehicle, and waiters
  queue up to a bound and a timeout. A call of \<open>acquire\<close> is a ticket (its number is the order
  of the call); the promise it returns is answered by an entry of \<open>ec_answers\<close>; a permit is
  an entry of \<open>ec_permits\<close> with the closure variables of \<open>#start\<close>. The observer only reads
  snapshots and its exceptions are swallowed, so it has no part in the state.
\<close>

section \<open>The controller and its operations\<close>

datatype execution_rejection = EA_QUEUE_FULL | EA_QUEUE_TIMEOUT

datatype execution_admission = EA_admitted nat | EA_refused execution_rejection

record waiter =
  wa_ticket :: nat
  wa_sideEffect :: bool
  wa_vehicleId :: string

record permit =
  pe_sideEffect :: bool
  pe_vehicleId :: string
  pe_released :: bool

record concurrency =
  ec_maxRead :: int
  ec_maxWrite :: int
  ec_maxQueue :: int
  ec_queueTimeoutMs :: int
  ec_activeVehicles :: "string list"
  ec_queue :: "waiter list"
  ec_readActive :: int
  ec_writeActive :: int
  ec_rejected :: int
  ec_permits :: "permit list"
  ec_tickets :: nat
  ec_answers :: "(nat \<times> execution_admission) list"

datatype concurrency_error = EC_not_a_positive_integer string

definition positiveInteger :: "int \<Rightarrow> string \<Rightarrow> (concurrency_error, int) result" where
  "positiveInteger value name =
     (if \<not> is_safe_integer value \<or> value < 1 then Inl (EC_not_a_positive_integer name)
      else Inr value)"

record concurrency_options =
  co_maxRead :: "int option"
  co_maxWrite :: "int option"
  co_maxQueue :: "int option"
  co_queueTimeoutMs :: "int option"

definition or_default :: "'a option \<Rightarrow> 'a \<Rightarrow> 'a" where
  "or_default x d = (case x of None \<Rightarrow> d | Some y \<Rightarrow> y)"

definition new_concurrency :: "concurrency_options \<Rightarrow> (concurrency_error, concurrency) result" where
  "new_concurrency opts =
     and_then (positiveInteger (or_default (co_maxRead opts) 4) ''maxReadConcurrency'') (\<lambda>r.
     and_then (positiveInteger (or_default (co_maxWrite opts) 8) ''maxWriteConcurrency'') (\<lambda>w.
     and_then (positiveInteger (or_default (co_maxQueue opts) 4096) ''maxQueue'') (\<lambda>q.
     and_then (positiveInteger (or_default (co_queueTimeoutMs opts) 30000) ''queueTimeoutMs'') (\<lambda>t.
       Inr \<lparr>ec_maxRead = r, ec_maxWrite = w, ec_maxQueue = q, ec_queueTimeoutMs = t,
            ec_activeVehicles = [], ec_queue = [], ec_readActive = 0, ec_writeActive = 0,
            ec_rejected = 0, ec_permits = [], ec_tickets = 0, ec_answers = []\<rparr>))))"

record concurrency_snapshot =
  cs_readActive :: int
  cs_writeActive :: int
  cs_activeVehicles :: int
  cs_queued :: int
  cs_rejected :: int

definition concurrency_snapshot :: "concurrency \<Rightarrow> concurrency_snapshot" where
  "concurrency_snapshot c =
     \<lparr>cs_readActive = ec_readActive c, cs_writeActive = ec_writeActive c,
      cs_activeVehicles = int (length (ec_activeVehicles c)),
      cs_queued = int (length (ec_queue c)), cs_rejected = ec_rejected c\<rparr>"

definition canStart :: "concurrency \<Rightarrow> bool \<Rightarrow> string \<Rightarrow> bool" where
  "canStart c sideEffect vehicleId =
     (if sideEffect
      then ec_writeActive c < ec_maxWrite c \<and> vehicleId \<notin> set (ec_activeVehicles c)
      else ec_readActive c < ec_maxRead c)"

text \<open>\<open>#start\<close> and the answer that carries its permit.\<close>

definition start_permit :: "concurrency \<Rightarrow> nat \<Rightarrow> bool \<Rightarrow> string \<Rightarrow> concurrency" where
  "start_permit c ticket sideEffect vehicleId =
     (let c' = if sideEffect
               then c\<lparr>ec_writeActive := ec_writeActive c + 1,
                      ec_activeVehicles := List.insert vehicleId (ec_activeVehicles c)\<rparr>
               else c\<lparr>ec_readActive := ec_readActive c + 1\<rparr>
      in c'\<lparr>ec_permits := ec_permits c @ [\<lparr>pe_sideEffect = sideEffect,
               pe_vehicleId = vehicleId, pe_released = False\<rparr>],
            ec_answers := ec_answers c @ [(ticket, EA_admitted (length (ec_permits c)))]\<rparr>)"

definition startable :: "concurrency \<Rightarrow> waiter \<Rightarrow> bool" where
  "startable c w \<longleftrightarrow> canStart c (wa_sideEffect w) (wa_vehicleId w)"

definition drain_one :: "concurrency \<Rightarrow> nat \<Rightarrow> concurrency" where
  "drain_one c i =
     (let w = ec_queue c ! i
      in start_permit (c\<lparr>ec_queue := remove_nth i (ec_queue c)\<rparr>)
           (wa_ticket w) (wa_sideEffect w) (wa_vehicleId w))"

lemma start_permit_queue [simp]: "ec_queue (start_permit c t s v) = ec_queue c"
  by (simp add: start_permit_def Let_def)

function drain :: "concurrency \<Rightarrow> concurrency" where
  "drain c =
     (case find_index (startable c) (ec_queue c) of
        None \<Rightarrow> c
      | Some i \<Rightarrow> drain (drain_one c i))"
  by pat_completeness auto
termination
  by (relation "measure (length \<circ> ec_queue)")
    (auto simp: drain_one_def Let_def length_remove_nth dest!: find_index_Some)

declare drain.simps [simp del]

definition concurrency_acquire :: "concurrency \<Rightarrow> bool \<Rightarrow> string \<Rightarrow> concurrency" where
  "concurrency_acquire c0 sideEffect vehicleId =
     (let ticket = ec_tickets c0; c = c0\<lparr>ec_tickets := Suc ticket\<rparr>
      in if ec_queue c = [] \<and> canStart c sideEffect vehicleId
         then start_permit c ticket sideEffect vehicleId
         else if int (length (ec_queue c)) \<ge> ec_maxQueue c
         then c\<lparr>ec_rejected := ec_rejected c + 1,
                ec_answers := ec_answers c @ [(ticket, EA_refused EA_QUEUE_FULL)]\<rparr>
         else drain (c\<lparr>ec_queue := ec_queue c @ [\<lparr>wa_ticket = ticket,
                wa_sideEffect = sideEffect, wa_vehicleId = vehicleId\<rparr>]\<rparr>))"

text \<open>The timer of the waiter with the ticket fires; a cleared timer finds no such waiter.\<close>

definition concurrency_timeout :: "concurrency \<Rightarrow> nat \<Rightarrow> concurrency" where
  "concurrency_timeout c ticket =
     (case find_index (\<lambda>w. wa_ticket w = ticket) (ec_queue c) of
        None \<Rightarrow> c
      | Some i \<Rightarrow> drain (c\<lparr>ec_queue := remove_nth i (ec_queue c),
            ec_rejected := ec_rejected c + 1,
            ec_answers := ec_answers c @ [(ticket, EA_refused EA_QUEUE_TIMEOUT)]\<rparr>))"

text \<open>The holder of the permit calls \<open>release\<close>.\<close>

definition concurrency_release :: "concurrency \<Rightarrow> nat \<Rightarrow> concurrency" where
  "concurrency_release c p =
     (if p \<ge> length (ec_permits c) \<or> pe_released (ec_permits c ! p) then c
      else let pe = ec_permits c ! p;
               c1 = c\<lparr>ec_permits := (ec_permits c)[p := pe\<lparr>pe_released := True\<rparr>]\<rparr>
           in drain (if pe_sideEffect pe
                     then c1\<lparr>ec_writeActive := max 0 (ec_writeActive c - 1),
                             ec_activeVehicles := removeAll (pe_vehicleId pe) (ec_activeVehicles c)\<rparr>
                     else c1\<lparr>ec_readActive := max 0 (ec_readActive c - 1)\<rparr>))"

datatype concurrency_call = EC_acquire bool string | EC_timeout nat | EC_release nat

fun concurrency_step :: "concurrency \<Rightarrow> concurrency_call \<Rightarrow> concurrency" where
  "concurrency_step c (EC_acquire s v) = concurrency_acquire c s v"
| "concurrency_step c (EC_timeout t) = concurrency_timeout c t"
| "concurrency_step c (EC_release p) = concurrency_release c p"

section \<open>The invariant\<close>

text \<open>
  The counters count the unreleased permits and stay under their caps, the active vehicles
  are those of the unreleased write permits (each once), the queue is bounded, every ticket
  is answered once or still waits; and between calls no waiter could start.
\<close>

definition live :: "bool \<Rightarrow> permit \<Rightarrow> bool" where
  "live sideEffect p \<longleftrightarrow> \<not> pe_released p \<and> pe_sideEffect p = sideEffect"

definition live_permits :: "bool \<Rightarrow> concurrency \<Rightarrow> permit list" where
  "live_permits sideEffect c = filter (live sideEffect) (ec_permits c)"

definition concurrency_core :: "concurrency \<Rightarrow> bool" where
  "concurrency_core c \<longleftrightarrow>
     ec_readActive c = int (length (live_permits False c)) \<and> ec_readActive c \<le> ec_maxRead c \<and>
     ec_writeActive c = int (length (live_permits True c)) \<and> ec_writeActive c \<le> ec_maxWrite c \<and>
     distinct (map pe_vehicleId (live_permits True c)) \<and>
     distinct (ec_activeVehicles c) \<and>
     set (ec_activeVehicles c) = pe_vehicleId ` set (live_permits True c) \<and>
     int (length (ec_queue c)) \<le> ec_maxQueue c \<and>
     tickets_ok (ec_tickets c) (map fst (ec_answers c)) (map wa_ticket (ec_queue c))"

definition drained :: "concurrency \<Rightarrow> bool" where
  "drained c \<longleftrightarrow> list_all (\<lambda>w. \<not> startable c w) (ec_queue c)"

definition concurrency_inv :: "concurrency \<Rightarrow> bool" where
  "concurrency_inv c \<longleftrightarrow> concurrency_core c \<and> drained c"

lemma live_permits_update [simp]:
  "live_permits b (c\<lparr>ec_queue := q\<rparr>) = live_permits b c"
  "live_permits b (c\<lparr>ec_tickets := n\<rparr>) = live_permits b c"
  "live_permits b (c\<lparr>ec_rejected := k\<rparr>) = live_permits b c"
  "live_permits b (c\<lparr>ec_answers := xs\<rparr>) = live_permits b c"
  "live_permits b (c\<lparr>ec_activeVehicles := vs\<rparr>) = live_permits b c"
  "live_permits b (c\<lparr>ec_writeActive := k\<rparr>) = live_permits b c"
  "live_permits b (c\<lparr>ec_readActive := k\<rparr>) = live_permits b c"
  "live_permits b (c\<lparr>ec_permits := ps\<rparr>) = filter (live b) ps"
  by (simp_all add: live_permits_def)

lemma canStart_update [simp]:
  "canStart (c\<lparr>ec_queue := q\<rparr>) s v = canStart c s v"
  "canStart (c\<lparr>ec_tickets := n\<rparr>) s v = canStart c s v"
  "canStart (c\<lparr>ec_rejected := k\<rparr>) s v = canStart c s v"
  "canStart (c\<lparr>ec_answers := xs\<rparr>) s v = canStart c s v"
  by (simp_all add: canStart_def)

lemma live_permits_start [simp]:
  "live_permits b (start_permit c t s v) = live_permits b c @
     (if b = s then [\<lparr>pe_sideEffect = s, pe_vehicleId = v, pe_released = False\<rparr>] else [])"
  by (auto simp: live_permits_def start_permit_def live_def Let_def)

lemma start_permit_fields [simp]:
  "ec_maxRead (start_permit c t s v) = ec_maxRead c"
  "ec_maxWrite (start_permit c t s v) = ec_maxWrite c"
  "ec_maxQueue (start_permit c t s v) = ec_maxQueue c"
  "ec_tickets (start_permit c t s v) = ec_tickets c"
  "ec_readActive (start_permit c t s v) = ec_readActive c + (if s then 0 else 1)"
  "ec_writeActive (start_permit c t s v) = ec_writeActive c + (if s then 1 else 0)"
  "ec_activeVehicles (start_permit c t s v) =
     (if s then List.insert v (ec_activeVehicles c) else ec_activeVehicles c)"
  "map fst (ec_answers (start_permit c t s v)) = map fst (ec_answers c) @ [t]"
  by (auto simp: start_permit_def Let_def)

lemma core_start:
  assumes "concurrency_core c" "canStart c s v" and "q = ec_queue c \<or> int (length q) \<le> ec_maxQueue c"
    and "tickets_ok n (map fst (ec_answers c) @ [t]) (map wa_ticket q)"
  shows "concurrency_core (start_permit (c\<lparr>ec_queue := q, ec_tickets := n\<rparr>) t s v)"
  using assms by (cases s) (auto simp: concurrency_core_def canStart_def)

lemma core_drain_one:
  assumes "concurrency_core c" "find_index (startable c) (ec_queue c) = Some i"
  shows "concurrency_core (drain_one c i)"
proof -
  have i: "i < length (ec_queue c)" "startable c (ec_queue c ! i)"
    using assms(2) by (auto dest: find_index_Some)
  have "concurrency_core (start_permit
      (c\<lparr>ec_queue := remove_nth i (ec_queue c), ec_tickets := ec_tickets c\<rparr>)
      (wa_ticket (ec_queue c ! i)) (wa_sideEffect (ec_queue c ! i)) (wa_vehicleId (ec_queue c ! i)))"
  proof (rule core_start [OF assms(1)])
    show "tickets_ok (ec_tickets c) (map fst (ec_answers c) @ [wa_ticket (ec_queue c ! i)])
      (map wa_ticket (remove_nth i (ec_queue c)))"
      using assms(1) i tickets_answer_waiting [of _ _ "map wa_ticket (ec_queue c)" i]
      by (simp add: concurrency_core_def map_remove_nth)
  qed (use assms(1) i in \<open>auto simp: concurrency_core_def startable_def length_remove_nth\<close>)
  then show ?thesis by (simp add: drain_one_def Let_def)
qed

lemma inv_drain: "concurrency_core c \<Longrightarrow> concurrency_inv (drain c)"
proof (induction c rule: drain.induct)
  case (1 c)
  show ?case
  proof (cases "find_index (startable c) (ec_queue c)")
    case None
    then have "drain c = c" by (subst drain.simps) (simp only: option.case)
    with 1 None show ?thesis
      by (simp add: concurrency_inv_def drained_def find_index_None list_all_iff)
  next
    case (Some i)
    with 1 core_drain_one [of c i] show ?thesis by (subst drain.simps) simp
  qed
qed

lemma inv_acquire: "concurrency_inv c \<Longrightarrow> concurrency_inv (concurrency_acquire c s v)"
proof -
  assume inv: "concurrency_inv c"
  then have core: "concurrency_core c" by (simp add: concurrency_inv_def)
  then have tk: "tickets_ok (Suc (ec_tickets c)) (map fst (ec_answers c) @ [ec_tickets c])
      (map wa_ticket (ec_queue c))"
    "tickets_ok (Suc (ec_tickets c)) (map fst (ec_answers c))
      (map wa_ticket (ec_queue c) @ [ec_tickets c])"
    by (auto simp: concurrency_core_def intro: tickets_answer_new tickets_wait_new)
  consider (start) "ec_queue c = []" "canStart c s v"
    | (full) "\<not> (ec_queue c = [] \<and> canStart c s v)" "int (length (ec_queue c)) \<ge> ec_maxQueue c"
    | (wait) "\<not> (ec_queue c = [] \<and> canStart c s v)" "int (length (ec_queue c)) < ec_maxQueue c"
    by linarith
  then show ?thesis
  proof cases
    case start
    have same: "c\<lparr>ec_queue := ec_queue c, ec_tickets := n\<rparr> = c\<lparr>ec_tickets := n\<rparr>" for n by simp
    have "concurrency_core (start_permit (c\<lparr>ec_queue := ec_queue c,
        ec_tickets := Suc (ec_tickets c)\<rparr>) (ec_tickets c) s v)"
      using tk by (intro core_start [OF core start(2)]) simp_all
    then have "concurrency_core (concurrency_acquire c s v)"
      unfolding same using start by (simp add: concurrency_acquire_def Let_def)
    with start show ?thesis
      by (simp add: concurrency_inv_def drained_def concurrency_acquire_def Let_def)
  next
    case full
    with inv tk show ?thesis
      by (auto simp: concurrency_inv_def concurrency_acquire_def Let_def concurrency_core_def
          drained_def startable_def)
  next
    case wait
    have "concurrency_core (c\<lparr>ec_tickets := Suc (ec_tickets c), ec_queue := ec_queue c @
        [\<lparr>wa_ticket = ec_tickets c, wa_sideEffect = s, wa_vehicleId = v\<rparr>]\<rparr>)"
      using core tk wait by (simp add: concurrency_core_def live_permits_def)
    from inv_drain [OF this] wait show ?thesis
      by (auto simp: concurrency_acquire_def Let_def)
  qed
qed

lemma inv_timeout: "concurrency_inv c \<Longrightarrow> concurrency_inv (concurrency_timeout c t)"
proof (cases "find_index (\<lambda>w. wa_ticket w = t) (ec_queue c)")
  case (Some i)
  assume "concurrency_inv c"
  then have core: "concurrency_core c" by (simp add: concurrency_inv_def)
  have i: "i < length (ec_queue c)" "wa_ticket (ec_queue c ! i) = t"
    using Some by (auto dest: find_index_Some)
  have "concurrency_core (c\<lparr>ec_queue := remove_nth i (ec_queue c),
      ec_rejected := ec_rejected c + 1,
      ec_answers := ec_answers c @ [(t, EA_refused EA_QUEUE_TIMEOUT)]\<rparr>)"
    using core i tickets_answer_waiting [of _ _ "map wa_ticket (ec_queue c)" i]
    by (auto simp: concurrency_core_def live_permits_def map_remove_nth length_remove_nth)
  from inv_drain [OF this] Some show ?thesis by (simp add: concurrency_timeout_def)
qed (simp add: concurrency_timeout_def)

lemma inv_release: "concurrency_inv c \<Longrightarrow> concurrency_inv (concurrency_release c p)"
proof (cases "p \<ge> length (ec_permits c) \<or> pe_released (ec_permits c ! p)")
  case False
  define pe where "pe = ec_permits c ! p"
  define ps where "ps = (ec_permits c)[p := pe\<lparr>pe_released := True\<rparr>]"
  assume "concurrency_inv c"
  then have core: "concurrency_core c" by (simp add: concurrency_inv_def)
  have p: "p < length (ec_permits c)" "live (pe_sideEffect pe) (ec_permits c ! p)"
    using False by (auto simp: pe_def live_def)
  obtain as bs where old: "live_permits (pe_sideEffect pe) c = as @ pe # bs"
    and new: "filter (live (pe_sideEffect pe)) ps = as @ bs"
    using filter_update [where xs = "ec_permits c" and P = "live (pe_sideEffect pe)" and i = p
        and y = "pe\<lparr>pe_released := True\<rparr>"] p
    by (auto simp: live_permits_def live_def ps_def pe_def)
  have other: "filter (live (\<not> pe_sideEffect pe)) ps = live_permits (\<not> pe_sideEffect pe) c"
    unfolding ps_def live_permits_def by (rule filter_update_neither) (auto simp: live_def pe_def)
  have "concurrency_core (if pe_sideEffect pe
        then c\<lparr>ec_permits := ps, ec_writeActive := max 0 (ec_writeActive c - 1),
               ec_activeVehicles := removeAll (pe_vehicleId pe) (ec_activeVehicles c)\<rparr>
        else c\<lparr>ec_permits := ps, ec_readActive := max 0 (ec_readActive c - 1)\<rparr>)"
    using core old new other
    by (cases "pe_sideEffect pe")
      (auto simp: concurrency_core_def distinct_removeAll simp del: set_filter, (metis imageI)+)
  from inv_drain [OF this] False show ?thesis
    by (simp add: concurrency_release_def Let_def pe_def [symmetric] ps_def split: if_splits)
qed (simp add: concurrency_release_def)

lemma inv_new: "new_concurrency opts = Inr c \<Longrightarrow> concurrency_inv c"
  by (auto simp: new_concurrency_def concurrency_inv_def concurrency_core_def drained_def
      live_permits_def tickets_ok_def positiveInteger_def split: if_splits)

interpretation ec: guarded_machine "\<lambda>c. \<exists>opts. new_concurrency opts = Inr c"
  concurrency_step concurrency_inv
proof unfold_locales
  fix c e
  assume "concurrency_inv c"
  then show "concurrency_inv (concurrency_step c e)"
    by (cases e) (auto intro: inv_acquire inv_timeout inv_release)
qed (auto intro: inv_new)

lemma config_drain:
  "ec_maxRead (drain c) = ec_maxRead c \<and> ec_maxWrite (drain c) = ec_maxWrite c \<and>
   ec_maxQueue (drain c) = ec_maxQueue c"
  by (induction c rule: drain.induct)
    (subst (1 2 3) drain.simps, auto split: option.splits simp: drain_one_def Let_def)

lemma config_step [simp]:
  "ec_maxRead (concurrency_step c e) = ec_maxRead c"
  "ec_maxWrite (concurrency_step c e) = ec_maxWrite c"
  "ec_maxQueue (concurrency_step c e) = ec_maxQueue c"
  by (cases e; simp add: concurrency_acquire_def concurrency_timeout_def concurrency_release_def
      config_drain Let_def split: option.splits)+

lemma config_run [simp]:
  "ec_maxRead (foldl concurrency_step c es) = ec_maxRead c"
  "ec_maxWrite (foldl concurrency_step c es) = ec_maxWrite c"
  "ec_maxQueue (foldl concurrency_step c es) = ec_maxQueue c"
  by (induction es arbitrary: c) simp_all

section \<open>What admission promises\<close>

text \<open>
  C10. Whatever the calls, timeouts and releases since construction: no more unreleased read
  permits than the read cap, no more unreleased write permits than the write cap, and no two
  unreleased write permits for the same vehicle.
\<close>

theorem admission_caps_and_vehicle_serialization:
  assumes "new_concurrency opts = Inr c0"
  shows "int (length (live_permits False (foldl concurrency_step c0 calls))) \<le> ec_maxRead c0 \<and>
    int (length (live_permits True (foldl concurrency_step c0 calls))) \<le> ec_maxWrite c0 \<and>
    distinct (map pe_vehicleId (live_permits True (foldl concurrency_step c0 calls)))"
proof -
  have "concurrency_inv (foldl concurrency_step c0 calls)"
    using assms by (intro ec.run_inv_from_initial) blast
  then show ?thesis
    by (simp add: concurrency_inv_def concurrency_core_def config_run)
qed

definition two_writer_options :: concurrency_options where
  "two_writer_options = \<lparr>co_maxRead = Some 1, co_maxWrite = Some 2, co_maxQueue = Some 3,
     co_queueTimeoutMs = None\<rparr>"

definition two_writer_controller :: concurrency where
  "two_writer_controller = \<lparr>ec_maxRead = 1, ec_maxWrite = 2, ec_maxQueue = 3,
     ec_queueTimeoutMs = 30000, ec_activeVehicles = [], ec_queue = [], ec_readActive = 0,
     ec_writeActive = 0, ec_rejected = 0, ec_permits = [], ec_tickets = 0, ec_answers = []\<rparr>"

definition two_writer_calls :: "concurrency_call list" where
  "two_writer_calls = [EC_acquire True ''v1'', EC_acquire True ''v1'', EC_acquire True ''v2'',
     EC_acquire False ''v1'', EC_acquire False ''v1'', EC_release 0, EC_timeout 4]"

lemma two_writer_new: "new_concurrency two_writer_options = Inr two_writer_controller"
  by (simp add: new_concurrency_def two_writer_options_def two_writer_controller_def
      positiveInteger_def or_default_def is_safe_integer_def MAX_SAFE_INTEGER_def)

theorem admission_caps_and_vehicle_serialization_witness:
  "int (length (live_permits False (foldl concurrency_step two_writer_controller two_writer_calls))) \<le> 1 \<and>
   int (length (live_permits True (foldl concurrency_step two_writer_controller two_writer_calls))) \<le> 2 \<and>
   distinct (map pe_vehicleId
     (live_permits True (foldl concurrency_step two_writer_controller two_writer_calls)))"
  using admission_caps_and_vehicle_serialization [OF two_writer_new, of two_writer_calls]
  by (simp add: two_writer_controller_def)

text \<open>
  C11. No lost and no doubled answer: every \<open>acquire\<close> so far is answered exactly once or its
  waiter is in the queue, the queue is bounded, and a waiter is in the queue only while it
  could not start.
\<close>

theorem admission_answers_every_request_once:
  assumes "new_concurrency opts = Inr c0"
  shows "tickets_ok (ec_tickets (foldl concurrency_step c0 calls))
      (map fst (ec_answers (foldl concurrency_step c0 calls)))
      (map wa_ticket (ec_queue (foldl concurrency_step c0 calls))) \<and>
    int (length (ec_queue (foldl concurrency_step c0 calls))) \<le> ec_maxQueue c0 \<and>
    list_all (\<lambda>w. \<not> canStart (foldl concurrency_step c0 calls) (wa_sideEffect w) (wa_vehicleId w))
      (ec_queue (foldl concurrency_step c0 calls))"
proof -
  have "concurrency_inv (foldl concurrency_step c0 calls)"
    using assms by (intro ec.run_inv_from_initial) blast
  then show ?thesis
    by (simp add: concurrency_inv_def concurrency_core_def config_run drained_def startable_def)
qed

theorem admission_answers_every_request_once_witness:
  "let c = foldl concurrency_step two_writer_controller two_writer_calls
   in tickets_ok (ec_tickets c) (map fst (ec_answers c)) (map wa_ticket (ec_queue c)) \<and>
      int (length (ec_queue c)) \<le> 3"
  using admission_answers_every_request_once [OF two_writer_new, of two_writer_calls]
  unfolding Let_def by (simp add: two_writer_controller_def)

end
