(* ===== verification/Admission.thy ===== *)
theory Admission
  imports ExecConcurrency
begin

text \<open>
  Bounded first-in first-out admission of API requests,
  \<open>apps/api/src/admission-control.ts\<close>, with graceful shutdown. Tickets, answers and permits
  are represented as in \<open>ExecConcurrency\<close>.
\<close>

section \<open>The controller and its operations\<close>

datatype request_rejection = RR_QUEUE_FULL | RR_QUEUE_TIMEOUT | RR_SHUTTING_DOWN

datatype request_admission = RQ_admitted nat | RQ_refused request_rejection

record request_controller =
  rq_maxConcurrent :: int
  rq_maxQueue :: int
  rq_queueTimeoutMs :: int
  rq_queue :: "nat list"
  rq_accepting :: bool
  rq_active :: int
  rq_rejected :: int
  rq_released :: "bool list"
  rq_tickets :: nat
  rq_answers :: "(nat \<times> request_admission) list"

datatype request_error = RQ_not_in_bounds string

definition boundedPositive :: "int \<Rightarrow> string \<Rightarrow> (request_error, int) result" where
  "boundedPositive value name =
     (if \<not> is_safe_integer value \<or> value < 1 \<or> value > 100000 then Inl (RQ_not_in_bounds name)
      else Inr value)"

record request_options =
  ro_maxConcurrent :: "int option"
  ro_maxQueue :: "int option"
  ro_queueTimeoutMs :: "int option"

definition new_request_controller :: "request_options \<Rightarrow> (request_error, request_controller) result" where
  "new_request_controller opts =
     and_then (boundedPositive (or_default (ro_maxConcurrent opts) 32) ''maxConcurrent'') (\<lambda>m.
     and_then (boundedPositive (or_default (ro_maxQueue opts) 64) ''maxQueue'') (\<lambda>q.
     and_then (boundedPositive (or_default (ro_queueTimeoutMs opts) 500) ''queueTimeoutMs'') (\<lambda>t.
       Inr \<lparr>rq_maxConcurrent = m, rq_maxQueue = q, rq_queueTimeoutMs = t, rq_queue = [],
            rq_accepting = True, rq_active = 0, rq_rejected = 0, rq_released = [],
            rq_tickets = 0, rq_answers = []\<rparr>)))"

record request_snapshot =
  rqs_accepting :: bool
  rqs_active :: int
  rqs_queued :: int
  rqs_rejected :: int

definition request_snapshot :: "request_controller \<Rightarrow> request_snapshot" where
  "request_snapshot c =
     \<lparr>rqs_accepting = rq_accepting c, rqs_active = rq_active c,
      rqs_queued = int (length (rq_queue c)), rqs_rejected = rq_rejected c\<rparr>"

text \<open>\<open>#reject\<close> and \<open>#permit\<close>, each with the answer it is used for.\<close>

definition reject_request :: "request_controller \<Rightarrow> nat \<Rightarrow> request_rejection \<Rightarrow> request_controller" where
  "reject_request c ticket reason =
     c\<lparr>rq_rejected := rq_rejected c + 1,
       rq_answers := rq_answers c @ [(ticket, RQ_refused reason)]\<rparr>"

definition permit_request :: "request_controller \<Rightarrow> nat \<Rightarrow> request_controller" where
  "permit_request c ticket =
     c\<lparr>rq_active := rq_active c + 1, rq_released := rq_released c @ [False],
       rq_answers := rq_answers c @ [(ticket, RQ_admitted (length (rq_released c)))]\<rparr>"

definition request_acquire :: "request_controller \<Rightarrow> request_controller" where
  "request_acquire c0 =
     (let ticket = rq_tickets c0; c = c0\<lparr>rq_tickets := Suc ticket\<rparr>
      in if \<not> rq_accepting c then reject_request c ticket RR_SHUTTING_DOWN
         else if rq_active c < rq_maxConcurrent c \<and> rq_queue c = [] then permit_request c ticket
         else if int (length (rq_queue c)) \<ge> rq_maxQueue c
         then reject_request c ticket RR_QUEUE_FULL
         else c\<lparr>rq_queue := rq_queue c @ [ticket]\<rparr>)"

definition request_timeout :: "request_controller \<Rightarrow> nat \<Rightarrow> request_controller" where
  "request_timeout c ticket =
     (case find_index (\<lambda>t. t = ticket) (rq_queue c) of
        None \<Rightarrow> c
      | Some i \<Rightarrow> reject_request (c\<lparr>rq_queue := remove_nth i (rq_queue c)\<rparr>) ticket RR_QUEUE_TIMEOUT)"

definition beginShutdown :: "request_controller \<Rightarrow> request_controller" where
  "beginShutdown c =
     (if \<not> rq_accepting c then c
      else foldl (\<lambda>c' t. reject_request c' t RR_SHUTTING_DOWN)
             (c\<lparr>rq_accepting := False, rq_queue := []\<rparr>) (rq_queue c))"

function request_drain :: "request_controller \<Rightarrow> request_controller" where
  "request_drain c =
     (if rq_accepting c \<and> rq_active c < rq_maxConcurrent c
      then (case rq_queue c of
              [] \<Rightarrow> c
            | t # ts \<Rightarrow> request_drain (permit_request (c\<lparr>rq_queue := ts\<rparr>) t))
      else c)"
  by pat_completeness auto
termination
  by (relation "measure (length \<circ> rq_queue)") (auto simp: permit_request_def)

declare request_drain.simps [simp del]

definition request_release :: "request_controller \<Rightarrow> nat \<Rightarrow> request_controller" where
  "request_release c p =
     (if p \<ge> length (rq_released c) \<or> rq_released c ! p then c
      else request_drain (c\<lparr>rq_released := (rq_released c)[p := True],
             rq_active := max 0 (rq_active c - 1)\<rparr>))"

datatype request_call = RC_acquire | RC_timeout nat | RC_beginShutdown | RC_release nat

fun request_step :: "request_controller \<Rightarrow> request_call \<Rightarrow> request_controller" where
  "request_step c RC_acquire = request_acquire c"
| "request_step c (RC_timeout t) = request_timeout c t"
| "request_step c RC_beginShutdown = beginShutdown c"
| "request_step c (RC_release p) = request_release c p"

section \<open>The invariant\<close>

definition admitted_tickets :: "request_controller \<Rightarrow> nat list" where
  "admitted_tickets c = map fst (filter (\<lambda>(t, a). (case a of RQ_admitted _ \<Rightarrow> True | RQ_refused _ \<Rightarrow> False))
     (rq_answers c))"

text \<open>
  Answers, queue bound and cap as in \<open>ExecConcurrency\<close>; the admitted tickets followed by the
  waiting ones are increasing (first come, first served); after shutdown nobody waits, and
  before it nobody waits while a slot is free.
\<close>

definition request_core :: "request_controller \<Rightarrow> bool" where
  "request_core c \<longleftrightarrow>
     rq_active c = int (length (filter Not (rq_released c))) \<and>
     rq_active c \<le> rq_maxConcurrent c \<and>
     int (length (rq_queue c)) \<le> rq_maxQueue c \<and>
     tickets_ok (rq_tickets c) (map fst (rq_answers c)) (rq_queue c) \<and>
     sorted_wrt (<) (admitted_tickets c @ rq_queue c) \<and>
     (\<not> rq_accepting c \<longrightarrow> rq_queue c = [])"

definition request_inv :: "request_controller \<Rightarrow> bool" where
  "request_inv c \<longleftrightarrow> request_core c \<and> (rq_queue c \<noteq> [] \<longrightarrow> rq_active c \<ge> rq_maxConcurrent c)"

lemma admitted_tickets_simps [simp]:
  "admitted_tickets (permit_request c t) = admitted_tickets c @ [t]"
  "admitted_tickets (reject_request c t r) = admitted_tickets c"
  "admitted_tickets (c\<lparr>rq_queue := q\<rparr>) = admitted_tickets c"
  "admitted_tickets (c\<lparr>rq_tickets := n\<rparr>) = admitted_tickets c"
  "admitted_tickets (c\<lparr>rq_accepting := b\<rparr>) = admitted_tickets c"
  "admitted_tickets (c\<lparr>rq_active := a\<rparr>) = admitted_tickets c"
  "admitted_tickets (c\<lparr>rq_released := rs\<rparr>) = admitted_tickets c"
  by (simp_all add: admitted_tickets_def permit_request_def reject_request_def)

lemma permit_request_fields [simp]:
  "rq_active (permit_request c t) = rq_active c + 1"
  "rq_released (permit_request c t) = rq_released c @ [False]"
  "rq_maxConcurrent (permit_request c t) = rq_maxConcurrent c"
  "rq_maxQueue (permit_request c t) = rq_maxQueue c"
  "rq_queue (permit_request c t) = rq_queue c"
  "rq_tickets (permit_request c t) = rq_tickets c"
  "rq_accepting (permit_request c t) = rq_accepting c"
  "map fst (rq_answers (permit_request c t)) = map fst (rq_answers c) @ [t]"
  by (simp_all add: permit_request_def)

lemma reject_request_fields [simp]:
  "rq_active (reject_request c t r) = rq_active c"
  "rq_released (reject_request c t r) = rq_released c"
  "rq_maxConcurrent (reject_request c t r) = rq_maxConcurrent c"
  "rq_maxQueue (reject_request c t r) = rq_maxQueue c"
  "rq_queue (reject_request c t r) = rq_queue c"
  "rq_tickets (reject_request c t r) = rq_tickets c"
  "rq_accepting (reject_request c t r) = rq_accepting c"
  "map fst (rq_answers (reject_request c t r)) = map fst (rq_answers c) @ [t]"
  by (simp_all add: reject_request_def)

lemma admitted_answered: "set (admitted_tickets c) \<subseteq> fst ` set (rq_answers c)"
  by (auto simp: admitted_tickets_def)

lemma core_bound: "request_core c \<Longrightarrow> t \<in> set (admitted_tickets c @ rq_queue c) \<Longrightarrow> t < rq_tickets c"
  using admitted_answered [of c] by (auto simp: request_core_def tickets_ok_def)

lemma core_permit_new:
  assumes "request_core c" "rq_active c < rq_maxConcurrent c" "rq_queue c = []"
  shows "request_core (permit_request (c\<lparr>rq_tickets := Suc (rq_tickets c)\<rparr>) (rq_tickets c))"
  using assms core_bound [OF assms(1)]
  by (auto simp: request_core_def sorted_wrt_append intro: tickets_answer_new)

lemma core_permit_head:
  assumes "request_core c" "rq_active c < rq_maxConcurrent c" "rq_queue c = t # ts"
  shows "request_core (permit_request (c\<lparr>rq_queue := ts\<rparr>) t)"
  using assms tickets_answer_waiting [of "rq_tickets c" "map fst (rq_answers c)" "t # ts" 0]
  by (auto simp: request_core_def remove_nth_def)

lemma inv_request_drain: "request_core c \<Longrightarrow> request_inv (request_drain c)"
proof (induction c rule: request_drain.induct)
  case (1 c)
  show ?case
  proof (cases "rq_accepting c \<and> rq_active c < rq_maxConcurrent c")
    case True
    show ?thesis
    proof (cases "rq_queue c")
      case Nil
      with True have "request_drain c = c" by (subst request_drain.simps) simp
      with 1 Nil show ?thesis by (simp add: request_inv_def)
    next
      case (Cons t ts)
      with True have "request_drain c = request_drain (permit_request (c\<lparr>rq_queue := ts\<rparr>) t)"
        by (subst request_drain.simps) simp
      with 1 True Cons core_permit_head [of c t ts] show ?thesis by simp
    qed
  next
    case False
    then have "request_drain c = c" by (subst request_drain.simps) (simp only: if_False)
    with 1 False show ?thesis by (auto simp: request_inv_def request_core_def)
  qed
qed

lemma core_reject_new:
  "request_core c \<Longrightarrow>
   request_core (reject_request (c\<lparr>rq_tickets := Suc (rq_tickets c)\<rparr>) (rq_tickets c) r)"
  by (auto simp: request_core_def intro: tickets_answer_new)

lemma inv_request_acquire: "request_inv c \<Longrightarrow> request_inv (request_acquire c)"
proof -
  assume inv: "request_inv c"
  then have core: "request_core c" by (simp add: request_inv_def)
  have wait: "request_core (c\<lparr>rq_tickets := Suc (rq_tickets c),
      rq_queue := rq_queue c @ [rq_tickets c]\<rparr>)"
    if "rq_accepting c" "int (length (rq_queue c)) < rq_maxQueue c"
    using core that core_bound [OF core]
    by (auto simp: request_core_def tickets_wait_new sorted_wrt_append)
  consider "\<not> rq_accepting c" | "rq_accepting c" "rq_active c < rq_maxConcurrent c" "rq_queue c = []"
    | "rq_accepting c" "\<not> (rq_active c < rq_maxConcurrent c \<and> rq_queue c = [])"
      "int (length (rq_queue c)) \<ge> rq_maxQueue c"
    | "rq_accepting c" "\<not> (rq_active c < rq_maxConcurrent c \<and> rq_queue c = [])"
      "int (length (rq_queue c)) < rq_maxQueue c"
    by linarith
  then show ?thesis
  proof cases
    case 1
    with inv core_reject_new [OF core] show ?thesis
      by (auto simp: request_acquire_def Let_def request_inv_def)
  next
    case 2
    with core_permit_new [OF core] show ?thesis
      by (auto simp: request_acquire_def Let_def request_inv_def)
  next
    case 3
    with inv core_reject_new [OF core] show ?thesis
      by (auto simp: request_acquire_def Let_def request_inv_def)
  next
    case 4
    with inv wait show ?thesis
      by (auto simp: request_acquire_def Let_def request_inv_def)
  qed
qed

lemma inv_request_timeout: "request_inv c \<Longrightarrow> request_inv (request_timeout c t)"
proof (cases "find_index (\<lambda>x. x = t) (rq_queue c)")
  case (Some i)
  assume inv: "request_inv c"
  have i: "i < length (rq_queue c)" "rq_queue c ! i = t"
    using Some by (auto dest: find_index_Some)
  have "sorted_wrt (<) (admitted_tickets c @ remove_nth i (rq_queue c))"
    using inv set_remove_nth_subset [of i "rq_queue c"]
    by (auto simp: request_inv_def request_core_def sorted_wrt_append intro: sorted_wrt_remove_nth)
  with inv i Some show ?thesis
    using tickets_answer_waiting [of "rq_tickets c" "map fst (rq_answers c)" "rq_queue c" i]
    by (auto simp: request_timeout_def request_inv_def request_core_def length_remove_nth
        remove_nth_def)
qed (simp add: request_timeout_def)

lemma reject_all:
  "foldl (\<lambda>c' t. reject_request c' t r) c ts = c\<lparr>rq_rejected := rq_rejected c + int (length ts),
     rq_answers := rq_answers c @ map (\<lambda>t. (t, RQ_refused r)) ts\<rparr>"
  by (induction ts arbitrary: c) (simp_all add: reject_request_def)

lemma admitted_reject_all:
  "admitted_tickets (c\<lparr>rq_rejected := n, rq_answers := rq_answers c @
     map (\<lambda>t. (t, RQ_refused r)) ts\<rparr>) = admitted_tickets c"
  by (simp add: admitted_tickets_def)

lemma inv_beginShutdown: "request_inv c \<Longrightarrow> request_inv (beginShutdown c)"
  using admitted_reject_all [of "c\<lparr>rq_accepting := False, rq_queue := []\<rparr>"]
  by (auto simp: beginShutdown_def request_inv_def request_core_def reject_all tickets_ok_def
      comp_def sorted_wrt_append image_Un image_image)

lemma inv_request_release: "request_inv c \<Longrightarrow> request_inv (request_release c p)"
proof (cases "p \<ge> length (rq_released c) \<or> rq_released c ! p")
  case False
  assume inv: "request_inv c"
  obtain as bs where "filter Not (rq_released c) = as @ False # bs"
    "filter Not ((rq_released c)[p := True]) = as @ bs"
    using filter_update [where xs = "rq_released c" and P = Not and i = p and y = True] False by auto
  with inv have "request_core (c\<lparr>rq_released := (rq_released c)[p := True],
      rq_active := max 0 (rq_active c - 1)\<rparr>)"
    by (auto simp: request_inv_def request_core_def)
  from inv_request_drain [OF this] False show ?thesis by (simp add: request_release_def)
qed (simp add: request_release_def)

interpretation rq: guarded_machine "\<lambda>c. \<exists>opts. new_request_controller opts = Inr c"
  request_step request_inv
proof unfold_locales
  fix c e
  assume "request_inv c"
  then show "request_inv (request_step c e)"
    by (cases e) (auto intro: inv_request_acquire inv_request_timeout inv_beginShutdown
        inv_request_release)
qed (auto simp: new_request_controller_def boundedPositive_def request_inv_def request_core_def
    tickets_ok_def admitted_tickets_def split: if_splits)

section \<open>What request admission promises\<close>

lemma config_request_drain:
  "rq_maxConcurrent (request_drain c) = rq_maxConcurrent c \<and>
   rq_accepting (request_drain c) = rq_accepting c"
  by (induction c rule: request_drain.induct) (subst (1 2) request_drain.simps, auto split: list.splits)

lemma maxConcurrent_step: "rq_maxConcurrent (request_step c e) = rq_maxConcurrent c"
  by (cases e) (simp_all add: request_acquire_def request_timeout_def beginShutdown_def
      request_release_def reject_all config_request_drain Let_def split: option.splits)

lemma maxConcurrent_run [simp]: "rq_maxConcurrent (foldl request_step c es) = rq_maxConcurrent c"
  by (induction es arbitrary: c) (simp_all add: maxConcurrent_step)


lemma request_drain_off: "\<not> rq_accepting c \<Longrightarrow> request_drain c = c"
  by (subst request_drain.simps) simp

lemma not_accepting_step:
  "request_inv c \<Longrightarrow> \<not> rq_accepting c \<Longrightarrow>
   \<not> rq_accepting (request_step c e) \<and> admitted_tickets (request_step c e) = admitted_tickets c"
  by (cases e) (auto simp: request_acquire_def request_timeout_def beginShutdown_def
      request_release_def request_drain_off Let_def request_inv_def request_core_def split: option.splits)

lemma not_accepting_run:
  "request_inv c \<Longrightarrow> \<not> rq_accepting c \<Longrightarrow>
   admitted_tickets (foldl request_step c es) = admitted_tickets c \<and> \<not> rq_accepting (foldl request_step c es)"
proof (induction es arbitrary: c)
  case (Cons e es)
  then show ?case using not_accepting_step [of c e] rq.step_inv [of c e] by simp
qed simp

text \<open>
  Shutdown is final and orderly: once \<open>beginShutdown\<close> ran, every request made before it
  has its answer, and no later sequence of calls admits another request or leaves one
  waiting.
\<close>

theorem shutdown_admits_no_more:
  assumes "new_request_controller opts = Inr c0"
  shows "let c1 = request_step (foldl request_step c0 before) RC_beginShutdown;
             c2 = foldl request_step c1 after
         in set (map fst (rq_answers c1)) = {..<rq_tickets c1} \<and>
            admitted_tickets c2 = admitted_tickets c1 \<and> rq_queue c2 = []"
proof -
  define c1 where "c1 = request_step (foldl request_step c0 before) RC_beginShutdown"
  have inv1: "request_inv c1"
    using assms unfolding c1_def by (intro rq.step_inv rq.run_inv_from_initial) blast
  have off: "\<not> rq_accepting c1" by (auto simp: c1_def beginShutdown_def reject_all)
  have "request_inv (foldl request_step c1 after)"
    using inv1 by (rule rq.run_inv)
  then have "rq_queue (foldl request_step c1 after) = []"
    "admitted_tickets (foldl request_step c1 after) = admitted_tickets c1"
    using not_accepting_run [OF inv1 off, of after]
    by (simp_all add: request_inv_def request_core_def)
  moreover have "set (map fst (rq_answers c1)) = {..<rq_tickets c1}"
    using inv1 off by (auto simp: request_inv_def request_core_def tickets_ok_def)
  ultimately show ?thesis
    unfolding Let_def c1_def [symmetric] by blast
qed

definition one_slot_options :: request_options where
  "one_slot_options = \<lparr>ro_maxConcurrent = Some 1, ro_maxQueue = Some 2, ro_queueTimeoutMs = None\<rparr>"

definition one_slot_controller :: request_controller where
  "one_slot_controller = \<lparr>rq_maxConcurrent = 1, rq_maxQueue = 2, rq_queueTimeoutMs = 500,
     rq_queue = [], rq_accepting = True, rq_active = 0, rq_rejected = 0, rq_released = [],
     rq_tickets = 0, rq_answers = []\<rparr>"

lemma one_slot_new: "new_request_controller one_slot_options = Inr one_slot_controller"
  by (simp add: new_request_controller_def one_slot_options_def one_slot_controller_def
      boundedPositive_def or_default_def is_safe_integer_def MAX_SAFE_INTEGER_def)


theorem shutdown_admits_no_more_witness:
  "let c1 = request_step (foldl request_step one_slot_controller [RC_acquire, RC_acquire])
         RC_beginShutdown;
       c2 = foldl request_step c1 [RC_release 0, RC_acquire]
   in set (map fst (rq_answers c1)) = {..<rq_tickets c1} \<and>
      admitted_tickets c2 = admitted_tickets c1 \<and> rq_queue c2 = []"
  by (rule shutdown_admits_no_more [OF one_slot_new])

end
