(* ===== verification/Domain.thy ===== *)
theory Domain
  imports Complex_Main Canonical "HOL-Library.Sublist"
begin

text \<open>
  The domain model of \<open>packages/domain/src\<close>: vehicle, trip and driving-context records with
  the bounds of \<open>schemas.ts\<close>, the invariants and parsers of \<open>validation.ts\<close> and the errors of
  \<open>errors.ts\<close>. Measured quantities are rationals (every finite number of the language is
  one; the two zeros are one number here). A timestamp string is its epoch milliseconds; a
  string that is not the canonical form is represented by a number outside \<open>iso_range\<close>.
\<close>

section \<open>Errors\<close>

datatype domain_error_code =
  DE_INVALID_FIELD
| DE_OUT_OF_RANGE
| DE_INVALID_ENUM
| DE_INVARIANT_VIOLATION
| DE_STALE_CONTEXT
| DE_INVALID_TIMESTAMP
| DE_VERSION_CONFLICT

datatype vehicle_invariant =
  VEHICLE_PARKED_GEAR_REQUIRES_ZERO_SPEED
| VEHICLE_PARKED_MODE_REQUIRES_ZERO_SPEED
| VEHICLE_CHARGING_REQUIRES_STATIONARY
| VEHICLE_CHARGING_MODE_REQUIRES_ZERO_SPEED
| VEHICLE_CHARGING_MODE_REQUIRES_CHARGING_STATE
| VEHICLE_OCCUPANT_SEATS_UNIQUE
| VEHICLE_IDENTITY_IMMUTABLE
| TRIP_ACTIVE_NAVIGATION_REQUIRES_DESTINATION
| TRIP_ACTIVE_NAVIGATION_REQUIRES_ROUTE_ID
| TRIP_INACTIVE_NAVIGATION_CLEARS_DESTINATION
| TRIP_INACTIVE_NAVIGATION_CLEARS_ROUTE_ID

record domain_issue =
  di_code :: domain_error_code
  di_path :: string
  di_invariant :: "vehicle_invariant option"
  di_future :: bool

record domain_error =
  dv_code :: domain_error_code
  dv_issues :: "domain_issue list"

definition domain_validation_error :: "domain_issue list \<Rightarrow> domain_error" where
  "domain_validation_error issues =
     \<lparr>dv_code = (case issues of [] \<Rightarrow> DE_INVALID_FIELD | i # _ \<Rightarrow> di_code i), dv_issues = issues\<rparr>"

definition domain_fail :: "domain_error_code \<Rightarrow> string \<Rightarrow> (domain_error, 'a) result" where
  "domain_fail code path =
     Inl (domain_validation_error [\<lparr>di_code = code, di_path = path, di_invariant = None,
       di_future = False\<rparr>])"

text \<open>The one message that reports a future timestamp (\<open>di_future\<close>).\<close>

definition future_fail :: "string \<Rightarrow> (domain_error, 'a) result" where
  "future_fail path =
     Inl (domain_validation_error [\<lparr>di_code = DE_INVALID_TIMESTAMP, di_path = path,
       di_invariant = None, di_future = True\<rparr>])"

definition invariant_error :: "string \<Rightarrow> vehicle_invariant \<Rightarrow> domain_error" where
  "invariant_error path name =
     domain_validation_error
       [\<lparr>di_code = DE_INVARIANT_VIOLATION, di_path = path, di_invariant = Some name,
         di_future = False\<rparr>]"

section \<open>Identifiers\<close>

definition domain_id :: "string \<Rightarrow> bool" where
  "domain_id s = safe_id 127 s"

definition version_ok :: "int \<Rightarrow> bool" where
  "version_ok n \<longleftrightarrow> 1 \<le> n \<and> n \<le> MAX_SAFE_INTEGER"

section \<open>Vehicle, trip and context\<close>

datatype gear = GEAR_P | GEAR_R | GEAR_N | GEAR_D
datatype drive_mode = MODE_parked | MODE_driving | MODE_charging
datatype charging_state = CH_not_charging | CH_charging | CH_completed | CH_fault
datatype door_state = DOOR_open | DOOR_closed | DOOR_locked
datatype window_state = WIN_open | WIN_closed | WIN_partially_open
datatype occupant_seat = SEAT_driver | SEAT_front_passenger | SEAT_rear_left | SEAT_rear_center
  | SEAT_rear_right
datatype weather_condition = WX_clear | WX_rain | WX_snow | WX_fog | WX_wind | WX_unknown
datatype user_role = ROLE_driver | ROLE_passenger | ROLE_guest

record occupant_state =
  oc_seat :: occupant_seat
  oc_occupied :: bool

record door_states =
  do_frontLeft :: door_state
  do_frontRight :: door_state
  do_rearLeft :: door_state
  do_rearRight :: door_state
  do_trunk :: door_state

record window_states =
  wi_frontLeft :: window_state
  wi_frontRight :: window_state
  wi_rearLeft :: window_state
  wi_rearRight :: window_state

record vehicle_state =
  ve_vehicleId :: string
  ve_timestamp :: utc_timestamp
  ve_version :: int
  ve_speedKph :: rat
  ve_gear :: gear
  ve_driveMode :: drive_mode
  ve_soc :: rat
  ve_chargingState :: charging_state
  ve_estimatedRangeKm :: rat
  ve_latitude :: rat
  ve_longitude :: rat
  ve_doors :: door_states
  ve_windows :: window_states
  ve_cabinTemperature :: rat
  ve_outsideTemperature :: rat
  ve_occupants :: "occupant_state list"

record trip_state =
  tp_timestamp :: utc_timestamp
  tp_version :: int
  tp_destination :: "string option"
  tp_routeId :: "string option"
  tp_remainingDistanceKm :: rat
  tp_etaMinutes :: rat
  tp_navigationActive :: bool

record weather_state =
  we_condition :: weather_condition
  we_temperatureC :: rat

record driving_user =
  us_userId :: string
  us_role :: user_role

record vehicle_capabilities =
  ca_navigation :: bool
  ca_charging :: bool
  ca_cabinTemperature :: bool
  ca_seatHeating :: bool
  ca_media :: bool
  ca_roadsideAssistance :: bool

record driving_context =
  cx_vehicle :: vehicle_state
  cx_trip :: trip_state
  cx_weather :: weather_state
  cx_user :: driving_user
  cx_capabilities :: vehicle_capabilities
  cx_capturedAt :: utc_timestamp
  cx_contextVersion :: int
  cx_snapshotId :: string

record vehicle_demo_limits =
  lim_maxSpeedKph :: rat
  lim_maxEstimatedRangeKm :: rat
  lim_minCabinTemperatureC :: rat
  lim_maxCabinTemperatureC :: rat
  lim_minOutsideTemperatureC :: rat
  lim_maxOutsideTemperatureC :: rat

definition VEHICLE_DEMO_LIMITS :: vehicle_demo_limits where
  "VEHICLE_DEMO_LIMITS =
     \<lparr>lim_maxSpeedKph = 500, lim_maxEstimatedRangeKm = 5000, lim_minCabinTemperatureC = 16,
      lim_maxCabinTemperatureC = 30, lim_minOutsideTemperatureC = -60,
      lim_maxOutsideTemperatureC = 60\<rparr>"

record trip_demo_limits =
  lim_maxRemainingDistanceKm :: rat
  lim_maxEtaMinutes :: rat

definition TRIP_DEMO_LIMITS :: trip_demo_limits where
  "TRIP_DEMO_LIMITS = \<lparr>lim_maxRemainingDistanceKm = 100000, lim_maxEtaMinutes = 525600\<rparr>"

section \<open>Schema validation\<close>

text \<open>
  What the schema validator reports for a value: the keyword that failed and the path of the
  instance. An untyped input is uncloneable, or not of the declared shape (the validator's
  errors are then part of it, each with whether the value at its path is a number), or a
  record of the declared shape, whose bounds and patterns the model checks itself.
\<close>

record schema_error =
  se_keyword :: string
  se_instancePath :: string
  se_isNumber :: bool

datatype 'a untyped = Uncloneable | Misshaped "schema_error list" | Shaped 'a

definition ends_with :: "string \<Rightarrow> string \<Rightarrow> bool" where
  "ends_with s t = suffix t s"

definition schemaErrorCode :: "schema_error \<Rightarrow> domain_error_code" where
  "schemaErrorCode error =
     (let path = se_instancePath error; keyword = se_keyword error in
      if ends_with path ''/timestamp'' \<or> ends_with path ''/capturedAt'' then DE_INVALID_TIMESTAMP
      else if keyword = ''type'' \<and> (ends_with path ''/version'' \<or> ends_with path ''/contextVersion'')
      then (if se_isNumber error then DE_OUT_OF_RANGE else DE_INVALID_FIELD)
      else if keyword = ''enum'' then DE_INVALID_ENUM
      else if keyword \<in> {''minimum'', ''maximum'', ''exclusiveMinimum'', ''exclusiveMaximum'',
                         ''minItems'', ''maxItems''} then DE_OUT_OF_RANGE
      else DE_INVALID_FIELD)"

definition schemaPath :: "string \<Rightarrow> string \<Rightarrow> string" where
  "schemaPath base instancePath =
     base @ map (\<lambda>c. if c = CHR ''/'' then CHR ''.'' else c) instancePath"

definition schema_issue :: "string \<Rightarrow> schema_error \<Rightarrow> domain_issue" where
  "schema_issue base error =
     \<lparr>di_code = schemaErrorCode error, di_path = schemaPath base (se_instancePath error),
      di_invariant = None, di_future = False\<rparr>"

definition validateSchema ::
  "('a \<Rightarrow> schema_error list) \<Rightarrow> 'a untyped \<Rightarrow> string \<Rightarrow> (domain_error, 'a) result" where
  "validateSchema errors input base =
     (case input of
        Uncloneable \<Rightarrow> domain_fail DE_INVALID_FIELD ''$''
      | Misshaped es \<Rightarrow> Inl (domain_validation_error (map (schema_issue base) es))
      | Shaped x \<Rightarrow>
          (case errors x of
             [] \<Rightarrow> Inr x
           | es \<Rightarrow> Inl (domain_validation_error (map (schema_issue base) es))))"

text \<open>The keywords of the schemas, each as the errors it reports.\<close>

definition err :: "string \<Rightarrow> string \<Rightarrow> schema_error" where
  "err keyword path = \<lparr>se_keyword = keyword, se_instancePath = path, se_isNumber = True\<rparr>"

definition number_between :: "string \<Rightarrow> rat \<Rightarrow> rat \<Rightarrow> rat \<Rightarrow> schema_error list" where
  "number_between path lo hi x =
     (if x < lo then [err ''minimum'' path] else []) @ (if x > hi then [err ''maximum'' path] else [])"

definition version_errors :: "string \<Rightarrow> int \<Rightarrow> schema_error list" where
  "version_errors path n =
     (if n < 1 then [err ''minimum'' path] else []) @
     (if n > MAX_SAFE_INTEGER then [err ''maximum'' path] else [])"

definition id_errors :: "string \<Rightarrow> string \<Rightarrow> schema_error list" where
  "id_errors path s = (if domain_id s then [] else [err ''pattern'' path])"

definition timestamp_errors :: "string \<Rightarrow> utc_timestamp \<Rightarrow> schema_error list" where
  "timestamp_errors path t = (if iso_range t then [] else [err ''pattern'' path])"

definition vehicle_errors :: "string \<Rightarrow> vehicle_state \<Rightarrow> schema_error list" where
  "vehicle_errors loc v =
     id_errors (loc @ ''/vehicleId'') (ve_vehicleId v) @
     timestamp_errors (loc @ ''/timestamp'') (ve_timestamp v) @
     version_errors (loc @ ''/version'') (ve_version v) @
     number_between (loc @ ''/speedKph'') 0 (lim_maxSpeedKph VEHICLE_DEMO_LIMITS) (ve_speedKph v) @
     number_between (loc @ ''/soc'') 0 100 (ve_soc v) @
     number_between (loc @ ''/estimatedRangeKm'') 0 (lim_maxEstimatedRangeKm VEHICLE_DEMO_LIMITS)
       (ve_estimatedRangeKm v) @
     number_between (loc @ ''/latitude'') (-90) 90 (ve_latitude v) @
     number_between (loc @ ''/longitude'') (-180) 180 (ve_longitude v) @
     number_between (loc @ ''/cabinTemperature'') (lim_minCabinTemperatureC VEHICLE_DEMO_LIMITS)
       (lim_maxCabinTemperatureC VEHICLE_DEMO_LIMITS) (ve_cabinTemperature v) @
     number_between (loc @ ''/outsideTemperature'') (lim_minOutsideTemperatureC VEHICLE_DEMO_LIMITS)
       (lim_maxOutsideTemperatureC VEHICLE_DEMO_LIMITS) (ve_outsideTemperature v) @
     (if length (ve_occupants v) > 5 then [err ''maxItems'' (loc @ ''/occupants'')] else [])"

definition trip_errors :: "string \<Rightarrow> trip_state \<Rightarrow> schema_error list" where
  "trip_errors loc t =
     timestamp_errors (loc @ ''/timestamp'') (tp_timestamp t) @
     version_errors (loc @ ''/version'') (tp_version t) @
     (case tp_destination t of
        None \<Rightarrow> []
      | Some d \<Rightarrow> if 1 \<le> length d \<and> length d \<le> 512 then [] else [err ''anyOf'' (loc @ ''/destination'')]) @
     (case tp_routeId t of
        None \<Rightarrow> []
      | Some r \<Rightarrow> if domain_id r then [] else [err ''anyOf'' (loc @ ''/routeId'')]) @
     number_between (loc @ ''/remainingDistanceKm'') 0 (lim_maxRemainingDistanceKm TRIP_DEMO_LIMITS)
       (tp_remainingDistanceKm t) @
     number_between (loc @ ''/etaMinutes'') 0 (lim_maxEtaMinutes TRIP_DEMO_LIMITS) (tp_etaMinutes t)"

definition context_errors :: "driving_context \<Rightarrow> schema_error list" where
  "context_errors c =
     vehicle_errors ''/vehicle'' (cx_vehicle c) @
     trip_errors ''/trip'' (cx_trip c) @
     number_between ''/weather/temperatureC'' (lim_minOutsideTemperatureC VEHICLE_DEMO_LIMITS)
       (lim_maxOutsideTemperatureC VEHICLE_DEMO_LIMITS) (we_temperatureC (cx_weather c)) @
     id_errors ''/user/userId'' (us_userId (cx_user c)) @
     timestamp_errors ''/capturedAt'' (cx_capturedAt c) @
     version_errors ''/contextVersion'' (cx_contextVersion c) @
     id_errors ''/snapshotId'' (cx_snapshotId c)"

section \<open>Timestamps\<close>

definition timestampMs :: "utc_timestamp \<Rightarrow> string \<Rightarrow> (domain_error, int) result" where
  "timestampMs value path =
     (if iso_range value then Inr value else domain_fail DE_INVALID_TIMESTAMP path)"

text \<open>A clock reading is an integer, or not (a fraction or not finite).\<close>

datatype epoch = Epoch_int int | Epoch_other

definition validateNotFuture :: "utc_timestamp \<Rightarrow> string \<Rightarrow> epoch \<Rightarrow> (domain_error, unit) result" where
  "validateNotFuture value path now =
     and_then (timestampMs value path) (\<lambda>parsed.
       case now of
         Epoch_other \<Rightarrow> domain_fail DE_INVALID_TIMESTAMP ''now''
       | Epoch_int nowMs \<Rightarrow>
           if parsed > nowMs then future_fail path else Inr ())"

definition toUtcTimestamp :: "epoch \<Rightarrow> (domain_error, utc_timestamp) result" where
  "toUtcTimestamp epochMs =
     (case epochMs of
        Epoch_other \<Rightarrow> domain_fail DE_INVALID_TIMESTAMP ''epochMs''
      | Epoch_int ms \<Rightarrow> if iso_range ms then Inr ms else domain_fail DE_INVALID_TIMESTAMP ''epochMs'')"

definition timestampToEpochMs :: "utc_timestamp \<Rightarrow> string \<Rightarrow> (domain_error, int) result" where
  "timestampToEpochMs value path = timestampMs value path"

section \<open>Invariants and parsers\<close>

definition validateVehicleInvariants :: "vehicle_state \<Rightarrow> (domain_error, unit) result" where
  "validateVehicleInvariants v =
     (if ve_gear v = GEAR_P \<and> ve_speedKph v \<noteq> 0
      then Inl (invariant_error ''vehicle.speedKph'' VEHICLE_PARKED_GEAR_REQUIRES_ZERO_SPEED)
      else if ve_driveMode v = MODE_parked \<and> ve_speedKph v \<noteq> 0
      then Inl (invariant_error ''vehicle.driveMode'' VEHICLE_PARKED_MODE_REQUIRES_ZERO_SPEED)
      else if ve_chargingState v = CH_charging \<and> ve_speedKph v \<noteq> 0
      then Inl (invariant_error ''vehicle.chargingState'' VEHICLE_CHARGING_REQUIRES_STATIONARY)
      else if ve_driveMode v = MODE_charging \<and> ve_chargingState v \<noteq> CH_charging \<and>
              ve_chargingState v \<noteq> CH_completed
      then Inl (invariant_error ''vehicle.driveMode'' VEHICLE_CHARGING_MODE_REQUIRES_CHARGING_STATE)
      else if ve_driveMode v = MODE_charging \<and> ve_speedKph v \<noteq> 0
      then Inl (invariant_error ''vehicle.driveMode'' VEHICLE_CHARGING_MODE_REQUIRES_ZERO_SPEED)
      else if \<not> distinct (map oc_seat (ve_occupants v))
      then Inl (invariant_error ''vehicle.occupants'' VEHICLE_OCCUPANT_SEATS_UNIQUE)
      else Inr ())"

text \<open>\<open>s.trim().length === 0\<close>: only white space (tab to carriage return, space, no-break space).\<close>

definition js_space :: "char \<Rightarrow> bool" where
  "js_space c \<longleftrightarrow> (let n = (of_char c :: nat) in (9 \<le> n \<and> n \<le> 13) \<or> n = 32 \<or> n = 160)"

definition blank_text :: "string \<Rightarrow> bool" where
  "blank_text s = list_all js_space s"

definition validateTripInvariants :: "trip_state \<Rightarrow> (domain_error, unit) result" where
  "validateTripInvariants t =
     (if tp_navigationActive t \<and>
         (case tp_destination t of None \<Rightarrow> True | Some d \<Rightarrow> blank_text d)
      then Inl (invariant_error ''trip.destination'' TRIP_ACTIVE_NAVIGATION_REQUIRES_DESTINATION)
      else if tp_navigationActive t \<and> tp_routeId t = None
      then Inl (invariant_error ''trip.routeId'' TRIP_ACTIVE_NAVIGATION_REQUIRES_ROUTE_ID)
      else if \<not> tp_navigationActive t \<and> tp_destination t \<noteq> None
      then Inl (invariant_error ''trip.destination'' TRIP_INACTIVE_NAVIGATION_CLEARS_DESTINATION)
      else if \<not> tp_navigationActive t \<and> tp_routeId t \<noteq> None
      then Inl (invariant_error ''trip.routeId'' TRIP_INACTIVE_NAVIGATION_CLEARS_ROUTE_ID)
      else Inr ())"

definition parseVehicleState ::
  "vehicle_state untyped \<Rightarrow> epoch \<Rightarrow> (domain_error, vehicle_state) result" where
  "parseVehicleState input now =
     and_then (validateSchema (vehicle_errors []) input ''vehicle'') (\<lambda>v.
     and_then (validateNotFuture (ve_timestamp v) ''vehicle.timestamp'' now) (\<lambda>_.
     and_then (validateVehicleInvariants v) (\<lambda>_. Inr v)))"

definition parseTripState :: "trip_state untyped \<Rightarrow> epoch \<Rightarrow> (domain_error, trip_state) result" where
  "parseTripState input now =
     and_then (validateSchema (trip_errors []) input ''trip'') (\<lambda>t.
     and_then (validateNotFuture (tp_timestamp t) ''trip.timestamp'' now) (\<lambda>_.
     and_then (validateTripInvariants t) (\<lambda>_. Inr t)))"

definition assertVehicleIdentityUnchanged ::
  "vehicle_state \<Rightarrow> vehicle_state \<Rightarrow> (domain_error, unit) result" where
  "assertVehicleIdentityUnchanged previous next =
     (if ve_vehicleId previous \<noteq> ve_vehicleId next
      then Inl (invariant_error ''vehicle.vehicleId'' VEHICLE_IDENTITY_IMMUTABLE) else Inr ())"

definition parseDrivingContext ::
  "driving_context untyped \<Rightarrow> epoch \<Rightarrow> (domain_error, driving_context) result" where
  "parseDrivingContext input now =
     and_then (validateSchema context_errors input ''context'') (\<lambda>c.
     and_then (validateNotFuture (cx_capturedAt c) ''context.capturedAt'' now) (\<lambda>_.
     and_then (timestampMs (cx_capturedAt c) ''context.capturedAt'') (\<lambda>capturedAtMs.
     and_then (validateNotFuture (ve_timestamp (cx_vehicle c)) ''context.vehicle.timestamp''
       (Epoch_int capturedAtMs)) (\<lambda>_.
     and_then (validateNotFuture (tp_timestamp (cx_trip c)) ''context.trip.timestamp''
       (Epoch_int capturedAtMs)) (\<lambda>_.
     and_then (validateVehicleInvariants (cx_vehicle c)) (\<lambda>_.
     and_then (validateTripInvariants (cx_trip c)) (\<lambda>_. Inr c)))))))"

section \<open>What a parsed context satisfies\<close>

text \<open>The abstract contract of a valid vehicle, trip and context, independent of the parser.\<close>

definition in_bounds :: "rat \<Rightarrow> rat \<Rightarrow> rat \<Rightarrow> bool" where
  "in_bounds lo hi x \<longleftrightarrow> lo \<le> x \<and> x \<le> hi"

definition vehicle_valid :: "vehicle_state \<Rightarrow> bool" where
  "vehicle_valid v \<longleftrightarrow>
     domain_id (ve_vehicleId v) \<and> iso_range (ve_timestamp v) \<and> version_ok (ve_version v) \<and>
     in_bounds 0 500 (ve_speedKph v) \<and> in_bounds 0 100 (ve_soc v) \<and>
     in_bounds 0 5000 (ve_estimatedRangeKm v) \<and>
     in_bounds (-90) 90 (ve_latitude v) \<and> in_bounds (-180) 180 (ve_longitude v) \<and>
     in_bounds 16 30 (ve_cabinTemperature v) \<and> in_bounds (-60) 60 (ve_outsideTemperature v) \<and>
     length (ve_occupants v) \<le> 5 \<and> distinct (map oc_seat (ve_occupants v)) \<and>
     (ve_speedKph v \<noteq> 0 \<longrightarrow> ve_gear v \<noteq> GEAR_P \<and> ve_driveMode v = MODE_driving \<and>
        ve_chargingState v \<noteq> CH_charging) \<and>
     (ve_driveMode v = MODE_charging \<longrightarrow> ve_chargingState v \<in> {CH_charging, CH_completed})"

definition trip_valid :: "trip_state \<Rightarrow> bool" where
  "trip_valid t \<longleftrightarrow>
     iso_range (tp_timestamp t) \<and> version_ok (tp_version t) \<and>
     in_bounds 0 100000 (tp_remainingDistanceKm t) \<and> in_bounds 0 525600 (tp_etaMinutes t) \<and>
     (if tp_navigationActive t
      then (\<exists>d r. tp_destination t = Some d \<and> \<not> blank_text d \<and> length d \<le> 512 \<and>
              tp_routeId t = Some r \<and> domain_id r)
      else tp_destination t = None \<and> tp_routeId t = None)"

definition context_valid :: "driving_context \<Rightarrow> bool" where
  "context_valid c \<longleftrightarrow>
     vehicle_valid (cx_vehicle c) \<and> trip_valid (cx_trip c) \<and>
     in_bounds (-60) 60 (we_temperatureC (cx_weather c)) \<and> domain_id (us_userId (cx_user c)) \<and>
     iso_range (cx_capturedAt c) \<and> version_ok (cx_contextVersion c) \<and>
     domain_id (cx_snapshotId c) \<and>
     ve_timestamp (cx_vehicle c) \<le> cx_capturedAt c \<and> tp_timestamp (cx_trip c) \<le> cx_capturedAt c"

lemma no_range_errors [simp]: "number_between p lo hi x = [] \<longleftrightarrow> in_bounds lo hi x"
  by (auto simp: number_between_def in_bounds_def)

lemma no_version_errors [simp]: "version_errors p n = [] \<longleftrightarrow> version_ok n"
  by (auto simp: version_errors_def version_ok_def)

lemma no_id_errors [simp]: "id_errors p s = [] \<longleftrightarrow> domain_id s"
  by (simp add: id_errors_def)

lemma no_timestamp_errors [simp]: "timestamp_errors p t = [] \<longleftrightarrow> iso_range t"
  by (simp add: timestamp_errors_def)

lemma validateSchema_Inr [simp]: "validateSchema errors i b = Inr x \<longleftrightarrow> i = Shaped x \<and> errors x = []"
  by (auto simp: validateSchema_def domain_fail_def split: untyped.splits list.splits)

lemma timestampMs_Inr [simp]: "timestampMs t p = Inr ms \<longleftrightarrow> iso_range t \<and> ms = t"
  by (auto simp: timestampMs_def domain_fail_def)

lemma validateNotFuture_Inr [simp]:
  "validateNotFuture t p now = Inr u \<longleftrightarrow> iso_range t \<and> (\<exists>n. now = Epoch_int n \<and> t \<le> n)"
  by (cases now) (auto simp: validateNotFuture_def domain_fail_def future_fail_def)

lemma vehicle_invariants_iff:
  "validateVehicleInvariants v = Inr u \<longleftrightarrow>
     distinct (map oc_seat (ve_occupants v)) \<and>
     (ve_speedKph v \<noteq> 0 \<longrightarrow> ve_gear v \<noteq> GEAR_P \<and> ve_driveMode v = MODE_driving \<and>
        ve_chargingState v \<noteq> CH_charging) \<and>
     (ve_driveMode v = MODE_charging \<longrightarrow> ve_chargingState v \<in> {CH_charging, CH_completed})"
  by (cases "ve_driveMode v"; cases "ve_speedKph v = 0") (simp_all add: validateVehicleInvariants_def)

lemma vehicle_errors_iff:
  "vehicle_errors p v = [] \<longleftrightarrow>
     domain_id (ve_vehicleId v) \<and> iso_range (ve_timestamp v) \<and> version_ok (ve_version v) \<and>
     in_bounds 0 500 (ve_speedKph v) \<and> in_bounds 0 100 (ve_soc v) \<and>
     in_bounds 0 5000 (ve_estimatedRangeKm v) \<and>
     in_bounds (-90) 90 (ve_latitude v) \<and> in_bounds (-180) 180 (ve_longitude v) \<and>
     in_bounds 16 30 (ve_cabinTemperature v) \<and> in_bounds (-60) 60 (ve_outsideTemperature v) \<and>
     length (ve_occupants v) \<le> 5"
  by (simp add: vehicle_errors_def VEHICLE_DEMO_LIMITS_def not_less)

lemma vehicle_valid_iff:
  "vehicle_errors p v = [] \<and> validateVehicleInvariants v = Inr u \<longleftrightarrow> vehicle_valid v"
  unfolding vehicle_errors_iff vehicle_invariants_iff vehicle_valid_def by blast

lemma blank_Nil [simp]: "blank_text []"
  by (simp add: blank_text_def)

lemma trip_valid_iff:
  "trip_errors p t = [] \<and> validateTripInvariants t = Inr u \<longleftrightarrow> trip_valid t"
proof -
  have "1 \<le> length d" if "\<not> blank_text d" for d
    using that by (cases d) auto
  then show ?thesis
    by (auto simp: trip_errors_def validateTripInvariants_def trip_valid_def TRIP_DEMO_LIMITS_def
        split: option.splits if_splits)
qed

lemma valid_timestamps:
  "vehicle_valid v \<Longrightarrow> iso_range (ve_timestamp v)" "trip_valid t \<Longrightarrow> iso_range (tp_timestamp t)"
  by (simp_all add: vehicle_valid_def trip_valid_def)

lemma context_errors_iff:
  "context_errors c = [] \<longleftrightarrow>
     vehicle_errors ''/vehicle'' (cx_vehicle c) = [] \<and> trip_errors ''/trip'' (cx_trip c) = [] \<and>
     in_bounds (-60) 60 (we_temperatureC (cx_weather c)) \<and> domain_id (us_userId (cx_user c)) \<and>
     iso_range (cx_capturedAt c) \<and> version_ok (cx_contextVersion c) \<and> domain_id (cx_snapshotId c)"
  by (simp add: context_errors_def VEHICLE_DEMO_LIMITS_def)

lemma parseDrivingContext_iff:
  "parseDrivingContext input now = Inr c \<longleftrightarrow>
     input = Shaped c \<and> context_valid c \<and> (\<exists>n. now = Epoch_int n \<and> cx_capturedAt c \<le> n)"
proof -
  have "parseDrivingContext input now = Inr c \<longleftrightarrow>
    input = Shaped c \<and> context_errors c = [] \<and>
    (iso_range (cx_capturedAt c) \<and> (\<exists>n. now = Epoch_int n \<and> cx_capturedAt c \<le> n)) \<and>
    iso_range (ve_timestamp (cx_vehicle c)) \<and> ve_timestamp (cx_vehicle c) \<le> cx_capturedAt c \<and>
    iso_range (tp_timestamp (cx_trip c)) \<and> tp_timestamp (cx_trip c) \<le> cx_capturedAt c \<and>
    validateVehicleInvariants (cx_vehicle c) = Inr () \<and> validateTripInvariants (cx_trip c) = Inr ()"
    unfolding parseDrivingContext_def and_then_Inr validateSchema_Inr timestampMs_Inr
      validateNotFuture_Inr by auto
  also have "\<dots> \<longleftrightarrow> input = Shaped c \<and> context_valid c \<and>
      (\<exists>n. now = Epoch_int n \<and> cx_capturedAt c \<le> n)"
    unfolding context_errors_iff context_valid_def
      vehicle_valid_iff [of "''/vehicle''" "cx_vehicle c" "()", symmetric]
      trip_valid_iff [of "''/trip''" "cx_trip c" "()", symmetric]
    using valid_timestamps(1) [of "cx_vehicle c"] valid_timestamps(2) [of "cx_trip c"]
      vehicle_valid_iff [of "''/vehicle''" "cx_vehicle c" "()"]
      trip_valid_iff [of "''/trip''" "cx_trip c" "()"]
    by blast
  finally show ?thesis .
qed

text \<open>
  C14. \<open>parseDrivingContext\<close> accepts exactly the valid contexts that were not captured in the
  future, and returns the context unchanged: every bound of the schemas, every vehicle and
  trip invariant and the order of the three timestamps hold of what it returns, and nothing
  valid is refused.
\<close>

theorem parseDrivingContext_accepts_exactly_valid:
  "parseDrivingContext input now = Inr c \<longleftrightarrow>
     input = Shaped c \<and> context_valid c \<and> (\<exists>n. now = Epoch_int n \<and> cx_capturedAt c \<le> n)"
  by (rule parseDrivingContext_iff)

end
