(* ===== verification/DrivingContext.thy ===== *)
theory DrivingContext
  imports Domain
begin

text \<open>
  Context snapshots, \<open>packages/context/src\<close>: the version and snapshot-id allocators
  (\<open>version.ts\<close>), the snapshot builder (\<open>snapshot.ts\<close>), the freshness evaluator
  (\<open>freshness.ts\<close>) and the conflict detector (\<open>conflict.ts\<close>). Sequence objects live in an
  explicit store, since allocators made without an initial value share the process-wide ones.
\<close>

section \<open>Sequences and allocators\<close>

record sequence_store =
  ss_version :: int
  ss_snapshots :: "string \<rightharpoonup> int"
  ss_private :: "int list"

datatype sequence_cell = Process_version | Process_snapshot string | Private_sequence nat

definition process_start :: sequence_store where
  "process_start = \<lparr>ss_version = 0, ss_snapshots = Map.empty, ss_private = []\<rparr>"

fun cell_current :: "sequence_store \<Rightarrow> sequence_cell \<Rightarrow> int" where
  "cell_current st Process_version = ss_version st"
| "cell_current st (Process_snapshot p) = (case ss_snapshots st p of None \<Rightarrow> 0 | Some n \<Rightarrow> n)"
| "cell_current st (Private_sequence i) = ss_private st ! i"

fun cell_set :: "sequence_store \<Rightarrow> sequence_cell \<Rightarrow> int \<Rightarrow> sequence_store" where
  "cell_set st Process_version n = st\<lparr>ss_version := n\<rparr>"
| "cell_set st (Process_snapshot p) n = st\<lparr>ss_snapshots := (ss_snapshots st)(p \<mapsto> n)\<rparr>"
| "cell_set st (Private_sequence i) n = st\<lparr>ss_private := (ss_private st)[i := n]\<rparr>"

text \<open>An optional numeric argument of unchecked type.\<close>

datatype number_arg = Arg_undefined | Arg_int int | Arg_other_number | Arg_not_number

definition initial_sequence :: "string \<Rightarrow> number_arg \<Rightarrow> (domain_error, int option) result" where
  "initial_sequence path arg =
     (case arg of
        Arg_not_number \<Rightarrow> domain_fail DE_INVALID_FIELD path
      | Arg_other_number \<Rightarrow> domain_fail DE_OUT_OF_RANGE path
      | Arg_undefined \<Rightarrow> Inr None
      | Arg_int n \<Rightarrow>
          if \<not> is_safe_integer n \<or> n < 0 \<or> n \<ge> MAX_SAFE_INTEGER
          then domain_fail DE_OUT_OF_RANGE path else Inr (Some n))"

definition new_version_allocator ::
  "sequence_store \<Rightarrow> number_arg \<Rightarrow> (domain_error, sequence_cell \<times> sequence_store) result" where
  "new_version_allocator st arg =
     and_then (initial_sequence ''currentVersion'' arg) (\<lambda>initial.
       case initial of
         None \<Rightarrow> Inr (Process_version, st)
       | Some n \<Rightarrow> Inr (Private_sequence (length (ss_private st)),
                        st\<lparr>ss_private := ss_private st @ [n]\<rparr>))"

definition version_next ::
  "sequence_cell \<Rightarrow> sequence_store \<Rightarrow> (domain_error, int) result \<times> sequence_store" where
  "version_next cell st =
     (let candidate = cell_current st cell + 1
      in if \<not> version_ok candidate then (domain_fail DE_OUT_OF_RANGE ''contextVersion'', st)
         else (Inr candidate, cell_set st cell candidate))"

definition version_current :: "sequence_cell \<Rightarrow> sequence_store \<Rightarrow> int" where
  "version_current cell st = cell_current st cell"

record snapshot_allocator =
  sa_prefix :: string
  sa_cell :: sequence_cell

definition snapshot_id :: "string \<Rightarrow> int \<Rightarrow> string" where
  "snapshot_id pfx n = pfx @ '':'' @ nat_string (nat n)"

definition new_snapshot_allocator ::
  "sequence_store \<Rightarrow> string option \<Rightarrow> number_arg \<Rightarrow>
     (domain_error, snapshot_allocator \<times> sequence_store) result" where
  "new_snapshot_allocator st pfx_arg arg =
     (case pfx_arg of
        None \<Rightarrow> domain_fail DE_INVALID_FIELD ''snapshotIdPrefix''
      | Some pfx \<Rightarrow>
          and_then (initial_sequence ''currentSequence'' arg) (\<lambda>initial.
            if \<not> domain_id (snapshot_id pfx 1)
            then domain_fail DE_INVALID_FIELD ''snapshotIdPrefix''
            else case initial of
                None \<Rightarrow> Inr (\<lparr>sa_prefix = pfx, sa_cell = Process_snapshot pfx\<rparr>,
                   cell_set st (Process_snapshot pfx) (cell_current st (Process_snapshot pfx)))
              | Some n \<Rightarrow> Inr (\<lparr>sa_prefix = pfx,
                   sa_cell = Private_sequence (length (ss_private st))\<rparr>,
                   st\<lparr>ss_private := ss_private st @ [n]\<rparr>)))"

definition snapshot_next ::
  "snapshot_allocator \<Rightarrow> sequence_store \<Rightarrow> (domain_error, string) result \<times> sequence_store" where
  "snapshot_next a st =
     (let sequence = cell_current st (sa_cell a) + 1; candidate = snapshot_id (sa_prefix a) sequence
      in if \<not> is_safe_integer sequence then (domain_fail DE_OUT_OF_RANGE ''snapshotId'', st)
         else if \<not> domain_id candidate then (domain_fail DE_OUT_OF_RANGE ''snapshotId'', st)
         else (Inr candidate, cell_set st (sa_cell a) sequence))"

section \<open>The snapshot builder\<close>

record snapshot_source =
  so_vehicle :: "vehicle_state untyped"
  so_trip :: "trip_state untyped"
  so_weather :: "weather_state untyped"
  so_user :: "driving_user untyped"
  so_capabilities :: "vehicle_capabilities untyped"

record snapshot_builder =
  sb_version :: sequence_cell
  sb_snapshot :: snapshot_allocator
  sb_previous :: "driving_context option"

text \<open>
  The candidate object: of the declared shape when its parts are, else the validator reports
  the errors of the parts under the part's path.
\<close>

fun part_errors :: "string \<Rightarrow> 'a untyped \<Rightarrow> schema_error list" where
  "part_errors path (Misshaped es) =
     map (\<lambda>e. e\<lparr>se_instancePath := path @ se_instancePath e\<rparr>) es"
| "part_errors path _ = []"

definition uncloneable :: "'a untyped \<Rightarrow> bool" where
  "uncloneable x = (case x of Uncloneable \<Rightarrow> True | _ \<Rightarrow> False)"

definition snapshot_candidate ::
  "snapshot_source \<Rightarrow> utc_timestamp \<Rightarrow> int \<Rightarrow> string \<Rightarrow> driving_context untyped" where
  "snapshot_candidate src capturedAt version ident =
     (case (so_vehicle src, so_trip src, so_weather src, so_user src, so_capabilities src) of
        (Shaped v, Shaped t, Shaped w, Shaped u, Shaped k) \<Rightarrow>
          Shaped \<lparr>cx_vehicle = v, cx_trip = t, cx_weather = w, cx_user = u, cx_capabilities = k,
                  cx_capturedAt = capturedAt, cx_contextVersion = version, cx_snapshotId = ident\<rparr>
      | _ \<Rightarrow>
          if uncloneable (so_vehicle src) \<or> uncloneable (so_trip src) \<or> uncloneable (so_weather src) \<or>
             uncloneable (so_user src) \<or> uncloneable (so_capabilities src)
          then Uncloneable
          else Misshaped (part_errors ''/vehicle'' (so_vehicle src) @
                 part_errors ''/trip'' (so_trip src) @ part_errors ''/weather'' (so_weather src) @
                 part_errors ''/user'' (so_user src) @
                 part_errors ''/capabilities'' (so_capabilities src)))"

definition snapshot_create ::
  "snapshot_builder \<Rightarrow> epoch \<Rightarrow> snapshot_source \<Rightarrow> sequence_store \<Rightarrow>
     (domain_error, driving_context) result \<times> snapshot_builder \<times> sequence_store" where
  "snapshot_create b now src st =
     (case toUtcTimestamp now of
        Inl e \<Rightarrow> (Inl e, b, st)
      | Inr capturedAt \<Rightarrow>
          (case version_next (sb_version b) st of
             (Inl e, st1) \<Rightarrow> (Inl e, b, st1)
           | (Inr version, st1) \<Rightarrow>
               (case snapshot_next (sb_snapshot b) st1 of
                  (Inl e, st2) \<Rightarrow> (Inl e, b, st2)
                | (Inr ident, st2) \<Rightarrow>
                    (case parseDrivingContext (snapshot_candidate src capturedAt version ident) now of
                       Inl e \<Rightarrow> (Inl e, b, st2)
                     | Inr snapshot \<Rightarrow>
                         (case (case sb_previous b of
                                  None \<Rightarrow> Inr ()
                                | Some p \<Rightarrow> assertVehicleIdentityUnchanged (cx_vehicle p)
                                              (cx_vehicle snapshot)) of
                            Inl e \<Rightarrow> (Inl e, b, st2)
                          | Inr _ \<Rightarrow> (Inr snapshot, b\<lparr>sb_previous := Some snapshot\<rparr>, st2))))))"

section \<open>Freshness\<close>

record freshness_requirement =
  fr_maxAgeMs :: int
  fr_requiresLatest :: bool

record freshness_defaults =
  fd_readOnly :: freshness_requirement
  fd_lowRisk :: freshness_requirement

definition DEFAULT_FRESHNESS_REQUIREMENTS :: freshness_defaults where
  "DEFAULT_FRESHNESS_REQUIREMENTS =
     \<lparr>fd_readOnly = \<lparr>fr_maxAgeMs = 5000, fr_requiresLatest = False\<rparr>,
      fd_lowRisk = \<lparr>fr_maxAgeMs = 2000, fr_requiresLatest = False\<rparr>\<rparr>"

datatype freshness_status = FS_FRESH | FS_STALE | FS_INVALID_FUTURE_TIMESTAMP | FS_NOT_LATEST

record freshness_result =
  fz_status :: freshness_status
  fz_ageMs :: int
  fz_maxAgeMs :: int
  fz_snapshotVersion :: int
  fz_latestVersion :: "int option"

definition validateRequirement :: "freshness_requirement \<Rightarrow> (domain_error, unit) result" where
  "validateRequirement r =
     (if \<not> is_safe_integer (fr_maxAgeMs r) \<or> fr_maxAgeMs r < 0
      then domain_fail DE_OUT_OF_RANGE ''requirement.maxAgeMs'' else Inr ())"

definition latest_version :: "number_arg \<Rightarrow> (domain_error, int option) result" where
  "latest_version arg =
     (case arg of
        Arg_undefined \<Rightarrow> Inr None
      | Arg_int n \<Rightarrow> if version_ok n then Inr (Some n) else domain_fail DE_OUT_OF_RANGE ''latestVersion''
      | Arg_other_number \<Rightarrow> domain_fail DE_OUT_OF_RANGE ''latestVersion''
      | Arg_not_number \<Rightarrow> domain_fail DE_INVALID_FIELD ''latestVersion'')"

definition evaluate_freshness ::
  "epoch \<Rightarrow> driving_context \<Rightarrow> freshness_requirement \<Rightarrow> number_arg \<Rightarrow>
     (domain_error, freshness_result) result" where
  "evaluate_freshness clock snapshot requirement latestVersion =
     and_then (validateRequirement requirement) (\<lambda>_.
     and_then (toUtcTimestamp clock) (\<lambda>nowMs.
       if fr_requiresLatest requirement \<and> latestVersion = Arg_undefined
       then domain_fail DE_INVALID_FIELD ''latestVersion''
       else and_then (latest_version latestVersion) (\<lambda>latest.
       and_then (timestampToEpochMs (cx_capturedAt snapshot) ''capturedAt'') (\<lambda>capturedMs.
         let ageMs = nowMs - capturedMs;
             status = if ageMs < 0 then FS_INVALID_FUTURE_TIMESTAMP
                      else if fr_requiresLatest requirement \<and> latest \<noteq> Some (cx_contextVersion snapshot)
                      then FS_NOT_LATEST
                      else if ageMs \<le> fr_maxAgeMs requirement then FS_FRESH else FS_STALE
         in Inr \<lparr>fz_status = status, fz_ageMs = ageMs, fz_maxAgeMs = fr_maxAgeMs requirement,
                 fz_snapshotVersion = cx_contextVersion snapshot, fz_latestVersion = latest\<rparr>))))"

section \<open>Conflicts between snapshots\<close>

definition CONTEXT_RELEVANT_PATHS :: "string list" where
  "CONTEXT_RELEVANT_PATHS =
     [
      ''snapshotId'', ''contextVersion'', ''capturedAt'', ''vehicle.vehicleId'',
      ''vehicle.timestamp'', ''vehicle.version'', ''vehicle.speedKph'', ''vehicle.gear'',
      ''vehicle.driveMode'', ''vehicle.soc'', ''vehicle.chargingState'',
      ''vehicle.estimatedRangeKm'', ''vehicle.latitude'', ''vehicle.longitude'',
      ''vehicle.doors.frontLeft'', ''vehicle.doors.frontRight'', ''vehicle.doors.rearLeft'',
      ''vehicle.doors.rearRight'', ''vehicle.doors.trunk'', ''vehicle.windows.frontLeft'',
      ''vehicle.windows.frontRight'', ''vehicle.windows.rearLeft'',
      ''vehicle.windows.rearRight'', ''vehicle.cabinTemperature'',
      ''vehicle.outsideTemperature'', ''vehicle.occupants'', ''trip.timestamp'',
      ''trip.version'', ''trip.destination'', ''trip.routeId'', ''trip.remainingDistanceKm'',
      ''trip.etaMinutes'', ''trip.navigationActive'', ''weather.condition'',
      ''weather.temperatureC'', ''user.userId'', ''user.role'', ''capabilities.navigation'',
      ''capabilities.charging'', ''capabilities.cabinTemperature'', ''capabilities.seatHeating'',
      ''capabilities.media'', ''capabilities.roadsideAssistance''
     ]"

record version_changes =
  vc_snapshotIdChanged :: bool
  vc_contextVersionChanged :: bool
  vc_vehicleVersionChanged :: bool
  vc_tripVersionChanged :: bool
  vc_hasVersionChanged :: bool

datatype conflict_status =
  CF_NO_CONFLICT
| CF_VERSION_CHANGED_BUT_IRRELEVANT
| CF_RELEVANT_STATE_CHANGED
| CF_UNKNOWN_RELEVANT_PATH

record conflict_result =
  cf_status :: conflict_status
  cf_planningVersion :: int
  cf_executionVersion :: int
  cf_changedPaths :: "string list"
  cf_unknownPaths :: "string list"
  cf_versions :: version_changes

text \<open>The value at a relevant path, and the equality \<open>deepEqual\<close> decides on such values.\<close>

datatype context_value =
  V_undefined
| V_null
| V_text string
| V_int int
| V_number rat
| V_bool bool
| V_gear gear
| V_mode drive_mode
| V_charging charging_state
| V_door door_state
| V_window window_state
| V_occupants "occupant_state list"
| V_condition weather_condition
| V_role user_role

definition text_or_null :: "string option \<Rightarrow> context_value" where
  "text_or_null x = (case x of None \<Rightarrow> V_null | Some s \<Rightarrow> V_text s)"

definition path_values :: "driving_context \<Rightarrow> (string \<times> context_value) list" where
  "path_values c =
     (let v = cx_vehicle c; t = cx_trip c; k = cx_capabilities c; d = ve_doors v; w = ve_windows v
      in [
       (''snapshotId'', V_text (cx_snapshotId c)),
       (''contextVersion'', V_int (cx_contextVersion c)),
       (''capturedAt'', V_int (cx_capturedAt c)),
       (''vehicle.vehicleId'', V_text (ve_vehicleId v)),
       (''vehicle.timestamp'', V_int (ve_timestamp v)),
       (''vehicle.version'', V_int (ve_version v)),
       (''vehicle.speedKph'', V_number (ve_speedKph v)), (''vehicle.gear'', V_gear (ve_gear v)),
       (''vehicle.driveMode'', V_mode (ve_driveMode v)), (''vehicle.soc'', V_number (ve_soc v)),
       (''vehicle.chargingState'', V_charging (ve_chargingState v)),
       (''vehicle.estimatedRangeKm'', V_number (ve_estimatedRangeKm v)),
       (''vehicle.latitude'', V_number (ve_latitude v)),
       (''vehicle.longitude'', V_number (ve_longitude v)),
       (''vehicle.doors.frontLeft'', V_door (do_frontLeft d)),
       (''vehicle.doors.frontRight'', V_door (do_frontRight d)),
       (''vehicle.doors.rearLeft'', V_door (do_rearLeft d)),
       (''vehicle.doors.rearRight'', V_door (do_rearRight d)),
       (''vehicle.doors.trunk'', V_door (do_trunk d)),
       (''vehicle.windows.frontLeft'', V_window (wi_frontLeft w)),
       (''vehicle.windows.frontRight'', V_window (wi_frontRight w)),
       (''vehicle.windows.rearLeft'', V_window (wi_rearLeft w)),
       (''vehicle.windows.rearRight'', V_window (wi_rearRight w)),
       (''vehicle.cabinTemperature'', V_number (ve_cabinTemperature v)),
       (''vehicle.outsideTemperature'', V_number (ve_outsideTemperature v)),
       (''vehicle.occupants'', V_occupants (ve_occupants v)),
       (''trip.timestamp'', V_int (tp_timestamp t)), (''trip.version'', V_int (tp_version t)),
       (''trip.destination'', text_or_null (tp_destination t)),
       (''trip.routeId'', text_or_null (tp_routeId t)),
       (''trip.remainingDistanceKm'', V_number (tp_remainingDistanceKm t)),
       (''trip.etaMinutes'', V_number (tp_etaMinutes t)),
       (''trip.navigationActive'', V_bool (tp_navigationActive t)),
       (''weather.condition'', V_condition (we_condition (cx_weather c))),
       (''weather.temperatureC'', V_number (we_temperatureC (cx_weather c))),
       (''user.userId'', V_text (us_userId (cx_user c))),
       (''user.role'', V_role (us_role (cx_user c))),
       (''capabilities.navigation'', V_bool (ca_navigation k)),
       (''capabilities.charging'', V_bool (ca_charging k)),
       (''capabilities.cabinTemperature'', V_bool (ca_cabinTemperature k)),
       (''capabilities.seatHeating'', V_bool (ca_seatHeating k)),
       (''capabilities.media'', V_bool (ca_media k)),
       (''capabilities.roadsideAssistance'', V_bool (ca_roadsideAssistance k))
      ])"

definition valueAt :: "driving_context \<Rightarrow> string \<Rightarrow> context_value" where
  "valueAt snapshot path =
     (case map_of (path_values snapshot) path of None \<Rightarrow> V_undefined | Some x \<Rightarrow> x)"

definition deepEqual :: "context_value \<Rightarrow> context_value \<Rightarrow> bool" where
  "deepEqual left right \<longleftrightarrow>
     (case left of
        V_occupants xs \<Rightarrow>
          (case right of
             V_occupants ys \<Rightarrow>
               length xs = length ys \<and>
               list_all (\<lambda>(x, y). oc_seat x = oc_seat y \<and> oc_occupied x = oc_occupied y) (zip xs ys)
           | _ \<Rightarrow> False)
      | _ \<Rightarrow> left = right)"

definition detectVersionChanges :: "driving_context \<Rightarrow> driving_context \<Rightarrow> version_changes" where
  "detectVersionChanges planning execution =
     (let s = cx_snapshotId planning \<noteq> cx_snapshotId execution;
          c = cx_contextVersion planning \<noteq> cx_contextVersion execution;
          v = ve_version (cx_vehicle planning) \<noteq> ve_version (cx_vehicle execution);
          t = tp_version (cx_trip planning) \<noteq> tp_version (cx_trip execution)
      in \<lparr>vc_snapshotIdChanged = s, vc_contextVersionChanged = c, vc_vehicleVersionChanged = v,
          vc_tripVersionChanged = t, vc_hasVersionChanged = s \<or> c \<or> v \<or> t\<rparr>)"

text \<open>The paths argument is unchecked: not an array, or an array whose entries may be strings.\<close>

datatype paths_arg = Paths_not_array | Paths "string option list"

definition detect_conflict ::
  "driving_context \<Rightarrow> driving_context \<Rightarrow> paths_arg \<Rightarrow> (domain_error, conflict_result) result" where
  "detect_conflict planning execution relevantPaths =
     (case relevantPaths of
        Paths_not_array \<Rightarrow> domain_fail DE_INVALID_FIELD ''relevantPaths''
      | Paths candidates \<Rightarrow>
          if list_ex (\<lambda>p. p = None) candidates then domain_fail DE_INVALID_FIELD ''relevantPaths''
          else let validated = map the candidates;
                   versions = detectVersionChanges planning execution;
                   unknownPaths =
                     sort (remdups (filter (\<lambda>p. p \<notin> set CONTEXT_RELEVANT_PATHS) validated));
                   paths = sort (remdups (filter (\<lambda>p. p \<in> set CONTEXT_RELEVANT_PATHS) validated));
                   changedPaths =
                     filter (\<lambda>p. \<not> deepEqual (valueAt planning p) (valueAt execution p)) paths;
                   status = if unknownPaths \<noteq> [] then CF_UNKNOWN_RELEVANT_PATH
                            else if changedPaths \<noteq> [] then CF_RELEVANT_STATE_CHANGED
                            else if vc_hasVersionChanged versions
                            then CF_VERSION_CHANGED_BUT_IRRELEVANT else CF_NO_CONFLICT
               in Inr \<lparr>cf_status = status, cf_planningVersion = cx_contextVersion planning,
                       cf_executionVersion = cx_contextVersion execution,
                       cf_changedPaths = changedPaths, cf_unknownPaths = unknownPaths,
                       cf_versions = versions\<rparr>)"

section \<open>Properties\<close>

lemma occupant_equal:
  "(\<lambda>a b. oc_seat a = oc_seat b \<and> oc_occupied a = oc_occupied b) =
   ((=) :: occupant_state \<Rightarrow> occupant_state \<Rightarrow> bool)"
proof (intro ext)
  fix a b :: occupant_state
  show "(oc_seat a = oc_seat b \<and> oc_occupied a = oc_occupied b) = (a = b)"
    by (cases a; cases b) simp
qed

lemma occupants_equal:
  "length xs = length ys \<and>
   list_all (\<lambda>(x, y). oc_seat x = oc_seat y \<and> oc_occupied x = oc_occupied y) (zip xs ys) \<longleftrightarrow>
   xs = (ys :: occupant_state list)"
proof -
  have "length xs = length ys \<and>
    list_all (\<lambda>(x, y). oc_seat x = oc_seat y \<and> oc_occupied x = oc_occupied y) (zip xs ys) \<longleftrightarrow>
    list_all2 (\<lambda>a b. oc_seat a = oc_seat b \<and> oc_occupied a = oc_occupied b) xs ys"
    by (simp add: list_all2_iff list_all_iff)
  then show ?thesis by (simp only: occupant_equal list.rel_eq)
qed

lemma deepEqual_iff: "deepEqual x y \<longleftrightarrow> x = y"
proof (cases "\<exists>xs. x = V_occupants xs")
  case True
  then show ?thesis
    by (cases y) (simp_all only: deepEqual_def context_value.case occupants_equal
        context_value.simps, auto)
next
  case False
  then show ?thesis by (cases x) (simp_all add: deepEqual_def)
qed

lemma sort_Nil [simp]: "sort xs = [] \<longleftrightarrow> xs = []"
  by (metis length_0_conv length_sort)

lemma freshness_fresh_iff:
  "(\<exists>r. evaluate_freshness clock snapshot requirement latest = Inr r \<and> fz_status r = FS_FRESH) \<longleftrightarrow>
   (\<exists>n. clock = Epoch_int n \<and> iso_range n \<and> iso_range (cx_capturedAt snapshot) \<and>
        is_safe_integer (fr_maxAgeMs requirement) \<and>
        0 \<le> n - cx_capturedAt snapshot \<and> n - cx_capturedAt snapshot \<le> fr_maxAgeMs requirement \<and>
        (if fr_requiresLatest requirement
         then latest = Arg_int (cx_contextVersion snapshot) \<and> version_ok (cx_contextVersion snapshot)
         else latest = Arg_undefined \<or> (\<exists>v. latest = Arg_int v \<and> version_ok v)))"
  by (cases clock; cases latest)
    (auto simp: evaluate_freshness_def validateRequirement_def toUtcTimestamp_def
      timestampToEpochMs_def latest_version_def domain_fail_def Let_def split: if_splits)

text \<open>
  C15. The freshness verdict is exact: a snapshot is FRESH exactly when the requirement and
  the clock are valid, it was not captured after the clock's reading, its age is within the
  bound, and - when the latest version is required - it is the latest version.
\<close>

theorem freshness_verdict_exact:
  "(\<exists>r. evaluate_freshness clock snapshot requirement latest = Inr r \<and> fz_status r = FS_FRESH) \<longleftrightarrow>
   (\<exists>n. clock = Epoch_int n \<and> iso_range n \<and> iso_range (cx_capturedAt snapshot) \<and>
        is_safe_integer (fr_maxAgeMs requirement) \<and>
        0 \<le> n - cx_capturedAt snapshot \<and> n - cx_capturedAt snapshot \<le> fr_maxAgeMs requirement \<and>
        (if fr_requiresLatest requirement
         then latest = Arg_int (cx_contextVersion snapshot) \<and> version_ok (cx_contextVersion snapshot)
         else latest = Arg_undefined \<or> (\<exists>v. latest = Arg_int v \<and> version_ok v)))"
  by (rule freshness_fresh_iff)

lemma detect_conflict_exact:
  "\<exists>r. detect_conflict planning execution (Paths (map Some ps)) = Inr r \<and>
     set (cf_changedPaths r) = {p \<in> set ps. p \<in> set CONTEXT_RELEVANT_PATHS \<and>
        valueAt planning p \<noteq> valueAt execution p} \<and>
     (cf_status r = CF_UNKNOWN_RELEVANT_PATH \<longleftrightarrow> \<not> set ps \<subseteq> set CONTEXT_RELEVANT_PATHS) \<and>
     (cf_status r = CF_RELEVANT_STATE_CHANGED \<longleftrightarrow>
        set ps \<subseteq> set CONTEXT_RELEVANT_PATHS \<and>
        (\<exists>p \<in> set ps. valueAt planning p \<noteq> valueAt execution p))"
proof -
  have "\<not> list_ex (\<lambda>p. p = None) (map Some ps)" "map the (map Some ps) = ps"
    by (auto simp: list_ex_iff comp_def)
  then show ?thesis
    by (auto simp: detect_conflict_def Let_def deepEqual_iff filter_empty_conv list_ex_iff comp_def
        subset_eq)
qed


section \<open>Snapshots in sequence\<close>

definition cell_valid :: "sequence_store \<Rightarrow> sequence_cell \<Rightarrow> bool" where
  "cell_valid st cell \<longleftrightarrow>
     (case cell of Private_sequence i \<Rightarrow> i < length (ss_private st) | _ \<Rightarrow> True)"

definition store_ok :: "sequence_store \<Rightarrow> bool" where
  "store_ok st \<longleftrightarrow> 0 \<le> ss_version st \<and> (\<forall>n \<in> ran (ss_snapshots st). 0 \<le> n) \<and>
     list_all (\<lambda>n. 0 \<le> n) (ss_private st)"

lemma store_ok_current: "store_ok st \<Longrightarrow> cell_valid st cell \<Longrightarrow> 0 \<le> cell_current st cell"
  by (cases cell) (auto simp: store_ok_def cell_valid_def list_all_length ran_def split: option.splits)

lemma cell_set_current [simp]: "cell_valid st cell \<Longrightarrow> cell_current (cell_set st cell n) cell = n"
  by (cases cell) (auto simp: cell_valid_def)

lemma cell_set_other [simp]: "cell \<noteq> cell' \<Longrightarrow> cell_current (cell_set st cell n) cell' = cell_current st cell'"
  by (cases cell; cases cell') auto

lemma cell_set_valid [simp]: "cell_valid (cell_set st cell n) cell' = cell_valid st cell'"
  by (cases cell; cases cell') (auto simp: cell_valid_def)

text \<open>
  A builder over its two sequences: both exist, they are different objects, and neither is
  negative. Runs of the builder collect the snapshots it returns.
\<close>

definition builder_ok :: "snapshot_builder \<Rightarrow> sequence_store \<Rightarrow> bool" where
  "builder_ok b st \<longleftrightarrow>
     sb_version b \<noteq> sa_cell (sb_snapshot b) \<and>
     cell_valid st (sb_version b) \<and> cell_valid st (sa_cell (sb_snapshot b)) \<and>
     0 \<le> cell_current st (sb_version b) \<and> 0 \<le> cell_current st (sa_cell (sb_snapshot b))"

fun builder_run ::
  "snapshot_builder \<Rightarrow> sequence_store \<Rightarrow> (epoch \<times> snapshot_source) list \<Rightarrow> driving_context list" where
  "builder_run b st [] = []"
| "builder_run b st ((now, src) # calls) =
     (case snapshot_create b now src st of
        (Inl e, b', st') \<Rightarrow> builder_run b' st' calls
      | (Inr s, b', st') \<Rightarrow> s # builder_run b' st' calls)"

lemma version_next_cases:
  assumes "cell_valid st cell" "version_next cell st = (r, st')"
  shows "(\<exists>e. r = Inl e \<and> st' = st) \<or>
    (r = Inr (cell_current st cell + 1) \<and> st' = cell_set st cell (cell_current st cell + 1))"
  using assms by (auto simp: version_next_def Let_def domain_fail_def split: if_splits)

lemma snapshot_next_cases:
  assumes "snapshot_next a st = (r, st')"
  shows "(\<exists>e. r = Inl e \<and> st' = st) \<or>
    (r = Inr (snapshot_id (sa_prefix a) (cell_current st (sa_cell a) + 1)) \<and>
     st' = cell_set st (sa_cell a) (cell_current st (sa_cell a) + 1))"
  using assms by (auto simp: snapshot_next_def Let_def domain_fail_def split: if_splits)

lemma create_failure:
  assumes "builder_ok b st" "snapshot_create b now src st = (Inl e, b', st')"
  shows "b' = b \<and> builder_ok b st' \<and>
    cell_current st (sb_version b) \<le> cell_current st' (sb_version b) \<and>
    cell_current st (sa_cell (sb_snapshot b)) \<le> cell_current st' (sa_cell (sb_snapshot b))"
proof -
  obtain r1 st1 where v: "version_next (sb_version b) st = (r1, st1)" by force
  obtain r2 st2 where s: "snapshot_next (sb_snapshot b) st1 = (r2, st2)" by force
  show ?thesis
    using assms version_next_cases [OF _ v] snapshot_next_cases [OF s] v s
    by (auto simp: snapshot_create_def builder_ok_def split: sum.splits option.splits)
qed

lemma create_success:
  assumes "builder_ok b st" "snapshot_create b now src st = (Inr c, b', st')"
  shows "b' = b\<lparr>sb_previous := Some c\<rparr> \<and> builder_ok b' st' \<and> context_valid c \<and>
    cx_contextVersion c = cell_current st (sb_version b) + 1 \<and>
    cell_current st' (sb_version b) = cx_contextVersion c \<and>
    cx_snapshotId c = snapshot_id (sa_prefix (sb_snapshot b))
      (cell_current st (sa_cell (sb_snapshot b)) + 1) \<and>
    cell_current st' (sa_cell (sb_snapshot b)) = cell_current st (sa_cell (sb_snapshot b)) + 1 \<and>
    (case sb_previous b of None \<Rightarrow> True
     | Some p \<Rightarrow> ve_vehicleId (cx_vehicle c) = ve_vehicleId (cx_vehicle p))"
proof -
  obtain r1 st1 where v: "version_next (sb_version b) st = (r1, st1)" by force
  obtain r2 st2 where s: "snapshot_next (sb_snapshot b) st1 = (r2, st2)" by force
  from assms(2) v s obtain cap n i where
    parsed: "parseDrivingContext (snapshot_candidate src cap n i) now = Inr c"
    and r: "r1 = Inr n" "r2 = Inr i" and b': "b' = b\<lparr>sb_previous := Some c\<rparr>" "st' = st2"
    and same: "(case sb_previous b of None \<Rightarrow> True
      | Some p \<Rightarrow> ve_vehicleId (cx_vehicle c) = ve_vehicleId (cx_vehicle p))"
    by (auto simp: snapshot_create_def assertVehicleIdentityUnchanged_def
        split: sum.splits option.splits if_splits)
  from parsed have c: "context_valid c" "snapshot_candidate src cap n i = Shaped c"
    by (auto simp: parseDrivingContext_iff)
  from c(2) have "cx_contextVersion c = n" "cx_snapshotId c = i"
    by (auto simp: snapshot_candidate_def split: untyped.splits if_splits)
  with assms(1) c(1) r b' same version_next_cases [OF _ v] snapshot_next_cases [OF s]
  show ?thesis by (auto simp: builder_ok_def)
qed

lemma builder_run_bounds:
  assumes "builder_ok b st" "c \<in> set (builder_run b st calls)"
  shows "context_valid c \<and> cell_current st (sb_version b) < cx_contextVersion c \<and>
    (\<exists>n. cell_current st (sa_cell (sb_snapshot b)) < n \<and>
         cx_snapshotId c = snapshot_id (sa_prefix (sb_snapshot b)) n) \<and>
    (case sb_previous b of None \<Rightarrow> True
     | Some p \<Rightarrow> ve_vehicleId (cx_vehicle c) = ve_vehicleId (cx_vehicle p))"
  using assms
proof (induction calls arbitrary: b st)
  case (Cons call calls)
  obtain now src r b' st' where call: "call = (now, src)"
    and step: "snapshot_create b now src st = (r, b', st')"
    by (cases call; cases "snapshot_create b (fst call) (snd call) st") auto
  show ?case
  proof (cases r)
    case (Inl e)
    note f = create_failure [OF Cons.prems(1) step [unfolded Inl]]
    have "c \<in> set (builder_run b' st' calls)" using Cons.prems(2) call step Inl by simp
    from Cons.IH [OF _ this] f show ?thesis by force
  next
    case (Inr s)
    note f = create_success [OF Cons.prems(1) step [unfolded Inr]]
    show ?thesis
    proof (cases "c \<in> set (builder_run b' st' calls)")
      case True
      from Cons.IH [OF _ True] f show ?thesis by (force split: option.splits)
    next
      case False
      with Cons.prems(2) call step Inr have "c = s" by auto
      with f show ?thesis by (auto intro!: exI [of _ "cell_current st (sa_cell (sb_snapshot b)) + 1"])
    qed
  qed
qed simp

lemma snapshot_id_inject:
  "0 \<le> m \<Longrightarrow> 0 \<le> n \<Longrightarrow> snapshot_id pfx m = snapshot_id pfx n \<longleftrightarrow> m = n"
  by (auto simp: snapshot_id_def)

definition follows :: "driving_context \<Rightarrow> driving_context \<Rightarrow> bool" where
  "follows c d \<longleftrightarrow> cx_contextVersion c < cx_contextVersion d \<and> cx_snapshotId c \<noteq> cx_snapshotId d \<and>
     ve_vehicleId (cx_vehicle c) = ve_vehicleId (cx_vehicle d)"

lemma builder_run_follows: "builder_ok b st \<Longrightarrow> sorted_wrt follows (builder_run b st calls)"
proof (induction calls arbitrary: b st)
  case (Cons call calls)
  obtain now src r b' st' where call: "call = (now, src)"
    and step: "snapshot_create b now src st = (r, b', st')"
    by (cases call; cases "snapshot_create b (fst call) (snd call) st") auto
  show ?case
  proof (cases r)
    case (Inl e)
    with Cons create_failure [OF Cons.prems step [unfolded Inl]] call step show ?thesis by simp
  next
    case (Inr s)
    note f = create_success [OF Cons.prems step [unfolded Inr]]
    have "follows s c" if "c \<in> set (builder_run b' st' calls)" for c
      using builder_run_bounds [OF _ that] f Cons.prems
      by (auto simp: follows_def snapshot_id_inject builder_ok_def)
    moreover have "sorted_wrt follows (builder_run b' st' calls)"
      using Cons.IH [of b' st'] f by blast
    ultimately show ?thesis using call step Inr by simp
  qed
qed simp

lemma new_builder_ok:
  assumes "new_version_allocator st0 va = Inr (vc, st1)"
    and "new_snapshot_allocator st1 pfx sa = Inr (al, st2)" "store_ok st0"
  shows "builder_ok \<lparr>sb_version = vc, sb_snapshot = al, sb_previous = None\<rparr> st2"
  using assms
  by (cases va; cases sa)
    (auto simp: new_version_allocator_def new_snapshot_allocator_def initial_sequence_def
      domain_fail_def builder_ok_def cell_valid_def store_ok_def nth_append ranI
      split: option.splits if_splits)

text \<open>
  C17. The snapshots a builder returns, in order and whatever calls failed in between: every
  one is a valid context, versions strictly increase, no snapshot id is used twice, and the
  vehicle never changes.
\<close>

theorem snapshots_versioned_and_identified:
  assumes "new_version_allocator st0 va = Inr (vc, st1)"
    and "new_snapshot_allocator st1 pfx sa = Inr (al, st2)" "store_ok st0"
  shows "sorted_wrt follows
      (builder_run \<lparr>sb_version = vc, sb_snapshot = al, sb_previous = None\<rparr> st2 calls) \<and>
    list_all context_valid
      (builder_run \<lparr>sb_version = vc, sb_snapshot = al, sb_previous = None\<rparr> st2 calls)"
  using new_builder_ok [OF assms]
  by (auto intro: builder_run_follows simp: list_all_iff dest: builder_run_bounds)

definition parked_vehicle :: vehicle_state where
  "parked_vehicle = \<lparr>ve_vehicleId = ''veh-1'', ve_timestamp = 1000, ve_version = 1,
     ve_speedKph = 0, ve_gear = GEAR_P, ve_driveMode = MODE_parked, ve_soc = 50,
     ve_chargingState = CH_not_charging, ve_estimatedRangeKm = 200, ve_latitude = 48,
     ve_longitude = 11, ve_doors = \<lparr>do_frontLeft = DOOR_locked, do_frontRight = DOOR_locked,
       do_rearLeft = DOOR_locked, do_rearRight = DOOR_locked, do_trunk = DOOR_closed\<rparr>,
     ve_windows = \<lparr>wi_frontLeft = WIN_closed, wi_frontRight = WIN_closed,
       wi_rearLeft = WIN_closed, wi_rearRight = WIN_closed\<rparr>,
     ve_cabinTemperature = 21, ve_outsideTemperature = 10,
     ve_occupants = [\<lparr>oc_seat = SEAT_driver, oc_occupied = True\<rparr>]\<rparr>"

definition idle_trip :: trip_state where
  "idle_trip = \<lparr>tp_timestamp = 1000, tp_version = 1, tp_destination = None, tp_routeId = None,
     tp_remainingDistanceKm = 0, tp_etaMinutes = 0, tp_navigationActive = False\<rparr>"

definition parked_source :: snapshot_source where
  "parked_source = \<lparr>so_vehicle = Shaped parked_vehicle, so_trip = Shaped idle_trip,
     so_weather = Shaped \<lparr>we_condition = WX_clear, we_temperatureC = 10\<rparr>,
     so_user = Shaped \<lparr>us_userId = ''user-1'', us_role = ROLE_driver\<rparr>,
     so_capabilities = Shaped \<lparr>ca_navigation = True, ca_charging = True,
       ca_cabinTemperature = True, ca_seatHeating = True, ca_media = True,
       ca_roadsideAssistance = True\<rparr>\<rparr>"

definition parked_context :: driving_context where
  "parked_context = \<lparr>cx_vehicle = parked_vehicle, cx_trip = idle_trip,
     cx_weather = \<lparr>we_condition = WX_clear, we_temperatureC = 10\<rparr>,
     cx_user = \<lparr>us_userId = ''user-1'', us_role = ROLE_driver\<rparr>,
     cx_capabilities = \<lparr>ca_navigation = True, ca_charging = True, ca_cabinTemperature = True,
       ca_seatHeating = True, ca_media = True, ca_roadsideAssistance = True\<rparr>,
     cx_capturedAt = 2000, cx_contextVersion = 5, cx_snapshotId = ''ctx:5''\<rparr>"

lemma parked_context_valid: "context_valid parked_context"
  by (simp add: context_valid_def parked_context_def vehicle_valid_def parked_vehicle_def
      trip_valid_def idle_trip_def in_bounds_def domain_id_def id_patterns iso_range_def
      MIN_ISO_MS_def MAX_ISO_MS_def version_ok_def MAX_SAFE_INTEGER_def)

lemma parked_builder:
  "new_version_allocator process_start Arg_undefined = Inr (Process_version, process_start)"
  "new_snapshot_allocator process_start (Some ''ctx'') (Arg_int 7) =
     Inr (\<lparr>sa_prefix = ''ctx'', sa_cell = Private_sequence 0\<rparr>, process_start\<lparr>ss_private := [7]\<rparr>)"
  "store_ok process_start"
  by (simp_all add: new_version_allocator_def new_snapshot_allocator_def initial_sequence_def
      process_start_def snapshot_id_def domain_id_def id_patterns nat_string_def
      nat_digits.simps digit_char_def is_safe_integer_def MAX_SAFE_INTEGER_def store_ok_def)

theorem snapshots_versioned_and_identified_witness:
  "let cs = builder_run \<lparr>sb_version = Process_version,
         sb_snapshot = \<lparr>sa_prefix = ''ctx'', sa_cell = Private_sequence 0\<rparr>, sb_previous = None\<rparr>
       (process_start\<lparr>ss_private := [7]\<rparr>)
       [(Epoch_int 2000, parked_source), (Epoch_other, parked_source), (Epoch_int 3000, parked_source)]
   in sorted_wrt follows cs \<and> list_all context_valid cs"
  unfolding Let_def by (rule snapshots_versioned_and_identified [OF parked_builder])

end
