(* ===== verification/PolicyRules.thy ===== *)
theory PolicyRules
  imports Tools DrivingContext
begin

text \<open>
  The data of the policy layer, \<open>packages/policy/src\<close>: decision and evidence types
  (\<open>types.ts\<close>), the tool profiles and their registry (\<open>profiles.ts\<close>), the rules in their
  reserved precedence (\<open>rules.ts\<close>) and the rule registry (\<open>registry.ts\<close>).
\<close>

section \<open>Decisions and evidence\<close>

datatype decision_type = PD_ALLOW | PD_DENY | PD_REQUIRE_CONFIRMATION | PD_REPLAN

datatype policy_reason =
  PR_FORBIDDEN_RX
| PR_INVALID_POLICY_INPUT
| PR_POLICY_EXCEPTION
| PR_CAPABILITY_UNAVAILABLE
| PR_SERVICE_UNAVAILABLE
| PR_CONTEXT_INVALID
| PR_CONTEXT_FUTURE_TIMESTAMP
| PR_CONTEXT_STALE
| PR_CONTEXT_NOT_LATEST
| PR_CONTEXT_RELEVANT_STATE_CHANGED
| PR_CONTEXT_PATH_UNKNOWN
| PR_R3_CONFIRMATION_REQUIRED
| PR_R2_CONFIRMATION_REQUIRED
| PR_R1_ALLOWED
| PR_R0_ALLOWED
| PR_DEFAULT_DENY

text \<open>The status \<open>None\<close> is \<open>UNKNOWN\<close>; conflict evidence may also be not evaluated.\<close>

datatype conflict_evidence = CE_status conflict_status | CE_NOT_EVALUATED | CE_UNKNOWN

datatype context_requirement = STATE_REFRESH | LATEST_REQUIRED

record rule_input =
  ri_toolName :: string
  ri_riskLevel :: "risk_level option"
  ri_inputValid :: bool
  ri_contextPresent :: bool
  ri_contextValid :: bool
  ri_capabilityAvailable :: bool
  ri_serviceAvailable :: bool
  ri_freshnessStatus :: "freshness_status option"
  ri_conflictStatus :: conflict_evidence
  ri_contextChanged :: bool
  ri_contextRequirement :: "context_requirement option"
  ri_contextSnapshotId :: "string option"
  ri_contextVersion :: "int option"
  ri_evaluatedAt :: "utc_timestamp option"

record rule_result =
  rr_decision :: decision_type
  rr_reasonCode :: policy_reason

text \<open>A rule's functions may throw (\<open>Inl\<close>).\<close>

record policy_rule =
  pr_ruleId :: string
  pr_priority :: int
  pr_appliesTo :: "rule_input \<Rightarrow> (unit, bool) result"
  pr_evaluate :: "rule_input \<Rightarrow> (unit, rule_result) result"

section \<open>Profiles\<close>

record tool_profile =
  tf_toolName :: string
  tf_riskLevel :: risk_level
  tf_sideEffect :: bool
  tf_contextRequirement :: context_requirement
  tf_freshnessRequirement :: freshness_requirement
  tf_relevantContextPaths :: "string list"
  tf_confirmationRequired :: bool
  tf_requiredCapabilities :: "string list"
  tf_requiredServices :: "string list"

datatype profile_error = INVALID_TOOL_POLICY_PROFILE string

definition uniqueKnown :: "string list \<Rightarrow> string list \<Rightarrow> bool" where
  "uniqueKnown values known \<longleftrightarrow> list_all (\<lambda>v. v \<in> set known) values \<and> distinct values"

definition validateProfile :: "tool_profile \<Rightarrow> (profile_error, unit) result" where
  "validateProfile p =
     (let fail = (\<lambda>why. Inl (INVALID_TOOL_POLICY_PROFILE why)) in
      if tf_toolName p \<notin> set FORMAL_TOOL_NAMES then fail ''Policy profile Tool name is not formal''
      else if \<not> is_safe_integer (fr_maxAgeMs (tf_freshnessRequirement p)) \<or>
              fr_maxAgeMs (tf_freshnessRequirement p) < 0
      then fail ''Policy profile freshness requirement is invalid''
      else if \<not> uniqueKnown (tf_relevantContextPaths p) CONTEXT_RELEVANT_PATHS
      then fail ''Policy profile contains an unknown Context path''
      else if \<not> uniqueKnown (tf_requiredCapabilities p) CAPABILITY_NAMES
      then fail ''Policy profile capability requirement is invalid''
      else if \<not> uniqueKnown (tf_requiredServices p) SERVICE_NAMES
      then fail ''Policy profile service requirement is invalid''
      else if tf_confirmationRequired p \<noteq> (tf_riskLevel p = R2 \<or> tf_riskLevel p = R3)
      then fail ''Policy profile confirmation flag contradicts risk''
      else if tf_sideEffect p \<noteq> (tf_riskLevel p \<noteq> R0)
      then fail ''Policy profile side-effect flag contradicts risk''
      else if tf_contextRequirement p = STATE_REFRESH \<and> (tf_sideEffect p \<or> tf_riskLevel p \<noteq> R0)
      then fail ''Only R0 reads may refresh stale state''
      else Inr ())"

type_synonym profile_registry = "string \<rightharpoonup> tool_profile"

fun add_profiles :: "profile_registry \<Rightarrow> tool_profile list \<Rightarrow> (profile_error, profile_registry) result" where
  "add_profiles reg [] = Inr reg"
| "add_profiles reg (p # ps) =
     (case validateProfile p of
        Inl e \<Rightarrow> Inl e
      | Inr _ \<Rightarrow>
          if reg (tf_toolName p) \<noteq> None
          then Inl (INVALID_TOOL_POLICY_PROFILE ''Duplicate Tool policy profile'')
          else add_profiles (reg(tf_toolName p \<mapsto> p)) ps)"

definition new_profile_registry :: "tool_profile list \<Rightarrow> (profile_error, profile_registry) result" where
  "new_profile_registry ps = add_profiles Map.empty ps"

definition profile_list :: "profile_registry \<Rightarrow> tool_profile list" where
  "profile_list reg = List.map_filter reg FORMAL_TOOL_NAMES"

definition readFreshness :: freshness_requirement where
  "readFreshness = \<lparr>fr_maxAgeMs = 5000, fr_requiresLatest = False\<rparr>"

definition lowRiskFreshness :: freshness_requirement where
  "lowRiskFreshness = \<lparr>fr_maxAgeMs = 2000, fr_requiresLatest = True\<rparr>"

definition sensitiveFreshness :: freshness_requirement where
  "sensitiveFreshness = \<lparr>fr_maxAgeMs = 5000, fr_requiresLatest = True\<rparr>"

definition profile ::
  "string \<Rightarrow> risk_level \<Rightarrow> string list \<Rightarrow> string list \<Rightarrow> string list \<Rightarrow> tool_profile" where
  "profile toolName riskLevel caps services paths =
     (let sideEffect = riskLevel \<noteq> R0 in
      \<lparr>tf_toolName = toolName, tf_riskLevel = riskLevel, tf_sideEffect = sideEffect,
       tf_contextRequirement = (if sideEffect then LATEST_REQUIRED else STATE_REFRESH),
       tf_freshnessRequirement =
         (if riskLevel = R0 then readFreshness
          else if riskLevel = R1 then lowRiskFreshness else sensitiveFreshness),
       tf_relevantContextPaths = paths,
       tf_confirmationRequired = (riskLevel = R2 \<or> riskLevel = R3),
       tf_requiredCapabilities = caps, tf_requiredServices = services\<rparr>)"

definition TOOL_POLICY_PROFILES :: "tool_profile list" where
  "TOOL_POLICY_PROFILES =
     [profile ''get_vehicle_state'' R0 [] [''vehicleSimulator''] [],
      profile ''get_trip_state'' R0 [''navigation''] [''vehicleSimulator''] [],
      profile ''get_weather'' R0 [] [''weather''] [],
      profile ''search_charging_stations'' R0 [''charging''] [''vehicleSimulator''] [],
      profile ''get_charging_status'' R0 [''charging''] [''vehicleSimulator''] [],
      profile ''set_cabin_temperature'' R1 [''cabinTemperature''] [''vehicleSimulator'']
        [''vehicle.cabinTemperature'', ''vehicle.occupants'', ''capabilities.cabinTemperature''],
      profile ''set_seat_heating'' R1 [''seatHeating''] [''vehicleSimulator'']
        [''vehicle.occupants'', ''capabilities.seatHeating''],
      profile ''set_media_volume'' R1 [''media''] [''vehicleSimulator''] [''capabilities.media''],
      profile ''set_navigation_destination'' R2 [''navigation''] [''vehicleSimulator'']
        [''vehicle.speedKph'', ''vehicle.gear'', ''vehicle.driveMode'', ''trip.destination'',
         ''trip.routeId'', ''trip.navigationActive'', ''capabilities.navigation''],
      profile ''reroute_to_charger'' R2 [''navigation'', ''charging''] [''vehicleSimulator'']
        [''vehicle.soc'', ''vehicle.estimatedRangeKm'', ''vehicle.latitude'', ''vehicle.longitude'',
         ''trip.destination'', ''trip.routeId'', ''trip.navigationActive'',
         ''capabilities.navigation'', ''capabilities.charging''],
      profile ''reserve_charging_slot'' R2 [''charging''] [''vehicleSimulator'']
        [''vehicle.soc'', ''vehicle.chargingState'', ''vehicle.latitude'', ''vehicle.longitude'',
         ''capabilities.charging''],
      profile ''cancel_charging_reservation'' R2 [''charging''] [''vehicleSimulator'']
        [''vehicle.chargingState'', ''capabilities.charging''],
      profile ''request_roadside_assistance'' R3 [''roadsideAssistance''] [''vehicleSimulator'']
        [''vehicle.speedKph'', ''vehicle.gear'', ''vehicle.driveMode'', ''vehicle.latitude'',
         ''vehicle.longitude'', ''capabilities.roadsideAssistance''],
      profile ''request_emergency_support'' R3 [''roadsideAssistance''] [''emergencySupport'']
        [''vehicle.speedKph'', ''vehicle.gear'', ''vehicle.driveMode'', ''vehicle.latitude'',
         ''vehicle.longitude'', ''capabilities.roadsideAssistance'']]"

definition createDefaultToolPolicyProfileRegistry :: "(profile_error, profile_registry) result" where
  "createDefaultToolPolicyProfileRegistry = new_profile_registry TOOL_POLICY_PROFILES"

section \<open>Rules\<close>

definition rule ::
  "string \<Rightarrow> int \<Rightarrow> (rule_input \<Rightarrow> bool) \<Rightarrow> (rule_input \<Rightarrow> rule_result) \<Rightarrow> policy_rule" where
  "rule ruleId priority appliesTo evaluate =
     \<lparr>pr_ruleId = ruleId, pr_priority = priority, pr_appliesTo = (\<lambda>i. Inr (appliesTo i)),
      pr_evaluate = (\<lambda>i. Inr (evaluate i))\<rparr>"

definition gives :: "decision_type \<Rightarrow> policy_reason \<Rightarrow> rule_result" where
  "gives d r = \<lparr>rr_decision = d, rr_reasonCode = r\<rparr>"

definition DEFAULT_POLICY_RULES :: "policy_rule list" where
  "DEFAULT_POLICY_RULES =
     [rule ''DG-POL-001'' 0 (\<lambda>i. ri_toolName i \<in> set FORBIDDEN_TOOL_NAMES)
        (\<lambda>i. gives PD_DENY PR_FORBIDDEN_RX),
      rule ''DG-POL-002'' 1 (\<lambda>i. \<not> ri_inputValid i)
        (\<lambda>i. gives PD_DENY PR_INVALID_POLICY_INPUT),
      rule ''DG-POL-003'' 2 (\<lambda>i. \<not> ri_capabilityAvailable i \<or> \<not> ri_serviceAvailable i)
        (\<lambda>i. gives PD_DENY (if ri_capabilityAvailable i then PR_SERVICE_UNAVAILABLE
                                else PR_CAPABILITY_UNAVAILABLE)),
      rule ''DG-POL-004'' 3 (\<lambda>i. \<not> ri_contextPresent i \<or> \<not> ri_contextValid i)
        (\<lambda>i. gives PD_DENY PR_CONTEXT_INVALID),
      rule ''DG-POL-005'' 4
        (\<lambda>i. ri_contextRequirement i \<noteq> Some STATE_REFRESH \<and> ri_freshnessStatus i \<noteq> Some FS_FRESH)
        (\<lambda>i. if ri_freshnessStatus i = Some FS_INVALID_FUTURE_TIMESTAMP
              then gives PD_DENY PR_CONTEXT_FUTURE_TIMESTAMP
              else if ri_freshnessStatus i = Some FS_NOT_LATEST
              then gives PD_REPLAN PR_CONTEXT_NOT_LATEST
              else gives PD_REPLAN PR_CONTEXT_STALE),
      rule ''DG-POL-006'' 5
        (\<lambda>i. ri_contextRequirement i \<noteq> Some STATE_REFRESH \<and>
              (ri_conflictStatus i = CE_status CF_RELEVANT_STATE_CHANGED \<or>
               ri_conflictStatus i = CE_status CF_UNKNOWN_RELEVANT_PATH))
        (\<lambda>i. gives (if ri_conflictStatus i = CE_status CF_UNKNOWN_RELEVANT_PATH
                     then PD_DENY else PD_REPLAN)
                   (if ri_conflictStatus i = CE_status CF_UNKNOWN_RELEVANT_PATH
                    then PR_CONTEXT_PATH_UNKNOWN else PR_CONTEXT_RELEVANT_STATE_CHANGED)),
      rule ''DG-POL-007'' 6 (\<lambda>i. ri_riskLevel i = Some R3)
        (\<lambda>i. gives PD_REQUIRE_CONFIRMATION PR_R3_CONFIRMATION_REQUIRED),
      rule ''DG-POL-008'' 7 (\<lambda>i. ri_riskLevel i = Some R2)
        (\<lambda>i. gives PD_REQUIRE_CONFIRMATION PR_R2_CONFIRMATION_REQUIRED),
      rule ''DG-POL-009'' 8 (\<lambda>i. ri_riskLevel i = Some R1) (\<lambda>i. gives PD_ALLOW PR_R1_ALLOWED),
      rule ''DG-POL-010'' 9 (\<lambda>i. ri_riskLevel i = Some R0) (\<lambda>i. gives PD_ALLOW PR_R0_ALLOWED),
      rule ''DG-POL-011'' 10 (\<lambda>i. True) (\<lambda>i. gives PD_DENY PR_DEFAULT_DENY)]"

section \<open>The rule registry\<close>

definition RESERVED_PRECEDENCE :: "(int \<times> string) list" where
  "RESERVED_PRECEDENCE =
     [(0, ''DG-POL-001''), (1, ''DG-POL-002''), (2, ''DG-POL-003''), (3, ''DG-POL-004''),
      (4, ''DG-POL-005''), (5, ''DG-POL-006''), (6, ''DG-POL-007''), (7, ''DG-POL-008''),
      (8, ''DG-POL-009''), (9, ''DG-POL-010''), (10, ''DG-POL-011'')]"

datatype rule_registry_error = RG_DUPLICATE_RULE_ID | RG_INVALID_RULE

text \<open>The pattern \<open>^DG-POL-[0-9]{3}$\<close>.\<close>

definition rule_id_ok :: "string \<Rightarrow> bool" where
  "rule_id_ok s \<longleftrightarrow> length s = 10 \<and> take 7 s = ''DG-POL-'' \<and> list_all is_digit (drop 7 s)"

definition validateRule :: "policy_rule \<Rightarrow> (rule_registry_error, unit) result" where
  "validateRule r =
     (if \<not> rule_id_ok (pr_ruleId r) then Inl RG_INVALID_RULE
      else if \<not> is_safe_integer (pr_priority r) \<or> pr_priority r < 0 then Inl RG_INVALID_RULE
      else case map_of RESERVED_PRECEDENCE (pr_priority r) of
        Some reserved \<Rightarrow> if pr_ruleId r \<noteq> reserved then Inl RG_INVALID_RULE else Inr ()
      | None \<Rightarrow> Inr ())"

type_synonym rule_registry = "policy_rule list"

definition register_rule :: "rule_registry \<Rightarrow> policy_rule \<Rightarrow> (rule_registry_error, rule_registry) result" where
  "register_rule reg r =
     (case validateRule r of
        Inl e \<Rightarrow> Inl e
      | Inr _ \<Rightarrow>
          if pr_ruleId r \<in> pr_ruleId ` set reg then Inl RG_DUPLICATE_RULE_ID
          else Inr (reg @ [r]))"

fun register_rules :: "rule_registry \<Rightarrow> policy_rule list \<Rightarrow> (rule_registry_error, rule_registry) result" where
  "register_rules reg [] = Inr reg"
| "register_rules reg (r # rs) =
     (case register_rule reg r of Inl e \<Rightarrow> Inl e | Inr reg' \<Rightarrow> register_rules reg' rs)"

definition rule_list :: "rule_registry \<Rightarrow> policy_rule list" where
  "rule_list reg = sort_key pr_priority (sort_key pr_ruleId reg)"

definition createDefaultPolicyRuleRegistry :: "(rule_registry_error, rule_registry) result" where
  "createDefaultPolicyRuleRegistry = register_rules [] DEFAULT_POLICY_RULES"

end
