(* ===== verification/PolicyEngine.thy ===== *)
theory PolicyEngine
  imports PolicyRules
begin

text \<open>
  The deterministic policy engine, \<open>packages/policy/src/engine.ts\<close>: normalization of the
  untyped input, rule evaluation, and the process-local provenance of issued decisions with
  their single use. Issued decision objects are numbered; \<open>structuredClone\<close> of the arguments
  is the parameter \<open>clone\<close>, the compiled schema of a definition is part of the definition.
\<close>

section \<open>Untyped inputs\<close>

text \<open>
  What \<open>read\<close> finds in a candidate value: a field is \<open>None\<close> when it is absent, of another type
  or not one of the known strings.
\<close>

record raw_freshness =
  rf_status :: "freshness_status option"
  rf_ageMs :: "rat option"
  rf_maxAgeMs :: number_arg
  rf_snapshotVersion :: number_arg
  rf_latestVersion :: number_arg

record raw_conflict =
  rk_status :: "conflict_status option"
  rk_planningVersion :: number_arg
  rk_executionVersion :: number_arg
  rk_changedPaths :: paths_arg
  rk_unknownPaths :: paths_arg
  rk_snapshotIdChanged :: "bool option"
  rk_contextVersionChanged :: "bool option"
  rk_vehicleVersionChanged :: "bool option"
  rk_tripVersionChanged :: "bool option"
  rk_hasVersionChanged :: "bool option"

record raw_definition =
  rd_ref :: nat
  rd_isArray :: bool
  rd_name :: "string option"
  rd_riskLevel :: "risk_level option"
  rd_sideEffect :: "bool option"
  rd_requiredCapabilities :: paths_arg
  rd_requiredServices :: paths_arg
  rd_inputSchema_isObject :: bool
  rd_inputSchema_check :: "json \<Rightarrow> bool option"
  rd_execute_isFunction :: bool

record raw_binding =
  rb_runId :: "string option"
  rb_sessionId :: "string option"
  rb_traceId :: "string option"
  rb_actionFingerprint :: "string option"

record policy_candidate =
  pc_isRecord :: bool
  pc_toolDefinition :: "raw_definition option"
  pc_validatedArguments :: json
  pc_trustedDefinition :: bool
  pc_contextSnapshot :: "driving_context untyped option"
  pc_freshness :: raw_freshness
  pc_availability :: "resolution_context option"
  pc_conflict :: "raw_conflict option"
  pc_executionBinding :: raw_binding

text \<open>An input whose normalization throws (a hostile object) is \<open>Input_throws\<close>.\<close>

datatype policy_input = Input_throws | Input policy_candidate

section \<open>Validation of the parts\<close>

definition arg_safe :: "number_arg \<Rightarrow> int option" where
  "arg_safe a = (case a of Arg_int n \<Rightarrow> if is_safe_integer n then Some n else None | _ \<Rightarrow> None)"

definition knownUniqueArray :: "paths_arg \<Rightarrow> string list \<Rightarrow> bool" where
  "knownUniqueArray value known \<longleftrightarrow>
     (case value of
        Paths_not_array \<Rightarrow> False
      | Paths xs \<Rightarrow>
          list_all (\<lambda>x. case x of None \<Rightarrow> False | Some s \<Rightarrow> s \<in> set known) xs \<and> distinct xs)"

definition sameArray :: "paths_arg \<Rightarrow> string list \<Rightarrow> bool" where
  "sameArray value right \<longleftrightarrow> value = Paths (map Some right)"

definition expected_freshness :: "rat \<Rightarrow> int \<Rightarrow> int option \<Rightarrow> int \<Rightarrow> freshness_status" where
  "expected_freshness ageMs maxAgeMs latestVersion contextVersion =
     (if ageMs < 0 then FS_INVALID_FUTURE_TIMESTAMP
      else if latestVersion \<noteq> None \<and> latestVersion \<noteq> Some contextVersion then FS_NOT_LATEST
      else if ageMs \<le> of_int maxAgeMs then FS_FRESH else FS_STALE)"

definition validFreshness :: "raw_freshness \<Rightarrow> int option \<Rightarrow> tool_profile option \<Rightarrow> bool" where
  "validFreshness v contextVersion pf \<longleftrightarrow>
     (case (rf_status v, rf_ageMs v, arg_safe (rf_maxAgeMs v), arg_safe (rf_snapshotVersion v),
            pf, contextVersion) of
        (Some status, Some ageMs, Some maxAgeMs, Some snapshotVersion, Some p, Some version) \<Rightarrow>
          0 \<le> maxAgeMs \<and> maxAgeMs = fr_maxAgeMs (tf_freshnessRequirement p) \<and>
          snapshotVersion = version \<and>
          (rf_latestVersion v = Arg_undefined \<or>
           (case arg_safe (rf_latestVersion v) of None \<Rightarrow> False | Some n \<Rightarrow> 0 < n)) \<and>
          \<not> (fr_requiresLatest (tf_freshnessRequirement p) \<and> rf_latestVersion v = Arg_undefined) \<and>
          status = expected_freshness ageMs maxAgeMs (arg_safe (rf_latestVersion v)) version
      | _ \<Rightarrow> False)"

definition unknownUniqueArray :: "paths_arg \<Rightarrow> string list \<Rightarrow> bool" where
  "unknownUniqueArray value known \<longleftrightarrow>
     (case value of
        Paths_not_array \<Rightarrow> False
      | Paths xs \<Rightarrow>
          list_all (\<lambda>x. case x of None \<Rightarrow> False | Some s \<Rightarrow> s \<notin> set known) xs \<and> distinct xs)"

definition validConflict :: "raw_conflict \<Rightarrow> int option \<Rightarrow> bool" where
  "validConflict v contextVersion \<longleftrightarrow>
     (case (rk_status v, arg_safe (rk_planningVersion v), arg_safe (rk_executionVersion v),
            (rk_snapshotIdChanged v, rk_contextVersionChanged v, rk_vehicleVersionChanged v,
             rk_tripVersionChanged v, rk_hasVersionChanged v)) of
        (Some status, Some planning, Some execution, (Some s, Some c, Some ve, Some t, Some any)) \<Rightarrow>
          0 < planning \<and> 0 < execution \<and> Some execution = contextVersion \<and>
          knownUniqueArray (rk_changedPaths v) CONTEXT_RELEVANT_PATHS \<and>
          unknownUniqueArray (rk_unknownPaths v) CONTEXT_RELEVANT_PATHS \<and>
          c = (planning \<noteq> execution) \<and> any = (s \<or> c \<or> ve \<or> t) \<and>
          status = (if rk_unknownPaths v \<noteq> Paths [] then CF_UNKNOWN_RELEVANT_PATH
                    else if rk_changedPaths v \<noteq> Paths [] then CF_RELEVANT_STATE_CHANGED
                    else if any then CF_VERSION_CHANGED_BUT_IRRELEVANT else CF_NO_CONFLICT)
      | _ \<Rightarrow> False)"

definition validateContext :: "driving_context untyped option \<Rightarrow> driving_context option" where
  "validateContext value =
     (case value of
        Some (Shaped c) \<Rightarrow>
          (case parseDrivingContext (Shaped c) (Epoch_int (cx_capturedAt c)) of
             Inl _ \<Rightarrow> None | Inr c' \<Rightarrow> Some c')
      | _ \<Rightarrow> None)"

definition validatePolicyDefinition ::
  "raw_definition option \<Rightarrow> tool_profile option \<Rightarrow> json \<Rightarrow> bool \<times> risk_level option" where
  "validatePolicyDefinition value pf arguments =
     (case value of
        None \<Rightarrow> (False, None)
      | Some d \<Rightarrow>
          if rd_isArray d then (False, None)
          else (case (pf, rd_riskLevel d) of
             (Some p, Some risk) \<Rightarrow>
               (case rd_name d of
                  None \<Rightarrow> (False, Some risk)
                | Some name \<Rightarrow>
                    if name \<notin> set FORMAL_TOOL_NAMES \<or> name \<noteq> tf_toolName p \<or>
                       risk \<noteq> tf_riskLevel p \<or> rd_sideEffect d \<noteq> Some (tf_sideEffect p) \<or>
                       \<not> knownUniqueArray (rd_requiredCapabilities d) CAPABILITY_NAMES \<or>
                       \<not> knownUniqueArray (rd_requiredServices d) SERVICE_NAMES \<or>
                       \<not> sameArray (rd_requiredCapabilities d) (tf_requiredCapabilities p) \<or>
                       \<not> sameArray (rd_requiredServices d) (tf_requiredServices p) \<or>
                       \<not> rd_execute_isFunction d \<or> \<not> rd_inputSchema_isObject d
                    then (False, Some risk)
                    else (rd_inputSchema_check d arguments = Some True, Some risk))
           | (_, risk) \<Rightarrow> (False, risk)))"

section \<open>Normalization\<close>

text \<open>Fields of a candidate that is not a record are all absent.\<close>

definition absent_candidate :: policy_candidate where
  "absent_candidate =
     \<lparr>pc_isRecord = False, pc_toolDefinition = None, pc_validatedArguments = J_non_json,
      pc_trustedDefinition = False, pc_contextSnapshot = None,
      pc_freshness = \<lparr>rf_status = None, rf_ageMs = None, rf_maxAgeMs = Arg_undefined,
        rf_snapshotVersion = Arg_undefined, rf_latestVersion = Arg_undefined\<rparr>,
      pc_availability = None, pc_conflict = None,
      pc_executionBinding = \<lparr>rb_runId = None, rb_sessionId = None, rb_traceId = None,
        rb_actionFingerprint = None\<rparr>\<rparr>"

definition as_record :: "policy_candidate \<Rightarrow> policy_candidate" where
  "as_record c = (if pc_isRecord c then c else absent_candidate)"

definition raw_name :: "raw_definition option \<Rightarrow> string" where
  "raw_name d =
     (case d of
        None \<Rightarrow> ''unknown_tool''
      | Some r \<Rightarrow> if rd_isArray r then ''unknown_tool''
                  else case rd_name r of None \<Rightarrow> ''unknown_tool'' | Some n \<Rightarrow> n)"

definition normalize :: "policy_candidate \<Rightarrow> utc_timestamp option \<Rightarrow> profile_registry \<Rightarrow> rule_input" where
  "normalize input evaluatedAt profiles =
     (let cand = as_record input;
          toolName = raw_name (pc_toolDefinition cand);
          pf = profiles toolName;
          context = validateContext (pc_contextSnapshot cand);
          version = map_option cx_contextVersion context;
          definition_result =
            validatePolicyDefinition (pc_toolDefinition cand) pf (pc_validatedArguments cand);
          availability = (case pc_availability cand of
                            Some a \<Rightarrow> if resolution_context_ok a then Some a else None
                          | None \<Rightarrow> None);
          freshnessValid = validFreshness (pc_freshness cand) version pf;
          conflictValid = (case pc_conflict cand of None \<Rightarrow> True | Some k \<Rightarrow> validConflict k version)
      in \<lparr>ri_toolName = toolName, ri_riskLevel = snd definition_result,
          ri_inputValid =
            (pc_isRecord input \<and> pc_trustedDefinition cand \<and> fst definition_result \<and>
             availability \<noteq> None \<and> (context = None \<or> freshnessValid) \<and> conflictValid \<and>
             evaluatedAt \<noteq> None),
          ri_contextPresent = (pc_contextSnapshot cand \<noteq> None),
          ri_contextValid = (context \<noteq> None),
          ri_capabilityAvailable =
            (case (pf, availability) of
               (Some p, Some a) \<Rightarrow> list_all (flag (rc_capabilities a)) (tf_requiredCapabilities p)
             | _ \<Rightarrow> False),
          ri_serviceAvailable =
            (case (pf, availability) of
               (Some p, Some a) \<Rightarrow> list_all (flag (rc_services a)) (tf_requiredServices p)
             | _ \<Rightarrow> False),
          ri_freshnessStatus = (if freshnessValid then rf_status (pc_freshness cand) else None),
          ri_conflictStatus =
            (case pc_conflict cand of
               None \<Rightarrow> CE_NOT_EVALUATED
             | Some k \<Rightarrow> if conflictValid
                         then (case rk_status k of None \<Rightarrow> CE_UNKNOWN | Some s \<Rightarrow> CE_status s)
                         else CE_UNKNOWN),
          ri_contextChanged =
            (case pc_conflict cand of
               None \<Rightarrow> False
             | Some k \<Rightarrow> conflictValid \<and> rk_hasVersionChanged k = Some True),
          ri_contextRequirement = map_option tf_contextRequirement pf,
          ri_contextSnapshotId = map_option cx_snapshotId context,
          ri_contextVersion = version, ri_evaluatedAt = evaluatedAt\<rparr>)"

definition invalid_rule_input :: rule_input where
  "invalid_rule_input =
     \<lparr>ri_toolName = ''unknown_tool'', ri_riskLevel = None, ri_inputValid = False,
      ri_contextPresent = False, ri_contextValid = False, ri_capabilityAvailable = False,
      ri_serviceAvailable = False, ri_freshnessStatus = None, ri_conflictStatus = CE_UNKNOWN,
      ri_contextChanged = False, ri_contextRequirement = None, ri_contextSnapshotId = None,
      ri_contextVersion = None, ri_evaluatedAt = None\<rparr>"

section \<open>Issued decisions\<close>

record policy_evidence =
  pv_freshnessStatus :: "freshness_status option"
  pv_conflictStatus :: conflict_evidence
  pv_contextChanged :: bool
  pv_requiredCapabilityAvailable :: bool
  pv_serviceAvailable :: bool

record policy_decision =
  po_ref :: nat
  po_decision :: decision_type
  po_ruleId :: string
  po_reasonCode :: policy_reason
  po_toolName :: string
  po_riskLevel :: "risk_level option"
  po_contextSnapshotId :: "string option"
  po_contextVersion :: "int option"
  po_evaluatedAt :: "utc_timestamp option"
  po_evidence :: policy_evidence

record execution_binding =
  eb_runId :: string
  eb_sessionId :: string
  eb_traceId :: string
  eb_actionFingerprint :: string
  eb_contextSnapshotId :: string
  eb_contextVersion :: int

record issued_binding =
  ib_definition :: nat
  ib_validatedArguments :: json
  ib_executionBinding :: "execution_binding option"
  ib_consumed :: bool

record policy_store =
  ps_issued :: "policy_decision list"
  ps_bindings :: "nat \<rightharpoonup> issued_binding"

definition empty_policy_store :: policy_store where
  "empty_policy_store = \<lparr>ps_issued = [], ps_bindings = Map.empty\<rparr>"

definition evidence :: "rule_input \<Rightarrow> policy_evidence" where
  "evidence i =
     \<lparr>pv_freshnessStatus = ri_freshnessStatus i, pv_conflictStatus = ri_conflictStatus i,
      pv_contextChanged = ri_contextChanged i,
      pv_requiredCapabilityAvailable = ri_capabilityAvailable i,
      pv_serviceAvailable = ri_serviceAvailable i\<rparr>"

text \<open>A new object: its number is the count of objects issued before.\<close>

definition decision ::
  "policy_store \<Rightarrow> rule_input \<Rightarrow> string \<Rightarrow> decision_type \<Rightarrow> policy_reason \<Rightarrow>
     policy_decision \<times> policy_store" where
  "decision st i ruleId decisionType reasonCode =
     (let issued = \<lparr>po_ref = length (ps_issued st), po_decision = decisionType,
            po_ruleId = ruleId, po_reasonCode = reasonCode, po_toolName = ri_toolName i,
            po_riskLevel = ri_riskLevel i, po_contextSnapshotId = ri_contextSnapshotId i,
            po_contextVersion = ri_contextVersion i, po_evaluatedAt = ri_evaluatedAt i,
            po_evidence = evidence i\<rparr>
      in (issued, st\<lparr>ps_issued := ps_issued st @ [issued]\<rparr>))"

text \<open>
  A value is an issued decision when it is that very object; the objects are frozen, so the
  object of a number never changes.
\<close>

definition isPolicyDecisionIssuedByEngine :: "policy_store \<Rightarrow> policy_decision \<Rightarrow> bool" where
  "isPolicyDecisionIssuedByEngine st v \<longleftrightarrow>
     po_ref v < length (ps_issued st) \<and> ps_issued st ! po_ref v = v"

definition isPolicyDecisionIssuedFor :: "policy_store \<Rightarrow> policy_decision \<Rightarrow> nat \<Rightarrow> json \<Rightarrow> bool" where
  "isPolicyDecisionIssuedFor st v definition_ref arguments \<longleftrightarrow>
     isPolicyDecisionIssuedByEngine st v \<and>
     (case ps_bindings st (po_ref v) of
        None \<Rightarrow> False
      | Some b \<Rightarrow> ib_definition b = definition_ref \<and>
                  deep_strict_equal (ib_validatedArguments b) arguments)"

definition isPolicyDecisionIssuedForExecution ::
  "policy_store \<Rightarrow> policy_decision \<Rightarrow> nat \<Rightarrow> json \<Rightarrow> execution_binding \<Rightarrow> bool" where
  "isPolicyDecisionIssuedForExecution st v definition_ref arguments binding \<longleftrightarrow>
     isPolicyDecisionIssuedFor st v definition_ref arguments \<and>
     (case ps_bindings st (po_ref v) of
        None \<Rightarrow> False | Some b \<Rightarrow> ib_executionBinding b = Some binding)"

definition consumePolicyDecisionForExecution ::
  "policy_store \<Rightarrow> policy_decision \<Rightarrow> nat \<Rightarrow> json \<Rightarrow> execution_binding \<Rightarrow> bool \<times> policy_store" where
  "consumePolicyDecisionForExecution st v definition_ref arguments binding =
     (if \<not> isPolicyDecisionIssuedForExecution st v definition_ref arguments binding then (False, st)
      else case ps_bindings st (po_ref v) of
        None \<Rightarrow> (False, st)
      | Some b \<Rightarrow>
          if ib_consumed b then (False, st)
          else (True, st\<lparr>ps_bindings := (ps_bindings st)(po_ref v \<mapsto> b\<lparr>ib_consumed := True\<rparr>)\<rparr>))"

definition execution_identity :: "string option \<Rightarrow> bool" where
  "execution_identity x = (case x of None \<Rightarrow> False | Some s \<Rightarrow> safe_id 255 s)"

definition fingerprint_text :: "string option \<Rightarrow> bool" where
  "fingerprint_text x = (case x of None \<Rightarrow> False | Some s \<Rightarrow> is_fingerprint s)"

definition bindIssuedDecision ::
  "(json \<Rightarrow> json option) \<Rightarrow> policy_store \<Rightarrow> policy_decision \<Rightarrow> policy_input \<Rightarrow> policy_store" where
  "bindIssuedDecision clone st issued input =
     (case input of
        Input_throws \<Rightarrow> st
      | Input c \<Rightarrow>
          let cand = as_record c in
          (case pc_toolDefinition cand of
             None \<Rightarrow> st
           | Some d \<Rightarrow>
               let context = validateContext (pc_contextSnapshot cand);
                   raw = pc_executionBinding cand;
                   binding =
                     (case context of
                        None \<Rightarrow> None
                      | Some x \<Rightarrow>
                          if execution_identity (rb_runId raw) \<and> execution_identity (rb_sessionId raw) \<and>
                             execution_identity (rb_traceId raw) \<and>
                             fingerprint_text (rb_actionFingerprint raw)
                          then Some \<lparr>eb_runId = the (rb_runId raw), eb_sessionId = the (rb_sessionId raw),
                                 eb_traceId = the (rb_traceId raw),
                                 eb_actionFingerprint = the (rb_actionFingerprint raw),
                                 eb_contextSnapshotId = cx_snapshotId x,
                                 eb_contextVersion = cx_contextVersion x\<rparr>
                          else None)
               in (case clone (pc_validatedArguments cand) of
                     None \<Rightarrow> st
                   | Some arguments \<Rightarrow>
                       st\<lparr>ps_bindings := (ps_bindings st)(po_ref issued \<mapsto>
                          \<lparr>ib_definition = rd_ref d, ib_validatedArguments = arguments,
                           ib_executionBinding = binding, ib_consumed = False\<rparr>)\<rparr>)))"

section \<open>The engine\<close>

record policy_engine =
  pn_rules :: "policy_rule list"
  pn_profiles :: profile_registry

definition new_policy_engine :: "rule_registry \<Rightarrow> profile_registry \<Rightarrow> policy_engine" where
  "new_policy_engine rules profiles = \<lparr>pn_rules = rule_list rules, pn_profiles = profiles\<rparr>"

text \<open>The verdict of the rule loop: the first rule that applies, or an exception of a rule.\<close>

fun first_rule :: "policy_rule list \<Rightarrow> rule_input \<Rightarrow> (unit, string \<times> rule_result) result" where
  "first_rule [] i = Inr (''DG-POL-011'', gives PD_DENY PR_DEFAULT_DENY)"
| "first_rule (r # rs) i =
     (case pr_appliesTo r i of
        Inl e \<Rightarrow> Inl e
      | Inr False \<Rightarrow> first_rule rs i
      | Inr True \<Rightarrow>
          (case pr_evaluate r i of Inl e \<Rightarrow> Inl e | Inr result \<Rightarrow> Inr (pr_ruleId r, result)))"

definition normalized_input :: "policy_engine \<Rightarrow> policy_input \<Rightarrow> utc_timestamp option \<Rightarrow> rule_input" where
  "normalized_input engine input evaluatedAt =
     (case input of
        Input_throws \<Rightarrow> invalid_rule_input
      | Input c \<Rightarrow> normalize c evaluatedAt (pn_profiles engine))"

definition evaluate ::
  "(json \<Rightarrow> json option) \<Rightarrow> policy_engine \<Rightarrow> policy_store \<Rightarrow> policy_input \<Rightarrow> utc_timestamp option \<Rightarrow>
     policy_decision \<times> policy_store" where
  "evaluate clone engine st input evaluatedAt =
     (let i = normalized_input engine input evaluatedAt;
          (ruleId, result) =
            (case first_rule (pn_rules engine) i of
               Inl _ \<Rightarrow> (''DG-POL-002'', gives PD_DENY PR_POLICY_EXCEPTION)
             | Inr v \<Rightarrow> v);
          (issued, st') = decision st i ruleId (rr_decision result) (rr_reasonCode result)
      in (issued, bindIssuedDecision clone st' issued input))"

definition policyEvaluationEpoch :: "policy_decision \<Rightarrow> (domain_error, int option) result" where
  "policyEvaluationEpoch d =
     (case po_evaluatedAt d of
        None \<Rightarrow> Inr None
      | Some t \<Rightarrow> (case timestampToEpochMs t ''evaluatedAt'' of Inl e \<Rightarrow> Inl e | Inr n \<Rightarrow> Inr (Some n)))"

section \<open>The default engine\<close>

lemma default_rules: "createDefaultPolicyRuleRegistry = Inr DEFAULT_POLICY_RULES"
  by (simp add: createDefaultPolicyRuleRegistry_def DEFAULT_POLICY_RULES_def register_rule_def
      validateRule_def rule_def rule_id_ok_def is_digit_def RESERVED_PRECEDENCE_def
      is_safe_integer_def MAX_SAFE_INTEGER_def)

lemma rule_list_default: "rule_list DEFAULT_POLICY_RULES = DEFAULT_POLICY_RULES"
  by (simp add: rule_list_def DEFAULT_POLICY_RULES_def rule_def)

lemma default_profiles_valid: "list_all (\<lambda>p. validateProfile p = Inr ()) TOOL_POLICY_PROFILES"
  by (simp add: TOOL_POLICY_PROFILES_def profile_def validateProfile_def uniqueKnown_def
      readFreshness_def lowRiskFreshness_def sensitiveFreshness_def is_safe_integer_def
      MAX_SAFE_INTEGER_def FORMAL_TOOL_NAMES_def CONTEXT_RELEVANT_PATHS_def CAPABILITY_NAMES_def
      SERVICE_NAMES_def Let_def)

lemma default_profile_names: "map tf_toolName TOOL_POLICY_PROFILES = FORMAL_TOOL_NAMES"
  by (simp add: TOOL_POLICY_PROFILES_def profile_def FORMAL_TOOL_NAMES_def Let_def)

lemma add_profiles_ok:
  "list_all (\<lambda>p. validateProfile p = Inr ()) ps \<Longrightarrow> distinct (map tf_toolName ps) \<Longrightarrow>
   \<forall>p \<in> set ps. reg (tf_toolName p) = None \<Longrightarrow>
   add_profiles reg ps = Inr (reg ++ map_of (map (\<lambda>p. (tf_toolName p, p)) ps))"
proof (induction ps arbitrary: reg)
  case (Cons p ps)
  have "\<forall>q \<in> set ps. tf_toolName q \<noteq> tf_toolName p"
    using Cons.prems(2) by (auto simp: image_iff)
  with Cons.prems have "add_profiles (reg(tf_toolName p \<mapsto> p)) ps =
    Inr (reg(tf_toolName p \<mapsto> p) ++ map_of (map (\<lambda>p. (tf_toolName p, p)) ps))"
    by (intro Cons.IH) auto
  moreover have "map_of (map (\<lambda>p. (tf_toolName p, p)) ps) (tf_toolName p) = None"
    using Cons.prems(2) by (auto simp: map_of_eq_None_iff image_image)
  ultimately show ?case using Cons.prems by (auto simp: map_add_def fun_eq_iff split: option.splits)
qed simp

definition default_profile_map :: profile_registry where
  "default_profile_map = map_of (map (\<lambda>p. (tf_toolName p, p)) TOOL_POLICY_PROFILES)"

lemma default_profiles: "createDefaultToolPolicyProfileRegistry = Inr default_profile_map"
  using add_profiles_ok [of TOOL_POLICY_PROFILES Map.empty] default_profiles_valid
  by (simp add: createDefaultToolPolicyProfileRegistry_def new_profile_registry_def
      default_profile_map_def default_profile_names distinct_formal_names)

lemma default_profile_mem: "default_profile_map name = Some p \<Longrightarrow> p \<in> set TOOL_POLICY_PROFILES \<and> tf_toolName p = name"
  by (auto simp: default_profile_map_def dest: map_of_SomeD)

lemma default_profile_get:
  "p \<in> set TOOL_POLICY_PROFILES \<Longrightarrow> default_profile_map (tf_toolName p) = Some p"
  unfolding default_profile_map_def
  by (rule map_of_is_SomeI)
    (simp_all add: comp_def default_profile_names distinct_formal_names)

definition default_engine :: policy_engine where
  "default_engine = new_policy_engine DEFAULT_POLICY_RULES default_profile_map"

lemma default_engine_parts [simp]:
  "pn_rules default_engine = DEFAULT_POLICY_RULES"
  "pn_profiles default_engine = default_profile_map"
  by (simp_all add: default_engine_def new_policy_engine_def rule_list_default)

text \<open>The decision table the eleven rules implement.\<close>

lemma first_rule_default:
  "first_rule DEFAULT_POLICY_RULES i = Inr (rid, result) \<Longrightarrow> rr_decision result = PD_ALLOW \<Longrightarrow>
     ri_toolName i \<notin> set FORBIDDEN_TOOL_NAMES \<and> ri_inputValid i \<and> ri_capabilityAvailable i \<and>
     ri_serviceAvailable i \<and> ri_contextPresent i \<and> ri_contextValid i \<and>
     (ri_contextRequirement i = Some STATE_REFRESH \<or>
        ri_freshnessStatus i = Some FS_FRESH \<and>
        ri_conflictStatus i \<noteq> CE_status CF_RELEVANT_STATE_CHANGED \<and>
        ri_conflictStatus i \<noteq> CE_status CF_UNKNOWN_RELEVANT_PATH) \<and>
     (ri_riskLevel i = Some R0 \<or> ri_riskLevel i = Some R1)"
  by (auto simp: DEFAULT_POLICY_RULES_def rule_def gives_def split: if_splits bool.splits)

lemma first_rule_default_total: "\<exists>rid result. first_rule DEFAULT_POLICY_RULES i = Inr (rid, result)"
  by (simp add: DEFAULT_POLICY_RULES_def rule_def split: bool.splits)

lemma evaluate_decision:
  "po_decision (fst (evaluate clone engine st input now)) =
     (case first_rule (pn_rules engine) (normalized_input engine input now) of
        Inl _ \<Rightarrow> PD_DENY | Inr v \<Rightarrow> rr_decision (snd v))"
  by (auto simp: evaluate_def decision_def gives_def Let_def split: sum.splits prod.splits)

lemma allow_input:
  assumes "po_decision (fst (evaluate clone default_engine st input now)) = PD_ALLOW"
  obtains c where "input = Input c" "pc_isRecord c"
    "ri_inputValid (normalize c now default_profile_map)"
    "ri_capabilityAvailable (normalize c now default_profile_map)"
    "ri_serviceAvailable (normalize c now default_profile_map)"
    "ri_contextValid (normalize c now default_profile_map)"
    "ri_contextRequirement (normalize c now default_profile_map) = Some STATE_REFRESH \<or>
        ri_freshnessStatus (normalize c now default_profile_map) = Some FS_FRESH \<and>
        ri_conflictStatus (normalize c now default_profile_map) \<noteq> CE_status CF_RELEVANT_STATE_CHANGED \<and>
        ri_conflictStatus (normalize c now default_profile_map) \<noteq> CE_status CF_UNKNOWN_RELEVANT_PATH"
    "ri_riskLevel (normalize c now default_profile_map) \<in> {Some R0, Some R1}"
proof -
  obtain rid result where "first_rule DEFAULT_POLICY_RULES
      (normalized_input default_engine input now) = Inr (rid, result)"
    using first_rule_default_total by blast
  with assms have rule: "rr_decision result = PD_ALLOW"
    "first_rule DEFAULT_POLICY_RULES (normalized_input default_engine input now) = Inr (rid, result)"
    by (simp_all add: evaluate_decision)
  note table = first_rule_default [OF rule(2,1)]
  show thesis
  proof (cases input)
    case Input_throws
    with table show thesis by (simp add: normalized_input_def invalid_rule_input_def)
  next
    case (Input c)
    with table have n: "ri_inputValid (normalize c now default_profile_map)"
      by (simp add: normalized_input_def)
    then have "pc_isRecord c" by (simp add: normalize_def Let_def)
    with Input table show thesis by (intro that) (auto simp: normalized_input_def)
  qed
qed

lemma valid_definition:
  assumes "validatePolicyDefinition value pf arguments = (True, risk)"
  obtains d p where "value = Some d" "pf = Some p" "rd_name d = Some (tf_toolName p)"
    "risk = Some (tf_riskLevel p)" "rd_inputSchema_check d arguments = Some True" "\<not> rd_isArray d"
  using assms
  by (auto simp: validatePolicyDefinition_def split: option.splits if_splits)

lemma validateContext_Some:
  "validateContext value = Some c \<longleftrightarrow> value = Some (Shaped c) \<and> context_valid c"
  by (auto simp: validateContext_def parseDrivingContext_iff
      split: option.splits untyped.splits sum.splits)
    (metis Inl_Inr_False old.sum.exhaust order_refl parseDrivingContext_iff)

lemma valid_fresh:
  assumes "validFreshness v (Some version) (Some p)" "rf_status v = Some FS_FRESH"
    and "fr_requiresLatest (tf_freshnessRequirement p)"
  shows "\<exists>age. rf_ageMs v = Some age \<and> 0 \<le> age \<and>
    age \<le> of_int (fr_maxAgeMs (tf_freshnessRequirement p)) \<and> rf_latestVersion v = Arg_int version"
  using assms
  by (auto simp: validFreshness_def expected_freshness_def arg_safe_def
      split: option.splits if_splits number_arg.splits)

lemma low_risk_evidence:
  assumes rec: "pc_isRecord c" and valid: "ri_inputValid (normalize c now default_profile_map)"
    and rule: "ri_contextRequirement (normalize c now default_profile_map) = Some STATE_REFRESH \<or>
      ri_freshnessStatus (normalize c now default_profile_map) = Some FS_FRESH \<and>
      ri_conflictStatus (normalize c now default_profile_map) \<noteq> CE_status CF_RELEVANT_STATE_CHANGED \<and>
      ri_conflictStatus (normalize c now default_profile_map) \<noteq> CE_status CF_UNKNOWN_RELEVANT_PATH"
    and pf: "default_profile_map (raw_name (pc_toolDefinition c)) = Some p"
    and p: "p \<in> set TOOL_POLICY_PROFILES" "tf_riskLevel p = R1"
    and x: "validateContext (pc_contextSnapshot c) = Some x"
  shows "rf_latestVersion (pc_freshness c) = Arg_int (cx_contextVersion x) \<and>
    (\<exists>age. rf_ageMs (pc_freshness c) = Some age \<and> 0 \<le> age \<and> age \<le> 2000) \<and>
    (\<forall>k. pc_conflict c = Some k \<longrightarrow>
       rk_status k \<in> {Some CF_NO_CONFLICT, Some CF_VERSION_CHANGED_BUT_IRRELEVANT})"
proof -
  from rec have cand: "as_record c = c" by (simp add: as_record_def)
  have prof: "tf_contextRequirement p = LATEST_REQUIRED" "tf_freshnessRequirement p = lowRiskFreshness"
    using p by (auto simp: TOOL_POLICY_PROFILES_def profile_def Let_def)
  have vf: "validFreshness (pc_freshness c) (Some (cx_contextVersion x)) (Some p)"
    and kv: "\<forall>k. pc_conflict c = Some k \<longrightarrow> validConflict k (Some (cx_contextVersion x))"
    using valid cand x pf by (simp_all add: normalize_def Let_def split: option.splits)
  have st: "rf_status (pc_freshness c) = Some FS_FRESH"
    and ks: "\<forall>k. pc_conflict c = Some k \<longrightarrow> rk_status k \<noteq> Some CF_RELEVANT_STATE_CHANGED \<and>
      rk_status k \<noteq> Some CF_UNKNOWN_RELEVANT_PATH"
    using rule cand x pf vf kv prof by (auto simp: normalize_def Let_def)
  have "\<exists>s. rk_status k = Some s" if "pc_conflict c = Some k" for k
    using kv that by (auto simp: validConflict_def split: option.splits)
  with ks have "\<forall>k. pc_conflict c = Some k \<longrightarrow>
      rk_status k \<in> {Some CF_NO_CONFLICT, Some CF_VERSION_CHANGED_BUT_IRRELEVANT}"
    using conflict_status.exhaust by (metis insertCI)
  with valid_fresh [OF vf st] prof show ?thesis by (auto simp: lowRiskFreshness_def)
qed

lemma allow_evidence:
  assumes "po_decision (fst (evaluate clone default_engine st input now)) = PD_ALLOW"
  shows "\<exists>c d p a x. input = Input c \<and> pc_trustedDefinition c \<and> pc_toolDefinition c = Some d \<and>
    p \<in> set TOOL_POLICY_PROFILES \<and> rd_name d = Some (tf_toolName p) \<and>
    tf_riskLevel p \<in> {R0, R1} \<and> rd_inputSchema_check d (pc_validatedArguments c) = Some True \<and>
    pc_availability c = Some a \<and>
    requirementsAreAvailable (tf_requiredCapabilities p) (tf_requiredServices p) a \<and>
    pc_contextSnapshot c = Some (Shaped x) \<and> context_valid x \<and>
    (tf_riskLevel p = R1 \<longrightarrow>
       rf_latestVersion (pc_freshness c) = Arg_int (cx_contextVersion x) \<and>
       (\<exists>age. rf_ageMs (pc_freshness c) = Some age \<and> 0 \<le> age \<and> age \<le> 2000) \<and>
       (\<forall>k. pc_conflict c = Some k \<longrightarrow>
          rk_status k \<in> {Some CF_NO_CONFLICT, Some CF_VERSION_CHANGED_BUT_IRRELEVANT}))"
proof -
  obtain c where c: "input = Input c" and rec: "pc_isRecord c"
    and n: "ri_inputValid (normalize c now default_profile_map)"
      "ri_capabilityAvailable (normalize c now default_profile_map)"
      "ri_serviceAvailable (normalize c now default_profile_map)"
      "ri_contextValid (normalize c now default_profile_map)"
      "ri_contextRequirement (normalize c now default_profile_map) = Some STATE_REFRESH \<or>
        ri_freshnessStatus (normalize c now default_profile_map) = Some FS_FRESH \<and>
        ri_conflictStatus (normalize c now default_profile_map) \<noteq> CE_status CF_RELEVANT_STATE_CHANGED \<and>
        ri_conflictStatus (normalize c now default_profile_map) \<noteq> CE_status CF_UNKNOWN_RELEVANT_PATH"
      "ri_riskLevel (normalize c now default_profile_map) \<in> {Some R0, Some R1}"
    using allow_input [OF assms] .
  from rec have cand: "as_record c = c" by (simp add: as_record_def)
  define pf where "pf = default_profile_map (raw_name (pc_toolDefinition c))"
  obtain ok risk where v: "validatePolicyDefinition (pc_toolDefinition c) pf
      (pc_validatedArguments c) = (ok, risk)" by force
  with n(1,6) cand have ok: "ok" "risk \<in> {Some R0, Some R1}"
    by (simp_all add: normalize_def Let_def pf_def)
  with v obtain d p where d: "pc_toolDefinition c = Some d" "pf = Some p"
      "rd_name d = Some (tf_toolName p)" "risk = Some (tf_riskLevel p)"
      "rd_inputSchema_check d (pc_validatedArguments c) = Some True"
    by (auto elim: valid_definition)
  from d(2) have p: "p \<in> set TOOL_POLICY_PROFILES"
    by (auto simp: pf_def dest: default_profile_mem)
  from n(4) cand obtain x where x: "validateContext (pc_contextSnapshot c) = Some x"
    by (auto simp: normalize_def Let_def)
  from n(1) cand obtain a where a: "pc_availability c = Some a" "resolution_context_ok a"
    and trusted: "pc_trustedDefinition c"
    by (auto simp: normalize_def Let_def split: option.splits if_splits)
  have pf': "default_profile_map (raw_name (pc_toolDefinition c)) = Some p"
    using d(2) by (simp add: pf_def)
  have avail: "requirementsAreAvailable (tf_requiredCapabilities p) (tf_requiredServices p) a"
    using n(2,3) cand a pf' by (simp add: normalize_def Let_def requirementsAreAvailable_def)
  have fresh: "tf_riskLevel p = R1 \<Longrightarrow> rf_latestVersion (pc_freshness c) = Arg_int (cx_contextVersion x) \<and>
      (\<exists>age. rf_ageMs (pc_freshness c) = Some age \<and> 0 \<le> age \<and> age \<le> 2000) \<and>
      (\<forall>k. pc_conflict c = Some k \<longrightarrow>
         rk_status k \<in> {Some CF_NO_CONFLICT, Some CF_VERSION_CHANGED_BUT_IRRELEVANT})"
    by (rule low_risk_evidence [OF rec n(1,5) pf' p _ x])
  show ?thesis
    using c trusted d p ok(2) a(1) avail x fresh
    by (intro exI [of _ c] exI [of _ d] exI [of _ p] exI [of _ a] exI [of _ x])
      (auto simp: validateContext_Some)
qed


text \<open>A tool definition read as an untyped value.\<close>

definition raw_of_definition :: "tool_definition \<Rightarrow> raw_definition" where
  "raw_of_definition d =
     \<lparr>rd_ref = td_ref d, rd_isArray = False, rd_name = Some (td_name d),
      rd_riskLevel = Some (td_riskLevel d), rd_sideEffect = Some (td_sideEffect d),
      rd_requiredCapabilities = Paths (map Some (td_requiredCapabilities d)),
      rd_requiredServices = Paths (map Some (td_requiredServices d)),
      rd_inputSchema_isObject = True,
      rd_inputSchema_check = (\<lambda>v. if td_schemas_compile d then Some (td_input_ok d v) else None),
      rd_execute_isFunction = td_has_execute d\<rparr>"

text \<open>Evidence produced by the evaluator and the detector, read as untyped values.\<close>

definition raw_of_freshness :: "freshness_result \<Rightarrow> raw_freshness" where
  "raw_of_freshness r =
     \<lparr>rf_status = Some (fz_status r), rf_ageMs = Some (of_int (fz_ageMs r)),
      rf_maxAgeMs = Arg_int (fz_maxAgeMs r), rf_snapshotVersion = Arg_int (fz_snapshotVersion r),
      rf_latestVersion = (case fz_latestVersion r of None \<Rightarrow> Arg_undefined | Some n \<Rightarrow> Arg_int n)\<rparr>"

definition raw_of_conflict :: "conflict_result \<Rightarrow> raw_conflict" where
  "raw_of_conflict r =
     \<lparr>rk_status = Some (cf_status r), rk_planningVersion = Arg_int (cf_planningVersion r),
      rk_executionVersion = Arg_int (cf_executionVersion r),
      rk_changedPaths = Paths (map Some (cf_changedPaths r)),
      rk_unknownPaths = Paths (map Some (cf_unknownPaths r)),
      rk_snapshotIdChanged = Some (vc_snapshotIdChanged (cf_versions r)),
      rk_contextVersionChanged = Some (vc_contextVersionChanged (cf_versions r)),
      rk_vehicleVersionChanged = Some (vc_vehicleVersionChanged (cf_versions r)),
      rk_tripVersionChanged = Some (vc_tripVersionChanged (cf_versions r)),
      rk_hasVersionChanged = Some (vc_hasVersionChanged (cf_versions r))\<rparr>"

definition full_availability :: resolution_context where
  "full_availability =
     \<lparr>rc_capabilities = map (\<lambda>n. (n, True)) CAPABILITY_NAMES,
      rc_services = map (\<lambda>n. (n, True)) SERVICE_NAMES\<rparr>"

definition media_request :: policy_candidate where
  "media_request =
     \<lparr>pc_isRecord = True,
      pc_toolDefinition = Some (raw_of_definition (createFormalToolDefinitions (\<lambda>_ _. True) ! 7)),
      pc_validatedArguments = J_obj [(''volume'', js_nat 3)], pc_trustedDefinition = True,
      pc_contextSnapshot = Some (Shaped parked_context),
      pc_freshness = \<lparr>rf_status = Some FS_FRESH, rf_ageMs = Some 100, rf_maxAgeMs = Arg_int 2000,
        rf_snapshotVersion = Arg_int 5, rf_latestVersion = Arg_int 5\<rparr>,
      pc_availability = Some full_availability, pc_conflict = None,
      pc_executionBinding = \<lparr>rb_runId = Some ''run-1'', rb_sessionId = Some ''ses-1'',
        rb_traceId = Some ''tr-1'', rb_actionFingerprint = Some (replicate 64 (CHR ''a''))\<rparr>\<rparr>"

definition media_profile :: tool_profile where
  "media_profile = TOOL_POLICY_PROFILES ! 7"

lemma media_profile_get: "default_profile_map ''set_media_volume'' = Some media_profile"
  using default_profile_get [of media_profile]
  by (simp add: media_profile_def TOOL_POLICY_PROFILES_def profile_def Let_def)

lemma media_context: "validateContext (Some (Shaped parked_context)) = Some parked_context"
  by (simp add: validateContext_Some parked_context_valid)

lemma full_availability_ok: "resolution_context_ok full_availability"
  by (simp add: full_availability_def resolution_context_ok_def exact_fields_def
      CAPABILITY_NAMES_def SERVICE_NAMES_def)

lemma media_tool:
  "createFormalToolDefinitions (\<lambda>_ _. True) ! 7 =
     formal_tool (\<lambda>_ _. True) 7 ''set_media_volume'' ''Set media volume'' ''Set the cabin media volume.''
       R1 [''media''] [''vehicleSimulator''] True 2000 NON_IDEMPOTENT AUDIT_STANDARD"
  by (simp add: createFormalToolDefinitions_def)

lemma media_definition:
  "validatePolicyDefinition (Some (raw_of_definition (createFormalToolDefinitions (\<lambda>_ _. True) ! 7)))
     (Some media_profile) v = (True, Some R1)"
  by (simp add: media_tool raw_of_definition_def formal_tool_def validatePolicyDefinition_def
      media_profile_def TOOL_POLICY_PROFILES_def profile_def Let_def FORMAL_TOOL_NAMES_def
      knownUniqueArray_def sameArray_def CAPABILITY_NAMES_def SERVICE_NAMES_def)

lemma media_fresh:
  "validFreshness (pc_freshness media_request) (Some 5) (Some media_profile)"
  by (simp add: media_request_def validFreshness_def media_profile_def TOOL_POLICY_PROFILES_def
      profile_def Let_def lowRiskFreshness_def arg_safe_def is_safe_integer_def
      MAX_SAFE_INTEGER_def expected_freshness_def)

lemma media_normalized:
  "normalize media_request (Some 2100) default_profile_map =
     \<lparr>ri_toolName = ''set_media_volume'', ri_riskLevel = Some R1, ri_inputValid = True,
      ri_contextPresent = True, ri_contextValid = True, ri_capabilityAvailable = True,
      ri_serviceAvailable = True, ri_freshnessStatus = Some FS_FRESH,
      ri_conflictStatus = CE_NOT_EVALUATED, ri_contextChanged = False,
      ri_contextRequirement = Some LATEST_REQUIRED, ri_contextSnapshotId = Some ''ctx:5'',
      ri_contextVersion = Some 5, ri_evaluatedAt = Some 2100\<rparr>"
proof -
  have name: "raw_name (pc_toolDefinition media_request) = ''set_media_volume''"
    by (simp add: media_request_def media_tool raw_of_definition_def formal_tool_def raw_name_def)
  have ctx: "validateContext (pc_contextSnapshot media_request) = Some parked_context"
    by (simp add: media_request_def media_context)
  have cx: "cx_contextVersion parked_context = 5" "cx_snapshotId parked_context = ''ctx:5''"
    by (simp_all add: parked_context_def)
  have prof: "tf_requiredCapabilities media_profile = [''media'']"
    "tf_requiredServices media_profile = [''vehicleSimulator'']"
    "tf_contextRequirement media_profile = LATEST_REQUIRED"
    by (simp_all add: media_profile_def TOOL_POLICY_PROFILES_def profile_def Let_def)
  have flags: "flag (rc_capabilities full_availability) ''media''"
    "flag (rc_services full_availability) ''vehicleSimulator''"
    by (simp_all add: full_availability_def flag_def CAPABILITY_NAMES_def SERVICE_NAMES_def)
  have rest: "as_record media_request = media_request" "pc_isRecord media_request"
    "pc_trustedDefinition media_request" "pc_availability media_request = Some full_availability"
    "pc_conflict media_request = None" "rf_status (pc_freshness media_request) = Some FS_FRESH"
    "pc_contextSnapshot media_request \<noteq> None"
    "\<And>pf v. validatePolicyDefinition (pc_toolDefinition media_request) (Some media_profile) v = (True, Some R1)"
    by (simp_all add: media_request_def as_record_def media_definition)
  show ?thesis
    unfolding normalize_def rest name media_profile_get ctx Let_def
    by (simp add: rest full_availability_ok media_fresh cx prof flags)
qed


section \<open>Single use of issued decisions\<close>

datatype policy_call =
  Pol_evaluate policy_engine policy_input "utc_timestamp option"
| Pol_consume policy_decision nat json execution_binding

definition policy_step :: "(json \<Rightarrow> json option) \<Rightarrow> policy_store \<Rightarrow> policy_call \<Rightarrow> policy_store" where
  "policy_step clone st call =
     (case call of
        Pol_evaluate engine input now \<Rightarrow> snd (evaluate clone engine st input now)
      | Pol_consume v d arguments b \<Rightarrow> snd (consumePolicyDecisionForExecution st v d arguments b))"

text \<open>Objects are numbered in order of issue, and only issued objects have a binding.\<close>

definition policy_inv :: "policy_store \<Rightarrow> bool" where
  "policy_inv st \<longleftrightarrow>
     (\<forall>i < length (ps_issued st). po_ref (ps_issued st ! i) = i) \<and>
     dom (ps_bindings st) \<subseteq> {..<length (ps_issued st)}"

definition spent :: "nat \<Rightarrow> policy_store \<Rightarrow> bool" where
  "spent r st \<longleftrightarrow> r < length (ps_issued st) \<and>
     (case ps_bindings st r of None \<Rightarrow> True | Some b \<Rightarrow> ib_consumed b)"

lemma bind_issued:
  "ps_issued (bindIssuedDecision clone st d input) = ps_issued st"
  "r \<noteq> po_ref d \<Longrightarrow> ps_bindings (bindIssuedDecision clone st d input) r = ps_bindings st r"
  "dom (ps_bindings (bindIssuedDecision clone st d input)) \<subseteq> insert (po_ref d) (dom (ps_bindings st))"
  by (auto simp: bindIssuedDecision_def Let_def split: policy_input.splits option.splits if_splits)

lemma evaluate_state:
  obtains issued where
    "snd (evaluate clone engine st input now) =
       bindIssuedDecision clone (st\<lparr>ps_issued := ps_issued st @ [issued]\<rparr>) issued input"
    "po_ref issued = length (ps_issued st)"
proof -
  obtain rid res where v: "(case first_rule (pn_rules engine) (normalized_input engine input now) of
      Inl _ \<Rightarrow> (''DG-POL-002'', gives PD_DENY PR_POLICY_EXCEPTION) | Inr v \<Rightarrow> v) = (rid, res)"
    by force
  show thesis
    by (rule that [of "fst (evaluate clone engine st input now)"])
      (simp_all add: evaluate_def decision_def Let_def v)
qed

lemma policy_inv_evaluate: "policy_inv st \<Longrightarrow> policy_inv (snd (evaluate clone engine st input now))"
proof -
  assume inv: "policy_inv st"
  obtain issued where e: "snd (evaluate clone engine st input now) =
      bindIssuedDecision clone (st\<lparr>ps_issued := ps_issued st @ [issued]\<rparr>) issued input"
    and r: "po_ref issued = length (ps_issued st)"
    using evaluate_state [of clone engine st input now] by blast
  have "dom (ps_bindings (bindIssuedDecision clone (st\<lparr>ps_issued := ps_issued st @ [issued]\<rparr>) issued input))
      \<subseteq> insert (length (ps_issued st)) (dom (ps_bindings st))"
    using bind_issued(3) [of clone "st\<lparr>ps_issued := ps_issued st @ [issued]\<rparr>" issued input] r by simp
  with inv r show ?thesis
    unfolding e policy_inv_def bind_issued(1)
    by (auto simp: nth_append less_Suc_eq subset_iff)
qed

lemma spent_evaluate:
  "spent r st \<Longrightarrow> spent r (snd (evaluate clone engine st input now))"
proof -
  assume sp: "spent r st"
  obtain issued where e: "snd (evaluate clone engine st input now) =
      bindIssuedDecision clone (st\<lparr>ps_issued := ps_issued st @ [issued]\<rparr>) issued input"
    and r: "po_ref issued = length (ps_issued st)"
    using evaluate_state [of clone engine st input now] by blast
  from sp r have "r \<noteq> po_ref issued" by (simp add: spent_def)
  with sp show ?thesis
    unfolding e spent_def bind_issued(1) by (simp add: bind_issued(2))
qed

lemma consume_result:
  "consumePolicyDecisionForExecution st v d arguments b =
     (if isPolicyDecisionIssuedForExecution st v d arguments b \<and>
         (\<exists>x. ps_bindings st (po_ref v) = Some x \<and> \<not> ib_consumed x)
      then (True, st\<lparr>ps_bindings := (ps_bindings st)
             (po_ref v \<mapsto> (the (ps_bindings st (po_ref v)))\<lparr>ib_consumed := True\<rparr>)\<rparr>)
      else (False, st))"
  by (cases "ps_bindings st (po_ref v)") (simp_all add: consumePolicyDecisionForExecution_def)

lemma issued_length:
  "isPolicyDecisionIssuedForExecution st v d arguments b \<Longrightarrow> po_ref v < length (ps_issued st)"
  by (simp add: isPolicyDecisionIssuedForExecution_def isPolicyDecisionIssuedFor_def
      isPolicyDecisionIssuedByEngine_def)

lemma policy_inv_consume:
  "policy_inv st \<Longrightarrow> policy_inv (snd (consumePolicyDecisionForExecution st v d arguments b))"
  by (auto simp: consume_result policy_inv_def dest: issued_length split: if_splits)

lemma policy_inv_step: "policy_inv st \<Longrightarrow> policy_inv (policy_step clone st call)"
  by (cases call) (simp_all add: policy_step_def policy_inv_evaluate policy_inv_consume)

interpretation pol: guarded_machine "\<lambda>st. st = empty_policy_store" "policy_step clone" policy_inv
  for clone
  by unfold_locales (simp_all add: policy_inv_step policy_inv_def [of empty_policy_store]
      empty_policy_store_def [THEN arg_cong, of ps_issued]
      empty_policy_store_def [THEN arg_cong, of ps_bindings])

lemma spent_consume:
  "spent r st \<Longrightarrow> spent r (snd (consumePolicyDecisionForExecution st v d arguments b))"
  by (auto simp: consume_result spent_def split: option.splits)

lemma spent_step: "spent r st \<Longrightarrow> spent r (policy_step clone st call)"
  by (cases call) (simp_all add: policy_step_def spent_evaluate spent_consume)

lemma spent_run: "spent r st \<Longrightarrow> spent r (foldl (policy_step clone) st calls)"
  by (induction calls arbitrary: st) (auto intro: spent_step)

text \<open>
  A decision is consumed at most once: after a successful consumption no later sequence
  of evaluations and consumptions makes a second consumption of that decision succeed.
\<close>

theorem decision_consumed_at_most_once:
  assumes "consumePolicyDecisionForExecution st v d arguments b = (True, st')"
  shows "\<not> fst (consumePolicyDecisionForExecution (foldl (policy_step clone) st' calls) v d' arguments' b')"
proof -
  have "spent (po_ref v) st'"
    using assms by (auto simp: consume_result spent_def dest: issued_length split: if_splits)
  then have "spent (po_ref v) (foldl (policy_step clone) st' calls)" by (rule spent_run)
  then show ?thesis
    by (auto simp: consume_result spent_def)
qed

definition media_binding :: execution_binding where
  "media_binding =
     \<lparr>eb_runId = ''run-1'', eb_sessionId = ''ses-1'', eb_traceId = ''tr-1'',
      eb_actionFingerprint = replicate 64 (CHR ''a''), eb_contextSnapshotId = ''ctx:5'',
      eb_contextVersion = 5\<rparr>"

definition media_decision :: policy_decision where
  "media_decision = fst (evaluate Some default_engine empty_policy_store (Input media_request) (Some 2100))"

definition media_store :: policy_store where
  "media_store = snd (evaluate Some default_engine empty_policy_store (Input media_request) (Some 2100))"

lemma media_bound:
  "po_ref media_decision = 0" "ps_issued media_store = [media_decision]"
  "ps_bindings media_store = [0 \<mapsto> \<lparr>ib_definition = 7,
      ib_validatedArguments = pc_validatedArguments media_request,
      ib_executionBinding = Some media_binding, ib_consumed = False\<rparr>]"
proof -
  have x: "cx_contextVersion parked_context = 5" "cx_snapshotId parked_context = ''ctx:5''"
    by (simp_all add: parked_context_def)
  have ids: "execution_identity (Some ''run-1'')" "execution_identity (Some ''ses-1'')"
    "execution_identity (Some ''tr-1'')"
    by (simp_all add: execution_identity_def id_patterns)
  have fp: "fingerprint_text (Some (replicate 64 (CHR ''a'')))"
    by (simp add: fingerprint_text_def id_patterns list_all_iff)
  show "po_ref media_decision = 0" "ps_issued media_store = [media_decision]"
    by (simp_all add: media_decision_def media_store_def evaluate_def decision_def Let_def
        bind_issued(1) empty_policy_store_def split: prod.splits)
  show "ps_bindings media_store = [0 \<mapsto> \<lparr>ib_definition = 7,
      ib_validatedArguments = pc_validatedArguments media_request,
      ib_executionBinding = Some media_binding, ib_consumed = False\<rparr>]"
    by (simp add: media_store_def evaluate_def decision_def Let_def bindIssuedDecision_def
        as_record_def media_request_def media_context ids fp x media_binding_def media_tool
        raw_of_definition_def formal_tool_def empty_policy_store_def split: prod.splits)
qed

lemma media_consumed:
  "consumePolicyDecisionForExecution media_store media_decision 7
     (pc_validatedArguments media_request) media_binding =
   (True, media_store\<lparr>ps_bindings := (ps_bindings media_store)(0 \<mapsto>
      \<lparr>ib_definition = 7, ib_validatedArguments = pc_validatedArguments media_request,
       ib_executionBinding = Some media_binding, ib_consumed = True\<rparr>)\<rparr>)"
  by (simp add: consume_result isPolicyDecisionIssuedForExecution_def
      isPolicyDecisionIssuedFor_def isPolicyDecisionIssuedByEngine_def media_bound)

theorem decision_consumed_at_most_once_witness:
  "\<not> fst (consumePolicyDecisionForExecution
      (foldl (policy_step Some)
        (snd (consumePolicyDecisionForExecution media_store media_decision 7
           (pc_validatedArguments media_request) media_binding))
        [Pol_evaluate default_engine (Input media_request) (Some 2200)])
      media_decision 7 (pc_validatedArguments media_request) media_binding)"
  unfolding media_consumed snd_conv
  by (rule decision_consumed_at_most_once [OF media_consumed])

section \<open>Agreement of the components\<close>

text \<open>
  The default profiles agree with the tool definitions: every formal tool has exactly one
  profile, with the risk, the side-effect flag, the capabilities and the services of its
  definition; confirmation is required exactly at the two upper risk levels.
\<close>

theorem profiles_match_definitions:
  "list_all (\<lambda>d. \<exists>p. default_profile_map (td_name d) = Some p \<and> tf_riskLevel p = td_riskLevel d \<and>
       tf_sideEffect p = td_sideEffect d \<and>
       tf_requiredCapabilities p = td_requiredCapabilities d \<and>
       tf_requiredServices p = td_requiredServices d \<and>
       tf_confirmationRequired p = (td_riskLevel d \<in> {R2, R3}))
     (createFormalToolDefinitions schemas) \<and>
   map td_name (createFormalToolDefinitions schemas) = map tf_toolName TOOL_POLICY_PROFILES"
proof
  show names: "map td_name (createFormalToolDefinitions schemas) = map tf_toolName TOOL_POLICY_PROFILES"
    by (simp add: createFormalToolDefinitions_def formal_tool_def TOOL_POLICY_PROFILES_def
        profile_def Let_def)
  have zip: "list_all2 (\<lambda>d p. td_name d = tf_toolName p \<and> tf_riskLevel p = td_riskLevel d \<and>
       tf_sideEffect p = td_sideEffect d \<and>
       tf_requiredCapabilities p = td_requiredCapabilities d \<and>
       tf_requiredServices p = td_requiredServices d \<and>
       tf_confirmationRequired p = (td_riskLevel d \<in> {R2, R3}))
     (createFormalToolDefinitions schemas) TOOL_POLICY_PROFILES"
    by (simp add: createFormalToolDefinitions_def formal_tool_def TOOL_POLICY_PROFILES_def
        profile_def Let_def)
  show "list_all (\<lambda>d. \<exists>p. default_profile_map (td_name d) = Some p \<and> tf_riskLevel p = td_riskLevel d \<and>
       tf_sideEffect p = td_sideEffect d \<and>
       tf_requiredCapabilities p = td_requiredCapabilities d \<and>
       tf_requiredServices p = td_requiredServices d \<and>
       tf_confirmationRequired p = (td_riskLevel d \<in> {R2, R3}))
     (createFormalToolDefinitions schemas)"
    unfolding list_all_length
  proof (intro allI impI)
    fix n
    assume n: "n < length (createFormalToolDefinitions schemas)"
    with zip have len: "n < length TOOL_POLICY_PROFILES" by (simp add: list_all2_lengthD)
    then have "default_profile_map (tf_toolName (TOOL_POLICY_PROFILES ! n)) = Some (TOOL_POLICY_PROFILES ! n)"
      by (intro default_profile_get) simp
    with list_all2_nthD [OF zip n]
    show "\<exists>p. default_profile_map (td_name (createFormalToolDefinitions schemas ! n)) = Some p \<and>
        tf_riskLevel p = td_riskLevel (createFormalToolDefinitions schemas ! n) \<and>
        tf_sideEffect p = td_sideEffect (createFormalToolDefinitions schemas ! n) \<and>
        tf_requiredCapabilities p = td_requiredCapabilities (createFormalToolDefinitions schemas ! n) \<and>
        tf_requiredServices p = td_requiredServices (createFormalToolDefinitions schemas ! n) \<and>
        tf_confirmationRequired p = (td_riskLevel (createFormalToolDefinitions schemas ! n) \<in> {R2, R3})"
      by auto
  qed
qed

lemma version_ok_safe [simp]: "version_ok n \<Longrightarrow> arg_safe (Arg_int n) = Some n \<and> 0 < n"
  by (simp add: version_ok_def arg_safe_def is_safe_integer_def MAX_SAFE_INTEGER_def)

lemma arg_safe_undefined [simp]: "arg_safe Arg_undefined = None"
  by (simp add: arg_safe_def)

lemma evaluate_freshness_facts:
  assumes "evaluate_freshness clock x req latest = Inr r"
  shows "arg_safe (Arg_int (fr_maxAgeMs req)) = Some (fr_maxAgeMs req) \<and> 0 \<le> fr_maxAgeMs req \<and>
    fz_maxAgeMs r = fr_maxAgeMs req \<and> fz_snapshotVersion r = cx_contextVersion x \<and>
    latest_version latest = Inr (fz_latestVersion r) \<and>
    \<not> (fr_requiresLatest req \<and> latest = Arg_undefined) \<and>
    fz_status r = (if fz_ageMs r < 0 then FS_INVALID_FUTURE_TIMESTAMP
       else if fr_requiresLatest req \<and> fz_latestVersion r \<noteq> Some (cx_contextVersion x) then FS_NOT_LATEST
       else if fz_ageMs r \<le> fr_maxAgeMs req then FS_FRESH else FS_STALE)"
  using assms
  by (simp add: evaluate_freshness_def validateRequirement_def domain_fail_def Let_def arg_safe_def
      split: if_splits) auto

lemma latest_version_Inr:
  "latest_version latest = Inr v \<longleftrightarrow>
     latest = Arg_undefined \<and> v = None \<or> (\<exists>n. latest = Arg_int n \<and> version_ok n \<and> v = Some n)"
  by (cases latest) (auto simp: latest_version_def domain_fail_def)

lemma freshness_evidence_accepted:
  assumes "evaluate_freshness clock x (tf_freshnessRequirement p) latest = Inr r"
    and "fr_requiresLatest (tf_freshnessRequirement p) \<or> latest = Arg_undefined"
    and "version_ok (cx_contextVersion x)"
  shows "validFreshness (raw_of_freshness r) (Some (cx_contextVersion x)) (Some p)"
proof -
  note f = evaluate_freshness_facts [OF assms(1)]
  from f have "latest_version latest = Inr (fz_latestVersion r)" by blast
  then consider "latest = Arg_undefined" "fz_latestVersion r = None"
    | n where "latest = Arg_int n" "version_ok n" "fz_latestVersion r = Some n"
    by (auto simp: latest_version_Inr)
  then show ?thesis
  proof cases
    case 1
    with f assms show ?thesis
      by (simp add: validFreshness_def raw_of_freshness_def expected_freshness_def)
  next
    case 2
    with assms have "fr_requiresLatest (tf_freshnessRequirement p)" by simp
    with 2 f assms show ?thesis
      by (simp add: validFreshness_def raw_of_freshness_def expected_freshness_def)
  qed
qed

lemma conflict_evidence_accepted:
  assumes "detect_conflict planning x paths = Inr k"
    and "version_ok (cx_contextVersion x)" "version_ok (cx_contextVersion planning)"
  shows "validConflict (raw_of_conflict k) (Some (cx_contextVersion x))"
proof -
  obtain raw where raw: "paths = Paths raw" "\<not> list_ex (\<lambda>p. p = None) raw"
    using assms(1) by (auto simp: detect_conflict_def domain_fail_def split: paths_arg.splits if_splits)
  define cands where "cands = map the raw"
  have k: "k = \<lparr>cf_status = (if sort (remdups (filter (\<lambda>p. p \<notin> set CONTEXT_RELEVANT_PATHS) cands)) \<noteq> []
        then CF_UNKNOWN_RELEVANT_PATH
        else if filter (\<lambda>p. \<not> deepEqual (valueAt planning p) (valueAt x p))
          (sort (remdups (filter (\<lambda>p. p \<in> set CONTEXT_RELEVANT_PATHS) cands))) \<noteq> []
        then CF_RELEVANT_STATE_CHANGED
        else if vc_hasVersionChanged (detectVersionChanges planning x)
        then CF_VERSION_CHANGED_BUT_IRRELEVANT else CF_NO_CONFLICT),
      cf_planningVersion = cx_contextVersion planning, cf_executionVersion = cx_contextVersion x,
      cf_changedPaths = filter (\<lambda>p. \<not> deepEqual (valueAt planning p) (valueAt x p))
          (sort (remdups (filter (\<lambda>p. p \<in> set CONTEXT_RELEVANT_PATHS) cands))),
      cf_unknownPaths = sort (remdups (filter (\<lambda>p. p \<notin> set CONTEXT_RELEVANT_PATHS) cands)),
      cf_versions = detectVersionChanges planning x\<rparr>"
    using assms(1) raw(2) unfolding raw(1) cands_def detect_conflict_def paths_arg.case Let_def
    by (simp only: if_False) (simp only: sum.inject)
  define unknown where "unknown = sort (remdups (filter (\<lambda>p. p \<notin> set CONTEXT_RELEVANT_PATHS) cands))"
  define changed where "changed = filter (\<lambda>p. \<not> deepEqual (valueAt planning p) (valueAt x p))
          (sort (remdups (filter (\<lambda>p. p \<in> set CONTEXT_RELEVANT_PATHS) cands)))"
  have lists: "distinct unknown" "distinct changed" "\<forall>p \<in> set unknown. p \<notin> set CONTEXT_RELEVANT_PATHS"
    "\<forall>p \<in> set changed. p \<in> set CONTEXT_RELEVANT_PATHS"
    by (auto simp: unknown_def changed_def)
  have arrays: "knownUniqueArray (Paths (map Some changed)) CONTEXT_RELEVANT_PATHS"
    "unknownUniqueArray (Paths (map Some unknown)) CONTEXT_RELEVANT_PATHS"
    using lists by (simp_all add: knownUniqueArray_def unknownUniqueArray_def list_all_iff distinct_map)
  show ?thesis
    using k [folded unknown_def changed_def] arrays assms(2,3)
    by (simp add: raw_of_conflict_def validConflict_def detectVersionChanges_def Let_def)
qed

text \<open>
  C21. What the context components produce, the engine accepts as evidence: a freshness
  verdict computed with the profile's own requirement (and a latest version only where the
  profile asks for one), and every verdict of the conflict detector, pass the engine's
  structural and consistency checks for that context.
\<close>

theorem context_evidence_accepted:
  assumes "evaluate_freshness clock x (tf_freshnessRequirement p) latest = Inr r"
    and "fr_requiresLatest (tf_freshnessRequirement p) \<or> latest = Arg_undefined"
    and "detect_conflict planning x paths = Inr k"
    and "context_valid x" "context_valid planning"
  shows "validFreshness (raw_of_freshness r) (Some (cx_contextVersion x)) (Some p) \<and>
    validConflict (raw_of_conflict k) (Some (cx_contextVersion x))"
  using freshness_evidence_accepted [OF assms(1,2)] conflict_evidence_accepted [OF assms(3)] assms(4,5)
  by (simp add: context_valid_def)

theorem context_evidence_accepted_witness:
  "\<exists>r k. evaluate_freshness (Epoch_int 2500) parked_context
        (tf_freshnessRequirement media_profile) (Arg_int 5) = Inr r \<and>
     detect_conflict parked_context parked_context (Paths [Some ''vehicle.soc'']) = Inr k \<and>
     validFreshness (raw_of_freshness r) (Some (cx_contextVersion parked_context)) (Some media_profile) \<and>
     validConflict (raw_of_conflict k) (Some (cx_contextVersion parked_context))"
proof -
  have prof: "tf_freshnessRequirement media_profile = lowRiskFreshness"
    by (simp add: media_profile_def TOOL_POLICY_PROFILES_def profile_def Let_def)
  obtain r where r: "evaluate_freshness (Epoch_int 2500) parked_context
      (tf_freshnessRequirement media_profile) (Arg_int 5) = Inr r"
    by (simp add: prof evaluate_freshness_def validateRequirement_def lowRiskFreshness_def
        is_safe_integer_def MAX_SAFE_INTEGER_def toUtcTimestamp_def iso_range_def MIN_ISO_MS_def
        MAX_ISO_MS_def latest_version_def version_ok_def timestampToEpochMs_def timestampMs_def
        parked_context_def Let_def)
  obtain k where k: "detect_conflict parked_context parked_context (Paths [Some ''vehicle.soc'']) = Inr k"
    by (simp add: detect_conflict_def Let_def)
  have "fr_requiresLatest (tf_freshnessRequirement media_profile) \<or> Arg_int 5 = Arg_undefined"
    by (simp add: prof lowRiskFreshness_def)
  from context_evidence_accepted [OF r this k parked_context_valid parked_context_valid] r k
  show ?thesis by blast
qed

end
