(* ===== verification/PendingActions.thy ===== *)
theory PendingActions
  imports PolicyEngine
begin

text \<open>
  Pending actions, \<open>packages/action-lifecycle/src\<close>: the records of \<open>types.ts\<close>, the state
  machine (\<open>state-machine.ts\<close>), record integrity (\<open>integrity.ts\<close>), the repository interface
  with its in-memory implementation (\<open>repository.ts\<close>), and the check that precedes the
  consumption of an authorization (\<open>authorization-consumption.ts\<close>). The SHA-256 digest is
  the parameter \<open>sha\<close>.
\<close>

section \<open>Records\<close>

datatype action_state =
  AS_AWAITING_CONFIRMATION
| AS_CONFIRMED
| AS_READY_FOR_EXECUTION
| AS_CANCELLED
| AS_EXPIRED
| AS_REPLAN_REQUIRED
| AS_REJECTED

record pending_action =
  pa_actionId :: string
  pa_toolName :: string
  pa_validatedArguments :: json
  pa_riskLevel :: risk_level
  pa_runId :: string
  pa_sessionId :: string
  pa_traceId :: string
  pa_userId :: string
  pa_vehicleId :: string
  pa_policyRuleId :: string
  pa_policyDecision :: policy_decision
  pa_contextSnapshotId :: string
  pa_contextVersion :: int
  pa_createdAt :: utc_timestamp
  pa_expiresAt :: utc_timestamp
  pa_actionFingerprint :: string
  pa_confirmationSummary :: string
  pa_state :: action_state
  pa_updatedAt :: utc_timestamp
  pa_stateHistory :: "action_state transition_entry list"

record execution_authorization =
  ea_authorizationId :: string
  ea_actionId :: string
  ea_actionFingerprint :: string
  ea_toolName :: string
  ea_riskLevel :: risk_level
  ea_confirmationId :: string
  ea_policyRuleId :: string
  ea_contextSnapshotId :: string
  ea_contextVersion :: int
  ea_issuedAt :: utc_timestamp
  ea_expiresAt :: utc_timestamp

record pending_record =
  pd_action :: pending_action
  pd_originalContext :: driving_context
  pd_tokenHash :: "string option"
  pd_confirmationId :: "string option"
  pd_authorization :: "execution_authorization option"
  pd_authorizationConsumedAt :: "utc_timestamp option"

record consume_command =
  cc_authorizationId :: string
  cc_actionId :: string
  cc_actionFingerprint :: string
  cc_toolName :: string
  cc_sessionId :: string
  cc_userId :: string
  cc_vehicleId :: string
  cc_contextSnapshotId :: string
  cc_contextVersion :: int
  cc_validatedArguments :: json

record action_error =
  le_code :: action_error_code
  le_actionId :: "string option"
  le_state :: "action_state option"

datatype lifecycle_error = LE_action action_error | LE_domain domain_error

definition action_fail ::
  "action_error_code \<Rightarrow> string option \<Rightarrow> action_state option \<Rightarrow> (lifecycle_error, 'a) result" where
  "action_fail code actionId state =
     Inl (LE_action \<lparr>le_code = code, le_actionId = actionId, le_state = state\<rparr>)"

definition domain_result :: "(domain_error, 'a) result \<Rightarrow> (lifecycle_error, 'a) result" where
  "domain_result r = (case r of Inl e \<Rightarrow> Inl (LE_domain e) | Inr x \<Rightarrow> Inr x)"

section \<open>The state machine\<close>

fun legal_action :: "action_state \<Rightarrow> action_state list" where
  "legal_action AS_AWAITING_CONFIRMATION = [AS_CONFIRMED, AS_CANCELLED, AS_EXPIRED, AS_REJECTED]"
| "legal_action AS_CONFIRMED = [AS_REPLAN_REQUIRED, AS_READY_FOR_EXECUTION]"
| "legal_action _ = []"

definition allowedActionTransitions :: "action_state \<Rightarrow> action_state list" where
  "allowedActionTransitions state = legal_action state"

definition transitionPendingAction ::
  "pending_action \<Rightarrow> action_state \<Rightarrow> utc_timestamp \<Rightarrow> (lifecycle_error, pending_action) result" where
  "transitionPendingAction action nextState transitionedAt =
     (if nextState \<notin> set (legal_action (pa_state action))
      then action_fail AE_INVALID_TRANSITION (Some (pa_actionId action)) (Some (pa_state action))
      else Inr (action\<lparr>pa_state := nextState, pa_updatedAt := transitionedAt,
             pa_stateHistory := pa_stateHistory action @
               [\<lparr>tr_from = Some (pa_state action), tr_to = nextState, tr_at = transitionedAt\<rparr>]\<rparr>))"

fun action_rank :: "action_state \<Rightarrow> nat" where
  "action_rank AS_AWAITING_CONFIRMATION = 0"
| "action_rank AS_CONFIRMED = 1"
| "action_rank _ = 2"

interpretation al: lifecycle_table legal_action action_rank 2
proof unfold_locales
  fix s t :: action_state
  show "t \<in> set (legal_action s) \<Longrightarrow> action_rank s < action_rank t" by (cases s) auto
  show "action_rank s \<le> 2" by (cases s) auto
qed

section \<open>Integrity\<close>

definition action_fingerprint_input :: "pending_action \<Rightarrow> fingerprint_input" where
  "action_fingerprint_input a =
     \<lparr>fi_toolName = pa_toolName a, fi_validatedArguments = pa_validatedArguments a,
      fi_sessionId = pa_sessionId a, fi_userId = pa_userId a, fi_vehicleId = pa_vehicleId a,
      fi_contextSnapshotId = pa_contextSnapshotId a, fi_contextVersion = pa_contextVersion a\<rparr>"

definition assertPendingActionIntegrity ::
  "(string \<Rightarrow> string) \<Rightarrow> pending_action \<Rightarrow> (lifecycle_error, unit) result" where
  "assertPendingActionIntegrity sha a =
     (case createActionFingerprint sha (action_fingerprint_input a) of
        Inl code \<Rightarrow> action_fail code None None
      | Inr fingerprint \<Rightarrow>
          if fingerprint \<noteq> pa_actionFingerprint a \<or>
             po_decision (pa_policyDecision a) \<noteq> PD_REQUIRE_CONFIRMATION \<or>
             po_ruleId (pa_policyDecision a) \<noteq> pa_policyRuleId a \<or>
             po_toolName (pa_policyDecision a) \<noteq> pa_toolName a \<or>
             po_riskLevel (pa_policyDecision a) \<noteq> Some (pa_riskLevel a) \<or>
             po_contextSnapshotId (pa_policyDecision a) \<noteq> Some (pa_contextSnapshotId a) \<or>
             po_contextVersion (pa_policyDecision a) \<noteq> Some (pa_contextVersion a)
          then action_fail AE_ACTION_INTEGRITY_FAILED (Some (pa_actionId a)) (Some (pa_state a))
          else Inr ())"

definition assertPendingActionRecordIntegrity ::
  "(string \<Rightarrow> string) \<Rightarrow> pending_record \<Rightarrow> (lifecycle_error, unit) result" where
  "assertPendingActionRecordIntegrity sha r =
     (let a = pd_action r; x = pd_originalContext r in
      and_then (assertPendingActionIntegrity sha a) (\<lambda>_.
        if cx_snapshotId x \<noteq> pa_contextSnapshotId a \<or> cx_contextVersion x \<noteq> pa_contextVersion a \<or>
           us_userId (cx_user x) \<noteq> pa_userId a \<or> ve_vehicleId (cx_vehicle x) \<noteq> pa_vehicleId a
        then action_fail AE_ACTION_INTEGRITY_FAILED (Some (pa_actionId a)) (Some (pa_state a))
        else Inr ()))"

section \<open>The repository\<close>

type_synonym action_repository = "string \<rightharpoonup> pending_record"

definition cloneRecord :: "(string \<Rightarrow> string) \<Rightarrow> pending_record \<Rightarrow> (lifecycle_error, pending_record) result" where
  "cloneRecord sha r = and_then (assertPendingActionRecordIntegrity sha r) (\<lambda>_. Inr r)"

text \<open>The operations of a repository over a state of type \<open>'r\<close>.\<close>

record 'r repository_ops =
  rp_create :: "'r \<Rightarrow> pending_record \<Rightarrow> (lifecycle_error, unit) result \<times> 'r"
  rp_get :: "'r \<Rightarrow> string \<Rightarrow> (lifecycle_error, pending_record option) result"
  rp_transition ::
    "'r \<Rightarrow> string \<Rightarrow> action_state \<Rightarrow> utc_timestamp \<Rightarrow> (lifecycle_error, pending_record) result \<times> 'r"
  rp_acceptConfirmation ::
    "'r \<Rightarrow> string \<Rightarrow> string \<Rightarrow> utc_timestamp \<Rightarrow> (lifecycle_error, pending_record) result \<times> 'r"
  rp_authorize ::
    "'r \<Rightarrow> string \<Rightarrow> execution_authorization \<Rightarrow> utc_timestamp \<Rightarrow>
       (lifecycle_error, pending_record) result \<times> 'r"
  rp_consumeAuthorization ::
    "'r \<Rightarrow> string \<Rightarrow> utc_timestamp \<Rightarrow> (lifecycle_error, pending_record) result \<times> 'r"

definition mem_create ::
  "(string \<Rightarrow> string) \<Rightarrow> action_repository \<Rightarrow> pending_record \<Rightarrow>
     (lifecycle_error, unit) result \<times> action_repository" where
  "mem_create sha m r =
     (let ident = pa_actionId (pd_action r) in
      if m ident \<noteq> None then (action_fail AE_INVALID_COMMAND (Some ident) None, m)
      else case cloneRecord sha r of
        Inl e \<Rightarrow> (Inl e, m)
      | Inr c \<Rightarrow> (Inr (), m(ident \<mapsto> c)))"

definition mem_get ::
  "(string \<Rightarrow> string) \<Rightarrow> action_repository \<Rightarrow> string \<Rightarrow> (lifecycle_error, pending_record option) result" where
  "mem_get sha m ident =
     (case m ident of
        None \<Rightarrow> Inr None
      | Some r \<Rightarrow> and_then (cloneRecord sha r) (\<lambda>c. Inr (Some c)))"

definition mem_require :: "action_repository \<Rightarrow> string \<Rightarrow> (lifecycle_error, pending_record) result" where
  "mem_require m ident =
     (case m ident of None \<Rightarrow> action_fail AE_ACTION_NOT_FOUND (Some ident) None | Some r \<Rightarrow> Inr r)"

text \<open>The common tail of the updates: store the checked clone and return a checked clone.\<close>

definition mem_store ::
  "(string \<Rightarrow> string) \<Rightarrow> action_repository \<Rightarrow> string \<Rightarrow> (lifecycle_error, pending_record) result \<Rightarrow>
     (lifecycle_error, pending_record) result \<times> action_repository" where
  "mem_store sha m ident updated =
     (case and_then updated (cloneRecord sha) of
        Inl e \<Rightarrow> (Inl e, m)
      | Inr u \<Rightarrow> (cloneRecord sha u, m(ident \<mapsto> u)))"

definition mem_transition ::
  "(string \<Rightarrow> string) \<Rightarrow> action_repository \<Rightarrow> string \<Rightarrow> action_state \<Rightarrow> utc_timestamp \<Rightarrow>
     (lifecycle_error, pending_record) result \<times> action_repository" where
  "mem_transition sha m ident nextState transitionedAt =
     mem_store sha m ident
       (and_then (mem_require m ident) (\<lambda>r.
        and_then (transitionPendingAction (pd_action r) nextState transitionedAt) (\<lambda>a.
          Inr (r\<lparr>pd_action := a\<rparr>))))"

definition mem_acceptConfirmation ::
  "(string \<Rightarrow> string) \<Rightarrow> action_repository \<Rightarrow> string \<Rightarrow> string \<Rightarrow> utc_timestamp \<Rightarrow>
     (lifecycle_error, pending_record) result \<times> action_repository" where
  "mem_acceptConfirmation sha m ident confirmationId transitionedAt =
     mem_store sha m ident
       (and_then (mem_require m ident) (\<lambda>r.
        and_then (transitionPendingAction (pd_action r) AS_CONFIRMED transitionedAt) (\<lambda>a.
          Inr (r\<lparr>pd_action := a, pd_tokenHash := None, pd_confirmationId := Some confirmationId\<rparr>))))"

definition mem_authorize ::
  "(string \<Rightarrow> string) \<Rightarrow> action_repository \<Rightarrow> string \<Rightarrow> execution_authorization \<Rightarrow> utc_timestamp \<Rightarrow>
     (lifecycle_error, pending_record) result \<times> action_repository" where
  "mem_authorize sha m ident authorization transitionedAt =
     mem_store sha m ident
       (and_then (mem_require m ident) (\<lambda>r.
          if pd_authorization r \<noteq> None
          then action_fail AE_AUTHORIZATION_ALREADY_ISSUED (Some ident) (Some (pa_state (pd_action r)))
          else and_then (transitionPendingAction (pd_action r) AS_READY_FOR_EXECUTION transitionedAt)
            (\<lambda>a. Inr (r\<lparr>pd_action := a, pd_authorization := Some authorization\<rparr>))))"

definition mem_consumeAuthorization ::
  "(string \<Rightarrow> string) \<Rightarrow> action_repository \<Rightarrow> string \<Rightarrow> utc_timestamp \<Rightarrow>
     (lifecycle_error, pending_record) result \<times> action_repository" where
  "mem_consumeAuthorization sha m ident consumedAt =
     mem_store sha m ident
       (and_then (mem_require m ident) (\<lambda>r.
          if pd_authorizationConsumedAt r \<noteq> None
          then action_fail AE_AUTHORIZATION_ALREADY_USED (Some ident) (Some (pa_state (pd_action r)))
          else Inr (r\<lparr>pd_authorizationConsumedAt := Some consumedAt\<rparr>)))"

definition memory_ops :: "(string \<Rightarrow> string) \<Rightarrow> action_repository repository_ops" where
  "memory_ops sha =
     \<lparr>rp_create = mem_create sha, rp_get = mem_get sha, rp_transition = mem_transition sha,
      rp_acceptConfirmation = mem_acceptConfirmation sha, rp_authorize = mem_authorize sha,
      rp_consumeAuthorization = mem_consumeAuthorization sha\<rparr>"

section \<open>Verification before consumption\<close>

definition verifyExecutionAuthorizationForConsumption ::
  "(string \<Rightarrow> string) \<Rightarrow> pending_record \<Rightarrow> consume_command \<Rightarrow> int \<Rightarrow>
     (lifecycle_error, execution_authorization) result" where
  "verifyExecutionAuthorizationForConsumption sha r c nowMs =
     (let action = pd_action r;
          fail = (\<lambda>code. action_fail code (Some (cc_actionId c)) (Some (pa_state action))) in
      case pd_authorization r of
        None \<Rightarrow> fail AE_AUTHORIZATION_MISMATCH
      | Some authorization \<Rightarrow>
          if pa_state action \<noteq> AS_READY_FOR_EXECUTION then fail AE_AUTHORIZATION_MISMATCH
          else if pd_authorizationConsumedAt r \<noteq> None then fail AE_AUTHORIZATION_ALREADY_USED
          else and_then
            (domain_result (timestampToEpochMs (ea_expiresAt authorization) ''authorization.expiresAt''))
            (\<lambda>expires.
              if nowMs \<ge> expires then fail AE_AUTHORIZATION_EXPIRED
              else case createActionFingerprint sha
                  \<lparr>fi_toolName = cc_toolName c, fi_validatedArguments = cc_validatedArguments c,
                   fi_sessionId = cc_sessionId c, fi_userId = cc_userId c,
                   fi_vehicleId = cc_vehicleId c, fi_contextSnapshotId = pa_contextSnapshotId action,
                   fi_contextVersion = pa_contextVersion action\<rparr> of
                Inl _ \<Rightarrow> fail AE_AUTHORIZATION_MISMATCH
              | Inr requested \<Rightarrow>
                  if ea_authorizationId authorization \<noteq> cc_authorizationId c \<or>
                     ea_actionId authorization \<noteq> cc_actionId c \<or>
                     ea_actionFingerprint authorization \<noteq> cc_actionFingerprint c \<or>
                     ea_toolName authorization \<noteq> cc_toolName c \<or>
                     pa_sessionId action \<noteq> cc_sessionId c \<or> pa_userId action \<noteq> cc_userId c \<or>
                     pa_vehicleId action \<noteq> cc_vehicleId c \<or>
                     ea_contextSnapshotId authorization \<noteq> cc_contextSnapshotId c \<or>
                     ea_contextVersion authorization \<noteq> cc_contextVersion c \<or>
                     pa_actionFingerprint action \<noteq> cc_actionFingerprint c \<or>
                     requested \<noteq> cc_actionFingerprint c \<or> pa_toolName action \<noteq> cc_toolName c
                  then fail AE_AUTHORIZATION_MISMATCH else Inr authorization))"

section \<open>The repository contract\<close>

text \<open>
  What every repository promises of its stored records, seen through \<open>view\<close>: a failed call
  changes nothing, a successful one replaces exactly the record it names, in the way its
  name says. An implementation may stamp times of its own clock, and \<open>acceptConfirmation\<close> may
  find the confirmation expired by that clock.
\<close>

definition created :: "pending_record \<Rightarrow> pending_record \<Rightarrow> bool" where
  "created r new \<longleftrightarrow> (\<exists>c u e h. new = r\<lparr>pd_action := (pd_action r)\<lparr>pa_createdAt := c, pa_updatedAt := u,
     pa_expiresAt := e, pa_stateHistory := h\<rparr>\<rparr> \<and>
     (pa_state (pd_action r) = AS_AWAITING_CONFIRMATION \<and>
      history_ok legal_action AS_AWAITING_CONFIRMATION (pa_stateHistory (pd_action r))
        AS_AWAITING_CONFIRMATION \<longrightarrow>
      history_ok legal_action AS_AWAITING_CONFIRMATION h AS_AWAITING_CONFIRMATION))"

definition moved :: "action_state \<Rightarrow> pending_record \<Rightarrow> pending_record \<Rightarrow> bool" where
  "moved s old new \<longleftrightarrow> (\<exists>t a. transitionPendingAction (pd_action old) s t = Inr a \<and>
     new = old\<lparr>pd_action := a\<rparr>)"

definition accepted :: "string \<Rightarrow> pending_record \<Rightarrow> pending_record \<Rightarrow> bool" where
  "accepted confirmationId old new \<longleftrightarrow>
     (\<exists>t a. transitionPendingAction (pd_action old) AS_CONFIRMED t = Inr a \<and>
        new = old\<lparr>pd_action := a, pd_tokenHash := None, pd_confirmationId := Some confirmationId\<rparr>) \<or>
     moved AS_EXPIRED old new"

definition authorized :: "execution_authorization \<Rightarrow> pending_record \<Rightarrow> pending_record \<Rightarrow> bool" where
  "authorized z old new \<longleftrightarrow> pd_authorization old = None \<and>
     (\<exists>t a i e. transitionPendingAction (pd_action old) AS_READY_FOR_EXECUTION t = Inr a \<and>
        new = old\<lparr>pd_action := a, pd_authorization := Some (z\<lparr>ea_issuedAt := i, ea_expiresAt := e\<rparr>)\<rparr>)"

definition consumed :: "pending_record \<Rightarrow> pending_record \<Rightarrow> bool" where
  "consumed old new \<longleftrightarrow> pd_authorizationConsumedAt old = None \<and>
     (\<exists>t. new = old\<lparr>pd_authorizationConsumedAt := Some t\<rparr>)"

definition updates ::
  "('r \<Rightarrow> action_repository) \<Rightarrow> 'r \<Rightarrow> string \<Rightarrow> (pending_record \<Rightarrow> pending_record \<Rightarrow> bool) \<Rightarrow>
     (lifecycle_error, pending_record) result \<times> 'r \<Rightarrow> bool" where
  "updates view m i change outcome \<longleftrightarrow>
     (case outcome of
        (Inl _, m') \<Rightarrow> view m' = view m
      | (Inr new, m') \<Rightarrow>
          \<exists>old. view m i = Some old \<and> change old new \<and> view m' = (view m)(i \<mapsto> new))"

locale pending_repository =
  fixes ops :: "'r repository_ops" and view :: "'r \<Rightarrow> action_repository"
  assumes create_law: "case rp_create ops m r of
      (Inl _, m') \<Rightarrow> view m' = view m
    | (Inr _, m') \<Rightarrow> view m (pa_actionId (pd_action r)) = None \<and>
        (\<exists>new. created r new \<and> view m' = (view m)(pa_actionId (pd_action r) \<mapsto> new))"
    and get_law: "rp_get ops m i = Inr found \<Longrightarrow> found = view m i"
    and transition_law: "updates view m i (moved s) (rp_transition ops m i s t)"
    and accept_law: "updates view m i (accepted cid) (rp_acceptConfirmation ops m i cid t)"
    and authorize_law: "updates view m i (authorized z) (rp_authorize ops m i z t)"
    and consume_law: "updates view m i consumed (rp_consumeAuthorization ops m i t)"

lemma cloneRecord_Inr [simp]:
  "cloneRecord sha r = Inr c \<longleftrightarrow> assertPendingActionRecordIntegrity sha r = Inr () \<and> c = r"
  by (auto simp: cloneRecord_def)

lemma updates_mem_store:
  assumes "\<And>u. updated = Inr u \<Longrightarrow> \<exists>old. m i = Some old \<and> change old u"
  shows "updates (\<lambda>m. m) m i change (mem_store sha m i updated)"
proof (cases "and_then updated (cloneRecord sha)")
  case (Inr u)
  with assms have old: "\<exists>old. m i = Some old \<and> change old u" and "cloneRecord sha u = Inr u"
    by auto
  with Inr have "mem_store sha m i updated = (Inr u, m(i \<mapsto> u))"
    by (simp only: mem_store_def sum.case)
  with old show ?thesis by (simp add: updates_def)
next
  case (Inl e)
  then have "mem_store sha m i updated = (Inl e, m)" by (simp only: mem_store_def sum.case)
  then show ?thesis by (simp add: updates_def)
qed

lemma created_same: "created r r"
  unfolding created_def
  by (intro exI [of _ "pa_createdAt (pd_action r)"] exI [of _ "pa_updatedAt (pd_action r)"]
      exI [of _ "pa_expiresAt (pd_action r)"] exI [of _ "pa_stateHistory (pd_action r)"]) simp

lemma movedI: "transitionPendingAction (pd_action old) s t = Inr a \<Longrightarrow> moved s old (old\<lparr>pd_action := a\<rparr>)"
  unfolding moved_def by blast

lemma acceptedI:
  "transitionPendingAction (pd_action old) AS_CONFIRMED t = Inr a \<Longrightarrow>
   accepted cid old (old\<lparr>pd_action := a, pd_tokenHash := None, pd_confirmationId := Some cid\<rparr>)"
  unfolding accepted_def by blast

lemma authorizedI:
  "pd_authorization old = None \<Longrightarrow>
   transitionPendingAction (pd_action old) AS_READY_FOR_EXECUTION t = Inr a \<Longrightarrow>
   authorized z old (old\<lparr>pd_action := a, pd_authorization := Some z\<rparr>)"
  unfolding authorized_def
  by (intro conjI exI [of _ t] exI [of _ a] exI [of _ "ea_issuedAt z"] exI [of _ "ea_expiresAt z"])
    simp_all

lemma consumedI:
  "pd_authorizationConsumedAt old = None \<Longrightarrow> consumed old (old\<lparr>pd_authorizationConsumedAt := Some t\<rparr>)"
  unfolding consumed_def by blast

interpretation mem: pending_repository "memory_ops sha" "\<lambda>m. m" for sha
proof unfold_locales
  fix m :: action_repository and r :: pending_record and i cid :: string and t :: utc_timestamp
    and s :: action_state and z :: execution_authorization and found
  show "case rp_create (memory_ops sha) m r of (Inl _, m') \<Rightarrow> m' = m
    | (Inr _, m') \<Rightarrow> m (pa_actionId (pd_action r)) = None \<and>
        (\<exists>new. created r new \<and> m' = m(pa_actionId (pd_action r) \<mapsto> new))"
    using created_same [of r]
    by (auto simp: memory_ops_def mem_create_def Let_def action_fail_def split: sum.splits)
  show "rp_get (memory_ops sha) m i = Inr found \<Longrightarrow> found = m i"
    by (auto simp: memory_ops_def mem_get_def split: option.splits)
  show "updates (\<lambda>m. m) m i (moved s) (rp_transition (memory_ops sha) m i s t)"
    by (auto simp: memory_ops_def mem_transition_def mem_require_def action_fail_def
        split: option.splits intro!: updates_mem_store intro: movedI)
  show "updates (\<lambda>m. m) m i (accepted cid) (rp_acceptConfirmation (memory_ops sha) m i cid t)"
    by (auto simp: memory_ops_def mem_acceptConfirmation_def mem_require_def
        action_fail_def split: option.splits intro!: updates_mem_store intro: acceptedI)
  show "updates (\<lambda>m. m) m i (authorized z) (rp_authorize (memory_ops sha) m i z t)"
    by (auto simp: memory_ops_def mem_authorize_def mem_require_def action_fail_def
        split: option.splits if_splits intro!: updates_mem_store intro: authorizedI)
  show "updates (\<lambda>m. m) m i consumed (rp_consumeAuthorization (memory_ops sha) m i t)"
    by (auto simp: memory_ops_def mem_consumeAuthorization_def mem_require_def
        action_fail_def split: option.splits if_splits intro!: updates_mem_store intro: consumedI)
qed

end
