(* ===== verification/ActionService.thy ===== *)
theory ActionService
  imports PendingActions
begin

text \<open>
  The confirmation service, \<open>packages/action-lifecycle/src/service.ts\<close>, with the context
  revalidator (\<open>revalidator.ts\<close>), the summary (\<open>summary.ts\<close>) and the events (\<open>events.ts\<close>).
  The service works on any repository that keeps the interface of \<open>PendingActions\<close>. Each
  operation is one step: \<open>runExclusive\<close> lets one operation at a time work on an action. The
  outside world (clock readings, id and token factories, event delivery, reloaded contexts)
  is an environment read at a running position; a clock reading is an integer.
\<close>

section \<open>World and effects\<close>

datatype event_type =
  EV_action_pending_created
| EV_confirmation_accepted
| EV_confirmation_rejected
| EV_confirmation_expired
| EV_action_revalidation_started
| EV_action_revalidation_failed
| EV_action_ready_for_execution
| EV_action_cancelled

record lifecycle_event =
  lv_eventId :: string
  lv_eventType :: event_type
  lv_runId :: string
  lv_sessionId :: string
  lv_traceId :: string
  lv_actionId :: string
  lv_toolName :: string
  lv_timestamp :: utc_timestamp
  lv_state :: action_state
  lv_reason :: "string option"

record current_context =
  cu_snapshot :: driving_context
  cu_latestContextVersion :: number_arg
  cu_availability :: resolution_context

text \<open>A factory that throws or yields no string gives \<open>None\<close>; so does a failed reload.\<close>

record action_env =
  en_clock :: "nat \<Rightarrow> int"
  en_actionId :: "nat \<Rightarrow> string option"
  en_confirmationId :: "nat \<Rightarrow> string option"
  en_authorizationId :: "nat \<Rightarrow> string option"
  en_eventId :: "nat \<Rightarrow> string option"
  en_token :: "nat \<Rightarrow> string option"
  en_emit :: "nat \<Rightarrow> bool"
  en_current :: "nat \<Rightarrow> current_context option"

record 'r world =
  wo_repo :: 'r
  wo_tick :: nat
  wo_events :: "lifecycle_event list"

type_synonym ('r, 'a) act = "'r world \<Rightarrow> (lifecycle_error, 'a) result \<times> 'r world"

definition act_return :: "'a \<Rightarrow> ('r, 'a) act" where
  "act_return x w = (Inr x, w)"

definition act_throw :: "lifecycle_error \<Rightarrow> ('r, 'a) act" where
  "act_throw e w = (Inl e, w)"

definition act_then :: "('r, 'a) act \<Rightarrow> ('a \<Rightarrow> ('r, 'b) act) \<Rightarrow> ('r, 'b) act" where
  "act_then m f w = (case m w of (Inl e, w') \<Rightarrow> (Inl e, w') | (Inr x, w') \<Rightarrow> f x w')"

definition act_catch :: "('r, 'a) act \<Rightarrow> (lifecycle_error \<Rightarrow> ('r, 'a) act) \<Rightarrow> ('r, 'a) act" where
  "act_catch m h w = (case m w of (Inl e, w') \<Rightarrow> h e w' | (Inr x, w') \<Rightarrow> (Inr x, w'))"

definition act_lift :: "(lifecycle_error, 'a) result \<Rightarrow> ('r, 'a) act" where
  "act_lift r w = (r, w)"

definition act_read :: "(nat \<Rightarrow> 'a) \<Rightarrow> ('r, 'a) act" where
  "act_read source w = (Inr (source (wo_tick w)), w\<lparr>wo_tick := Suc (wo_tick w)\<rparr>)"

definition act_repo :: "('r \<Rightarrow> (lifecycle_error, 'a) result \<times> 'r) \<Rightarrow> ('r, 'a) act" where
  "act_repo f w = (case f (wo_repo w) of (r, m) \<Rightarrow> (r, w\<lparr>wo_repo := m\<rparr>))"

definition act_check :: "bool \<Rightarrow> action_error_code \<Rightarrow> string option \<Rightarrow> action_state option \<Rightarrow> ('r, unit) act" where
  "act_check ok code actionId state = (if ok then act_return () else act_lift (action_fail code actionId state))"

section \<open>Configuration\<close>

definition DEFAULT_CONFIRMATION_TTL_MS :: int where
  "DEFAULT_CONFIRMATION_TTL_MS = 60000"

definition DEFAULT_EXECUTION_AUTHORIZATION_TTL_MS :: int where
  "DEFAULT_EXECUTION_AUTHORIZATION_TTL_MS = 10000"

record 'r confirmation_service =
  sv_ops :: "'r repository_ops"
  sv_sha :: "string \<Rightarrow> string"
  sv_clone :: "json \<Rightarrow> json option"
  sv_policy :: policy_store
  sv_isTrusted :: "tool_definition \<Rightarrow> bool option"
  sv_profiles :: profile_registry
  sv_definitions :: "string \<Rightarrow> tool_definition option"
  sv_confirmationTtlMs :: int
  sv_authorizationTtlMs :: int

definition positiveTtl :: "int \<Rightarrow> (lifecycle_error, int) result" where
  "positiveTtl value =
     (if \<not> is_safe_integer value \<or> value < 1 \<or> value > 300000
      then action_fail AE_INVALID_COMMAND None None else Inr value)"

text \<open>The constructor: the two lifetimes are the only checked options.\<close>

definition new_confirmation_service ::
  "'r confirmation_service \<Rightarrow> int option \<Rightarrow> int option \<Rightarrow>
     (lifecycle_error, 'r confirmation_service) result" where
  "new_confirmation_service base confirmationTtl authorizationTtl =
     and_then (positiveTtl (case confirmationTtl of None \<Rightarrow> DEFAULT_CONFIRMATION_TTL_MS | Some t \<Rightarrow> t)) (\<lambda>c.
     and_then (positiveTtl (case authorizationTtl of None \<Rightarrow> DEFAULT_EXECUTION_AUTHORIZATION_TTL_MS
                            | Some t \<Rightarrow> t)) (\<lambda>a.
       Inr (base\<lparr>sv_confirmationTtlMs := c, sv_authorizationTtlMs := a\<rparr>)))"

definition generatedId :: "(nat \<Rightarrow> string option) \<Rightarrow> ('r, string) act" where
  "generatedId factory =
     act_then (act_read factory) (\<lambda>v.
       case v of
         None \<Rightarrow> act_lift (action_fail AE_INTERNAL_ERROR None None)
       | Some s \<Rightarrow> if safe_id 127 s then act_return s
                   else act_lift (action_fail AE_INTERNAL_ERROR None None))"

definition generatedToken :: "(nat \<Rightarrow> string option) \<Rightarrow> ('r, string) act" where
  "generatedToken factory =
     act_then (act_read factory) (\<lambda>v.
       case v of
         None \<Rightarrow> act_lift (action_fail AE_INTERNAL_ERROR None None)
       | Some s \<Rightarrow> if length s < 8 \<or> length s > 1024
                   then act_lift (action_fail AE_INTERNAL_ERROR None None) else act_return s)"

text \<open>\<open>Buffer.from(s, "hex")\<close>: the bytes of the leading pairs of hexadecimal digits.\<close>

definition hex_value :: "char \<Rightarrow> nat option" where
  "hex_value c =
     (let n = (of_char c :: nat) in
      if 48 \<le> n \<and> n \<le> 57 then Some (n - 48)
      else if 97 \<le> n \<and> n \<le> 102 then Some (n - 87)
      else if 65 \<le> n \<and> n \<le> 70 then Some (n - 55) else None)"

fun from_hex :: "string \<Rightarrow> nat list" where
  "from_hex (a # b # cs) =
     (case (hex_value a, hex_value b) of
        (Some x, Some y) \<Rightarrow> (16 * x + y) # from_hex cs
      | _ \<Rightarrow> [])"
| "from_hex _ = []"

definition safeHashEqual :: "string \<Rightarrow> string \<Rightarrow> bool" where
  "safeHashEqual left right \<longleftrightarrow> from_hex left = from_hex right"

definition clock_timestamp :: "int \<Rightarrow> ('r, utc_timestamp) act" where
  "clock_timestamp ms = act_lift (domain_result (toUtcTimestamp (Epoch_int ms)))"

definition emit ::
  "action_env \<Rightarrow> event_type \<Rightarrow> pending_record \<Rightarrow> string option \<Rightarrow> ('r, unit) act" where
  "emit env eventType r reason =
     (let a = pd_action r in
      act_then (generatedId (en_eventId env)) (\<lambda>eventId.
      act_then (act_read (en_clock env)) (\<lambda>now.
      act_then (clock_timestamp now) (\<lambda>timestamp.
      act_then (act_read (en_emit env)) (\<lambda>delivered.
        if \<not> delivered
        then act_lift (action_fail AE_INTERNAL_ERROR (Some (pa_actionId a)) (Some (pa_state a)))
        else (\<lambda>w. (Inr (), w\<lparr>wo_events := wo_events w @
               [\<lparr>lv_eventId = eventId, lv_eventType = eventType, lv_runId = pa_runId a,
                 lv_sessionId = pa_sessionId a, lv_traceId = pa_traceId a,
                 lv_actionId = pa_actionId a, lv_toolName = pa_toolName a,
                 lv_timestamp = timestamp, lv_state = pa_state a, lv_reason = reason\<rparr>]\<rparr>)))))))"

section \<open>The confirmation summary\<close>

definition number_text :: "js_number \<Rightarrow> string" where
  "number_text x =
     (case x of
        Js_NaN \<Rightarrow> ''NaN''
      | Js_infinity neg \<Rightarrow> (if neg then ''-Infinity'' else ''Infinity'')
      | _ \<Rightarrow> the (canonical_number x))"

definition displayValue :: "json \<Rightarrow> (action_error_code, string) result" where
  "displayValue v =
     (case v of
        J_str s \<Rightarrow> Inr s
      | J_num x \<Rightarrow> Inr (number_text x)
      | J_bool b \<Rightarrow> Inr (if b then ''true'' else ''false'')
      | J_null \<Rightarrow> Inr ''null''
      | _ \<Rightarrow> canonicalSerialize v)"

fun join_with :: "string \<Rightarrow> string list \<Rightarrow> string" where
  "join_with sep [] = []"
| "join_with sep [x] = x"
| "join_with sep (x # y # zs) = x @ sep @ join_with sep (y # zs)"

fun all_right :: "('e, 'a) result list \<Rightarrow> ('e, 'a list) result" where
  "all_right [] = Inr []"
| "all_right (r # rs) = and_then r (\<lambda>x. and_then (all_right rs) (\<lambda>xs. Inr (x # xs)))"

definition risk_text :: "risk_level \<Rightarrow> string" where
  "risk_text r = (case r of R0 \<Rightarrow> ''R0'' | R1 \<Rightarrow> ''R1'' | R2 \<Rightarrow> ''R2'' | R3 \<Rightarrow> ''R3'')"

definition createConfirmationSummary ::
  "tool_definition \<Rightarrow> json \<Rightarrow> (action_error_code, string) result" where
  "createConfirmationSummary d arguments =
     and_then
       (case arguments of
          J_obj kvs \<Rightarrow>
            and_then (all_right (map (\<lambda>(k, v). and_then (displayValue v) (\<lambda>t. Inr (k @ ''='' @ t)))
                       (sort_key fst kvs)))
              (\<lambda>parts. Inr (join_with '', '' parts))
        | _ \<Rightarrow> displayValue arguments)
       (\<lambda>text. Inr (td_label d @ '': '' @ (if text = [] then ''no arguments'' else text) @
                    ''. Risk '' @ risk_text (td_riskLevel d) @ ''.''))"

definition action_result :: "(action_error_code, 'a) result \<Rightarrow> (lifecycle_error, 'a) result" where
  "action_result r = (case r of Inl code \<Rightarrow> action_fail code None None | Inr x \<Rightarrow> Inr x)"

section \<open>Revalidation\<close>

datatype revalidation_reason =
  RVR_UNCHANGED
| RVR_IRRELEVANT_VERSION_CHANGE
| RVR_CONTEXT_STALE
| RVR_CONTEXT_NOT_LATEST
| RVR_CONTEXT_FUTURE_TIMESTAMP
| RVR_RELEVANT_STATE_CHANGED
| RVR_UNKNOWN_RELEVANT_PATH
| RVR_CAPABILITY_UNAVAILABLE
| RVR_SERVICE_UNAVAILABLE
| RVR_TOOL_UNAVAILABLE
| RVR_CONTEXT_RELOAD_FAILED

record revalidation_result =
  rv_valid :: bool
  rv_reason :: revalidation_reason
  rv_currentContext :: "driving_context option"
  rv_freshness :: "freshness_result option"
  rv_conflict :: "conflict_result option"

definition revalidation ::
  "bool \<Rightarrow> revalidation_reason \<Rightarrow> driving_context option \<Rightarrow> freshness_result option \<Rightarrow>
     conflict_result option \<Rightarrow> revalidation_result" where
  "revalidation valid reason ctx fresh conflict =
     \<lparr>rv_valid = valid, rv_reason = reason, rv_currentContext = ctx, rv_freshness = fresh,
      rv_conflict = conflict\<rparr>"

definition terminalRevalidation :: "revalidation_reason \<Rightarrow> revalidation_result" where
  "terminalRevalidation reason = revalidation False reason None None None"

fun freshness_order :: "freshness_status \<Rightarrow> nat" where
  "freshness_order FS_FRESH = 0"
| "freshness_order FS_STALE = 1"
| "freshness_order FS_NOT_LATEST = 2"
| "freshness_order FS_INVALID_FUTURE_TIMESTAMP = 3"

definition worse_freshness :: "freshness_result \<Rightarrow> freshness_result \<Rightarrow> freshness_result" where
  "worse_freshness selected candidate =
     (if freshness_order (fz_status candidate) > freshness_order (fz_status selected)
      then candidate else selected)"

definition selectFreshness :: "freshness_result \<Rightarrow> freshness_result list \<Rightarrow> freshness_result" where
  "selectFreshness first rest = foldl worse_freshness first rest"

definition requirements_failure ::
  "tool_definition \<Rightarrow> resolution_context \<Rightarrow> revalidation_reason option" where
  "requirements_failure d a =
     (if \<not> list_all (flag (rc_capabilities a)) (td_requiredCapabilities d)
      then Some RVR_CAPABILITY_UNAVAILABLE
      else if \<not> list_all (flag (rc_services a)) (td_requiredServices d)
      then Some RVR_SERVICE_UNAVAILABLE else None)"

definition evaluate_three ::
  "(nat \<Rightarrow> int) \<Rightarrow> nat \<Rightarrow> driving_context \<Rightarrow> freshness_requirement \<Rightarrow> number_arg \<Rightarrow>
     (domain_error, freshness_result) result" where
  "evaluate_three clock n x req latest =
     and_then (evaluate_freshness (Epoch_int (clock n)) x req latest) (\<lambda>f0.
     and_then (evaluate_freshness (Epoch_int (clock (n + 1)))
       (x\<lparr>cx_capturedAt := ve_timestamp (cx_vehicle x)\<rparr>) req latest) (\<lambda>f1.
     and_then (evaluate_freshness (Epoch_int (clock (n + 2)))
       (x\<lparr>cx_capturedAt := tp_timestamp (cx_trip x)\<rparr>) req latest) (\<lambda>f2.
       Inr (selectFreshness f0 [f1, f2]))))"

definition revalidate ::
  "profile_registry \<Rightarrow> (string \<Rightarrow> tool_definition option) \<Rightarrow> action_env \<Rightarrow> pending_action \<Rightarrow>
     driving_context \<Rightarrow> nat \<Rightarrow> (domain_error, revalidation_result) result" where
  "revalidate profiles definitions env action original n =
     (case (profiles (pa_toolName action), definitions (pa_toolName action)) of
        (Some pf, Some d) \<Rightarrow>
          if td_name d \<noteq> pa_toolName action \<or> td_riskLevel d \<noteq> pa_riskLevel action
          then Inr (terminalRevalidation RVR_TOOL_UNAVAILABLE)
          else (case en_current env n of
            None \<Rightarrow> Inr (terminalRevalidation RVR_CONTEXT_RELOAD_FAILED)
          | Some current \<Rightarrow>
              let x = cu_snapshot current in
              if us_userId (cx_user x) \<noteq> pa_userId action \<or>
                 ve_vehicleId (cx_vehicle x) \<noteq> pa_vehicleId action
              then Inr (revalidation False RVR_RELEVANT_STATE_CHANGED (Some x) None None)
              else (case evaluate_three (en_clock env) (n + 1) x (tf_freshnessRequirement pf)
                      (if fr_requiresLatest (tf_freshnessRequirement pf)
                       then cu_latestContextVersion current else Arg_undefined) of
                Inl _ \<Rightarrow> Inr (revalidation False RVR_CONTEXT_RELOAD_FAILED (Some x) None None)
              | Inr fresh \<Rightarrow>
                  if fz_status fresh \<noteq> FS_FRESH
                  then Inr (revalidation False
                         (case fz_status fresh of
                            FS_STALE \<Rightarrow> RVR_CONTEXT_STALE
                          | FS_NOT_LATEST \<Rightarrow> RVR_CONTEXT_NOT_LATEST
                          | _ \<Rightarrow> RVR_CONTEXT_FUTURE_TIMESTAMP) (Some x) (Some fresh) None)
                  else and_then
                    (detect_conflict original x (Paths (map Some (tf_relevantContextPaths pf))))
                    (\<lambda>k.
                      if cf_status k = CF_RELEVANT_STATE_CHANGED
                      then Inr (revalidation False RVR_RELEVANT_STATE_CHANGED (Some x) (Some fresh) (Some k))
                      else if cf_status k = CF_UNKNOWN_RELEVANT_PATH
                      then Inr (revalidation False RVR_UNKNOWN_RELEVANT_PATH (Some x) (Some fresh) (Some k))
                      else (case requirements_failure d (cu_availability current) of
                        Some reason \<Rightarrow> Inr (revalidation False reason (Some x) (Some fresh) (Some k))
                      | None \<Rightarrow> Inr (revalidation True
                          (if cf_status k = CF_VERSION_CHANGED_BUT_IRRELEVANT
                           then RVR_IRRELEVANT_VERSION_CHANGE else RVR_UNCHANGED)
                          (Some x) (Some fresh) (Some k))))))
      | _ \<Rightarrow> Inr (terminalRevalidation RVR_TOOL_UNAVAILABLE))"

section \<open>Creating a pending action\<close>

record create_command =
  cr_definition :: tool_definition
  cr_validatedArguments :: json
  cr_runId :: string
  cr_sessionId :: string
  cr_traceId :: string
  cr_userId :: string
  cr_vehicleId :: string
  cr_policyDecision :: policy_decision
  cr_contextSnapshot :: driving_context

record confirmation_challenge =
  ch_actionId :: string
  ch_confirmationToken :: string
  ch_sessionId :: string
  ch_userId :: string
  ch_expiresAt :: utc_timestamp

record safe_result =
  sr_actionId :: string
  sr_toolName :: string
  sr_riskLevel :: risk_level
  sr_expiresAt :: utc_timestamp
  sr_summary :: string

record action_creation =
  ac_action :: pending_action
  ac_trustedChallenge :: confirmation_challenge
  ac_safeResult :: safe_result

definition create_binding_ok :: "'r confirmation_service \<Rightarrow> create_command \<Rightarrow> bool" where
  "create_binding_ok sv c \<longleftrightarrow>
     (let d = cr_definition c; p = cr_policyDecision c; x = cr_contextSnapshot c in
      po_decision p = PD_REQUIRE_CONFIRMATION \<and>
      isPolicyDecisionIssuedFor (sv_policy sv) p (td_ref d) (cr_validatedArguments c) \<and>
      sv_isTrusted sv d = Some True \<and>
      po_toolName p = td_name d \<and> po_riskLevel p = Some (td_riskLevel d) \<and>
      po_contextSnapshotId p = Some (cx_snapshotId x) \<and>
      po_contextVersion p = Some (cx_contextVersion x) \<and>
      td_name d \<in> set FORMAL_TOOL_NAMES \<and> (td_riskLevel d = R2 \<or> td_riskLevel d = R3))"

definition create_ids_ok :: "create_command \<Rightarrow> bool" where
  "create_ids_ok c \<longleftrightarrow> list_all (safe_id 127)
     [cr_runId c, cr_sessionId c, cr_traceId c, cr_userId c, cr_vehicleId c]"

definition new_pending_action ::
  "create_command \<Rightarrow> string \<Rightarrow> json \<Rightarrow> utc_timestamp \<Rightarrow> utc_timestamp \<Rightarrow> string \<Rightarrow> string \<Rightarrow> pending_action" where
  "new_pending_action c actionId arguments createdAt expiresAt summary fingerprint =
     \<lparr>pa_actionId = actionId, pa_toolName = td_name (cr_definition c),
      pa_validatedArguments = arguments, pa_riskLevel = td_riskLevel (cr_definition c),
      pa_runId = cr_runId c, pa_sessionId = cr_sessionId c, pa_traceId = cr_traceId c,
      pa_userId = cr_userId c, pa_vehicleId = cr_vehicleId c,
      pa_policyRuleId = po_ruleId (cr_policyDecision c), pa_policyDecision = cr_policyDecision c,
      pa_contextSnapshotId = cx_snapshotId (cr_contextSnapshot c),
      pa_contextVersion = cx_contextVersion (cr_contextSnapshot c),
      pa_createdAt = createdAt, pa_expiresAt = expiresAt, pa_actionFingerprint = fingerprint,
      pa_confirmationSummary = summary, pa_state = AS_AWAITING_CONFIRMATION,
      pa_updatedAt = createdAt,
      pa_stateHistory = [\<lparr>tr_from = None, tr_to = AS_AWAITING_CONFIRMATION, tr_at = createdAt\<rparr>]\<rparr>"

definition creation_of ::
  "create_command \<Rightarrow> string \<Rightarrow> string \<Rightarrow> pending_record \<Rightarrow> action_creation" where
  "creation_of c actionId token stored =
     (let a = pd_action stored in
      \<lparr>ac_action = a,
       ac_trustedChallenge = \<lparr>ch_actionId = actionId, ch_confirmationToken = token,
         ch_sessionId = cr_sessionId c, ch_userId = cr_userId c, ch_expiresAt = pa_expiresAt a\<rparr>,
       ac_safeResult = \<lparr>sr_actionId = actionId, sr_toolName = pa_toolName a,
         sr_riskLevel = pa_riskLevel a, sr_expiresAt = pa_expiresAt a,
         sr_summary = pa_confirmationSummary a\<rparr>\<rparr>)"

text \<open>The event of a creation that cannot be delivered cancels the action.\<close>

definition announce_creation ::
  "'r confirmation_service \<Rightarrow> action_env \<Rightarrow> string \<Rightarrow> pending_record \<Rightarrow> ('r, unit) act" where
  "announce_creation sv env actionId stored =
     act_catch (emit env EV_action_pending_created stored None) (\<lambda>e.
       act_then (act_repo (\<lambda>m. rp_transition (sv_ops sv) m actionId AS_CANCELLED
           (pa_updatedAt (pd_action stored)))) (\<lambda>cancelled.
       act_then (act_catch (emit env EV_action_cancelled cancelled (Some ''PENDING_EVENT_DELIVERY_FAILED''))
           (\<lambda>_. act_return ())) (\<lambda>_.
         act_throw e)))"

definition service_create ::
  "'r confirmation_service \<Rightarrow> action_env \<Rightarrow> create_command \<Rightarrow> ('r, action_creation) act" where
  "service_create sv env c =
     act_then (act_check (create_binding_ok sv c) AE_INVALID_COMMAND None None) (\<lambda>_.
     act_then (act_check (create_ids_ok c) AE_INVALID_COMMAND None None) (\<lambda>_.
     act_then (act_check (cr_userId c = us_userId (cx_user (cr_contextSnapshot c)) \<and>
         cr_vehicleId c = ve_vehicleId (cx_vehicle (cr_contextSnapshot c)))
       AE_INVALID_COMMAND None None) (\<lambda>_.
     act_then (act_read (en_clock env)) (\<lambda>nowMs.
     act_then (clock_timestamp nowMs) (\<lambda>createdAt.
     act_then (clock_timestamp (nowMs + sv_confirmationTtlMs sv)) (\<lambda>expiresAt.
     act_then (generatedId (en_actionId env)) (\<lambda>actionId.
     act_then (act_lift (case sv_clone sv (cr_validatedArguments c) of
         None \<Rightarrow> action_fail AE_INVALID_COMMAND None None | Some v \<Rightarrow> Inr v)) (\<lambda>arguments.
     act_then (act_check (td_schemas_compile (cr_definition c) \<and>
         td_input_ok (cr_definition c) arguments) AE_INVALID_COMMAND None None) (\<lambda>_.
     act_then (act_lift (action_result (createConfirmationSummary (cr_definition c) arguments))) (\<lambda>summary.
     act_then (act_lift (action_result (createActionFingerprint (sv_sha sv)
         \<lparr>fi_toolName = td_name (cr_definition c), fi_validatedArguments = arguments,
          fi_sessionId = cr_sessionId c, fi_userId = cr_userId c, fi_vehicleId = cr_vehicleId c,
          fi_contextSnapshotId = cx_snapshotId (cr_contextSnapshot c),
          fi_contextVersion = cx_contextVersion (cr_contextSnapshot c)\<rparr>))) (\<lambda>fingerprint.
     act_then (generatedToken (en_token env)) (\<lambda>token.
     act_then (act_repo (\<lambda>m. rp_create (sv_ops sv) m
         \<lparr>pd_action = new_pending_action c actionId arguments createdAt expiresAt summary fingerprint,
          pd_originalContext = cr_contextSnapshot c, pd_tokenHash = Some (sv_sha sv token),
          pd_confirmationId = None, pd_authorization = None,
          pd_authorizationConsumedAt = None\<rparr>)) (\<lambda>_.
     act_then (act_repo (\<lambda>m. (rp_get (sv_ops sv) m actionId, m))) (\<lambda>found.
       case found of
         None \<Rightarrow> act_lift (action_fail AE_INTERNAL_ERROR (Some actionId) None)
       | Some stored \<Rightarrow>
           act_then (announce_creation sv env actionId stored) (\<lambda>_.
             act_return (creation_of c actionId token stored))))))))))))))))"

section \<open>Operations on an existing action\<close>

record bound_command =
  bc_actionId :: string
  bc_sessionId :: string
  bc_userId :: string

record confirm_command = bound_command +
  cf_confirmationToken :: string

definition requireBoundCommand :: "('x bound_command_scheme) \<Rightarrow> ('r, unit) act" where
  "requireBoundCommand c =
     act_check (safe_id 127 (bc_actionId c) \<and> safe_id 127 (bc_sessionId c) \<and> safe_id 127 (bc_userId c))
       AE_INVALID_COMMAND None None"

definition require_record :: "'r confirmation_service \<Rightarrow> string \<Rightarrow> ('r, pending_record) act" where
  "require_record sv actionId =
     act_then (act_repo (\<lambda>m. (rp_get (sv_ops sv) m actionId, m))) (\<lambda>found.
       case found of
         None \<Rightarrow> act_lift (action_fail AE_ACTION_NOT_FOUND (Some actionId) None)
       | Some r \<Rightarrow> act_return r)"

definition requireAwaiting :: "pending_record \<Rightarrow> ('r, unit) act" where
  "requireAwaiting r =
     act_check (pa_state (pd_action r) = AS_AWAITING_CONFIRMATION) AE_INVALID_STATE
       (Some (pa_actionId (pd_action r))) (Some (pa_state (pd_action r)))"

definition requireIdentity :: "pending_record \<Rightarrow> ('x bound_command_scheme) \<Rightarrow> ('r, unit) act" where
  "requireIdentity r c =
     act_check (pa_sessionId (pd_action r) = bc_sessionId c \<and> pa_userId (pd_action r) = bc_userId c)
       AE_CONFIRMATION_IDENTITY_MISMATCH (Some (pa_actionId (pd_action r)))
       (Some (pa_state (pd_action r)))"

definition requireIntegrity :: "'r confirmation_service \<Rightarrow> pending_record \<Rightarrow> ('r, unit) act" where
  "requireIntegrity sv r = act_lift (assertPendingActionRecordIntegrity (sv_sha sv) r)"

definition move_to ::
  "'r confirmation_service \<Rightarrow> string \<Rightarrow> action_state \<Rightarrow> int \<Rightarrow> ('r, pending_record) act" where
  "move_to sv actionId state ms =
     act_then (clock_timestamp ms) (\<lambda>t.
       act_repo (\<lambda>m. rp_transition (sv_ops sv) m actionId state t))"

definition resumeReadyForExecution ::
  "'r confirmation_service \<Rightarrow> bound_command \<Rightarrow> ('r, pending_action \<times> execution_authorization) act" where
  "resumeReadyForExecution sv c =
     act_then (requireBoundCommand c) (\<lambda>_.
     act_then (require_record sv (bc_actionId c)) (\<lambda>r.
     act_then (requireIdentity r c) (\<lambda>_.
     act_then (requireIntegrity sv r) (\<lambda>_.
       case (pa_state (pd_action r), pd_authorization r) of
         (AS_READY_FOR_EXECUTION, Some a) \<Rightarrow> act_return (pd_action r, a)
       | _ \<Rightarrow> act_lift (action_fail AE_INVALID_STATE (Some (bc_actionId c))
                (Some (pa_state (pd_action r))))))))"

definition consume_command_ok :: "consume_command \<Rightarrow> bool" where
  "consume_command_ok c \<longleftrightarrow>
     list_all (safe_id 127) [cc_actionId c, cc_sessionId c, cc_userId c, cc_vehicleId c,
       cc_authorizationId c, cc_contextSnapshotId c] \<and>
     is_fingerprint (cc_actionFingerprint c) \<and> cc_toolName c \<in> set FORMAL_TOOL_NAMES \<and>
     is_safe_integer (cc_contextVersion c) \<and> 1 \<le> cc_contextVersion c"

definition consumeExecutionAuthorization ::
  "'r confirmation_service \<Rightarrow> action_env \<Rightarrow> consume_command \<Rightarrow> ('r, execution_authorization) act" where
  "consumeExecutionAuthorization sv env c =
     act_then (act_check (consume_command_ok c) AE_AUTHORIZATION_MISMATCH (Some (cc_actionId c)) None) (\<lambda>_.
     act_then (act_repo (\<lambda>m. (rp_get (sv_ops sv) m (cc_actionId c), m))) (\<lambda>found.
       case found of
         None \<Rightarrow> act_lift (action_fail AE_AUTHORIZATION_MISMATCH (Some (cc_actionId c)) None)
       | Some r \<Rightarrow>
           act_then (act_read (en_clock env)) (\<lambda>nowMs.
           act_then (act_lift (verifyExecutionAuthorizationForConsumption (sv_sha sv) r c nowMs))
             (\<lambda>authorization.
           act_then (clock_timestamp nowMs) (\<lambda>consumedAt.
           act_then (act_repo (\<lambda>m. rp_consumeAuthorization (sv_ops sv) m (cc_actionId c) consumedAt))
             (\<lambda>_. act_return authorization))))))"

definition terminal_operation ::
  "'r confirmation_service \<Rightarrow> action_env \<Rightarrow> bound_command \<Rightarrow> action_state \<Rightarrow> event_type \<Rightarrow>
     ('r, pending_action) act" where
  "terminal_operation sv env c state eventType =
     act_then (requireBoundCommand c) (\<lambda>_.
     act_then (require_record sv (bc_actionId c)) (\<lambda>r.
     act_then (requireAwaiting r) (\<lambda>_.
     act_then (requireIdentity r c) (\<lambda>_.
     act_then (act_read (en_clock env)) (\<lambda>ms.
     act_then (move_to sv (bc_actionId c) state ms) (\<lambda>r'.
     act_then (emit env eventType r' None) (\<lambda>_.
       act_return (pd_action r'))))))))"

definition service_reject ::
  "'r confirmation_service \<Rightarrow> action_env \<Rightarrow> bound_command \<Rightarrow> ('r, pending_action) act" where
  "service_reject sv env c = terminal_operation sv env c AS_REJECTED EV_confirmation_rejected"

definition service_cancel ::
  "'r confirmation_service \<Rightarrow> action_env \<Rightarrow> bound_command \<Rightarrow> ('r, pending_action) act" where
  "service_cancel sv env c = terminal_operation sv env c AS_CANCELLED EV_action_cancelled"

definition service_expire ::
  "'r confirmation_service \<Rightarrow> action_env \<Rightarrow> string \<Rightarrow> ('r, pending_action) act" where
  "service_expire sv env actionId =
     act_then (require_record sv actionId) (\<lambda>r.
       if pa_state (pd_action r) = AS_EXPIRED then act_return (pd_action r)
       else act_then (requireAwaiting r) (\<lambda>_.
            act_then (act_read (en_clock env)) (\<lambda>nowMs.
            act_then (act_lift (domain_result
                (timestampToEpochMs (pa_expiresAt (pd_action r)) ''expiresAt''))) (\<lambda>expires.
              if nowMs < expires
              then act_lift (action_fail AE_INVALID_COMMAND (Some actionId) (Some (pa_state (pd_action r))))
              else act_then (move_to sv actionId AS_EXPIRED nowMs) (\<lambda>r'.
                   act_then (emit env EV_confirmation_expired r' None) (\<lambda>_.
                     act_return (pd_action r')))))))"

section \<open>Confirmation\<close>

record confirmation_outcome =
  oc_action :: pending_action
  oc_authorization :: "execution_authorization option"
  oc_revalidation :: revalidation_result

definition reason_text :: "revalidation_reason \<Rightarrow> string" where
  "reason_text r =
     (case r of
        RVR_UNCHANGED \<Rightarrow> ''UNCHANGED''
      | RVR_IRRELEVANT_VERSION_CHANGE \<Rightarrow> ''IRRELEVANT_VERSION_CHANGE''
      | RVR_CONTEXT_STALE \<Rightarrow> ''CONTEXT_STALE''
      | RVR_CONTEXT_NOT_LATEST \<Rightarrow> ''CONTEXT_NOT_LATEST''
      | RVR_CONTEXT_FUTURE_TIMESTAMP \<Rightarrow> ''CONTEXT_FUTURE_TIMESTAMP''
      | RVR_RELEVANT_STATE_CHANGED \<Rightarrow> ''RELEVANT_STATE_CHANGED''
      | RVR_UNKNOWN_RELEVANT_PATH \<Rightarrow> ''UNKNOWN_RELEVANT_PATH''
      | RVR_CAPABILITY_UNAVAILABLE \<Rightarrow> ''CAPABILITY_UNAVAILABLE''
      | RVR_SERVICE_UNAVAILABLE \<Rightarrow> ''SERVICE_UNAVAILABLE''
      | RVR_TOOL_UNAVAILABLE \<Rightarrow> ''TOOL_UNAVAILABLE''
      | RVR_CONTEXT_RELOAD_FAILED \<Rightarrow> ''CONTEXT_RELOAD_FAILED'')"

definition replanAfterBoundaryFailure ::
  "'r confirmation_service \<Rightarrow> action_env \<Rightarrow> pending_record \<Rightarrow> string \<Rightarrow> ('r, unit) act" where
  "replanAfterBoundaryFailure sv env r reason =
     (if pa_state (pd_action r) \<noteq> AS_CONFIRMED then act_return ()
      else act_then (act_read (en_clock env)) (\<lambda>ms.
           act_then (move_to sv (pa_actionId (pd_action r)) AS_REPLAN_REQUIRED ms) (\<lambda>replanned.
             act_catch (emit env EV_action_revalidation_failed replanned (Some reason))
               (\<lambda>_. act_return ()))))"

text \<open>The call of the revalidator, whose failure is itself a reason to replan.\<close>

definition act_revalidate ::
  "'r confirmation_service \<Rightarrow> action_env \<Rightarrow> pending_record \<Rightarrow> ('r, revalidation_result) act" where
  "act_revalidate sv env r w =
     (Inr (case revalidate (sv_profiles sv) (sv_definitions sv) env (pd_action r)
                  (pd_originalContext r) (wo_tick w) of
             Inl _ \<Rightarrow> terminalRevalidation RVR_CONTEXT_RELOAD_FAILED
           | Inr v \<Rightarrow> v),
      w\<lparr>wo_tick := wo_tick w + 4\<rparr>)"

definition replan_outcome ::
  "'r confirmation_service \<Rightarrow> action_env \<Rightarrow> string \<Rightarrow> int \<Rightarrow> revalidation_result \<Rightarrow>
     ('r, confirmation_outcome) act" where
  "replan_outcome sv env actionId ms v =
     act_then (move_to sv actionId AS_REPLAN_REQUIRED ms) (\<lambda>r.
     act_then (emit env EV_action_revalidation_failed r (Some (reason_text (rv_reason v)))) (\<lambda>_.
       act_return \<lparr>oc_action = pd_action r, oc_authorization = None, oc_revalidation = v\<rparr>))"

definition authorization_for ::
  "pending_record \<Rightarrow> string \<Rightarrow> string \<Rightarrow> driving_context \<Rightarrow> utc_timestamp \<Rightarrow> utc_timestamp \<Rightarrow>
     execution_authorization" where
  "authorization_for r authorizationId confirmationId x issuedAt expiresAt =
     (let a = pd_action r in
      \<lparr>ea_authorizationId = authorizationId, ea_actionId = pa_actionId a,
       ea_actionFingerprint = pa_actionFingerprint a, ea_toolName = pa_toolName a,
       ea_riskLevel = pa_riskLevel a, ea_confirmationId = confirmationId,
       ea_policyRuleId = pa_policyRuleId a, ea_contextSnapshotId = cx_snapshotId x,
       ea_contextVersion = cx_contextVersion x, ea_issuedAt = issuedAt, ea_expiresAt = expiresAt\<rparr>)"

definition issue_authorization ::
  "'r confirmation_service \<Rightarrow> action_env \<Rightarrow> string \<Rightarrow> string \<Rightarrow> pending_record \<Rightarrow>
     revalidation_result \<Rightarrow> driving_context \<Rightarrow> int \<Rightarrow> ('r, confirmation_outcome) act" where
  "issue_authorization sv env actionId confirmationId r v x completionMs =
     act_then (clock_timestamp completionMs) (\<lambda>issuedAt.
     act_then (act_catch (generatedId (en_authorizationId env)) (\<lambda>e.
       act_then (move_to sv actionId AS_REPLAN_REQUIRED completionMs) (\<lambda>r'.
       act_then (emit env EV_action_revalidation_failed r'
           (Some ''AUTHORIZATION_GENERATION_FAILED'')) (\<lambda>_.
         act_throw e)))) (\<lambda>authorizationId.
     act_then (clock_timestamp (completionMs + sv_authorizationTtlMs sv)) (\<lambda>expiresAt.
       let authorization = authorization_for r authorizationId confirmationId x issuedAt expiresAt
       in act_then (act_repo (\<lambda>m. rp_authorize (sv_ops sv) m actionId authorization issuedAt)) (\<lambda>r'.
          act_then (emit env EV_action_ready_for_execution r' None) (\<lambda>_.
            act_return \<lparr>oc_action = pd_action r',
               oc_authorization = Some (case pd_authorization r' of
                  None \<Rightarrow> authorization | Some a \<Rightarrow> a),
               oc_revalidation = v\<rparr>)))))"

text \<open>From the accepted confirmation on: events, revalidation, authorization.\<close>

definition confirm_accepted ::
  "'r confirmation_service \<Rightarrow> action_env \<Rightarrow> string \<Rightarrow> string \<Rightarrow> pending_record \<Rightarrow>
     ('r, confirmation_outcome) act" where
  "confirm_accepted sv env actionId confirmationId r =
     act_then (act_catch
       (act_then (emit env EV_confirmation_accepted r None) (\<lambda>_.
          emit env EV_action_revalidation_started r None))
       (\<lambda>e. act_then (replanAfterBoundaryFailure sv env r ''EVENT_DELIVERY_FAILED'') (\<lambda>_.
          act_throw e))) (\<lambda>_.
     act_then (act_revalidate sv env r) (\<lambda>v.
     act_then (act_read (en_clock env)) (\<lambda>completionMs.
       case (if rv_valid v then rv_currentContext v else None) of
         Some x \<Rightarrow> issue_authorization sv env actionId confirmationId r v x completionMs
       | None \<Rightarrow> replan_outcome sv env actionId completionMs v)))"

definition expired_failure :: "action_env \<Rightarrow> string \<Rightarrow> pending_record \<Rightarrow> ('r, 'a) act" where
  "expired_failure env actionId r =
     act_then (emit env EV_confirmation_expired r None) (\<lambda>_.
       act_lift (action_fail AE_CONFIRMATION_EXPIRED (Some actionId) (Some (pa_state (pd_action r)))))"

definition accept_token ::
  "'r confirmation_service \<Rightarrow> action_env \<Rightarrow> confirm_command \<Rightarrow> pending_record \<Rightarrow> int \<Rightarrow>
     ('r, confirmation_outcome) act" where
  "accept_token sv env c r nowMs =
     act_then (requireIdentity r c) (\<lambda>_.
     act_then (requireIntegrity sv r) (\<lambda>_.
     act_then (act_check
         (case pd_tokenHash r of None \<Rightarrow> False
          | Some h \<Rightarrow> safeHashEqual h (sv_sha sv (cf_confirmationToken c)))
         AE_CONFIRMATION_TOKEN_INVALID (Some (bc_actionId c)) (Some (pa_state (pd_action r)))) (\<lambda>_.
     act_then (clock_timestamp nowMs) (\<lambda>confirmedAt.
     act_then (generatedId (en_confirmationId env)) (\<lambda>confirmationId.
     act_then (act_repo (\<lambda>m. rp_acceptConfirmation (sv_ops sv) m (bc_actionId c)
         confirmationId confirmedAt)) (\<lambda>r'.
       if pa_state (pd_action r') = AS_EXPIRED then expired_failure env (bc_actionId c) r'
       else confirm_accepted sv env (bc_actionId c) confirmationId r'))))))"

definition confirm_awaiting ::
  "'r confirmation_service \<Rightarrow> action_env \<Rightarrow> confirm_command \<Rightarrow> pending_record \<Rightarrow>
     ('r, confirmation_outcome) act" where
  "confirm_awaiting sv env c r =
     act_then (requireAwaiting r) (\<lambda>_.
     act_then (act_read (en_clock env)) (\<lambda>nowMs.
     act_then (act_lift (domain_result
         (timestampToEpochMs (pa_expiresAt (pd_action r)) ''expiresAt''))) (\<lambda>expires.
       if nowMs \<ge> expires
       then act_then (move_to sv (bc_actionId c) AS_EXPIRED nowMs) (expired_failure env (bc_actionId c))
       else accept_token sv env c r nowMs)))"

definition service_confirm ::
  "'r confirmation_service \<Rightarrow> action_env \<Rightarrow> confirm_command \<Rightarrow> ('r, confirmation_outcome) act" where
  "service_confirm sv env c =
     act_then (requireBoundCommand c) (\<lambda>_.
     act_then (act_check (1 \<le> length (cf_confirmationToken c) \<and> length (cf_confirmationToken c) \<le> 1024)
       AE_CONFIRMATION_TOKEN_INVALID (Some (bc_actionId c)) None) (\<lambda>_.
     act_then (require_record sv (bc_actionId c)) (\<lambda>r.
       if pa_state (pd_action r) = AS_CONFIRMED \<and> pd_tokenHash r = None \<and> pd_confirmationId r \<noteq> None
       then act_then (act_read (en_clock env)) (\<lambda>ms.
              replan_outcome sv env (bc_actionId c) ms (terminalRevalidation RVR_CONTEXT_RELOAD_FAILED))
       else confirm_awaiting sv env c r)))"

text \<open>The calls of the service, as steps on the world.\<close>

datatype service_call =
  Call_create create_command
| Call_confirm confirm_command
| Call_reject bound_command
| Call_cancel bound_command
| Call_expire string
| Call_resume bound_command
| Call_consume consume_command

fun service_step :: "'r confirmation_service \<Rightarrow> action_env \<Rightarrow> 'r world \<Rightarrow> service_call \<Rightarrow> 'r world" where
  "service_step sv env w (Call_create c) = snd (service_create sv env c w)"
| "service_step sv env w (Call_confirm c) = snd (service_confirm sv env c w)"
| "service_step sv env w (Call_reject c) = snd (service_reject sv env c w)"
| "service_step sv env w (Call_cancel c) = snd (service_cancel sv env c w)"
| "service_step sv env w (Call_expire i) = snd (service_expire sv env i w)"
| "service_step sv env w (Call_resume c) = snd (resumeReadyForExecution sv c w)"
| "service_step sv env w (Call_consume c) = snd (consumeExecutionAuthorization sv env c w)"

end
