(* ===== verification/ActionGuarantees.thy ===== *)
theory ActionGuarantees
  imports ActionService
begin

text \<open>
  What the confirmation service guarantees over any repository that keeps the contract
  \<open>pending_repository\<close>. The proofs use a small logic of triples over the stored records: a
  precondition, a postcondition for a normal return and one for a thrown error, and in
  every case the invariant of the records and their evolution.
\<close>

section \<open>The invariant of a stored record\<close>

definition authorization_matches :: "pending_record \<Rightarrow> execution_authorization \<Rightarrow> bool" where
  "authorization_matches r z \<longleftrightarrow>
     (let a = pd_action r in
      ea_actionId z = pa_actionId a \<and> ea_actionFingerprint z = pa_actionFingerprint a \<and>
      ea_toolName z = pa_toolName a \<and> ea_riskLevel z = pa_riskLevel a \<and>
      ea_policyRuleId z = pa_policyRuleId a \<and> pd_confirmationId r = Some (ea_confirmationId z))"

definition record_inv :: "string \<Rightarrow> pending_record \<Rightarrow> bool" where
  "record_inv i r \<longleftrightarrow>
     (let a = pd_action r; s = pa_state a in
      pa_actionId a = i \<and>
      history_ok legal_action AS_AWAITING_CONFIRMATION (pa_stateHistory a) s \<and>
      (pd_authorization r \<noteq> None \<longleftrightarrow> s = AS_READY_FOR_EXECUTION) \<and>
      (s = AS_AWAITING_CONFIRMATION \<longrightarrow> pd_tokenHash r \<noteq> None \<and> pd_confirmationId r = None) \<and>
      (s = AS_CONFIRMED \<or> s = AS_READY_FOR_EXECUTION \<longrightarrow>
         pd_tokenHash r = None \<and> pd_confirmationId r \<noteq> None) \<and>
      (pd_authorizationConsumedAt r \<noteq> None \<longrightarrow> s = AS_READY_FOR_EXECUTION) \<and>
      (\<forall>z. pd_authorization r = Some z \<longrightarrow> authorization_matches r z))"

definition repository_inv :: "action_repository \<Rightarrow> bool" where
  "repository_inv m \<longleftrightarrow> (\<forall>i r. m i = Some r \<longrightarrow> record_inv i r)"

text \<open>
  How a record may evolve: the bound data is frozen, the state follows legal moves, an
  authorization and its consumption stay, a spent token stays spent.
\<close>

definition evolves :: "pending_record \<Rightarrow> pending_record \<Rightarrow> bool" where
  "evolves old new \<longleftrightarrow>
     (\<exists>s u h. pd_action new =
        (pd_action old)\<lparr>pa_state := s, pa_updatedAt := u, pa_stateHistory := h\<rparr>) \<and>
     pd_originalContext new = pd_originalContext old \<and>
     (legal_action (pa_state (pd_action old)) = [] \<longrightarrow> pa_state (pd_action new) = pa_state (pd_action old)) \<and>
     (pa_state (pd_action old) = AS_CONFIRMED \<longrightarrow> pa_state (pd_action new) \<noteq> AS_AWAITING_CONFIRMATION) \<and>
     (\<forall>z. pd_authorization old = Some z \<longrightarrow> pd_authorization new = Some z) \<and>
     (\<forall>t. pd_authorizationConsumedAt old = Some t \<longrightarrow> pd_authorizationConsumedAt new = Some t) \<and>
     (pd_tokenHash old = None \<longrightarrow> pd_tokenHash new = None)"

definition grows :: "action_repository \<Rightarrow> action_repository \<Rightarrow> bool" where
  "grows m m' \<longleftrightarrow> (\<forall>i old. m i = Some old \<longrightarrow> (\<exists>new. m' i = Some new \<and> evolves old new))"

lemma evolves_refl [simp]: "evolves r r"
  unfolding evolves_def
  by (intro conjI exI [of _ "pa_state (pd_action r)"] exI [of _ "pa_updatedAt (pd_action r)"]
      exI [of _ "pa_stateHistory (pd_action r)"]) simp_all

lemma evolvesD:
  assumes "evolves old new"
  shows "pd_originalContext new = pd_originalContext old"
    "legal_action (pa_state (pd_action old)) = [] \<Longrightarrow> pa_state (pd_action new) = pa_state (pd_action old)"
    "pa_state (pd_action old) = AS_CONFIRMED \<Longrightarrow> pa_state (pd_action new) \<noteq> AS_AWAITING_CONFIRMATION"
    "pd_authorization old = Some z \<Longrightarrow> pd_authorization new = Some z"
    "pd_authorizationConsumedAt old = Some t \<Longrightarrow> pd_authorizationConsumedAt new = Some t"
    "pd_tokenHash old = None \<Longrightarrow> pd_tokenHash new = None"
  using assms unfolding evolves_def by blast+

lemma evolves_frozen:
  assumes "evolves old new"
  shows "pa_actionId (pd_action new) = pa_actionId (pd_action old)"
    "pa_actionFingerprint (pd_action new) = pa_actionFingerprint (pd_action old)"
    "pa_validatedArguments (pd_action new) = pa_validatedArguments (pd_action old)"
    "pa_toolName (pd_action new) = pa_toolName (pd_action old)"
    "pa_sessionId (pd_action new) = pa_sessionId (pd_action old)"
    "pa_userId (pd_action new) = pa_userId (pd_action old)"
    "pa_vehicleId (pd_action new) = pa_vehicleId (pd_action old)"
proof -
  obtain s u h where e: "pd_action new =
      (pd_action old)\<lparr>pa_state := s, pa_updatedAt := u, pa_stateHistory := h\<rparr>"
    using assms unfolding evolves_def by blast
  show "pa_actionId (pd_action new) = pa_actionId (pd_action old)"
    "pa_actionFingerprint (pd_action new) = pa_actionFingerprint (pd_action old)"
    "pa_validatedArguments (pd_action new) = pa_validatedArguments (pd_action old)"
    "pa_toolName (pd_action new) = pa_toolName (pd_action old)"
    "pa_sessionId (pd_action new) = pa_sessionId (pd_action old)"
    "pa_userId (pd_action new) = pa_userId (pd_action old)"
    "pa_vehicleId (pd_action new) = pa_vehicleId (pd_action old)"
    by (simp_all add: e)
qed

lemma evolves_trans:
  assumes ab: "evolves a b" and bc: "evolves b c"
  shows "evolves a c"
proof -
  obtain s u h where b: "pd_action b =
      (pd_action a)\<lparr>pa_state := s, pa_updatedAt := u, pa_stateHistory := h\<rparr>"
    using ab unfolding evolves_def by blast
  obtain s' u' h' where "pd_action c =
      (pd_action b)\<lparr>pa_state := s', pa_updatedAt := u', pa_stateHistory := h'\<rparr>"
    using bc unfolding evolves_def by blast
  then have "pd_action c = (pd_action a)\<lparr>pa_state := s', pa_updatedAt := u', pa_stateHistory := h'\<rparr>"
    by (simp add: b)
  moreover have "pa_state (pd_action c) \<noteq> AS_AWAITING_CONFIRMATION"
    if "pa_state (pd_action a) = AS_CONFIRMED"
    using evolvesD(3) [OF ab that] evolvesD(2,3) [OF bc]
    by (cases "pa_state (pd_action b)") auto
  ultimately show ?thesis
    unfolding evolves_def
  proof (intro conjI allI impI)
    show "legal_action (pa_state (pd_action a)) = [] \<Longrightarrow> pa_state (pd_action c) = pa_state (pd_action a)"
      using evolvesD(2) [OF ab] evolvesD(2) [OF bc] by simp
  qed (use evolvesD [OF ab] evolvesD [OF bc] in \<open>blast | simp\<close>)+
qed

lemma grows_refl [simp]: "grows m m"
  by (simp add: grows_def)

lemma grows_trans: "grows a b \<Longrightarrow> grows b c \<Longrightarrow> grows a c"
  unfolding grows_def by (meson evolves_trans)

section \<open>Single changes\<close>

lemma transition_Inr:
  "transitionPendingAction a s t = Inr a' \<longleftrightarrow> s \<in> set (legal_action (pa_state a)) \<and>
     a' = a\<lparr>pa_state := s, pa_updatedAt := t, pa_stateHistory := pa_stateHistory a @
       [\<lparr>tr_from = Some (pa_state a), tr_to = s, tr_at = t\<rparr>]\<rparr>"
  by (auto simp: transitionPendingAction_def action_fail_def)

text \<open>What the record must satisfy for a confirmation to be accepted.\<close>

definition confirmable :: "(string \<Rightarrow> string) \<Rightarrow> confirm_command \<Rightarrow> pending_record \<Rightarrow> bool" where
  "confirmable sha c r \<longleftrightarrow>
     pa_state (pd_action r) = AS_AWAITING_CONFIRMATION \<and>
     (\<exists>h. pd_tokenHash r = Some h \<and> safeHashEqual h (sha (cf_confirmationToken c))) \<and>
     pa_sessionId (pd_action r) = bc_sessionId c \<and> pa_userId (pd_action r) = bc_userId c \<and>
     assertPendingActionRecordIntegrity sha r = Inr ()"

lemma evolvesI:
  assumes "pd_action new = (pd_action old)\<lparr>pa_state := s, pa_updatedAt := u, pa_stateHistory := h\<rparr>"
    and "pd_originalContext new = pd_originalContext old"
    and "s = pa_state (pd_action old) \<or> s \<in> set (legal_action (pa_state (pd_action old)))"
    and "pd_authorization old \<noteq> None \<Longrightarrow> pd_authorization new = pd_authorization old"
    and "pd_authorizationConsumedAt old \<noteq> None \<Longrightarrow>
      pd_authorizationConsumedAt new = pd_authorizationConsumedAt old"
    and "pd_tokenHash old = None \<Longrightarrow> pd_tokenHash new = None"
  shows "evolves old new"
  unfolding evolves_def
proof (intro conjI allI impI)
  show "\<exists>s u h. pd_action new = (pd_action old)\<lparr>pa_state := s, pa_updatedAt := u, pa_stateHistory := h\<rparr>"
    using assms(1) by blast
qed (use assms in \<open>auto simp: assms(1)\<close>)

lemma history_step:
  "history_ok legal_action AS_AWAITING_CONFIRMATION h s \<Longrightarrow> s' \<in> set (legal_action s) \<Longrightarrow>
   history_ok legal_action AS_AWAITING_CONFIRMATION
     (h @ [\<lparr>tr_from = Some s, tr_to = s', tr_at = t\<rparr>]) s'"
  using history_ok_snoc [of legal_action AS_AWAITING_CONFIRMATION h s
      "\<lparr>tr_from = Some s, tr_to = s', tr_at = t\<rparr>"] by simp

lemma moved_ok:
  assumes "record_inv i old" "moved s old new" "legal_action s = []" "s \<noteq> AS_READY_FOR_EXECUTION"
  shows "record_inv i new \<and> evolves old new \<and> pa_state (pd_action new) = s"
proof -
  obtain t where s: "s \<in> set (legal_action (pa_state (pd_action old)))"
    and new: "new = old\<lparr>pd_action := (pd_action old)\<lparr>pa_state := s, pa_updatedAt := t,
      pa_stateHistory := pa_stateHistory (pd_action old) @
        [\<lparr>tr_from = Some (pa_state (pd_action old)), tr_to = s, tr_at = t\<rparr>]\<rparr>\<rparr>"
    using assms(2) by (auto simp: moved_def transition_Inr)
  have "s \<noteq> AS_AWAITING_CONFIRMATION" "s \<noteq> AS_CONFIRMED" "legal_action (pa_state (pd_action old)) \<noteq> []"
    using assms(3) s by auto
  then have "record_inv i new"
    using assms(1,4) history_step [OF _ s, of "pa_stateHistory (pd_action old)" t]
    unfolding new record_inv_def Let_def by (auto simp: authorization_matches_def)
  moreover have "evolves old new"
    by (rule evolvesI [where s = s and u = t]) (simp_all add: new s)
  ultimately show ?thesis by (simp add: new)
qed

lemma accepted_ok:
  assumes "record_inv i old" "accepted cid old new"
  shows "record_inv i new \<and> evolves old new \<and>
    (pa_state (pd_action new) = AS_EXPIRED \<or>
     pa_state (pd_action new) = AS_CONFIRMED \<and> pd_confirmationId new = Some cid)"
proof (cases "moved AS_EXPIRED old new")
  case True
  with assms(1) show ?thesis using moved_ok [of i old AS_EXPIRED new] by simp
next
  case False
  with assms(2) obtain t where s: "AS_CONFIRMED \<in> set (legal_action (pa_state (pd_action old)))"
    and new: "new = old\<lparr>pd_action := (pd_action old)\<lparr>pa_state := AS_CONFIRMED, pa_updatedAt := t,
      pa_stateHistory := pa_stateHistory (pd_action old) @
        [\<lparr>tr_from = Some (pa_state (pd_action old)), tr_to = AS_CONFIRMED, tr_at = t\<rparr>]\<rparr>,
      pd_tokenHash := None, pd_confirmationId := Some cid\<rparr>"
    by (auto simp: accepted_def transition_Inr)
  from s have "pa_state (pd_action old) = AS_AWAITING_CONFIRMATION"
    by (cases "pa_state (pd_action old)") auto
  then have "record_inv i new"
    using assms(1) history_step [OF _ s, of "pa_stateHistory (pd_action old)" t]
    unfolding new record_inv_def Let_def by auto
  moreover have "evolves old new"
    by (rule evolvesI [where s = AS_CONFIRMED and u = t]) (simp_all add: new s)
  ultimately show ?thesis by (simp add: new)
qed

lemma matches_stamped [simp]:
  "authorization_matches r (z\<lparr>ea_issuedAt := a, ea_expiresAt := e\<rparr>) = authorization_matches r z"
  by (simp add: authorization_matches_def Let_def)

lemma authorized_ok:
  assumes "record_inv i old" "authorized z old new" "authorization_matches old z"
  shows "record_inv i new \<and> evolves old new \<and> pa_state (pd_action new) = AS_READY_FOR_EXECUTION \<and>
    pd_authorization new \<noteq> None"
proof -
  obtain t a e where s: "AS_READY_FOR_EXECUTION \<in> set (legal_action (pa_state (pd_action old)))"
    and none: "pd_authorization old = None"
    and new: "new = old\<lparr>pd_action := (pd_action old)\<lparr>pa_state := AS_READY_FOR_EXECUTION, pa_updatedAt := t,
      pa_stateHistory := pa_stateHistory (pd_action old) @
        [\<lparr>tr_from = Some (pa_state (pd_action old)), tr_to = AS_READY_FOR_EXECUTION, tr_at = t\<rparr>]\<rparr>,
      pd_authorization := Some (z\<lparr>ea_issuedAt := a, ea_expiresAt := e\<rparr>)\<rparr>"
    using assms(2) by (auto simp: authorized_def transition_Inr)
  from s have confirmed: "pa_state (pd_action old) = AS_CONFIRMED"
    by (cases "pa_state (pd_action old)") auto
  have "authorization_matches new (z\<lparr>ea_issuedAt := a, ea_expiresAt := e\<rparr>)"
    using assms(3) by (simp add: new authorization_matches_def Let_def)
  then have "record_inv i new"
    using assms(1) confirmed history_step [OF _ s, of "pa_stateHistory (pd_action old)" t]
    unfolding record_inv_def Let_def by (auto simp: new)
  moreover have "evolves old new"
    by (rule evolvesI [where s = AS_READY_FOR_EXECUTION and u = t]) (simp_all add: new s none)
  ultimately show ?thesis by (simp add: new)
qed

lemma consumed_ok:
  assumes "record_inv i old" "consumed old new" "pa_state (pd_action old) = AS_READY_FOR_EXECUTION"
  shows "record_inv i new \<and> evolves old new \<and> pd_authorizationConsumedAt new \<noteq> None"
proof -
  obtain t where none: "pd_authorizationConsumedAt old = None"
    and new: "new = old\<lparr>pd_authorizationConsumedAt := Some t\<rparr>"
    using assms(2) by (auto simp: consumed_def)
  have "evolves old new"
    by (rule evolvesI [where s = "pa_state (pd_action old)" and u = "pa_updatedAt (pd_action old)"
          and h = "pa_stateHistory (pd_action old)"]) (simp_all add: new none)
  then show ?thesis
    using assms(1,3) by (simp add: new record_inv_def Let_def authorization_matches_def)
qed

lemma repository_inv_update:
  "repository_inv v \<Longrightarrow> record_inv i new \<Longrightarrow> repository_inv (v(i \<mapsto> new))"
  by (simp add: repository_inv_def)

lemma grows_update: "v i = Some old \<Longrightarrow> evolves old new \<Longrightarrow> grows v (v(i \<mapsto> new))"
  by (simp add: grows_def)

lemma grows_insert: "v i = None \<Longrightarrow> grows v (v(i \<mapsto> new))"
  by (simp add: grows_def)

section \<open>Triples\<close>

definition quiet :: "('r, 'a) act \<Rightarrow> bool" where
  "quiet m \<longleftrightarrow> (\<forall>w. wo_repo (snd (m w)) = wo_repo w)"

definition yields :: "('r, 'a) act \<Rightarrow> 'a \<Rightarrow> bool" where
  "yields m x \<longleftrightarrow> (\<exists>w. fst (m w) = Inr x)"

definition triple ::
  "('r \<Rightarrow> action_repository) \<Rightarrow> (action_repository \<Rightarrow> bool) \<Rightarrow> ('r, 'a) act \<Rightarrow>
     ('a \<Rightarrow> action_repository \<Rightarrow> bool) \<Rightarrow> bool" where
  "triple view P m Q \<longleftrightarrow>
     (\<forall>w. repository_inv (view (wo_repo w)) \<longrightarrow> P (view (wo_repo w)) \<longrightarrow>
        repository_inv (view (wo_repo (snd (m w)))) \<and>
        grows (view (wo_repo w)) (view (wo_repo (snd (m w)))) \<and>
        (\<forall>x. fst (m w) = Inr x \<longrightarrow> Q x (view (wo_repo (snd (m w))))))"

lemma tripleD:
  assumes "triple view P m Q" "repository_inv (view (wo_repo w))" "P (view (wo_repo w))"
    and "m w = (Inr x, w')"
  shows "repository_inv (view (wo_repo w'))" "Q x (view (wo_repo w'))"
  using assms(1) [unfolded triple_def, rule_format, OF assms(2,3)] assms(4) by simp_all

lemma quiet_basic [simp]:
  "quiet (act_return x)" "quiet (act_throw e)" "quiet (act_lift r)" "quiet (act_read s)"
  "quiet (act_check b code a st)" "quiet (clock_timestamp ms)"
  by (simp_all add: quiet_def act_return_def act_throw_def act_lift_def act_read_def act_check_def
      clock_timestamp_def)

lemma quiet_then: "quiet m \<Longrightarrow> (\<And>x. quiet (f x)) \<Longrightarrow> quiet (act_then m f)"
  by (auto simp: quiet_def act_then_def split: prod.splits sum.splits) (metis snd_conv)+

lemma quiet_catch: "quiet m \<Longrightarrow> (\<And>e. quiet (h e)) \<Longrightarrow> quiet (act_catch m h)"
  by (auto simp: quiet_def act_catch_def split: prod.splits sum.splits) (metis snd_conv)+

lemma quiet_generated [simp]: "quiet (generatedId f)" "quiet (generatedToken f)"
  by (auto simp: generatedId_def generatedToken_def split: option.splits intro!: quiet_then)

lemma quiet_emit [simp]: "quiet (emit env ty r reason)"
proof -
  have "quiet (\<lambda>w. (Inr (), w\<lparr>wo_events := wo_events w @ es\<rparr>))" for es
    by (simp add: quiet_def)
  then show ?thesis by (auto simp: emit_def Let_def intro!: quiet_then)
qed

lemma quiet_revalidate [simp]: "quiet (act_revalidate sv env r)"
  by (simp add: quiet_def act_revalidate_def)

lemma quiet_require [simp]:
  "quiet (requireBoundCommand c)" "quiet (requireAwaiting r)" "quiet (requireIdentity r c)"
  "quiet (requireIntegrity sv r)"
  by (simp_all add: requireBoundCommand_def requireAwaiting_def requireIdentity_def requireIntegrity_def)

lemma yields_basic [simp]:
  "yields (act_return x) y \<longleftrightarrow> y = x" "\<not> yields (act_throw e) y"
  "yields (act_lift r) y \<longleftrightarrow> r = Inr y" "yields (act_check b code a st) u \<longleftrightarrow> b"
  by (auto simp: yields_def act_return_def act_throw_def act_lift_def act_check_def action_fail_def)

lemma yields_read [simp]: "yields (act_read s) y \<longleftrightarrow> (\<exists>n. y = s n)"
  by (auto simp: yields_def act_read_def intro: exI [of _ "\<lparr>wo_repo = undefined, wo_tick = _, wo_events = []\<rparr>"])

lemma act_then_assoc: "act_then (act_then m g) f = act_then m (\<lambda>x. act_then (g x) f)"
  by (rule ext) (simp add: act_then_def split: prod.splits sum.splits)

lemma triple_quiet:
  "quiet m \<Longrightarrow> (\<And>x v. yields m x \<Longrightarrow> P v \<Longrightarrow> Q x v) \<Longrightarrow> triple view P m Q"
  by (auto simp: triple_def quiet_def yields_def)

lemma triple_fail: "quiet m \<Longrightarrow> (\<And>x. \<not> yields m x) \<Longrightarrow> triple view P m Q"
  by (rule triple_quiet) auto

lemma triple_weaken:
  "triple view P m Q \<Longrightarrow> (\<And>v. P' v \<Longrightarrow> P v) \<Longrightarrow> (\<And>x v. Q x v \<Longrightarrow> Q' x v) \<Longrightarrow> triple view P' m Q'"
  by (simp add: triple_def)

lemma triple_then:
  fixes m :: "('r, 'a) act"
  assumes "triple view P m R" "\<And>x. triple view (R x) (f x) Q"
  shows "triple view P (act_then m f) Q"
  unfolding triple_def
proof (intro allI impI)
  fix w :: "'r world"
  assume w: "repository_inv (view (wo_repo w))" "P (view (wo_repo w))"
  obtain r w1 where m: "m w = (r, w1)" by force
  have one: "repository_inv (view (wo_repo w1))" "grows (view (wo_repo w)) (view (wo_repo w1))"
    "\<And>x. r = Inr x \<Longrightarrow> R x (view (wo_repo w1))"
    using assms(1) w m by (auto simp: triple_def)
  show "repository_inv (view (wo_repo (snd (act_then m f w)))) \<and>
      grows (view (wo_repo w)) (view (wo_repo (snd (act_then m f w)))) \<and>
      (\<forall>x. fst (act_then m f w) = Inr x \<longrightarrow> Q x (view (wo_repo (snd (act_then m f w)))))"
  proof (cases r)
    case (Inl e)
    with m one show ?thesis by (simp add: act_then_def)
  next
    case (Inr x)
    with assms(2) [of x] one(1) one(3) [OF Inr] have
      "repository_inv (view (wo_repo (snd (f x w1))))"
      "grows (view (wo_repo w1)) (view (wo_repo (snd (f x w1))))"
      "\<forall>y. fst (f x w1) = Inr y \<longrightarrow> Q y (view (wo_repo (snd (f x w1))))"
      by (auto simp: triple_def)
    with Inr m one(2) show ?thesis by (auto simp: act_then_def intro: grows_trans)
  qed
qed

lemma triple_quiet_then:
  "quiet m \<Longrightarrow> (\<And>x. yields m x \<Longrightarrow> triple view P (f x) Q) \<Longrightarrow> triple view P (act_then m f) Q"
proof (rule triple_then [where R = "\<lambda>x v. P v \<and> yields m x"])
  assume "quiet m"
  then show "triple view P m (\<lambda>x v. P v \<and> yields m x)" by (rule triple_quiet) auto
next
  fix x
  assume "\<And>x. yields m x \<Longrightarrow> triple view P (f x) Q"
  then show "triple view (\<lambda>v. P v \<and> yields m x) (f x) Q"
    by (cases "yields m x") (auto simp: triple_def)
qed

lemma triple_catch_quiet:
  fixes m :: "('r, 'a) act"
  assumes "quiet m" "\<And>e. triple view P (h e) Q" "\<And>x v. yields m x \<Longrightarrow> P v \<Longrightarrow> Q x v"
  shows "triple view P (act_catch m h) Q"
  unfolding triple_def
proof (intro allI impI)
  fix w :: "'r world"
  assume w: "repository_inv (view (wo_repo w))" "P (view (wo_repo w))"
  obtain r w1 where m: "m w = (r, w1)" by force
  with assms(1) have same: "wo_repo w1 = wo_repo w" unfolding quiet_def by (metis snd_conv)
  show "repository_inv (view (wo_repo (snd (act_catch m h w)))) \<and>
      grows (view (wo_repo w)) (view (wo_repo (snd (act_catch m h w)))) \<and>
      (\<forall>x. fst (act_catch m h w) = Inr x \<longrightarrow> Q x (view (wo_repo (snd (act_catch m h w)))))"
  proof (cases r)
    case (Inl e)
    with assms(2) [of e, unfolded triple_def, rule_format, of w1] w m same
    show ?thesis by (simp add: act_catch_def)
  next
    case (Inr x)
    then have "yields m x" unfolding yields_def using m by (intro exI [of _ w]) simp
    with assms(3) w m same Inr show ?thesis by (simp add: act_catch_def)
  qed
qed

text \<open>What a command must agree with to consume an authorization.\<close>

definition consumption_matches ::
  "(string \<Rightarrow> string) \<Rightarrow> pending_record \<Rightarrow> consume_command \<Rightarrow> execution_authorization \<Rightarrow> bool" where
  "consumption_matches sha r c z \<longleftrightarrow>
     pd_authorization r = Some z \<and> pa_state (pd_action r) = AS_READY_FOR_EXECUTION \<and>
     pd_authorizationConsumedAt r = None \<and> ea_authorizationId z = cc_authorizationId c \<and>
     ea_toolName z = cc_toolName c \<and> pa_sessionId (pd_action r) = cc_sessionId c \<and>
     pa_userId (pd_action r) = cc_userId c \<and> pa_vehicleId (pd_action r) = cc_vehicleId c \<and>
     ea_contextSnapshotId z = cc_contextSnapshotId c \<and> ea_contextVersion z = cc_contextVersion c \<and>
     pa_actionFingerprint (pd_action r) = cc_actionFingerprint c \<and>
     createActionFingerprint sha
       ((action_fingerprint_input (pd_action r))
          \<lparr>fi_validatedArguments := cc_validatedArguments c\<rparr>) = Inr (cc_actionFingerprint c)"

lemma verify_Inr:
  assumes "verifyExecutionAuthorizationForConsumption sha r c nowMs = Inr z"
  shows "consumption_matches sha r c z \<and> nowMs < ea_expiresAt z"
  using assms
  by (auto simp: verifyExecutionAuthorizationForConsumption_def consumption_matches_def Let_def
      action_fail_def domain_result_def timestampToEpochMs_def action_fingerprint_input_def
      split: option.splits if_splits sum.splits)

text \<open>
  A confirmation that authorizes was for a confirmable record that had not expired, and the
  authorization it returns is the stored one.
\<close>

definition confirmed_outcome ::
  "'r confirmation_service \<Rightarrow> action_env \<Rightarrow> confirm_command \<Rightarrow> action_repository \<Rightarrow>
     confirmation_outcome \<Rightarrow> action_repository \<Rightarrow> bool" where
  "confirmed_outcome sv env c v0 out v \<longleftrightarrow> oc_authorization out \<noteq> None \<longrightarrow>
     rv_valid (oc_revalidation out) \<and>
     (\<exists>r n. v0 (bc_actionId c) = Some r \<and> confirmable (sv_sha sv) c r \<and>
        en_clock env n < pa_expiresAt (pd_action r)) \<and>
     (\<exists>r1. v (bc_actionId c) = Some r1 \<and> oc_authorization out = pd_authorization r1)"

text \<open>What a created action is, and what the repository then holds.\<close>

definition creation_outcome ::
  "'s confirmation_service \<Rightarrow> create_command \<Rightarrow> action_creation \<Rightarrow> action_repository \<Rightarrow> bool" where
  "creation_outcome sv c out v \<longleftrightarrow>
     create_binding_ok sv c \<and>
     (\<exists>r. v (ch_actionId (ac_trustedChallenge out)) = Some r \<and> pd_action r = ac_action out \<and>
        pa_state (pd_action r) = AS_AWAITING_CONFIRMATION \<and>
        pd_tokenHash r = Some (sv_sha sv (ch_confirmationToken (ac_trustedChallenge out))) \<and>
        pd_originalContext r = cr_contextSnapshot c \<and> pd_authorization r = None \<and>
        td_input_ok (cr_definition c) (pa_validatedArguments (pd_action r)) \<and>
        createActionFingerprint (sv_sha sv) (action_fingerprint_input (pd_action r)) =
          Inr (pa_actionFingerprint (pd_action r)))"

lemma new_record_inv:
  "record_inv actionId
    \<lparr>pd_action = new_pending_action c actionId arguments createdAt expiresAt summary fingerprint,
     pd_originalContext = x, pd_tokenHash = Some h, pd_confirmationId = None,
     pd_authorization = None, pd_authorizationConsumedAt = None\<rparr>"
  by (simp add: record_inv_def new_pending_action_def)

section \<open>Clients of the repository contract\<close>

context pending_repository
begin

lemma triple_get_then:
  assumes "\<And>found. triple view (\<lambda>v. P v \<and> found = v i) (f found) Q"
  shows "triple view P (act_then (act_repo (\<lambda>m. (rp_get ops m i, m))) f) Q"
proof (rule triple_then)
  show "triple view P (act_repo (\<lambda>m. (rp_get ops m i, m))) (\<lambda>found v. P v \<and> found = v i)"
    by (auto simp: triple_def act_repo_def dest: get_law)
qed (rule assms)

lemma triple_update_then:
  assumes law: "\<And>m. updates view m i change (g m)"
    and ok: "\<And>v old new. repository_inv v \<Longrightarrow> P v \<Longrightarrow> v i = Some old \<Longrightarrow> change old new \<Longrightarrow>
      record_inv i new \<and> evolves old new"
    and rest: "\<And>new. triple view (\<lambda>v'. \<exists>v old. repository_inv v \<and> P v \<and> v i = Some old \<and>
      change old new \<and> v' = v(i \<mapsto> new)) (f new) Q"
  shows "triple view P (act_then (act_repo g) f) Q"
proof (rule triple_then [OF _ rest])
  show "triple view P (act_repo g) (\<lambda>new v'. \<exists>v old. repository_inv v \<and> P v \<and> v i = Some old \<and>
      change old new \<and> v' = v(i \<mapsto> new))"
    unfolding triple_def
  proof (intro allI impI)
    fix w :: "'r world"
    assume w: "repository_inv (view (wo_repo w))" "P (view (wo_repo w))"
    obtain r m' where g: "g (wo_repo w) = (r, m')" by force
    show "repository_inv (view (wo_repo (snd (act_repo g w)))) \<and>
      grows (view (wo_repo w)) (view (wo_repo (snd (act_repo g w)))) \<and>
      (\<forall>new. fst (act_repo g w) = Inr new \<longrightarrow>
         (\<exists>v old. repository_inv v \<and> P v \<and> v i = Some old \<and> change old new \<and>
            view (wo_repo (snd (act_repo g w))) = v(i \<mapsto> new)))"
    proof (cases r)
      case (Inl e)
      with law [of "wo_repo w"] g w show ?thesis by (simp add: updates_def act_repo_def)
    next
      case (Inr new)
      with law [of "wo_repo w"] g obtain old where old: "view (wo_repo w) i = Some old"
          "change old new" "view m' = (view (wo_repo w))(i \<mapsto> new)"
        by (auto simp: updates_def)
      from ok [OF w old(1,2)] w old Inr g show ?thesis
        by (auto simp: act_repo_def intro: repository_inv_update grows_update)
    qed
  qed
qed

lemma triple_move_then:
  assumes "legal_action s = []" "s \<noteq> AS_READY_FOR_EXECUTION" "sv_ops sv = ops"
    and "\<And>new. triple view (\<lambda>v'. \<exists>v old. repository_inv v \<and> P v \<and> v i = Some old \<and>
      moved s old new \<and> v' = v(i \<mapsto> new)) (f new) Q"
  shows "triple view P (act_then (move_to sv i s ms) f) Q"
  unfolding move_to_def act_then_assoc assms(3)
proof (rule triple_quiet_then, simp, rule triple_update_then [OF transition_law])
  fix v :: action_repository and old new
  assume "repository_inv v" "v i = Some old" "moved s old new"
  with assms(1,2) show "record_inv i new \<and> evolves old new"
    using moved_ok unfolding repository_inv_def by blast
qed (rule assms(4))

lemma triple_require_then:
  assumes "sv_ops sv = ops" "\<And>r. triple view (\<lambda>v. P v \<and> v i = Some r) (f r) Q"
  shows "triple view P (act_then (require_record sv i) f) Q"
  unfolding require_record_def act_then_assoc assms(1)
proof (rule triple_get_then)
  fix found
  show "triple view (\<lambda>v. P v \<and> found = v i)
    (act_then (case found of None \<Rightarrow> act_lift (action_fail AE_ACTION_NOT_FOUND (Some i) None)
       | Some r \<Rightarrow> act_return r) f) Q"
  proof (cases found)
    case None
    then show ?thesis
      by (auto intro!: triple_quiet_then simp: action_fail_def)
  next
    case (Some r)
    have "triple view (\<lambda>v. P v \<and> found = v i) (f r) Q"
      by (rule triple_weaken [OF assms(2)]) (auto simp: Some)
    with Some show ?thesis by (auto intro!: triple_quiet_then)
  qed
qed

lemma triple_emit_then:
  "triple view P (f ()) Q \<Longrightarrow> triple view P (act_then (emit env ty r reason) f) Q"
  by (rule triple_quiet_then) auto

lemma terminal_triple:
  assumes "sv_ops sv = ops" "legal_action s = []" "s \<noteq> AS_READY_FOR_EXECUTION"
  shows "triple view P (terminal_operation sv env c s ty) (\<lambda>_ _. True)"
  unfolding terminal_operation_def
  by (intro triple_quiet_then triple_require_then triple_move_then triple_emit_then assms)
    (auto intro: triple_quiet)

lemma expire_triple:
  assumes "sv_ops sv = ops"
  shows "triple view P (service_expire sv env i) (\<lambda>_ _. True)"
  unfolding service_expire_def
proof (rule triple_require_then [OF assms])
  fix r
  show "triple view (\<lambda>v. P v \<and> v i = Some r)
    (if pa_state (pd_action r) = AS_EXPIRED then act_return (pd_action r)
     else act_then (requireAwaiting r) (\<lambda>_.
          act_then (act_read (en_clock env)) (\<lambda>nowMs.
          act_then (act_lift (domain_result
              (timestampToEpochMs (pa_expiresAt (pd_action r)) ''expiresAt''))) (\<lambda>expires.
            if nowMs < expires
            then act_lift (action_fail AE_INVALID_COMMAND (Some i) (Some (pa_state (pd_action r))))
            else act_then (move_to sv i AS_EXPIRED nowMs) (\<lambda>r'.
                 act_then (emit env EV_confirmation_expired r' None) (\<lambda>_.
                   act_return (pd_action r'))))))) (\<lambda>_ _. True)"
  proof (cases "pa_state (pd_action r) = AS_EXPIRED")
    case False
    have "triple view (\<lambda>v. P v \<and> v i = Some r)
        (if nowMs < expires
         then act_lift (action_fail AE_INVALID_COMMAND (Some i) (Some (pa_state (pd_action r))))
         else act_then (move_to sv i AS_EXPIRED nowMs) (\<lambda>r'.
              act_then (emit env EV_confirmation_expired r' None) (\<lambda>_.
                act_return (pd_action r')))) (\<lambda>_ _. True)" for nowMs expires
    proof (cases "nowMs < expires")
      case True
      then show ?thesis by (simp add: triple_quiet)
    next
      case False
      have "triple view (\<lambda>v. P v \<and> v i = Some r)
        (act_then (move_to sv i AS_EXPIRED nowMs) (\<lambda>r'.
              act_then (emit env EV_confirmation_expired r' None) (\<lambda>_.
                act_return (pd_action r')))) (\<lambda>_ _. True)"
        by (rule triple_move_then [OF _ _ assms]) (simp_all add: triple_emit_then triple_quiet)
      with False show ?thesis by simp
    qed
    with False show ?thesis
      by simp (intro triple_quiet_then; simp)
  qed (simp add: triple_quiet)
qed

lemma resume_triple:
  assumes "sv_ops sv = ops"
  shows "triple view P (resumeReadyForExecution sv c) (\<lambda>(a, z) v. \<exists>r. v (bc_actionId c) = Some r \<and>
    pd_action r = a \<and> pd_authorization r = Some z \<and> pa_state a = AS_READY_FOR_EXECUTION)"
  unfolding resumeReadyForExecution_def
  by (intro triple_quiet_then [of "requireBoundCommand c"] triple_require_then [OF assms]
      triple_quiet_then [of "requireIdentity _ c"] triple_quiet_then [of "requireIntegrity sv _"])
    (auto split: action_state.splits option.splits intro!: triple_quiet simp: action_fail_def)

lemma consume_triple:
  assumes "sv_ops sv = ops"
  shows "triple view P (consumeExecutionAuthorization sv env c)
    (\<lambda>z v'. \<exists>v r r'. repository_inv v \<and> P v \<and> v (cc_actionId c) = Some r \<and>
       consumption_matches (sv_sha sv) r c z \<and> v' (cc_actionId c) = Some r' \<and>
       pd_authorizationConsumedAt r' \<noteq> None)"
  unfolding consumeExecutionAuthorization_def assms
proof (rule triple_quiet_then, simp, rule triple_get_then)
  fix found :: "pending_record option"
  let ?i = "cc_actionId c"
  let ?Q = "\<lambda>z v'. \<exists>v r r'. repository_inv v \<and> P v \<and> v ?i = Some r \<and>
       consumption_matches (sv_sha sv) r c z \<and> v' ?i = Some r' \<and> pd_authorizationConsumedAt r' \<noteq> None"
  have "triple view (\<lambda>v. P v \<and> Some r = v ?i)
      (act_then (act_read (en_clock env)) (\<lambda>nowMs.
       act_then (act_lift (verifyExecutionAuthorizationForConsumption (sv_sha sv) r c nowMs)) (\<lambda>z.
       act_then (clock_timestamp nowMs) (\<lambda>consumedAt.
       act_then (act_repo (\<lambda>m. rp_consumeAuthorization ops m ?i consumedAt)) (\<lambda>_. act_return z))))) ?Q" for r
  proof (rule triple_quiet_then, simp, rule triple_quiet_then, simp)
    fix now z
    assume "yields (act_lift (verifyExecutionAuthorizationForConsumption (sv_sha sv) r c now)) z"
    then have m: "consumption_matches (sv_sha sv) r c z" using verify_Inr by simp
    then have ready: "pa_state (pd_action r) = AS_READY_FOR_EXECUTION"
      by (simp add: consumption_matches_def)
    show "triple view (\<lambda>v. P v \<and> Some r = v ?i)
       (act_then (clock_timestamp now) (\<lambda>consumedAt.
        act_then (act_repo (\<lambda>m. rp_consumeAuthorization ops m ?i consumedAt)) (\<lambda>_. act_return z))) ?Q"
    proof (rule triple_quiet_then, simp, rule triple_update_then [OF consume_law])
      fix v :: action_repository and old new
      assume "repository_inv v" "P v \<and> Some r = v ?i" "v ?i = Some old" "consumed old new"
      with ready consumed_ok [of ?i old new] show "record_inv ?i new \<and> evolves old new"
        by (auto simp: repository_inv_def)
    next
      fix new
      show "triple view (\<lambda>v'. \<exists>v old. repository_inv v \<and> (P v \<and> Some r = v ?i) \<and> v ?i = Some old \<and>
          consumed old new \<and> v' = v(?i \<mapsto> new)) (act_return z) ?Q"
        by (rule triple_quiet) (use m in \<open>auto simp: consumed_def\<close>)
    qed
  qed
  then show "triple view (\<lambda>v. P v \<and> found = v ?i)
      (case found of None \<Rightarrow> act_lift (action_fail AE_AUTHORIZATION_MISMATCH (Some ?i) None)
       | Some r \<Rightarrow> act_then (act_read (en_clock env)) (\<lambda>nowMs.
           act_then (act_lift (verifyExecutionAuthorizationForConsumption (sv_sha sv) r c nowMs)) (\<lambda>z.
           act_then (clock_timestamp nowMs) (\<lambda>consumedAt.
           act_then (act_repo (\<lambda>m. rp_consumeAuthorization ops m ?i consumedAt)) (\<lambda>_. act_return z))))) ?Q"
    by (cases found) (auto simp: action_fail_def intro: triple_fail)
qed

lemma replan_triple:
  assumes "sv_ops sv = ops"
  shows "triple view P (replan_outcome sv env i ms v) (\<lambda>out _. oc_authorization out = None)"
  unfolding replan_outcome_def
  by (rule triple_move_then [OF _ _ assms]) (auto intro!: triple_emit_then triple_quiet)

lemma boundary_triple:
  assumes "sv_ops sv = ops"
  shows "triple view P (replanAfterBoundaryFailure sv env r reason) (\<lambda>_ _. True)"
proof (cases "pa_state (pd_action r) = AS_CONFIRMED")
  case True
  then show ?thesis
    unfolding replanAfterBoundaryFailure_def
    by simp (rule triple_quiet_then, simp, rule triple_move_then [OF _ _ assms],
      simp_all add: triple_quiet quiet_catch)
qed (simp add: replanAfterBoundaryFailure_def triple_quiet)

lemma then_throw_triple: "triple view P m (\<lambda>_ _. True) \<Longrightarrow> triple view P (act_then m (\<lambda>_. act_throw e)) Q"
  by (rule triple_then) (auto intro: triple_fail)

lemma authorize_triple:
  assumes "sv_ops sv = ops" "authorization_matches r z"
  shows "triple view (\<lambda>v. v i = Some r)
    (act_then (act_repo (\<lambda>m. rp_authorize (sv_ops sv) m i z t)) (\<lambda>r'.
     act_then (emit env EV_action_ready_for_execution r' None) (\<lambda>_.
       act_return \<lparr>oc_action = pd_action r',
         oc_authorization = Some (case pd_authorization r' of None \<Rightarrow> z | Some a \<Rightarrow> a),
         oc_revalidation = rv\<rparr>)))
    (\<lambda>out v. oc_revalidation out = rv \<and>
       (\<exists>r1. v i = Some r1 \<and> oc_authorization out = pd_authorization r1))"
  unfolding assms(1)
proof (rule triple_update_then [OF authorize_law])
  fix v :: action_repository and old new
  assume "repository_inv v" "v i = Some r" "v i = Some old" "authorized z old new"
  with assms(2) authorized_ok [of i old z new] show "record_inv i new \<and> evolves old new"
    by (auto simp: repository_inv_def)
qed (rule triple_emit_then, rule triple_quiet, simp, auto simp: authorized_def)

lemma issue_triple:
  assumes ops: "sv_ops sv = ops" and cid: "pd_confirmationId r = Some cid"
  shows "triple view (\<lambda>v. v i = Some r) (issue_authorization sv env i cid r rv x ms)
    (\<lambda>out v. oc_revalidation out = rv \<and>
       (\<exists>r1. v i = Some r1 \<and> oc_authorization out = pd_authorization r1))" (is "triple view ?P _ ?Q")
  unfolding issue_authorization_def
proof (rule triple_quiet_then, simp, rule triple_then [where R = "\<lambda>_. ?P"])
  have "triple view ?P (act_then (move_to sv i AS_REPLAN_REQUIRED ms) (\<lambda>r'.
       act_then (emit env EV_action_revalidation_failed r'
         (Some ''AUTHORIZATION_GENERATION_FAILED'')) (\<lambda>_. act_throw e))) (\<lambda>_. ?P)" for e
    by (rule triple_move_then [OF _ _ ops]) (auto intro!: triple_emit_then triple_fail)
  then show "triple view ?P (act_catch (generatedId (en_authorizationId env)) (\<lambda>e.
       act_then (move_to sv i AS_REPLAN_REQUIRED ms) (\<lambda>r'.
       act_then (emit env EV_action_revalidation_failed r'
         (Some ''AUTHORIZATION_GENERATION_FAILED'')) (\<lambda>_. act_throw e)))) (\<lambda>_. ?P)"
    by (intro triple_catch_quiet) simp_all
next
  fix issuedAt authorizationId
  have "authorization_matches r (authorization_for r authorizationId cid x issuedAt e)" for e
    using cid by (simp add: authorization_matches_def authorization_for_def Let_def)
  from authorize_triple [OF ops this]
  show "triple view ?P (act_then (clock_timestamp (ms + sv_authorizationTtlMs sv)) (\<lambda>expiresAt.
       let authorization = authorization_for r authorizationId cid x issuedAt expiresAt
       in act_then (act_repo (\<lambda>m. rp_authorize (sv_ops sv) m i authorization issuedAt)) (\<lambda>r'.
          act_then (emit env EV_action_ready_for_execution r' None) (\<lambda>_.
            act_return \<lparr>oc_action = pd_action r',
               oc_authorization = Some (case pd_authorization r' of
                  None \<Rightarrow> authorization | Some a \<Rightarrow> a),
               oc_revalidation = rv\<rparr>)))) ?Q"
    unfolding Let_def by (rule triple_quiet_then [rotated]) simp_all
qed

lemma confirm_accepted_triple:
  assumes ops: "sv_ops sv = ops" and cid: "pd_confirmationId r = Some cid"
  shows "triple view (\<lambda>v. v i = Some r) (confirm_accepted sv env i cid r)
    (\<lambda>out v. oc_authorization out \<noteq> None \<longrightarrow> rv_valid (oc_revalidation out) \<and>
       (\<exists>r1. v i = Some r1 \<and> oc_authorization out = pd_authorization r1))"
  (is "triple view ?P _ ?Q")
  unfolding confirm_accepted_def
proof (rule triple_then [where R = "\<lambda>_. ?P"])
  show "triple view ?P (act_catch
       (act_then (emit env EV_confirmation_accepted r None) (\<lambda>_.
          emit env EV_action_revalidation_started r None))
       (\<lambda>e. act_then (replanAfterBoundaryFailure sv env r ''EVENT_DELIVERY_FAILED'') (\<lambda>_.
          act_throw e))) (\<lambda>_. ?P)"
    by (rule triple_catch_quiet) (simp_all add: quiet_then then_throw_triple boundary_triple ops)
next
  have replan: "triple view ?P (replan_outcome sv env i ms v) ?Q" for ms v
    by (rule triple_weaken [OF replan_triple [OF ops]]) auto
  have issue: "triple view ?P (issue_authorization sv env i cid r v x ms) ?Q" if "rv_valid v" for v x ms
    by (rule triple_weaken [OF issue_triple [OF ops cid]]) (use that in auto)
  show "triple view ?P (act_then (act_revalidate sv env r) (\<lambda>v.
     act_then (act_read (en_clock env)) (\<lambda>ms.
       case (if rv_valid v then rv_currentContext v else None) of
         Some x \<Rightarrow> issue_authorization sv env i cid r v x ms
       | None \<Rightarrow> replan_outcome sv env i ms v))) ?Q"
    by (rule triple_quiet_then, simp, rule triple_quiet_then, simp)
      (simp add: replan issue split: option.split del: not_None_eq)
qed

lemma expired_triple: "triple view P (expired_failure env i r) Q"
  unfolding expired_failure_def by (rule triple_emit_then) (simp add: triple_fail action_fail_def)

lemma accepted_triple:
  assumes ops: "sv_ops sv = ops" and conf: "confirmable (sv_sha sv) c r"
    and clock: "\<exists>n. en_clock env n < pa_expiresAt (pd_action r)"
  shows "triple view (\<lambda>v'. \<exists>v old. repository_inv v \<and> (v = v0 \<and> v (bc_actionId c) = Some r) \<and>
      v (bc_actionId c) = Some old \<and> accepted cid old new \<and> v' = v(bc_actionId c \<mapsto> new))
    (if pa_state (pd_action new) = AS_EXPIRED then expired_failure env (bc_actionId c) new
     else confirm_accepted sv env (bc_actionId c) cid new) (confirmed_outcome sv env c v0)"
  (is "triple view ?P ?m ?Q")
proof (cases "pa_state (pd_action new) = AS_EXPIRED")
  case True
  then show ?thesis by (simp add: expired_triple)
next
  case False
  show ?thesis
  proof (cases "pd_confirmationId new = Some cid \<and> v0 (bc_actionId c) = Some r")
    case True
    with conf clock have "v0 (bc_actionId c) = Some r \<and> confirmable (sv_sha sv) c r \<and>
        (\<exists>n. en_clock env n < pa_expiresAt (pd_action r))" by blast
    with False True show ?thesis
      by (simp del: not_None_eq)
        (rule triple_weaken [OF confirm_accepted_triple [OF ops]],
          auto simp: confirmed_outcome_def)
  next
    case no: False
    have "\<not> ?P v'" for v'
    proof
      assume "?P v'"
      then obtain v old where v: "repository_inv v" "v = v0" "v (bc_actionId c) = Some r"
        "v (bc_actionId c) = Some old" "accepted cid old new" by blast
      then have "record_inv (bc_actionId c) old" by (simp add: repository_inv_def)
      from accepted_ok [OF this v(5)] False no v show False by auto
    qed
    then show ?thesis unfolding triple_def by blast
  qed
qed

lemma accept_token_triple:
  assumes ops: "sv_ops sv = ops" and state: "pa_state (pd_action r) = AS_AWAITING_CONFIRMATION"
    and clock: "\<exists>n. en_clock env n < pa_expiresAt (pd_action r)"
  shows "triple view (\<lambda>v. v = v0 \<and> v (bc_actionId c) = Some r) (accept_token sv env c r nowMs)
    (confirmed_outcome sv env c v0)"
  unfolding accept_token_def
proof (rule triple_quiet_then, simp, rule triple_quiet_then, simp, rule triple_quiet_then, simp,
    rule triple_quiet_then, simp, rule triple_quiet_then, simp, unfold ops,
    rule triple_update_then [OF accept_law])
  fix v :: action_repository and old new and cid :: string
  assume "repository_inv v" "v (bc_actionId c) = Some old" "accepted cid old new"
  with accepted_ok [of "bc_actionId c" old cid new]
  show "record_inv (bc_actionId c) new \<and> evolves old new" by (simp add: repository_inv_def)
qed (rule accepted_triple [OF ops _ clock],
    auto simp: confirmable_def state requireIdentity_def requireIntegrity_def split: option.splits)

lemma confirm_awaiting_triple:
  assumes ops: "sv_ops sv = ops"
  shows "triple view (\<lambda>v. v = v0 \<and> v (bc_actionId c) = Some r) (confirm_awaiting sv env c r)
    (confirmed_outcome sv env c v0)"
  unfolding confirm_awaiting_def
proof (rule triple_quiet_then, simp, rule triple_quiet_then, simp, rule triple_quiet_then, simp)
  fix u nowMs expires
  assume "yields (requireAwaiting r) u" "yields (act_read (en_clock env)) nowMs"
    "yields (act_lift (domain_result
       (timestampToEpochMs (pa_expiresAt (pd_action r)) ''expiresAt''))) expires"
  then have state: "pa_state (pd_action r) = AS_AWAITING_CONFIRMATION"
    and clock: "\<exists>n. nowMs = en_clock env n" and exp: "expires = pa_expiresAt (pd_action r)"
    by (auto simp: requireAwaiting_def domain_result_def timestampToEpochMs_def split: sum.splits)
  show "triple view (\<lambda>v. v = v0 \<and> v (bc_actionId c) = Some r)
     (if nowMs \<ge> expires
      then act_then (move_to sv (bc_actionId c) AS_EXPIRED nowMs) (expired_failure env (bc_actionId c))
      else accept_token sv env c r nowMs) (confirmed_outcome sv env c v0)"
  proof (cases "nowMs \<ge> expires")
    case True
    have "triple view (\<lambda>v. v = v0 \<and> v (bc_actionId c) = Some r)
      (act_then (move_to sv (bc_actionId c) AS_EXPIRED nowMs) (expired_failure env (bc_actionId c)))
      (confirmed_outcome sv env c v0)"
      by (rule triple_move_then [OF _ _ ops]) (simp_all add: expired_triple)
    with True show ?thesis by simp
  next
    case False
    from clock obtain n where "nowMs = en_clock env n" by blast
    with False exp have "\<exists>n. en_clock env n < pa_expiresAt (pd_action r)"
      by (intro exI [of _ n]) simp
    with False show ?thesis by (simp add: accept_token_triple [OF ops state])
  qed
qed

lemma confirm_triple:
  assumes ops: "sv_ops sv = ops"
  shows "triple view (\<lambda>v. v = v0) (service_confirm sv env c) (confirmed_outcome sv env c v0)"
  unfolding service_confirm_def
proof (rule triple_quiet_then, simp, rule triple_quiet_then, simp, rule triple_require_then [OF ops])
  fix r
  let ?P = "\<lambda>v. v = v0 \<and> v (bc_actionId c) = Some r"
  have "triple view ?P (act_then (act_read (en_clock env)) (\<lambda>ms.
      replan_outcome sv env (bc_actionId c) ms (terminalRevalidation RVR_CONTEXT_RELOAD_FAILED)))
      (confirmed_outcome sv env c v0)"
    by (rule triple_quiet_then, simp, rule triple_weaken [OF replan_triple [OF ops]])
      (auto simp: confirmed_outcome_def)
  then show "triple view ?P
      (if pa_state (pd_action r) = AS_CONFIRMED \<and> pd_tokenHash r = None \<and> pd_confirmationId r \<noteq> None
       then act_then (act_read (en_clock env)) (\<lambda>ms.
         replan_outcome sv env (bc_actionId c) ms (terminalRevalidation RVR_CONTEXT_RELOAD_FAILED))
       else confirm_awaiting sv env c r) (confirmed_outcome sv env c v0)"
    using confirm_awaiting_triple [OF ops] by simp
qed

lemma created_ok:
  assumes "record_inv i r" "pa_state (pd_action r) = AS_AWAITING_CONFIRMATION" "created r new"
  shows "record_inv i new"
proof -
  obtain a u e h where new: "new = r\<lparr>pd_action := (pd_action r)\<lparr>pa_createdAt := a, pa_updatedAt := u,
      pa_expiresAt := e, pa_stateHistory := h\<rparr>\<rparr>"
    and h: "history_ok legal_action AS_AWAITING_CONFIRMATION h AS_AWAITING_CONFIRMATION"
    using assms by (auto simp: created_def record_inv_def Let_def)
  from assms(1,2) h show ?thesis
    unfolding new record_inv_def Let_def by (auto simp: authorization_matches_def)
qed

lemma triple_create_then:
  assumes inv: "record_inv (pa_actionId (pd_action r)) r"
    and state: "pa_state (pd_action r) = AS_AWAITING_CONFIRMATION"
    and rest: "\<And>u. triple view (\<lambda>v. \<exists>new. created r new \<and> v (pa_actionId (pd_action r)) = Some new) (f u) Q"
  shows "triple view P (act_then (act_repo (\<lambda>m. rp_create ops m r)) f) Q"
proof (rule triple_then [OF _ rest])
  let ?i = "pa_actionId (pd_action r)"
  show "triple view P (act_repo (\<lambda>m. rp_create ops m r))
    (\<lambda>_ v. \<exists>new. created r new \<and> v ?i = Some new)"
    unfolding triple_def
  proof (intro allI impI)
    fix w :: "'r world"
    assume w: "repository_inv (view (wo_repo w))"
    obtain z m' where c: "rp_create ops (wo_repo w) r = (z, m')" by force
    show "repository_inv (view (wo_repo (snd (act_repo (\<lambda>m. rp_create ops m r) w)))) \<and>
      grows (view (wo_repo w)) (view (wo_repo (snd (act_repo (\<lambda>m. rp_create ops m r) w)))) \<and>
      (\<forall>x. fst (act_repo (\<lambda>m. rp_create ops m r) w) = Inr x \<longrightarrow>
        (\<exists>new. created r new \<and> view (wo_repo (snd (act_repo (\<lambda>m. rp_create ops m r) w))) ?i = Some new))"
    proof (cases z)
      case (Inl e)
      with create_law [of "wo_repo w" r] c w show ?thesis by (simp add: act_repo_def)
    next
      case (Inr u)
      with create_law [of "wo_repo w" r] c obtain new where new: "view (wo_repo w) ?i = None"
          "created r new" "view m' = (view (wo_repo w))(?i \<mapsto> new)"
        by auto
      with created_ok [OF inv state new(2)] c w Inr show ?thesis
        by (auto simp: act_repo_def intro: repository_inv_update grows_insert)
    qed
  qed
qed

lemma announce_triple:
  assumes ops: "sv_ops sv = ops"
  shows "triple view P (announce_creation sv env i stored) (\<lambda>_. P)"
  unfolding announce_creation_def ops
proof (rule triple_catch_quiet)
  fix e
  show "triple view P (act_then (act_repo (\<lambda>m. rp_transition ops m i AS_CANCELLED
         (pa_updatedAt (pd_action stored)))) (\<lambda>cancelled.
       act_then (act_catch (emit env EV_action_cancelled cancelled (Some ''PENDING_EVENT_DELIVERY_FAILED''))
           (\<lambda>_. act_return ())) (\<lambda>_. act_throw e))) (\<lambda>_. P)"
  proof (rule triple_update_then [OF transition_law])
    fix v :: action_repository and old new
    assume "repository_inv v" "v i = Some old" "moved AS_CANCELLED old new"
    then show "record_inv i new \<and> evolves old new"
      using moved_ok [of i old AS_CANCELLED new] by (auto simp: repository_inv_def)
  qed (rule then_throw_triple, rule triple_quiet, auto intro: quiet_catch)
qed simp_all

lemma create_triple:
  assumes ops: "sv_ops sv = ops"
  shows "triple view P (service_create sv env c) (creation_outcome sv c)"
  unfolding service_create_def
proof (rule triple_quiet_then, simp, rule triple_quiet_then, simp, rule triple_quiet_then, simp,
    rule triple_quiet_then, simp, rule triple_quiet_then, simp, rule triple_quiet_then, simp,
    rule triple_quiet_then, simp, rule triple_quiet_then, simp, rule triple_quiet_then, simp,
    rule triple_quiet_then, simp, rule triple_quiet_then, simp, rule triple_quiet_then, simp)
  fix u nowMs createdAt expiresAt actionId arguments u' summary fingerprint token
  let ?a = "new_pending_action c actionId arguments createdAt expiresAt summary fingerprint"
  let ?r = "\<lparr>pd_action = new_pending_action c actionId arguments createdAt expiresAt summary fingerprint,
     pd_originalContext = cr_contextSnapshot c, pd_tokenHash = Some (sv_sha sv token),
     pd_confirmationId = None, pd_authorization = None, pd_authorizationConsumedAt = None\<rparr>"
  assume bind: "yields (act_check (create_binding_ok sv c) AE_INVALID_COMMAND None None) u"
    and schema: "yields (act_check (td_schemas_compile (cr_definition c) \<and>
       td_input_ok (cr_definition c) arguments) AE_INVALID_COMMAND None None) u'"
    and fp: "yields (act_lift (action_result (createActionFingerprint (sv_sha sv)
         \<lparr>fi_toolName = td_name (cr_definition c), fi_validatedArguments = arguments,
          fi_sessionId = cr_sessionId c, fi_userId = cr_userId c, fi_vehicleId = cr_vehicleId c,
          fi_contextSnapshotId = cx_snapshotId (cr_contextSnapshot c),
          fi_contextVersion = cx_contextVersion (cr_contextSnapshot c)\<rparr>))) fingerprint"
  have "createActionFingerprint (sv_sha sv) (action_fingerprint_input ?a) = Inr fingerprint"
    using fp by (simp add: action_fingerprint_input_def new_pending_action_def action_result_def
        action_fail_def split: sum.splits)
  with bind schema have fields: "creation_outcome sv c (creation_of c actionId token new) v"
    if "created ?r new" "v actionId = Some new" for new v
    using that by (auto simp: creation_outcome_def creation_of_def created_def Let_def
        new_pending_action_def action_fingerprint_input_def)
  have id: "pa_actionId ?a = actionId" by (simp add: new_pending_action_def)
  show "triple view P (act_then (act_repo (\<lambda>m. rp_create (sv_ops sv) m ?r)) (\<lambda>_.
     act_then (act_repo (\<lambda>m. (rp_get (sv_ops sv) m actionId, m))) (\<lambda>found.
       case found of
         None \<Rightarrow> act_lift (action_fail AE_INTERNAL_ERROR (Some actionId) None)
       | Some stored \<Rightarrow>
           act_then (announce_creation sv env actionId stored) (\<lambda>_.
             act_return (creation_of c actionId token stored))))) (creation_outcome sv c)"
  proof (rule triple_create_then [of ?r, unfolded pending_record.simps id, folded ops])
    show "record_inv actionId ?r" by (rule new_record_inv)
    show "pa_state ?a = AS_AWAITING_CONFIRMATION" by (simp add: new_pending_action_def)
    fix u :: unit
    have found: "triple view (\<lambda>v. (\<exists>new. created ?r new \<and> v actionId = Some new) \<and> Some stored = v actionId)
        (act_then (announce_creation sv env actionId stored) (\<lambda>_.
           act_return (creation_of c actionId token stored))) (creation_outcome sv c)" for stored
      by (rule triple_then, rule announce_triple [OF ops], rule triple_quiet)
        (auto intro: fields)
    show "triple view (\<lambda>v. \<exists>new. created ?r new \<and> v actionId = Some new)
      (act_then (act_repo (\<lambda>m. (rp_get (sv_ops sv) m actionId, m))) (\<lambda>found.
         case found of
           None \<Rightarrow> act_lift (action_fail AE_INTERNAL_ERROR (Some actionId) None)
         | Some stored \<Rightarrow>
             act_then (announce_creation sv env actionId stored) (\<lambda>_.
               act_return (creation_of c actionId token stored)))) (creation_outcome sv c)"
      unfolding ops
    proof (rule triple_get_then)
      fix found
      show "triple view (\<lambda>v. (\<exists>new. created ?r new \<and> v actionId = Some new) \<and> found = v actionId)
        (case found of
           None \<Rightarrow> act_lift (action_fail AE_INTERNAL_ERROR (Some actionId) None)
         | Some stored \<Rightarrow>
             act_then (announce_creation sv env actionId stored) (\<lambda>_.
               act_return (creation_of c actionId token stored))) (creation_outcome sv c)"
        using found by (cases found) (auto simp: action_fail_def intro: triple_fail)
    qed
  qed
qed

text \<open>Every call of the service keeps the invariant and only evolves the records.\<close>

lemma quiet_step:
  assumes "triple view (\<lambda>_. True) m (\<lambda>_ _. True)" "repository_inv (view (wo_repo w))"
  shows "repository_inv (view (wo_repo (snd (m w)))) \<and> grows (view (wo_repo w)) (view (wo_repo (snd (m w))))"
  using assms by (simp add: triple_def)

lemma triple_any: "(\<And>v0. triple view (\<lambda>v. v = v0) m (Q v0)) \<Longrightarrow> triple view P m (\<lambda>_ _. True)"
  unfolding triple_def by blast

lemma service_step_keeps:
  assumes ops: "sv_ops sv = ops" and inv: "repository_inv (view (wo_repo w))"
  shows "repository_inv (view (wo_repo (service_step sv env w call))) \<and>
    grows (view (wo_repo w)) (view (wo_repo (service_step sv env w call)))"
proof (cases call)
  case (Call_create c)
  show ?thesis unfolding Call_create service_step.simps
    by (rule quiet_step [OF triple_weaken [OF create_triple [OF ops]] inv]) simp_all
next
  case (Call_confirm c)
  show ?thesis unfolding Call_confirm service_step.simps
    by (rule quiet_step [OF triple_any [OF confirm_triple [OF ops]] inv])
next
  case (Call_reject c)
  show ?thesis unfolding Call_reject service_step.simps service_reject_def
    by (rule quiet_step [OF terminal_triple [OF ops] inv]) simp_all
next
  case (Call_cancel c)
  show ?thesis unfolding Call_cancel service_step.simps service_cancel_def
    by (rule quiet_step [OF terminal_triple [OF ops] inv]) simp_all
next
  case (Call_expire i)
  show ?thesis unfolding Call_expire service_step.simps
    by (rule quiet_step [OF expire_triple [OF ops] inv])
next
  case (Call_resume c)
  show ?thesis unfolding Call_resume service_step.simps
    by (rule quiet_step [OF triple_weaken [OF resume_triple [OF ops]] inv]) simp_all
next
  case (Call_consume c)
  show ?thesis unfolding Call_consume service_step.simps
    by (rule quiet_step [OF triple_weaken [OF consume_triple [OF ops]] inv]) simp_all
qed

lemma service_run_grows:
  assumes ops: "sv_ops sv = ops"
  shows "repository_inv (view (wo_repo w)) \<Longrightarrow>
    repository_inv (view (wo_repo (foldl (service_step sv env) w calls))) \<and>
    grows (view (wo_repo w)) (view (wo_repo (foldl (service_step sv env) w calls)))"
proof (induction calls arbitrary: w)
  case (Cons call calls)
  from service_step_keeps [OF ops Cons.prems] Cons.IH show ?case
    by (auto intro: grows_trans)
qed simp

text \<open>A consumed authorization refuses every further consumption.\<close>

lemma consumed_refuses:
  assumes ops: "sv_ops sv = ops" and inv: "repository_inv (view (wo_repo w))"
    and r: "view (wo_repo w) (cc_actionId c) = Some r" "pd_authorizationConsumedAt r \<noteq> None"
  shows "fst (consumeExecutionAuthorization sv env c w) \<noteq> Inr z"
proof
  assume "fst (consumeExecutionAuthorization sv env c w) = Inr z"
  with consume_triple [OF ops, where P = "\<lambda>v. v = view (wo_repo w)" and c = c and env = env,
      unfolded triple_def, rule_format, of w] inv r(1)
  have "consumption_matches (sv_sha sv) r c z" by auto
  with r(2) show False by (simp add: consumption_matches_def)
qed

end

section \<open>The service over the in-memory repository\<close>

definition in_memory ::
  "action_repository confirmation_service \<Rightarrow> action_repository confirmation_service" where
  "in_memory sv = sv\<lparr>sv_ops := memory_ops (sv_sha sv)\<rparr>"

definition empty_world :: "nat \<Rightarrow> action_repository world" where
  "empty_world tick = \<lparr>wo_repo = Map.empty, wo_tick = tick, wo_events = []\<rparr>"

lemma in_memory_ops [simp]: "sv_ops (in_memory sv) = memory_ops (sv_sha (in_memory sv))"
  by (simp add: in_memory_def)

interpretation svc: guarded_machine "\<lambda>w. wo_repo w = Map.empty" "service_step (in_memory sv) env"
  "\<lambda>w. repository_inv (wo_repo w)" for sv env
  by unfold_locales (auto simp: mem.service_step_keeps, simp add: repository_inv_def)

text \<open>
  C22. Whatever calls the confirmation service receives, every stored action has a legal
  history that ends in its state, carries an authorization exactly when it is ready for
  execution, and that authorization names the action, its fingerprint, tool, risk, policy rule
  and confirmation; the token hash is gone once the action is confirmed, and only an
  authorization of a ready action has been consumed.
\<close>

theorem stored_actions_well_formed:
  "repository_inv (wo_repo (foldl (service_step (in_memory sv) env) (empty_world tick) calls))"
  by (rule svc.run_inv_from_initial) (simp add: empty_world_def)

text \<open>
  C23. An execution authorization is consumed at most once: after a successful consumption,
  whatever calls follow, no further consumption for that action succeeds.
\<close>

theorem authorization_consumed_at_most_once:
  assumes "repository_inv (wo_repo w)"
    and "consumeExecutionAuthorization (in_memory sv) env c w = (Inr z, w')"
    and "cc_actionId c' = cc_actionId c"
  shows "fst (consumeExecutionAuthorization (in_memory sv) env c'
           (foldl (service_step (in_memory sv) env) w' calls)) \<noteq> Inr z'"
proof -
  let ?w = "foldl (service_step (in_memory sv) env) w' calls"
  from tripleD [OF mem.consume_triple [OF in_memory_ops] assms(1) TrueI assms(2)]
  obtain r t where r: "wo_repo w' (cc_actionId c) = Some r" "pd_authorizationConsumedAt r = Some t"
    and inv: "repository_inv (wo_repo w')"
    by auto
  from mem.service_run_grows [OF in_memory_ops inv] r(1)
  obtain r' where "wo_repo ?w (cc_actionId c) = Some r'" "evolves r r'" and "repository_inv (wo_repo ?w)"
    unfolding grows_def by blast
  with evolvesD(5) [OF _ r(2)] assms(3) show ?thesis
    by (intro mem.consumed_refuses [OF in_memory_ops]) auto
qed



text \<open>
  C26. No call changes what an action is bound to: its arguments, fingerprint, tool, session,
  user, vehicle and planning context stay as they were stored, a final state is never left,
  and an issued authorization is never replaced.
\<close>

theorem stored_action_only_evolves:
  assumes "repository_inv (wo_repo w)" and "wo_repo w i = Some r"
  shows "\<exists>r'. wo_repo (foldl (service_step (in_memory sv) env) w calls) i = Some r' \<and> evolves r r'"
  using mem.service_run_grows [OF in_memory_ops assms(1)] assms(2) by (simp add: grows_def)

end
