(* ===== verification/ActionExamples.thy ===== *)
theory ActionExamples
  imports ActionGuarantees
begin

text \<open>
  The guarantees of the confirmation service at a concrete action: a charging slot is
  requested, confirmed by its user, authorized and consumed. Each stage starts from a written
  out world, so that the stages can be evaluated one by one.
\<close>

section \<open>One reservation\<close>

definition some_hash :: string where
  "some_hash = replicate 64 (CHR ''a'')"

definition slot_tool :: tool_definition where
  "slot_tool = formal_tool (\<lambda>_ _. True) 10 ''reserve_charging_slot'' ''Reserve charging slot''
     ''Create a charging reservation for a station.''
     R2 [''charging''] [''vehicleSimulator''] True 3000 IDEMPOTENT AUDIT_HIGH"

definition slot_arguments :: json where
  "slot_arguments = J_obj [(''id'', J_str ''s1'')]"

definition slot_decision :: policy_decision where
  "slot_decision = \<lparr>po_ref = 0, po_decision = PD_REQUIRE_CONFIRMATION, po_ruleId = ''DG-POL-008'',
     po_reasonCode = PR_R2_CONFIRMATION_REQUIRED, po_toolName = ''reserve_charging_slot'',
     po_riskLevel = Some R2, po_contextSnapshotId = Some ''ctx:5'', po_contextVersion = Some 5,
     po_evaluatedAt = Some 2000,
     po_evidence = \<lparr>pv_freshnessStatus = Some FS_FRESH, pv_conflictStatus = CE_status CF_NO_CONFLICT,
       pv_contextChanged = False, pv_requiredCapabilityAvailable = True,
       pv_serviceAvailable = True\<rparr>\<rparr>"

definition slot_service :: "action_repository confirmation_service" where
  "slot_service = \<lparr>sv_ops = memory_ops (\<lambda>_. some_hash), sv_sha = (\<lambda>_. some_hash), sv_clone = Some,
     sv_policy = \<lparr>ps_issued = [slot_decision],
       ps_bindings = [0 \<mapsto> \<lparr>ib_definition = 10, ib_validatedArguments = slot_arguments,
         ib_executionBinding = None, ib_consumed = False\<rparr>]\<rparr>,
     sv_isTrusted = (\<lambda>_. Some True), sv_profiles = default_profile_map,
     sv_definitions = (\<lambda>name. if name = ''reserve_charging_slot'' then Some slot_tool else None),
     sv_confirmationTtlMs = 60000, sv_authorizationTtlMs = 10000\<rparr>"

definition slot_env :: action_env where
  "slot_env = \<lparr>en_clock = (\<lambda>_. 2000), en_actionId = (\<lambda>_. Some ''act-1''),
     en_confirmationId = (\<lambda>_. Some ''con-1''), en_authorizationId = (\<lambda>_. Some ''aut-1''),
     en_eventId = (\<lambda>_. Some ''ev-1''), en_token = (\<lambda>_. Some ''token-123''), en_emit = (\<lambda>_. True),
     en_current = (\<lambda>_. Some \<lparr>cu_snapshot = parked_context, cu_latestContextVersion = Arg_int 5,
       cu_availability = full_availability\<rparr>)\<rparr>"

definition slot_request :: create_command where
  "slot_request = \<lparr>cr_definition = slot_tool, cr_validatedArguments = slot_arguments,
     cr_runId = ''run-1'', cr_sessionId = ''ses-1'', cr_traceId = ''tr-1'', cr_userId = ''user-1'',
     cr_vehicleId = ''veh-1'', cr_policyDecision = slot_decision, cr_contextSnapshot = parked_context\<rparr>"

definition slot_pending :: pending_record where
  "slot_pending = \<lparr>pd_action = new_pending_action slot_request ''act-1'' slot_arguments 2000 62000
       ''Reserve charging slot: id=s1. Risk R2.'' some_hash,
     pd_originalContext = parked_context, pd_tokenHash = Some some_hash, pd_confirmationId = None,
     pd_authorization = None, pd_authorizationConsumedAt = None\<rparr>"

definition stored_world :: "pending_record \<Rightarrow> action_repository world" where
  "stored_world r = \<lparr>wo_repo = [''act-1'' \<mapsto> r], wo_tick = 0, wo_events = []\<rparr>"

lemma slot_fingerprint:
  "createActionFingerprint (\<lambda>_. some_hash) \<lparr>fi_toolName = ''reserve_charging_slot'',
     fi_validatedArguments = slot_arguments, fi_sessionId = ''ses-1'', fi_userId = ''user-1'',
     fi_vehicleId = ''veh-1'', fi_contextSnapshotId = ''ctx:5'', fi_contextVersion = 5\<rparr> = Inr some_hash"
  by (simp add: createActionFingerprint_def canonicalSerialize_def fingerprint_object_def
      slot_arguments_def canonical_object_def canonical_member_def js_nat_def nat_digits.simps)

lemma parked_fields [simp]:
  "cx_snapshotId parked_context = ''ctx:5''" "cx_contextVersion parked_context = 5"
  "us_userId (cx_user parked_context) = ''user-1''" "ve_vehicleId (cx_vehicle parked_context) = ''veh-1''"
  "cx_capturedAt parked_context = 2000" "ve_timestamp (cx_vehicle parked_context) = 1000"
  "tp_timestamp (cx_trip parked_context) = 1000"
  by (simp_all add: parked_context_def parked_vehicle_def idle_trip_def)

lemma slot_tool_fields [simp]:
  "td_ref slot_tool = 10" "td_name slot_tool = ''reserve_charging_slot''" "td_riskLevel slot_tool = R2"
  "td_label slot_tool = ''Reserve charging slot''" "td_schemas_compile slot_tool"
  "td_input_ok slot_tool v" "td_requiredCapabilities slot_tool = [''charging'']"
  "td_requiredServices slot_tool = [''vehicleSimulator'']"
  by (simp_all add: slot_tool_def formal_tool_def)

lemma slot_request_fields [simp]:
  "cr_definition slot_request = slot_tool" "cr_validatedArguments slot_request = slot_arguments"
  "cr_runId slot_request = ''run-1''" "cr_sessionId slot_request = ''ses-1''"
  "cr_traceId slot_request = ''tr-1''" "cr_userId slot_request = ''user-1''"
  "cr_vehicleId slot_request = ''veh-1''" "cr_policyDecision slot_request = slot_decision"
  "cr_contextSnapshot slot_request = parked_context"
  by (simp_all add: slot_request_def)

lemma slot_record_ok: "record_inv ''act-1'' slot_pending"
  by (simp add: slot_pending_def new_record_inv)


lemma generated_run [simp]:
  "f (wo_tick w) = Some s \<Longrightarrow> safe_id 127 s \<Longrightarrow>
     generatedId f w = (Inr s, w\<lparr>wo_tick := Suc (wo_tick w)\<rparr>)"
  "f (wo_tick w) = Some s \<Longrightarrow> 8 \<le> length s \<Longrightarrow> length s \<le> 1024 \<Longrightarrow>
     generatedToken f w = (Inr s, w\<lparr>wo_tick := Suc (wo_tick w)\<rparr>)"
  by (simp_all add: generatedId_def generatedToken_def act_then_def act_read_def act_return_def)

lemma timestamp_run [simp]: "iso_range ms \<Longrightarrow> clock_timestamp ms w = (Inr ms, w)"
  by (simp add: clock_timestamp_def act_lift_def domain_result_def toUtcTimestamp_def)

lemma act_run [simp]:
  "act_return x w = (Inr x, w)" "act_lift r w = (r, w)"
  "act_read s w = (Inr (s (wo_tick w)), w\<lparr>wo_tick := Suc (wo_tick w)\<rparr>)"
  "act_repo g w = (case g (wo_repo w) of (r, m) \<Rightarrow> (r, w\<lparr>wo_repo := m\<rparr>))"
  "act_check ok code a st w = (if ok then Inr () else action_fail code a st, w)"
  by (simp_all add: act_return_def act_lift_def act_read_def act_repo_def act_check_def split: prod.splits)

lemma then_run: "m w = (Inr x, w') \<Longrightarrow> act_then m f w = f x w'"
  by (simp add: act_then_def)

lemma slot_ids [simp]:
  "safe_id 127 ''act-1''" "safe_id 127 ''con-1''" "safe_id 127 ''aut-1''" "safe_id 127 ''ev-1''"
  "safe_id 127 ''run-1''" "safe_id 127 ''ses-1''" "safe_id 127 ''tr-1''" "safe_id 127 ''user-1''"
  "safe_id 127 ''veh-1''" "safe_id 127 ''ctx:5''"
  by (simp_all add: id_patterns)

lemma slot_env_fields [simp]:
  "en_clock slot_env = (\<lambda>_. 2000)" "en_actionId slot_env = (\<lambda>_. Some ''act-1'')"
  "en_confirmationId slot_env = (\<lambda>_. Some ''con-1'')"
  "en_authorizationId slot_env = (\<lambda>_. Some ''aut-1'')" "en_eventId slot_env = (\<lambda>_. Some ''ev-1'')"
  "en_token slot_env = (\<lambda>_. Some ''token-123'')" "en_emit slot_env = (\<lambda>_. True)"
  by (simp_all add: slot_env_def)

lemma slot_service_fields [simp]:
  "sv_ops (in_memory slot_service) = memory_ops (\<lambda>_. some_hash)"
  "sv_sha (in_memory slot_service) = (\<lambda>_. some_hash)" "sv_clone (in_memory slot_service) = Some"
  "sv_confirmationTtlMs (in_memory slot_service) = 60000"
  "sv_authorizationTtlMs (in_memory slot_service) = 10000"
  by (simp_all add: in_memory_def slot_service_def)

lemma slot_times [simp]: "iso_range 2000" "iso_range 62000" "iso_range 12000"
  by (simp_all add: iso_range_def MIN_ISO_MS_def MAX_ISO_MS_def)

definition slot_event :: "event_type \<Rightarrow> pending_record \<Rightarrow> string option \<Rightarrow> lifecycle_event" where
  "slot_event ty r reason =
     \<lparr>lv_eventId = ''ev-1'', lv_eventType = ty, lv_runId = pa_runId (pd_action r),
      lv_sessionId = pa_sessionId (pd_action r), lv_traceId = pa_traceId (pd_action r),
      lv_actionId = pa_actionId (pd_action r), lv_toolName = pa_toolName (pd_action r),
      lv_timestamp = 2000, lv_state = pa_state (pd_action r), lv_reason = reason\<rparr>"

lemma slot_emit:
  "emit slot_env ty r reason w =
     (Inr (), w\<lparr>wo_tick := wo_tick w + 3, wo_events := wo_events w @ [slot_event ty r reason]\<rparr>)"
  by (simp add: emit_def Let_def act_then_def slot_event_def numeral_3_eq_3)

lemma slot_summary:
  "createConfirmationSummary slot_tool slot_arguments = Inr ''Reserve charging slot: id=s1. Risk R2.''"
  by (simp add: createConfirmationSummary_def slot_arguments_def displayValue_def risk_text_def)

lemma slot_bound: "create_binding_ok (in_memory slot_service) slot_request" "create_ids_ok slot_request"
  by (simp_all add: create_binding_ok_def create_ids_ok_def in_memory_def slot_service_def
      slot_decision_def isPolicyDecisionIssuedFor_def isPolicyDecisionIssuedByEngine_def
      FORMAL_TOOL_NAMES_def)

lemma slot_integrity: "assertPendingActionRecordIntegrity (\<lambda>_. some_hash) slot_pending = Inr ()"
  using slot_fingerprint
  by (simp add: assertPendingActionRecordIntegrity_def assertPendingActionIntegrity_def Let_def
      action_fingerprint_input_def slot_pending_def new_pending_action_def slot_request_def
      slot_decision_def)

lemma memory_ops_fields [simp]:
  "rp_create (memory_ops sha) = mem_create sha" "rp_get (memory_ops sha) = mem_get sha"
  "rp_transition (memory_ops sha) = mem_transition sha"
  "rp_acceptConfirmation (memory_ops sha) = mem_acceptConfirmation sha"
  "rp_authorize (memory_ops sha) = mem_authorize sha"
  "rp_consumeAuthorization (memory_ops sha) = mem_consumeAuthorization sha"
  by (simp_all add: memory_ops_def)

lemma slot_stored: "mem_create (\<lambda>_. some_hash) Map.empty
    \<lparr>pd_action = new_pending_action slot_request ''act-1'' slot_arguments 2000 62000
       ''Reserve charging slot: id=s1. Risk R2.'' some_hash,
     pd_originalContext = parked_context, pd_tokenHash = Some some_hash, pd_confirmationId = None,
     pd_authorization = None, pd_authorizationConsumedAt = None\<rparr> =
   (Inr (), [''act-1'' \<mapsto> slot_pending])"
  using slot_integrity
  by (simp add: mem_create_def slot_pending_def [symmetric] cloneRecord_def)
    (simp add: slot_pending_def new_pending_action_def)

lemma slot_found: "mem_get (\<lambda>_. some_hash) [''act-1'' \<mapsto> slot_pending] ''act-1'' = Inr (Some slot_pending)"
  by (simp add: mem_get_def cloneRecord_def slot_integrity)

lemma slot_creation:
  "\<exists>out w. service_create (in_memory slot_service) slot_env slot_request (empty_world 0) = (Inr out, w)"
  by (simp add: service_create_def empty_world_def slot_bound then_run slot_summary
      action_result_def slot_fingerprint slot_stored slot_found announce_creation_def
      act_catch_def slot_emit)

section \<open>Its confirmation\<close>

definition slot_confirm :: confirm_command where
  "slot_confirm = \<lparr>bc_actionId = ''act-1'', bc_sessionId = ''ses-1'', bc_userId = ''user-1'',
     cf_confirmationToken = ''token-123''\<rparr>"

definition slot_moved :: "pending_record \<Rightarrow> action_state \<Rightarrow> pending_action" where
  "slot_moved r s = (pd_action r)\<lparr>pa_state := s, pa_updatedAt := 2000,
     pa_stateHistory := pa_stateHistory (pd_action r) @
       [\<lparr>tr_from = Some (pa_state (pd_action r)), tr_to = s, tr_at = 2000\<rparr>]\<rparr>"

definition slot_confirmed :: pending_record where
  "slot_confirmed = slot_pending\<lparr>pd_action := slot_moved slot_pending AS_CONFIRMED,
     pd_tokenHash := None, pd_confirmationId := Some ''con-1''\<rparr>"

definition slot_authorization :: execution_authorization where
  "slot_authorization = authorization_for slot_confirmed ''aut-1'' ''con-1'' parked_context 2000 12000"

definition slot_ready :: pending_record where
  "slot_ready = slot_confirmed\<lparr>pd_action := slot_moved slot_confirmed AS_READY_FOR_EXECUTION,
     pd_authorization := Some slot_authorization\<rparr>"

lemma slot_pending_fields [simp]:
  "pa_state (pd_action slot_pending) = AS_AWAITING_CONFIRMATION"
  "pa_sessionId (pd_action slot_pending) = ''ses-1''" "pa_userId (pd_action slot_pending) = ''user-1''"
  "pa_vehicleId (pd_action slot_pending) = ''veh-1''"
  "pa_expiresAt (pd_action slot_pending) = 62000" "pd_tokenHash slot_pending = Some some_hash"
  "pa_toolName (pd_action slot_pending) = ''reserve_charging_slot''"
  "pa_riskLevel (pd_action slot_pending) = R2" "pd_originalContext slot_pending = parked_context"
  "pd_authorization slot_pending = None" "pd_authorizationConsumedAt slot_pending = None"
  "pa_actionFingerprint (pd_action slot_pending) = some_hash"
  "pa_contextSnapshotId (pd_action slot_pending) = ''ctx:5''"
  "pa_contextVersion (pd_action slot_pending) = 5" "pa_actionId (pd_action slot_pending) = ''act-1''"
  by (simp_all add: slot_pending_def new_pending_action_def slot_decision_def)

lemma slot_moved_fields [simp]:
  "pa_state (slot_moved r s) = s" "pa_sessionId (slot_moved r s) = pa_sessionId (pd_action r)"
  "pa_userId (slot_moved r s) = pa_userId (pd_action r)"
  "pa_vehicleId (slot_moved r s) = pa_vehicleId (pd_action r)"
  "pa_toolName (slot_moved r s) = pa_toolName (pd_action r)"
  "pa_riskLevel (slot_moved r s) = pa_riskLevel (pd_action r)"
  "pa_actionFingerprint (slot_moved r s) = pa_actionFingerprint (pd_action r)"
  "pa_contextSnapshotId (slot_moved r s) = pa_contextSnapshotId (pd_action r)"
  "pa_contextVersion (slot_moved r s) = pa_contextVersion (pd_action r)"
  "pa_actionId (slot_moved r s) = pa_actionId (pd_action r)"
  "pa_expiresAt (slot_moved r s) = pa_expiresAt (pd_action r)"
  "pa_policyRuleId (slot_moved r s) = pa_policyRuleId (pd_action r)"
  by (simp_all add: slot_moved_def)

lemma slot_moved_integrity [simp]:
  "assertPendingActionIntegrity sha (slot_moved r s) = Inr () \<longleftrightarrow>
     assertPendingActionIntegrity sha (pd_action r) = Inr ()"
  by (simp add: assertPendingActionIntegrity_def action_fingerprint_input_def slot_moved_def
      action_fail_def split: sum.splits)

lemma slot_later_integrity:
  "assertPendingActionRecordIntegrity (\<lambda>_. some_hash) slot_confirmed = Inr ()"
  "assertPendingActionRecordIntegrity (\<lambda>_. some_hash) slot_ready = Inr ()"
  using slot_integrity
  by (simp_all add: assertPendingActionRecordIntegrity_def slot_ready_def slot_confirmed_def Let_def
      action_fail_def)

lemma slot_transitions:
  "transitionPendingAction (pd_action slot_pending) AS_CONFIRMED 2000 =
     Inr (slot_moved slot_pending AS_CONFIRMED)"
  "transitionPendingAction (pd_action slot_confirmed) AS_READY_FOR_EXECUTION 2000 =
     Inr (slot_moved slot_confirmed AS_READY_FOR_EXECUTION)"
  by (simp_all add: transition_Inr slot_moved_def slot_confirmed_def)

lemma slot_accepting:
  "mem_acceptConfirmation (\<lambda>_. some_hash) [''act-1'' \<mapsto> slot_pending] ''act-1'' ''con-1'' 2000 =
     (Inr slot_confirmed, [''act-1'' \<mapsto> slot_confirmed])"
  using slot_later_integrity
  by (simp add: mem_acceptConfirmation_def mem_require_def slot_transitions mem_store_def
      slot_confirmed_def cloneRecord_def)

lemma slot_authorizing:
  "mem_authorize (\<lambda>_. some_hash) [''act-1'' \<mapsto> slot_confirmed] ''act-1'' slot_authorization 2000 =
     (Inr slot_ready, [''act-1'' \<mapsto> slot_ready])"
  using slot_later_integrity
  by (simp add: mem_authorize_def mem_require_def slot_transitions mem_store_def
      slot_ready_def cloneRecord_def) (simp add: slot_confirmed_def)

lemma slot_profile: "default_profile_map ''reserve_charging_slot'' = Some (TOOL_POLICY_PROFILES ! 10)"
  using default_profile_get [of "TOOL_POLICY_PROFILES ! 10"]
  by (simp add: TOOL_POLICY_PROFILES_def profile_def Let_def)

lemma slot_fresh:
  "evaluate_three (\<lambda>_. 2000) n parked_context (tf_freshnessRequirement (TOOL_POLICY_PROFILES ! 10))
     (Arg_int 5) = Inr \<lparr>fz_status = FS_FRESH, fz_ageMs = 0, fz_maxAgeMs = 5000,
       fz_snapshotVersion = 5, fz_latestVersion = Some 5\<rparr>"
  by (simp add: evaluate_three_def evaluate_freshness_def TOOL_POLICY_PROFILES_def profile_def Let_def
      sensitiveFreshness_def validateRequirement_def is_safe_integer_def MAX_SAFE_INTEGER_def
      toUtcTimestamp_def latest_version_def version_ok_def timestampToEpochMs_def timestampMs_def
      selectFreshness_def worse_freshness_def iso_range_def MIN_ISO_MS_def MAX_ISO_MS_def)

lemma deepEqual_same [simp]: "deepEqual v v"
  by (cases v) (auto simp: deepEqual_def list_all_iff set_zip)

lemma slot_no_conflict:
  "\<exists>k. detect_conflict parked_context parked_context
     (Paths (map Some (tf_relevantContextPaths (TOOL_POLICY_PROFILES ! 10)))) = Inr k \<and>
     cf_status k = CF_NO_CONFLICT"
  by (simp add: detect_conflict_def TOOL_POLICY_PROFILES_def profile_def Let_def
      CONTEXT_RELEVANT_PATHS_def detectVersionChanges_def)

lemma slot_revalidated:
  "\<exists>v. rv_valid v \<and> rv_currentContext v = Some parked_context \<and>
     (\<forall>w. act_revalidate (in_memory slot_service) slot_env slot_confirmed w =
        (Inr v, w\<lparr>wo_tick := wo_tick w + 4\<rparr>))"
proof -
  obtain k where k: "detect_conflict parked_context parked_context
      (Paths (map Some (tf_relevantContextPaths (TOOL_POLICY_PROFILES ! 10)))) = Inr k"
    "cf_status k = CF_NO_CONFLICT"
    using slot_no_conflict by blast
  have latest: "fr_requiresLatest (tf_freshnessRequirement (TOOL_POLICY_PROFILES ! 10))"
    by (simp add: TOOL_POLICY_PROFILES_def profile_def Let_def sensitiveFreshness_def)
  have available: "requirements_failure slot_tool full_availability = None"
    by (simp add: requirements_failure_def full_availability_def flag_def CAPABILITY_NAMES_def
        SERVICE_NAMES_def)
  have sv: "sv_profiles (in_memory slot_service) = default_profile_map"
    "sv_definitions (in_memory slot_service) =
       (\<lambda>name. if name = ''reserve_charging_slot'' then Some slot_tool else None)"
    by (simp_all add: in_memory_def slot_service_def)
  have env: "en_current slot_env n = Some \<lparr>cu_snapshot = parked_context,
      cu_latestContextVersion = Arg_int 5, cu_availability = full_availability\<rparr>" for n
    by (simp add: slot_env_def)
  have fields: "pa_toolName (pd_action slot_confirmed) = ''reserve_charging_slot''"
    "pa_riskLevel (pd_action slot_confirmed) = R2" "pa_userId (pd_action slot_confirmed) = ''user-1''"
    "pa_vehicleId (pd_action slot_confirmed) = ''veh-1''"
    "pd_originalContext slot_confirmed = parked_context"
    by (simp_all add: slot_confirmed_def)
  show ?thesis
    by (intro exI [of _ "revalidation True RVR_UNCHANGED (Some parked_context)
          (Some \<lparr>fz_status = FS_FRESH, fz_ageMs = 0, fz_maxAgeMs = 5000, fz_snapshotVersion = 5,
             fz_latestVersion = Some 5\<rparr>) (Some k)"])
      (simp add: act_revalidate_def revalidate_def sv env fields slot_profile latest slot_fresh k
        available revalidation_def Let_def)
qed

lemma slot_confirmation:
  "\<exists>out w. service_confirm (in_memory slot_service) slot_env slot_confirm (stored_world slot_pending) =
     (Inr out, w) \<and> oc_authorization out = Some slot_authorization"
proof -
  have ids: "pd_confirmationId slot_confirmed = Some ''con-1''"
    "pa_state (pd_action slot_confirmed) = AS_CONFIRMED"
    "pd_authorization slot_ready = Some slot_authorization"
    by (simp_all add: slot_confirmed_def slot_ready_def)
  have command: "bc_actionId slot_confirm = ''act-1''" "bc_sessionId slot_confirm = ''ses-1''"
    "bc_userId slot_confirm = ''user-1''" "cf_confirmationToken slot_confirm = ''token-123''"
    by (simp_all add: slot_confirm_def)
  obtain v where v: "rv_valid v" "rv_currentContext v = Some parked_context"
    "act_revalidate (in_memory slot_service) slot_env slot_confirmed w =
       (Inr v, w\<lparr>wo_tick := wo_tick w + 4\<rparr>)" for w
    using slot_revalidated by blast
  show ?thesis
    by (simp add: service_confirm_def stored_world_def then_run command requireBoundCommand_def
        require_record_def slot_found confirm_awaiting_def requireAwaiting_def domain_result_def
        timestampToEpochMs_def timestampMs_def accept_token_def requireIdentity_def requireIntegrity_def
        slot_integrity safeHashEqual_def slot_accepting ids confirm_accepted_def act_catch_def slot_emit
        v issue_authorization_def slot_authorization_def [symmetric] slot_authorizing)
qed

section \<open>Its execution authorization\<close>

definition slot_consume :: consume_command where
  "slot_consume = \<lparr>cc_authorizationId = ''aut-1'', cc_actionId = ''act-1'',
     cc_actionFingerprint = some_hash, cc_toolName = ''reserve_charging_slot'',
     cc_sessionId = ''ses-1'', cc_userId = ''user-1'', cc_vehicleId = ''veh-1'',
     cc_contextSnapshotId = ''ctx:5'', cc_contextVersion = 5, cc_validatedArguments = slot_arguments\<rparr>"

lemma slot_consume_ok: "consume_command_ok slot_consume"
  by (simp add: consume_command_ok_def slot_consume_def is_fingerprint_def some_hash_def
      id_patterns list_all_iff FORMAL_TOOL_NAMES_def is_safe_integer_def MAX_SAFE_INTEGER_def)

lemma slot_verified:
  "verifyExecutionAuthorizationForConsumption (\<lambda>_. some_hash) slot_ready slot_consume 2000 =
     Inr slot_authorization"
  using slot_fingerprint
  by (simp add: verifyExecutionAuthorizationForConsumption_def Let_def slot_ready_def slot_confirmed_def
      slot_consume_def slot_authorization_def authorization_for_def domain_result_def
      timestampToEpochMs_def timestampMs_def)

lemma slot_consumption:
  "\<exists>w. consumeExecutionAuthorization (in_memory slot_service) slot_env slot_consume
     (stored_world slot_ready) = (Inr slot_authorization, w)"
proof -
  have found: "mem_get (\<lambda>_. some_hash) [''act-1'' \<mapsto> slot_ready] ''act-1'' = Inr (Some slot_ready)"
    by (simp add: mem_get_def cloneRecord_def slot_later_integrity)
  have unused: "pd_authorizationConsumedAt slot_ready = None"
    by (simp add: slot_ready_def slot_confirmed_def)
  have "assertPendingActionRecordIntegrity (\<lambda>_. some_hash)
      (slot_ready\<lparr>pd_authorizationConsumedAt := Some 2000\<rparr>) = Inr ()"
    using slot_later_integrity(2) by (simp add: assertPendingActionRecordIntegrity_def Let_def)
  then have consumed: "\<exists>m. mem_consumeAuthorization (\<lambda>_. some_hash) [''act-1'' \<mapsto> slot_ready] ''act-1'' 2000 =
      (Inr (slot_ready\<lparr>pd_authorizationConsumedAt := Some 2000\<rparr>), m)"
    by (simp add: mem_consumeAuthorization_def mem_require_def unused mem_store_def cloneRecord_def)
  have id: "cc_actionId slot_consume = ''act-1''" by (simp add: slot_consume_def)
  from consumed show ?thesis
    by (auto simp: consumeExecutionAuthorization_def slot_consume_ok then_run id stored_world_def
        found slot_verified)
qed

section \<open>The guarantees at these steps\<close>

lemma slot_pending_inv: "repository_inv (wo_repo (stored_world slot_pending))"
  by (simp add: repository_inv_def stored_world_def slot_record_ok)

lemma slot_ready_inv: "repository_inv (wo_repo (stored_world slot_ready))"
proof -
  have "accepted ''con-1'' slot_pending slot_confirmed"
    using acceptedI [OF slot_transitions(1)] by (simp add: slot_confirmed_def)
  then have confirmed: "record_inv ''act-1'' slot_confirmed"
    using accepted_ok [OF slot_record_ok] by blast
  have "authorized slot_authorization slot_confirmed slot_ready"
    using authorizedI [OF _ slot_transitions(2)] by (simp add: slot_ready_def slot_confirmed_def)
  moreover have "authorization_matches slot_confirmed slot_authorization"
    by (simp add: authorization_matches_def slot_authorization_def authorization_for_def Let_def)
      (simp add: slot_confirmed_def)
  ultimately have "record_inv ''act-1'' slot_ready"
    using authorized_ok [OF confirmed] by blast
  then show ?thesis by (simp add: repository_inv_def stored_world_def)
qed

theorem authorization_consumed_at_most_once_witness:
  "\<exists>w. consumeExecutionAuthorization (in_memory slot_service) slot_env slot_consume
       (stored_world slot_ready) = (Inr slot_authorization, w) \<and>
     fst (consumeExecutionAuthorization (in_memory slot_service) slot_env slot_consume
       (foldl (service_step (in_memory slot_service) slot_env) w [Call_expire ''act-1''])) \<noteq>
     Inr slot_authorization"
  using slot_consumption authorization_consumed_at_most_once [OF slot_ready_inv _ refl] by blast



theorem stored_action_only_evolves_witness:
  "\<exists>r. wo_repo (foldl (service_step (in_memory slot_service) slot_env) (stored_world slot_ready)
       [Call_consume slot_consume, Call_expire ''act-1'']) ''act-1'' = Some r \<and> evolves slot_ready r"
  by (rule stored_action_only_evolves [OF slot_ready_inv]) (simp add: stored_world_def)

end
