(* ===== verification/Async.thy ===== *)
theory Async
  imports Prelude
begin

text \<open>
  Asynchronous functions of the source: a run reads and updates a state and its promise
  settles with a value, with a thrown error, or never (\<open>Pending\<close>: the code after the
  \<open>await\<close> is not reached). The weakest precondition of a run has one equation per
  construct, so a property of a function is computed from its parts.
\<close>

section \<open>Runs\<close>

datatype ('e, 'a) settled = Returns 'a | Throws 'e | Pending

type_synonym ('s, 'e, 'a) async = "'s \<Rightarrow> ('e, 'a) settled \<times> 's"

definition as_return :: "'a \<Rightarrow> ('s, 'e, 'a) async" where
  "as_return x s = (Returns x, s)"

definition as_throw :: "'e \<Rightarrow> ('s, 'e, 'a) async" where
  "as_throw e s = (Throws e, s)"

definition as_then :: "('s, 'e, 'a) async \<Rightarrow> ('a \<Rightarrow> ('s, 'e, 'b) async) \<Rightarrow> ('s, 'e, 'b) async" where
  "as_then m f s = (case m s of
     (Returns x, s') \<Rightarrow> f x s' | (Throws e, s') \<Rightarrow> (Throws e, s') | (Pending, s') \<Rightarrow> (Pending, s'))"

text \<open>\<open>try m catch (e) h\<close>, its value the value of either.\<close>

definition as_catch :: "('s, 'e, 'a) async \<Rightarrow> ('e \<Rightarrow> ('s, 'e, 'a) async) \<Rightarrow> ('s, 'e, 'a) async" where
  "as_catch m h s = (case m s of
     (Returns x, s') \<Rightarrow> (Returns x, s') | (Throws e, s') \<Rightarrow> h e s' | (Pending, s') \<Rightarrow> (Pending, s'))"

text \<open>\<open>try m catch (e) { return h }; k\<close>: the handler leaves the enclosing function.\<close>

definition as_try :: "('s, 'e, 'a) async \<Rightarrow> ('e \<Rightarrow> ('s, 'e, 'b) async) \<Rightarrow> ('a \<Rightarrow> ('s, 'e, 'b) async)
    \<Rightarrow> ('s, 'e, 'b) async" where
  "as_try m h k s = (case m s of
     (Returns x, s') \<Rightarrow> k x s' | (Throws e, s') \<Rightarrow> h e s' | (Pending, s') \<Rightarrow> (Pending, s'))"

text \<open>\<open>try m finally f\<close> for synchronous clean-up code.\<close>

definition as_finally :: "('s, 'e, 'a) async \<Rightarrow> ('s \<Rightarrow> 's) \<Rightarrow> ('s, 'e, 'a) async" where
  "as_finally m f s = (case m s of (Pending, s') \<Rightarrow> (Pending, s') | (r, s') \<Rightarrow> (r, f s'))"

definition as_lift :: "('e, 'a) result \<Rightarrow> ('s, 'e, 'a) async" where
  "as_lift r s = (case r of Inl e \<Rightarrow> (Throws e, s) | Inr x \<Rightarrow> (Returns x, s))"

definition as_update :: "('s \<Rightarrow> 'a \<times> 's) \<Rightarrow> ('s, 'e, 'a) async" where
  "as_update f s = (case f s of (x, s') \<Rightarrow> (Returns x, s'))"

definition as_get :: "('s \<Rightarrow> 'a) \<Rightarrow> ('s, 'e, 'a) async" where
  "as_get f s = (Returns (f s), s)"

lemmas async_defs = as_return_def as_throw_def as_then_def as_catch_def as_try_def as_finally_def
  as_lift_def as_update_def as_get_def

section \<open>Weakest preconditions\<close>

definition wp :: "('s, 'e, 'a) async \<Rightarrow> ('a \<Rightarrow> 's \<Rightarrow> bool) \<Rightarrow> ('e \<Rightarrow> 's \<Rightarrow> bool) \<Rightarrow> ('s \<Rightarrow> bool)
    \<Rightarrow> 's \<Rightarrow> bool" where
  "wp m Q E N s \<longleftrightarrow> (case m s of
     (Returns x, s') \<Rightarrow> Q x s' | (Throws e, s') \<Rightarrow> E e s' | (Pending, s') \<Rightarrow> N s')"

lemma wp_return [simp]: "wp (as_return x) Q E N = Q x"
  by (rule ext) (simp add: wp_def as_return_def)

lemma wp_throw [simp]: "wp (as_throw e) Q E N = E e"
  by (rule ext) (simp add: wp_def as_throw_def)

lemma wp_then [simp]: "wp (as_then m f) Q E N = wp m (\<lambda>x. wp (f x) Q E N) E N"
  by (rule ext) (simp add: wp_def as_then_def split: prod.splits settled.splits)

lemma wp_catch [simp]: "wp (as_catch m h) Q E N = wp m Q (\<lambda>e. wp (h e) Q E N) N"
  by (rule ext) (simp add: wp_def as_catch_def split: prod.splits settled.splits)

lemma wp_try [simp]:
  "wp (as_try m h k) Q E N = wp m (\<lambda>x. wp (k x) Q E N) (\<lambda>e. wp (h e) Q E N) N"
  by (rule ext) (simp add: wp_def as_try_def split: prod.splits settled.splits)

lemma wp_finally [simp]:
  "wp (as_finally m f) Q E N = wp m (\<lambda>x s. Q x (f s)) (\<lambda>e s. E e (f s)) N"
  by (rule ext) (simp add: wp_def as_finally_def split: prod.splits settled.splits)

lemma wp_lift [simp]:
  "wp (as_lift r) Q E N = (case r of Inl e \<Rightarrow> E e | Inr x \<Rightarrow> Q x)"
  by (rule ext) (simp add: wp_def as_lift_def split: sum.splits)

lemma wp_update [simp]: "wp (as_update f) Q E N = (\<lambda>s. case f s of (x, s') \<Rightarrow> Q x s')"
  by (rule ext) (simp add: wp_def as_update_def split: prod.splits)

lemma wp_get [simp]: "wp (as_get f) Q E N = (\<lambda>s. Q (f s) s)"
  by (rule ext) (simp add: wp_def as_get_def)

lemma wp_if: "wp (if b then m else n) Q E N s = (if b then wp m Q E N s else wp n Q E N s)"
  by simp

lemma wp_mono:
  "wp m Q E N s \<Longrightarrow> (\<And>x s'. Q x s' \<Longrightarrow> Q' x s') \<Longrightarrow> (\<And>e s'. E e s' \<Longrightarrow> E' e s') \<Longrightarrow>
   (\<And>s'. N s' \<Longrightarrow> N' s') \<Longrightarrow> wp m Q' E' N' s"
  by (auto simp: wp_def split: prod.splits settled.splits)

lemma wp_conj:
  "wp m Q E N s \<Longrightarrow> wp m Q' E' N' s \<Longrightarrow>
   wp m (\<lambda>x s. Q x s \<and> Q' x s) (\<lambda>e s. E e s \<and> E' e s) (\<lambda>s. N s \<and> N' s) s"
  by (auto simp: wp_def split: prod.splits settled.splits)

text \<open>From a weakest precondition to the run, by the way it settles.\<close>

lemma wp_returns: "wp m Q E N s \<Longrightarrow> m s = (Returns x, s') \<Longrightarrow> Q x s'"
  by (simp add: wp_def)

lemma wp_throws: "wp m Q E N s \<Longrightarrow> m s = (Throws e, s') \<Longrightarrow> E e s'"
  by (simp add: wp_def)

lemma wp_any: "wp m (\<lambda>_. P) (\<lambda>_. P) P s \<longleftrightarrow> P (snd (m s))"
  by (simp add: wp_def split: prod.splits settled.splits)

end
