(* ===== verification/ExecutionRequests.thy ===== *)
theory ExecutionRequests
  imports ExecRecords PolicyEngine ActionService
begin

text \<open>
  The executor's view of a request, \<open>packages/executor/src/types.ts\<close> and the private
  methods \<open>#validate\<close>, \<open>#policyExecutionBinding\<close> and \<open>#requestBinding\<close> of
  \<open>packages/executor/src/executor.ts\<close>: which requests are executable at all, and the hash
  that identifies a request for idempotency.
\<close>

section \<open>Printing timestamps\<close>

text \<open>
  The calendar of the proleptic Gregorian year, as \<open>Date.prototype.toISOString\<close> prints it: days
  are counted from 1 March of year 0, in eras of 400 years.
\<close>

definition civil :: "int \<Rightarrow> int \<times> int \<times> int" where
  "civil day =
     (let z = day + 719468;
          era = z div 146097;
          doe = z mod 146097;
          yoe = (doe - doe div 1460 + doe div 36524 - doe div 146096) div 365;
          doy = doe - (365 * yoe + yoe div 4 - yoe div 100);
          mp = (5 * doy + 2) div 153;
          d = doy - (153 * mp + 2) div 5 + 1;
          m = (if mp < 10 then mp + 3 else mp - 9)
      in (yoe + era * 400 + (if m \<le> 2 then 1 else 0), m, d))"

definition pad :: "nat \<Rightarrow> int \<Rightarrow> string" where
  "pad n k = (let s = nat_string (nat k) in replicate (n - length s) (CHR ''0'') @ s)"

definition iso_text :: "utc_timestamp \<Rightarrow> string" where
  "iso_text ms =
     (case civil (ms div 86400000) of (y, m, d) \<Rightarrow>
        let t = ms mod 86400000 in
        pad 4 y @ ''-'' @ pad 2 m @ ''-'' @ pad 2 d @ ''T'' @
        pad 2 (t div 3600000) @ '':'' @ pad 2 (t div 60000 mod 60) @ '':'' @
        pad 2 (t div 1000 mod 60) @ ''.'' @ pad 3 (t mod 1000) @ ''Z'')"

section \<open>Policy decisions as data values\<close>

fun decision_text :: "decision_type \<Rightarrow> string" where
  "decision_text PD_ALLOW = ''ALLOW''"
| "decision_text PD_DENY = ''DENY''"
| "decision_text PD_REQUIRE_CONFIRMATION = ''REQUIRE_CONFIRMATION''"
| "decision_text PD_REPLAN = ''REPLAN''"

fun policy_reason_text :: "policy_reason \<Rightarrow> string" where
  "policy_reason_text PR_FORBIDDEN_RX = ''FORBIDDEN_RX''"
| "policy_reason_text PR_INVALID_POLICY_INPUT = ''INVALID_POLICY_INPUT''"
| "policy_reason_text PR_POLICY_EXCEPTION = ''POLICY_EXCEPTION''"
| "policy_reason_text PR_CAPABILITY_UNAVAILABLE = ''CAPABILITY_UNAVAILABLE''"
| "policy_reason_text PR_SERVICE_UNAVAILABLE = ''SERVICE_UNAVAILABLE''"
| "policy_reason_text PR_CONTEXT_INVALID = ''CONTEXT_INVALID''"
| "policy_reason_text PR_CONTEXT_FUTURE_TIMESTAMP = ''CONTEXT_FUTURE_TIMESTAMP''"
| "policy_reason_text PR_CONTEXT_STALE = ''CONTEXT_STALE''"
| "policy_reason_text PR_CONTEXT_NOT_LATEST = ''CONTEXT_NOT_LATEST''"
| "policy_reason_text PR_CONTEXT_RELEVANT_STATE_CHANGED = ''CONTEXT_RELEVANT_STATE_CHANGED''"
| "policy_reason_text PR_CONTEXT_PATH_UNKNOWN = ''CONTEXT_PATH_UNKNOWN''"
| "policy_reason_text PR_R3_CONFIRMATION_REQUIRED = ''R3_CONFIRMATION_REQUIRED''"
| "policy_reason_text PR_R2_CONFIRMATION_REQUIRED = ''R2_CONFIRMATION_REQUIRED''"
| "policy_reason_text PR_R1_ALLOWED = ''R1_ALLOWED''"
| "policy_reason_text PR_R0_ALLOWED = ''R0_ALLOWED''"
| "policy_reason_text PR_DEFAULT_DENY = ''DEFAULT_DENY''"

definition freshness_text :: "freshness_status option \<Rightarrow> string" where
  "freshness_text s =
     (case s of
        None \<Rightarrow> ''UNKNOWN''
      | Some FS_FRESH \<Rightarrow> ''FRESH''
      | Some FS_STALE \<Rightarrow> ''STALE''
      | Some FS_INVALID_FUTURE_TIMESTAMP \<Rightarrow> ''INVALID_FUTURE_TIMESTAMP''
      | Some FS_NOT_LATEST \<Rightarrow> ''NOT_LATEST'')"

definition conflict_text :: "conflict_evidence \<Rightarrow> string" where
  "conflict_text c =
     (case c of
        CE_NOT_EVALUATED \<Rightarrow> ''NOT_EVALUATED''
      | CE_UNKNOWN \<Rightarrow> ''UNKNOWN''
      | CE_status CF_NO_CONFLICT \<Rightarrow> ''NO_CONFLICT''
      | CE_status CF_VERSION_CHANGED_BUT_IRRELEVANT \<Rightarrow> ''VERSION_CHANGED_BUT_IRRELEVANT''
      | CE_status CF_RELEVANT_STATE_CHANGED \<Rightarrow> ''RELEVANT_STATE_CHANGED''
      | CE_status CF_UNKNOWN_RELEVANT_PATH \<Rightarrow> ''UNKNOWN_RELEVANT_PATH'')"

definition or_null :: "('a \<Rightarrow> json) \<Rightarrow> 'a option \<Rightarrow> json" where
  "or_null f x = (case x of None \<Rightarrow> J_null | Some y \<Rightarrow> f y)"

definition evidence_json :: "policy_evidence \<Rightarrow> json" where
  "evidence_json e = J_obj
     [(''freshnessStatus'', J_str (freshness_text (pv_freshnessStatus e))),
      (''conflictStatus'', J_str (conflict_text (pv_conflictStatus e))),
      (''contextChanged'', J_bool (pv_contextChanged e)),
      (''requiredCapabilityAvailable'', J_bool (pv_requiredCapabilityAvailable e)),
      (''serviceAvailable'', J_bool (pv_serviceAvailable e))]"

definition policy_decision_json :: "policy_decision \<Rightarrow> json" where
  "policy_decision_json p = J_obj
     [(''decision'', J_str (decision_text (po_decision p))),
      (''ruleId'', J_str (po_ruleId p)),
      (''reasonCode'', J_str (policy_reason_text (po_reasonCode p))),
      (''toolName'', J_str (po_toolName p)),
      (''riskLevel'', J_str (case po_riskLevel p of None \<Rightarrow> ''UNKNOWN'' | Some r \<Rightarrow> risk_text r)),
      (''contextSnapshotId'', or_null J_str (po_contextSnapshotId p)),
      (''contextVersion'', or_null js_nat (po_contextVersion p)),
      (''evaluatedAt'', or_null (\<lambda>t. J_str (iso_text t)) (po_evaluatedAt p)),
      (''evidence'', evidence_json (po_evidence p))]"

section \<open>Requests\<close>

record execution_request =
  xq_executionId :: string
  xq_toolName :: string
  xq_validatedArguments :: json
  xq_actionFingerprint :: string
  xq_runId :: string
  xq_sessionId :: string
  xq_userId :: string
  xq_vehicleId :: string
  xq_traceId :: string
  xq_riskLevel :: risk_level
  xq_policyDecision :: policy_decision
  xq_actionId :: "string option"
  xq_authorizationId :: "string option"
  xq_contextSnapshotId :: "string option"
  xq_contextVersion :: "int option"
  xq_idempotencyKey :: string
  xq_createdAt :: utc_timestamp

definition safeIdentity :: "string option \<Rightarrow> string \<Rightarrow> string" where
  "safeIdentity value fallback =
     (case value of None \<Rightarrow> fallback | Some s \<Rightarrow> if safe_id 255 s then s else fallback)"

definition low_risk :: "risk_level \<Rightarrow> bool" where
  "low_risk r \<longleftrightarrow> r = R0 \<or> r = R1"

text \<open>\<open>#policyExecutionBinding\<close>; \<open>None\<close> where it throws.\<close>

definition policyExecutionBinding :: "execution_request \<Rightarrow> execution_binding option" where
  "policyExecutionBinding q =
     (case (xq_contextSnapshotId q, xq_contextVersion q) of
        (Some snapshotId, Some version) \<Rightarrow>
          if \<not> safe_id 255 snapshotId \<or> \<not> is_safe_integer version \<or> version < 1 then None
          else Some
            \<lparr>eb_runId = xq_runId q, eb_sessionId = xq_sessionId q, eb_traceId = xq_traceId q,
             eb_actionFingerprint = xq_actionFingerprint q, eb_contextSnapshotId = snapshotId,
             eb_contextVersion = version\<rparr>
      | _ \<Rightarrow> None)"

definition request_fingerprint ::
  "(string \<Rightarrow> string) \<Rightarrow> execution_request \<Rightarrow> string \<Rightarrow> int \<Rightarrow> (action_error_code, string) result" where
  "request_fingerprint sha q snapshotId version = createActionFingerprint sha
     \<lparr>fi_toolName = xq_toolName q, fi_validatedArguments = xq_validatedArguments q,
      fi_sessionId = xq_sessionId q, fi_userId = xq_userId q, fi_vehicleId = xq_vehicleId q,
      fi_contextSnapshotId = snapshotId, fi_contextVersion = version\<rparr>"

text \<open>
  The checks of a low-risk request: its subject matches the fingerprint (an error of the
  serialization is no \<open>ExecutorFault\<close>) and its decision was issued for this execution.
\<close>

definition issued_for_request ::
  "policy_store \<Rightarrow> execution_request \<Rightarrow> tool_definition \<Rightarrow> bool" where
  "issued_for_request issued q d \<longleftrightarrow>
     isPolicyDecisionIssuedFor issued (xq_policyDecision q) (td_ref d) (xq_validatedArguments q) \<and>
     (case policyExecutionBinding q of
        None \<Rightarrow> False
      | Some b \<Rightarrow> isPolicyDecisionIssuedForExecution issued (xq_policyDecision q) (td_ref d)
                    (xq_validatedArguments q) b)"

definition validate_low_risk ::
  "(string \<Rightarrow> string) \<Rightarrow> policy_store \<Rightarrow> execution_request \<Rightarrow> tool_definition \<Rightarrow>
     (exec_error_code, unit) result" where
  "validate_low_risk sha issued q d =
     (case (xq_contextSnapshotId q, xq_contextVersion q) of
        (Some snapshotId, Some version) \<Rightarrow>
          (case request_fingerprint sha q snapshotId version of
             Inl _ \<Rightarrow> Inl EE_EXECUTION_VALIDATION_ERROR
           | Inr fingerprint \<Rightarrow>
               if fingerprint \<noteq> xq_actionFingerprint q then Inl EE_EXECUTION_NOT_AUTHORIZED
               else if \<not> issued_for_request issued q d then Inl EE_EXECUTION_NOT_AUTHORIZED
               else Inr ())
      | _ \<Rightarrow> Inl EE_EXECUTION_NOT_AUTHORIZED)"

text \<open>
  \<open>#validate\<close>: the code of the fault it throws, or the definition. \<open>clone\<close> is
  \<open>structuredClone\<close>, \<open>None\<close> where it throws. A request that is no object is \<open>None\<close>.
\<close>

definition validate_request ::
  "(string \<Rightarrow> string) \<Rightarrow> (json \<Rightarrow> json option) \<Rightarrow> tool_registry \<Rightarrow> policy_store \<Rightarrow>
     execution_request option \<Rightarrow> (exec_error_code, execution_request \<times> tool_definition) result" where
  "validate_request sha clone registry issued request =
     (case request of None \<Rightarrow> Inl EE_EXECUTION_VALIDATION_ERROR | Some q \<Rightarrow>
      if \<not> list_all (safe_id 255) [xq_executionId q, xq_toolName q, xq_runId q, xq_sessionId q,
            xq_userId q, xq_vehicleId q, xq_traceId q, xq_idempotencyKey q]
      then Inl EE_EXECUTION_VALIDATION_ERROR
      else if \<not> is_fingerprint (xq_actionFingerprint q) then Inl EE_EXECUTION_VALIDATION_ERROR
      else if \<not> is_ok (timestampToEpochMs (xq_createdAt q) ''execution.createdAt'')
      then Inl EE_EXECUTION_VALIDATION_ERROR
      else if xq_toolName q \<notin> set FORMAL_TOOL_NAMES \<or> xq_toolName q \<in> set FORBIDDEN_TOOL_NAMES
      then Inl EE_EXECUTION_VALIDATION_ERROR
      else (case registry_get registry (xq_toolName q) of
        None \<Rightarrow> Inl EE_EXECUTION_VALIDATION_ERROR
      | Some d \<Rightarrow>
          if td_name d \<noteq> xq_toolName q \<or> td_riskLevel d \<noteq> xq_riskLevel q
          then Inl EE_EXECUTION_VALIDATION_ERROR
          else if \<not> td_input_ok d (xq_validatedArguments q) \<or> clone (xq_validatedArguments q) = None
          then Inl EE_EXECUTION_VALIDATION_ERROR
          else if po_toolName (xq_policyDecision q) \<noteq> xq_toolName q \<or>
                  po_riskLevel (xq_policyDecision q) \<noteq> Some (xq_riskLevel q)
          then Inl EE_EXECUTION_NOT_AUTHORIZED
          else if low_risk (xq_riskLevel q)
          then and_then (validate_low_risk sha issued q d) (\<lambda>_. Inr (q, d))
          else Inr (q, d)))"

text \<open>\<open>#requestBinding\<close>; every error of the serialization becomes a validation error.\<close>

definition request_json :: "execution_request \<Rightarrow> json" where
  "request_json q = J_obj
     [(''toolName'', J_str (xq_toolName q)),
      (''validatedArguments'', xq_validatedArguments q),
      (''actionFingerprint'', J_str (xq_actionFingerprint q)),
      (''runId'', J_str (xq_runId q)),
      (''sessionId'', J_str (xq_sessionId q)),
      (''userId'', J_str (xq_userId q)),
      (''vehicleId'', J_str (xq_vehicleId q)),
      (''traceId'', J_str (xq_traceId q)),
      (''riskLevel'', J_str (risk_text (xq_riskLevel q))),
      (''policyDecision'', policy_decision_json (xq_policyDecision q)),
      (''actionId'', or_null J_str (xq_actionId q)),
      (''authorizationId'', or_null J_str (xq_authorizationId q)),
      (''contextSnapshotId'', or_null J_str (xq_contextSnapshotId q)),
      (''contextVersion'', or_null js_nat (xq_contextVersion q))]"

definition requestBinding ::
  "(string \<Rightarrow> string) \<Rightarrow> execution_request \<Rightarrow> (exec_error_code, string) result" where
  "requestBinding sha q =
     (case canonicalSerialize (request_json q) of
        Inl _ \<Rightarrow> Inl EE_EXECUTION_VALIDATION_ERROR
      | Inr text \<Rightarrow> Inr (sha text))"

definition validated ::
  "(string \<Rightarrow> string) \<Rightarrow> (json \<Rightarrow> json option) \<Rightarrow> tool_registry \<Rightarrow> policy_store \<Rightarrow>
     execution_request option \<Rightarrow>
     (exec_error_code, execution_request \<times> tool_definition \<times> string) result" where
  "validated sha clone registry issued request =
     and_then (validate_request sha clone registry issued request) (\<lambda>(q, d).
     and_then (requestBinding sha q) (\<lambda>binding. Inr (q, d, binding)))"

lemma validated_Inr:
  assumes "validated sha clone registry issued request = Inr (q, d, binding)"
  shows "request = Some q" "registry_get registry (xq_toolName q) = Some d"
    "td_name d = xq_toolName q" "td_riskLevel d = xq_riskLevel q"
    "xq_toolName q \<notin> set FORBIDDEN_TOOL_NAMES" "td_input_ok d (xq_validatedArguments q)"
    "requestBinding sha q = Inr binding"
    "low_risk (xq_riskLevel q) \<Longrightarrow> policyExecutionBinding q \<noteq> None"
  using assms
  by (auto simp: validated_def validate_request_def validate_low_risk_def issued_for_request_def
      split: option.splits if_splits sum.splits)

end
