(* ===== verification/Executor.thy ===== *)
theory Executor
  imports Async ExecutionRequests CircuitBreaker ExecConcurrency
begin

text \<open>
  The reliable tool executor, \<open>packages/executor/src/executor.ts\<close>, with \<open>timeout.ts\<close>,
  \<open>events.ts\<close> and the interface of \<open>durable.ts\<close>. A run of \<open>execute\<close> works on the state it
  shares with every other call of the process and appends what it does to the outside world
  to its own log. Everything it awaits is an answer of the environment at the running
  position, and at every await the rest of the program may change the shared state
  (\<open>xv_others\<close>), so the theorems hold for every interleaving of concurrent calls.
\<close>

section \<open>State, environment and configuration\<close>

datatype execution_event_type =
  XE_started
| XE_attempt_started
| XE_attempt_failed
| XE_retry_scheduled
| XE_deduplicated
| XE_circuit_opened
| XE_circuit_half_open
| XE_circuit_closed
| XE_authorization_consumed
| XE_succeeded
| XE_failed
| XE_outcome_unknown
| XE_reconciliation_started
| XE_reconciliation_completed

text \<open>The \<open>errorCode\<close> of an event is an error code, or the status of a reconciliation.\<close>

datatype event_code = Code_error exec_error_code | Code_reconciliation reconciliation_status

record execution_event =
  xe_eventType :: execution_event_type
  xe_executionId :: string
  xe_runId :: string
  xe_sessionId :: string
  xe_traceId :: string
  xe_actionId :: "string option"
  xe_toolName :: string
  xe_attempt :: int
  xe_timestamp :: utc_timestamp
  xe_errorCode :: "event_code option"
  xe_delayMs :: "int option"

record 'z shared =
  sh_policy :: policy_store
  sh_breaker :: circuit_breaker
  sh_admission :: concurrency
  sh_idempotency :: idempotency_manager
  sh_records :: record_store
  sh_consumer :: 'z

datatype external_step =
  Policy_consumed policy_decision
| Authorization_consumed consume_command
| Tool_called string json int string "(thrown, json) result"
| Reconciled "reconciliation_status option"
| Delivered execution_event
| Slept int

record 'z run =
  rn_shared :: "'z shared"
  rn_tick :: nat
  rn_log :: "external_step list"

type_synonym ('z, 'a) exec = "('z run, thrown, 'a) async"

text \<open>
  What a tool does within its time: settle, or still run when the timer fires. The other
  answers: readings of the clock, whether the event sink and the sleeper succeed, and the
  reconciler's answer (\<open>None\<close> when it throws).
\<close>

datatype tool_answer = Answered "(thrown, json) result" | Timer_fired

record 'z exec_env =
  xv_clock :: "nat \<Rightarrow> int"
  xv_emit :: "nat \<Rightarrow> bool"
  xv_sleep :: "nat \<Rightarrow> bool"
  xv_tool :: "nat \<Rightarrow> tool_answer"
  xv_reconcile :: "nat \<Rightarrow> (reconciliation_status \<times> json option) option"
  xv_others :: "nat \<Rightarrow> 'z shared \<Rightarrow> 'z shared"

type_synonym 'z coordinator =
  "execution_request \<Rightarrow> string \<Rightarrow> ('z, execution_result \<times> execution_record) exec
     \<Rightarrow> ('z, execution_result) exec"

record 'z executor =
  xc_registry :: tool_registry
  xc_retry :: retry_policy
  xc_has_reconciler :: bool
  xc_sha :: "string \<Rightarrow> string"
  xc_clone :: "json \<Rightarrow> json option"
  xc_consumer :: "nat \<Rightarrow> consume_command \<Rightarrow> 'z \<Rightarrow> (thrown, unit) result \<times> 'z"
  xc_coordinator :: "'z coordinator option"

section \<open>Primitive steps\<close>

definition tick :: "'z run \<Rightarrow> 'z run" where
  "tick s = s\<lparr>rn_tick := Suc (rn_tick s)\<rparr>"

text \<open>At an await, the rest of the program runs.\<close>

definition interleave :: "'z exec_env \<Rightarrow> 'z run \<Rightarrow> 'z run" where
  "interleave env s = s\<lparr>rn_shared := xv_others env (rn_tick s) (rn_shared s),
                       rn_tick := Suc (rn_tick s)\<rparr>"

definition log_step :: "external_step \<Rightarrow> 'z run \<Rightarrow> 'z run" where
  "log_step e s = s\<lparr>rn_log := rn_log s @ [e]\<rparr>"

definition fault :: "exec_error_code \<Rightarrow> thrown" where
  "fault code = Executor_fault code None"

text \<open>\<open>toUtcTimestamp(clock.nowMs())\<close>; a \<open>DomainValidationError\<close> has no failure type.\<close>

definition now_utc :: "'z exec_env \<Rightarrow> ('z, utc_timestamp) exec" where
  "now_utc env s =
     (case toUtcTimestamp (Epoch_int (xv_clock env (rn_tick s))) of
        Inl _ \<Rightarrow> (Throws (Foreign_object No_failure_type), tick s)
      | Inr ts \<Rightarrow> (Returns ts, tick s))"

text \<open>\<open>#emit\<close>: build the event, hand it to the sink, await it.\<close>

definition build_event ::
  "execution_request \<Rightarrow> execution_event_type \<Rightarrow> int \<Rightarrow> event_code option \<Rightarrow> int option \<Rightarrow>
     utc_timestamp \<Rightarrow> execution_event" where
  "build_event q eventType attempt errorCode delayMs ts =
     \<lparr>xe_eventType = eventType, xe_executionId = xq_executionId q, xe_runId = xq_runId q,
      xe_sessionId = xq_sessionId q, xe_traceId = xq_traceId q, xe_actionId = xq_actionId q,
      xe_toolName = xq_toolName q, xe_attempt = attempt, xe_timestamp = ts,
      xe_errorCode = errorCode, xe_delayMs = delayMs\<rparr>"

definition deliver :: "'z exec_env \<Rightarrow> execution_event \<Rightarrow> ('z, unit) exec" where
  "deliver env ev s =
     (if xv_emit env (rn_tick s) then (Returns (), interleave env (log_step (Delivered ev) s))
      else (Throws (fault EE_INTERNAL_EXECUTION_ERROR), interleave env s))"

definition emit_event ::
  "'z exec_env \<Rightarrow> execution_request \<Rightarrow> execution_event_type \<Rightarrow> int \<Rightarrow> event_code option \<Rightarrow>
     int option \<Rightarrow> ('z, unit) exec" where
  "emit_event env q eventType attempt errorCode delayMs =
     as_then (now_utc env) (\<lambda>ts.
       deliver env (build_event q eventType attempt errorCode delayMs ts))"

definition sleep :: "'z exec_env \<Rightarrow> int \<Rightarrow> ('z, unit) exec" where
  "sleep env delayMs s =
     (if xv_sleep env (rn_tick s) then (Returns (), interleave env (log_step (Slept delayMs) s))
      else (Throws (Foreign_object No_failure_type), interleave env (log_step (Slept delayMs) s)))"

text \<open>
  \<open>AbortTimeoutController.run\<close>: the race of the operation with the timer, which rejects with
  a timeout fault.
\<close>

definition timeout_run :: "tool_answer \<Rightarrow> (thrown, json) result" where
  "timeout_run a = (case a of
     Answered r \<Rightarrow> r | Timer_fired \<Rightarrow> Inl (Executor_fault EE_DEPENDENCY_TIMEOUT (Some FT_TIMEOUT)))"

definition call_tool ::
  "'z exec_env \<Rightarrow> execution_request \<Rightarrow> tool_definition \<Rightarrow> int \<Rightarrow> ('z, json) exec" where
  "call_tool env q d attempt s =
     (let outcome = timeout_run (xv_tool env (rn_tick s));
          s' = interleave env (log_step (Tool_called (td_name d) (xq_validatedArguments q) attempt
                 (xq_idempotencyKey q) outcome) s)
      in case outcome of Inl e \<Rightarrow> (Throws e, s') | Inr v \<Rightarrow> (Returns v, s'))"

definition reconcile ::
  "'z exec_env \<Rightarrow> ('z, reconciliation_status \<times> json option) exec" where
  "reconcile env s =
     (case xv_reconcile env (rn_tick s) of
        None \<Rightarrow> (Throws (Foreign_object No_failure_type), interleave env (log_step (Reconciled None) s))
      | Some r \<Rightarrow> (Returns r, interleave env (log_step (Reconciled (Some (fst r))) s)))"

definition on_shared :: "('z shared \<Rightarrow> 'a \<times> 'z shared) \<Rightarrow> ('z, 'a) exec" where
  "on_shared f = as_update (\<lambda>s. case f (rn_shared s) of (x, sh) \<Rightarrow> (x, s\<lparr>rn_shared := sh\<rparr>))"

text \<open>The circuit breaker reads its clock itself.\<close>

definition breaker_acquire :: "'z exec_env \<Rightarrow> string \<Rightarrow> ('z, circuit_permit) exec" where
  "breaker_acquire env key = as_update (\<lambda>s.
     case cb_acquire (sh_breaker (rn_shared s)) (xv_clock env (rn_tick s)) key of (p, cb) \<Rightarrow>
       (p, tick (s\<lparr>rn_shared := (rn_shared s)\<lparr>sh_breaker := cb\<rparr>\<rparr>)))"

definition breaker_failed :: "'z exec_env \<Rightarrow> string \<Rightarrow> ('z, circuit_change) exec" where
  "breaker_failed env key = as_update (\<lambda>s.
     case cb_failed (sh_breaker (rn_shared s)) (xv_clock env (rn_tick s)) key of (c, cb) \<Rightarrow>
       (c, tick (s\<lparr>rn_shared := (rn_shared s)\<lparr>sh_breaker := cb\<rparr>\<rparr>)))"

definition breaker_succeeded :: "string \<Rightarrow> ('z, circuit_change) exec" where
  "breaker_succeeded key = on_shared (\<lambda>sh.
     case cb_succeeded (sh_breaker sh) key of (c, cb) \<Rightarrow> (c, sh\<lparr>sh_breaker := cb\<rparr>))"

text \<open>The record store; its faults carry the code.\<close>

definition on_records ::
  "(record_store \<Rightarrow> (exec_error_code, record_store \<times> execution_record) result) \<Rightarrow>
     ('z, execution_record) exec" where
  "on_records f s =
     (case f (sh_records (rn_shared s)) of
        Inl code \<Rightarrow> (Throws (fault code), s)
      | Inr (rs, r) \<Rightarrow> (Returns r, s\<lparr>rn_shared := (rn_shared s)\<lparr>sh_records := rs\<rparr>\<rparr>))"

definition get_record :: "string \<Rightarrow> ('z, execution_record option) exec" where
  "get_record executionId = as_get (\<lambda>s. sh_records (rn_shared s) executionId)"

definition transition_record ::
  "string \<Rightarrow> execution_state \<Rightarrow> utc_timestamp \<Rightarrow> ('z, execution_record) exec" where
  "transition_record executionId state ts =
     on_records (\<lambda>rs. records_transition rs executionId state ts)"

definition create_record :: "execution_request \<Rightarrow> utc_timestamp \<Rightarrow> ('z, execution_record) exec" where
  "create_record q ts = on_records (\<lambda>rs. records_create rs (xq_executionId q) (xq_toolName q)
     (xq_actionFingerprint q) (xq_idempotencyKey q) ts)"

definition add_attempt :: "string \<Rightarrow> execution_attempt \<Rightarrow> ('z, execution_record) exec" where
  "add_attempt executionId attempt = on_records (\<lambda>rs. records_addAttempt rs executionId attempt)"

section \<open>Results\<close>

definition rejectionResult ::
  "execution_request \<Rightarrow> exec_error_code \<Rightarrow> utc_timestamp \<Rightarrow> utc_timestamp \<Rightarrow> bool \<Rightarrow> execution_result" where
  "rejectionResult q code startedAt completedAt retryable =
     \<lparr>xr_executionId = xq_executionId q, xr_toolName = xq_toolName q, xr_status = X_REJECTED,
      xr_attemptCount = 0, xr_deduplicated = False, xr_startedAt = startedAt,
      xr_completedAt = completedAt, xr_result = None,
      xr_error = Some (safeExecutionError code retryable), xr_recovery = None\<rparr>"

definition validationFailure :: "execution_request \<Rightarrow> utc_timestamp \<Rightarrow> execution_result" where
  "validationFailure q ts = rejectionResult q EE_EXECUTION_VALIDATION_ERROR ts ts False"

definition invalid_result :: "execution_request option \<Rightarrow> exec_error_code \<Rightarrow> utc_timestamp \<Rightarrow> execution_result" where
  "invalid_result request code ts =
     \<lparr>xr_executionId = safeIdentity (map_option xq_executionId request) ''invalid-execution'',
      xr_toolName = safeIdentity (map_option xq_toolName request) ''unknown-tool'',
      xr_status = X_REJECTED, xr_attemptCount = 0, xr_deduplicated = False, xr_startedAt = ts,
      xr_completedAt = ts, xr_result = None, xr_error = Some (safeExecutionError code False),
      xr_recovery = None\<rparr>"

definition created_at :: "execution_record option \<Rightarrow> utc_timestamp \<Rightarrow> utc_timestamp" where
  "created_at r ts = (case r of None \<Rightarrow> ts | Some x \<Rightarrow> er_createdAt x)"

definition reject :: "'z exec_env \<Rightarrow> execution_request \<Rightarrow> exec_error_code \<Rightarrow> bool \<Rightarrow> ('z, execution_result) exec" where
  "reject env q code retryable =
     as_then (now_utc env) (\<lambda>ts.
     as_then (get_record (xq_executionId q)) (\<lambda>r.
     as_then (if map_option er_state r = Some X_CREATED
              then as_then (transition_record (xq_executionId q) X_REJECTED ts) (\<lambda>_. as_return ())
              else as_return ()) (\<lambda>_.
       as_return (rejectionResult q code (created_at r ts) ts retryable))))"

definition finish ::
  "'z exec_env \<Rightarrow> execution_request \<Rightarrow> execution_state \<Rightarrow> int \<Rightarrow> safe_error option \<Rightarrow>
     json option \<Rightarrow> recovery_receipt option \<Rightarrow> ('z, execution_result) exec" where
  "finish env q status attemptCount error value recovery =
     as_then (now_utc env) (\<lambda>ts.
     as_then (get_record (xq_executionId q)) (\<lambda>r.
     as_then (if map_option er_state r = Some X_RUNNING
              then as_then (transition_record (xq_executionId q) status ts) (\<lambda>_. as_return ())
              else as_return ()) (\<lambda>_.
       as_return \<lparr>xr_executionId = xq_executionId q, xr_toolName = xq_toolName q,
         xr_status = status, xr_attemptCount = attemptCount, xr_deduplicated = False,
         xr_startedAt = created_at r ts, xr_completedAt = ts, xr_result = value,
         xr_error = error, xr_recovery = recovery\<rparr>)))"

definition finish_error ::
  "'z exec_env \<Rightarrow> execution_request \<Rightarrow> execution_state \<Rightarrow> int \<Rightarrow> exec_error_code \<Rightarrow> ('z, execution_result) exec" where
  "finish_error env q status attemptCount code =
     finish env q status attemptCount (Some (safeExecutionError code False)) None None"

definition finishAfterSuccessfulEffectEventFailure ::
  "'z exec_env \<Rightarrow> execution_request \<Rightarrow> tool_definition \<Rightarrow> int \<Rightarrow> ('z, execution_result) exec" where
  "finishAfterSuccessfulEffectEventFailure env q d attempt =
     (if td_sideEffect d then finish_error env q X_OUTCOME_UNKNOWN attempt EE_OUTCOME_UNKNOWN
      else finish_error env q X_FAILED attempt EE_INTERNAL_EXECUTION_ERROR)"

definition finishAfterFailedAttemptEventFailure ::
  "'z exec_env \<Rightarrow> execution_request \<Rightarrow> classification \<Rightarrow> int \<Rightarrow> ('z, execution_result) exec" where
  "finishAfterFailedAttemptEventFailure env q c attempt =
     (if c = AMBIGUOUS_SIDE_EFFECT
      then finish_error env q X_OUTCOME_UNKNOWN attempt EE_OUTCOME_UNKNOWN
      else finish_error env q X_FAILED attempt EE_INTERNAL_EXECUTION_ERROR)"

section \<open>One attempt\<close>

type_synonym attempt_end = "execution_result + recovery_receipt option"

text \<open>
  An attempt ends the execution with a result (\<open>Inl\<close>), or lets the loop go on (\<open>Inr\<close>) with
  the receipt of the recovery so far.
\<close>

definition ends :: "('z, execution_result) exec \<Rightarrow> ('z, attempt_end) exec" where
  "ends m = as_then m (\<lambda>r. as_return (Inl r))"

definition circuit_key :: "tool_definition \<Rightarrow> string" where
  "circuit_key d =
     (let key = join_with ''+'' (sort (td_requiredServices d))
      in if key = [] then td_name d else key)"

definition retry_safe :: "tool_definition \<Rightarrow> bool" where
  "retry_safe d \<longleftrightarrow> \<not> td_sideEffect d \<or> td_idempotencyHint d = READ_ONLY \<or>
     td_idempotencyHint d = IDEMPOTENT"

definition classify :: "tool_definition \<Rightarrow> thrown \<Rightarrow> classified_failure" where
  "classify d error = classifyToolFailure error (td_sideEffect d) (retry_safe d)"

definition recovered :: "recovery_receipt option \<Rightarrow> int \<Rightarrow> recovery_receipt option" where
  "recovered receipt attempt = map_option (\<lambda>r. r\<lparr>rr_status := RV_RECOVERED,
     rr_attemptCount := attempt, rr_retryCount := max 0 (attempt - 1)\<rparr>) receipt"

text \<open>The \<open>try\<close> block: the tool returned.\<close>

definition attempt_success ::
  "'z executor \<Rightarrow> 'z exec_env \<Rightarrow> execution_request \<Rightarrow> tool_definition \<Rightarrow> utc_timestamp \<Rightarrow>
     recovery_receipt option \<Rightarrow> int \<Rightarrow> ('z, attempt_end) exec" where
  "attempt_success cfg env q d startedAt receipt attempt =
     as_then (call_tool env q d attempt) (\<lambda>value.
     as_then (now_utc env) (\<lambda>completedAt.
     as_then (add_attempt (xq_executionId q) \<lparr>ea_attempt = attempt, ea_startedAt = startedAt,
        ea_completedAt = completedAt, ea_outcome = AO_SUCCEEDED, ea_errorCode = None\<rparr>) (\<lambda>_.
     as_then (breaker_succeeded (circuit_key d)) (\<lambda>circuit.
     as_try (if cc_previous circuit \<noteq> CB_CLOSED
             then emit_event env q XE_circuit_closed attempt None None else as_return ())
       (\<lambda>_. ends (finishAfterSuccessfulEffectEventFailure env q d attempt)) (\<lambda>_.
     as_try (emit_event env q XE_succeeded attempt None None)
       (\<lambda>_. ends (finishAfterSuccessfulEffectEventFailure env q d attempt)) (\<lambda>_.
     case xc_clone cfg value of
       None \<Rightarrow> as_throw (Foreign_object No_failure_type)
     | Some copy \<Rightarrow> ends (finish env q X_SUCCEEDED attempt None (Some copy)
                              (recovered receipt attempt))))))))"

text \<open>Reconciliation of an ambiguous write.\<close>

definition reconciliation ::
  "'z executor \<Rightarrow> 'z exec_env \<Rightarrow> execution_request \<Rightarrow> int \<Rightarrow>
     ('z, reconciliation_status \<times> json option) exec" where
  "reconciliation cfg env q attempt =
     (if \<not> xc_has_reconciler cfg then as_return (RS_UNKNOWN, None)
      else as_catch
        (as_then (emit_event env q XE_reconciliation_started attempt None None) (\<lambda>_.
         as_then (reconcile env) (\<lambda>answer.
         as_then (emit_event env q XE_reconciliation_completed attempt
                    (Some (Code_reconciliation (fst answer))) None) (\<lambda>_.
           as_return answer))))
        (\<lambda>_. as_return (RS_UNKNOWN, None)))"

definition ambiguous_decision ::
  "'z executor \<Rightarrow> tool_definition \<Rightarrow> classified_failure \<Rightarrow> int \<Rightarrow> reconciliation_status \<Rightarrow> recovery_decision" where
  "ambiguous_decision cfg d c attempt status = decide
     \<lparr>ri_operationType = OP_WRITE, ri_failureType = cf_failureType c,
      ri_idempotencyHint = td_idempotencyHint d, ri_attempt = attempt,
      ri_maxAttempts = rp_maxAttempts (xc_retry cfg), ri_reconciliationStatus = Some status\<rparr>"

definition ambiguous_receipt ::
  "classified_failure \<Rightarrow> recovery_decision \<Rightarrow> int \<Rightarrow> reconciliation_status \<Rightarrow> recovery_receipt" where
  "ambiguous_receipt c dec attempt status =
     \<lparr>rr_operationType = OP_WRITE, rr_failureType = cf_failureType c, rr_action = rd_action dec,
      rr_status = (if status = RS_EXECUTED then RV_RECOVERED
                   else if status = RS_UNKNOWN then RV_UNKNOWN else RV_SAFE_DEGRADATION),
      rr_attemptCount = attempt, rr_retryCount = max 0 (attempt - 1),
      rr_idempotencyKeyReused = attempt > 1, rr_reconciliationStatus = Some status\<rparr>"

definition plain_receipt ::
  "tool_definition \<Rightarrow> classified_failure \<Rightarrow> recovery_action \<Rightarrow> recovery_status \<Rightarrow> int \<Rightarrow> recovery_receipt" where
  "plain_receipt d c action status attempt =
     \<lparr>rr_operationType = (if td_sideEffect d then OP_WRITE else OP_READ),
      rr_failureType = cf_failureType c, rr_action = action, rr_status = status,
      rr_attemptCount = attempt, rr_retryCount = max 0 (attempt - 1),
      rr_idempotencyKeyReused = attempt > 1, rr_reconciliationStatus = None\<rparr>"

definition schedule_retry ::
  "'z executor \<Rightarrow> 'z exec_env \<Rightarrow> execution_request \<Rightarrow> int \<Rightarrow> exec_error_code \<Rightarrow> ('z, unit) exec" where
  "schedule_retry cfg env q attempt code =
     (let delayMs = delayForRetry (xc_retry cfg) attempt in
      as_then (emit_event env q XE_retry_scheduled attempt (Some (Code_error code)) (Some delayMs)) (\<lambda>_.
        sleep env delayMs))"

definition ambiguous_failure ::
  "'z executor \<Rightarrow> 'z exec_env \<Rightarrow> execution_request \<Rightarrow> tool_definition \<Rightarrow> classified_failure \<Rightarrow>
     int \<Rightarrow> ('z, attempt_end) exec" where
  "ambiguous_failure cfg env q d c attempt =
     as_then (as_catch (emit_event env q XE_outcome_unknown attempt (Some (Code_error (cf_code c))) None)
                (\<lambda>_. as_return ())) (\<lambda>_.
     as_then (reconciliation cfg env q attempt) (\<lambda>(status, value).
       let dec = ambiguous_decision cfg d c attempt status;
           receipt = ambiguous_receipt c dec attempt status
       in if status = RS_EXECUTED
          then as_try (emit_event env q XE_succeeded attempt None None)
                 (\<lambda>_. ends (finishAfterSuccessfulEffectEventFailure env q d attempt))
                 (\<lambda>_. ends (finish env q X_SUCCEEDED attempt None value (Some receipt)))
          else if rd_action dec = RA_RETRY
          then as_try (schedule_retry cfg env q attempt (cf_code c))
                 (\<lambda>_. ends (finish env q X_FAILED attempt
                         (Some (safeExecutionError EE_INTERNAL_EXECUTION_ERROR False)) None (Some receipt)))
                 (\<lambda>_. as_return (Inr (Some receipt)))
          else ends (finish env q X_OUTCOME_UNKNOWN attempt
                  (Some (safeExecutionError EE_OUTCOME_UNKNOWN False)) None (Some receipt))))"

definition definite_failure ::
  "'z executor \<Rightarrow> 'z exec_env \<Rightarrow> execution_request \<Rightarrow> tool_definition \<Rightarrow> classified_failure \<Rightarrow>
     int \<Rightarrow> ('z, attempt_end) exec" where
  "definite_failure cfg env q d c attempt =
     (if \<not> shouldRetry (xc_retry cfg) (cf_classification c) attempt
      then let exhausted = (cf_classification c = RETRYABLE);
               code = (if exhausted then EE_RETRY_EXHAUSTED else cf_code c)
           in as_then (as_catch (emit_event env q XE_failed attempt (Some (Code_error code)) None)
                         (\<lambda>_. as_return ())) (\<lambda>_.
                ends (finish env q (if exhausted then X_RETRY_EXHAUSTED else X_FAILED) attempt
                  (Some (safeExecutionError code False)) None
                  (Some (plain_receipt d c RA_SAFE_DEGRADATION RV_SAFE_DEGRADATION attempt))))
      else as_try (schedule_retry cfg env q attempt (cf_code c))
             (\<lambda>_. ends (finish_error env q X_FAILED attempt EE_INTERNAL_EXECUTION_ERROR))
             (\<lambda>_. as_return (Inr (Some (plain_receipt d c RA_RETRY RV_UNKNOWN attempt)))))"

text \<open>The \<open>catch\<close> block: the circuit breaker learns of the failure, which is then classified.\<close>

definition circuit_after_failure ::
  "'z exec_env \<Rightarrow> tool_definition \<Rightarrow> classified_failure \<Rightarrow> bool \<Rightarrow> ('z, bool \<times> bool) exec" where
  "circuit_after_failure env d c half_open =
     (if cf_classification c \<noteq> NON_RETRYABLE
      then as_then (breaker_failed env (circuit_key d)) (\<lambda>circuit.
             as_return (cc_previous circuit \<noteq> CB_OPEN \<and> cc_current circuit = CB_OPEN, False))
      else if half_open
      then as_then (breaker_succeeded (circuit_key d)) (\<lambda>circuit.
             as_return (False, cc_previous circuit \<noteq> CB_CLOSED))
      else as_return (False, False))"

definition attempt_failure ::
  "'z executor \<Rightarrow> 'z exec_env \<Rightarrow> execution_request \<Rightarrow> tool_definition \<Rightarrow> bool \<Rightarrow> utc_timestamp \<Rightarrow>
     int \<Rightarrow> thrown \<Rightarrow> ('z, attempt_end) exec" where
  "attempt_failure cfg env q d half_open startedAt attempt error =
     (let c = classify d error in
      as_then (now_utc env) (\<lambda>completedAt.
      as_then (add_attempt (xq_executionId q) \<lparr>ea_attempt = attempt, ea_startedAt = startedAt,
         ea_completedAt = completedAt,
         ea_outcome = (if cf_code c = EE_DEPENDENCY_TIMEOUT then AO_TIMED_OUT else AO_FAILED),
         ea_errorCode = Some (cf_code c)\<rparr>) (\<lambda>_.
      as_then (circuit_after_failure env d c half_open) (\<lambda>(opened, closed).
      as_try (emit_event env q XE_attempt_failed attempt (Some (Code_error (cf_code c))) None)
        (\<lambda>_. ends (finishAfterFailedAttemptEventFailure env q (cf_classification c) attempt)) (\<lambda>_.
      as_try (if opened then emit_event env q XE_circuit_opened attempt None None else as_return ())
        (\<lambda>_. ends (finishAfterFailedAttemptEventFailure env q (cf_classification c) attempt)) (\<lambda>_.
      as_try (if closed then emit_event env q XE_circuit_closed attempt None None else as_return ())
        (\<lambda>_. ends (finish_error env q X_FAILED attempt (cf_code c))) (\<lambda>_.
      if cf_classification c = AMBIGUOUS_SIDE_EFFECT then ambiguous_failure cfg env q d c attempt
      else definite_failure cfg env q d c attempt)))))))"

definition attempt_body ::
  "'z executor \<Rightarrow> 'z exec_env \<Rightarrow> execution_request \<Rightarrow> tool_definition \<Rightarrow> recovery_receipt option \<Rightarrow>
     int \<Rightarrow> ('z, attempt_end) exec" where
  "attempt_body cfg env q d receipt attempt =
     as_then (breaker_acquire env (circuit_key d)) (\<lambda>permit.
     case permit of
       Permit_denied \<Rightarrow> ends (finish_error env q X_FAILED (attempt - 1) EE_CIRCUIT_OPEN)
     | Permit_allowed state \<Rightarrow>
         let half_open = (state = CB_HALF_OPEN);
             give_up = ends (finish_error env q X_FAILED (attempt - 1) EE_INTERNAL_EXECUTION_ERROR);
             probe_failed = as_then (breaker_failed env (circuit_key d)) (\<lambda>_. give_up)
         in as_try (if half_open then emit_event env q XE_circuit_half_open attempt None None
                    else as_return ()) (\<lambda>_. probe_failed) (\<lambda>_.
            as_then (now_utc env) (\<lambda>startedAt.
            as_try (emit_event env q XE_attempt_started attempt None None)
              (\<lambda>_. if half_open then probe_failed else give_up) (\<lambda>_.
            as_catch (attempt_success cfg env q d startedAt receipt attempt)
              (attempt_failure cfg env q d half_open startedAt attempt)))))"

section \<open>The attempt loop\<close>

function run_attempts ::
  "'z executor \<Rightarrow> 'z exec_env \<Rightarrow> execution_request \<Rightarrow> tool_definition \<Rightarrow> recovery_receipt option \<Rightarrow>
     int \<Rightarrow> ('z, execution_result) exec" where
  "run_attempts cfg env q d receipt attempt =
     (if attempt \<le> rp_maxAttempts (xc_retry cfg)
      then as_then (attempt_body cfg env q d receipt attempt) (\<lambda>outcome.
             case outcome of
               Inl result \<Rightarrow> as_return result
             | Inr receipt' \<Rightarrow> run_attempts cfg env q d receipt' (attempt + 1))
      else finish_error env q X_RETRY_EXHAUSTED (rp_maxAttempts (xc_retry cfg)) EE_RETRY_EXHAUSTED)"
  by pat_completeness auto
termination
  by (relation "measure (\<lambda>(cfg, _, _, _, _, attempt). nat (rp_maxAttempts (xc_retry cfg) + 1 - attempt))")
    auto

declare run_attempts.simps [simp del]

section \<open>The owner of an execution\<close>

definition authorization_command ::
  "execution_request \<Rightarrow> tool_definition \<Rightarrow> consume_command option" where
  "authorization_command q d =
     (case (xq_actionId q, xq_authorizationId q, xq_contextSnapshotId q, xq_contextVersion q) of
        (Some actionId, Some authorizationId, Some snapshotId, Some version) \<Rightarrow> Some
          \<lparr>cc_authorizationId = authorizationId, cc_actionId = actionId,
           cc_actionFingerprint = xq_actionFingerprint q, cc_toolName = td_name d,
           cc_sessionId = xq_sessionId q, cc_userId = xq_userId q, cc_vehicleId = xq_vehicleId q,
           cc_contextSnapshotId = snapshotId, cc_contextVersion = version,
           cc_validatedArguments = xq_validatedArguments q\<rparr>
      | _ \<Rightarrow> None)"

text \<open>Consumption of the policy decision of a low-risk request.\<close>

definition consume_policy :: "execution_request \<Rightarrow> tool_definition \<Rightarrow> ('z, bool) exec" where
  "consume_policy q d =
     (case policyExecutionBinding q of
        None \<Rightarrow> as_throw (fault EE_EXECUTION_NOT_AUTHORIZED)
      | Some b \<Rightarrow> as_update (\<lambda>s.
          case consumePolicyDecisionForExecution (sh_policy (rn_shared s)) (xq_policyDecision q)
                 (td_ref d) (xq_validatedArguments q) b of (ok, st) \<Rightarrow>
            let s' = s\<lparr>rn_shared := (rn_shared s)\<lparr>sh_policy := st\<rparr>\<rparr>
            in (ok, if ok then log_step (Policy_consumed (xq_policyDecision q)) s' else s')))"

definition consume_authorization ::
  "'z executor \<Rightarrow> 'z exec_env \<Rightarrow> consume_command \<Rightarrow> ('z, unit) exec" where
  "consume_authorization cfg env c s =
     (case xc_consumer cfg (rn_tick s) c (sh_consumer (rn_shared s)) of (r, z) \<Rightarrow>
        let s' = s\<lparr>rn_shared := (rn_shared s)\<lparr>sh_consumer := z\<rparr>\<rparr>
        in case r of
             Inl e \<Rightarrow> (Throws e, interleave env s')
           | Inr u \<Rightarrow> (Returns u, interleave env (log_step (Authorization_consumed c) s')))"

definition run_authorized ::
  "'z executor \<Rightarrow> 'z exec_env \<Rightarrow> execution_request \<Rightarrow> tool_definition \<Rightarrow> ('z, execution_result) exec" where
  "run_authorized cfg env q d =
     as_then (now_utc env) (\<lambda>ts.
     as_then (transition_record (xq_executionId q) X_RUNNING ts) (\<lambda>_.
     as_try (emit_event env q XE_started 0 None None)
       (\<lambda>_. finish_error env q X_FAILED 0 EE_INTERNAL_EXECUTION_ERROR)
       (\<lambda>_. run_attempts cfg env q d None 1)))"

definition executeOwner ::
  "'z executor \<Rightarrow> 'z exec_env \<Rightarrow> execution_request \<Rightarrow> tool_definition \<Rightarrow> ('z, execution_result) exec" where
  "executeOwner cfg env q d =
     (let unauthorized = reject env q EE_EXECUTION_NOT_AUTHORIZED False in
      if low_risk (xq_riskLevel q)
      then if po_decision (xq_policyDecision q) \<noteq> PD_ALLOW then unauthorized
           else as_then (consume_policy q d) (\<lambda>ok.
                  if ok then run_authorized cfg env q d else unauthorized)
      else if po_decision (xq_policyDecision q) \<noteq> PD_REQUIRE_CONFIRMATION then unauthorized
      else case authorization_command q d of
             None \<Rightarrow> unauthorized
           | Some c \<Rightarrow>
               as_try (consume_authorization cfg env c)
                 (\<lambda>e. reject env q (authorizationErrorCode e) False) (\<lambda>_.
               as_try (emit_event env q XE_authorization_consumed 0 None None)
                 (\<lambda>_. reject env q EE_INTERNAL_EXECUTION_ERROR False)
                 (\<lambda>_. run_authorized cfg env q d)))"

section \<open>Single flight, admission and the public operation\<close>

definition acquire_key :: "execution_request \<Rightarrow> string \<Rightarrow> ('z, acquisition) exec" where
  "acquire_key q binding = on_shared (\<lambda>sh.
     case idem_acquire (sh_idempotency sh) (xq_idempotencyKey q) (xq_actionFingerprint q) binding of
       (a, im) \<Rightarrow> (a, sh\<lparr>sh_idempotency := im\<rparr>))"

definition complete_key :: "nat \<Rightarrow> execution_result \<Rightarrow> ('z, unit) exec" where
  "complete_key p result = on_shared (\<lambda>sh.
     ((), sh\<lparr>sh_idempotency := idem_complete (sh_idempotency sh) p result\<rparr>))"

text \<open>Awaiting the owner's promise; \<open>Pending\<close> when the owner never completes it.\<close>

definition await_promise :: "'z exec_env \<Rightarrow> nat \<Rightarrow> ('z, execution_result) exec" where
  "await_promise env p s =
     (let s' = interleave env s in
      case promise_result (sh_idempotency (rn_shared s')) p of
        None \<Rightarrow> (Pending, s') | Some r \<Rightarrow> (Returns r, s'))"

definition acquire_permit :: "'z exec_env \<Rightarrow> bool \<Rightarrow> string \<Rightarrow> ('z, execution_admission) exec" where
  "acquire_permit env sideEffect vehicleId s =
     (let c = sh_admission (rn_shared s);
          s' = interleave env (s\<lparr>rn_shared := (rn_shared s)\<lparr>sh_admission :=
                 concurrency_acquire c sideEffect vehicleId\<rparr>\<rparr>)
      in case map_of (ec_answers (sh_admission (rn_shared s'))) (ec_tickets c) of
           None \<Rightarrow> (Pending, s') | Some a \<Rightarrow> (Returns a, s'))"

definition release_permit :: "nat \<Rightarrow> 'z run \<Rightarrow> 'z run" where
  "release_permit p s = s\<lparr>rn_shared := (rn_shared s)\<lparr>sh_admission :=
     concurrency_release (sh_admission (rn_shared s)) p\<rparr>\<rparr>"

definition copy_result :: "'z executor \<Rightarrow> execution_result \<Rightarrow> ('z, execution_result) exec" where
  "copy_result cfg r =
     (case xr_result r of
        None \<Rightarrow> as_return (r\<lparr>xr_deduplicated := True\<rparr>)
      | Some v \<Rightarrow> (case xc_clone cfg v of
            None \<Rightarrow> as_throw (Foreign_object No_failure_type)
          | Some copy \<Rightarrow> as_return (r\<lparr>xr_deduplicated := True, xr_result := Some copy\<rparr>)))"

text \<open>The state a duplicate's own record ends in, and \<open>#transitionDuplicate\<close>.\<close>

definition duplicate_status :: "execution_state \<Rightarrow> execution_state" where
  "duplicate_status status =
     (if status = X_CREATED \<or> status = X_RUNNING then X_FAILED else status)"

definition transitionDuplicate ::
  "string \<Rightarrow> execution_state \<Rightarrow> utc_timestamp \<Rightarrow> ('z, unit) exec" where
  "transitionDuplicate executionId status ts =
     as_then (get_record executionId) (\<lambda>r.
     if map_option er_state r \<noteq> Some X_CREATED then as_return ()
     else if status = X_REJECTED
     then as_then (transition_record executionId X_REJECTED ts) (\<lambda>_. as_return ())
     else as_then (transition_record executionId X_RUNNING ts) (\<lambda>_.
          as_then (transition_record executionId (duplicate_status status) ts) (\<lambda>_. as_return ())))"

text \<open>The result of a duplicate under an execution id of its own.\<close>

definition duplicate_result ::
  "execution_request \<Rightarrow> execution_state \<Rightarrow> utc_timestamp \<Rightarrow> utc_timestamp \<Rightarrow> json option \<Rightarrow>
     safe_error option \<Rightarrow> execution_result" where
  "duplicate_result q status startedAt completedAt value error =
     \<lparr>xr_executionId = xq_executionId q, xr_toolName = xq_toolName q, xr_status = status,
      xr_attemptCount = 0, xr_deduplicated = True, xr_startedAt = startedAt,
      xr_completedAt = completedAt, xr_result = value, xr_error = error, xr_recovery = None\<rparr>"

definition answer_duplicate ::
  "'z executor \<Rightarrow> 'z exec_env \<Rightarrow> execution_request \<Rightarrow> utc_timestamp \<Rightarrow> nat \<Rightarrow> ('z, execution_result) exec" where
  "answer_duplicate cfg env q fallbackAt p =
     as_then (get_record (xq_executionId q)) (\<lambda>existing.
     as_then (case existing of None \<Rightarrow> create_record q fallbackAt | Some r \<Rightarrow> as_return r) (\<lambda>r.
     as_then (await_promise env p) (\<lambda>original.
     as_then (now_utc env) (\<lambda>completedAt.
     as_try (emit_event env q XE_deduplicated 0 None None)
       (\<lambda>_. if existing = None
            then as_then (transitionDuplicate (xq_executionId q) X_FAILED completedAt) (\<lambda>_.
                   as_return (duplicate_result q X_FAILED (er_createdAt r) completedAt None
                     (Some (safeExecutionError EE_INTERNAL_EXECUTION_ERROR False))))
            else copy_result cfg original)
       (\<lambda>_. if existing = None
            then as_then (transitionDuplicate (xq_executionId q) (xr_status original) completedAt) (\<lambda>_.
                 as_then (copy_result cfg original) (\<lambda>copy.
                   as_return (duplicate_result q (duplicate_status (xr_status original))
                     (er_createdAt r) completedAt (xr_result copy) (xr_error original))))
            else copy_result cfg original)))))"

definition answer_conflict ::
  "'z exec_env \<Rightarrow> execution_request \<Rightarrow> utc_timestamp \<Rightarrow> ('z, execution_result) exec" where
  "answer_conflict env q fallbackAt =
     as_then (get_record (xq_executionId q)) (\<lambda>existing.
     case existing of
       None \<Rightarrow> as_then (create_record q fallbackAt) (\<lambda>_. reject env q EE_IDEMPOTENCY_CONFLICT False)
     | Some r \<Rightarrow> as_return (rejectionResult q EE_IDEMPOTENCY_CONFLICT (er_createdAt r) fallbackAt False))"

text \<open>The owner: its record, its permit, its run; the permit is released in every case.\<close>

definition run_admitted ::
  "'z executor \<Rightarrow> 'z exec_env \<Rightarrow> execution_request \<Rightarrow> tool_definition \<Rightarrow> nat \<Rightarrow> ('z, execution_result) exec" where
  "run_admitted cfg env q d p =
     as_finally (as_catch (executeOwner cfg env q d)
       (\<lambda>_. finish_error env q X_FAILED 0 EE_INTERNAL_EXECUTION_ERROR)) (release_permit p)"

definition own_execution ::
  "'z executor \<Rightarrow> 'z exec_env \<Rightarrow> execution_request \<Rightarrow> tool_definition \<Rightarrow> utc_timestamp \<Rightarrow> nat \<Rightarrow>
     ('z, execution_result) exec" where
  "own_execution cfg env q d fallbackAt p =
     as_try (create_record q fallbackAt)
       (\<lambda>_. as_then (complete_key p (validationFailure q fallbackAt)) (\<lambda>_.
              as_return (validationFailure q fallbackAt)))
       (\<lambda>_. as_then (acquire_permit env (td_sideEffect d) (xq_vehicleId q)) (\<lambda>admission.
            as_then (case admission of
                       EA_refused _ \<Rightarrow> reject env q EE_EXECUTOR_BUSY True
                     | EA_admitted permit \<Rightarrow> run_admitted cfg env q d permit) (\<lambda>result.
            as_then (complete_key p result) (\<lambda>_. as_return result))))"

definition single_flight ::
  "'z executor \<Rightarrow> 'z exec_env \<Rightarrow> execution_request \<Rightarrow> tool_definition \<Rightarrow> string \<Rightarrow> utc_timestamp \<Rightarrow>
     ('z, execution_result) exec" where
  "single_flight cfg env q d binding fallbackAt =
     as_then (acquire_key q binding) (\<lambda>acquired.
     case acquired of
       Acq_conflict \<Rightarrow> answer_conflict env q fallbackAt
     | Acq_duplicate p \<Rightarrow> answer_duplicate cfg env q fallbackAt p
     | Acq_owner p \<Rightarrow> own_execution cfg env q d fallbackAt p)"

text \<open>
  \<open>execute\<close> up to the durable coordinator: \<open>continue\<close> is what follows a valid request.
\<close>

definition with_validated ::
  "'z executor \<Rightarrow> 'z exec_env \<Rightarrow> execution_request option \<Rightarrow>
     (execution_request \<Rightarrow> tool_definition \<Rightarrow> string \<Rightarrow> utc_timestamp \<Rightarrow> ('z, execution_result) exec) \<Rightarrow>
     ('z, execution_result) exec" where
  "with_validated cfg env request continue =
     as_then (now_utc env) (\<lambda>fallbackAt.
     as_then (as_get (\<lambda>s. validated (xc_sha cfg) (xc_clone cfg) (xc_registry cfg)
                            (sh_policy (rn_shared s)) request)) (\<lambda>v.
     case v of
       Inl code \<Rightarrow> as_return (invalid_result request code fallbackAt)
     | Inr (q, d, binding) \<Rightarrow> continue q d binding fallbackAt))"

text \<open>The nested call of a durable owner, and the owner it hands to the coordinator.\<close>

definition execute_local ::
  "'z executor \<Rightarrow> 'z exec_env \<Rightarrow> execution_request option \<Rightarrow> ('z, execution_result) exec" where
  "execute_local cfg env request = with_validated cfg env request (single_flight cfg env)"

definition durable_owner ::
  "'z executor \<Rightarrow> 'z exec_env \<Rightarrow> execution_request \<Rightarrow> ('z, execution_result \<times> execution_record) exec" where
  "durable_owner cfg env q =
     as_then (execute_local cfg env (Some q)) (\<lambda>result.
     as_then (get_record (xq_executionId q)) (\<lambda>r.
     case r of
       None \<Rightarrow> as_throw (fault EE_INTERNAL_EXECUTION_ERROR)
     | Some x \<Rightarrow> as_return (result, x)))"

definition forget_execution :: "execution_request \<Rightarrow> string \<Rightarrow> 'z run \<Rightarrow> 'z run" where
  "forget_execution q binding s = s\<lparr>rn_shared := (rn_shared s)
     \<lparr>sh_records := snd (records_delete (sh_records (rn_shared s)) (xq_executionId q)),
      sh_idempotency := snd (idem_release (sh_idempotency (rn_shared s)) (xq_idempotencyKey q)
        (xq_actionFingerprint q) binding)\<rparr>\<rparr>"

definition execute ::
  "'z executor \<Rightarrow> 'z exec_env \<Rightarrow> execution_request option \<Rightarrow> ('z, execution_result) exec" where
  "execute cfg env request =
     (case xc_coordinator cfg of
        None \<Rightarrow> execute_local cfg env request
      | Some coordinator \<Rightarrow> with_validated cfg env request (\<lambda>q d binding fallbackAt.
          as_finally (coordinator q binding (durable_owner cfg env q)) (forget_execution q binding)))"

end
