(* ===== verification/ExecutorGuarantees.thy ===== *)
theory ExecutorGuarantees
  imports Executor
begin

text \<open>
  What a run of the executor does to the outside world. The first part reads the run's log:
  the one grant, the tool calls in order, and why each further call was allowed. It holds
  for every environment and every interleaving.
\<close>

section \<open>The protocol of an execution\<close>

fun significant :: "external_step \<Rightarrow> bool" where
  "significant (Delivered e) = False"
| "significant (Slept ms) = False"
| "significant _ = True"

text \<open>
  The steps after the grant, from attempt \<open>k\<close> on: a tool call is the last one when it
  returned or failed definitely; a call that failed transiently may be repeated when a
  repetition is harmless; a write with an ambiguous outcome only after a reconciliation
  answered that it was not executed and the tool is idempotent.
\<close>

fun calls_from ::
  "retry_policy \<Rightarrow> execution_request \<Rightarrow> tool_definition \<Rightarrow> int \<Rightarrow> external_step list \<Rightarrow> bool" where
  "calls_from rp q d k [] \<longleftrightarrow> True"
| "calls_from rp q d k (Tool_called name args n key outcome # steps) \<longleftrightarrow>
     name = td_name d \<and> args = xq_validatedArguments q \<and> key = xq_idempotencyKey q \<and>
     n = k \<and> k \<le> rp_maxAttempts rp \<and>
     (case outcome of
        Inr _ \<Rightarrow> steps = []
      | Inl e \<Rightarrow>
          if cf_classification (classify d e) = NON_RETRYABLE then steps = []
          else if cf_classification (classify d e) = RETRYABLE then calls_from rp q d (k + 1) steps
          else (case steps of
                  [] \<Rightarrow> True
                | Reconciled s # rest \<Rightarrow> rest = [] \<or>
                    s = Some RS_NOT_EXECUTED \<and> td_idempotencyHint d = IDEMPOTENT \<and>
                    calls_from rp q d (k + 1) rest
                | _ \<Rightarrow> False))"
| "calls_from rp q d k (Policy_consumed p # steps) \<longleftrightarrow> False"
| "calls_from rp q d k (Authorization_consumed c # steps) \<longleftrightarrow> False"
| "calls_from rp q d k (Reconciled s # steps) \<longleftrightarrow> False"
| "calls_from rp q d k (Delivered e # steps) \<longleftrightarrow> False"
| "calls_from rp q d k (Slept ms # steps) \<longleftrightarrow> False"

text \<open>The grant a request needs: its own ALLOW decision, or its own execution authorization.\<close>

definition grants :: "execution_request \<Rightarrow> tool_definition \<Rightarrow> external_step \<Rightarrow> bool" where
  "grants q d step \<longleftrightarrow>
     (if low_risk (xq_riskLevel q)
      then step = Policy_consumed (xq_policyDecision q) \<and> po_decision (xq_policyDecision q) = PD_ALLOW
      else po_decision (xq_policyDecision q) = PD_REQUIRE_CONFIRMATION \<and>
           (case authorization_command q d of None \<Rightarrow> False | Some c \<Rightarrow> step = Authorization_consumed c))"

definition follows_protocol ::
  "'z executor \<Rightarrow> execution_request option \<Rightarrow> external_step list \<Rightarrow> bool" where
  "follows_protocol cfg request steps \<longleftrightarrow>
     (case steps of
        [] \<Rightarrow> True
      | grant # calls \<Rightarrow>
          (case request of None \<Rightarrow> False | Some q \<Rightarrow>
             (case registry_get (xc_registry cfg) (xq_toolName q) of
                None \<Rightarrow> False
              | Some d \<Rightarrow> grants q d grant \<and> calls_from (xc_retry cfg) q d 1 calls)))"

section \<open>What a piece of code adds to the log\<close>

definition adds :: "('z, 'a) exec \<Rightarrow> ((thrown, 'a) settled \<Rightarrow> external_step list \<Rightarrow> bool) \<Rightarrow> bool" where
  "adds m P \<longleftrightarrow> (\<forall>s. \<exists>l. rn_log (snd (m s)) = rn_log s @ l \<and> P (fst (m s)) (filter significant l))"

text \<open>An error of the executor's own bookkeeping is never transient.\<close>

definition own_error :: "thrown \<Rightarrow> bool" where
  "own_error e \<longleftrightarrow> \<not> snd (failure_code e)"

lemma own_error_simps [simp]:
  "own_error (Foreign_object t)" "own_error (fault EE_INTERNAL_EXECUTION_ERROR)"
  "own_error (fault EE_EXECUTION_VALIDATION_ERROR)" "own_error (fault EE_EXECUTION_NOT_AUTHORIZED)"
  by (simp_all add: own_error_def fault_def)

lemma own_error_classified: "own_error e \<Longrightarrow> cf_classification (classify d e) = NON_RETRYABLE"
  by (simp add: own_error_def classify_def classifyToolFailure_def Let_def)

definition own_errors :: "(thrown, 'a) settled \<Rightarrow> bool" where
  "own_errors r = (case r of Throws e \<Rightarrow> own_error e | _ \<Rightarrow> True)"

lemma own_errors_simps [simp]:
  "own_errors (Returns x)" "own_errors (Throws e) = own_error e" "own_errors Pending"
  by (simp_all add: own_errors_def)

definition silent :: "('z, 'a) exec \<Rightarrow> bool" where
  "silent m \<longleftrightarrow> adds m (\<lambda>r l. l = [] \<and> own_errors r)"

lemma adds_weaken: "adds m P \<Longrightarrow> (\<And>r l. P r l \<Longrightarrow> Q r l) \<Longrightarrow> adds m Q"
  unfolding adds_def by blast

lemma adds_same_log: "(\<And>s. rn_log (snd (m s)) = rn_log s \<and> P (fst (m s)) []) \<Longrightarrow> adds m P"
  unfolding adds_def by (metis append_Nil2 filter.simps(1))

lemma adds_return [simp]: "adds (as_return x) P \<longleftrightarrow> P (Returns x) []"
  by (auto simp: adds_def as_return_def)

lemma adds_throw [simp]: "adds (as_throw e) P \<longleftrightarrow> P (Throws e) []"
  by (auto simp: adds_def as_throw_def)

text \<open>
  The general composition rules: what the second part adds comes after what the first part
  added.
\<close>

definition after ::
  "((thrown, 'a) settled \<Rightarrow> external_step list \<Rightarrow> bool) \<Rightarrow> (thrown, 'a) settled \<Rightarrow>
   ((thrown, 'b) settled \<Rightarrow> external_step list \<Rightarrow> bool) \<Rightarrow> (thrown, 'b) settled \<Rightarrow> external_step list \<Rightarrow> bool" where
  "after P r Q r' l' \<longleftrightarrow> (\<forall>l. P r l \<longrightarrow> Q r' (l @ l'))"

lemma adds_seq:
  assumes "adds m P" "m s = (r, s')" "\<exists>l. rn_log s'' = rn_log s' @ l \<and> after P r Q r' (filter significant l)"
  shows "\<exists>l. rn_log s'' = rn_log s @ l \<and> Q r' (filter significant l)"
proof -
  obtain l1 where l1: "rn_log s' = rn_log s @ l1" "P r (filter significant l1)"
    using assms(1,2) unfolding adds_def by (metis fst_conv snd_conv)
  obtain l2 where l2: "rn_log s'' = rn_log s' @ l2" "after P r Q r' (filter significant l2)"
    using assms(3) by blast
  show ?thesis using l1 l2 by (auto simp: after_def)
qed

lemma adds_stop: "adds m P \<Longrightarrow> m s = (r, s') \<Longrightarrow> (\<And>l. P r l \<Longrightarrow> Q l) \<Longrightarrow>
  \<exists>l. rn_log s' = rn_log s @ l \<and> Q (filter significant l)"
  unfolding adds_def by (metis fst_conv snd_conv)

lemma adds_next: "adds m P \<Longrightarrow> \<exists>l. rn_log (snd (m s)) = rn_log s @ l \<and> P (fst (m s)) (filter significant l)"
  unfolding adds_def by blast

lemma adds_try:
  assumes m: "adds m P" and k: "\<And>x l. P (Returns x) l \<Longrightarrow> adds (k x) (after P (Returns x) Q)"
    and h: "\<And>e l. P (Throws e) l \<Longrightarrow> adds (h e) (after P (Throws e) Q)" and pending: "\<And>l. P Pending l \<Longrightarrow> Q Pending l"
  shows "adds (as_try m h k) Q"
  unfolding adds_def
proof
  fix s
  obtain r s' where ms: "m s = (r, s')" by (cases "m s")
  have P: "\<exists>l. P r l" using m ms unfolding adds_def by (metis fst_conv)
  show "\<exists>l. rn_log (snd (as_try m h k s)) = rn_log s @ l \<and> Q (fst (as_try m h k s)) (filter significant l)"
  proof (cases r)
    case (Returns x)
    with P obtain l where "P (Returns x) l" by blast
    from adds_seq [OF m ms, of "snd (k x s')" Q "fst (k x s')"] adds_next [OF k [OF this], of s']
      Returns show ?thesis by (simp add: as_try_def ms)
  next
    case (Throws e)
    with P obtain l where "P (Throws e) l" by blast
    from adds_seq [OF m ms, of "snd (h e s')" Q "fst (h e s')"] adds_next [OF h [OF this], of s']
      Throws show ?thesis by (simp add: as_try_def ms)
  next
    case Pending
    with adds_stop [OF m ms, of "Q Pending"] pending show ?thesis by (simp add: as_try_def ms)
  qed
qed

lemma as_then_is_try: "as_then m f = as_try m as_throw f"
  by (rule ext) (simp add: as_then_def as_try_def as_throw_def split: prod.split settled.split)

lemma as_catch_is_try: "as_catch m h = as_try m h as_return"
  by (rule ext) (simp add: as_catch_def as_try_def as_return_def split: prod.split settled.split)

lemma adds_then:
  "adds m P \<Longrightarrow> (\<And>x l. P (Returns x) l \<Longrightarrow> adds (f x) (after P (Returns x) Q)) \<Longrightarrow> (\<And>e l. P (Throws e) l \<Longrightarrow> Q (Throws e) l) \<Longrightarrow>
   (\<And>l. P Pending l \<Longrightarrow> Q Pending l) \<Longrightarrow> adds (as_then m f) Q"
  unfolding as_then_is_try by (rule adds_try [where P = P]) (auto simp: after_def)

lemma adds_catch:
  "adds m P \<Longrightarrow> (\<And>e l. P (Throws e) l \<Longrightarrow> adds (h e) (after P (Throws e) Q)) \<Longrightarrow> (\<And>x l. P (Returns x) l \<Longrightarrow> Q (Returns x) l) \<Longrightarrow>
   (\<And>l. P Pending l \<Longrightarrow> Q Pending l) \<Longrightarrow> adds (as_catch m h) Q"
  unfolding as_catch_is_try by (rule adds_try [where P = P]) (auto simp: after_def)

text \<open>Silent code in front of other code.\<close>

lemma after_silent [simp]: "own_errors r \<Longrightarrow> after (\<lambda>r l. l = [] \<and> own_errors r) r Q = Q"
  by (rule ext)+ (simp add: after_def)

lemma adds_silent_try:
  "silent m \<Longrightarrow> (\<And>x. adds (k x) Q) \<Longrightarrow> (\<And>e. own_error e \<Longrightarrow> adds (h e) Q) \<Longrightarrow> Q Pending [] \<Longrightarrow> adds (as_try m h k) Q"
  unfolding silent_def
  by (rule adds_try, assumption) auto

lemma adds_silent_then:
  "silent m \<Longrightarrow> (\<And>x. adds (f x) Q) \<Longrightarrow> (\<And>e. own_error e \<Longrightarrow> Q (Throws e) []) \<Longrightarrow> Q Pending [] \<Longrightarrow> adds (as_then m f) Q"
  unfolding as_then_is_try by (rule adds_silent_try) auto

lemma adds_silent: "silent m \<Longrightarrow> (\<And>r. own_errors r \<Longrightarrow> Q r []) \<Longrightarrow> adds m Q"
  unfolding silent_def by (erule adds_weaken) auto

section \<open>The silent parts of the executor\<close>

named_theorems silent_rules "code that adds no significant step and throws only own errors"

lemma silent_return [silent_rules]: "silent (as_return x)"
  by (simp add: silent_def)

lemma silent_throw [silent_rules]: "own_error e \<Longrightarrow> silent (as_throw e)"
  by (simp add: silent_def)

lemma silent_then [silent_rules]: "silent m \<Longrightarrow> (\<And>x. silent (f x)) \<Longrightarrow> silent (as_then m f)"
  unfolding silent_def [of "as_then m f"] by (rule adds_silent_then) (auto simp: silent_def)

lemma silent_try [silent_rules]:
  "silent m \<Longrightarrow> (\<And>x. silent (k x)) \<Longrightarrow> (\<And>e. silent (h e)) \<Longrightarrow> silent (as_try m h k)"
  unfolding silent_def [of "as_try m h k"] by (rule adds_silent_try) (auto simp: silent_def)

lemma silent_catch [silent_rules]:
  "silent m \<Longrightarrow> (\<And>e. silent (h e)) \<Longrightarrow> silent (as_catch m h)"
  unfolding as_catch_is_try by (intro silent_rules)

lemma silent_if [silent_rules]: "silent m \<Longrightarrow> silent n \<Longrightarrow> silent (if b then m else n)"
  by simp

lemma silent_option [silent_rules]:
  "silent m \<Longrightarrow> (\<And>x. silent (f x)) \<Longrightarrow> silent (case v of None \<Rightarrow> m | Some x \<Rightarrow> f x)"
  by (cases v) auto

lemma silent_pair [silent_rules]: "(\<And>x y. silent (f x y)) \<Longrightarrow> silent (case v of (x, y) \<Rightarrow> f x y)"
  by (cases v) auto

lemma silentI: "(\<And>s. rn_log (snd (m s)) = rn_log s \<and> own_errors (fst (m s))) \<Longrightarrow> silent m"
  unfolding silent_def by (rule adds_same_log) simp

lemma rn_log_updates [simp]:
  "rn_log (tick s) = rn_log s" "rn_log (interleave env s) = rn_log s"
  "rn_log (log_step e s) = rn_log s @ [e]" "rn_log (release_permit p s) = rn_log s"
  by (simp_all add: tick_def interleave_def log_step_def release_permit_def)

lemma silent_update [silent_rules]:
  "(\<And>s. rn_log (snd (f s)) = rn_log s) \<Longrightarrow> silent (as_update f)"
  by (rule silentI) (metis (no_types, lifting) as_update_def case_prod_conv fst_conv own_errors_simps(1)
      snd_conv surj_pair)

lemma silent_get [silent_rules]: "silent (as_get f)"
  by (rule silentI) (simp add: as_get_def)

lemma silent_on_shared [silent_rules]: "silent (on_shared f)"
  unfolding on_shared_def by (rule silent_update) (simp split: prod.split)

lemma silent_now [silent_rules]: "silent (now_utc env)"
  by (rule silentI) (simp add: now_utc_def split: sum.split)

lemma silent_deliver [silent_rules]: "silent (deliver env ev)"
  unfolding silent_def adds_def deliver_def by auto

lemma silent_sleep [silent_rules]: "silent (sleep env ms)"
  unfolding silent_def adds_def sleep_def by auto

lemma silent_emit [silent_rules]: "silent (emit_event env q ty n code ms)"
  unfolding emit_event_def by (intro silent_rules)

lemma silent_breaker [silent_rules]:
  "silent (breaker_acquire env key)" "silent (breaker_failed env key)" "silent (breaker_succeeded key)"
  unfolding breaker_acquire_def breaker_failed_def breaker_succeeded_def
  by (rule silent_rules; simp split: prod.split)+

lemma silent_on_records:
  "(\<And>rs code. f rs = Inl code \<Longrightarrow> own_error (fault code)) \<Longrightarrow> silent (on_records f)"
  by (rule silentI) (auto simp: on_records_def split: sum.split)

lemma silent_records [silent_rules]:
  "silent (transition_record x st ts)" "silent (create_record q ts)" "silent (add_attempt x a)"
  unfolding transition_record_def create_record_def add_attempt_def
  by (rule silent_on_records; force simp: record_ops Let_def split: option.splits if_splits)+

lemma silent_get_record [silent_rules]: "silent (get_record x)"
  unfolding get_record_def by (intro silent_rules)

lemma silent_finish [silent_rules]:
  "silent (reject env q code b)" "silent (finish env q st n se v r)" "silent (finish_error env q st n code)"
  "silent (finishAfterSuccessfulEffectEventFailure env q d n)"
  "silent (finishAfterFailedAttemptEventFailure env q c n)"
  unfolding reject_def finish_def finish_error_def finishAfterSuccessfulEffectEventFailure_def
    finishAfterFailedAttemptEventFailure_def
  by (intro silent_rules)+

lemma silent_ends [silent_rules]: "silent m \<Longrightarrow> silent (ends m)"
  unfolding ends_def by (intro silent_rules)

lemma silent_schedule_retry [silent_rules]: "silent (schedule_retry cfg env q n code)"
  unfolding schedule_retry_def Let_def by (intro silent_rules)

lemma silent_circuit_after_failure [silent_rules]: "silent (circuit_after_failure env d c b)"
  unfolding circuit_after_failure_def by (intro silent_rules)

section \<open>The log of one attempt\<close>

definition call_step :: "execution_request \<Rightarrow> tool_definition \<Rightarrow> int \<Rightarrow> (thrown, json) result \<Rightarrow> external_step" where
  "call_step q d n outcome =
     Tool_called (td_name d) (xq_validatedArguments q) n (xq_idempotencyKey q) outcome"

text \<open>
  The attempt may go on to a next one after a failure \<open>e\<close> and what was added after the call.
\<close>

definition may_continue :: "tool_definition \<Rightarrow> thrown \<Rightarrow> external_step list \<Rightarrow> bool" where
  "may_continue d e l \<longleftrightarrow>
     (if cf_classification (classify d e) = RETRYABLE then l = []
      else cf_classification (classify d e) = AMBIGUOUS_SIDE_EFFECT \<and>
           l = [Reconciled (Some RS_NOT_EXECUTED)] \<and> td_idempotencyHint d = IDEMPOTENT)"

definition may_stop :: "tool_definition \<Rightarrow> thrown \<Rightarrow> external_step list \<Rightarrow> bool" where
  "may_stop d e l \<longleftrightarrow> l = [] \<or>
     cf_classification (classify d e) = AMBIGUOUS_SIDE_EFFECT \<and> (\<exists>s. l = [Reconciled s])"

definition goes_on :: "(thrown, attempt_end) settled \<Rightarrow> bool" where
  "goes_on r = (case r of Returns (Inr _) \<Rightarrow> True | _ \<Rightarrow> False)"

lemma goes_on_simps [simp]:
  "goes_on (Returns (Inr x))" "\<not> goes_on (Returns (Inl y))" "\<not> goes_on (Throws e)" "\<not> goes_on Pending"
  by (simp_all add: goes_on_def)

definition after_failure ::
  "tool_definition \<Rightarrow> thrown \<Rightarrow> (thrown, attempt_end) settled \<Rightarrow> external_step list \<Rightarrow> bool" where
  "after_failure d e r l \<longleftrightarrow> (if goes_on r then may_continue d e l else may_stop d e l)"

text \<open>Code that ends the attempt adds nothing.\<close>

lemma adds_ends: "silent m \<Longrightarrow> (\<And>r. \<not> goes_on r \<Longrightarrow> Q r []) \<Longrightarrow> adds (ends m) Q"
  unfolding ends_def
  by (rule adds_silent_then) (auto split: settled.splits)

lemma after_failure_stop [simp]: "\<not> goes_on r \<Longrightarrow> after_failure d e r []"
  by (simp add: after_failure_def may_stop_def)

lemma adds_ends_failure: "silent m \<Longrightarrow> adds (ends m) (after_failure d e)"
  by (rule adds_ends) auto

lemma classify_ambiguous_type:
  "cf_classification (classify d e) = AMBIGUOUS_SIDE_EFFECT \<Longrightarrow>
   cf_failureType (classify d e) \<noteq> FT_HTTP_503 \<and> cf_failureType (classify d e) \<noteq> FT_DUPLICATE_REQUEST"
  by (auto simp: classify_def classifyToolFailure_def recoveryFailureType_def Let_def
      split: if_splits thrown.splits explicit_type.splits)

lemma ambiguous_retry:
  "cf_classification (classify d e) = AMBIGUOUS_SIDE_EFFECT \<Longrightarrow>
   rd_action (ambiguous_decision cfg d (classify d e) n status) = RA_RETRY \<Longrightarrow>
   status = RS_NOT_EXECUTED \<and> td_idempotencyHint d = IDEMPOTENT"
  using classify_ambiguous_type [of d e]
  by (auto simp: ambiguous_decision_def decide_def Let_def split: if_splits)

lemma adds_reconcile:
  "adds (reconcile env) (\<lambda>r l. case r of Returns a \<Rightarrow> l = [Reconciled (Some (fst a))]
     | Throws _ \<Rightarrow> l = [Reconciled None] | Pending \<Rightarrow> False)"
  unfolding adds_def reconcile_def by (auto split: option.split)

lemma adds_reconciliation:
  "adds (reconciliation cfg env q n) (\<lambda>r l. case r of
       Returns a \<Rightarrow> l = [Reconciled (Some (fst a))] \<or> fst a = RS_UNKNOWN \<and> (l = [] \<or> (\<exists>s. l = [Reconciled s]))
     | _ \<Rightarrow> l = [] \<or> (\<exists>s. l = [Reconciled s]))"
proof -
  let ?Q = "\<lambda>r l. case r of Returns a \<Rightarrow> l = [Reconciled (Some (fst a))] | _ \<Rightarrow> l = [] \<or> (\<exists>s. l = [Reconciled s])"
  have "adds (as_then (emit_event env q XE_reconciliation_started n None None) (\<lambda>_.
         as_then (reconcile env) (\<lambda>answer.
         as_then (emit_event env q XE_reconciliation_completed n
                    (Some (Code_reconciliation (fst answer))) None) (\<lambda>_. as_return answer)))) ?Q"
    apply (rule adds_silent_then, rule silent_rules)
      apply (rule adds_then [OF adds_reconcile])
        apply (rule adds_silent_then, rule silent_rules)
          apply (auto simp: after_def)
    done
  then show ?thesis
    unfolding reconciliation_def
    by (auto intro!: adds_catch [where P = ?Q] simp: after_def)
qed

lemma adds_ambiguous_failure:
  assumes "cf_classification (classify d e) = AMBIGUOUS_SIDE_EFFECT"
  shows "adds (ambiguous_failure cfg env q d (classify d e) n) (after_failure d e)"
proof -
  let ?P = "\<lambda>(r :: (thrown, reconciliation_status \<times> json option) settled) l. case r of
       Returns a \<Rightarrow> l = [Reconciled (Some (fst a))] \<or> fst a = RS_UNKNOWN \<and> (l = [] \<or> (\<exists>s. l = [Reconciled s]))
     | _ \<Rightarrow> l = [] \<or> (\<exists>s. l = [Reconciled s])"
  have stop: "after ?P (Returns (status, v)) (after_failure d e) r []" if "\<not> goes_on r" for status v r
    using that assms by (auto simp: after_def after_failure_def may_stop_def)
  have continue: "after ?P (Returns (RS_NOT_EXECUTED, v)) (after_failure d e) r []"
    if "td_idempotencyHint d = IDEMPOTENT" for v r
    using that assms
    by (cases "goes_on r") (auto simp: after_def after_failure_def may_stop_def may_continue_def)
  show ?thesis
    unfolding ambiguous_failure_def
  proof (rule adds_silent_then)
    show "silent (as_catch (emit_event env q XE_outcome_unknown n
        (Some (Code_error (cf_code (classify d e)))) None) (\<lambda>_. as_return ()))"
      by (intro silent_rules)
    show "adds (as_then (reconciliation cfg env q n) (\<lambda>(status, value).
       let dec = ambiguous_decision cfg d (classify d e) n status;
           receipt = ambiguous_receipt (classify d e) dec n status
       in if status = RS_EXECUTED
          then as_try (emit_event env q XE_succeeded n None None)
                 (\<lambda>_. ends (finishAfterSuccessfulEffectEventFailure env q d n))
                 (\<lambda>_. ends (finish env q X_SUCCEEDED n None value (Some receipt)))
          else if rd_action dec = RA_RETRY
          then as_try (schedule_retry cfg env q n (cf_code (classify d e)))
                 (\<lambda>_. ends (finish env q X_FAILED n
                         (Some (safeExecutionError EE_INTERNAL_EXECUTION_ERROR False)) None (Some receipt)))
                 (\<lambda>_. as_return (Inr (Some receipt)))
          else ends (finish env q X_OUTCOME_UNKNOWN n
                  (Some (safeExecutionError EE_OUTCOME_UNKNOWN False)) None (Some receipt))))
      (after_failure d e)"
      by (rule adds_then [OF adds_reconciliation])
        (auto simp: Let_def after_failure_def [of d e "Throws _"] after_failure_def [of d e Pending]
            may_stop_def assms
          dest!: ambiguous_retry [OF assms]
          intro!: adds_silent_try adds_ends stop continue silent_rules)
  qed auto
qed

lemma adds_definite_failure:
  assumes "cf_classification (classify d e) \<noteq> AMBIGUOUS_SIDE_EFFECT"
  shows "adds (definite_failure cfg env q d (classify d e) n) (after_failure d e)"
proof -
  have "after_failure d e r []" if "shouldRetry (xc_retry cfg) (cf_classification (classify d e)) n" for r
    using that
    by (cases "goes_on r") (auto simp: shouldRetry_def after_failure_def may_continue_def may_stop_def)
  then show ?thesis
    unfolding definite_failure_def Let_def
    by (auto intro!: adds_silent_then adds_silent_try adds_ends_failure silent_rules)
qed

lemma adds_attempt_failure:
  "adds (attempt_failure cfg env q d half startedAt n e) (after_failure d e)"
  unfolding attempt_failure_def Let_def
  by (rule adds_silent_then adds_silent_try silent_rules adds_ends_failure after_failure_stop
      | simp split: prod.split
      | auto intro!: adds_silent_try silent_rules adds_ends_failure adds_ambiguous_failure adds_definite_failure)+

lemma call_step_inject [simp]: "call_step q d n o1 = call_step q d n o2 \<longleftrightarrow> o1 = o2"
  by (simp add: call_step_def)

definition call_log ::
  "execution_request \<Rightarrow> tool_definition \<Rightarrow> int \<Rightarrow> (thrown, json) settled \<Rightarrow> external_step list \<Rightarrow> bool" where
  "call_log q d n r l \<longleftrightarrow> (case r of
     Returns v \<Rightarrow> l = [call_step q d n (Inr v)] | Throws e \<Rightarrow> l = [call_step q d n (Inl e)] | Pending \<Rightarrow> False)"

lemma adds_call_tool: "adds (call_tool env q d n) (call_log q d n)"
  unfolding adds_def call_tool_def call_log_def call_step_def Let_def by (auto split: sum.split)

definition success_log ::
  "execution_request \<Rightarrow> tool_definition \<Rightarrow> int \<Rightarrow> (thrown, attempt_end) settled \<Rightarrow> external_step list \<Rightarrow> bool" where
  "success_log q d n r l \<longleftrightarrow> \<not> goes_on r \<and>
     (\<exists>outcome. l = [call_step q d n outcome] \<and>
        (case r of Throws e \<Rightarrow> outcome = Inl e \<or> is_ok outcome \<and> own_error e | _ \<Rightarrow> is_ok outcome))"

lemma after_call [simp]:
  "after (call_log q d n) (Returns v) (success_log q d n) r [] \<longleftrightarrow> \<not> goes_on r \<and> own_errors r"
  by (auto simp: after_def call_log_def success_log_def own_errors_def split: settled.splits)

lemma adds_ends_success:
  "silent m \<Longrightarrow> adds (ends m) (after (call_log q d n) (Returns v) (success_log q d n))"
  unfolding ends_def by (rule adds_silent_then) auto

lemma adds_attempt_success:
  "adds (attempt_success cfg env q d startedAt receipt n) (success_log q d n)"
  unfolding attempt_success_def
proof (rule adds_then [OF adds_call_tool], goal_cases)
  case (1 v)
  show ?case
    by (intro adds_silent_then adds_silent_try silent_rules adds_ends_success)
      (auto split: option.split intro!: adds_ends_success silent_rules)
qed (auto simp: call_log_def success_log_def)

definition body_log ::
  "execution_request \<Rightarrow> tool_definition \<Rightarrow> int \<Rightarrow> (thrown, attempt_end) settled \<Rightarrow> external_step list \<Rightarrow> bool" where
  "body_log q d n r l \<longleftrightarrow> l = [] \<and> \<not> goes_on r \<or>
     (\<exists>outcome rest. l = call_step q d n outcome # rest \<and>
        (case outcome of Inr _ \<Rightarrow> rest = [] \<and> \<not> goes_on r | Inl e \<Rightarrow> after_failure d e r rest))"

lemma body_logE:
  assumes "body_log q d n r l"
  obtains (none) "l = []" "\<not> goes_on r"
  | (returned) v where "l = [call_step q d n (Inr v)]" "\<not> goes_on r"
  | (failed) e rest where "l = call_step q d n (Inl e) # rest" "after_failure d e r rest"
  using assms unfolding body_log_def
proof (elim disjE conjE exE)
  fix outcome rest
  assume "l = call_step q d n outcome # rest"
    and "case outcome of Inl e \<Rightarrow> after_failure d e r rest | Inr _ \<Rightarrow> rest = [] \<and> \<not> goes_on r"
  then show thesis by (cases outcome) (auto intro: returned failed)
qed (rule none)

lemma body_log_Nil [simp]: "\<not> goes_on r \<Longrightarrow> body_log q d n r []"
  by (simp add: body_log_def)

lemma is_ok_iff: "is_ok r \<longleftrightarrow> (\<exists>x. r = Inr x)"
  by (cases r) auto

lemma success_body: "success_log q d n r l \<Longrightarrow> (\<forall>e. r \<noteq> Throws e) \<Longrightarrow> body_log q d n r l"
  by (cases r) (auto simp: success_log_def body_log_def is_ok_iff)

lemma after_failure_own: "own_error e \<Longrightarrow> after_failure d e r l \<Longrightarrow> l = [] \<and> \<not> goes_on r"
  by (auto simp: after_failure_def may_continue_def may_stop_def own_error_classified split: if_splits)

lemma failure_body:
  assumes "success_log q d n (Throws e) l" "after_failure d e r l'"
  shows "body_log q d n r (l @ l')"
proof -
  obtain outcome where l: "l = [call_step q d n outcome]"
    and outcome: "outcome = Inl e \<or> is_ok outcome \<and> own_error e"
    using assms(1) by (auto simp: success_log_def)
  show ?thesis
  proof (cases outcome)
    case (Inl x)
    with outcome l assms(2) show ?thesis by (auto simp: body_log_def)
  next
    case (Inr v)
    with outcome have "own_error e" by simp
    from after_failure_own [OF this assms(2)] l Inr show ?thesis by (auto simp: body_log_def)
  qed
qed

lemma adds_attempt_body: "adds (attempt_body cfg env q d receipt n) (body_log q d n)"
proof -
  have body: "adds (as_catch (attempt_success cfg env q d startedAt receipt n)
      (attempt_failure cfg env q d half startedAt n)) (body_log q d n)" for startedAt half
  proof (rule adds_catch [OF adds_attempt_success])
    show "adds (attempt_failure cfg env q d half startedAt n e)
        (after (success_log q d n) (Throws e) (body_log q d n))" for e
      by (rule adds_weaken [OF adds_attempt_failure]) (auto simp: after_def intro: failure_body)
  qed (auto intro: success_body)
  have stop: "adds (ends m) (body_log q d n)" if "silent m" for m :: "('z, execution_result) exec"
    by (rule adds_ends) (auto simp: that)
  show ?thesis
    unfolding attempt_body_def Let_def
    by (rule adds_silent_then)
      (auto intro!: adds_silent_then adds_silent_try silent_rules stop body split: circuit_permit.split)
qed

section \<open>The log of an execution\<close>

lemma calls_from_stop:
  "body_log q d n r l \<Longrightarrow> \<not> goes_on r \<Longrightarrow> n \<le> rp_maxAttempts rp \<Longrightarrow> calls_from rp q d n l"
  by (erule body_logE) (auto simp: call_step_def after_failure_def may_stop_def)

lemma calls_from_step:
  "body_log q d n r l \<Longrightarrow> goes_on r \<Longrightarrow> n \<le> rp_maxAttempts rp \<Longrightarrow> calls_from rp q d (n + 1) l' \<Longrightarrow>
   calls_from rp q d n (l @ l')"
  by (erule body_logE) (auto simp: call_step_def after_failure_def may_continue_def split: if_splits)

lemma adds_run_attempts:
  "adds (run_attempts cfg env q d receipt n) (\<lambda>_. calls_from (xc_retry cfg) q d n)"
proof (induction cfg env q d receipt n rule: run_attempts.induct)
  case (1 cfg env q d receipt n)
  show ?case
  proof (cases "n \<le> rp_maxAttempts (xc_retry cfg)")
    case True
    have "adds (case outcome of Inl result \<Rightarrow> as_return result
           | Inr receipt' \<Rightarrow> run_attempts cfg env q d receipt' (n + 1))
        (after (body_log q d n) (Returns outcome) (\<lambda>_. calls_from (xc_retry cfg) q d n))" for outcome
    proof (cases outcome)
      case (Inl result)
      then show ?thesis using calls_from_stop [OF _ _ True] by (auto simp: after_def)
    next
      case (Inr receipt')
      have "adds (run_attempts cfg env q d receipt' (n + 1)) (\<lambda>_. calls_from (xc_retry cfg) q d (n + 1))"
        by (rule 1 [OF True])
      then show ?thesis
        unfolding Inr sum.case by (rule adds_weaken) (auto simp: after_def intro: calls_from_step [OF _ _ True])
    qed
    with True show ?thesis
      unfolding run_attempts.simps [of cfg env q d receipt n] if_P [OF True]
      by (intro adds_then [OF adds_attempt_body]) (auto intro: calls_from_stop)
  next
    case False
    then show ?thesis
      unfolding run_attempts.simps [of cfg env q d receipt n] if_not_P [OF False]
      by (intro adds_silent [where m = "finish_error _ _ _ _ _"] silent_rules) simp
  qed
qed

definition granted_log ::
  "'z executor \<Rightarrow> execution_request \<Rightarrow> tool_definition \<Rightarrow> external_step list \<Rightarrow> bool" where
  "granted_log cfg q d l \<longleftrightarrow>
     (case l of [] \<Rightarrow> True | g # calls \<Rightarrow> grants q d g \<and> calls_from (xc_retry cfg) q d 1 calls)"

lemma granted_log_simps [simp]:
  "granted_log cfg q d []"
  "granted_log cfg q d (g # calls) \<longleftrightarrow> grants q d g \<and> calls_from (xc_retry cfg) q d 1 calls"
  by (simp_all add: granted_log_def)

lemma adds_silent_any: "silent m \<Longrightarrow> G [] \<Longrightarrow> adds m (\<lambda>_. G)"
  by (rule adds_silent) auto

lemma adds_then_silent:
  "adds m (\<lambda>_. G) \<Longrightarrow> (\<And>x. silent (f x)) \<Longrightarrow> adds (as_then m f) (\<lambda>_. G)"
  by (rule adds_then [where P = "\<lambda>_. G"]) (auto intro: adds_silent simp: after_def)

lemma adds_catch_silent:
  "adds m (\<lambda>_. G) \<Longrightarrow> (\<And>x. silent (h x)) \<Longrightarrow> adds (as_catch m h) (\<lambda>_. G)"
  by (rule adds_catch [where P = "\<lambda>_. G"]) (auto intro: adds_silent simp: after_def)

lemma adds_finally:
  "adds m P \<Longrightarrow> (\<And>s. rn_log (f s) = rn_log s) \<Longrightarrow> adds (as_finally m f) P"
  unfolding adds_def as_finally_def by (auto split: prod.splits settled.splits) (metis fst_conv snd_conv)+

lemma adds_get_then: "(\<And>s. adds (g (f s)) P) \<Longrightarrow> adds (as_then (as_get f) g) P"
  unfolding adds_def as_then_def as_get_def by simp

lemma adds_run_authorized:
  "adds (run_authorized cfg env q d) (\<lambda>_. calls_from (xc_retry cfg) q d 1)"
  unfolding run_authorized_def
  by (intro adds_silent_then adds_silent_try silent_rules adds_run_attempts adds_silent_any) auto

lemma adds_consume_policy:
  "adds (consume_policy q d) (\<lambda>r l. l = (if r = Returns True then [Policy_consumed (xq_policyDecision q)] else []))"
  unfolding adds_def consume_policy_def by (auto simp: as_update_def as_throw_def Let_def split: option.split prod.split)

lemma adds_consume_authorization:
  "adds (consume_authorization cfg env c) (\<lambda>r l. case r of
     Returns _ \<Rightarrow> l = [Authorization_consumed c] | Throws _ \<Rightarrow> l = [] | Pending \<Rightarrow> False)"
  unfolding adds_def consume_authorization_def Let_def by (auto split: prod.split sum.split)

lemma adds_low_risk_owner:
  assumes "low_risk (xq_riskLevel q)" "po_decision (xq_policyDecision q) = PD_ALLOW"
  shows "adds (as_then (consume_policy q d) (\<lambda>ok. if ok then run_authorized cfg env q d
      else reject env q EE_EXECUTION_NOT_AUTHORIZED False)) (\<lambda>_. granted_log cfg q d)"
proof (rule adds_then [OF adds_consume_policy], goal_cases)
  case (1 ok)
  show ?case
  proof (cases ok)
    case True
    with assms show ?thesis
      by (auto intro!: adds_weaken [OF adds_run_authorized] simp: after_def grants_def)
  next
    case False
    then show ?thesis by (auto intro!: adds_silent silent_rules simp: after_def)
  qed
qed auto

lemma adds_high_risk_owner:
  assumes "\<not> low_risk (xq_riskLevel q)" "po_decision (xq_policyDecision q) = PD_REQUIRE_CONFIRMATION"
    "authorization_command q d = Some c"
  shows "adds (as_try (consume_authorization cfg env c)
      (\<lambda>e. reject env q (authorizationErrorCode e) False) (\<lambda>_.
        as_try (emit_event env q XE_authorization_consumed 0 None None)
          (\<lambda>_. reject env q EE_INTERNAL_EXECUTION_ERROR False)
          (\<lambda>_. run_authorized cfg env q d))) (\<lambda>_. granted_log cfg q d)"
proof (rule adds_try [OF adds_consume_authorization], goal_cases)
  case (1 u)
  have eq: "after (\<lambda>r l. case r of Returns _ \<Rightarrow> l = [Authorization_consumed c] | Throws _ \<Rightarrow> l = [] | Pending \<Rightarrow> False)
      (Returns u) (\<lambda>_. granted_log cfg q d) = (\<lambda>_ l. granted_log cfg q d (Authorization_consumed c # l))"
    by (intro ext) (simp add: after_def)
  have "grants q d (Authorization_consumed c)" using assms by (simp add: grants_def)
  then show ?case
    unfolding eq
    by (intro adds_silent_try [OF silent_emit] adds_weaken [OF adds_run_authorized] adds_silent_any
        silent_rules) simp_all
qed (auto intro!: adds_silent silent_rules simp: after_def)

lemma adds_executeOwner: "adds (executeOwner cfg env q d) (\<lambda>_. granted_log cfg q d)"
proof -
  have unauthorized: "adds (reject env q EE_EXECUTION_NOT_AUTHORIZED False) (\<lambda>_. granted_log cfg q d)"
    by (intro adds_silent_any silent_rules) simp
  show ?thesis
  proof (cases "low_risk (xq_riskLevel q)")
    case True
    then show ?thesis
      using unauthorized adds_low_risk_owner [OF True] by (auto simp: executeOwner_def Let_def)
  next
    case False
    then show ?thesis
      using unauthorized adds_high_risk_owner [OF False]
      by (auto simp: executeOwner_def Let_def split: option.split)
  qed
qed

lemma adds_run_admitted: "adds (run_admitted cfg env q d p) (\<lambda>_. granted_log cfg q d)"
  unfolding run_admitted_def
  by (intro adds_finally adds_catch_silent adds_executeOwner silent_rules) simp

section \<open>Single flight\<close>

lemma silent_single_flight_parts [silent_rules]:
  "silent (acquire_key q b)" "silent (complete_key p r)" "silent (await_promise env p)"
  "silent (acquire_permit env eff v)" "silent (copy_result cfg r)"
  "silent (transitionDuplicate x st ts)"
  unfolding acquire_key_def complete_key_def copy_result_def transitionDuplicate_def
       apply (intro silent_rules)
      apply (intro silent_rules)
     apply (rule silentI, simp add: await_promise_def Let_def split: option.split)
    apply (rule silentI, simp add: acquire_permit_def Let_def split: option.split)
   apply (intro silent_rules; simp)
  apply (intro silent_rules)
  done

lemma silent_answers: "silent (answer_duplicate cfg env q ts p)" "silent (answer_conflict env q ts)"
  unfolding answer_duplicate_def answer_conflict_def by (intro silent_rules)+

lemma adds_own_execution: "adds (own_execution cfg env q d ts p) (\<lambda>_. granted_log cfg q d)"
proof -
  have "adds (case admission of EA_refused _ \<Rightarrow> reject env q EE_EXECUTOR_BUSY True
      | EA_admitted permit \<Rightarrow> run_admitted cfg env q d permit) (\<lambda>_. granted_log cfg q d)" for admission
    by (cases admission) (auto intro!: adds_run_admitted adds_silent_any silent_rules)
  then show ?thesis
    unfolding own_execution_def
    by (intro adds_silent_try [OF silent_records(2)] adds_silent_then [OF silent_single_flight_parts(4)]
        adds_then_silent) (auto intro!: silent_rules adds_silent_any)
qed

lemma adds_single_flight: "adds (single_flight cfg env q d b ts) (\<lambda>_. granted_log cfg q d)"
  unfolding single_flight_def
  by (rule adds_silent_then)
    (auto intro!: silent_rules adds_own_execution adds_silent_any silent_answers split: acquisition.split)

lemma adds_execute_local: "adds (execute_local cfg env request) (\<lambda>_. follows_protocol cfg request)"
proof -
  have continue: "adds (case v of Inl code \<Rightarrow> as_return (invalid_result request code ts)
      | Inr (q, d, b) \<Rightarrow> single_flight cfg env q d b ts) (\<lambda>_. follows_protocol cfg request)"
    if "v = validated (xc_sha cfg) (xc_clone cfg) (xc_registry cfg) issued request" for v ts issued
  proof (cases v)
    case (Inl code)
    then show ?thesis by (simp add: follows_protocol_def)
  next
    case (Inr x)
    obtain q d b where x: "x = (q, d, b)" by (cases x)
    have "granted_log cfg q d l \<Longrightarrow> follows_protocol cfg request l" for l
      using validated_Inr(1,2) [OF that [unfolded Inr x, symmetric]]
      by (cases l) (simp_all add: follows_protocol_def)
    then show ?thesis
      unfolding Inr x sum.case prod.case by (rule adds_weaken [OF adds_single_flight])
  qed
  show ?thesis
    unfolding execute_local_def with_validated_def
    by (intro adds_silent_then adds_get_then silent_rules continue) (simp_all add: follows_protocol_def)
qed

text \<open>
  C27. Whatever the environment answers and however other calls interleave, an execution
  either leaves the outside world alone or takes exactly one grant - the ALLOW decision of
  a low-risk request, the execution authorization of a high-risk one, each its own - and
  then calls the requested tool with the validated arguments for the attempts 1, 2, ... up
  to the retry policy's maximum, one after the other; it calls again only after a failure
  that is safe to repeat, and after an ambiguous write only when reconciliation answered
  that it was not executed and the tool is idempotent.
\<close>

theorem execution_follows_protocol:
  "\<exists>steps. rn_log (snd (execute_local cfg env request s)) = rn_log s @ steps \<and>
     follows_protocol cfg request (filter significant steps)"
  using adds_execute_local unfolding adds_def by blast

end
