(* ===== verification/ExecutorRecords.thy ===== *)
theory ExecutorRecords
  imports ExecutorGuarantees
begin

text \<open>
  The record an execution leaves behind and the result it answers with. The contract of this
  part: the clock shows representable times, and while a call is suspended nobody else
  changes the record of its execution id (the durable mode's clean-up is the one piece of
  code that does, see \<open>forget_execution\<close>).
\<close>

section \<open>Runs that own their record\<close>

fun is_call :: "external_step \<Rightarrow> bool" where
  "is_call (Tool_called name args n key outcome) = True"
| "is_call _ = False"

definition calls_made :: "'z run \<Rightarrow> int" where
  "calls_made s = int (length (filter is_call (rn_log s)))"

definition own_record :: "execution_request \<Rightarrow> 'z run \<Rightarrow> execution_record option" where
  "own_record q s = sh_records (rn_shared s) (xq_executionId q)"

text \<open>The record exists in a state, and so many tool calls were made.\<close>

definition recorded :: "execution_request \<Rightarrow> execution_state \<Rightarrow> int \<Rightarrow> 'z run \<Rightarrow> bool" where
  "recorded q st n s \<longleftrightarrow> map_option er_state (own_record q s) = Some st \<and> calls_made s = n"

text \<open>A final result: its status is the record's terminal state, its count the calls made.\<close>

definition accounted :: "execution_request \<Rightarrow> int \<Rightarrow> execution_result \<Rightarrow> 'z run \<Rightarrow> bool" where
  "accounted q c r s \<longleftrightarrow> recorded q (xr_status r) (c + xr_attemptCount r) s \<and>
     legal_execution (xr_status r) = [] \<and> \<not> xr_deduplicated r"

text \<open>Code that leaves the record alone and calls no tool.\<close>

definition calm :: "execution_request \<Rightarrow> ('z, 'a) exec \<Rightarrow> bool" where
  "calm q m \<longleftrightarrow> (\<forall>s. own_record q (snd (m s)) = own_record q s \<and> calls_made (snd (m s)) = calls_made s)"

lemma wp_calm:
  assumes "calm q m" "\<And>s'. own_record q s' = own_record q s \<Longrightarrow> calls_made s' = calls_made s \<Longrightarrow>
    (\<forall>x. Q x s') \<and> (\<forall>e. E e s') \<and> N s'"
  shows "wp m Q E N s"
proof -
  obtain r s' where "m s = (r, s')" by (cases "m s")
  with assms(1) have "own_record q s' = own_record q s" "calls_made s' = calls_made s"
    unfolding calm_def by (metis snd_conv)+
  from assms(2) [OF this] \<open>m s = (r, s')\<close> show ?thesis by (cases r) (auto simp: wp_def)
qed

lemma calls_made_simps [simp]:
  "calls_made (tick s) = calls_made s" "calls_made (interleave env s) = calls_made s"
  "calls_made (log_step e s) = (if is_call e then calls_made s + 1 else calls_made s)"
  "calls_made (release_permit p s) = calls_made s"
  "calls_made (s\<lparr>rn_shared := sh\<rparr>) = calls_made s"
  by (simp_all add: calls_made_def log_step_def)

lemma own_record_simps [simp]:
  "own_record q (tick s) = own_record q s" "own_record q (log_step e s) = own_record q s"
  "own_record q (release_permit p s) = own_record q s"
  "own_record q (s\<lparr>rn_shared := (rn_shared s)\<lparr>sh_breaker := b\<rparr>\<rparr>) = own_record q s"
  "own_record q (s\<lparr>rn_shared := (rn_shared s)\<lparr>sh_policy := p'\<rparr>\<rparr>) = own_record q s"
  "own_record q (s\<lparr>rn_shared := (rn_shared s)\<lparr>sh_consumer := z\<rparr>\<rparr>) = own_record q s"
  "own_record q (s\<lparr>rn_shared := (rn_shared s)\<lparr>sh_idempotency := im\<rparr>\<rparr>) = own_record q s"
  "own_record q (s\<lparr>rn_shared := (rn_shared s)\<lparr>sh_admission := c\<rparr>\<rparr>) = own_record q s"
  by (simp_all add: own_record_def tick_def log_step_def release_permit_def)

lemma recorded_simps [simp]:
  "recorded q st n (tick s) = recorded q st n s"
  "recorded q st n (release_permit p s) = recorded q st n s"
  "recorded q st n (s\<lparr>rn_shared := (rn_shared s)\<lparr>sh_breaker := b\<rparr>\<rparr>) = recorded q st n s"
  by (simp_all add: recorded_def)

lemma wp_get_record [simp]:
  "wp (get_record (xq_executionId q)) Q E N = (\<lambda>s. Q (own_record q s) s)"
  by (rule ext) (simp add: get_record_def own_record_def)

lemma recorded_state: "recorded q st n s \<Longrightarrow> map_option er_state (own_record q s) = Some st"
  by (simp add: recorded_def)

lemma recorded_same:
  "own_record q s' = own_record q s \<Longrightarrow> calls_made s' = calls_made s \<Longrightarrow> recorded q st n s' = recorded q st n s"
  by (simp add: recorded_def)

text \<open>How an attempt leaves the record: the result is final, or the record still runs.\<close>

definition attempted :: "execution_request \<Rightarrow> int \<Rightarrow> int \<Rightarrow> attempt_end \<Rightarrow> 'z run \<Rightarrow> bool" where
  "attempted q c n outcome s =
     (case outcome of Inl r \<Rightarrow> accounted q c r s | Inr _ \<Rightarrow> recorded q X_RUNNING (c + n) s)"

text \<open>
  What a call leaves behind, by the record it found: an existing record is never touched; a
  record of its own ends in the state the answer reports.
\<close>

definition answered ::
  "execution_request \<Rightarrow> execution_record option \<Rightarrow> int \<Rightarrow> execution_result \<Rightarrow> 'z run \<Rightarrow> bool" where
  "answered q before c r s \<longleftrightarrow>
     (case before of
        Some x \<Rightarrow> own_record q s = Some x
      | None \<Rightarrow> map_option er_state (own_record q s) = Some (xr_status r) \<and>
                legal_execution (xr_status r) = []) \<and>
     calls_made s = (if xr_deduplicated r then c else c + xr_attemptCount r)"

definition unchanged :: "execution_request \<Rightarrow> execution_record option \<Rightarrow> int \<Rightarrow> 'z run \<Rightarrow> bool" where
  "unchanged q before c s \<longleftrightarrow> own_record q s = before \<and> calls_made s = c"

section \<open>The contract of a steady run\<close>

locale steady_run =
  fixes env :: "'z exec_env" and q :: execution_request
  assumes clock_valid: "iso_range (xv_clock env n)"
    and record_kept: "sh_records (xv_others env n sh) (xq_executionId q) = sh_records sh (xq_executionId q)"
begin

lemma own_record_interleave [simp]: "own_record q (interleave env s) = own_record q s"
  by (simp add: own_record_def interleave_def record_kept)

lemma recorded_interleave [simp]: "recorded q st n (interleave env s) = recorded q st n s"
  by (simp add: recorded_def)

lemma wp_now [simp]: "wp (now_utc env) Q E N = (\<lambda>s. Q (xv_clock env (rn_tick s)) (tick s))"
  using clock_valid by (intro ext) (simp add: wp_def now_utc_def toUtcTimestamp_def)

lemma wp_emit:
  assumes "\<And>s'. own_record q s' = own_record q s \<Longrightarrow> calls_made s' = calls_made s \<Longrightarrow>
    Q () s' \<and> E (fault EE_INTERNAL_EXECUTION_ERROR) s'"
  shows "wp (emit_event env q' ty n code ms) Q E N s"
  using assms by (simp add: emit_event_def wp_def [of "deliver _ _"] deliver_def)

lemma wp_sleep:
  assumes "\<And>s'. own_record q s' = own_record q s \<Longrightarrow> calls_made s' = calls_made s \<Longrightarrow>
    Q () s' \<and> E (Foreign_object No_failure_type) s'"
  shows "wp (sleep env ms) Q E N s"
  using assms by (simp add: wp_def sleep_def)

lemma wp_call_tool:
  assumes "\<And>s'. own_record q s' = own_record q s \<Longrightarrow> calls_made s' = calls_made s + 1 \<Longrightarrow>
    (\<forall>v. Q v s') \<and> (\<forall>e. E e s')"
  shows "wp (call_tool env q' d n) Q E N s"
  using assms by (simp add: wp_def call_tool_def Let_def split: sum.split)

lemma wp_reconcile:
  assumes "\<And>s'. own_record q s' = own_record q s \<Longrightarrow> calls_made s' = calls_made s \<Longrightarrow>
    (\<forall>v. Q v s') \<and> (\<forall>e. E e s')"
  shows "wp (reconcile env) Q E N s"
  using assms by (simp add: wp_def reconcile_def split: option.split)

lemma wp_breaker:
  assumes "\<And>s' x. own_record q s' = own_record q s \<Longrightarrow> calls_made s' = calls_made s \<Longrightarrow> Q x s'"
  shows "wp (breaker_acquire env key) Q E N s"
  using assms by (simp add: breaker_acquire_def split: prod.split)

lemma wp_breaker_change:
  assumes "\<And>s' x. own_record q s' = own_record q s \<Longrightarrow> calls_made s' = calls_made s \<Longrightarrow> Q x s'"
  shows "wp (breaker_failed env key) Q E N s" "wp (breaker_succeeded key) Q E N s"
  using assms by (simp_all add: breaker_failed_def breaker_succeeded_def on_shared_def split: prod.split)

lemma wp_transition:
  assumes "recorded q st n s" "st' \<in> set (legal_execution st)"
    "\<And>r s'. recorded q st' n s' \<Longrightarrow> Q r s'"
  shows "wp (transition_record (xq_executionId q) st' ts) Q E N s"
  using assms(1,2)
  by (auto simp: transition_record_def wp_def on_records_def records_transition_def recorded_def own_record_def
      Let_def intro!: assms(3))

lemma wp_add_attempt:
  assumes "recorded q X_RUNNING n s" "\<And>r s'. recorded q X_RUNNING n s' \<Longrightarrow> Q r s'"
  shows "wp (add_attempt (xq_executionId q) a) Q E N s"
  using assms(1)
  by (auto simp: add_attempt_def wp_def on_records_def records_addAttempt_def recorded_def own_record_def
      Let_def intro!: assms(2))

lemma wp_finish:
  assumes "recorded q X_RUNNING (c + n) s" "st \<in> set (legal_execution X_RUNNING)"
  shows "wp (finish env q st n se v rc) (accounted q c) E N s"
proof -
  have tick: "recorded q X_RUNNING (c + n) (tick s)" using assms(1) by simp
  have "legal_execution st = []" using assms(2) by auto
  then show ?thesis
    using recorded_state [OF tick]
    by (auto simp: finish_def accounted_def intro!: wp_transition [OF tick assms(2)])
qed

lemma wp_finish_error:
  "recorded q X_RUNNING (c + n) s \<Longrightarrow> st \<in> set (legal_execution X_RUNNING) \<Longrightarrow>
   wp (finish_error env q st n code) (accounted q c) E N s"
  unfolding finish_error_def by (rule wp_finish)

lemma wp_reject:
  assumes "recorded q X_CREATED c s"
  shows "wp (reject env q code b) (accounted q c) E N s"
proof -
  have tick: "recorded q X_CREATED c (tick s)" using assms by simp
  show ?thesis
    using recorded_state [OF tick]
    by (auto simp: reject_def accounted_def rejectionResult_def intro!: wp_transition [OF tick])
qed

text \<open>The same rules, carrying the state of the record along.\<close>

lemma wp_emit_recorded:
  "recorded q st m s \<Longrightarrow>
   (\<And>s'. recorded q st m s' \<Longrightarrow> Q () s' \<and> E (fault EE_INTERNAL_EXECUTION_ERROR) s') \<Longrightarrow>
   wp (emit_event env q' ty n code ms) Q E N s"
  by (rule wp_emit) (simp add: recorded_def)

lemma wp_sleep_recorded:
  "recorded q st m s \<Longrightarrow>
   (\<And>s'. recorded q st m s' \<Longrightarrow> Q () s' \<and> E (Foreign_object No_failure_type) s') \<Longrightarrow>
   wp (sleep env ms) Q E N s"
  by (rule wp_sleep) (simp add: recorded_def)

lemma wp_reconcile_recorded:
  "recorded q st m s \<Longrightarrow> (\<And>s'. recorded q st m s' \<Longrightarrow> (\<forall>v. Q v s') \<and> (\<forall>e. E e s')) \<Longrightarrow>
   wp (reconcile env) Q E N s"
  by (rule wp_reconcile) (simp add: recorded_def)

lemma wp_breaker_recorded:
  assumes "recorded q st m s" "\<And>s' x. recorded q st m s' \<Longrightarrow> Q x s'"
  shows "wp (breaker_failed env key) Q E N s" "wp (breaker_succeeded key) Q E N s"
  using assms(1) by (auto intro!: wp_breaker_change assms(2) simp: recorded_def)

lemma wp_breaker_acquire_recorded:
  assumes "recorded q st m s" "\<And>s' x. recorded q st m s' \<Longrightarrow> Q x s'"
  shows "wp (breaker_acquire env key) Q E N s"
  using assms(1) by (auto intro!: wp_breaker assms(2) simp: recorded_def)

lemma wp_ends [simp]: "wp (ends m) Q E N = wp m (\<lambda>r. Q (Inl r)) E N"
  by (simp add: ends_def)

lemma attempted_simps [simp]:
  "attempted q c n (Inl r) = accounted q c r" "attempted q c n (Inr x) = recorded q X_RUNNING (c + n)"
  by (rule ext, simp add: attempted_def)+

lemma wp_after_effect:
  "recorded q X_RUNNING (c + n) s \<Longrightarrow>
   wp (finishAfterSuccessfulEffectEventFailure env q d n) (accounted q c) E N s"
  "recorded q X_RUNNING (c + n) s \<Longrightarrow>
   wp (finishAfterFailedAttemptEventFailure env q k n) (accounted q c) E N s"
  unfolding finishAfterSuccessfulEffectEventFailure_def finishAfterFailedAttemptEventFailure_def
  by (simp_all add: wp_finish_error)

lemma wp_attempt_success:
  assumes "recorded q X_RUNNING (c + n - 1) s"
  shows "wp (attempt_success cfg env q d ts rc n) (attempted q c n) (\<lambda>e. recorded q X_RUNNING (c + n)) N s"
proof -
  note running = wp_emit_recorded [where st = X_RUNNING and m = "c + n"]
    wp_add_attempt [where n = "c + n"] wp_breaker_recorded [where st = X_RUNNING and m = "c + n"]
    wp_after_effect wp_finish
  show ?thesis
    unfolding attempt_success_def wp_then
  proof (rule wp_call_tool, intro conjI allI, goal_cases)
    case (1 s' v)
    then have "recorded q X_RUNNING (c + n) s'" using assms by (simp add: recorded_def)
    then show ?case
      by (auto intro!: running split: option.split)
  next
    case (2 s' e)
    then show ?case using assms by (simp add: recorded_def)
  qed
qed

lemma wp_schedule_retry:
  assumes "recorded q X_RUNNING m s" "\<And>s'. recorded q X_RUNNING m s' \<Longrightarrow> Q () s' \<and> (\<forall>e. E e s')"
  shows "wp (schedule_retry cfg env q n code) Q E N s"
  using assms(1)
  by (auto simp: schedule_retry_def Let_def assms(2)
      intro!: wp_emit_recorded [where st = X_RUNNING and m = m] wp_sleep_recorded [where st = X_RUNNING and m = m])

lemma wp_reconciliation:
  assumes "recorded q X_RUNNING m s" "\<And>s' v. recorded q X_RUNNING m s' \<Longrightarrow> Q v s'"
  shows "wp (reconciliation cfg env q n) Q E N s"
  using assms(1)
  by (auto simp: reconciliation_def assms(2)
      intro!: wp_emit_recorded [where st = X_RUNNING and m = m]
        wp_reconcile_recorded [where st = X_RUNNING and m = m])

lemma wp_ambiguous_failure:
  assumes "recorded q X_RUNNING (c + n) s"
  shows "wp (ambiguous_failure cfg env q d k n) (attempted q c n) E N s"
  using assms
  by (auto simp: ambiguous_failure_def Let_def
      intro!: wp_emit_recorded [where st = X_RUNNING and m = "c + n"]
        wp_reconciliation [where m = "c + n"] wp_schedule_retry [where m = "c + n"]
        wp_after_effect wp_finish)

lemma wp_definite_failure:
  assumes "recorded q X_RUNNING (c + n) s"
  shows "wp (definite_failure cfg env q d k n) (attempted q c n) E N s"
  using assms
  by (auto simp: definite_failure_def Let_def
      intro!: wp_emit_recorded [where st = X_RUNNING and m = "c + n"]
        wp_schedule_retry [where m = "c + n"] wp_finish_error wp_finish)

lemma wp_circuit_after_failure:
  assumes "recorded q X_RUNNING m s" "\<And>s' v. recorded q X_RUNNING m s' \<Longrightarrow> Q v s'"
  shows "wp (circuit_after_failure env d k half) Q E N s"
  using assms(1)
  by (auto simp: circuit_after_failure_def assms(2)
      intro!: wp_breaker_recorded [where st = X_RUNNING and m = m])

lemma wp_attempt_failure:
  assumes "recorded q X_RUNNING (c + n) s"
  shows "wp (attempt_failure cfg env q d half ts n e) (attempted q c n) E N s"
  using assms
  by (auto simp: attempt_failure_def Let_def
      intro!: wp_emit_recorded [where st = X_RUNNING and m = "c + n"] wp_add_attempt [where n = "c + n"]
        wp_circuit_after_failure [where m = "c + n"] wp_after_effect wp_finish_error
        wp_ambiguous_failure wp_definite_failure)

lemma wp_attempt_body:
  assumes "recorded q X_RUNNING (c + n - 1) s"
  shows "wp (attempt_body cfg env q d rc n) (attempted q c n) E N s"
proof -
  have body: "wp (attempt_success cfg env q d ts rc n) (attempted q c n)
      (\<lambda>e. wp (attempt_failure cfg env q d half ts n e) (attempted q c n) E N) N s'"
    if "recorded q X_RUNNING (c + n - 1) s'" for s' ts half
    by (rule wp_mono [OF wp_attempt_success [OF that]]) (auto intro: wp_attempt_failure)
  have minus: "recorded q X_RUNNING (c + (n - 1)) s'" if "recorded q X_RUNNING (c + n - 1) s'" for s'
    using that by (simp add: algebra_simps)
  show ?thesis
    using assms
    by (auto simp: attempt_body_def Let_def
        intro!: wp_breaker_acquire_recorded [where st = X_RUNNING and m = "c + n - 1"]
          wp_emit_recorded [where st = X_RUNNING and m = "c + n - 1"]
          wp_breaker_recorded [where st = X_RUNNING and m = "c + n - 1"]
          wp_finish_error minus body
        split: circuit_permit.split)
qed

lemma wp_run_attempts:
  "recorded q X_RUNNING (c + n - 1) s \<Longrightarrow> n \<le> rp_maxAttempts (xc_retry cfg) + 1 \<Longrightarrow>
   wp (run_attempts cfg env q d rc n) (accounted q c) E N s"
proof (induction "nat (rp_maxAttempts (xc_retry cfg) + 1 - n)" arbitrary: n rc s)
  case 0
  then have "n = rp_maxAttempts (xc_retry cfg) + 1" by simp
  then have "run_attempts cfg env q d rc n =
      finish_error env q X_RETRY_EXHAUSTED (n - 1) EE_RETRY_EXHAUSTED"
    by (subst run_attempts.simps) simp
  moreover have "recorded q X_RUNNING (c + (n - 1)) s" using 0(2) by (simp add: algebra_simps)
  ultimately show ?case by (simp add: wp_finish_error)
next
  case (Suc k)
  then have n: "n \<le> rp_maxAttempts (xc_retry cfg)" by simp
  have again: "wp (run_attempts cfg env q d rc' (n + 1)) (accounted q c) E N s'"
    if "recorded q X_RUNNING (c + n) s'" for rc' s'
    using Suc that by (intro Suc(1)) auto
  have "wp (attempt_body cfg env q d rc n) (attempted q c n) E N s"
    by (rule wp_attempt_body [OF Suc(3)])
  with n show ?case
    by (auto simp: run_attempts.simps [of cfg env q d rc n] attempted_def elim!: wp_mono
        intro!: again split: sum.splits)
qed

section \<open>The owner\<close>

lemma wp_run_authorized:
  assumes "recorded q X_CREATED c s" "1 \<le> rp_maxAttempts (xc_retry cfg)"
  shows "wp (run_authorized cfg env q d) (accounted q c) E N s"
proof -
  have zero: "recorded q X_RUNNING (c + 0) s'" if "recorded q X_RUNNING c s'" for s'
    using that by simp
  show ?thesis
    using assms
    by (auto simp: run_authorized_def
        intro!: wp_transition [of X_CREATED c] wp_emit_recorded [where st = X_RUNNING and m = c]
          wp_run_attempts wp_finish_error zero)
qed

lemma wp_consume_policy:
  assumes "recorded q st m s" "policyExecutionBinding q \<noteq> None" "\<And>ok s'. recorded q st m s' \<Longrightarrow> Q ok s'"
  shows "wp (consume_policy q d) Q E N s"
  using assms(1,2)
  by (auto simp: consume_policy_def Let_def recorded_def intro!: assms(3) split: prod.split)

lemma wp_consume_authorization:
  assumes "recorded q st m s" "\<And>e s'. recorded q st m s' \<Longrightarrow> Q () s' \<and> E e s'"
  shows "wp (consume_authorization cfg env k) Q E N s"
  using assms(1)
  by (auto simp: consume_authorization_def wp_def Let_def recorded_def assms(2) split: prod.split sum.split)

lemma wp_executeOwner:
  assumes "recorded q X_CREATED c s" "1 \<le> rp_maxAttempts (xc_retry cfg)"
    "low_risk (xq_riskLevel q) \<Longrightarrow> policyExecutionBinding q \<noteq> None"
  shows "wp (executeOwner cfg env q d) (accounted q c) E N s"
  using assms(1,2)
  by (auto simp: executeOwner_def Let_def
      intro!: wp_consume_policy [where st = X_CREATED and m = c] assms(3) wp_run_authorized wp_reject
        wp_consume_authorization [where st = X_CREATED and m = c]
        wp_emit_recorded [where st = X_CREATED and m = c]
      split: option.split)

lemma accounted_release [simp]: "accounted q c r (release_permit p s) = accounted q c r s"
  by (simp add: accounted_def)

lemma wp_run_admitted:
  assumes "recorded q X_CREATED c s" "1 \<le> rp_maxAttempts (xc_retry cfg)"
    "low_risk (xq_riskLevel q) \<Longrightarrow> policyExecutionBinding q \<noteq> None"
  shows "wp (run_admitted cfg env q d p) (accounted q c) E N s"
  using wp_executeOwner [OF assms] by (simp add: run_admitted_def)

section \<open>Single flight\<close>

lemma accounted_answered: "accounted q c r s \<Longrightarrow> answered q None c r s"
  by (simp add: accounted_def answered_def recorded_def)

lemma wp_create_record:
  assumes "own_record q s = before" "calls_made s = c"
    "\<And>x s'. before = None \<Longrightarrow> recorded q X_CREATED c s' \<Longrightarrow> Q x s'" "\<And>e. before \<noteq> None \<Longrightarrow> E e s"
  shows "wp (create_record q ts) Q E N s"
  using assms
  by (auto simp: wp_def create_record_def on_records_def records_create_def own_record_def recorded_def Let_def)

lemma wp_complete_key:
  assumes "\<And>s'. own_record q s' = own_record q s \<Longrightarrow> calls_made s' = calls_made s \<Longrightarrow> Q () s'"
  shows "wp (complete_key p r) Q E N s"
  using assms by (simp add: complete_key_def on_shared_def)

lemma wp_acquire_key:
  assumes "\<And>s' a. own_record q s' = own_record q s \<Longrightarrow> calls_made s' = calls_made s \<Longrightarrow> Q a s'"
  shows "wp (acquire_key q' b) Q E N s"
  using assms by (simp add: acquire_key_def on_shared_def split: prod.split)

lemma wp_acquire_permit:
  assumes "\<And>s' a. own_record q s' = own_record q s \<Longrightarrow> calls_made s' = calls_made s \<Longrightarrow> Q a s' \<and> N s'"
  shows "wp (acquire_permit env eff v) Q E N s"
  using assms by (simp add: acquire_permit_def wp_def Let_def split: option.split)

lemma wp_await_promise:
  assumes "\<And>s' a. own_record q s' = own_record q s \<Longrightarrow> calls_made s' = calls_made s \<Longrightarrow> Q a s' \<and> N s'"
  shows "wp (await_promise env p) Q E N s"
  using assms by (simp add: await_promise_def wp_def Let_def split: option.split)

lemma answered_same:
  "own_record q s' = own_record q s \<Longrightarrow> calls_made s' = calls_made s \<Longrightarrow> answered q before c r s' = answered q before c r s"
  by (simp add: answered_def split: option.split)

lemma wp_own_execution:
  assumes "unchanged q before c s" "1 \<le> rp_maxAttempts (xc_retry cfg)"
    "low_risk (xq_riskLevel q) \<Longrightarrow> policyExecutionBinding q \<noteq> None"
  shows "wp (own_execution cfg env q d ts p) (answered q before c) (\<lambda>_ _. False) (\<lambda>_. True) s"
  unfolding own_execution_def wp_try
proof (rule wp_create_record [where before = before and c = c], goal_cases)
  case (3 x s1)
  have result: "wp (case admission of EA_refused _ \<Rightarrow> reject env q EE_EXECUTOR_BUSY True
        | EA_admitted permit \<Rightarrow> run_admitted cfg env q d permit) (accounted q c) (\<lambda>_ _. False) (\<lambda>_. True) s2"
    if "recorded q X_CREATED c s2" for admission s2
    using that by (cases admission) (simp_all add: wp_reject wp_run_admitted assms(2,3))
  have last: "answered q before c r s3"
    if "accounted q c r s2" "own_record q s3 = own_record q s2" "calls_made s3 = calls_made s2" for r s3 and s2 :: "'z run"
    using accounted_answered [OF that(1)] answered_same [OF that(2,3)] 3(1) by simp
  show ?case
    unfolding wp_then
  proof (rule wp_acquire_permit, intro conjI TrueI)
    fix s2 :: "'z run" and admission
    assume "own_record q s2 = own_record q s1" "calls_made s2 = calls_made s1"
    then have "recorded q X_CREATED c s2" using 3(2) by (simp add: recorded_def)
    from result [OF this, of admission]
    show "wp (case admission of EA_refused _ \<Rightarrow> reject env q EE_EXECUTOR_BUSY True
          | EA_admitted permit \<Rightarrow> run_admitted cfg env q d permit)
        (\<lambda>r. wp (complete_key p r) (\<lambda>_. wp (as_return r) (answered q before c) (\<lambda>_ _. False) (\<lambda>_. True))
           (\<lambda>_ _. False) (\<lambda>_. True)) (\<lambda>_ _. False) (\<lambda>_. True) s2"
      by (rule wp_mono) (auto intro!: wp_complete_key last)
  qed
qed (use assms(1) in \<open>auto simp: unchanged_def intro!: wp_complete_key,
    auto simp: answered_def validationFailure_def rejectionResult_def split: option.split\<close>)

lemma wp_transitionDuplicate:
  assumes "recorded q X_CREATED c s"
  shows "wp (transitionDuplicate (xq_executionId q) st ts) (\<lambda>_. recorded q (duplicate_status st) c) E N s"
proof (cases "st = X_REJECTED")
  case True
  then show ?thesis
    using assms recorded_state [OF assms]
    by (auto simp: transitionDuplicate_def duplicate_status_def intro!: wp_transition [of X_CREATED c])
next
  case False
  then have "duplicate_status st \<in> set (legal_execution X_RUNNING)"
    by (cases st) (auto simp: duplicate_status_def)
  then have final: "wp (transition_record (xq_executionId q) (duplicate_status st) ts)
      (\<lambda>_. recorded q (duplicate_status st) c) E N s'" if "recorded q X_RUNNING c s'" for s'
    by (rule wp_transition [OF that])
  have "wp (transition_record (xq_executionId q) X_RUNNING ts)
      (\<lambda>_. wp (transition_record (xq_executionId q) (duplicate_status st) ts)
         (\<lambda>_. recorded q (duplicate_status st) c) E N) E N s"
    by (rule wp_transition [OF assms]) (auto intro: final)
  with False recorded_state [OF assms] show ?thesis by (auto simp: transitionDuplicate_def)
qed

lemma duplicate_status_final [simp]: "legal_execution (duplicate_status st) = []"
  by (cases st) (simp_all add: duplicate_status_def)

lemma wp_copy_result:
  assumes "\<forall>v. xc_clone cfg v \<noteq> None" "\<And>v. Q (r\<lparr>xr_deduplicated := True, xr_result := v\<rparr>) s"
  shows "wp (copy_result cfg r) Q E N s"
proof (cases "xr_result r")
  case None
  have "r\<lparr>xr_deduplicated := True\<rparr> = r\<lparr>xr_deduplicated := True, xr_result := None\<rparr>"
    using None by (cases r) simp
  with assms(2) [of None] None show ?thesis by (simp add: copy_result_def)
next
  case (Some v)
  obtain copy where "xc_clone cfg v = Some copy" using assms(1) by blast
  with Some assms(2) show ?thesis by (simp add: copy_result_def)
qed

lemma answered_duplicate:
  "recorded q (xr_status r) c s \<Longrightarrow> legal_execution (xr_status r) = [] \<Longrightarrow> xr_deduplicated r \<Longrightarrow> answered q None c r s"
  by (simp add: answered_def recorded_def)

lemma wp_new_duplicate:
  assumes "recorded q X_CREATED c s" "\<forall>v. xc_clone cfg v \<noteq> None"
  shows "wp (as_then (transitionDuplicate (xq_executionId q) (xr_status original) completedAt) (\<lambda>_.
      as_then (copy_result cfg original) (\<lambda>copy.
        as_return (duplicate_result q (duplicate_status (xr_status original)) createdAt completedAt
          (xr_result copy) (xr_error original))))) (answered q None c) E N s"
  unfolding wp_then
  by (rule wp_mono [OF wp_transitionDuplicate [OF assms(1)]])
    (auto intro!: wp_copy_result assms(2) answered_duplicate simp: duplicate_result_def)

lemma wp_failed_duplicate:
  assumes "recorded q X_CREATED c s"
  shows "wp (as_then (transitionDuplicate (xq_executionId q) X_FAILED completedAt) (\<lambda>_.
      as_return (duplicate_result q X_FAILED createdAt completedAt None
        (Some (safeExecutionError EE_INTERNAL_EXECUTION_ERROR False))))) (answered q None c) E N s"
  unfolding wp_then
  by (rule wp_mono [OF wp_transitionDuplicate [OF assms]])
    (auto intro!: answered_duplicate simp: duplicate_result_def duplicate_status_def)

lemma wp_await_recorded:
  "recorded q st m s \<Longrightarrow> (\<And>s' a. recorded q st m s' \<Longrightarrow> Q a s' \<and> N s') \<Longrightarrow> wp (await_promise env p) Q E N s"
  by (rule wp_await_promise) (simp add: recorded_def)

lemma wp_answer_duplicate:
  assumes "unchanged q before c s" "\<forall>v. xc_clone cfg v \<noteq> None"
  shows "wp (answer_duplicate cfg env q ts p) (answered q before c) (\<lambda>_ _. False) (\<lambda>_. True) s"
proof (cases before)
  case None
  have before: "own_record q s = None" "calls_made s = c"
    using assms(1) None by (simp_all add: unchanged_def)
  have tick: "recorded q X_CREATED c (tick s')" if "recorded q X_CREATED c s'" for s' :: "'z run"
    using that by simp
  show ?thesis
    unfolding None answer_duplicate_def wp_then [of "get_record _"] wp_get_record before(1) option.case
      wp_then [of "create_record _ _"]
    apply (rule wp_create_record [OF before])
    unfolding wp_then [of "await_promise _ _"] wp_then [of "now_utc _"] wp_now wp_try simp_thms if_True
     apply (rule wp_await_recorded, assumption)
     apply (rule conjI [OF wp_emit_recorded [OF tick] TrueI], assumption)
     apply (rule conjI [OF wp_new_duplicate [OF _ assms(2)] wp_failed_duplicate]; assumption)
    apply simp
    done
next
  case (Some x)
  then show ?thesis
    using assms
    by (auto simp: answer_duplicate_def unchanged_def answered_def
        intro!: wp_await_promise wp_emit wp_copy_result)
qed

lemma wp_answer_conflict:
  assumes "unchanged q before c s"
  shows "wp (answer_conflict env q ts) (answered q before c) (\<lambda>_ _. False) (\<lambda>_. True) s"
proof (cases before)
  case None
  with assms show ?thesis
    by (auto simp: answer_conflict_def unchanged_def
        intro!: wp_create_record [where before = None and c = c] wp_mono [OF wp_reject] accounted_answered)
next
  case (Some x)
  with assms show ?thesis
    by (auto simp: answer_conflict_def unchanged_def answered_def rejectionResult_def)
qed

lemma wp_single_flight:
  assumes "unchanged q before c s" "\<forall>v. xc_clone cfg v \<noteq> None" "1 \<le> rp_maxAttempts (xc_retry cfg)"
    "low_risk (xq_riskLevel q) \<Longrightarrow> policyExecutionBinding q \<noteq> None"
  shows "wp (single_flight cfg env q d b ts) (answered q before c) (\<lambda>_ _. False) (\<lambda>_. True) s"
proof -
  have "unchanged q before c s2" if "own_record q s2 = own_record q s" "calls_made s2 = calls_made s" for s2
    using that assms(1) by (simp add: unchanged_def)
  then show ?thesis
    using assms(2,3,4)
    by (auto simp: single_flight_def split: acquisition.split
        intro!: wp_acquire_key wp_answer_conflict wp_answer_duplicate wp_own_execution)
qed

end

section \<open>The result of an execution\<close>

lemma retry_policy_bounds:
  "new_retry_policy attempts backoff = Inr rp \<Longrightarrow> 1 \<le> rp_maxAttempts rp \<and> rp_maxAttempts rp \<le> 10"
  by (auto simp: new_retry_policy_def Let_def split: if_splits)

text \<open>
  An environment is made steady by reading an unprintable clock as the epoch and by returning
  the record of the execution as it was; one that is steady already is unchanged by this, so
  what holds of every steadied environment holds of every steady one.
\<close>

definition steady_env :: "'z exec_env \<Rightarrow> execution_request \<Rightarrow> 'z exec_env" where
  "steady_env env q =
     env\<lparr>xv_clock := (\<lambda>n. if iso_range (xv_clock env n) then xv_clock env n else 0),
         xv_others := (\<lambda>n sh. (xv_others env n sh)
           \<lparr>sh_records := (sh_records (xv_others env n sh))
              (xq_executionId q := sh_records sh (xq_executionId q))\<rparr>)\<rparr>"

interpretation steadied: steady_run "steady_env env q" q for env :: "'z exec_env" and q
  by unfold_locales
     (simp_all add: steady_env_def iso_range_def MIN_ISO_MS_def MAX_ISO_MS_def)

lemma steady_env_id:
  assumes "\<forall>n. iso_range (xv_clock env n)"
    and "\<forall>n sh. sh_records (xv_others env n sh) (xq_executionId q) = sh_records sh (xq_executionId q)"
  shows "steady_env env q = env"
proof -
  have "(\<lambda>n sh. (xv_others env n sh)\<lparr>sh_records := (sh_records (xv_others env n sh))
      (xq_executionId q := sh_records sh (xq_executionId q))\<rparr>) = xv_others env"
    using assms(2) by (intro ext) (simp add: fun_upd_idem)
  with assms(1) show ?thesis by (simp add: steady_env_def)
qed


end
