(* ===== verification/ExecutorInvariants.thy ===== *)
theory ExecutorInvariants
  imports ExecutorGuarantees ActionGuarantees
begin

text \<open>
  Invariants of the executor's runs. The contract \<open>executor_invariant\<close> lists the primitive
  steps of the executor; whatever they keep, every execution keeps. It is used on three
  invariants: the components' own invariants, the ledger of consumed policy decisions, and
  the ledger of consumed execution authorizations.
\<close>

section \<open>The primitive steps\<close>

text \<open>The steps that grant nothing.\<close>

definition no_grant :: "external_step \<Rightarrow> bool" where
  "no_grant e \<longleftrightarrow> (case e of Policy_consumed p \<Rightarrow> False | Authorization_consumed c \<Rightarrow> False | _ \<Rightarrow> True)"

lemma no_grant_simps [simp]:
  "no_grant (Tool_called name args n key outcome)" "no_grant (Reconciled st)"
  "no_grant (Delivered ev)" "no_grant (Slept ms)"
  by (simp_all add: no_grant_def)

definition set_breaker :: "circuit_breaker \<Rightarrow> 'z run \<Rightarrow> 'z run" where
  "set_breaker cb s = s\<lparr>rn_shared := (rn_shared s)\<lparr>sh_breaker := cb\<rparr>\<rparr>"

definition set_admission :: "concurrency \<Rightarrow> 'z run \<Rightarrow> 'z run" where
  "set_admission c s = s\<lparr>rn_shared := (rn_shared s)\<lparr>sh_admission := c\<rparr>\<rparr>"

definition set_idempotency :: "idempotency_manager \<Rightarrow> 'z run \<Rightarrow> 'z run" where
  "set_idempotency im s = s\<lparr>rn_shared := (rn_shared s)\<lparr>sh_idempotency := im\<rparr>\<rparr>"

definition set_records :: "record_store \<Rightarrow> 'z run \<Rightarrow> 'z run" where
  "set_records rs s = s\<lparr>rn_shared := (rn_shared s)\<lparr>sh_records := rs\<rparr>\<rparr>"

definition set_policy :: "policy_store \<Rightarrow> 'z run \<Rightarrow> 'z run" where
  "set_policy st s = s\<lparr>rn_shared := (rn_shared s)\<lparr>sh_policy := st\<rparr>\<rparr>"

definition set_consumer :: "'z \<Rightarrow> 'z run \<Rightarrow> 'z run" where
  "set_consumer z s = s\<lparr>rn_shared := (rn_shared s)\<lparr>sh_consumer := z\<rparr>\<rparr>"

lemmas set_defs = set_breaker_def set_admission_def set_idempotency_def set_records_def
  set_policy_def set_consumer_def tick_def log_step_def

locale executor_invariant =
  fixes cfg :: "'z executor" and env :: "'z exec_env" and I :: "'z run \<Rightarrow> bool"
  assumes inv_tick: "I s \<Longrightarrow> I (tick s)"
    and inv_interleave: "I s \<Longrightarrow> I (interleave env s)"
    and inv_log: "I s \<Longrightarrow> no_grant step \<Longrightarrow> I (log_step step s)"
    and inv_breaker: "I s \<Longrightarrow> I (set_breaker (cb_step (sh_breaker (rn_shared s)) call) s)"
    and inv_admission: "I s \<Longrightarrow> I (set_admission (concurrency_step (sh_admission (rn_shared s)) ecall) s)"
    and inv_idempotency: "I s \<Longrightarrow> I (set_idempotency (idem_step (sh_idempotency (rn_shared s)) icall) s)"
    and inv_records: "I s \<Longrightarrow> I (set_records (records_step (sh_records (rn_shared s)) rcall) s)"
    and inv_policy: "I s \<Longrightarrow>
      consumePolicyDecisionForExecution (sh_policy (rn_shared s)) p ref args b = (True, st) \<Longrightarrow>
      I (log_step (Policy_consumed p) (set_policy st s))"
    and inv_refused: "I s \<Longrightarrow> xc_consumer cfg n c (sh_consumer (rn_shared s)) = (Inl e, z) \<Longrightarrow>
      I (set_consumer z s)"
    and inv_authorized: "I s \<Longrightarrow> xc_consumer cfg n c (sh_consumer (rn_shared s)) = (Inr (), z) \<Longrightarrow>
      I (log_step (Authorization_consumed c) (set_consumer z s))"
begin

definition keeps :: "('z, 'a) exec \<Rightarrow> bool" where
  "keeps m \<longleftrightarrow> (\<forall>s. I s \<longrightarrow> I (snd (m s)))"

lemma keepsD: "keeps m \<Longrightarrow> I s \<Longrightarrow> I (snd (m s))"
  by (simp add: keeps_def)

lemma keeps_return: "keeps (as_return x)"
  by (simp add: keeps_def as_return_def)

lemma keeps_throw: "keeps (as_throw e)"
  by (simp add: keeps_def as_throw_def)

lemma keeps_get: "keeps (as_get f)"
  by (simp add: keeps_def as_get_def)

lemma keeps_try: "keeps m \<Longrightarrow> (\<And>e. keeps (h e)) \<Longrightarrow> (\<And>x. keeps (k x)) \<Longrightarrow> keeps (as_try m h k)"
  unfolding keeps_def as_try_def by (auto split: prod.splits settled.splits)

lemma keeps_then: "keeps m \<Longrightarrow> (\<And>x. keeps (f x)) \<Longrightarrow> keeps (as_then m f)"
  unfolding as_then_is_try by (rule keeps_try) (auto intro: keeps_throw)

lemma keeps_catch: "keeps m \<Longrightarrow> (\<And>e. keeps (h e)) \<Longrightarrow> keeps (as_catch m h)"
  unfolding as_catch_is_try by (rule keeps_try) (auto intro: keeps_return)

lemma keeps_finally: "keeps m \<Longrightarrow> (\<And>s. I s \<Longrightarrow> I (f s)) \<Longrightarrow> keeps (as_finally m f)"
  unfolding keeps_def as_finally_def by (auto split: prod.splits settled.splits)

lemma keeps_if: "keeps m \<Longrightarrow> keeps n \<Longrightarrow> keeps (if b then m else n)"
  by simp

lemma keeps_option: "keeps m \<Longrightarrow> (\<And>x. keeps (f x)) \<Longrightarrow> keeps (case v of None \<Rightarrow> m | Some x \<Rightarrow> f x)"
  by (cases v) auto

lemma keeps_sum: "(\<And>x. keeps (f x)) \<Longrightarrow> (\<And>x. keeps (g x)) \<Longrightarrow> keeps (case v of Inl x \<Rightarrow> f x | Inr y \<Rightarrow> g y)"
  by (cases v) auto

lemma keeps_pair: "(\<And>x y. keeps (f x y)) \<Longrightarrow> keeps (case v of (x, y) \<Rightarrow> f x y)"
  by (cases v) auto

lemma keeps_permit:
  "keeps m \<Longrightarrow> (\<And>st. keeps (f st)) \<Longrightarrow>
   keeps (case permit of Permit_denied \<Rightarrow> m | Permit_allowed st \<Rightarrow> f st)"
  by (cases permit) auto

lemmas keeps_control = keeps_permit keeps_return keeps_throw keeps_get keeps_try keeps_then keeps_catch keeps_if
  keeps_option keeps_sum keeps_pair

lemma keeps_now: "keeps (now_utc env')"
  by (auto simp: keeps_def now_utc_def inv_tick split: sum.split)

lemma keeps_emit: "keeps (emit_event env q ty n code ms)"
  unfolding emit_event_def
  by (intro keeps_then keeps_now) (auto simp: keeps_def deliver_def inv_log inv_interleave)

lemma keeps_sleep: "keeps (sleep env ms)"
  by (auto simp: keeps_def sleep_def inv_log inv_interleave)

lemma keeps_call_tool: "keeps (call_tool env q d n)"
  by (auto simp: keeps_def call_tool_def Let_def inv_log inv_interleave split: sum.split)

lemma keeps_reconcile: "keeps (reconcile env)"
  by (auto simp: keeps_def reconcile_def inv_log inv_interleave split: option.split)

lemma keeps_breaker: "keeps (breaker_acquire env key)" "keeps (breaker_failed env key)" "keeps (breaker_succeeded key)"
  unfolding keeps_def
proof (safe)
  fix s assume s: "I s"
  show "I (snd (breaker_acquire env key s))"
    using inv_tick [OF inv_breaker [OF s, of "Call_acquire key (xv_clock env (rn_tick s))"]]
    by (simp add: breaker_acquire_def as_update_def set_breaker_def case_prod_beta)
  show "I (snd (breaker_failed env key s))"
    using inv_tick [OF inv_breaker [OF s, of "Call_failed key (xv_clock env (rn_tick s))"]]
    by (simp add: breaker_failed_def as_update_def set_breaker_def case_prod_beta)
  show "I (snd (breaker_succeeded key s))"
    using inv_breaker [OF s, of "Call_succeeded key"]
    by (simp add: breaker_succeeded_def on_shared_def as_update_def set_breaker_def case_prod_beta)
qed

lemma keeps_on_records:
  "(\<And>rs rs' r. f rs = Inr (rs', r) \<Longrightarrow> \<exists>call. rs' = records_step rs call) \<Longrightarrow> keeps (on_records f)"
  unfolding keeps_def on_records_def
  by (auto split: sum.split prod.split) (metis inv_records set_records_def)

lemma keeps_records:
  "keeps (transition_record x st ts)" "keeps (create_record q ts)" "keeps (add_attempt x a)" "keeps (get_record x)"
proof -
  show "keeps (transition_record x st ts)"
    unfolding transition_record_def
    by (rule keeps_on_records, rule exI [of _ "Rec_transition x st ts"]) simp
  show "keeps (create_record q ts)"
    unfolding create_record_def
    by (rule keeps_on_records, rule exI [of _ "Rec_create (xq_executionId q) (xq_toolName q)
        (xq_actionFingerprint q) (xq_idempotencyKey q) ts"]) simp
  show "keeps (add_attempt x a)"
    unfolding add_attempt_def
    by (rule keeps_on_records, rule exI [of _ "Rec_addAttempt x a"]) simp
  show "keeps (get_record x)"
    unfolding get_record_def by (rule keeps_get)
qed

lemma keeps_finish:
  "keeps (reject env q code b)" "keeps (finish env q st n se v r)" "keeps (finish_error env q st n code)"
  "keeps (finishAfterSuccessfulEffectEventFailure env q d n)"
  "keeps (finishAfterFailedAttemptEventFailure env q c n)"
  unfolding reject_def finish_def finish_error_def finishAfterSuccessfulEffectEventFailure_def
    finishAfterFailedAttemptEventFailure_def
  by (intro keeps_control keeps_now keeps_records)+

lemma keeps_ends: "keeps m \<Longrightarrow> keeps (ends m)"
  unfolding ends_def by (intro keeps_control)

lemmas keeps_parts = keeps_control keeps_now keeps_emit keeps_sleep keeps_call_tool keeps_reconcile
  keeps_breaker keeps_records keeps_finish keeps_ends

lemma keeps_attempt:
  "keeps (attempt_success cfg env q d ts rc n)" "keeps (attempt_failure cfg env q d half ts n e)"
  unfolding attempt_success_def attempt_failure_def ambiguous_failure_def definite_failure_def
    circuit_after_failure_def reconciliation_def schedule_retry_def Let_def
  by (intro keeps_parts)+

lemma keeps_attempt_body: "keeps (attempt_body cfg env q d rc n)"
  unfolding attempt_body_def Let_def by (intro keeps_parts keeps_attempt)

lemma keeps_run_attempts: "keeps (run_attempts cfg env q d rc n)"
proof (induction "nat (rp_maxAttempts (xc_retry cfg) + 1 - n)" arbitrary: n rc)
  case 0
  then show ?case by (subst run_attempts.simps) (auto intro: keeps_parts)
next
  case (Suc k)
  then have "keeps (run_attempts cfg env q d rc' (n + 1))" for rc' by auto
  then show ?case by (subst run_attempts.simps) (intro keeps_parts keeps_attempt_body)
qed

lemma keeps_consume_policy: "keeps (consume_policy q d)"
proof -
  have "I (snd (as_update (\<lambda>s. case consumePolicyDecisionForExecution (sh_policy (rn_shared s))
      (xq_policyDecision q) (td_ref d) (xq_validatedArguments q) b of (ok, st) \<Rightarrow>
        let s' = s\<lparr>rn_shared := (rn_shared s)\<lparr>sh_policy := st\<rparr>\<rparr>
        in (ok, if ok then log_step (Policy_consumed (xq_policyDecision q)) s' else s')) s))"
    if "I s" for s b
  proof (cases "consumePolicyDecisionForExecution (sh_policy (rn_shared s)) (xq_policyDecision q)
      (td_ref d) (xq_validatedArguments q) b")
    case (Pair ok st)
    show ?thesis
    proof (cases ok)
      case True
      with inv_policy [OF that, of "xq_policyDecision q" "td_ref d" "xq_validatedArguments q" b st] Pair
      show ?thesis by (simp add: as_update_def set_policy_def)
    next
      case False
      with Pair have "st = sh_policy (rn_shared s)"
        by (auto simp: consume_result split: if_splits)
      with Pair False that show ?thesis by (simp add: as_update_def)
    qed
  qed
  then have "keeps (as_update (\<lambda>s. case consumePolicyDecisionForExecution (sh_policy (rn_shared s))
      (xq_policyDecision q) (td_ref d) (xq_validatedArguments q) b of (ok, st) \<Rightarrow>
        let s' = s\<lparr>rn_shared := (rn_shared s)\<lparr>sh_policy := st\<rparr>\<rparr>
        in (ok, if ok then log_step (Policy_consumed (xq_policyDecision q)) s' else s')))" for b
    unfolding keeps_def by blast
  then show ?thesis unfolding consume_policy_def by (intro keeps_parts)
qed

lemma keeps_consume_authorization: "keeps (consume_authorization cfg env c)"
  unfolding keeps_def consume_authorization_def
  by (auto simp: Let_def split: prod.split sum.split intro!: inv_interleave
      dest: inv_refused inv_authorized simp flip: set_consumer_def)

lemma keeps_executeOwner: "keeps (executeOwner cfg env q d)"
  unfolding executeOwner_def run_authorized_def Let_def
  by (intro keeps_parts keeps_consume_policy keeps_consume_authorization keeps_run_attempts)

lemma keeps_keys: "keeps (acquire_key q b)" "keeps (complete_key p r)"
  unfolding keeps_def
proof (safe)
  fix s assume s: "I s"
  show "I (snd (acquire_key q b s))"
    using inv_idempotency [OF s, of "Idem_acquire (xq_idempotencyKey q) (xq_actionFingerprint q) b"]
    by (simp add: acquire_key_def on_shared_def as_update_def set_idempotency_def case_prod_beta)
  show "I (snd (complete_key p r s))"
    using inv_idempotency [OF s, of "Idem_complete p r"]
    by (simp add: complete_key_def on_shared_def as_update_def set_idempotency_def)
qed

lemma keeps_await_promise: "keeps (await_promise env p)"
  by (auto simp: keeps_def await_promise_def Let_def inv_interleave split: option.split)

lemma keeps_acquire_permit: "keeps (acquire_permit env eff v)"
  unfolding keeps_def
proof (safe)
  fix s assume "I s"
  from inv_interleave [OF inv_admission [OF this, of "EC_acquire eff v"]]
  show "I (snd (acquire_permit env eff v s))"
    by (simp add: acquire_permit_def Let_def set_admission_def split: option.split)
qed

lemma permit_release_inv: "I s \<Longrightarrow> I (release_permit p s)"
  using inv_admission [of s "EC_release p"] by (simp add: release_permit_def set_admission_def)

lemma keeps_duplicate_parts: "keeps (copy_result cfg r)" "keeps (transitionDuplicate x st ts)"
  unfolding copy_result_def transitionDuplicate_def by (intro keeps_parts)+

lemma keeps_run_admitted: "keeps (run_admitted cfg env q d p)"
  unfolding run_admitted_def
  by (intro keeps_finally keeps_parts keeps_executeOwner permit_release_inv)

lemma keeps_admission:
  "(\<And>p. keeps (f p)) \<Longrightarrow> (\<And>r. keeps (g r)) \<Longrightarrow>
   keeps (case admission of EA_admitted p \<Rightarrow> f p | EA_refused r \<Rightarrow> g r)"
  by (cases admission) auto

lemma keeps_single_flight: "keeps (single_flight cfg env q d b ts)"
proof -
  have "keeps (case acquired of Acq_owner p \<Rightarrow> f p | Acq_duplicate p \<Rightarrow> g p | Acq_conflict \<Rightarrow> h)"
    if "\<And>p. keeps (f p)" "\<And>p. keeps (g p)" "keeps h" for acquired f g and h :: "('z, execution_result) exec"
    using that by (cases acquired) auto
  note this [where f1 = "own_execution cfg env q d ts" and g1 = "answer_duplicate cfg env q ts"
      and h1 = "answer_conflict env q ts"]
  moreover have "keeps (own_execution cfg env q d ts p)" for p
    unfolding own_execution_def
    by (intro keeps_parts keeps_keys keeps_acquire_permit keeps_admission keeps_run_admitted)
  moreover have "keeps (answer_duplicate cfg env q ts p)" for p
    unfolding answer_duplicate_def
    by (intro keeps_parts keeps_duplicate_parts keeps_await_promise)
  moreover have "keeps (answer_conflict env q ts)"
    unfolding answer_conflict_def by (intro keeps_parts)
  ultimately show ?thesis
    unfolding single_flight_def by (intro keeps_parts keeps_keys) blast
qed

lemma keeps_execute_local: "keeps (execute_local cfg env request)"
  unfolding execute_local_def with_validated_def by (intro keeps_parts keeps_single_flight)

lemma inv_forget: "I s \<Longrightarrow> I (forget_execution q b s)"
  using inv_idempotency [OF inv_records [of s "Rec_delete (xq_executionId q)"],
      of "Idem_release (xq_idempotencyKey q) (xq_actionFingerprint q) b"]
  by (simp add: forget_execution_def set_idempotency_def set_records_def)

lemma keeps_durable_owner: "keeps (durable_owner cfg env q)"
  unfolding durable_owner_def by (intro keeps_parts keeps_execute_local)

text \<open>With a durable coordinator that itself only runs the owner it is handed.\<close>

lemma keeps_execute:
  assumes "\<And>coordinator q' b owner. xc_coordinator cfg = Some coordinator \<Longrightarrow> keeps owner \<Longrightarrow>
    keeps (coordinator q' b owner)"
  shows "keeps (execute cfg env request)"
proof (cases "xc_coordinator cfg")
  case None
  then show ?thesis by (simp add: execute_def keeps_execute_local)
next
  case (Some coordinator)
  with assms keeps_durable_owner show ?thesis
    unfolding execute_def with_validated_def Some option.case
    by (intro keeps_parts keeps_finally inv_forget) auto
qed

end

text \<open>A process: requests served one after the other, each with its own answers.\<close>

definition serve :: "'z executor \<Rightarrow> 'z exec_env \<Rightarrow> 'z run \<Rightarrow> execution_request option \<Rightarrow> 'z run" where
  "serve cfg env s request = snd (execute_local cfg env request s)"

context executor_invariant
begin

lemma serve_keeps: "I s \<Longrightarrow> I (foldl (serve cfg env) s requests)"
  by (induction requests arbitrary: s) (auto simp: serve_def intro: keepsD [OF keeps_execute_local])

end

section \<open>The rest of the program\<close>

text \<open>
  The environment in which the rest of the program keeps a relation at every await: what
  would break it does not happen. An environment that keeps the relation is unchanged.
\<close>

definition relying :: "('z shared \<Rightarrow> 'z shared \<Rightarrow> bool) \<Rightarrow> 'z exec_env \<Rightarrow> 'z exec_env" where
  "relying R env = env\<lparr>xv_others := (\<lambda>n sh.
     if R sh (xv_others env n sh) then xv_others env n sh else sh)\<rparr>"

lemma relying_eq: "(\<And>n sh. R sh (xv_others env n sh)) \<Longrightarrow> relying R env = env"
  by (simp add: relying_def)

lemma relying_others:
  "xv_others (relying R env) n sh = sh \<or> R sh (xv_others (relying R env) n sh)"
  by (simp add: relying_def)

section \<open>The components' own invariants\<close>

definition components_ok :: "'z shared \<Rightarrow> bool" where
  "components_ok sh \<longleftrightarrow> policy_inv (sh_policy sh) \<and> cb_inv (sh_breaker sh) \<and>
     concurrency_inv (sh_admission sh) \<and> records_inv (sh_records sh)"

definition keeps_components :: "'z shared \<Rightarrow> 'z shared \<Rightarrow> bool" where
  "keeps_components sh sh' \<longleftrightarrow> (components_ok sh \<longrightarrow> components_ok sh')"

interpretation components: executor_invariant cfg "relying keeps_components env"
  "\<lambda>s. components_ok (rn_shared s)" for cfg :: "'z executor" and env
proof unfold_locales
  fix s :: "'z run" and n
  show "components_ok (rn_shared s) \<Longrightarrow> components_ok (rn_shared (interleave (relying keeps_components env) s))"
    using relying_others [of keeps_components env "rn_tick s" "rn_shared s"]
    by (auto simp: interleave_def keeps_components_def)
  show "components_ok (rn_shared s) \<Longrightarrow>
      components_ok (rn_shared (set_admission (concurrency_step (sh_admission (rn_shared s)) ecall) s))" for ecall
    using inv_acquire inv_timeout inv_release
    by (cases ecall) (auto simp: components_ok_def set_defs)
  show "components_ok (rn_shared s) \<Longrightarrow>
      consumePolicyDecisionForExecution (sh_policy (rn_shared s)) p ref args b = (True, st) \<Longrightarrow>
      components_ok (rn_shared (log_step (Policy_consumed p) (set_policy st s)))" for p ref args b st
    using policy_inv_consume [of "sh_policy (rn_shared s)" p ref args b]
    by (auto simp: components_ok_def set_defs)
qed (auto simp: components_ok_def set_defs intro: cb_inv_step records_inv_step)

section \<open>The ledger of policy decisions\<close>

definition policy_grants :: "external_step list \<Rightarrow> policy_decision list" where
  "policy_grants steps = concat (map (\<lambda>e. case e of Policy_consumed p \<Rightarrow> [p] | _ \<Rightarrow> []) steps)"

lemma policy_grants_simps [simp]:
  "policy_grants [] = []" "policy_grants (steps @ [e]) =
     policy_grants steps @ (case e of Policy_consumed p \<Rightarrow> [p] | _ \<Rightarrow> [])"
  by (simp_all add: policy_grants_def)

lemma policy_grants_no_grant: "no_grant e \<Longrightarrow> policy_grants (steps @ [e]) = policy_grants steps"
  by (cases e) (simp_all add: no_grant_def)

definition policy_ledger :: "'z run \<Rightarrow> bool" where
  "policy_ledger s \<longleftrightarrow> distinct (map po_ref (policy_grants (rn_log s))) \<and>
     (\<forall>p \<in> set (policy_grants (rn_log s)). spent (po_ref p) (sh_policy (rn_shared s)))"

definition keeps_spent :: "'z shared \<Rightarrow> 'z shared \<Rightarrow> bool" where
  "keeps_spent sh sh' \<longleftrightarrow> (\<forall>k. spent k (sh_policy sh) \<longrightarrow> spent k (sh_policy sh'))"

lemma consume_spends:
  "consumePolicyDecisionForExecution st p ref args b = (True, st') \<Longrightarrow> \<not> spent (po_ref p) st \<and> spent (po_ref p) st'"
  by (auto simp: consume_result spent_def dest: issued_length split: if_splits)

lemma policy_ledger_consume:
  assumes "policy_ledger s" "consumePolicyDecisionForExecution (sh_policy (rn_shared s)) p ref args b = (True, st)"
  shows "policy_ledger (log_step (Policy_consumed p) (set_policy st s))"
proof -
  have "spent k (sh_policy (rn_shared s)) \<Longrightarrow> spent k st" for k
    using spent_consume [of k "sh_policy (rn_shared s)" p ref args b] assms(2) by simp
  with assms consume_spends [OF assms(2)] show ?thesis
    by (auto simp: policy_ledger_def set_defs)
qed

interpretation policies: executor_invariant cfg "relying keeps_spent env" policy_ledger
  for cfg :: "'z executor" and env
proof unfold_locales
  fix s :: "'z run"
  show "policy_ledger s \<Longrightarrow> policy_ledger (interleave (relying keeps_spent env) s)"
    using relying_others [of keeps_spent env "rn_tick s" "rn_shared s"]
    by (auto simp: policy_ledger_def interleave_def keeps_spent_def)
  show "policy_ledger s \<Longrightarrow> no_grant e \<Longrightarrow> policy_ledger (log_step e s)" for e
    by (simp add: policy_ledger_def log_step_def policy_grants_no_grant del: policy_grants_simps)
  show "policy_ledger s \<Longrightarrow>
      consumePolicyDecisionForExecution (sh_policy (rn_shared s)) p ref args b = (True, st) \<Longrightarrow>
      policy_ledger (log_step (Policy_consumed p) (set_policy st s))" for p ref args b st
    by (rule policy_ledger_consume)
qed (auto simp: policy_ledger_def set_defs)


text \<open>
  C30. A policy decision lets at most one execution through: in a process that serves any
  requests, while the rest of the program never makes a spent decision unspent, no two grants
  of the whole history are for the same decision object.
\<close>

theorem policy_decision_grants_one_execution:
  assumes "\<And>n sh k. spent k (sh_policy sh) \<Longrightarrow> spent k (sh_policy (xv_others env n sh))"
    and "rn_log s = []"
  shows "distinct (map po_ref (policy_grants (rn_log (foldl (serve cfg env) s requests))))"
proof -
  have "relying keeps_spent env = env"
    using assms(1) by (intro relying_eq) (simp add: keeps_spent_def)
  moreover have "policy_ledger s" using assms(2) by (simp add: policy_ledger_def)
  ultimately have "policy_ledger (foldl (serve cfg env) s requests)"
    using policies.serve_keeps [of s cfg env requests] by simp
  then show ?thesis by (simp add: policy_ledger_def)
qed

section \<open>The ledger of execution authorizations\<close>

text \<open>
  The confirmation service over the in-memory repository as the executor's authorization
  consumer; its errors arrive as the exceptions they are.
\<close>

definition service_consumer ::
  "action_repository confirmation_service \<Rightarrow> action_env \<Rightarrow> nat \<Rightarrow> consume_command \<Rightarrow>
     action_repository world \<Rightarrow> (thrown, unit) result \<times> action_repository world" where
  "service_consumer sv aenv n c w =
     (case consumeExecutionAuthorization (in_memory sv) aenv c w of
        (Inl (LE_action e), w') \<Rightarrow> (Inl (Action_lifecycle_error (le_code e)), w')
      | (Inl (LE_domain e), w') \<Rightarrow> (Inl (Foreign_object No_failure_type), w')
      | (Inr z, w') \<Rightarrow> (Inr (), w'))"

definition consuming_with ::
  "action_repository confirmation_service \<Rightarrow> action_env \<Rightarrow> action_repository world executor \<Rightarrow>
     action_repository world executor" where
  "consuming_with sv aenv cfg = cfg\<lparr>xc_consumer := service_consumer sv aenv\<rparr>"

definition authorization_grants :: "external_step list \<Rightarrow> consume_command list" where
  "authorization_grants steps = concat (map (\<lambda>e. case e of Authorization_consumed c \<Rightarrow> [c] | _ \<Rightarrow> []) steps)"

lemma authorization_grants_simps [simp]:
  "authorization_grants [] = []" "authorization_grants (steps @ [e]) =
     authorization_grants steps @ (case e of Authorization_consumed c \<Rightarrow> [c] | _ \<Rightarrow> [])"
  by (simp_all add: authorization_grants_def)

lemma authorization_grants_no_grant:
  "no_grant e \<Longrightarrow> authorization_grants (steps @ [e]) = authorization_grants steps"
  by (cases e) (simp_all add: no_grant_def)

text \<open>
  The stored action a grant was for: confirmed and authorized, for this session, user, vehicle,
  tool and fingerprint, and now consumed.
\<close>

definition authorized_by :: "consume_command \<Rightarrow> pending_record \<Rightarrow> bool" where
  "authorized_by c r \<longleftrightarrow>
     pa_state (pd_action r) = AS_READY_FOR_EXECUTION \<and> pd_authorizationConsumedAt r \<noteq> None \<and>
     (\<exists>z. pd_authorization r = Some z \<and> ea_authorizationId z = cc_authorizationId c) \<and>
     pa_toolName (pd_action r) = cc_toolName c \<and> pa_sessionId (pd_action r) = cc_sessionId c \<and>
     pa_userId (pd_action r) = cc_userId c \<and> pa_vehicleId (pd_action r) = cc_vehicleId c \<and>
     pa_actionFingerprint (pd_action r) = cc_actionFingerprint c"

lemma authorized_by_evolves: "authorized_by c r \<Longrightarrow> evolves r r' \<Longrightarrow> authorized_by c r'"
  using evolves_frozen [of r r'] evolvesD(2,4,5) [of r r']
  by (auto simp: authorized_by_def)

definition authorization_ledger :: "action_repository world run \<Rightarrow> bool" where
  "authorization_ledger s \<longleftrightarrow>
     repository_inv (wo_repo (sh_consumer (rn_shared s))) \<and>
     distinct (map cc_actionId (authorization_grants (rn_log s))) \<and>
     (\<forall>c \<in> set (authorization_grants (rn_log s)).
        \<exists>r. wo_repo (sh_consumer (rn_shared s)) (cc_actionId c) = Some r \<and> authorized_by c r)"

definition keeps_actions :: "action_repository world shared \<Rightarrow> action_repository world shared \<Rightarrow> bool" where
  "keeps_actions sh sh' \<longleftrightarrow>
     (repository_inv (wo_repo (sh_consumer sh)) \<longrightarrow> repository_inv (wo_repo (sh_consumer sh'))) \<and>
     grows (wo_repo (sh_consumer sh)) (wo_repo (sh_consumer sh'))"

lemma ledger_grows:
  assumes "authorization_ledger s" "repository_inv (wo_repo w)" "grows (wo_repo (sh_consumer (rn_shared s))) (wo_repo w)"
  shows "authorization_ledger (set_consumer w s)"
proof -
  have "\<exists>r. wo_repo w (cc_actionId c) = Some r \<and> authorized_by c r"
    if "c \<in> set (authorization_grants (rn_log s))" for c
    using assms(1,3) that authorized_by_evolves unfolding authorization_ledger_def grows_def by meson
  with assms(1,2) show ?thesis by (simp add: authorization_ledger_def set_defs)
qed

lemma consumer_world:
  assumes "repository_inv (wo_repo w)" "service_consumer sv aenv n c w = (r, w')"
  shows "repository_inv (wo_repo w') \<and> grows (wo_repo w) (wo_repo w')"
proof -
  have "w' = service_step (in_memory sv) aenv w (Call_consume c)"
    using assms(2) by (auto simp: service_consumer_def split: prod.splits sum.splits lifecycle_error.splits)
  with mem.service_step_keeps [OF in_memory_ops assms(1), of sv aenv "Call_consume c"] show ?thesis
    by simp
qed

lemma consumer_grant:
  assumes "repository_inv (wo_repo w)" "service_consumer sv aenv n c w = (Inr (), w')"
  shows "\<exists>r r'. wo_repo w (cc_actionId c) = Some r \<and> pd_authorizationConsumedAt r = None \<and>
    wo_repo w' (cc_actionId c) = Some r' \<and> authorized_by c r'"
proof -
  obtain z where z: "consumeExecutionAuthorization (in_memory sv) aenv c w = (Inr z, w')"
    using assms(2) by (auto simp: service_consumer_def split: prod.splits sum.splits lifecycle_error.splits)
  from tripleD(2) [OF mem.consume_triple [OF in_memory_ops, where P = "\<lambda>v. v = wo_repo w"] assms(1) refl z]
  obtain r r' where r: "wo_repo w (cc_actionId c) = Some r" "consumption_matches (sv_sha (in_memory sv)) r c z"
    and r': "wo_repo w' (cc_actionId c) = Some r'" "pd_authorizationConsumedAt r' \<noteq> None"
    by auto
  have "evolves r r'"
    using consumer_world [OF assms] r(1) r'(1) unfolding grows_def by force
  moreover have "record_inv (cc_actionId c) r" using assms(1) r(1) by (simp add: repository_inv_def)
  ultimately have "authorized_by c r'"
    using r(2) r'(2) evolves_frozen [of r r'] evolvesD(2,4) [of r r']
    by (auto simp: authorized_by_def consumption_matches_def record_inv_def authorization_matches_def Let_def)
  with r r' show ?thesis by (auto simp: consumption_matches_def)
qed

lemma ledger_consume:
  assumes "authorization_ledger s" "service_consumer sv aenv n c (sh_consumer (rn_shared s)) = (Inr (), w)"
  shows "authorization_ledger (log_step (Authorization_consumed c) (set_consumer w s))"
proof -
  have inv: "repository_inv (wo_repo (sh_consumer (rn_shared s)))"
    using assms(1) by (simp add: authorization_ledger_def)
  note world = consumer_world [OF inv assms(2)]
  from consumer_grant [OF inv assms(2)] obtain r r' where
    r: "wo_repo (sh_consumer (rn_shared s)) (cc_actionId c) = Some r" "pd_authorizationConsumedAt r = None"
    and r': "wo_repo w (cc_actionId c) = Some r'" "authorized_by c r'" by blast
  have "cc_actionId c \<notin> cc_actionId ` set (authorization_grants (rn_log s))"
    using assms(1) r by (force simp: authorization_ledger_def authorized_by_def)
  with ledger_grows [OF assms(1)] world r' show ?thesis
    by (auto simp: authorization_ledger_def set_defs)
qed

interpretation authorizations: executor_invariant "consuming_with sv aenv cfg" "relying keeps_actions env"
  authorization_ledger for sv aenv cfg env
proof unfold_locales
  fix s :: "action_repository world run"
  show "authorization_ledger s \<Longrightarrow> authorization_ledger (interleave (relying keeps_actions env) s)"
    using relying_others [of keeps_actions env "rn_tick s" "rn_shared s"] ledger_grows [of s]
    by (auto simp: authorization_ledger_def interleave_def keeps_actions_def set_consumer_def)
  show "authorization_ledger s \<Longrightarrow> no_grant e \<Longrightarrow> authorization_ledger (log_step e s)" for e
    by (simp add: authorization_ledger_def log_step_def authorization_grants_no_grant
        del: authorization_grants_simps)
  show "authorization_ledger s \<Longrightarrow>
      xc_consumer (consuming_with sv aenv cfg) n c (sh_consumer (rn_shared s)) = (Inl e, w) \<Longrightarrow>
      authorization_ledger (set_consumer w s)" for n c e w
    using consumer_world [of "sh_consumer (rn_shared s)" sv aenv n c "Inl e" w] ledger_grows [of s w]
    by (auto simp: consuming_with_def authorization_ledger_def)
  show "authorization_ledger s \<Longrightarrow>
      xc_consumer (consuming_with sv aenv cfg) n c (sh_consumer (rn_shared s)) = (Inr (), w) \<Longrightarrow>
      authorization_ledger (log_step (Authorization_consumed c) (set_consumer w s))" for n c w
    by (rule ledger_consume) (auto simp: consuming_with_def)
qed (auto simp: authorization_ledger_def set_defs)

text \<open>
  C31. An execution authorization lets at most one execution through, and only what was
  confirmed: in a process whose executor consumes authorizations from the confirmation service,
  while the rest of the program only evolves the stored actions, no two authorization grants of
  the whole history are for the same action; and every grant is for a stored action that was
  confirmed and made ready for execution, for exactly the session, user, vehicle, tool and
  action fingerprint of the execution.
\<close>

theorem authorization_grants_one_execution:
  assumes "\<And>n sh. repository_inv (wo_repo (sh_consumer sh)) \<Longrightarrow>
      repository_inv (wo_repo (sh_consumer (xv_others env n sh)))"
    and "\<And>n sh. grows (wo_repo (sh_consumer sh)) (wo_repo (sh_consumer (xv_others env n sh)))"
    and "repository_inv (wo_repo (sh_consumer (rn_shared s)))" and "rn_log s = []"
    and "s' = foldl (serve (consuming_with sv aenv cfg) env) s requests"
  shows "distinct (map cc_actionId (authorization_grants (rn_log s'))) \<and>
    (\<forall>c \<in> set (authorization_grants (rn_log s')).
       \<exists>r. wo_repo (sh_consumer (rn_shared s')) (cc_actionId c) = Some r \<and> authorized_by c r)"
proof -
  have "relying keeps_actions env = env"
    using assms(1,2) by (intro relying_eq) (simp add: keeps_actions_def)
  moreover have "authorization_ledger s" using assms(3,4) by (simp add: authorization_ledger_def)
  ultimately have "authorization_ledger s'"
    using authorizations.serve_keeps [of s sv aenv cfg env requests] assms(5) by simp
  then show ?thesis by (simp add: authorization_ledger_def)
qed

end
