(* ===== verification/ExecutorExamples.thy ===== *)
theory ExecutorExamples
  imports ExecutorRecords ExecutorInvariants ActionExamples
begin

text \<open>
  The guarantees of the executor at the charging slot of \<open>ActionExamples\<close>: the authorized
  action is executed by an executor with one tool, the default retry policy, empty components
  and the confirmation service as its authorization consumer. The run is evaluated to its end.
\<close>

section \<open>The execution\<close>

definition slot_registry :: tool_registry where
  "slot_registry = (case register new_registry slot_tool of Inl e \<Rightarrow> new_registry | Inr r \<Rightarrow> r)"

definition default_retry :: retry_policy where
  "default_retry = \<lparr>rp_maxAttempts = 3, rp_backoffMs = [50, 100]\<rparr>"

definition slot_executor :: "action_repository world executor" where
  "slot_executor = consuming_with slot_service slot_env
     \<lparr>xc_registry = slot_registry, xc_retry = default_retry, xc_has_reconciler = False,
      xc_sha = (\<lambda>_. some_hash), xc_clone = Some, xc_consumer = (\<lambda>n c z. (Inr (), z)),
      xc_coordinator = None\<rparr>"

definition plain_env :: "'z exec_env" where
  "plain_env = \<lparr>xv_clock = (\<lambda>_. 2000), xv_emit = (\<lambda>_. True), xv_sleep = (\<lambda>_. True),
     xv_tool = (\<lambda>_. Answered (Inr J_null)), xv_reconcile = (\<lambda>_. None), xv_others = (\<lambda>_ sh. sh)\<rparr>"

definition slot_execution :: execution_request where
  "slot_execution = \<lparr>xq_executionId = ''exe-1'', xq_toolName = ''reserve_charging_slot'',
     xq_validatedArguments = slot_arguments, xq_actionFingerprint = some_hash, xq_runId = ''run-1'',
     xq_sessionId = ''ses-1'', xq_userId = ''user-1'', xq_vehicleId = ''veh-1'', xq_traceId = ''tr-1'',
     xq_riskLevel = R2, xq_policyDecision = slot_decision, xq_actionId = Some ''act-1'',
     xq_authorizationId = Some ''aut-1'', xq_contextSnapshotId = Some ''ctx:5'',
     xq_contextVersion = Some 5, xq_idempotencyKey = ''key-1'', xq_createdAt = 2000\<rparr>"

definition new_components :: "'z \<Rightarrow> 'z shared" where
  "new_components z = \<lparr>sh_policy = empty_policy_store,
     sh_breaker = \<lparr>cb_failureThreshold = 5, cb_cooldownMs = 20000, cb_circuits = Map.empty\<rparr>,
     sh_admission = \<lparr>ec_maxRead = 4, ec_maxWrite = 8, ec_maxQueue = 4096, ec_queueTimeoutMs = 30000,
       ec_activeVehicles = [], ec_queue = [], ec_readActive = 0, ec_writeActive = 0,
       ec_rejected = 0, ec_permits = [], ec_tickets = 0, ec_answers = []\<rparr>,
     sh_idempotency = new_idempotency, sh_records = Map.empty, sh_consumer = z\<rparr>"

definition starting_with :: "'z \<Rightarrow> 'z run" where
  "starting_with z = \<lparr>rn_shared = new_components z, rn_tick = 0, rn_log = []\<rparr>"

section \<open>Its evaluation\<close>

lemma slot_registered: "registry_get slot_registry ''reserve_charging_slot'' = Some slot_tool"
  by (simp add: slot_registry_def register_def new_registry_def validateDefinition_def registry_get_def
      slot_tool_def formal_tool_def names_ok_def snake_case_def blank_def FORBIDDEN_TOOL_NAMES_def
      CAPABILITY_NAMES_def SERVICE_NAMES_def is_safe_integer_def MAX_SAFE_INTEGER_def is_lower_def
      is_digit_def)

lemma slot_execution_fields [simp]:
  "xq_executionId slot_execution = ''exe-1''" "xq_toolName slot_execution = ''reserve_charging_slot''"
  "xq_validatedArguments slot_execution = slot_arguments" "xq_actionFingerprint slot_execution = some_hash"
  "xq_riskLevel slot_execution = R2" "xq_policyDecision slot_execution = slot_decision"
  "xq_vehicleId slot_execution = ''veh-1''" "xq_idempotencyKey slot_execution = ''key-1''"
  by (simp_all add: slot_execution_def)

lemma slot_command: "authorization_command slot_execution slot_tool = Some slot_consume"
  by (simp add: authorization_command_def slot_consume_def) (simp add: slot_execution_def)

lemma all_some_None: "all_some xs = None \<longleftrightarrow> None \<in> set xs"
  by (induction xs rule: all_some.induct) auto

lemma canonical_object_None: "canonical_object kvs = None \<longleftrightarrow> None \<in> snd ` set kvs"
  by (force simp: canonical_object_def all_some_None canonical_member_def image_iff)

lemma printable [simp]:
  "canonical_value (js_nat n) = None \<longleftrightarrow> False"
  "canonical_value (or_null J_str x) = None \<longleftrightarrow> False"
  "canonical_value (or_null js_nat v) = None \<longleftrightarrow> False"
  "canonical_value (or_null (\<lambda>t. J_str (f t)) u) = None \<longleftrightarrow> False"
  "canonical_value (evidence_json e) = None \<longleftrightarrow> False"
proof -
  show js: "canonical_value (js_nat n) = None \<longleftrightarrow> False" for n
    by (simp add: js_nat_def Let_def)
  show "canonical_value (or_null J_str x) = None \<longleftrightarrow> False"
    "canonical_value (or_null js_nat v) = None \<longleftrightarrow> False"
    "canonical_value (or_null (\<lambda>t. J_str (f t)) u) = None \<longleftrightarrow> False"
    using js by (simp_all add: or_null_def split: option.split)
  show "canonical_value (evidence_json e) = None \<longleftrightarrow> False"
    by (simp add: evidence_json_def canonical_object_None)
qed

lemma decision_printable [simp]: "canonical_value (policy_decision_json p) = None \<longleftrightarrow> False"
  by (simp add: policy_decision_json_def canonical_object_None eq_commute [of None])

lemma request_printable:
  "canonical_value (request_json q) = None \<longleftrightarrow> canonical_value (xq_validatedArguments q) = None"
  by (simp add: request_json_def canonical_object_None eq_commute [of None])

lemma slot_validated:
  "validated (\<lambda>_. some_hash) Some slot_registry issued (Some slot_execution) =
     Inr (slot_execution, slot_tool, some_hash)"
proof -
  have "canonical_value (request_json slot_execution) \<noteq> None"
    by (simp add: request_printable slot_arguments_def canonical_object_None)
  then have binding: "requestBinding (\<lambda>_. some_hash) slot_execution = Inr some_hash"
    by (auto simp: requestBinding_def canonicalSerialize_def)
  have ids: "list_all (safe_id 255) [xq_executionId slot_execution, xq_toolName slot_execution,
      xq_runId slot_execution, xq_sessionId slot_execution, xq_userId slot_execution,
      xq_vehicleId slot_execution, xq_traceId slot_execution, xq_idempotencyKey slot_execution]"
    by (simp add: slot_execution_def id_patterns)
  have rest: "is_fingerprint some_hash" "xq_createdAt slot_execution = 2000"
    "''reserve_charging_slot'' \<in> set FORMAL_TOOL_NAMES" "''reserve_charging_slot'' \<notin> set FORBIDDEN_TOOL_NAMES"
    "po_toolName slot_decision = ''reserve_charging_slot''" "po_riskLevel slot_decision = Some R2"
    by (simp_all add: is_fingerprint_def some_hash_def list_all_iff id_patterns FORMAL_TOOL_NAMES_def
        FORBIDDEN_TOOL_NAMES_def slot_decision_def) (simp add: slot_execution_def)
  show ?thesis
    using ids rest(1-2)
    by (simp add: validated_def validate_request_def rest(3-6) slot_registered low_risk_def binding
        timestampToEpochMs_def timestampMs_def)
qed

text \<open>The environment answers everything at once and nobody interferes.\<close>

lemma plain_env_fields [simp]:
  "xv_clock plain_env = (\<lambda>_. 2000)" "xv_emit plain_env = (\<lambda>_. True)" "xv_sleep plain_env = (\<lambda>_. True)"
  "xv_tool plain_env = (\<lambda>_. Answered (Inr J_null))" "xv_others plain_env = (\<lambda>_ sh. sh)"
  by (simp_all add: plain_env_def)

lemma plain_interleave [simp]: "interleave plain_env s = tick s"
  by (simp add: interleave_def tick_def)

lemma plain_now [simp]: "wp (now_utc plain_env) Q E N = (\<lambda>s. Q 2000 (tick s))"
  by (rule ext) (simp add: wp_def now_utc_def toUtcTimestamp_def)

lemma plain_emit [simp]:
  "wp (emit_event plain_env q ty n code ms) Q E N =
     (\<lambda>s. Q () (tick (log_step (Delivered (build_event q ty n code ms 2000)) (tick s))))"
  by (rule ext) (simp add: emit_event_def wp_def [of "deliver _ _"] deliver_def)

lemma plain_tool [simp]:
  "wp (call_tool plain_env q d n) Q E N =
     (\<lambda>s. Q J_null (tick (log_step (Tool_called (td_name d) (xq_validatedArguments q) n
        (xq_idempotencyKey q) (Inr J_null)) s)))"
  by (rule ext) (simp add: wp_def call_tool_def timeout_run_def)

lemma plain_records [simp]:
  "wp (on_records f) Q E N = (\<lambda>s. case f (sh_records (rn_shared s)) of
     Inl code \<Rightarrow> E (fault code) s
   | Inr (rs, r) \<Rightarrow> Q r (s\<lparr>rn_shared := (rn_shared s)\<lparr>sh_records := rs\<rparr>\<rparr>))"
  by (rule ext) (simp add: wp_def on_records_def split: sum.split)

lemma plain_permit [simp]:
  "wp (acquire_permit plain_env eff v) Q E N = (\<lambda>s.
     let c = sh_admission (rn_shared s);
         s' = tick (s\<lparr>rn_shared := (rn_shared s)\<lparr>sh_admission := concurrency_acquire c eff v\<rparr>\<rparr>)
     in case map_of (ec_answers (sh_admission (rn_shared s'))) (ec_tickets c) of
          None \<Rightarrow> N s' | Some a \<Rightarrow> Q a s')"
  by (rule ext) (simp add: wp_def acquire_permit_def Let_def split: option.split)

lemma slot_executor_fields [simp]:
  "xc_registry slot_executor = slot_registry" "xc_retry slot_executor = default_retry"
  "xc_has_reconciler slot_executor = False" "xc_sha slot_executor = (\<lambda>_. some_hash)"
  "xc_clone slot_executor = Some" "xc_consumer slot_executor = service_consumer slot_service slot_env"
  "rp_maxAttempts default_retry = 3"
  by (simp_all add: slot_executor_def consuming_with_def default_retry_def)

lemma slot_consumer:
  "\<exists>w. service_consumer slot_service slot_env n slot_consume (stored_world slot_ready) = (Inr (), w)"
  using slot_consumption by (auto simp: service_consumer_def)

lemma plain_consume:
  assumes "\<And>n. service_consumer slot_service slot_env n slot_consume (stored_world slot_ready) = (Inr (), w)"
  shows "wp (consume_authorization slot_executor plain_env slot_consume) Q E N = (\<lambda>s.
     if sh_consumer (rn_shared s) = stored_world slot_ready
     then Q () (tick (log_step (Authorization_consumed slot_consume)
            (s\<lparr>rn_shared := (rn_shared s)\<lparr>sh_consumer := w\<rparr>\<rparr>)))
     else wp (consume_authorization slot_executor plain_env slot_consume) Q E N s)"
  by (rule ext) (simp add: assms wp_def consume_authorization_def Let_def)

lemma slot_runs:
  "wp (execute_local slot_executor plain_env (Some slot_execution))
     (\<lambda>r s'. xr_status r = X_SUCCEEDED \<and> xr_attemptCount r = 1 \<and> \<not> xr_deduplicated r \<and>
        authorization_grants (rn_log s') = [slot_consume])
     (\<lambda>_ _. False) (\<lambda>_. False) (starting_with (stored_world slot_ready))"
proof -
  obtain w where w: "service_consumer slot_service slot_env n slot_consume (stored_world slot_ready) = (Inr (), w)" for n
    using slot_consumer by (auto simp: service_consumer_def)
  have tool: "td_sideEffect slot_tool" "circuit_key slot_tool = ''vehicleSimulator''"
    by (simp_all add: slot_tool_def formal_tool_def circuit_key_def)
  have dec: "po_decision slot_decision = PD_REQUIRE_CONFIRMATION" by (simp add: slot_decision_def)
  have nonempty: "circuit_key slot_tool \<noteq> []" by (simp add: tool)
  show ?thesis
    by (simp add: execute_local_def with_validated_def slot_validated starting_with_def new_components_def
        single_flight_def acquire_key_def on_shared_def idem_acquire_def new_idempotency_def
        own_execution_def create_record_def records_create_def Let_def tick_def tool
        concurrency_acquire_def canStart_def start_permit_def run_admitted_def executeOwner_def low_risk_def
        dec slot_command plain_consume [OF w] log_step_def run_authorized_def)
     (simp add: transition_record_def records_transition_def Let_def tick_def log_step_def
        run_attempts.simps [of slot_executor plain_env slot_execution slot_tool None 1]
        attempt_body_def attempt_success_def breaker_acquire_def breaker_succeeded_def cb_ops cb_entry_def
        cb_put_def fresh_entry_def add_attempt_def records_addAttempt_def on_shared_def ends_def finish_def
        get_record_def complete_key_def release_permit_def tool recovered_def authorization_grants_def)
qed

section \<open>A low-risk execution\<close>

definition media_tool_definition :: tool_definition where
  "media_tool_definition = createFormalToolDefinitions (\<lambda>_ _. True) ! 7"

definition media_registry :: tool_registry where
  "media_registry = (case register new_registry media_tool_definition of Inl e \<Rightarrow> new_registry | Inr r \<Rightarrow> r)"

definition media_execution :: "string \<Rightarrow> execution_request" where
  "media_execution key = \<lparr>xq_executionId = key, xq_toolName = ''set_media_volume'',
     xq_validatedArguments = pc_validatedArguments media_request, xq_actionFingerprint = some_hash,
     xq_runId = ''run-1'', xq_sessionId = ''ses-1'', xq_userId = ''user-1'', xq_vehicleId = ''veh-1'',
     xq_traceId = ''tr-1'', xq_riskLevel = R1, xq_policyDecision = media_decision, xq_actionId = None,
     xq_authorizationId = None, xq_contextSnapshotId = Some ''ctx:5'', xq_contextVersion = Some 5,
     xq_idempotencyKey = key, xq_createdAt = 2000\<rparr>"

lemma media_registered: "registry_get media_registry ''set_media_volume'' = Some media_tool_definition"
  by (simp add: media_registry_def register_def new_registry_def validateDefinition_def registry_get_def
      media_tool_definition_def media_tool formal_tool_def names_ok_def snake_case_def blank_def
      FORBIDDEN_TOOL_NAMES_def CAPABILITY_NAMES_def SERVICE_NAMES_def is_safe_integer_def
      MAX_SAFE_INTEGER_def is_lower_def is_digit_def)

lemma evaluate_subject:
  "po_toolName (fst (evaluate clone engine st input now)) = ri_toolName (normalized_input engine input now)"
  "po_riskLevel (fst (evaluate clone engine st input now)) = ri_riskLevel (normalized_input engine input now)"
  by (simp_all add: evaluate_def decision_def Let_def split: prod.split)

lemma media_decision_fields [simp]:
  "po_decision media_decision = PD_ALLOW" "po_toolName media_decision = ''set_media_volume''"
  "po_riskLevel media_decision = Some R1"
proof -
  have input: "normalized_input default_engine (Input media_request) (Some 2100) =
      normalize media_request (Some 2100) default_profile_map"
    by (simp add: normalized_input_def default_engine_def new_policy_engine_def)
  show "po_toolName media_decision = ''set_media_volume''" "po_riskLevel media_decision = Some R1"
    unfolding media_decision_def evaluate_subject input media_normalized by simp_all
  show "po_decision media_decision = PD_ALLOW"
    by (simp add: media_decision_def evaluate_decision normalized_input_def media_normalized
      DEFAULT_POLICY_RULES_def rule_def gives_def FORBIDDEN_TOOL_NAMES_def)
qed

lemma media_execution_fields [simp]:
  "xq_executionId (media_execution k) = k" "xq_toolName (media_execution k) = ''set_media_volume''"
  "xq_validatedArguments (media_execution k) = pc_validatedArguments media_request"
  "xq_actionFingerprint (media_execution k) = some_hash" "xq_riskLevel (media_execution k) = R1"
  "xq_policyDecision (media_execution k) = media_decision" "xq_vehicleId (media_execution k) = ''veh-1''"
  "xq_idempotencyKey (media_execution k) = k" "xq_runId (media_execution k) = ''run-1''"
  "xq_sessionId (media_execution k) = ''ses-1''" "xq_userId (media_execution k) = ''user-1''"
  "xq_traceId (media_execution k) = ''tr-1''" "xq_contextSnapshotId (media_execution k) = Some ''ctx:5''"
  "xq_contextVersion (media_execution k) = Some 5" "xq_createdAt (media_execution k) = 2000"
  by (simp_all add: media_execution_def)

lemma media_binding_of: "policyExecutionBinding (media_execution k) = Some media_binding"
  by (simp add: policyExecutionBinding_def media_binding_def some_hash_def id_patterns
      is_safe_integer_def MAX_SAFE_INTEGER_def)

lemma media_validated:
  assumes "safe_id 255 k"
  shows "validated (\<lambda>_. some_hash) Some media_registry media_store (Some (media_execution k)) =
     Inr (media_execution k, media_tool_definition, some_hash)"
proof -
  have arguments: "canonical_value (pc_validatedArguments media_request) \<noteq> None"
    by (simp add: media_request_def canonical_object_None eq_commute [of None])
  then have "canonical_value (request_json (media_execution k)) \<noteq> None"
    by (simp add: request_printable)
  then have binding: "requestBinding (\<lambda>_. some_hash) (media_execution k) = Inr some_hash"
    by (auto simp: requestBinding_def canonicalSerialize_def)
  have fingerprint: "request_fingerprint (\<lambda>_. some_hash) (media_execution k) ''ctx:5'' 5 = Inr some_hash"
    using arguments
    by (auto simp: request_fingerprint_def createActionFingerprint_def canonicalSerialize_def
        fingerprint_object_def canonical_object_None eq_commute [of None] split: option.split)
  have tool: "td_ref media_tool_definition = 7" "td_name media_tool_definition = ''set_media_volume''"
    "td_riskLevel media_tool_definition = R1" "td_input_ok media_tool_definition v" for v
    by (simp_all add: media_tool_definition_def media_tool formal_tool_def)
  have issued: "issued_for_request media_store (media_execution k) media_tool_definition"
    by (simp add: issued_for_request_def media_binding_of tool isPolicyDecisionIssuedForExecution_def
      isPolicyDecisionIssuedFor_def isPolicyDecisionIssuedByEngine_def media_bound)
  have ids: "list_all (safe_id 255) [k, ''set_media_volume'', ''run-1'', ''ses-1'', ''user-1'', ''veh-1'',
      ''tr-1'', k]"
    using assms by (simp add: id_patterns)
  have names: "is_fingerprint some_hash" "''set_media_volume'' \<in> set FORMAL_TOOL_NAMES"
    "''set_media_volume'' \<notin> set FORBIDDEN_TOOL_NAMES"
    by (simp_all add: is_fingerprint_def some_hash_def list_all_iff id_patterns FORMAL_TOOL_NAMES_def
        FORBIDDEN_TOOL_NAMES_def)
  show ?thesis
    using ids names
    by (simp add: validated_def validate_request_def media_registered low_risk_def binding tool
        timestampToEpochMs_def timestampMs_def validate_low_risk_def fingerprint issued)
qed

definition media_executor :: "unit executor" where
  "media_executor =
     \<lparr>xc_registry = media_registry, xc_retry = default_retry, xc_has_reconciler = False,
      xc_sha = (\<lambda>_. some_hash), xc_clone = Some, xc_consumer = (\<lambda>n c z. (Inr (), z)),
      xc_coordinator = None\<rparr>"

definition media_start :: "unit run" where
  "media_start = \<lparr>rn_shared = (new_components ())\<lparr>sh_policy := media_store\<rparr>, rn_tick = 0, rn_log = []\<rparr>"

lemma media_executor_fields [simp]:
  "xc_registry media_executor = media_registry" "xc_retry media_executor = default_retry"
  "xc_sha media_executor = (\<lambda>_. some_hash)" "xc_clone media_executor = Some"
  by (simp_all add: media_executor_def)

lemma media_runs:
  "wp (execute_local media_executor plain_env (Some (media_execution ''exe-1'')))
     (\<lambda>r s'. xr_status r = X_SUCCEEDED \<and> xr_attemptCount r = 1 \<and>
        policy_grants (rn_log s') = [media_decision])
     (\<lambda>_ _. False) (\<lambda>_. False) media_start"
proof -
  have id: "safe_id 255 ''exe-1''" by (simp add: id_patterns)
  have tool: "td_ref media_tool_definition = 7" "td_sideEffect media_tool_definition"
    "circuit_key media_tool_definition = ''vehicleSimulator''"
    by (simp_all add: media_tool_definition_def media_tool formal_tool_def circuit_key_def)
  show ?thesis
    by (simp add: execute_local_def with_validated_def media_validated [OF id] media_start_def
        new_components_def single_flight_def acquire_key_def on_shared_def idem_acquire_def
        new_idempotency_def own_execution_def create_record_def records_create_def Let_def tick_def tool
        concurrency_acquire_def canStart_def start_permit_def run_admitted_def executeOwner_def low_risk_def
        log_step_def run_authorized_def consume_policy_def media_binding_of media_consumed)
     (simp add: transition_record_def records_transition_def Let_def tick_def log_step_def
        run_attempts.simps [of media_executor plain_env "media_execution ''exe-1''" media_tool_definition None 1]
        attempt_body_def attempt_success_def breaker_acquire_def breaker_succeeded_def cb_ops cb_entry_def
        cb_put_def fresh_entry_def add_attempt_def records_addAttempt_def on_shared_def ends_def finish_def
        get_record_def complete_key_def release_permit_def tool recovered_def policy_grants_def)
qed

section \<open>The guarantees at these executions\<close>

lemma default_retry_new: "new_retry_policy None None = Inr default_retry"
  by (simp add: new_retry_policy_def default_retry_def is_safe_integer_def MAX_SAFE_INTEGER_def)

lemma iso_2000: "iso_range 2000"
  by (simp add: iso_range_def MIN_ISO_MS_def MAX_ISO_MS_def)


lemma new_components_ok: "components_ok (new_components z)"
proof -
  have "cb_fresh (sh_breaker (new_components z))"
    unfolding cb_fresh_def
    by (rule exI [of _ None], rule exI [of _ None])
      (simp add: new_circuit_breaker_def new_components_def is_safe_integer_def MAX_SAFE_INTEGER_def)
  moreover have "new_concurrency \<lparr>co_maxRead = None, co_maxWrite = None, co_maxQueue = None,
      co_queueTimeoutMs = None\<rparr> = Inr (sh_admission (new_components z))"
    by (simp add: new_concurrency_def or_default_def positiveInteger_def new_components_def
        is_safe_integer_def MAX_SAFE_INTEGER_def)
  ultimately show ?thesis
    by (auto simp: components_ok_def intro: cb_inv_fresh inv_new)
      (simp_all add: new_components_def policy_inv_def empty_policy_store_def records_inv_def)
qed


theorem policy_decision_grants_one_execution_witness:
  "distinct (map po_ref (policy_grants (rn_log (foldl (serve media_executor plain_env) media_start
     [Some (media_execution ''exe-1''), Some (media_execution ''exe-2'')]))))"
  by (rule policy_decision_grants_one_execution) (simp_all add: media_start_def)

theorem authorization_grants_one_execution_witness:
  "\<exists>s'. s' = foldl (serve slot_executor plain_env) (starting_with (stored_world slot_ready))
       [Some slot_execution, Some (slot_execution\<lparr>xq_idempotencyKey := ''key-2'', xq_executionId := ''exe-2''\<rparr>)] \<and>
     distinct (map cc_actionId (authorization_grants (rn_log s')))"
proof -
  let ?requests = "[Some slot_execution,
    Some (slot_execution\<lparr>xq_idempotencyKey := ''key-2'', xq_executionId := ''exe-2''\<rparr>)]"
  have "repository_inv (wo_repo (sh_consumer (rn_shared (starting_with (stored_world slot_ready)))))"
    "rn_log (starting_with (stored_world slot_ready)) = []"
    using slot_ready_inv by (simp_all add: starting_with_def new_components_def)
  from authorization_grants_one_execution [OF _ _ this, of plain_env
      "foldl (serve slot_executor plain_env) (starting_with (stored_world slot_ready)) ?requests"
      slot_service slot_env _ ?requests, folded slot_executor_def]
  show ?thesis by (simp add: slot_executor_def)
qed

end
