(* ===== verification/ExecutorSettles.thy ===== *)
theory ExecutorSettles
  imports ExecutorGuarantees
begin

text \<open>
  Termination of an admitted execution. The executor awaits nothing that may never answer
  once it is admitted: the event sink, the sleeper, the reconciler and the tool behind its
  timeout settle, and the attempts are bounded.
\<close>

section \<open>Code that settles\<close>

definition settles :: "('z, 'a) exec \<Rightarrow> bool" where
  "settles m \<longleftrightarrow> (\<forall>s. fst (m s) \<noteq> Pending)"

named_theorems settles_rules "code that settles"

lemma settles_basic [settles_rules]:
  "settles (as_return x)" "settles (as_throw e)" "settles (as_get f)" "settles (as_update g)"
  by (simp_all add: settles_def as_return_def as_throw_def as_get_def as_update_def split: prod.split)

lemma settles_try [settles_rules]:
  "settles m \<Longrightarrow> (\<And>e. settles (h e)) \<Longrightarrow> (\<And>x. settles (k x)) \<Longrightarrow> settles (as_try m h k)"
  unfolding settles_def as_try_def by (auto split: prod.split settled.split) (metis fst_conv)

lemma settles_then [settles_rules]: "settles m \<Longrightarrow> (\<And>x. settles (f x)) \<Longrightarrow> settles (as_then m f)"
  unfolding as_then_is_try by (intro settles_rules)

lemma settles_catch [settles_rules]: "settles m \<Longrightarrow> (\<And>e. settles (h e)) \<Longrightarrow> settles (as_catch m h)"
  unfolding as_catch_is_try by (intro settles_rules)

lemma settles_finally: "settles m \<Longrightarrow> settles (as_finally m f)"
  unfolding settles_def as_finally_def by (auto split: prod.split settled.split) (metis fst_conv)

lemma settles_cases [settles_rules]:
  "settles m \<Longrightarrow> settles n \<Longrightarrow> settles (if b then m else n)"
  "settles m \<Longrightarrow> (\<And>x. settles (f x)) \<Longrightarrow> settles (case v of None \<Rightarrow> m | Some x \<Rightarrow> f x)"
  "(\<And>x. settles (g x)) \<Longrightarrow> (\<And>x. settles (h x)) \<Longrightarrow> settles (case w of Inl x \<Rightarrow> g x | Inr y \<Rightarrow> h y)"
  "(\<And>x y. settles (k x y)) \<Longrightarrow> settles (case u of (x, y) \<Rightarrow> k x y)"
  "settles m \<Longrightarrow> (\<And>st. settles (j st)) \<Longrightarrow>
     settles (case permit of Permit_denied \<Rightarrow> m | Permit_allowed st \<Rightarrow> j st)"
  by (simp_all split: option.split sum.split prod.split circuit_permit.split)

lemma settles_primitives [settles_rules]:
  "settles (now_utc env)" "settles (deliver env ev)" "settles (sleep env ms)" "settles (call_tool env q d n)"
  "settles (reconcile env)" "settles (on_records f)" "settles (on_shared g)"
  by (auto simp: settles_def now_utc_def deliver_def sleep_def call_tool_def reconcile_def on_records_def
      on_shared_def as_update_def Let_def split: sum.split option.split prod.split)

lemma settles_steps [settles_rules]:
  "settles (emit_event env q ty n code ms)" "settles (breaker_acquire env key)"
  "settles (breaker_failed env key)" "settles (breaker_succeeded key)" "settles (get_record x)"
  "settles (transition_record x st ts)" "settles (create_record q ts)" "settles (add_attempt x a)"
  unfolding emit_event_def breaker_acquire_def breaker_failed_def breaker_succeeded_def get_record_def
    transition_record_def create_record_def add_attempt_def
  by (intro settles_rules)+

lemma settles_finish [settles_rules]:
  "settles (reject env q code b)" "settles (finish env q st n se v r)" "settles (finish_error env q st n code)"
  "settles (finishAfterSuccessfulEffectEventFailure env q d n)"
  "settles (finishAfterFailedAttemptEventFailure env q c n)" "settles m \<Longrightarrow> settles (ends m)"
  unfolding reject_def finish_def finish_error_def finishAfterSuccessfulEffectEventFailure_def
    finishAfterFailedAttemptEventFailure_def ends_def
  by (intro settles_rules; assumption?)+

lemma settles_attempt [settles_rules]:
  "settles (attempt_success cfg env q d ts rc n)" "settles (attempt_failure cfg env q d half ts n e)"
  "settles (attempt_body cfg env q d rc n)"
  unfolding attempt_body_def attempt_success_def attempt_failure_def ambiguous_failure_def
    definite_failure_def circuit_after_failure_def reconciliation_def schedule_retry_def Let_def
  by (intro settles_rules)+

lemma settles_run_attempts [settles_rules]: "settles (run_attempts cfg env q d rc n)"
proof (induction "nat (rp_maxAttempts (xc_retry cfg) + 1 - n)" arbitrary: n rc)
  case 0
  then show ?case by (subst run_attempts.simps) (auto intro: settles_rules)
next
  case (Suc k)
  then have "settles (run_attempts cfg env q d rc' (n + 1))" for rc' by auto
  then show ?case by (subst run_attempts.simps) (intro settles_rules)
qed

lemma settles_executeOwner [settles_rules]: "settles (executeOwner cfg env q d)"
proof -
  have "settles (consume_policy q d)"
    unfolding consume_policy_def by (intro settles_rules)
  moreover have "settles (consume_authorization cfg env c)" for c
    by (auto simp: settles_def consume_authorization_def Let_def split: prod.split sum.split)
  ultimately show ?thesis
    unfolding executeOwner_def run_authorized_def Let_def by (intro settles_rules)
qed

section \<open>The permit is given back\<close>

definition permit_live :: "concurrency \<Rightarrow> nat \<Rightarrow> bool" where
  "permit_live c p \<longleftrightarrow> p < length (ec_permits c) \<and> \<not> pe_released (ec_permits c ! p)"

lemma start_permit_not_live:
  "p < length (ec_permits c) \<Longrightarrow> \<not> permit_live c p \<Longrightarrow>
   p < length (ec_permits (start_permit c t s v)) \<and> \<not> permit_live (start_permit c t s v) p"
  by (auto simp: permit_live_def start_permit_def Let_def nth_append)

lemma drain_not_live:
  "p < length (ec_permits c) \<Longrightarrow> \<not> permit_live c p \<Longrightarrow> \<not> permit_live (drain c) p"
proof (induction c rule: drain.induct)
  case (1 c)
  show ?case
  proof (cases "find_index (startable c) (ec_queue c)")
    case None
    with 1 show ?thesis by (simp add: drain.simps [of c])
  next
    case (Some i)
    have "p < length (ec_permits (drain_one c i)) \<and> \<not> permit_live (drain_one c i) p"
      using 1(2,3) start_permit_not_live [of p "c\<lparr>ec_queue := remove_nth i (ec_queue c)\<rparr>"]
      by (simp add: drain_one_def Let_def permit_live_def)
    with 1(1) [OF Some] Some show ?thesis by (simp add: drain.simps [of c])
  qed
qed

lemma release_not_live: "\<not> permit_live (concurrency_release c p) p"
proof (cases "p < length (ec_permits c) \<and> \<not> pe_released (ec_permits c ! p)")
  case True
  then have "\<not> permit_live (drain c1) p"
    if "ec_permits c1 = (ec_permits c)[p := (ec_permits c ! p)\<lparr>pe_released := True\<rparr>]" for c1
    using that by (intro drain_not_live) (simp_all add: permit_live_def)
  with True show ?thesis by (simp add: concurrency_release_def Let_def)
next
  case False
  then show ?thesis by (auto simp: concurrency_release_def permit_live_def)
qed


end
