(* ===== verification/Numbers.thy ===== *)
theory Numbers
  imports Complex_Main
begin

text \<open>
  The numbers of the language where a component computes with fractions. A finite number is a
  rational that the 64-bit format represents; an arithmetic operation is the exact one followed
  by \<open>double\<close>, which rounds to the nearest representable number, ties to the even significand.
  The quantities computed with lie between 1e-300 and 1e300 or are 0, so overflow and the
  subnormal range do not occur and are left out.
\<close>

definition round_half_even :: "rat \<Rightarrow> int" where
  "round_half_even x =
     (let f = \<lfloor>x\<rfloor>; r = x - of_int f in
      if r < 1 / 2 then f else if 1 / 2 < r then f + 1 else if even f then f else f + 1)"

fun bits :: "nat \<Rightarrow> nat" where
  "bits n = (if n = 0 then 0 else Suc (bits (n div 2)))"

declare bits.simps [simp del]

definition power_of_two :: "int \<Rightarrow> rat" where
  "power_of_two e = (if 0 \<le> e then 2 ^ nat e else 1 / 2 ^ nat (- e))"

text \<open>The exponent of the leading bit of a number other than zero.\<close>

definition leading_bit :: "rat \<Rightarrow> int" where
  "leading_bit x =
     (if 1 \<le> \<bar>x\<bar> then int (bits (nat \<lfloor>\<bar>x\<bar>\<rfloor>)) - 1
      else let k = int (bits (nat \<lfloor>1 / \<bar>x\<bar>\<rfloor>))
           in if power_of_two (1 - k) \<le> \<bar>x\<bar> then 1 - k else - k)"

definition double :: "rat \<Rightarrow> rat" where
  "double x =
     (if x = 0 then 0
      else let unit_last = power_of_two (leading_bit x - 52)
           in of_int (round_half_even (x / unit_last)) * unit_last)"

definition times :: "rat \<Rightarrow> rat \<Rightarrow> rat" where
  "times x y = double (x * y)"

definition plus :: "rat \<Rightarrow> rat \<Rightarrow> rat" where
  "plus x y = double (x + y)"

text \<open>\<open>Math.round\<close> rounds halves up; \<open>Math.ceil\<close>.\<close>

definition math_round :: "rat \<Rightarrow> rat" where
  "math_round x = of_int \<lfloor>x + 1 / 2\<rfloor>"

definition math_ceil :: "rat \<Rightarrow> rat" where
  "math_ceil x = of_int \<lceil>x\<rceil>"

text \<open>\<open>Math.round(x * 10) / 10\<close>: one digit after the point.\<close>

definition one_decimal :: "rat \<Rightarrow> rat" where
  "one_decimal x = double (math_round (times x 10) / 10)"

section \<open>Rounding keeps integer bounds\<close>

lemma bits_le: "n < 2 ^ k \<Longrightarrow> bits n \<le> k"
proof (induction n arbitrary: k rule: bits.induct)
  case (1 n)
  show ?case
  proof (cases "n = 0")
    case False
    with "1.prems" obtain j where k: "k = Suc j" by (cases k) auto
    with "1.prems" have "n div 2 < 2 ^ j" by auto
    with "1.IH" [OF False] k False show ?thesis by (simp add: bits.simps [of n])
  qed (simp add: bits.simps)
qed

lemma bits_pos: "1 \<le> n \<Longrightarrow> 1 \<le> bits n"
  by (simp add: bits.simps)

lemma round_between: "of_int a \<le> x \<Longrightarrow> x \<le> of_int b \<Longrightarrow> a \<le> round_half_even x \<and> round_half_even x \<le> b"
  by (auto simp: round_half_even_def Let_def) linarith+

lemma leading_bit_less:
  assumes "\<bar>x\<bar> < 2 ^ k" and "x \<noteq> 0" and "0 < k"
  shows "leading_bit x < int k"
proof (cases "1 \<le> \<bar>x\<bar>")
  case True
  have "\<lfloor>\<bar>x\<bar>\<rfloor> < 2 ^ k" using assms by (simp add: floor_less_iff)
  then have "nat \<lfloor>\<bar>x\<bar>\<rfloor> < 2 ^ k" by (simp add: nat_less_iff)
  then show ?thesis using True bits_le by (fastforce simp: leading_bit_def)
next
  case False
  have "1 \<le> nat \<lfloor>1 / \<bar>x\<bar>\<rfloor>"
    using False assms by (simp add: le_nat_iff le_floor_iff)
  then have "1 \<le> bits (nat \<lfloor>1 / \<bar>x\<bar>\<rfloor>)" by (rule bits_pos)
  then show ?thesis using False assms(3) by (auto simp: leading_bit_def Let_def)
qed

text \<open>A number strictly within 53 bits stays within integer bounds when it is rounded.\<close>

lemma double_between:
  assumes "of_int a \<le> x" "x \<le> of_int b" "\<bar>x\<bar> < 2 ^ 53"
  shows "of_int a \<le> double x \<and> double x \<le> of_int b"
proof (cases "x = 0")
  case False
  define n where "n = nat (52 - leading_bit x)"
  have u: "power_of_two (leading_bit x - 52) = 1 / 2 ^ n"
    using leading_bit_less [OF assms(3) False, simplified] by (auto simp: power_of_two_def n_def)
  have "of_int (a * 2 ^ n) \<le> x * 2 ^ n" "x * 2 ^ n \<le> of_int (b * 2 ^ n)"
    using assms(1,2) by simp_all
  from round_between [OF this] have "(of_int (a * 2 ^ n) :: rat) \<le> of_int (round_half_even (x * 2 ^ n))"
    "(of_int (round_half_even (x * 2 ^ n)) :: rat) \<le> of_int (b * 2 ^ n)"
    unfolding of_int_le_iff by blast+
  then show ?thesis using False by (simp add: double_def u Let_def field_simps)
qed (use assms in \<open>simp add: double_def\<close>)

end
