(* ===== verification/Determinism.thy ===== *)
theory Determinism
  imports Domain Numbers "HOL-Library.Word"
begin

unbundle bit_operations_syntax

text \<open>
  The deterministic numbers and identifiers of the vehicle simulator,
  \<open>services/vehicle-simulator/src/determinism.ts\<close>, and its errors, \<open>errors.ts\<close>. The bitwise
  operators of the language work on 32-bit words: \<open>x >>> n\<close> is \<open>drop_bit n x\<close> and
  \<open>Math.imul\<close> is the product of words.
\<close>

section \<open>Errors\<close>

datatype sim_error_code =
  SE_VALIDATION_ERROR
| SE_SCENARIO_NOT_FOUND
| SE_INVALID_TRANSITION
| SE_STATION_NOT_FOUND
| SE_NO_AVAILABLE_SLOT
| SE_RESERVATION_NOT_FOUND
| SE_FAULT_INJECTED
| SE_INTERNAL_ERROR

record sim_error =
  se_code :: sim_error_code
  se_statusCode :: int

text \<open>What the simulator throws: an error of its own, or one of the domain parsers.\<close>

datatype sim_failure = Simulator_error sim_error | Domain_error domain_error

definition sim_fail :: "sim_error_code \<Rightarrow> int \<Rightarrow> (sim_failure, 'a) result" where
  "sim_fail code status = Inl (Simulator_error \<lparr>se_code = code, se_statusCode = status\<rparr>)"

abbreviation sim_invalid :: "(sim_failure, 'a) result" where
  "sim_invalid \<equiv> sim_fail SE_VALIDATION_ERROR 400"

section \<open>Deterministic numbers\<close>

definition xor_shift :: "nat \<Rightarrow> 32 word \<Rightarrow> 32 word" where
  "xor_shift n x = x XOR drop_bit n x"

definition mix32 :: "32 word \<Rightarrow> 32 word" where
  "mix32 x =
     (let mixed = xor_shift 16 x;
          mixed = mixed * 0x7feb352d;
          mixed = xor_shift 15 mixed;
          mixed = mixed * 0x846ca68b
      in xor_shift 16 mixed)"

definition textHash :: "string \<Rightarrow> 32 word" where
  "textHash text = foldl (\<lambda>hash c. (hash XOR of_char c) * 16777619) 2166136261 text"

text \<open>A seed is any finite number until it is checked.\<close>

definition is_integer :: "rat \<Rightarrow> bool" where
  "is_integer x \<longleftrightarrow> x = of_int \<lfloor>x\<rfloor>"

definition validateSeed :: "rat \<Rightarrow> (sim_failure, int) result" where
  "validateSeed seed =
     (if \<not> is_integer seed \<or> \<not> is_safe_integer \<lfloor>seed\<rfloor> \<or> seed < 0 \<or> seed > 0xffffffff
      then sim_invalid else Inr \<lfloor>seed\<rfloor>)"

definition mixed_word :: "int \<Rightarrow> string \<Rightarrow> int \<Rightarrow> 32 word" where
  "mixed_word seed namespace sequence =
     mix32 (word_of_int seed XOR textHash namespace XOR mix32 (word_of_int sequence))"

definition deterministicUnit :: "int \<Rightarrow> string \<Rightarrow> int \<Rightarrow> (sim_failure, rat) result" where
  "deterministicUnit seed namespace sequence =
     and_then (validateSeed (of_int seed)) (\<lambda>seed.
       Inr (of_nat (unat (mixed_word seed namespace sequence)) / 0x100000000))"

section \<open>Identifiers\<close>

datatype id_namespace = NS_route | NS_reservation | NS_assistance

fun namespace_text :: "id_namespace \<Rightarrow> string" where
  "namespace_text NS_route = ''route''"
| "namespace_text NS_reservation = ''reservation''"
| "namespace_text NS_assistance = ''assistance''"

definition hex_char :: "nat \<Rightarrow> char" where
  "hex_char d = (if d < 10 then char_of (48 + d) else char_of (87 + d))"

fun hex_string :: "nat \<Rightarrow> string" where
  "hex_string n = (if n < 16 then [hex_char n] else hex_string (n div 16) @ [hex_char (n mod 16)])"

declare hex_string.simps [simp del]

definition padStart :: "nat \<Rightarrow> string \<Rightarrow> string" where
  "padStart n s = replicate (n - length s) (CHR ''0'') @ s"

record id_allocator =
  ia_seed :: int
  ia_counters :: "id_namespace \<Rightarrow> int option"

definition new_id_allocator :: "rat \<Rightarrow> (sim_failure, id_allocator) result" where
  "new_id_allocator seed =
     and_then (validateSeed seed) (\<lambda>seed. Inr \<lparr>ia_seed = seed, ia_counters = Map.empty\<rparr>)"

definition counter :: "id_allocator \<Rightarrow> id_namespace \<Rightarrow> int" where
  "counter a ns = (case ia_counters a ns of None \<Rightarrow> 0 | Some n \<Rightarrow> n)"

definition allocated_id :: "id_namespace \<Rightarrow> int \<Rightarrow> int \<Rightarrow> string" where
  "allocated_id ns seed sequence =
     namespace_text ns @ ''-'' @ padStart 8 (hex_string (nat seed)) @ ''-'' @
     padStart 6 (nat_string (nat sequence))"

definition ids_next :: "id_namespace \<Rightarrow> id_allocator \<Rightarrow> string \<times> id_allocator" where
  "ids_next ns a =
     (let sequence = counter a ns + 1
      in (allocated_id ns (ia_seed a) sequence, a\<lparr>ia_counters := (ia_counters a)(ns \<mapsto> sequence)\<rparr>))"

definition ids_snapshot :: "id_allocator \<Rightarrow> id_namespace \<Rightarrow> int option" where
  "ids_snapshot a = ia_counters a"

definition ids_restore :: "(id_namespace \<Rightarrow> int option) \<Rightarrow> id_allocator \<Rightarrow> id_allocator" where
  "ids_restore counters a = a\<lparr>ia_counters := counters\<rparr>"

section \<open>The mixer is a bijection\<close>

text \<open>
  The inverse of the mixer: a shift by half the width undoes itself, the shift by 15 needs one
  more term, and the multipliers are odd, so they have inverses modulo the word size.
\<close>

definition unshift_15 :: "32 word \<Rightarrow> 32 word" where
  "unshift_15 x = x XOR drop_bit 15 x XOR drop_bit 30 x"

definition unmix32 :: "32 word \<Rightarrow> 32 word" where
  "unmix32 y = xor_shift 16 (unshift_15 (xor_shift 16 y * 1124208931) * 493478565)"

lemma xor_shift_16 [simp]: "xor_shift 16 (xor_shift 16 x) = x"
  by (rule bit_eqI) (auto simp: xor_shift_def bit_simps dest: bit_imp_le_length)

lemma xor_shift_15 [simp]: "unshift_15 (xor_shift 15 x) = x" "xor_shift 15 (unshift_15 x) = x"
  by (rule bit_eqI, auto simp: xor_shift_def unshift_15_def bit_simps dest: bit_imp_le_length)+

lemma inverse_multipliers:
  "0x7feb352d * 493478565 = (1 :: 32 word)" "493478565 * 0x7feb352d = (1 :: 32 word)"
  "0x846ca68b * 1124208931 = (1 :: 32 word)" "1124208931 * 0x846ca68b = (1 :: 32 word)"
  by simp_all

lemma multipliers [simp]:
  "(x * 0x7feb352d) * 493478565 = x" "(x * 493478565) * 0x7feb352d = x"
  "(x * 0x846ca68b) * 1124208931 = x" "(x * 1124208931) * 0x846ca68b = x"
  for x :: "32 word"
  by (simp_all only: mult.assoc inverse_multipliers mult_1_right)

lemma unmix_mix [simp]: "unmix32 (mix32 x) = x"
  unfolding unmix32_def mix32_def Let_def by simp

lemma mix_unmix [simp]: "mix32 (unmix32 y) = y"
  unfolding unmix32_def mix32_def Let_def by simp

lemma mix32_inject [simp]: "mix32 x = mix32 y \<longleftrightarrow> x = y"
  by (metis unmix_mix)


lemma xor_left_cancel [simp]: "a XOR x = a XOR y \<longleftrightarrow> x = y" for x y :: "32 word"
proof
  assume "a XOR x = a XOR y"
  then have "a XOR (a XOR x) = a XOR (a XOR y)" by simp
  then show "x = y" by (simp flip: xor.assoc)
qed simp

lemma xor_right_cancel [simp]: "x XOR b = y XOR b \<longleftrightarrow> x = y" for x y :: "32 word"
  by (simp add: xor.commute [of _ b])

lemma mixed_word_sequence [simp]:
  "mixed_word seed ns i = mixed_word seed ns j \<longleftrightarrow> i mod 2 ^ 32 = j mod 2 ^ 32"
  by (simp add: mixed_word_def word_of_int_eq_iff take_bit_eq_mod)

lemma mixed_word_seed [simp]:
  "mixed_word s ns i = mixed_word t ns i \<longleftrightarrow> s mod 2 ^ 32 = t mod 2 ^ 32"
  by (simp add: mixed_word_def word_of_int_eq_iff take_bit_eq_mod)

lemma validateSeed_Inr [simp]:
  "validateSeed x = Inr s \<longleftrightarrow> x = of_int s \<and> 0 \<le> s \<and> s < 2 ^ 32"
proof
  assume "validateSeed x = Inr s"
  then have "x = of_int s" "0 \<le> x" "x \<le> 0xffffffff"
    by (auto simp: validateSeed_def sim_fail_def is_integer_def split: if_splits)
  then show "x = of_int s \<and> 0 \<le> s \<and> s < 2 ^ 32" by simp
next
  assume "x = of_int s \<and> 0 \<le> s \<and> s < 2 ^ 32"
  then show "validateSeed x = Inr s"
    by (simp add: validateSeed_def is_integer_def is_safe_integer_def MAX_SAFE_INTEGER_def)
qed

lemma deterministicUnit_Inr [simp]:
  "deterministicUnit s ns i = Inr u \<longleftrightarrow>
     0 \<le> s \<and> s < 2 ^ 32 \<and> u = of_nat (unat (mixed_word s ns i)) / 2 ^ 32"
  by (auto simp: deterministicUnit_def)

text \<open>
  C33. The deterministic draws do not repeat: the mixer is a bijection of the 32-bit words
  (\<open>unmix32\<close> undoes it on both sides), so a draw always lies in [0, 1), for one seed and
  namespace two sequence numbers have the same draw only if they agree modulo 2^32, and for
  one namespace and sequence number two seeds never do; a seed outside the 32 bits is refused.
\<close>

theorem draws_do_not_repeat:
  "unmix32 (mix32 w) = w \<and> mix32 (unmix32 w) = w \<and>
   (case deterministicUnit s ns i of
      Inl e \<Rightarrow> s < 0 \<or> s \<ge> 2 ^ 32
    | Inr u \<Rightarrow> 0 \<le> u \<and> u < 1 \<and>
        (deterministicUnit s ns j = Inr u \<longleftrightarrow> i mod 2 ^ 32 = j mod 2 ^ 32) \<and>
        (deterministicUnit t ns i = Inr u \<longleftrightarrow> t = s))"
proof (cases "deterministicUnit s ns i")
  case (Inl e)
  then have "validateSeed (of_int s) \<noteq> Inr s" by (simp add: deterministicUnit_def)
  then have "\<not> (0 \<le> s \<and> s < 2 ^ 32)" by simp
  with Inl show ?thesis by auto
next
  case (Inr u)
  have bound: "of_nat (unat v) < (2 ^ 32 :: rat)" for v :: "32 word"
  proof -
    have "unat v < 2 ^ 32" using unsigned_less [of v] by simp
    then have "rat_of_nat (unat v) < rat_of_nat (2 ^ 32)" by (simp only: of_nat_less_iff)
    then show ?thesis by simp
  qed
  from Inr have u: "0 \<le> s" "s < 2 ^ 32" "u = of_nat (unat (mixed_word s ns i)) / 2 ^ 32"
    unfolding deterministicUnit_Inr by blast+
  have range: "0 \<le> u \<and> u < 1"
    unfolding u(3) using bound [of "mixed_word s ns i"]
    by (intro conjI divide_nonneg_nonneg of_nat_0_le_iff) (simp_all add: divide_less_eq)
  have draws: "deterministicUnit t ns j = Inr u \<longleftrightarrow>
      0 \<le> t \<and> t < 2 ^ 32 \<and> mixed_word t ns j = mixed_word s ns i" for t j
    unfolding deterministicUnit_Inr u(3) divide_cancel_right of_nat_eq_iff
    by (auto simp flip: word_eq_iff_unsigned)
  show ?thesis
    using range u(1,2) by (auto simp only: Inr sum.case draws mixed_word_sequence mixed_word_seed
      unmix_mix mix_unmix mod_pos_pos_trivial)
qed

end
