(* ===== verification/SimulatorState.thy ===== *)
theory SimulatorState
  imports Determinism
begin

text \<open>
  The state of one simulated vehicle and what makes it valid: \<open>types.ts\<close>, \<open>state.ts\<close>, the
  transitions of \<open>transitions.ts\<close> and the scenarios of \<open>scenarios.ts\<close>, in
  \<open>services/vehicle-simulator/src\<close>. The literal fields (the \<open>status\<close> of a reservation or a
  request has one value) are left out, and the shape of a state is its type; a clock reading
  is an \<open>epoch\<close>.
\<close>

section \<open>The state\<close>

datatype scenario_id =
  SC_city_idle
| SC_highway_driving
| SC_low_soc
| SC_charging
| SC_active_navigation
| SC_parked_no_navigation
| SC_network_failure_ready

datatype cabin_seat = CABIN_driver | CABIN_front_passenger

record cabin_state =
  cab_seatHeating :: "cabin_seat \<Rightarrow> int"
  cab_mediaVolume :: rat

record charging_station =
  stn_id :: string
  stn_name :: string
  stn_latitude :: rat
  stn_longitude :: rat
  stn_availableSlots :: int
  stn_maxPowerKw :: rat

record charging_reservation =
  rsv_id :: string
  rsv_stationId :: string
  rsv_createdAt :: utc_timestamp

record charging_simulator_state =
  chg_stations :: "charging_station list"
  chg_reservations :: "charging_reservation list"

record assistance_request =
  ast_id :: string
  ast_reason :: string
  ast_createdAt :: utc_timestamp

record sim_state =
  sim_vehicle :: vehicle_state
  sim_trip :: trip_state
  sim_cabin :: cabin_state
  sim_charging :: charging_simulator_state
  sim_assistance :: "assistance_request list"
  sim_scenario :: scenario_id
  sim_seed :: int
  sim_simulationVersion :: int
  sim_updatedAt :: utc_timestamp

section \<open>Validation\<close>

definition future :: "utc_timestamp \<Rightarrow> epoch \<Rightarrow> bool" where
  "future t now = (case now of Epoch_int n \<Rightarrow> t > n | Epoch_other \<Rightarrow> False)"

definition stamp_ok :: "utc_timestamp \<Rightarrow> epoch \<Rightarrow> bool" where
  "stamp_ok t now \<longleftrightarrow> iso_range t \<and> \<not> future t now"

definition station_ok :: "charging_station \<Rightarrow> bool" where
  "station_ok s \<longleftrightarrow> stn_id s \<noteq> [] \<and> \<not> blank_text (stn_name s) \<and>
     in_bounds (-90) 90 (stn_latitude s) \<and> in_bounds (-180) 180 (stn_longitude s) \<and>
     is_safe_integer (stn_availableSlots s) \<and> 0 \<le> stn_availableSlots s \<and> 0 < stn_maxPowerKw s"

definition reservation_ok :: "charging_simulator_state \<Rightarrow> epoch \<Rightarrow> charging_reservation \<Rightarrow> bool" where
  "reservation_ok c now r \<longleftrightarrow> rsv_id r \<noteq> [] \<and> rsv_stationId r \<in> set (map stn_id (chg_stations c)) \<and>
     stamp_ok (rsv_createdAt r) now"

definition assistance_ok :: "epoch \<Rightarrow> assistance_request \<Rightarrow> bool" where
  "assistance_ok now a \<longleftrightarrow> ast_id a \<noteq> [] \<and> \<not> blank_text (ast_reason a) \<and>
     length (ast_reason a) \<le> 512 \<and> stamp_ok (ast_createdAt a) now"

definition cabin_ok :: "cabin_state \<Rightarrow> bool" where
  "cabin_ok c \<longleftrightarrow> in_bounds 0 100 (cab_mediaVolume c) \<and>
     list_all (\<lambda>seat. 0 \<le> cab_seatHeating c seat \<and> cab_seatHeating c seat \<le> 3)
       [CABIN_driver, CABIN_front_passenger]"

definition as_validation :: "(domain_error, 'a) result \<Rightarrow> (sim_failure, 'a) result" where
  "as_validation r = (case r of Inl e \<Rightarrow> sim_invalid | Inr x \<Rightarrow> Inr x)"

definition sim_check :: "bool \<Rightarrow> sim_error_code \<Rightarrow> int \<Rightarrow> (sim_failure, unit) result" where
  "sim_check b code status = (if b then Inr () else sim_fail code status)"

definition validateSimulatorState :: "sim_state \<Rightarrow> epoch \<Rightarrow> (sim_failure, sim_state) result" where
  "validateSimulatorState s now =
     and_then (as_validation (parseVehicleState (Shaped (sim_vehicle s)) now)) (\<lambda>vehicle.
     and_then (as_validation (parseTripState (Shaped (sim_trip s)) now)) (\<lambda>trip.
     and_then (sim_check (version_ok (sim_simulationVersion s)) SE_VALIDATION_ERROR 400) (\<lambda>_.
     and_then (validateSeed (of_int (sim_seed s))) (\<lambda>_.
     and_then (sim_check (stamp_ok (sim_updatedAt s) now) SE_VALIDATION_ERROR 400) (\<lambda>_.
     and_then (sim_check (cabin_ok (sim_cabin s)) SE_VALIDATION_ERROR 400) (\<lambda>_.
     and_then (sim_check (distinct (map stn_id (chg_stations (sim_charging s))) \<and>
                 list_all station_ok (chg_stations (sim_charging s))) SE_VALIDATION_ERROR 400) (\<lambda>_.
     and_then (sim_check (distinct (map rsv_id (chg_reservations (sim_charging s))))
                 SE_INVALID_TRANSITION 409) (\<lambda>_.
     and_then (sim_check (list_all (reservation_ok (sim_charging s) now)
                 (chg_reservations (sim_charging s))) SE_VALIDATION_ERROR 400) (\<lambda>_.
     and_then (sim_check (distinct (map ast_id (sim_assistance s))) SE_INVALID_TRANSITION 409) (\<lambda>_.
     and_then (sim_check (list_all (assistance_ok now) (sim_assistance s)) SE_VALIDATION_ERROR 400) (\<lambda>_.
       Inr (s\<lparr>sim_vehicle := vehicle, sim_trip := trip\<rparr>))))))))))))"

section \<open>Transitions\<close>

definition sim_domain :: "(domain_error, 'a) result \<Rightarrow> (sim_failure, 'a) result" where
  "sim_domain r = (case r of Inl e \<Rightarrow> Inl (Domain_error e) | Inr x \<Rightarrow> Inr x)"

definition nextVersion :: "int \<Rightarrow> (sim_failure, int) result" where
  "nextVersion version =
     (if \<not> is_safe_integer version \<or> version \<ge> MAX_SAFE_INTEGER
      then sim_fail SE_INVALID_TRANSITION 409 else Inr (version + 1))"

definition simulatorOnlyTransition :: "sim_state \<Rightarrow> epoch \<Rightarrow> (sim_failure, sim_state) result" where
  "simulatorOnlyTransition changed now =
     and_then (nextVersion (sim_simulationVersion changed)) (\<lambda>version.
     and_then (sim_domain (toUtcTimestamp now)) (\<lambda>ts.
       Inr (changed\<lparr>sim_simulationVersion := version, sim_updatedAt := ts\<rparr>)))"

definition vehicleTransition ::
  "sim_state \<Rightarrow> epoch \<Rightarrow> (vehicle_state \<Rightarrow> vehicle_state) \<Rightarrow> (sim_failure, sim_state) result" where
  "vehicleTransition current now change =
     and_then (sim_domain (toUtcTimestamp now)) (\<lambda>ts.
     and_then (nextVersion (ve_version (sim_vehicle current))) (\<lambda>version.
     and_then (sim_domain (parseVehicleState
       (Shaped ((change (sim_vehicle current))\<lparr>ve_timestamp := ts, ve_version := version\<rparr>)) now)) (\<lambda>vehicle.
       simulatorOnlyTransition (current\<lparr>sim_vehicle := vehicle\<rparr>) now)))"

definition tripTransition ::
  "sim_state \<Rightarrow> epoch \<Rightarrow> (trip_state \<Rightarrow> trip_state) \<Rightarrow> (sim_failure, sim_state) result" where
  "tripTransition current now change =
     and_then (sim_domain (toUtcTimestamp now)) (\<lambda>ts.
     and_then (nextVersion (tp_version (sim_trip current))) (\<lambda>version.
     and_then (sim_domain (parseTripState
       (Shaped ((change (sim_trip current))\<lparr>tp_timestamp := ts, tp_version := version\<rparr>)) now)) (\<lambda>trip.
       simulatorOnlyTransition (current\<lparr>sim_trip := trip\<rparr>) now)))"

definition setVehicleSpeed :: "sim_state \<Rightarrow> rat \<Rightarrow> epoch \<Rightarrow> (sim_failure, sim_state) result" where
  "setVehicleSpeed current speedKph now =
     (if ve_chargingState (sim_vehicle current) = CH_charging \<and> speedKph > 0
      then sim_fail SE_INVALID_TRANSITION 409
      else vehicleTransition current now (\<lambda>v. v
        \<lparr>ve_speedKph := speedKph,
         ve_gear := (if speedKph = 0 then GEAR_P else GEAR_D),
         ve_driveMode := (if speedKph = 0 then MODE_parked else MODE_driving)\<rparr>))"

definition setSoc :: "sim_state \<Rightarrow> rat \<Rightarrow> epoch \<Rightarrow> (sim_failure, sim_state) result" where
  "setSoc current soc now = vehicleTransition current now (\<lambda>v. v
     \<lparr>ve_soc := soc, ve_estimatedRangeKm := one_decimal (times soc 5)\<rparr>)"

definition setCabinTemperature :: "sim_state \<Rightarrow> rat \<Rightarrow> epoch \<Rightarrow> (sim_failure, sim_state) result" where
  "setCabinTemperature current temperatureC now =
     vehicleTransition current now (\<lambda>v. v\<lparr>ve_cabinTemperature := temperatureC\<rparr>)"

definition setSeatHeating ::
  "sim_state \<Rightarrow> cabin_seat \<Rightarrow> int \<Rightarrow> epoch \<Rightarrow> (sim_failure, sim_state) result" where
  "setSeatHeating current seat level now =
     simulatorOnlyTransition (current\<lparr>sim_cabin := (sim_cabin current)
       \<lparr>cab_seatHeating := (cab_seatHeating (sim_cabin current))(seat := level)\<rparr>\<rparr>) now"

definition setMediaVolume :: "sim_state \<Rightarrow> rat \<Rightarrow> epoch \<Rightarrow> (sim_failure, sim_state) result" where
  "setMediaVolume current volume now =
     simulatorOnlyTransition (current\<lparr>sim_cabin := (sim_cabin current)\<lparr>cab_mediaVolume := volume\<rparr>\<rparr>) now"

definition setNavigationDestination ::
  "sim_state \<Rightarrow> string \<Rightarrow> string \<Rightarrow> rat \<Rightarrow> epoch \<Rightarrow> (sim_failure, sim_state) result" where
  "setNavigationDestination current destination routeId distanceKm now =
     tripTransition current now (\<lambda>t. t
       \<lparr>tp_destination := Some destination, tp_routeId := Some routeId,
        tp_remainingDistanceKm := distanceKm,
        tp_etaMinutes := math_ceil (times distanceKm (double (16 / 10))),
        tp_navigationActive := True\<rparr>)"

text \<open>
  The transitions that allocate an identifier return the allocator too; when they fail the
  caller goes back to the old one.
\<close>

definition reroute ::
  "sim_state \<Rightarrow> id_allocator \<Rightarrow> epoch \<Rightarrow> (sim_failure, sim_state \<times> id_allocator) result" where
  "reroute current ids now =
     (if \<not> tp_navigationActive (sim_trip current) \<or> tp_destination (sim_trip current) = None
      then sim_fail SE_INVALID_TRANSITION 409
      else let distanceKm = max (double (1 / 10))
                 (one_decimal (times (tp_remainingDistanceKm (sim_trip current)) (double (92 / 100))));
               (routeId, ids') = ids_next NS_route ids
           in and_then (tripTransition current now (\<lambda>t. t
                \<lparr>tp_routeId := Some routeId, tp_remainingDistanceKm := distanceKm,
                 tp_etaMinutes := math_ceil (times distanceKm (15 / 10))\<rparr>)) (\<lambda>s. Inr (s, ids')))"

definition change_slots :: "string \<Rightarrow> int \<Rightarrow> charging_station list \<Rightarrow> charging_station list" where
  "change_slots stationId n = map (\<lambda>s.
     if stn_id s = stationId then s\<lparr>stn_availableSlots := stn_availableSlots s + n\<rparr> else s)"

definition createReservation ::
  "sim_state \<Rightarrow> string \<Rightarrow> id_allocator \<Rightarrow> epoch \<Rightarrow> (sim_failure, sim_state \<times> id_allocator) result" where
  "createReservation current stationId ids now =
     (let c = sim_charging current in
      case find (\<lambda>s. stn_id s = stationId) (chg_stations c) of
        None \<Rightarrow> sim_fail SE_STATION_NOT_FOUND 404
      | Some station \<Rightarrow>
          if stn_availableSlots station < 1 then sim_fail SE_NO_AVAILABLE_SLOT 409
          else if list_ex (\<lambda>r. rsv_stationId r = stationId) (chg_reservations c)
          then sim_fail SE_INVALID_TRANSITION 409
          else let (reservationId, ids') = ids_next NS_reservation ids in
               and_then (sim_domain (toUtcTimestamp now)) (\<lambda>ts.
               and_then (simulatorOnlyTransition (current\<lparr>sim_charging :=
                   \<lparr>chg_stations = change_slots (stn_id station) (-1) (chg_stations c),
                    chg_reservations = chg_reservations c @
                      [\<lparr>rsv_id = reservationId, rsv_stationId = stationId, rsv_createdAt = ts\<rparr>]\<rparr>\<rparr>) now)
                 (\<lambda>s. Inr (s, ids'))))"

definition cancelReservation :: "sim_state \<Rightarrow> string \<Rightarrow> epoch \<Rightarrow> (sim_failure, sim_state) result" where
  "cancelReservation current reservationId now =
     (let c = sim_charging current in
      case find (\<lambda>r. rsv_id r = reservationId) (chg_reservations c) of
        None \<Rightarrow> sim_fail SE_RESERVATION_NOT_FOUND 404
      | Some r \<Rightarrow> simulatorOnlyTransition (current\<lparr>sim_charging :=
          \<lparr>chg_stations = change_slots (rsv_stationId r) 1 (chg_stations c),
           chg_reservations = filter (\<lambda>x. rsv_id x \<noteq> reservationId) (chg_reservations c)\<rparr>\<rparr>) now)"

definition requestRoadsideAssistance ::
  "sim_state \<Rightarrow> assistance_request \<Rightarrow> epoch \<Rightarrow> (sim_failure, sim_state) result" where
  "requestRoadsideAssistance current request now =
     simulatorOnlyTransition (current\<lparr>sim_assistance := sim_assistance current @ [request]\<rparr>) now"

section \<open>Scenarios\<close>

definition STATIONS :: "charging_station list" where
  "STATIONS =
     [\<lparr>stn_id = ''station-pudong-001'', stn_name = ''Pudong Fast Charge'',
       stn_latitude = double (312304 / 10000), stn_longitude = double (1214737 / 10000),
       stn_availableSlots = 2, stn_maxPowerKw = 180\<rparr>,
      \<lparr>stn_id = ''station-hongqiao-002'', stn_name = ''Hongqiao Charging Hub'',
       stn_latitude = double (311967 / 10000), stn_longitude = double (121327 / 1000),
       stn_availableSlots = 1, stn_maxPowerKw = 120\<rparr>,
      \<lparr>stn_id = ''station-empty-003'', stn_name = ''Capacity Test Station'',
       stn_latitude = double (3121 / 100), stn_longitude = double (12141 / 100),
       stn_availableSlots = 0, stn_maxPowerKw = 60\<rparr>]"

definition rawVehicle :: "utc_timestamp \<Rightarrow> vehicle_state" where
  "rawVehicle now =
     \<lparr>ve_vehicleId = ''simulator-vehicle-001'', ve_timestamp = now, ve_version = 1,
      ve_speedKph = 0, ve_gear = GEAR_P, ve_driveMode = MODE_parked, ve_soc = 72,
      ve_chargingState = CH_not_charging, ve_estimatedRangeKm = 360,
      ve_latitude = double (312304 / 10000), ve_longitude = double (1214737 / 10000),
      ve_doors = \<lparr>do_frontLeft = DOOR_locked, do_frontRight = DOOR_locked,
                  do_rearLeft = DOOR_locked, do_rearRight = DOOR_locked, do_trunk = DOOR_locked\<rparr>,
      ve_windows = \<lparr>wi_frontLeft = WIN_closed, wi_frontRight = WIN_closed,
                    wi_rearLeft = WIN_closed, wi_rearRight = WIN_closed\<rparr>,
      ve_cabinTemperature = 22, ve_outsideTemperature = 28,
      ve_occupants = [\<lparr>oc_seat = SEAT_driver, oc_occupied = True\<rparr>,
                      \<lparr>oc_seat = SEAT_front_passenger, oc_occupied = False\<rparr>]\<rparr>"

definition inactiveTrip :: "utc_timestamp \<Rightarrow> trip_state" where
  "inactiveTrip now =
     \<lparr>tp_timestamp = now, tp_version = 1, tp_destination = None, tp_routeId = None,
      tp_remainingDistanceKm = 0, tp_etaMinutes = 0, tp_navigationActive = False\<rparr>"

fun scenarioParts :: "scenario_id \<Rightarrow> utc_timestamp \<Rightarrow> vehicle_state \<times> trip_state" where
  "scenarioParts SC_city_idle now = (rawVehicle now, inactiveTrip now)"
| "scenarioParts SC_highway_driving now =
     ((rawVehicle now)\<lparr>ve_speedKph := 100, ve_gear := GEAR_D, ve_driveMode := MODE_driving, ve_soc := 58\<rparr>,
      (inactiveTrip now)\<lparr>tp_destination := Some ''Suzhou Industrial Park'',
        tp_routeId := Some ''route-highway-initial'', tp_remainingDistanceKm := 76,
        tp_etaMinutes := 52, tp_navigationActive := True\<rparr>)"
| "scenarioParts SC_low_soc now =
     ((rawVehicle now)\<lparr>ve_soc := 8, ve_estimatedRangeKm := 34\<rparr>, inactiveTrip now)"
| "scenarioParts SC_charging now =
     ((rawVehicle now)\<lparr>ve_driveMode := MODE_charging, ve_chargingState := CH_charging,
        ve_soc := 45, ve_estimatedRangeKm := 220\<rparr>, inactiveTrip now)"
| "scenarioParts SC_active_navigation now =
     (rawVehicle now,
      (inactiveTrip now)\<lparr>tp_destination := Some ''Shanghai Science Museum'',
        tp_routeId := Some ''route-city-initial'', tp_remainingDistanceKm := double (184 / 10),
        tp_etaMinutes := 29, tp_navigationActive := True\<rparr>)"
| "scenarioParts SC_parked_no_navigation now = (rawVehicle now, inactiveTrip now)"
| "scenarioParts SC_network_failure_ready now =
     ((rawVehicle now)\<lparr>ve_soc := 24, ve_estimatedRangeKm := 108\<rparr>, inactiveTrip now)"

definition SCENARIO_IDS :: "(string \<times> scenario_id) list" where
  "SCENARIO_IDS =
     [(''city_idle'', SC_city_idle), (''highway_driving'', SC_highway_driving),
      (''low_soc'', SC_low_soc), (''charging'', SC_charging),
      (''active_navigation'', SC_active_navigation),
      (''parked_no_navigation'', SC_parked_no_navigation),
      (''network_failure_ready'', SC_network_failure_ready)]"

definition scenario_get :: "string \<Rightarrow> (sim_failure, scenario_id) result" where
  "scenario_get candidate =
     (case map_of SCENARIO_IDS candidate of
        None \<Rightarrow> sim_fail SE_SCENARIO_NOT_FOUND 404 | Some s \<Rightarrow> Inr s)"

definition scenario_load :: "string \<Rightarrow> rat \<Rightarrow> epoch \<Rightarrow> (sim_failure, sim_state) result" where
  "scenario_load candidate seed now =
     and_then (scenario_get candidate) (\<lambda>scenario.
     and_then (validateSeed seed) (\<lambda>validatedSeed.
     and_then (sim_domain (toUtcTimestamp now)) (\<lambda>ts.
     case scenarioParts scenario ts of (vehicle0, trip0) \<Rightarrow>
     and_then (sim_domain (parseVehicleState (Shaped vehicle0) now)) (\<lambda>vehicle.
     and_then (sim_domain (parseTripState (Shaped trip0) now)) (\<lambda>trip.
       validateSimulatorState
         \<lparr>sim_vehicle = vehicle, sim_trip = trip,
          sim_cabin = \<lparr>cab_seatHeating = (\<lambda>_. 0), cab_mediaVolume = 35\<rparr>,
          sim_charging = \<lparr>chg_stations = STATIONS, chg_reservations = []\<rparr>,
          sim_assistance = [], sim_scenario = scenario, sim_seed = validatedSeed,
          sim_simulationVersion = 1, sim_updatedAt = ts\<rparr> now)))))"

end
