(* ===== verification/Simulator.thy ===== *)
theory Simulator
  imports SimulatorState "HOL-Library.AList"
begin

text \<open>
  Fault injection (\<open>faults.ts\<close>) and the simulator of one vehicle (\<open>simulator.ts\<close>), in
  \<open>services/vehicle-simulator/src\<close>. The simulator runs its mutations one after the other (\<open>#serialize\<close>), so each is one step of the model; the clock
  readings a step makes are arguments of it.
\<close>

section \<open>Fault injection\<close>

datatype fault_target =
  FT_assistance_roadside
| FT_cabin_set_seat_heating
| FT_cabin_set_temperature
| FT_charging_cancel_reservation
| FT_charging_create_reservation
| FT_charging_get_status
| FT_charging_list_stations
| FT_media_set_volume
| FT_navigation_reroute
| FT_navigation_set_destination
| FT_trip_get_state
| FT_vehicle_get_state

datatype fault_mode =
  FM_delay
| FM_timeout
| FM_http_500
| FM_http_503
| FM_connection_abort
| FM_stale_response

definition FAULT_TARGETS :: "(string \<times> fault_target) list" where
  "FAULT_TARGETS =
     [(''vehicle.get_state'', FT_vehicle_get_state), (''trip.get_state'', FT_trip_get_state),
      (''cabin.set_temperature'', FT_cabin_set_temperature),
      (''cabin.set_seat_heating'', FT_cabin_set_seat_heating),
      (''media.set_volume'', FT_media_set_volume),
      (''navigation.set_destination'', FT_navigation_set_destination),
      (''navigation.reroute'', FT_navigation_reroute),
      (''charging.list_stations'', FT_charging_list_stations),
      (''charging.get_status'', FT_charging_get_status),
      (''charging.create_reservation'', FT_charging_create_reservation),
      (''charging.cancel_reservation'', FT_charging_cancel_reservation),
      (''assistance.roadside'', FT_assistance_roadside)]"

definition FAULT_MODES :: "(string \<times> fault_mode) list" where
  "FAULT_MODES =
     [(''delay'', FM_delay), (''timeout'', FM_timeout), (''http_500'', FM_http_500),
      (''http_503'', FM_http_503), (''connection_abort'', FM_connection_abort),
      (''stale_response'', FM_stale_response)]"

fun target_text :: "fault_target \<Rightarrow> string" where
  "target_text t = hd [s. (s, u) \<leftarrow> FAULT_TARGETS, u = t]"

text \<open>The listing sorts the targets by name; the constructors above are in that order.\<close>

fun target_rank :: "fault_target \<Rightarrow> nat" where
  "target_rank FT_assistance_roadside = 0"
| "target_rank FT_cabin_set_seat_heating = 1"
| "target_rank FT_cabin_set_temperature = 2"
| "target_rank FT_charging_cancel_reservation = 3"
| "target_rank FT_charging_create_reservation = 4"
| "target_rank FT_charging_get_status = 5"
| "target_rank FT_charging_list_stations = 6"
| "target_rank FT_media_set_volume = 7"
| "target_rank FT_navigation_reroute = 8"
| "target_rank FT_navigation_set_destination = 9"
| "target_rank FT_trip_get_state = 10"
| "target_rank FT_vehicle_get_state = 11"

lemma target_rank_inject: "target_rank t = target_rank u \<longleftrightarrow> t = u"
  by (cases t; cases u) simp_all

instantiation fault_target :: linorder
begin

definition less_eq_fault_target :: "fault_target \<Rightarrow> fault_target \<Rightarrow> bool" where
  "t \<le> u \<longleftrightarrow> target_rank t \<le> target_rank u"

definition less_fault_target :: "fault_target \<Rightarrow> fault_target \<Rightarrow> bool" where
  "t < u \<longleftrightarrow> target_rank t < target_rank u"

instance
  by standard (auto simp: less_eq_fault_target_def less_fault_target_def target_rank_inject)

end

text \<open>A fault as it is asked for: names still to be looked up, any finite numbers.\<close>

record fault_request =
  fq_target :: string
  fq_mode :: string
  fq_probability :: rat
  fq_delayMs :: rat

record fault_config =
  flt_target :: fault_target
  flt_mode :: fault_mode
  flt_probability :: rat
  flt_delayMs :: int

definition validateFaultConfig :: "fault_request \<Rightarrow> (sim_failure, fault_config) result" where
  "validateFaultConfig q =
     (case map_of FAULT_TARGETS (fq_target q) of
        None \<Rightarrow> sim_invalid
      | Some t \<Rightarrow>
          case map_of FAULT_MODES (fq_mode q) of
            None \<Rightarrow> sim_invalid
          | Some m \<Rightarrow>
              if fq_probability q < 0 \<or> fq_probability q > 1 then sim_invalid
              else if \<not> is_integer (fq_delayMs q) \<or> fq_delayMs q < 0 \<or> fq_delayMs q > 30000
              then sim_invalid
              else if m = FM_stale_response \<and> t \<notin> {FT_vehicle_get_state, FT_trip_get_state}
              then sim_invalid
              else Inr \<lparr>flt_target = t, flt_mode = m, flt_probability = fq_probability q,
                        flt_delayMs = \<lfloor>fq_delayMs q\<rfloor>\<rparr>)"

record fault_manager =
  fm_seed :: int
  fm_configs :: "(fault_target \<times> fault_config) list"
  fm_counters :: "fault_target \<Rightarrow> int option"

definition new_fault_manager :: "rat \<Rightarrow> (sim_failure, fault_manager) result" where
  "new_fault_manager seed =
     and_then (validateSeed seed) (\<lambda>seed.
       Inr \<lparr>fm_seed = seed, fm_configs = [], fm_counters = Map.empty\<rparr>)"

definition faults_clear :: "fault_manager \<Rightarrow> fault_manager" where
  "faults_clear m = m\<lparr>fm_configs := [], fm_counters := Map.empty\<rparr>"

definition faults_setSeed :: "rat \<Rightarrow> fault_manager \<Rightarrow> (sim_failure, fault_manager) result" where
  "faults_setSeed seed m =
     and_then (validateSeed seed) (\<lambda>seed. Inr (faults_clear (m\<lparr>fm_seed := seed\<rparr>)))"

definition faults_set ::
  "fault_request \<Rightarrow> fault_manager \<Rightarrow> (sim_failure, fault_config \<times> fault_manager) result" where
  "faults_set q m =
     and_then (validateFaultConfig q) (\<lambda>f.
       Inr (f, m\<lparr>fm_configs := AList.update (flt_target f) f (fm_configs m),
                 fm_counters := (fm_counters m)(flt_target f \<mapsto> 0)\<rparr>))"

definition faults_list :: "fault_manager \<Rightarrow> fault_config list" where
  "faults_list m = sort_key flt_target (map snd (fm_configs m))"

definition faults_consume ::
  "fault_target \<Rightarrow> fault_manager \<Rightarrow> (sim_failure, fault_config option) result \<times> fault_manager" where
  "faults_consume target m =
     (case map_of (fm_configs m) target of
        None \<Rightarrow> (Inr None, m)
      | Some config \<Rightarrow>
          let sequence = (case fm_counters m target of None \<Rightarrow> 0 | Some n \<Rightarrow> n) + 1
          in (and_then (deterministicUnit (fm_seed m) (''fault:'' @ target_text target) sequence) (\<lambda>u.
                Inr (if u \<ge> flt_probability config then None else Some config)),
              m\<lparr>fm_counters := (fm_counters m)(target \<mapsto> sequence)\<rparr>))"

section \<open>The simulator\<close>

definition HISTORY_LIMIT :: nat where
  "HISTORY_LIMIT = 10"

record vehicle_simulator =
  vs_vehicleId :: string
  vs_state :: sim_state
  vs_history :: "sim_state list"
  vs_ids :: id_allocator
  vs_resetEpoch :: nat
  vs_faults :: fault_manager

definition bindVehicle :: "string \<Rightarrow> sim_state \<Rightarrow> epoch \<Rightarrow> (sim_failure, sim_state) result" where
  "bindVehicle vehicleId s now =
     (if ve_vehicleId (sim_vehicle s) = vehicleId then Inr s
      else validateSimulatorState (s\<lparr>sim_vehicle := (sim_vehicle s)\<lparr>ve_vehicleId := vehicleId\<rparr>\<rparr>) now)"

text \<open>
  The constructor and \<open>reset\<close> read the clock when they load the scenario and again when they
  bind the vehicle.
\<close>

definition new_simulator ::
  "string \<Rightarrow> rat \<Rightarrow> string option \<Rightarrow> epoch \<Rightarrow> epoch \<Rightarrow> (sim_failure, vehicle_simulator) result" where
  "new_simulator scenario seed vehicleId loadNow bindNow =
     and_then (scenario_load scenario seed loadNow) (\<lambda>initial.
     let vehicleId = (case vehicleId of None \<Rightarrow> ve_vehicleId (sim_vehicle initial) | Some v \<Rightarrow> v) in
     and_then (sim_check (safe_id 127 vehicleId) SE_VALIDATION_ERROR 400) (\<lambda>_.
     and_then (bindVehicle vehicleId initial bindNow) (\<lambda>s.
     and_then (new_id_allocator seed) (\<lambda>ids.
     and_then (new_fault_manager seed) (\<lambda>faults.
       Inr \<lparr>vs_vehicleId = vehicleId, vs_state = s, vs_history = [s], vs_ids = ids,
            vs_resetEpoch = 0, vs_faults = faults\<rparr>)))))"

definition sim_reset ::
  "string \<Rightarrow> rat \<Rightarrow> epoch \<Rightarrow> epoch \<Rightarrow> vehicle_simulator \<Rightarrow>
     (sim_failure, sim_state) result \<times> vehicle_simulator" where
  "sim_reset scenario seed loadNow bindNow vs =
     (case and_then (scenario_load scenario seed loadNow) (\<lambda>s.
           and_then (bindVehicle (vs_vehicleId vs) s bindNow) (\<lambda>next.
           and_then (new_id_allocator seed) (\<lambda>ids.
           and_then (faults_setSeed seed (vs_faults vs)) (\<lambda>faults. Inr (next, ids, faults))))) of
        Inl e \<Rightarrow> (Inl e, vs)
      | Inr (next, ids, faults) \<Rightarrow>
          (Inr next, vs\<lparr>vs_resetEpoch := vs_resetEpoch vs + 1, vs_state := next,
                        vs_history := [next], vs_ids := ids, vs_faults := faults\<rparr>))"

text \<open>The latest historical state that is older in what is read, for a stale response.\<close>

definition findLast :: "('a \<Rightarrow> bool) \<Rightarrow> 'a list \<Rightarrow> 'a option" where
  "findLast P xs = find P (rev xs)"

definition read_vehicle :: "bool \<Rightarrow> vehicle_simulator \<Rightarrow> vehicle_state" where
  "read_vehicle stale vs =
     (if \<not> stale then sim_vehicle (vs_state vs)
      else case findLast (\<lambda>s. ve_version (sim_vehicle s) < ve_version (sim_vehicle (vs_state vs)))
                  (vs_history vs) of
             None \<Rightarrow> sim_vehicle (vs_state vs) | Some s \<Rightarrow> sim_vehicle s)"

definition read_trip :: "bool \<Rightarrow> vehicle_simulator \<Rightarrow> trip_state" where
  "read_trip stale vs =
     (if \<not> stale then sim_trip (vs_state vs)
      else case findLast (\<lambda>s. tp_version (sim_trip s) < tp_version (sim_trip (vs_state vs)))
                  (vs_history vs) of
             None \<Rightarrow> sim_trip (vs_state vs) | Some s \<Rightarrow> sim_trip s)"

definition isReady :: "vehicle_simulator \<Rightarrow> epoch \<Rightarrow> bool" where
  "isReady vs now = is_ok (validateSimulatorState (vs_state vs) now)"

section \<open>Mutations\<close>

text \<open>
  \<open>#transition\<close>: the candidate is built from the current state and validated as a whole; when
  either fails, the identifiers it took are given back and nothing is changed.
\<close>

type_synonym construct =
  "sim_state \<Rightarrow> id_allocator \<Rightarrow> epoch \<Rightarrow> (sim_failure, sim_state \<times> id_allocator) result"

definition transition_failure :: "sim_failure \<Rightarrow> sim_failure" where
  "transition_failure e = (case e of
     Domain_error _ \<Rightarrow> Simulator_error \<lparr>se_code = SE_VALIDATION_ERROR, se_statusCode = 400\<rparr>
   | Simulator_error _ \<Rightarrow> e)"

definition sim_transition ::
  "construct \<Rightarrow> nat option \<Rightarrow> epoch \<Rightarrow> vehicle_simulator \<Rightarrow>
     (sim_failure, sim_state) result \<times> vehicle_simulator" where
  "sim_transition build expectedResetEpoch now vs =
     (if expectedResetEpoch \<noteq> None \<and> expectedResetEpoch \<noteq> Some (vs_resetEpoch vs)
      then (sim_fail SE_INVALID_TRANSITION 409, vs)
      else case and_then (build (vs_state vs) (vs_ids vs) now) (\<lambda>(candidate, ids).
                and_then (validateSimulatorState candidate now) (\<lambda>next. Inr (next, ids))) of
             Inl e \<Rightarrow> (Inl (transition_failure e), vs\<lparr>vs_ids := ids_restore (ids_snapshot (vs_ids vs)) (vs_ids vs)\<rparr>)
           | Inr (next, ids) \<Rightarrow>
               let history = vs_history vs @ [next]
               in (Inr next, vs\<lparr>vs_state := next, vs_ids := ids,
                     vs_history := (if length history > HISTORY_LIMIT then tl history else history)\<rparr>))"

definition keeping_ids ::
  "(sim_state \<Rightarrow> epoch \<Rightarrow> (sim_failure, sim_state) result) \<Rightarrow> construct" where
  "keeping_ids f s ids now = and_then (f s now) (\<lambda>s'. Inr (s', ids))"

text \<open>The construction of a destination: a route identifier and a distance derived from it.\<close>

definition new_destination :: "string \<Rightarrow> construct" where
  "new_destination destination s ids now =
     (let (routeId, ids') = ids_next NS_route ids in
      and_then (deterministicUnit (sim_seed s) routeId 1) (\<lambda>u.
      and_then (setNavigationDestination s destination routeId (one_decimal (plus 8 (times u 92))) now)
        (\<lambda>s'. Inr (s', ids'))))"

definition new_assistance :: "string \<Rightarrow> construct" where
  "new_assistance reason s ids now =
     (let (requestId, ids') = ids_next NS_assistance ids in
      and_then (sim_domain (toUtcTimestamp now)) (\<lambda>ts.
      and_then (requestRoadsideAssistance s
        \<lparr>ast_id = requestId, ast_reason = reason, ast_createdAt = ts\<rparr> now) (\<lambda>s'. Inr (s', ids'))))"

datatype mutation =
  Set_speed rat
| Set_soc rat
| Set_temperature rat
| Set_seat_heating cabin_seat int
| Set_volume rat
| Set_destination string
| Reroute
| Create_reservation string
| Cancel_reservation string
| Roadside_assistance string

fun mutation_construct :: "mutation \<Rightarrow> construct" where
  "mutation_construct (Set_speed v) = keeping_ids (\<lambda>s. setVehicleSpeed s v)"
| "mutation_construct (Set_soc v) = keeping_ids (\<lambda>s. setSoc s v)"
| "mutation_construct (Set_temperature v) = keeping_ids (\<lambda>s. setCabinTemperature s v)"
| "mutation_construct (Set_seat_heating seat level) = keeping_ids (\<lambda>s. setSeatHeating s seat level)"
| "mutation_construct (Set_volume v) = keeping_ids (\<lambda>s. setMediaVolume s v)"
| "mutation_construct (Set_destination d) = new_destination d"
| "mutation_construct Reroute = reroute"
| "mutation_construct (Create_reservation stationId) = (\<lambda>s. createReservation s stationId)"
| "mutation_construct (Cancel_reservation r) = keeping_ids (\<lambda>s. cancelReservation s r)"
| "mutation_construct (Roadside_assistance reason) = new_assistance reason"

text \<open>The texts that are checked before the transition is queued.\<close>

fun mutation_text_ok :: "mutation \<Rightarrow> bool" where
  "mutation_text_ok (Set_destination d) \<longleftrightarrow> \<not> blank_text d \<and> length d \<le> 512"
| "mutation_text_ok (Roadside_assistance r) \<longleftrightarrow> \<not> blank_text r \<and> length r \<le> 512"
| "mutation_text_ok _ \<longleftrightarrow> True"

definition mutate ::
  "mutation \<Rightarrow> nat option \<Rightarrow> epoch \<Rightarrow> vehicle_simulator \<Rightarrow>
     (sim_failure, sim_state) result \<times> vehicle_simulator" where
  "mutate m resetEpoch now vs =
     (if \<not> mutation_text_ok m then (sim_invalid, vs)
      else sim_transition (mutation_construct m) resetEpoch now vs)"

text \<open>Every call that changes a simulator, and a run of such calls.\<close>

datatype simulator_call =
  Call_mutation mutation "nat option" epoch
| Call_reset string rat epoch epoch
| Call_configure_fault fault_request
| Call_consume_fault fault_target
| Call_clear_faults

fun sim_step :: "vehicle_simulator \<Rightarrow> simulator_call \<Rightarrow> vehicle_simulator" where
  "sim_step vs (Call_mutation m resetEpoch now) = snd (mutate m resetEpoch now vs)"
| "sim_step vs (Call_reset scenario seed loadNow bindNow) = snd (sim_reset scenario seed loadNow bindNow vs)"
| "sim_step vs (Call_configure_fault q) =
     (case faults_set q (vs_faults vs) of Inl _ \<Rightarrow> vs | Inr (_, m) \<Rightarrow> vs\<lparr>vs_faults := m\<rparr>)"
| "sim_step vs (Call_consume_fault target) = vs\<lparr>vs_faults := snd (faults_consume target (vs_faults vs))\<rparr>"
| "sim_step vs Call_clear_faults = vs\<lparr>vs_faults := faults_clear (vs_faults vs)\<rparr>"

definition sim_run :: "vehicle_simulator \<Rightarrow> simulator_call list \<Rightarrow> vehicle_simulator" where
  "sim_run = foldl sim_step"

end
