(* ===== verification/SimulatorGuarantees.thy ===== *)
theory SimulatorGuarantees
  imports Simulator
begin

text \<open>
  What the simulator guarantees: every state it ever shows is valid, keeps its vehicle and
  counts every charging slot; a failed mutation leaves no trace; and in a fleet every vehicle
  sees its own calls only.
\<close>

section \<open>Valid states\<close>

text \<open>The abstract contract of a state as of the time \<open>n\<close>, independent of the validator.\<close>

definition stamped :: "int \<Rightarrow> utc_timestamp \<Rightarrow> bool" where
  "stamped n t \<longleftrightarrow> iso_range t \<and> t \<le> n"

definition valid_at :: "int \<Rightarrow> sim_state \<Rightarrow> bool" where
  "valid_at n s \<longleftrightarrow>
     vehicle_valid (sim_vehicle s) \<and> stamped n (ve_timestamp (sim_vehicle s)) \<and>
     trip_valid (sim_trip s) \<and> stamped n (tp_timestamp (sim_trip s)) \<and>
     version_ok (sim_simulationVersion s) \<and> 0 \<le> sim_seed s \<and> sim_seed s < 2 ^ 32 \<and>
     stamped n (sim_updatedAt s) \<and> cabin_ok (sim_cabin s) \<and>
     distinct (map stn_id (chg_stations (sim_charging s))) \<and>
     list_all station_ok (chg_stations (sim_charging s)) \<and>
     distinct (map rsv_id (chg_reservations (sim_charging s))) \<and>
     list_all (\<lambda>r. rsv_id r \<noteq> [] \<and> rsv_stationId r \<in> set (map stn_id (chg_stations (sim_charging s))) \<and>
       stamped n (rsv_createdAt r)) (chg_reservations (sim_charging s)) \<and>
     distinct (map ast_id (sim_assistance s)) \<and>
     list_all (\<lambda>a. ast_id a \<noteq> [] \<and> \<not> blank_text (ast_reason a) \<and> length (ast_reason a) \<le> 512 \<and>
       stamped n (ast_createdAt a)) (sim_assistance s)"

lemma as_validation_Inr [simp]: "as_validation r = Inr x \<longleftrightarrow> r = Inr x"
  by (cases r) (simp_all add: as_validation_def sim_fail_def)

lemma sim_domain_Inr [simp]: "sim_domain r = Inr x \<longleftrightarrow> r = Inr x"
  by (cases r) (simp_all add: sim_domain_def)

lemma sim_check_Inr [simp]: "sim_check b c n = Inr u \<longleftrightarrow> b"
  by (simp add: sim_check_def sim_fail_def)

lemma sim_fail_Inr [simp]: "sim_fail c n \<noteq> Inr x"
  by (simp add: sim_fail_def)

lemma toUtcTimestamp_Inr [simp]: "toUtcTimestamp now = Inr t \<longleftrightarrow> now = Epoch_int t \<and> iso_range t"
  by (cases now) (auto simp: toUtcTimestamp_def domain_fail_def)

lemma stamp_ok_int [simp]: "stamp_ok t (Epoch_int n) \<longleftrightarrow> stamped n t"
  by (auto simp: stamp_ok_def stamped_def future_def)

lemma parseVehicleState_Inr:
  "parseVehicleState input now = Inr v \<longleftrightarrow>
     input = Shaped v \<and> vehicle_valid v \<and> (\<exists>n. now = Epoch_int n \<and> stamped n (ve_timestamp v))"
  unfolding parseVehicleState_def and_then_Inr validateSchema_Inr validateNotFuture_Inr stamped_def
    vehicle_valid_iff [of "[]" v "()", symmetric]
  by auto

lemma parseTripState_Inr:
  "parseTripState input now = Inr t \<longleftrightarrow>
     input = Shaped t \<and> trip_valid t \<and> (\<exists>n. now = Epoch_int n \<and> stamped n (tp_timestamp t))"
  unfolding parseTripState_def and_then_Inr validateSchema_Inr validateNotFuture_Inr stamped_def
    trip_valid_iff [of "[]" t "()", symmetric]
  by auto

lemma validate_Inr:
  "validateSimulatorState s now = Inr s' \<longleftrightarrow> s' = s \<and> (\<exists>n. now = Epoch_int n \<and> valid_at n s)"
proof (cases now)
  case (Epoch_int n)
  have "reservation_ok c now = (\<lambda>r. rsv_id r \<noteq> [] \<and>
      rsv_stationId r \<in> set (map stn_id (chg_stations c)) \<and> stamped n (rsv_createdAt r))" for c
    by (rule ext) (simp add: Epoch_int reservation_ok_def)
  moreover have "assistance_ok now = (\<lambda>a. ast_id a \<noteq> [] \<and> \<not> blank_text (ast_reason a) \<and>
      length (ast_reason a) \<le> 512 \<and> stamped n (ast_createdAt a))"
    by (rule ext) (simp add: Epoch_int assistance_ok_def)
  ultimately show ?thesis
    unfolding validateSimulatorState_def and_then_Inr as_validation_Inr sim_check_Inr validateSeed_Inr
      parseVehicleState_Inr parseTripState_Inr valid_at_def
    by (auto simp: Epoch_int)
qed (simp add: validateSimulatorState_def parseVehicleState_Inr)

lemma valid_at_mono: "valid_at n s \<Longrightarrow> n \<le> m \<Longrightarrow> valid_at m s"
  by (auto simp: valid_at_def stamped_def list_all_iff)

section \<open>Slots\<close>

text \<open>Every station with its capacity: the slots that are free and those that are reserved.\<close>

definition reserved_at :: "charging_reservation list \<Rightarrow> string \<Rightarrow> int" where
  "reserved_at rs k = int (length (filter (\<lambda>r. rsv_stationId r = k) rs))"

definition capacities :: "charging_simulator_state \<Rightarrow> (string \<times> int) list" where
  "capacities c =
     map (\<lambda>s. (stn_id s, stn_availableSlots s + reserved_at (chg_reservations c) (stn_id s))) (chg_stations c)"

lemma capacities_create:
  "capacities \<lparr>chg_stations = change_slots k (-1) (chg_stations c),
     chg_reservations = chg_reservations c @ [\<lparr>rsv_id = i, rsv_stationId = k, rsv_createdAt = t\<rparr>]\<rparr> = capacities c"
  by (simp add: capacities_def change_slots_def reserved_at_def)

lemma filter_one:
  assumes "distinct (map f xs)" and "find (\<lambda>x. f x = i) xs = Some r"
  shows "int (length (filter P xs)) = int (length (filter P (filter (\<lambda>x. f x \<noteq> i) xs))) + (if P r then 1 else 0)"
  using assms
proof (induction xs)
  case (Cons x xs)
  show ?case
  proof (cases "f x = i")
    case True
    then have "filter (\<lambda>y. f y \<noteq> i) xs = xs" using Cons.prems by (auto simp: filter_id_conv image_iff)
    with True Cons.prems show ?thesis by simp
  qed (use Cons in \<open>auto split: if_splits\<close>)
qed simp

lemma capacities_cancel:
  assumes "distinct (map rsv_id (chg_reservations c))"
    and "find (\<lambda>r. rsv_id r = i) (chg_reservations c) = Some r"
  shows "capacities \<lparr>chg_stations = change_slots (rsv_stationId r) 1 (chg_stations c),
     chg_reservations = filter (\<lambda>x. rsv_id x \<noteq> i) (chg_reservations c)\<rparr> = capacities c"
  using filter_one [OF assms, of "\<lambda>r. rsv_stationId r = _"]
  by (auto simp: capacities_def change_slots_def reserved_at_def)

lemma change_slots_ids [simp]: "map stn_id (change_slots k n ss) = map stn_id ss"
  by (induction ss) (simp_all add: change_slots_def)

section \<open>Identifiers\<close>

lemma digits_value_zeros: "digits_value (replicate m 0 @ ds) = digits_value ds"
  by (induction m) (simp_all add: digits_value_def)

lemma value_padded [simp]: "digits_value (map char_digit (padStart m (nat_string n))) = n"
proof -
  have "char_digit (CHR ''0'') = 0" by (simp add: char_digit_def)
  then show ?thesis using value_nat_string [of n]
    by (simp add: padStart_def digits_value_zeros map_replicate del: value_nat_string)
qed

lemma allocated_id_inject:
  "0 \<le> i \<Longrightarrow> 0 \<le> j \<Longrightarrow> allocated_id ns seed i = allocated_id ns seed j \<longleftrightarrow> i = j"
proof
  assume "0 \<le> i" "0 \<le> j" "allocated_id ns seed i = allocated_id ns seed j"
  then have "padStart 6 (nat_string (nat i)) = padStart 6 (nat_string (nat j))"
    by (simp add: allocated_id_def)
  then have "nat i = nat j" by (metis value_padded)
  with \<open>0 \<le> i\<close> \<open>0 \<le> j\<close> show "i = j" by simp
qed simp

text \<open>The identifiers in a state are numbered by the counters of the allocator.\<close>

definition issued :: "id_allocator \<Rightarrow> id_namespace \<Rightarrow> string \<Rightarrow> bool" where
  "issued ids ns i \<longleftrightarrow> (\<exists>k. 1 \<le> k \<and> k \<le> counter ids ns \<and> i = allocated_id ns (ia_seed ids) k)"

definition numbered :: "id_allocator \<Rightarrow> sim_state \<Rightarrow> bool" where
  "numbered ids s \<longleftrightarrow>
     ia_seed ids = sim_seed s \<and> (\<forall>ns. 0 \<le> counter ids ns) \<and>
     (\<forall>r \<in> set (chg_reservations (sim_charging s)). issued ids NS_reservation (rsv_id r)) \<and>
     (\<forall>a \<in> set (sim_assistance s). issued ids NS_assistance (ast_id a))"

lemma counter_next [simp]:
  "counter (snd (ids_next ns ids)) ns' = counter ids ns' + (if ns' = ns then 1 else 0)"
  "ia_seed (snd (ids_next ns ids)) = ia_seed ids"
  "fst (ids_next ns ids) = allocated_id ns (ia_seed ids) (counter ids ns + 1)"
  by (auto simp: ids_next_def counter_def Let_def)

lemma issued_next: "issued ids ns' i \<Longrightarrow> issued (snd (ids_next ns ids)) ns' i"
  unfolding issued_def counter_next by force

lemma issued_new: "0 \<le> counter ids ns \<Longrightarrow> issued (snd (ids_next ns ids)) ns (fst (ids_next ns ids))"
  unfolding issued_def by (rule exI [of _ "counter ids ns + 1"]) simp

lemma not_issued_next: "0 \<le> counter ids ns \<Longrightarrow> \<not> issued ids ns (fst (ids_next ns ids))"
  by (auto simp: issued_def allocated_id_inject)

lemma numbered_next: "numbered ids s \<Longrightarrow> numbered (snd (ids_next ns ids)) s"
  by (auto simp: numbered_def intro: issued_next)

section \<open>What a transition keeps\<close>

definition accounted :: "string \<Rightarrow> sim_state \<Rightarrow> bool" where
  "accounted v s \<longleftrightarrow>
     valid_at (sim_updatedAt s) s \<and> ve_vehicleId (sim_vehicle s) = v \<and>
     capacities (sim_charging s) = map (\<lambda>s. (stn_id s, stn_availableSlots s)) STATIONS \<and>
     distinct (map rsv_stationId (chg_reservations (sim_charging s)))"

definition follows :: "sim_state \<Rightarrow> sim_state \<Rightarrow> epoch \<Rightarrow> bool" where
  "follows s s' now \<longleftrightarrow>
     sim_seed s' = sim_seed s \<and> ve_vehicleId (sim_vehicle s') = ve_vehicleId (sim_vehicle s) \<and>
     sim_simulationVersion s' = sim_simulationVersion s + 1 \<and> now = Epoch_int (sim_updatedAt s') \<and>
     capacities (sim_charging s') = capacities (sim_charging s) \<and>
     distinct (map rsv_stationId (chg_reservations (sim_charging s')))"

lemma nextVersion_Inr [simp]: "nextVersion v = Inr w \<longleftrightarrow> is_safe_integer v \<and> v < MAX_SAFE_INTEGER \<and> w = v + 1"
  by (auto simp: nextVersion_def)

lemma simulatorOnly_Inr:
  "simulatorOnlyTransition s now = Inr s' \<longleftrightarrow>
     is_safe_integer (sim_simulationVersion s) \<and> sim_simulationVersion s < MAX_SAFE_INTEGER \<and>
     (\<exists>n. now = Epoch_int n \<and> iso_range n \<and>
        s' = s\<lparr>sim_simulationVersion := sim_simulationVersion s + 1, sim_updatedAt := n\<rparr>)"
  by (auto simp: simulatorOnlyTransition_def)

lemma follows_simulatorOnly:
  assumes "simulatorOnlyTransition s1 now = Inr s'" "sim_seed s1 = sim_seed s"
    "ve_vehicleId (sim_vehicle s1) = ve_vehicleId (sim_vehicle s)"
    "sim_simulationVersion s1 = sim_simulationVersion s"
    "capacities (sim_charging s1) = capacities (sim_charging s)"
    "distinct (map rsv_stationId (chg_reservations (sim_charging s1)))"
  shows "follows s s' now \<and> sim_charging s' = sim_charging s1 \<and> sim_assistance s' = sim_assistance s1"
  using assms by (auto simp: simulatorOnly_Inr follows_def)

lemma follows_vehicle:
  assumes "vehicleTransition s now change = Inr s'" "\<And>v. ve_vehicleId (change v) = ve_vehicleId v"
    "distinct (map rsv_stationId (chg_reservations (sim_charging s)))"
  shows "follows s s' now \<and> sim_charging s' = sim_charging s \<and> sim_assistance s' = sim_assistance s"
  using assms follows_simulatorOnly
  by (fastforce simp: vehicleTransition_def parseVehicleState_Inr)

lemma follows_trip:
  assumes "tripTransition s now change = Inr s'"
    "distinct (map rsv_stationId (chg_reservations (sim_charging s)))"
  shows "follows s s' now \<and> sim_charging s' = sim_charging s \<and> sim_assistance s' = sim_assistance s"
  using assms follows_simulatorOnly
  by (fastforce simp: tripTransition_def parseTripState_Inr)

lemma follows_create:
  assumes "createReservation s k ids now = Inr (s', ids')"
    "distinct (map rsv_stationId (chg_reservations (sim_charging s)))"
  shows "follows s s' now \<and> sim_assistance s' = sim_assistance s \<and>
    ids' = snd (ids_next NS_reservation ids) \<and>
    map rsv_id (chg_reservations (sim_charging s')) =
      map rsv_id (chg_reservations (sim_charging s)) @ [fst (ids_next NS_reservation ids)]"
proof -
  let ?c = "sim_charging s"
  from assms(1) obtain station ts s1 where found: "find (\<lambda>x. stn_id x = k) (chg_stations ?c) = Some station"
    and free: "\<not> list_ex (\<lambda>r. rsv_stationId r = k) (chg_reservations ?c)"
    and ids: "ids' = snd (ids_next NS_reservation ids)"
    and s1: "s1 = s\<lparr>sim_charging := \<lparr>chg_stations = change_slots (stn_id station) (-1) (chg_stations ?c),
      chg_reservations = chg_reservations ?c @ [\<lparr>rsv_id = fst (ids_next NS_reservation ids),
        rsv_stationId = k, rsv_createdAt = ts\<rparr>]\<rparr>\<rparr>"
    and step: "simulatorOnlyTransition s1 now = Inr s'"
    by (auto simp: createReservation_def Let_def split_beta split: option.splits if_splits)
  from found have k: "stn_id station = k" by (auto simp: find_Some_iff)
  have "k \<notin> rsv_stationId ` set (chg_reservations ?c)" using free by (auto simp: list_ex_iff)
  then have "distinct (map rsv_stationId (chg_reservations (sim_charging s1)))"
    using assms(2) by (simp add: s1)
  with follows_simulatorOnly [OF step, of s] show ?thesis
    by (simp add: s1 k capacities_create ids)
qed

lemma follows_cancel:
  assumes "cancelReservation s i now = Inr s'"
    "distinct (map rsv_id (chg_reservations (sim_charging s)))"
    "distinct (map rsv_stationId (chg_reservations (sim_charging s)))"
  shows "follows s s' now \<and> sim_assistance s' = sim_assistance s \<and>
    set (chg_reservations (sim_charging s')) \<subseteq> set (chg_reservations (sim_charging s))"
proof -
  let ?c = "sim_charging s"
  from assms(1) obtain r where found: "find (\<lambda>r. rsv_id r = i) (chg_reservations ?c) = Some r"
    and step: "simulatorOnlyTransition (s\<lparr>sim_charging :=
      \<lparr>chg_stations = change_slots (rsv_stationId r) 1 (chg_stations ?c),
       chg_reservations = filter (\<lambda>x. rsv_id x \<noteq> i) (chg_reservations ?c)\<rparr>\<rparr>) now = Inr s'"
    by (auto simp: cancelReservation_def Let_def split: option.splits)
  have "distinct (map rsv_stationId (filter (\<lambda>x. rsv_id x \<noteq> i) (chg_reservations ?c)))"
    using assms(3) by (rule distinct_map_filter)
  with follows_simulatorOnly [OF step, of s] capacities_cancel [OF assms(2) found] show ?thesis
    by auto
qed

lemma accounted_distinct:
  assumes "accounted v s"
  shows "distinct (map rsv_stationId (chg_reservations (sim_charging s)))"
    "distinct (map rsv_id (chg_reservations (sim_charging s)))"
  using assms by (simp_all add: accounted_def valid_at_def)

lemma numbered_same:
  assumes "numbered ids s" "follows s s' now"
    "set (chg_reservations (sim_charging s')) \<subseteq> set (chg_reservations (sim_charging s))"
    "sim_assistance s' = sim_assistance s"
  shows "numbered ids s'"
  using assms by (auto simp: numbered_def follows_def)

lemma built_create:
  assumes "createReservation s k ids now = Inr (s', ids')" "accounted v s" "numbered ids s"
  shows "follows s s' now \<and> numbered ids' s'"
proof -
  note new = follows_create [OF assms(1) accounted_distinct(1) [OF assms(2)]]
  have "issued ids' NS_reservation i" if "i \<in> rsv_id ` set (chg_reservations (sim_charging s'))" for i
  proof -
    have "i \<in> set (map rsv_id (chg_reservations (sim_charging s')))" using that by simp
    with new assms(3) show ?thesis
      by (auto simp: numbered_def intro: issued_next issued_new simp del: counter_next(3))
  qed
  with new numbered_next [OF assms(3), of NS_reservation] show ?thesis
    by (auto simp: numbered_def follows_def)
qed

lemma built_assistance:
  assumes "new_assistance reason s ids now = Inr (s', ids')" "accounted v s" "numbered ids s"
  shows "follows s s' now \<and> numbered ids' s'"
proof -
  from assms(1) obtain ts where ids: "ids' = snd (ids_next NS_assistance ids)"
    and step: "simulatorOnlyTransition (s\<lparr>sim_assistance := sim_assistance s @
      [\<lparr>ast_id = fst (ids_next NS_assistance ids), ast_reason = reason, ast_createdAt = ts\<rparr>]\<rparr>) now = Inr s'"
    by (auto simp: new_assistance_def requestRoadsideAssistance_def Let_def split_beta)
  have "follows s s' now \<and> sim_charging s' = sim_charging s \<and> sim_assistance s' = sim_assistance s @
      [\<lparr>ast_id = fst (ids_next NS_assistance ids), ast_reason = reason, ast_createdAt = ts\<rparr>]"
    using follows_simulatorOnly [OF step, of s] accounted_distinct [OF assms(2)] by simp
  with numbered_next [OF assms(3), of NS_assistance] assms(3) show ?thesis
    unfolding ids numbered_def follows_def by (auto intro: issued_new simp del: counter_next(3))
qed

lemma built_follows:
  assumes "mutation_construct m s ids now = Inr (s', ids')" "accounted v s" "numbered ids s"
  shows "follows s s' now \<and> numbered ids' s'"
proof -
  note ok = accounted_distinct [OF assms(2)]
  note same = numbered_same [OF assms(3)] numbered_same [OF numbered_next [OF assms(3)]]
  note steps = follows_vehicle [OF _ _ ok(1)] follows_trip [OF _ ok(1)] follows_cancel [OF _ ok(2,1)]
  note parts = keeping_ids_def setVehicleSpeed_def setSoc_def setCabinTemperature_def
    new_destination_def setNavigationDestination_def reroute_def Let_def split_beta
  show ?thesis
  proof (cases m)
    case (Set_seat_heating x y)
    with assms(1) show ?thesis using follows_simulatorOnly [of _ now s' s] ok(1) same(1)
      by (fastforce simp: keeping_ids_def setSeatHeating_def)
  next
    case (Set_volume x)
    with assms(1) show ?thesis using follows_simulatorOnly [of _ now s' s] ok(1) same(1)
      by (fastforce simp: keeping_ids_def setMediaVolume_def)
  next
    case (Create_reservation k)
    with assms show ?thesis using built_create by simp
  next
    case (Roadside_assistance reason)
    with assms show ?thesis using built_assistance by simp
  qed (use assms(1) steps same in \<open>fastforce simp: parts split: if_splits\<close>)+
qed

section \<open>The simulator's invariant\<close>

definition simulator_inv :: "vehicle_simulator \<Rightarrow> bool" where
  "simulator_inv vs \<longleftrightarrow>
     safe_id 127 (vs_vehicleId vs) \<and> numbered (vs_ids vs) (vs_state vs) \<and>
     fm_seed (vs_faults vs) = sim_seed (vs_state vs) \<and>
     vs_history vs \<noteq> [] \<and> last (vs_history vs) = vs_state vs \<and>
     length (vs_history vs) \<le> HISTORY_LIMIT \<and>
     successively (\<lambda>s s'. sim_simulationVersion s' = sim_simulationVersion s + 1) (vs_history vs) \<and>
     (\<forall>s \<in> set (vs_history vs). accounted (vs_vehicleId vs) s)"

lemma simulator_inv_state: "simulator_inv vs \<Longrightarrow> accounted (vs_vehicleId vs) (vs_state vs)"
  using last_in_set by (fastforce simp: simulator_inv_def)

lemma ids_restore_snapshot [simp]: "ids_restore (ids_snapshot ids) ids = ids"
  by (simp add: ids_restore_def ids_snapshot_def)

lemma transition_cases:
  obtains (failed) e where "mutate m e0 now vs = (Inl e, vs)"
  | (built) s' ids' where
      "mutation_construct m (vs_state vs) (vs_ids vs) now = Inr (s', ids')"
      "validateSimulatorState s' now = Inr s'"
      "mutate m e0 now vs = (Inr s', vs\<lparr>vs_state := s', vs_ids := ids', vs_history :=
         (let h = vs_history vs @ [s'] in if length h > HISTORY_LIMIT then tl h else h)\<rparr>)"
proof (cases "fst (mutate m e0 now vs)")
  case (Inl e)
  then have "mutate m e0 now vs = (Inl e, vs)"
    by (auto simp: mutate_def sim_transition_def sim_fail_def Let_def split: if_splits sum.splits)
  then show thesis by (rule failed)
next
  case (Inr s)
  let ?r = "and_then (mutation_construct m (vs_state vs) (vs_ids vs) now) (\<lambda>(candidate, ids).
    and_then (validateSimulatorState candidate now) (\<lambda>next. Inr (next, ids)))"
  from Inr have run: "mutate m e0 now vs = sim_transition (mutation_construct m) e0 now vs"
    and fresh: "\<not> (e0 \<noteq> None \<and> e0 \<noteq> Some (vs_resetEpoch vs))" and "\<exists>x. ?r = Inr x"
    by (cases ?r; auto simp: mutate_def sim_transition_def sim_fail_def split: if_splits)+
  then obtain s' ids' where r: "?r = Inr (s', ids')" by auto
  then have parts: "mutation_construct m (vs_state vs) (vs_ids vs) now = Inr (s', ids')"
    "validateSimulatorState s' now = Inr s'"
    by (auto simp: validate_Inr)
  show thesis
    by (rule built [OF parts]) (simp add: run sim_transition_def fresh r Let_def del: not_None_eq)
qed

lemma simulator_inv_mutate:
  assumes "simulator_inv vs"
  shows "simulator_inv (snd (mutate m e0 now vs))"
proof (cases m e0 now vs rule: transition_cases)
  case (failed e)
  with assms show ?thesis by simp
next
  case (built s' ids')
  let ?h = "vs_history vs @ [s']"
  have inv: "numbered (vs_ids vs) (vs_state vs)" "accounted (vs_vehicleId vs) (vs_state vs)"
    using assms simulator_inv_state by (auto simp: simulator_inv_def)
  from built_follows [OF built(1) inv(2,1)] have step: "follows (vs_state vs) s' now" "numbered ids' s'" by auto
  moreover from built(2) step have "accounted (vs_vehicleId vs) s'"
    using inv(2) by (auto simp: validate_Inr accounted_def follows_def)
  moreover have chain: "successively (\<lambda>s s'. sim_simulationVersion s' = sim_simulationVersion s + 1) ?h"
    using assms step by (auto simp: simulator_inv_def successively_append_iff follows_def)
  moreover from chain have "successively (\<lambda>s s'. sim_simulationVersion s' = sim_simulationVersion s + 1)
      (tl (vs_history vs) @ [s'])"
    by (cases "vs_history vs") (auto simp: successively_Cons)
  ultimately show ?thesis
    using assms built(3) by (auto simp: simulator_inv_def follows_def Let_def HISTORY_LIMIT_def
        dest: list.set_sel(2) split: if_splits)
qed

section \<open>Scenarios\<close>

lemma double_in_bounds:
  assumes "of_int a \<le> x" "x \<le> of_int b" "\<bar>x\<bar> < 2 ^ 53"
  shows "in_bounds (of_int a) (of_int b) (double x)"
  unfolding in_bounds_def by (rule double_between [OF assms])

lemma station_coordinates [simp]:
  "in_bounds (-90) 90 (double (19519 / 625))" "in_bounds (-180) 180 (double (1214737 / 10000))"
  "in_bounds (-90) 90 (double (311967 / 10000))" "in_bounds (-180) 180 (double (121327 / 1000))"
  "in_bounds (-90) 90 (double (3121 / 100))" "in_bounds (-180) 180 (double (12141 / 100))"
  "in_bounds 0 100000 (double (92 / 5))"
  using double_in_bounds [of "-90" "19519 / 625" 90] double_in_bounds [of "-180" "1214737 / 10000" 180]
    double_in_bounds [of "-90" "311967 / 10000" 90] double_in_bounds [of "-180" "121327 / 1000" 180]
    double_in_bounds [of "-90" "3121 / 100" 90] double_in_bounds [of "-180" "12141 / 100" 180]
    double_in_bounds [of 0 "92 / 5" 100000]
  by simp_all

lemma in_bounds_numbers: "in_bounds lo hi x \<longleftrightarrow> lo \<le> x \<and> x \<le> hi"
  by (simp add: in_bounds_def)

lemma stations_valid: "list_all station_ok STATIONS \<and> distinct (map stn_id STATIONS)"
  by (simp add: STATIONS_def station_ok_def blank_text_def js_space_def is_safe_integer_def
      MAX_SAFE_INTEGER_def)

lemma raw_vehicle_valid: "iso_range ts \<Longrightarrow> vehicle_valid (rawVehicle ts)"
  unfolding vehicle_valid_def rawVehicle_def
  by (simp add: domain_id_def safe_id_def is_alnum_def is_id_char_def is_lower_def is_digit_def
      version_ok_def MAX_SAFE_INTEGER_def in_bounds_def [of _ _ 72] in_bounds_def [of _ _ 360]
      in_bounds_def [of _ _ 22] in_bounds_def [of _ _ 28] in_bounds_def [of _ _ 0])

lemma inactive_trip_valid: "iso_range ts \<Longrightarrow> trip_valid (inactiveTrip ts)"
  by (simp add: trip_valid_def inactiveTrip_def version_ok_def MAX_SAFE_INTEGER_def in_bounds_def)

lemma scenario_valid:
  assumes "iso_range ts" "scenarioParts sc ts = (v, t)"
  shows "vehicle_valid v \<and> ve_vehicleId v = ''simulator-vehicle-001'' \<and> ve_timestamp v = ts \<and>
    trip_valid t \<and> tp_timestamp t = ts"
  using raw_vehicle_valid [OF assms(1)] inactive_trip_valid [OF assms(1)] assms
  by (cases sc)
    (auto simp: vehicle_valid_def trip_valid_def rawVehicle_def inactiveTrip_def in_bounds_numbers
      [where x = "numeral _"] blank_text_def js_space_def domain_id_def safe_id_def is_alnum_def
      is_id_char_def is_lower_def is_digit_def)

text \<open>The state a scenario starts in, bound to the vehicle \<open>v\<close>.\<close>

definition default_vehicle :: string where
  "default_vehicle = ''simulator-vehicle-001''"

definition initial_state :: "scenario_id \<Rightarrow> int \<Rightarrow> utc_timestamp \<Rightarrow> string \<Rightarrow> sim_state" where
  "initial_state sc seed ts v =
     \<lparr>sim_vehicle = (fst (scenarioParts sc ts))\<lparr>ve_vehicleId := v\<rparr>, sim_trip = snd (scenarioParts sc ts),
      sim_cabin = \<lparr>cab_seatHeating = (\<lambda>_. 0), cab_mediaVolume = 35\<rparr>,
      sim_charging = \<lparr>chg_stations = STATIONS, chg_reservations = []\<rparr>,
      sim_assistance = [], sim_scenario = sc, sim_seed = seed,
      sim_simulationVersion = 1, sim_updatedAt = ts\<rparr>"

lemma scenario_parts:
  assumes "iso_range ts"
  shows "vehicle_valid (fst (scenarioParts sc ts))" "trip_valid (snd (scenarioParts sc ts))"
    "ve_vehicleId (fst (scenarioParts sc ts)) = default_vehicle"
    "ve_timestamp (fst (scenarioParts sc ts)) = ts" "tp_timestamp (snd (scenarioParts sc ts)) = ts"
  using scenario_valid [OF assms prod.collapse [symmetric]] by (simp_all add: default_vehicle_def)

lemma vehicle_valid_renamed:
  "vehicle_valid v \<Longrightarrow> safe_id 127 i \<Longrightarrow> vehicle_valid (v\<lparr>ve_vehicleId := i\<rparr>)"
  by (simp add: vehicle_valid_def domain_id_def)

lemma initial_valid:
  assumes "iso_range ts" "0 \<le> seed" "seed < 2 ^ 32" "safe_id 127 v"
  shows "valid_at n (initial_state sc seed ts v) \<longleftrightarrow> ts \<le> n"
  using assms scenario_parts [OF assms(1), of sc] stations_valid
  by (auto simp: valid_at_def initial_state_def stamped_def version_ok_def MAX_SAFE_INTEGER_def
      cabin_ok_def in_bounds_def intro: vehicle_valid_renamed)

lemma default_vehicle_safe: "safe_id 127 default_vehicle"
  by (simp add: default_vehicle_def safe_id_def is_alnum_def is_id_char_def is_lower_def is_digit_def)

lemma load_Inr:
  "scenario_load c x now = Inr s \<longleftrightarrow>
     (\<exists>sc seed ts. map_of SCENARIO_IDS c = Some sc \<and> x = of_int seed \<and> 0 \<le> seed \<and> seed < 2 ^ 32 \<and>
        now = Epoch_int ts \<and> iso_range ts \<and> s = initial_state sc seed ts default_vehicle)"
proof -
  have start: "\<lparr>sim_vehicle = fst (scenarioParts sc ts), sim_trip = snd (scenarioParts sc ts),
      sim_cabin = \<lparr>cab_seatHeating = (\<lambda>_. 0), cab_mediaVolume = 35\<rparr>,
      sim_charging = \<lparr>chg_stations = STATIONS, chg_reservations = []\<rparr>, sim_assistance = [],
      sim_scenario = sc, sim_seed = seed, sim_simulationVersion = 1, sim_updatedAt = ts\<rparr> =
    initial_state sc seed ts default_vehicle" if "iso_range ts" for sc seed ts
    using scenario_parts(3) [OF that, of sc] by (simp add: initial_state_def flip: scenario_parts(3) [OF that, of sc])
  show ?thesis
    using scenario_parts initial_valid [OF _ _ _ default_vehicle_safe]
    by (auto simp: scenario_load_def scenario_get_def split_beta parseVehicleState_Inr parseTripState_Inr
        validate_Inr stamped_def start split: option.splits)
qed

lemma bind_initial:
  assumes "iso_range ts" "0 \<le> seed" "seed < 2 ^ 32" "safe_id 127 v"
  shows "bindVehicle v (initial_state sc seed ts default_vehicle) now = Inr s \<longleftrightarrow>
    s = initial_state sc seed ts v \<and> (v = default_vehicle \<or> (\<exists>n. now = Epoch_int n \<and> ts \<le> n))"
proof -
  have "(initial_state sc seed ts default_vehicle)\<lparr>sim_vehicle := (sim_vehicle
      (initial_state sc seed ts default_vehicle))\<lparr>ve_vehicleId := v\<rparr>\<rparr> = initial_state sc seed ts v"
    by (simp add: initial_state_def)
  moreover have "ve_vehicleId (sim_vehicle (initial_state sc seed ts default_vehicle)) = default_vehicle"
    by (simp add: initial_state_def)
  ultimately show ?thesis
    using initial_valid [OF assms] by (auto simp: bindVehicle_def validate_Inr)
qed

lemma initial_inv:
  assumes "iso_range ts" "0 \<le> seed" "seed < 2 ^ 32" "safe_id 127 v"
  shows "accounted v (initial_state sc seed ts v)"
    "numbered \<lparr>ia_seed = seed, ia_counters = Map.empty\<rparr> (initial_state sc seed ts v)"
  using initial_valid [OF assms, of ts sc]
  by (simp_all add: accounted_def numbered_def initial_state_def capacities_def reserved_at_def counter_def)

section \<open>Starting, resetting and running\<close>

definition fresh_simulator :: "scenario_id \<Rightarrow> int \<Rightarrow> utc_timestamp \<Rightarrow> string \<Rightarrow> vehicle_simulator" where
  "fresh_simulator sc seed ts v =
     \<lparr>vs_vehicleId = v, vs_state = initial_state sc seed ts v, vs_history = [initial_state sc seed ts v],
      vs_ids = \<lparr>ia_seed = seed, ia_counters = Map.empty\<rparr>, vs_resetEpoch = 0,
      vs_faults = \<lparr>fm_seed = seed, fm_configs = [], fm_counters = Map.empty\<rparr>\<rparr>"

text \<open>
  When a simulator starts: the scenario exists, the seed is a 32-bit integer, the identity is
  well formed, the clock shows a date, and it did not run backwards before another vehicle
  than the default one was bound.
\<close>

definition starts ::
  "string \<Rightarrow> rat \<Rightarrow> string option \<Rightarrow> epoch \<Rightarrow> epoch \<Rightarrow> scenario_id \<Rightarrow> int \<Rightarrow> utc_timestamp \<Rightarrow> string \<Rightarrow> bool" where
  "starts scenario x vehicleId loadNow bindNow sc seed ts v \<longleftrightarrow>
     map_of SCENARIO_IDS scenario = Some sc \<and> x = of_int seed \<and> 0 \<le> seed \<and> seed < 2 ^ 32 \<and>
     loadNow = Epoch_int ts \<and> iso_range ts \<and>
     v = (case vehicleId of None \<Rightarrow> default_vehicle | Some i \<Rightarrow> i) \<and> safe_id 127 v \<and>
     (v = default_vehicle \<or> (\<exists>n. bindNow = Epoch_int n \<and> ts \<le> n))"

lemma initial_fields [simp]:
  "ve_vehicleId (sim_vehicle (initial_state sc seed ts v)) = v"
  "sim_seed (initial_state sc seed ts v) = seed"
  by (simp_all add: initial_state_def)

lemma new_simulator_Inr:
  "new_simulator scenario x vehicleId loadNow bindNow = Inr vs \<longleftrightarrow>
     (\<exists>sc seed ts v. starts scenario x vehicleId loadNow bindNow sc seed ts v \<and>
        vs = fresh_simulator sc seed ts v)"
  by (auto simp: new_simulator_def load_Inr starts_def bind_initial new_id_allocator_def Let_def
      new_fault_manager_def fresh_simulator_def cong: conj_cong split: option.splits)

lemma fresh_simulator_inv:
  "starts scenario x vehicleId loadNow bindNow sc seed ts v \<Longrightarrow> simulator_inv (fresh_simulator sc seed ts v)"
  using initial_inv [of ts seed v sc]
  by (auto simp: starts_def simulator_inv_def fresh_simulator_def HISTORY_LIMIT_def)

lemma simulator_inv_reset:
  assumes "simulator_inv vs"
  shows "simulator_inv (snd (sim_reset scenario x loadNow bindNow vs)) \<and>
    vs_vehicleId (snd (sim_reset scenario x loadNow bindNow vs)) = vs_vehicleId vs"
proof (cases "fst (sim_reset scenario x loadNow bindNow vs)")
  case (Inl e)
  then have "snd (sim_reset scenario x loadNow bindNow vs) = vs"
    by (auto simp: sim_reset_def split: sum.splits)
  with assms show ?thesis by simp
next
  case (Inr s)
  have safe: "safe_id 127 (vs_vehicleId vs)" using assms by (simp add: simulator_inv_def)
  from Inr obtain sc seed ts where at_start: "0 \<le> seed" "seed < 2 ^ 32" "iso_range ts"
    and after: "snd (sim_reset scenario x loadNow bindNow vs) = vs
      \<lparr>vs_resetEpoch := vs_resetEpoch vs + 1, vs_state := initial_state sc seed ts (vs_vehicleId vs),
       vs_history := [initial_state sc seed ts (vs_vehicleId vs)],
       vs_ids := \<lparr>ia_seed = seed, ia_counters = Map.empty\<rparr>,
       vs_faults := faults_clear ((vs_faults vs)\<lparr>fm_seed := seed\<rparr>)\<rparr>"
    using safe by (auto simp: sim_reset_def load_Inr bind_initial new_id_allocator_def faults_setSeed_def
        split: sum.splits)
  show ?thesis
    using assms initial_inv [OF at_start(3,1,2) safe, of sc]
    by (simp add: after simulator_inv_def faults_clear_def HISTORY_LIMIT_def)
qed

lemma simulator_inv_step: "simulator_inv vs \<Longrightarrow>
  simulator_inv (sim_step vs c) \<and> vs_vehicleId (sim_step vs c) = vs_vehicleId vs"
proof (induction vs c rule: sim_step.induct)
  case (1 vs m e now)
  from simulator_inv_mutate [OF this, of m e now] show ?case
    by (cases m e now vs rule: transition_cases) auto
next
  case (2 vs scenario x loadNow bindNow)
  then show ?case using simulator_inv_reset by simp
next
  case (3 vs q)
  then show ?case by (auto simp: faults_set_def simulator_inv_def split: sum.splits)
next
  case (4 vs target)
  then show ?case by (auto simp: faults_consume_def simulator_inv_def Let_def split: option.splits)
next
  case (5 vs)
  then show ?case by (simp add: faults_clear_def simulator_inv_def)
qed

lemma simulator_inv_run: "simulator_inv vs \<Longrightarrow>
  simulator_inv (sim_run vs calls) \<and> vs_vehicleId (sim_run vs calls) = vs_vehicleId vs"
  unfolding sim_run_def by (induction calls arbitrary: vs) (auto simp: simulator_inv_step)

text \<open>
  C34. A simulator starts exactly when its scenario exists, its seed and identity are well
  formed and the clock is usable; and whatever calls it then serves (mutations with any
  argument at any time, resets to any scenario, faults), its state stays valid: every vehicle
  and trip invariant holds, no stamp is later than the last update, the history holds at most
  ten states numbered in sequence and ends in the current one, the vehicle identity never
  changes, every charging station's free slots and reservations add up to its capacity with
  at most one reservation each, and the simulator reports ready from its last update on.
\<close>

theorem simulator_state_always_valid:
  "case new_simulator scenario x vehicleId loadNow bindNow of
     Inl e \<Rightarrow> \<not> (\<exists>sc seed ts v. starts scenario x vehicleId loadNow bindNow sc seed ts v)
   | Inr vs \<Rightarrow>
       (let vs' = sim_run vs calls; s = vs_state vs' in
          simulator_inv vs' \<and> ve_vehicleId (sim_vehicle s) = vs_vehicleId vs \<and>
          capacities (sim_charging s) = map (\<lambda>s. (stn_id s, stn_availableSlots s)) STATIONS \<and>
          distinct (map rsv_stationId (chg_reservations (sim_charging s))) \<and>
          isReady vs' (Epoch_int (max n (sim_updatedAt s))))"
proof (cases "new_simulator scenario x vehicleId loadNow bindNow")
  case (Inl e)
  have "\<not> starts scenario x vehicleId loadNow bindNow sc seed ts v" for sc seed ts v
    using Inl new_simulator_Inr [of scenario x vehicleId loadNow bindNow "fresh_simulator sc seed ts v"] by auto
  with Inl show ?thesis by simp
next
  case (Inr vs)
  then have "simulator_inv vs" by (auto simp: new_simulator_Inr fresh_simulator_inv)
  then have inv: "simulator_inv (sim_run vs calls)" "vs_vehicleId (sim_run vs calls) = vs_vehicleId vs"
    using simulator_inv_run by auto
  from simulator_inv_state [OF inv(1)] have ok: "accounted (vs_vehicleId vs) (vs_state (sim_run vs calls))"
    by (simp add: inv(2))
  then have "valid_at (max n (sim_updatedAt (vs_state (sim_run vs calls)))) (vs_state (sim_run vs calls))"
    by (auto simp: accounted_def intro: valid_at_mono)
  with ok inv(1) Inr show ?thesis
    by (simp add: accounted_def Let_def isReady_def is_ok_def validate_Inr split: sum.split)
       (metis Inr_Inl_False validate_Inr)
qed

section \<open>Reservations\<close>

lemma find_distinct: "distinct (map f xs) \<Longrightarrow> x \<in> set xs \<Longrightarrow> find (\<lambda>y. f y = f x) xs = Some x"
  by (induction xs) auto

lemma stations_after_booking:
  assumes "distinct (map stn_id ss)" "list_all station_ok ss" "x \<in> set ss" "1 \<le> stn_availableSlots x"
  shows "list_all station_ok (change_slots (stn_id x) (-1) ss)"
proof -
  have "station_ok (y\<lparr>stn_availableSlots := stn_availableSlots y - 1\<rparr>)" if "y \<in> set ss" "stn_id y = stn_id x" for y
  proof -
    have "y = x" using assms(1,3) that by (auto simp: distinct_map inj_on_def)
    with assms(2,3,4) show ?thesis
      by (auto simp: station_ok_def list_all_iff intro: is_safe_integer_mono)
  qed
  with assms(2) show ?thesis by (auto simp: change_slots_def list_all_iff)
qed

definition booked :: "sim_state \<Rightarrow> id_allocator \<Rightarrow> string \<Rightarrow> int \<Rightarrow> sim_state" where
  "booked s ids k n = s
     \<lparr>sim_charging :=
        \<lparr>chg_stations = change_slots k (-1) (chg_stations (sim_charging s)),
         chg_reservations = chg_reservations (sim_charging s) @
           [\<lparr>rsv_id = fst (ids_next NS_reservation ids), rsv_stationId = k, rsv_createdAt = n\<rparr>]\<rparr>,
      sim_simulationVersion := sim_simulationVersion s + 1, sim_updatedAt := n\<rparr>"

lemma allocated_id_Cons: "allocated_id ns seed k \<noteq> []"
  by (cases ns) (simp_all add: allocated_id_def)

text \<open>No stamp of the state but that of its last update is later than \<open>n\<close>.\<close>

definition not_before :: "int \<Rightarrow> sim_state \<Rightarrow> bool" where
  "not_before n s \<longleftrightarrow>
     ve_timestamp (sim_vehicle s) \<le> n \<and> tp_timestamp (sim_trip s) \<le> n \<and>
     list_all (\<lambda>r. rsv_createdAt r \<le> n) (chg_reservations (sim_charging s)) \<and>
     list_all (\<lambda>a. ast_createdAt a \<le> n) (sim_assistance s)"

lemma valid_restamped:
  "valid_at m s \<Longrightarrow> not_before n s \<Longrightarrow> iso_range n \<Longrightarrow> valid_at n (s\<lparr>sim_updatedAt := n\<rparr>)"
  by (auto simp: valid_at_def not_before_def stamped_def list_all_iff)

lemma booked_valid:
  assumes "valid_at n (s\<lparr>sim_updatedAt := n\<rparr>)" "numbered ids s" "iso_range n" "sim_simulationVersion s < MAX_SAFE_INTEGER"
    and "x \<in> set (chg_stations (sim_charging s))" "1 \<le> stn_availableSlots x"
  shows "valid_at n (booked s ids (stn_id x) n)"
proof -
  let ?rs = "chg_reservations (sim_charging s)"
  let ?i = "fst (ids_next NS_reservation ids)"
  have "?i \<notin> rsv_id ` set ?rs"
    using assms(2) not_issued_next [of ids NS_reservation] by (auto simp: numbered_def simp del: counter_next(3))
  then have "distinct (map rsv_id ?rs @ [?i])"
    using assms(1) by (simp add: valid_at_def del: counter_next(3))
  moreover have "list_all station_ok (change_slots (stn_id x) (-1) (chg_stations (sim_charging s)))"
    using assms(1,5,6) by (intro stations_after_booking) (simp_all add: valid_at_def)
  moreover have "set (map stn_id (change_slots k m ss)) = set (map stn_id ss)" for k m ss
    by (simp only: change_slots_ids)
  ultimately show ?thesis
    using assms(1,3,4,5) by (auto simp: valid_at_def booked_def stamped_def version_ok_def allocated_id_Cons)
qed

text \<open>The conditions under which a station can be booked.\<close>

definition bookable :: "vehicle_simulator \<Rightarrow> string \<Rightarrow> nat option \<Rightarrow> int \<Rightarrow> bool" where
  "bookable vs k resetEpoch n \<longleftrightarrow>
     (let s = vs_state vs in
      (resetEpoch = None \<or> resetEpoch = Some (vs_resetEpoch vs)) \<and> iso_range n \<and> not_before n s \<and>
      sim_simulationVersion s < MAX_SAFE_INTEGER \<and>
      (\<exists>x \<in> set (chg_stations (sim_charging s)). stn_id x = k \<and> 1 \<le> stn_availableSlots x) \<and>
      \<not> list_ex (\<lambda>r. rsv_stationId r = k) (chg_reservations (sim_charging s)))"

lemma create_bookable:
  assumes "simulator_inv vs" "bookable vs k e n"
  shows "fst (mutate (Create_reservation k) e (Epoch_int n) vs) = Inr (booked (vs_state vs) (vs_ids vs) k n)"
proof -
  let ?s = "vs_state vs"
  from assms(2) obtain x where x: "x \<in> set (chg_stations (sim_charging ?s))" "stn_id x = k"
    "1 \<le> stn_availableSlots x"
    and e: "e = None \<or> e = Some (vs_resetEpoch vs)" and n: "iso_range n" "not_before n ?s"
    and version: "sim_simulationVersion ?s < MAX_SAFE_INTEGER"
    and free: "\<not> list_ex (\<lambda>r. rsv_stationId r = k) (chg_reservations (sim_charging ?s))"
    by (auto simp: bookable_def Let_def)
  have valid: "valid_at (sim_updatedAt ?s) ?s"
    using simulator_inv_state [OF assms(1)] by (simp add: accounted_def)
  with x have "find (\<lambda>y. stn_id y = k) (chg_stations (sim_charging ?s)) = Some x"
    using find_distinct [of stn_id _ x] by (auto simp: valid_at_def)
  moreover have "is_safe_integer (sim_simulationVersion ?s)"
    using valid by (auto simp: valid_at_def version_ok_def is_safe_integer_def)
  ultimately have "createReservation ?s k (vs_ids vs) (Epoch_int n) =
      Inr (booked ?s (vs_ids vs) k n, snd (ids_next NS_reservation (vs_ids vs)))"
    using x free n(1) version
    by (simp add: createReservation_def Let_def split_beta toUtcTimestamp_def sim_domain_def
        simulatorOnlyTransition_def nextVersion_def booked_def)
  moreover have "validateSimulatorState (booked ?s (vs_ids vs) k n) (Epoch_int n) = Inr (booked ?s (vs_ids vs) k n)"
    using booked_valid [OF valid_restamped [OF valid n(2,1)] _ n(1) version x(1,3)] assms(1) x(2)
    by (simp add: validate_Inr simulator_inv_def)
  ultimately show ?thesis using e by (auto simp: mutate_def sim_transition_def Let_def)
qed

lemma created_bookable:
  assumes "fst (mutate (Create_reservation k) e now vs) = Inr s'"
  shows "\<exists>n. now = Epoch_int n \<and> bookable vs k e n"
proof (cases "Create_reservation k" e now vs rule: transition_cases)
  case (built s' ids')
  let ?s = "vs_state vs"
  from built(1) obtain x n ts where now: "now = Epoch_int n" "iso_range n"
    and found: "find (\<lambda>y. stn_id y = k) (chg_stations (sim_charging ?s)) = Some x"
      "1 \<le> stn_availableSlots x" "\<not> list_ex (\<lambda>r. rsv_stationId r = k) (chg_reservations (sim_charging ?s))"
    and step: "sim_simulationVersion ?s < MAX_SAFE_INTEGER"
      "s' = ?s\<lparr>sim_charging := \<lparr>chg_stations = change_slots (stn_id x) (-1) (chg_stations (sim_charging ?s)),
        chg_reservations = chg_reservations (sim_charging ?s) @ [ts]\<rparr>,
        sim_simulationVersion := sim_simulationVersion ?s + 1, sim_updatedAt := n\<rparr>"
    by (auto simp: createReservation_def Let_def split_beta simulatorOnly_Inr not_less
        split: option.splits if_splits)
  have "x \<in> set (chg_stations (sim_charging ?s)) \<and> stn_id x = k"
    using found(1) by (auto simp: find_Some_iff)
  moreover have "not_before n ?s"
    using built(2) now(1) by (auto simp: validate_Inr valid_at_def step(2) not_before_def stamped_def list_all_iff)
  moreover have "e = None \<or> e = Some (vs_resetEpoch vs)"
    using built(3) by (auto simp: mutate_def sim_transition_def sim_fail_def split: if_splits)
  ultimately show ?thesis
    using now found(2,3) step(1) by (auto simp: bookable_def Let_def)
qed (use assms in simp)

lemma last_trimmed: "HISTORY_LIMIT < Suc (length xs) \<Longrightarrow> last (tl (xs @ [x])) = x"
  by (cases xs) (simp_all add: HISTORY_LIMIT_def)

text \<open>
  C35. A reservation is granted exactly when it can be: on a well-formed simulator, booking a
  station succeeds if and only if the request was not made before a reset, the clock is not
  behind a stamp of the state, the station exists with a free slot and is not reserved already
  (an identifier can never stand in the way: those in use were issued before and are never
  issued again). What is granted is one new reservation under a fresh identifier for one slot
  less; what is refused, for this or for any other mutation, leaves the state, the history,
  the identifiers and the faults as they were.
\<close>

theorem reservation_granted_exactly_when_bookable:
  assumes "simulator_inv vs"
  shows "(is_ok (fst (mutate (Create_reservation k) e now vs)) \<longleftrightarrow>
       (\<exists>n. now = Epoch_int n \<and> bookable vs k e n)) \<and>
     (case mutate m e now vs of
        (Inl failure, vs') \<Rightarrow> vs' = vs
      | (Inr s', vs') \<Rightarrow> vs_state vs' = s' \<and> last (vs_history vs') = s') \<and>
     (case mutate (Create_reservation k) e (Epoch_int n) vs of
        (Inl failure, vs') \<Rightarrow> \<not> bookable vs k e n
      | (Inr s', vs') \<Rightarrow> s' = booked (vs_state vs) (vs_ids vs) k n \<and>
          fst (ids_next NS_reservation (vs_ids vs)) \<notin>
            rsv_id ` set (chg_reservations (sim_charging (vs_state vs))))"
proof (intro conjI)
  show "is_ok (fst (mutate (Create_reservation k) e now vs)) \<longleftrightarrow> (\<exists>n. now = Epoch_int n \<and> bookable vs k e n)"
    using create_bookable [OF assms] created_bookable [of k e now vs]
    by (cases "fst (mutate (Create_reservation k) e now vs)") auto
  show "case mutate m e now vs of (Inl failure, vs') \<Rightarrow> vs' = vs
      | (Inr s', vs') \<Rightarrow> vs_state vs' = s' \<and> last (vs_history vs') = s'"
    by (cases m e now vs rule: transition_cases) (auto simp: Let_def last_trimmed)
  have "fst (ids_next NS_reservation (vs_ids vs)) \<notin> rsv_id ` set (chg_reservations (sim_charging (vs_state vs)))"
    using assms not_issued_next [of "vs_ids vs" NS_reservation]
    by (auto simp: simulator_inv_def numbered_def simp del: counter_next(3))
  then show "case mutate (Create_reservation k) e (Epoch_int n) vs of (Inl failure, vs') \<Rightarrow> \<not> bookable vs k e n
      | (Inr s', vs') \<Rightarrow> s' = booked (vs_state vs) (vs_ids vs) k n \<and>
          fst (ids_next NS_reservation (vs_ids vs)) \<notin> rsv_id ` set (chg_reservations (sim_charging (vs_state vs)))"
    using create_bookable [OF assms, of k e n] created_bookable [of k e "Epoch_int n" vs]
    by (cases "mutate (Create_reservation k) e (Epoch_int n) vs"; cases "fst (mutate (Create_reservation k) e (Epoch_int n) vs)")
       auto
qed

definition city_simulator :: vehicle_simulator where
  "city_simulator = fresh_simulator SC_city_idle 7 1000 default_vehicle"

lemma city_starts: "starts ''city_idle'' 7 None (Epoch_int 1000) (Epoch_int 1000) SC_city_idle 7 1000 default_vehicle"
  using default_vehicle_safe
  by (simp add: starts_def SCENARIO_IDS_def iso_range_def MIN_ISO_MS_def MAX_ISO_MS_def)

lemma city_bookable: "bookable city_simulator ''station-pudong-001'' (Some 0) 2000"
  by (simp add: bookable_def city_simulator_def fresh_simulator_def initial_state_def STATIONS_def Let_def
      not_before_def rawVehicle_def inactiveTrip_def iso_range_def MIN_ISO_MS_def MAX_ISO_MS_def MAX_SAFE_INTEGER_def)

theorem reservation_granted_exactly_when_bookable_witness:
  "simulator_inv city_simulator \<and>
   is_ok (fst (mutate (Create_reservation ''station-pudong-001'') (Some 0) (Epoch_int 2000) city_simulator))"
proof -
  have inv: "simulator_inv city_simulator"
    unfolding city_simulator_def by (rule fresh_simulator_inv [OF city_starts])
  show ?thesis
    using reservation_granted_exactly_when_bookable [OF inv, of "''station-pudong-001''" "Some 0" "Epoch_int 2000"]
      inv city_bookable by blast
qed

end
