(* ===== verification/Fleet.thy ===== *)
theory Fleet
  imports SimulatorGuarantees
begin

text \<open>
  The fleet of simulators, \<open>services/vehicle-simulator/src/fleet.ts\<close>: every vehicle identity is
  routed to a simulator of its own. The guarantee is a refinement: seen from one vehicle, the
  fleet is a simulator that serves the calls of this vehicle alone.
\<close>

section \<open>The model\<close>

record fleet =
  fl_simulators :: "(string \<times> vehicle_simulator) list"
  fl_defaultVehicleId :: string
  fl_maxVehicles :: int

definition fleet_size :: "fleet \<Rightarrow> nat" where
  "fleet_size f = length (fl_simulators f)"

definition new_fleet :: "vehicle_simulator \<Rightarrow> rat \<Rightarrow> (unit, fleet) result" where
  "new_fleet defaultSimulator maxVehicles =
     (if \<not> is_integer maxVehicles \<or> maxVehicles < 1 \<or> maxVehicles > 10000 then Inl ()
      else let v = ve_vehicleId (sim_vehicle (vs_state defaultSimulator))
           in Inr \<lparr>fl_simulators = [(v, defaultSimulator)], fl_defaultVehicleId = v,
                   fl_maxVehicles = \<lfloor>maxVehicles\<rfloor>\<rparr>)"

text \<open>
  The identity of a request is absent, a text, or something else. \<open>create\<close> is the simulator
  factory of the fleet at this call.
\<close>

datatype identity_header = No_identity | Identity string | Malformed_identity

definition fleet_resolve ::
  "(string \<Rightarrow> (sim_failure, vehicle_simulator) result) \<Rightarrow> identity_header \<Rightarrow> fleet \<Rightarrow>
     (sim_failure, string) result \<times> fleet" where
  "fleet_resolve create header f =
     (case (case header of No_identity \<Rightarrow> Some (fl_defaultVehicleId f)
            | Identity v \<Rightarrow> Some v | Malformed_identity \<Rightarrow> None) of
        None \<Rightarrow> (sim_invalid, f)
      | Some v \<Rightarrow>
          if \<not> safe_id 127 v then (sim_invalid, f)
          else if map_of (fl_simulators f) v \<noteq> None then (Inr v, f)
          else if int (fleet_size f) \<ge> fl_maxVehicles f then (sim_fail SE_INTERNAL_ERROR 503, f)
          else case create v of
                 Inl e \<Rightarrow> (Inl e, f)
               | Inr vs \<Rightarrow>
                   if ve_vehicleId (sim_vehicle (vs_state vs)) \<noteq> v
                   then (sim_fail SE_INTERNAL_ERROR 500, f)
                   else (Inr v, f\<lparr>fl_simulators := fl_simulators f @ [(v, vs)]\<rparr>))"

text \<open>The factory of a fleet that is given none, and a call routed to its vehicle.\<close>

definition default_factory :: "epoch \<Rightarrow> epoch \<Rightarrow> string \<Rightarrow> (sim_failure, vehicle_simulator) result" where
  "default_factory loadNow bindNow vehicleId = new_simulator ''city_idle'' 1 (Some vehicleId) loadNow bindNow"

type_synonym fleet_request =
  "(string \<Rightarrow> (sim_failure, vehicle_simulator) result) \<times> identity_header \<times> simulator_call"

definition serve_vehicle :: "string \<Rightarrow> simulator_call \<Rightarrow> fleet \<Rightarrow> fleet" where
  "serve_vehicle v c f = f\<lparr>fl_simulators :=
     map (\<lambda>(w, vs). (w, if w = v then sim_step vs c else vs)) (fl_simulators f)\<rparr>"

fun fleet_step :: "fleet \<Rightarrow> fleet_request \<Rightarrow> fleet" where
  "fleet_step f (create, header, c) =
     (case fleet_resolve create header f of
        (Inl _, f') \<Rightarrow> f' | (Inr v, f') \<Rightarrow> serve_vehicle v c f')"

definition fleet_run :: "fleet \<Rightarrow> fleet_request list \<Rightarrow> fleet" where
  "fleet_run = foldl fleet_step"

section \<open>Isolation\<close>

definition addressed :: "fleet \<Rightarrow> identity_header \<Rightarrow> string option" where
  "addressed f header = (case header of
     No_identity \<Rightarrow> Some (fl_defaultVehicleId f) | Identity v \<Rightarrow> Some v | Malformed_identity \<Rightarrow> None)"

text \<open>The calls of one vehicle among the requests.\<close>

definition calls_of :: "fleet \<Rightarrow> string \<Rightarrow> fleet_request list \<Rightarrow> simulator_call list" where
  "calls_of f w rs = [c. (create, header, c) \<leftarrow> rs, addressed f header = Some w]"

definition fleet_inv :: "fleet \<Rightarrow> bool" where
  "fleet_inv f \<longleftrightarrow>
     distinct (map fst (fl_simulators f)) \<and> int (length (fl_simulators f)) \<le> fl_maxVehicles f \<and>
     (\<forall>(w, vs) \<in> set (fl_simulators f). simulator_inv vs \<and> vs_vehicleId vs = w)"

definition makes_simulators :: "fleet_request \<Rightarrow> bool" where
  "makes_simulators r \<longleftrightarrow> (\<forall>v. case fst r v of Inl _ \<Rightarrow> True | Inr vs \<Rightarrow> simulator_inv vs)"

lemma simulator_identity:
  "simulator_inv vs \<Longrightarrow> ve_vehicleId (sim_vehicle (vs_state vs)) = vs_vehicleId vs \<and> safe_id 127 (vs_vehicleId vs)"
  using simulator_inv_state by (auto simp: accounted_def simulator_inv_def)

lemma resolve_cases:
  assumes "fleet_inv f" "makes_simulators (create, header, c)"
  obtains (refused) e where "fleet_resolve create header f = (Inl e, f)"
      "\<And>w vs. (w, vs) \<in> set (fl_simulators f) \<Longrightarrow> addressed f header \<noteq> Some w"
  | (known) v vs where "addressed f header = Some v" "(v, vs) \<in> set (fl_simulators f)"
      "fleet_resolve create header f = (Inr v, f)"
  | (created) v vs where "addressed f header = Some v" "v \<notin> fst ` set (fl_simulators f)"
      "fleet_inv (f\<lparr>fl_simulators := fl_simulators f @ [(v, vs)]\<rparr>)"
      "fleet_resolve create header f = (Inr v, f\<lparr>fl_simulators := fl_simulators f @ [(v, vs)]\<rparr>)"
proof (cases "addressed f header")
  case None
  then have "fleet_resolve create header f = (sim_invalid, f)"
    by (auto simp: fleet_resolve_def addressed_def split: identity_header.splits)
  then show thesis using None by (intro refused) (simp_all add: sim_fail_def)
next
  case (Some v)
  note resolve = fleet_resolve_def [of create header f, folded addressed_def, unfolded Some option.case]
  show thesis
  proof (cases "map_of (fl_simulators f) v")
    case None: None
    then have new: "v \<notin> fst ` set (fl_simulators f)" by (simp add: map_of_eq_None_iff)
    show thesis
    proof (cases "\<exists>e. fleet_resolve create header f = (Inl e, f)")
      case True
      then show thesis using new Some by (elim exE, intro refused) force+
    next
      case False
      then obtain vs where "create v = Inr vs" "ve_vehicleId (sim_vehicle (vs_state vs)) = v"
        "int (length (fl_simulators f)) < fl_maxVehicles f"
        "fleet_resolve create header f = (Inr v, f\<lparr>fl_simulators := fl_simulators f @ [(v, vs)]\<rparr>)"
        by (auto simp: resolve None sim_fail_def fleet_size_def split: if_splits sum.splits)
      moreover from this(1) assms(2) have "simulator_inv vs"
        by (auto simp: makes_simulators_def dest: spec [of _ v])
      ultimately show thesis
        using assms(1) new Some simulator_identity by (intro created) (auto simp: fleet_inv_def)
    qed
  next
    case known_vs: (Some vs)
    then have "(v, vs) \<in> set (fl_simulators f)" by (rule map_of_SomeD)
    moreover from this assms(1) have "safe_id 127 v"
      using simulator_identity by (auto simp: fleet_inv_def)
    ultimately show thesis
      using known_vs by (intro known [of v vs]) (auto simp: Some resolve)
  qed
qed

lemma serve_vehicle_fields [simp]:
  "fl_defaultVehicleId (serve_vehicle v c f) = fl_defaultVehicleId f"
  "fl_maxVehicles (serve_vehicle v c f) = fl_maxVehicles f"
  by (simp_all add: serve_vehicle_def)

lemma serve_vehicle_inv:
  assumes "fleet_inv f"
  shows "fleet_inv (serve_vehicle v c f)"
proof -
  have "map fst (fl_simulators (serve_vehicle v c f)) = map fst (fl_simulators f)"
    by (simp add: serve_vehicle_def split_beta comp_def)
  moreover have "length (fl_simulators (serve_vehicle v c f)) = length (fl_simulators f)"
    by (simp add: serve_vehicle_def)
  moreover have "simulator_inv vs \<and> vs_vehicleId vs = w"
    if "(w, vs) \<in> set (fl_simulators (serve_vehicle v c f))" for w vs
    using that assms by (auto simp: fleet_inv_def serve_vehicle_def simulator_inv_step)
  ultimately show ?thesis using assms by (auto simp: fleet_inv_def)
qed

lemma served_vehicle:
  "(w, vs) \<in> set (fl_simulators f) \<Longrightarrow>
   (w, if w = v then sim_step vs c else vs) \<in> set (fl_simulators (serve_vehicle v c f))"
  by (force simp: serve_vehicle_def)

lemma fleet_step_isolated:
  assumes "fleet_inv f" "makes_simulators r"
  shows "fleet_inv (fleet_step f r) \<and> fl_defaultVehicleId (fleet_step f r) = fl_defaultVehicleId f \<and>
    fl_maxVehicles (fleet_step f r) = fl_maxVehicles f \<and>
    ((w, vs) \<in> set (fl_simulators f) \<longrightarrow>
       (w, sim_run vs (calls_of f w [r])) \<in> set (fl_simulators (fleet_step f r)))"
proof -
  obtain create header c where r: "r = (create, header, c)" by (cases r)
  note ok = assms(2) [unfolded r]
  show ?thesis
  proof (cases rule: resolve_cases [OF assms(1) ok, case_names refused known created])
    case (refused e)
    with assms(1) show ?thesis by (auto simp: r calls_of_def sim_run_def)
  next
    case (known v vs')
    with assms(1) serve_vehicle_inv served_vehicle [of w vs f v c] show ?thesis
      by (auto simp: r calls_of_def sim_run_def)
  next
    case (created v vs')
    from created(2) have "w \<noteq> v" if "(w, vs) \<in> set (fl_simulators f)" using that by force
    with created serve_vehicle_inv [OF created(3)]
      served_vehicle [of w vs "f\<lparr>fl_simulators := fl_simulators f @ [(v, vs')]\<rparr>" v c]
    show ?thesis by (auto simp: r calls_of_def sim_run_def)
  qed
qed

lemma calls_of_default: "fl_defaultVehicleId f = fl_defaultVehicleId g \<Longrightarrow> calls_of f w rs = calls_of g w rs"
proof -
  assume "fl_defaultVehicleId f = fl_defaultVehicleId g"
  then have "addressed f = addressed g"
    by (auto simp: addressed_def fun_eq_iff split: identity_header.split)
  then show ?thesis by (simp add: calls_of_def)
qed

lemma calls_of_Cons: "calls_of f w (r # rs) = calls_of f w [r] @ calls_of f w rs"
  by (simp add: calls_of_def)

lemma fleet_run_isolated:
  assumes "fleet_inv f" "list_all makes_simulators rs"
  shows "fleet_inv (fleet_run f rs) \<and> fl_maxVehicles (fleet_run f rs) = fl_maxVehicles f \<and>
    fl_defaultVehicleId (fleet_run f rs) = fl_defaultVehicleId f \<and>
    ((w, vs) \<in> set (fl_simulators f) \<longrightarrow>
       (w, sim_run vs (calls_of f w rs)) \<in> set (fl_simulators (fleet_run f rs)))"
  using assms
proof (induction rs arbitrary: f vs)
  case (Cons r rs)
  from Cons.prems have ok: "makes_simulators r" "list_all makes_simulators rs" by simp_all
  note step = fleet_step_isolated [OF Cons.prems(1) ok(1), of w vs]
  from step have inv: "fleet_inv (fleet_step f r)" by blast
  note rest = Cons.IH [OF inv ok(2), of "sim_run vs (calls_of f w [r])"]
  have "calls_of (fleet_step f r) w rs = calls_of f w rs" using step by (intro calls_of_default) simp
  moreover have "fleet_run f (r # rs) = fleet_run (fleet_step f r) rs"
    "sim_run vs (calls_of f w (r # rs)) = sim_run (sim_run vs (calls_of f w [r])) (calls_of f w rs)"
    by (simp_all add: fleet_run_def sim_run_def calls_of_Cons [of f w r rs])
  ultimately show ?case using step rest by simp
qed (simp add: fleet_run_def calls_of_def sim_run_def)

text \<open>
  C36. The vehicles of a fleet are isolated from each other, and the fleet is bounded: whatever
  requests a fleet serves, it holds at most its maximum of simulators, one per identity, each
  of them well formed and bound to its identity; and from then on every vehicle it holds
  behaves as if it were alone, its simulator being the one that serves exactly the requests
  addressed to it (those without an identity go to the default vehicle), in their order. No
  simulator is ever evicted.
\<close>

theorem fleet_isolates_vehicles:
  assumes "new_fleet vs0 maxVehicles = Inr f0" "simulator_inv vs0"
    and "list_all makes_simulators (before @ after)"
  shows "let f = fleet_run f0 before in
     int (length (fl_simulators f)) \<le> fl_maxVehicles f0 \<and> fl_maxVehicles f0 \<le> 10000 \<and>
     distinct (map fst (fl_simulators f)) \<and>
     list_all (\<lambda>(w, vs). simulator_inv vs \<and> ve_vehicleId (sim_vehicle (vs_state vs)) = w \<and>
       map_of (fl_simulators (fleet_run f after)) w = Some (sim_run vs (calls_of f0 w after)))
       (fl_simulators f)"
proof -
  let ?f = "fleet_run f0 before"
  have f0: "fleet_inv f0 \<and> fl_maxVehicles f0 \<le> 10000"
    using assms(1,2) simulator_identity [OF assms(2)]
    by (auto simp: new_fleet_def fleet_inv_def is_integer_def le_floor_iff floor_le_iff Let_def split: if_splits)
  from assms(3) have ok: "list_all makes_simulators before" "list_all makes_simulators after" by simp_all
  from fleet_run_isolated [OF conjunct1 [OF f0] ok(1)] have inv: "fleet_inv ?f"
    and same: "fl_maxVehicles ?f = fl_maxVehicles f0" "fl_defaultVehicleId ?f = fl_defaultVehicleId f0"
    by blast+
  have "simulator_inv vs \<and> ve_vehicleId (sim_vehicle (vs_state vs)) = w \<and>
      map_of (fl_simulators (fleet_run ?f after)) w = Some (sim_run vs (calls_of f0 w after))"
    if "(w, vs) \<in> set (fl_simulators ?f)" for w vs
    using fleet_run_isolated [OF inv ok(2), of w vs] that inv simulator_identity [of vs]
      calls_of_default [OF same(2)]
    by (auto simp: fleet_inv_def intro: map_of_is_SomeI)
  with inv same(1) f0 show ?thesis by (auto simp: fleet_inv_def Let_def list_all_iff)
qed

lemma default_factory_makes: "makes_simulators (default_factory loadNow bindNow, header, c)"
  by (auto simp: makes_simulators_def default_factory_def new_simulator_Inr fresh_simulator_inv split: sum.split)

theorem fleet_isolates_vehicles_witness:
  "let f = fleet_run \<lparr>fl_simulators = [(default_vehicle, city_simulator)],
       fl_defaultVehicleId = default_vehicle, fl_maxVehicles = 2\<rparr>
       [(default_factory (Epoch_int 1500) (Epoch_int 1500), Identity ''car-7'',
         Call_mutation (Set_volume 40) None (Epoch_int 1600))]
   in int (length (fl_simulators f)) \<le> 2 \<and> distinct (map fst (fl_simulators f))"
proof -
  have inv: "simulator_inv city_simulator"
    unfolding city_simulator_def by (rule fresh_simulator_inv [OF city_starts])
  moreover from simulator_identity [OF inv] have "new_fleet city_simulator 2 = Inr
      \<lparr>fl_simulators = [(default_vehicle, city_simulator)], fl_defaultVehicleId = default_vehicle,
       fl_maxVehicles = 2\<rparr>"
    by (simp add: new_fleet_def is_integer_def city_simulator_def fresh_simulator_def)
  ultimately show ?thesis
    using fleet_isolates_vehicles [of city_simulator 2 _ "[_]" "[]"] default_factory_makes
    by (fastforce simp: Let_def)
qed

end
