(* ===== verification/AuditTrail.thy ===== *)
theory AuditTrail
  imports Canonical Domain
begin

text \<open>
  The audit trail of \<open>packages/persistence/src/audit.ts\<close>: which metadata may be recorded, and the
  in-memory repository. The two regular expressions are lists of patterns of a small matcher;
  the flags \<open>iu\<close> make letters match in either case.
\<close>

section \<open>Patterns\<close>

datatype pattern_item =
  Letter char
| One_of "char list"
| Maybe "char list"
| Maybe_any
| Spaces

definition lower_case :: "char \<Rightarrow> char" where
  "lower_case c = (let n = (of_char c :: nat) in if 65 \<le> n \<and> n \<le> 90 then char_of (n + 32) else c)"

definition line_end :: "char \<Rightarrow> bool" where
  "line_end c \<longleftrightarrow> (let n = (of_char c :: nat) in n = 10 \<or> n = 13)"

text \<open>A match at the start of the text.\<close>

function matches :: "pattern_item list \<Rightarrow> string \<Rightarrow> bool" where
  "matches [] s = True"
| "matches (Letter c # p) [] = False"
| "matches (Letter c # p) (d # s) = (lower_case d = c \<and> matches p s)"
| "matches (One_of cs # p) [] = False"
| "matches (One_of cs # p) (d # s) = (d \<in> set cs \<and> matches p s)"
| "matches (Maybe cs # p) [] = matches p []"
| "matches (Maybe cs # p) (d # s) = (matches p (d # s) \<or> d \<in> set cs \<and> matches p s)"
| "matches (Maybe_any # p) [] = matches p []"
| "matches (Maybe_any # p) (d # s) = (matches p (d # s) \<or> \<not> line_end d \<and> matches p s)"
| "matches (Spaces # p) [] = matches p []"
| "matches (Spaces # p) (d # s) = (matches p (d # s) \<or> js_space d \<and> matches (Spaces # p) s)"
  by pat_completeness auto
termination
  by (relation "measures [\<lambda>(p, s). length p + length s]") auto

definition found_in :: "string \<Rightarrow> pattern_item list \<Rightarrow> bool" where
  "found_in s p \<longleftrightarrow> list_ex (matches p) (suffixes s)"

definition word :: "string \<Rightarrow> pattern_item list" where
  "word s = map Letter s"

definition assignment :: "pattern_item list" where
  "assignment = [Spaces, One_of ''=:'']"

definition sensitive_text :: "pattern_item list list" where
  "sensitive_text =
     [word ''authorization'' @ [Spaces, Letter CHR '':'', Spaces] @ word ''bearer'',
      word ''api'' @ [Maybe ''_-''] @ word ''key'' @ assignment,
      word ''confirmation'' @ [Maybe_any] @ word ''token'' @ assignment,
      word ''access'' @ [Maybe_any] @ word ''token'' @ assignment,
      word ''refresh'' @ [Maybe_any] @ word ''token'' @ assignment,
      word ''credential'' @ assignment, word ''cookie'' @ assignment, word ''token'' @ assignment,
      word ''secret'' @ assignment, word ''password'' @ assignment,
      word ''chain'' @ [Maybe_any] @ word ''of'' @ [Maybe_any] @ word ''thought'',
      word ''internal'' @ [Maybe_any] @ word ''reasoning'']"

definition forbiddenMetadataKey :: "pattern_item list list" where
  "forbiddenMetadataKey =
     [word ''authorization'', word ''confirmation'' @ [Maybe_any] @ word ''token'',
      word ''api'' @ [Maybe_any] @ word ''key'', word ''access'' @ [Maybe_any] @ word ''token'',
      word ''refresh'' @ [Maybe_any] @ word ''token'', word ''credential'', word ''cookie'',
      word ''secret'', word ''password'',
      word ''chain'' @ [Maybe_any] @ word ''of'' @ [Maybe_any] @ word ''thought'',
      word ''reasoning'', word ''header'']"

text \<open>The characters a text must contain for a pattern to be found in it, in either case.\<close>

primrec item_in :: "string \<Rightarrow> pattern_item \<Rightarrow> bool" where
  "item_in l (Letter c) = (c \<in> set l)"
| "item_in l (One_of cs) = list_ex (\<lambda>c. lower_case c \<in> set l) cs"
| "item_in l (Maybe cs) = True"
| "item_in l Maybe_any = True"
| "item_in l Spaces = True"

lemma item_in_mono: "item_in (map lower_case s) i \<Longrightarrow> set s \<subseteq> set t \<Longrightarrow> item_in (map lower_case t) i"
  by (cases i) (auto simp: list_ex_iff)

lemma matches_items: "matches p s \<Longrightarrow> i \<in> set p \<Longrightarrow> item_in (map lower_case s) i"
proof (induction p s rule: matches.induct)
  case (3 c p d s)
  then show ?case using item_in_mono [of s i "d # s"] by (cases "i \<in> set p") auto
next
  case (5 cs p d s)
  then show ?case using item_in_mono [of s i "d # s"] by (cases "i \<in> set p") (auto simp: list_ex_iff)
next
  case (7 cs p d s)
  then show ?case using item_in_mono [of s i "d # s"] by (cases "i \<in> set p") auto
next
  case (9 p d s)
  then show ?case using item_in_mono [of s i "d # s"] by (cases "i \<in> set p") auto
next
  case (11 p d s)
  then show ?case using item_in_mono [of s i "d # s"] by (cases "i \<in> set p") auto
qed auto

lemma found_items: "found_in s p \<Longrightarrow> list_all (item_in (map lower_case s)) p"
  using matches_items item_in_mono set_mono_suffix
  by (force simp: found_in_def list_ex_iff list_all_iff)

lemma none_found:
  "map lower_case s = l \<Longrightarrow> \<not> list_ex (list_all (item_in l)) ps \<Longrightarrow> \<not> list_ex (found_in s) ps"
  using found_items by (auto simp: list_ex_iff)

lemma lower_case_assignment [simp]: "lower_case CHR ''='' = CHR ''=''" "lower_case CHR '':'' = CHR '':''"
  by code_simp+

lemmas pattern_defs = sensitive_text_def forbiddenMetadataKey_def word_def assignment_def

section \<open>Safe metadata\<close>

text \<open>
  Whether \<open>assertSafeAuditMetadata\<close> returns. A value whose entries the type of data values does
  not carry is refused here.
\<close>

primrec safe_metadata :: "json \<Rightarrow> bool" where
  "safe_metadata J_null = True"
| "safe_metadata (J_bool b) = True"
| "safe_metadata (J_num x) = True"
| "safe_metadata (J_str s) = (\<not> list_ex (found_in s) sensitive_text)"
| "safe_metadata (J_arr vs) = list_all id (map safe_metadata vs)"
| "safe_metadata (J_obj kvs) =
     list_all (\<lambda>(k, safe). \<not> list_ex (found_in k) forbiddenMetadataKey \<and> safe)
       (map (map_prod id safe_metadata) kvs)"
| "safe_metadata J_non_json = False"
| "safe_metadata J_exotic = False"
| "safe_metadata J_bad_array = False"
| "safe_metadata J_backref = False"

section \<open>Events and the in-memory repository\<close>

record audit_event =
  au_auditId :: string
  au_eventType :: string
  au_timestamp :: utc_timestamp
  au_runId :: string
  au_sessionId :: string
  au_traceId :: string
  au_actionId :: "string option"
  au_executionId :: "string option"
  au_toolName :: "string option"
  au_userId :: string
  au_vehicleId :: string
  au_safeMetadata :: json

text \<open>\<open>cloneAudit\<close>; \<open>None\<close> where it throws.\<close>

definition cloneAudit :: "audit_event \<Rightarrow> audit_event option" where
  "cloneAudit e =
     (if \<not> safe_id 127 (au_userId e) \<or> \<not> safe_id 127 (au_vehicleId e) then None
      else if \<not> safe_metadata (au_safeMetadata e) then None
      else Some e)"

type_synonym audit_log = "audit_event list"

definition audit_append :: "audit_event \<Rightarrow> audit_log \<Rightarrow> audit_log option" where
  "audit_append e es =
     (if au_auditId e \<in> set (map au_auditId es) then None
      else map_option (\<lambda>stored. es @ [stored]) (cloneAudit e))"

definition audit_list :: "string option \<Rightarrow> string option \<Rightarrow> audit_log \<Rightarrow> audit_event option list" where
  "audit_list actionId executionId es =
     map cloneAudit (filter (\<lambda>e. (actionId = None \<or> au_actionId e = actionId) \<and>
       (executionId = None \<or> au_executionId e = executionId)) es)"

lemma spaced_secret_found: "found_in ''x SECRET : y'' (word ''secret'' @ assignment)"
  by code_simp

end
