(* ===== verification/DurableExecution.thy ===== *)
theory DurableExecution
  imports Executor AuditTrail "HOL-Library.AList"
begin

text \<open>
  The durable execution coordinator of \<open>packages/persistence/src/execution.ts\<close>. The database is a
  record of its tables, and a transaction a function of it: the statements between \<open>begin\<close> and
  \<open>commit\<close> take the row locks (\<open>for update\<close>, \<open>on conflict\<close>) that make them one step. A
  transaction that fails anywhere is rolled back; one whose \<open>commit\<close> fails may have been
  committed all the same. The columns \<open>created_at\<close> and \<open>updated_at\<close> that no statement reads are
  left out. The short-lived coordinator only delays an execution and is left out too.
\<close>

section \<open>The tables\<close>

datatype idempotency_status = IS_IN_PROGRESS | IS_COMPLETED | IS_OUTCOME_UNKNOWN

record idempotency_row =
  ik_fingerprint :: string
  ik_requestBinding :: string
  ik_executionId :: string
  ik_status :: idempotency_status
  ik_result :: "execution_result option"
  ik_ownerExpiresAt :: int

record execution_row =
  ew_request :: execution_request
  ew_state :: execution_state
  ew_record :: execution_record
  ew_result :: "execution_result option"
  ew_createdAt :: utc_timestamp

record session_row =
  sw_userId :: "string option"
  sw_vehicleId :: "string option"
  sw_busyOwner :: "string option"
  sw_busyExpiresAt :: "int option"

text \<open>
  The stored attempt: the object first written when it started, merged with what ended it.
\<close>

record attempt_row =
  aw_startedAt :: utc_timestamp
  aw_state_started :: bool
  aw_completedAt :: "utc_timestamp option"
  aw_outcome :: "attempt_outcome option"
  aw_errorCode :: "event_code option"

record database =
  db_sessions :: "string \<rightharpoonup> session_row"
  db_executions :: "string \<rightharpoonup> execution_row"
  db_idempotency :: "string \<rightharpoonup> idempotency_row"
  db_attempts :: "((string \<times> int) \<times> attempt_row) list"
  db_audit :: "audit_event list"

record durable_config =
  dc_ownerLeaseMs :: int
  dc_requireSessionLease :: bool
  dc_uuid :: "nat \<Rightarrow> string"

text \<open>The merge of the object of an attempt with its completion.\<close>

definition attempt_ended ::
  "utc_timestamp \<Rightarrow> attempt_outcome \<Rightarrow> event_code option \<Rightarrow> attempt_row \<Rightarrow> attempt_row" where
  "attempt_ended completedAt outcome errorCode a = a
     \<lparr>aw_completedAt := Some completedAt, aw_outcome := Some outcome,
      aw_errorCode := (if errorCode = None then aw_errorCode a else errorCode)\<rparr>"

definition set_attempt :: "string \<Rightarrow> int \<Rightarrow> attempt_row \<Rightarrow> database \<Rightarrow> database" where
  "set_attempt x n a db = db\<lparr>db_attempts := AList.update (x, n) a (db_attempts db)\<rparr>"

section \<open>Records and results\<close>

definition initialRecord :: "execution_request \<Rightarrow> utc_timestamp \<Rightarrow> execution_record" where
  "initialRecord q ts =
     \<lparr>er_executionId = xq_executionId q, er_toolName = xq_toolName q,
      er_actionFingerprint = xq_actionFingerprint q, er_idempotencyKey = xq_idempotencyKey q,
      er_state = X_CREATED, er_attempts = [],
      er_stateHistory = [\<lparr>tr_from = None, tr_to = X_CREATED, tr_at = ts\<rparr>],
      er_createdAt = ts, er_updatedAt = ts\<rparr>"

text \<open>The record with one more entry in its history.\<close>

definition record_moved ::
  "execution_record \<Rightarrow> execution_state \<Rightarrow> execution_state \<Rightarrow> utc_timestamp \<Rightarrow> execution_record" where
  "record_moved r from_state to_state ts = r
     \<lparr>er_state := to_state, er_updatedAt := ts,
      er_stateHistory := er_stateHistory r @
        [\<lparr>tr_from = Some from_state, tr_to = to_state, tr_at = ts\<rparr>]\<rparr>"

definition runningRecord :: "execution_record \<Rightarrow> utc_timestamp \<Rightarrow> execution_record" where
  "runningRecord r ts = record_moved r X_CREATED X_RUNNING ts"

definition error_result ::
  "execution_request \<Rightarrow> execution_state \<Rightarrow> int \<Rightarrow> bool \<Rightarrow> utc_timestamp \<Rightarrow> utc_timestamp \<Rightarrow>
     exec_error_code \<Rightarrow> execution_result" where
  "error_result q status attemptCount dedup startedAt completedAt code =
     \<lparr>xr_executionId = xq_executionId q, xr_toolName = xq_toolName q, xr_status = status,
      xr_attemptCount = attemptCount, xr_deduplicated = dedup, xr_startedAt = startedAt,
      xr_completedAt = completedAt, xr_result = None,
      xr_error = Some (safeExecutionError code False), xr_recovery = None\<rparr>"

definition unknownResult ::
  "execution_request \<Rightarrow> utc_timestamp \<Rightarrow> int \<Rightarrow> utc_timestamp \<Rightarrow> execution_result" where
  "unknownResult q startedAt attemptCount completedAt =
     error_result q X_OUTCOME_UNKNOWN attemptCount True startedAt completedAt EE_OUTCOME_UNKNOWN"

definition deduplicated :: "execution_result \<Rightarrow> execution_result" where
  "deduplicated r = r\<lparr>xr_deduplicated := True\<rparr>"

definition conflictResult :: "execution_request \<Rightarrow> utc_timestamp \<Rightarrow> execution_result" where
  "conflictResult q ts = error_result q X_REJECTED 0 False ts ts EE_IDEMPOTENCY_CONFLICT"

section \<open>Auditing\<close>

definition appendExecutionAudit ::
  "durable_config \<Rightarrow> execution_request \<Rightarrow> string \<Rightarrow> utc_timestamp \<Rightarrow> (string \<times> json) list \<Rightarrow>
     database \<Rightarrow> (unit, database) result" where
  "appendExecutionAudit cfg q eventType ts metadata db =
     (if \<not> safe_metadata (J_obj metadata) then Inl ()
      else Inr (db\<lparr>db_audit := db_audit db @
        [\<lparr>au_auditId = ''audit:'' @ dc_uuid cfg (length (db_audit db)), au_eventType = eventType,
          au_timestamp = ts, au_runId = xq_runId q, au_sessionId = xq_sessionId q,
          au_traceId = xq_traceId q, au_actionId = xq_actionId q,
          au_executionId = Some (xq_executionId q), au_toolName = Some (xq_toolName q),
          au_userId = xq_userId q, au_vehicleId = xq_vehicleId q,
          au_safeMetadata = J_obj metadata\<rparr>]\<rparr>))"

section \<open>Attempts\<close>

text \<open>
  \<open>PostgresExecutionAttemptEventSink.emit\<close>. An attempt refers to its execution; one of an unknown
  execution is refused by the foreign key.
\<close>

definition attempt_event_outcome :: "execution_event_type \<Rightarrow> attempt_outcome" where
  "attempt_event_outcome ty =
     (if ty = XE_succeeded then AO_SUCCEEDED
      else if ty = XE_outcome_unknown then AO_OUTCOME_UNKNOWN else AO_FAILED)"

definition emit_attempt :: "execution_event \<Rightarrow> database \<Rightarrow> (unit, database) result" where
  "emit_attempt e db =
     (let x = xe_executionId e; n = xe_attempt e in
      if n < 1 then Inr db
      else if xe_eventType e = XE_attempt_started
      then (if map_of (db_attempts db) (x, n) \<noteq> None then Inr db
            else if db_executions db x = None then Inl ()
            else Inr (set_attempt x n
              \<lparr>aw_startedAt = xe_timestamp e, aw_state_started = True, aw_completedAt = None,
               aw_outcome = None, aw_errorCode = None\<rparr> db))
      else if xe_eventType e \<in> {XE_attempt_failed, XE_succeeded, XE_outcome_unknown}
      then (case map_of (db_attempts db) (x, n) of
              None \<Rightarrow> Inr db
            | Some a \<Rightarrow> Inr (set_attempt x n (attempt_ended (xe_timestamp e)
                (attempt_event_outcome (xe_eventType e)) (xe_errorCode e) a) db))
      else Inr db)"

text \<open>The attempts of an execution without a completion are completed as of unknown outcome.\<close>

definition close_attempts :: "string \<Rightarrow> utc_timestamp \<Rightarrow> database \<Rightarrow> database" where
  "close_attempts x completedAt db = db\<lparr>db_attempts := map (\<lambda>(k, a). (k,
     if fst k = x \<and> aw_completedAt a = None
     then attempt_ended completedAt AO_OUTCOME_UNKNOWN (Some (Code_error EE_OUTCOME_UNKNOWN)) a
     else a)) (db_attempts db)\<rparr>"

section \<open>Reading\<close>

definition completed_attempts :: "database \<Rightarrow> string \<Rightarrow> (int \<times> attempt_row) list" where
  "completed_attempts db x = sort_key fst (map (\<lambda>(k, a). (snd k, a))
     (filter (\<lambda>(k, a). fst k = x \<and> aw_completedAt a \<noteq> None) (db_attempts db)))"

definition execution_get ::
  "database \<Rightarrow> string \<Rightarrow> (execution_record \<times> (int \<times> attempt_row) list) option" where
  "execution_get db x =
     map_option (\<lambda>row. (ew_record row, completed_attempts db x)) (db_executions db x)"

definition getResult :: "database \<Rightarrow> string \<Rightarrow> execution_result option" where
  "getResult db x = (case db_executions db x of None \<Rightarrow> None | Some row \<Rightarrow> ew_result row)"

definition getEnvelope ::
  "database \<Rightarrow> string \<Rightarrow>
     (execution_request \<times> (execution_record \<times> (int \<times> attempt_row) list) \<times> execution_result option) option" where
  "getEnvelope db x = map_option (\<lambda>row.
     (ew_request row, (ew_record row, completed_attempts db x), ew_result row)) (db_executions db x)"

section \<open>Acquiring an execution\<close>

datatype acquired =
  Dur_owner
| Dur_conflict
| Dur_duplicate execution_result
| Dur_in_progress execution_result

definition session_leased :: "execution_request \<Rightarrow> int \<Rightarrow> database \<Rightarrow> bool" where
  "session_leased q now db =
     (case db_sessions db (xq_sessionId q) of
        None \<Rightarrow> False
      | Some r \<Rightarrow> sw_busyOwner r = Some (xq_runId q) \<and>
          (case sw_busyExpiresAt r of None \<Rightarrow> False | Some e \<Rightarrow> e > now))"

definition may_claim :: "string option \<Rightarrow> string \<Rightarrow> bool" where
  "may_claim stored x \<longleftrightarrow> stored = None \<or> stored = Some x"

definition upsert_session :: "execution_request \<Rightarrow> database \<Rightarrow> (unit, database) result" where
  "upsert_session q db =
     (case db_sessions db (xq_sessionId q) of
        None \<Rightarrow> Inr (db\<lparr>db_sessions := (db_sessions db)(xq_sessionId q \<mapsto>
          \<lparr>sw_userId = Some (xq_userId q), sw_vehicleId = Some (xq_vehicleId q),
           sw_busyOwner = None, sw_busyExpiresAt = None\<rparr>)\<rparr>)
      | Some r \<Rightarrow>
          if may_claim (sw_userId r) (xq_userId q) \<and> may_claim (sw_vehicleId r) (xq_vehicleId q)
          then Inr (db\<lparr>db_sessions := (db_sessions db)(xq_sessionId q \<mapsto>
            r\<lparr>sw_userId := Some (xq_userId q), sw_vehicleId := Some (xq_vehicleId q)\<rparr>)\<rparr>)
          else Inl ())"

text \<open>The first request of a key: both rows are inserted, and the execution runs.\<close>

definition insert_owner ::
  "durable_config \<Rightarrow> execution_request \<Rightarrow> string \<Rightarrow> utc_timestamp \<Rightarrow> int \<Rightarrow> database \<Rightarrow>
     (unit, acquired \<times> database) result" where
  "insert_owner cfg q binding ts insertedAt db =
     and_then (appendExecutionAudit cfg q ''policy.decision'' ts
         [(''decision'', J_str (decision_text (po_decision (xq_policyDecision q)))),
          (''ruleId'', J_str (po_ruleId (xq_policyDecision q)))]
       (db\<lparr>db_executions := (db_executions db)(xq_executionId q \<mapsto>
             \<lparr>ew_request = q, ew_state = X_RUNNING, ew_record = runningRecord (initialRecord q ts) ts,
              ew_result = None, ew_createdAt = ts\<rparr>),
           db_idempotency := (db_idempotency db)(xq_idempotencyKey q \<mapsto>
             \<lparr>ik_fingerprint = xq_actionFingerprint q, ik_requestBinding = binding,
              ik_executionId = xq_executionId q, ik_status = IS_IN_PROGRESS, ik_result = None,
              ik_ownerExpiresAt = insertedAt + dc_ownerLeaseMs cfg\<rparr>)\<rparr>)) (\<lambda>db1.
     and_then (appendExecutionAudit cfg q ''execution.started'' ts [] db1) (\<lambda>db2.
       Inr (Dur_owner, db2)))"

text \<open>An expired owner: the execution and its key are marked as of unknown outcome.\<close>

definition take_over ::
  "durable_config \<Rightarrow> execution_request \<Rightarrow> idempotency_row \<Rightarrow> execution_result \<Rightarrow> execution_record \<Rightarrow>
     database \<Rightarrow> (unit, database) result" where
  "take_over cfg q existing unknown running db =
     (let x = ik_executionId existing; ts = xr_completedAt unknown;
          db1 = (case db_executions db x of
                   None \<Rightarrow> db
                 | Some row \<Rightarrow>
                     if ew_state row = X_RUNNING
                     then db\<lparr>db_executions := (db_executions db)(x \<mapsto>
                       row\<lparr>ew_state := X_OUTCOME_UNKNOWN, ew_result := Some unknown,
                           ew_record := record_moved (ew_record row) (er_state (ew_record row)) X_OUTCOME_UNKNOWN ts\<rparr>)\<rparr>
                     else db);
          db2 = (if ik_status existing = IS_IN_PROGRESS
                 then db1\<lparr>db_idempotency := (db_idempotency db1)(xq_idempotencyKey q \<mapsto>
                   existing\<lparr>ik_status := IS_OUTCOME_UNKNOWN, ik_result := Some unknown\<rparr>)\<rparr>
                 else db1)
      in appendExecutionAudit cfg (q\<lparr>xq_executionId := x\<rparr>) ''execution.outcome_unknown'' ts
           [(''reason'', J_str ''OWNER_LEASE_EXPIRED'')] (close_attempts x ts db2))"

definition attempt_count :: "database \<Rightarrow> string \<Rightarrow> int" where
  "attempt_count db x = int (length (filter (\<lambda>a. fst (fst a) = x) (db_attempts db)))"

definition answer_existing ::
  "durable_config \<Rightarrow> execution_request \<Rightarrow> string \<Rightarrow> int \<Rightarrow> database \<Rightarrow> (unit, acquired \<times> database) result" where
  "answer_existing cfg q binding now db =
     (case db_idempotency db (xq_idempotencyKey q) of
        None \<Rightarrow> Inr (Dur_conflict, db)
      | Some existing \<Rightarrow>
          if ik_fingerprint existing \<noteq> xq_actionFingerprint q \<or> ik_requestBinding existing \<noteq> binding
          then Inr (Dur_conflict, db)
          else let x = ik_executionId existing;
                   original = (''originalExecutionId'', J_str x);
                   audited = (\<lambda>metadata. appendExecutionAudit cfg (q\<lparr>xq_executionId := x\<rparr>)
                     ''idempotency.deduplicated'' now (original # metadata))
               in case (ik_result existing, ik_status existing = IS_IN_PROGRESS) of
                    (Some r, False) \<Rightarrow>
                      and_then (audited [] db) (\<lambda>db1. Inr (Dur_duplicate (deduplicated r), db1))
                  | _ \<Rightarrow>
                      let startedAt = (case db_executions db x of None \<Rightarrow> now | Some row \<Rightarrow> ew_createdAt row);
                          unknown = unknownResult (q\<lparr>xq_executionId := x\<rparr>) startedAt (attempt_count db x) now
                      in and_then
                           (if ik_ownerExpiresAt existing \<le> now
                            then take_over cfg q existing unknown (runningRecord (initialRecord q now) now) db
                            else Inr db) (\<lambda>db1.
                         and_then (audited [(''inProgress'', J_bool True)] db1) (\<lambda>db2.
                           Inr (Dur_in_progress unknown, db2))))"

text \<open>\<open>#acquire\<close>: the transaction, at three readings of the database clock.\<close>

definition acquire_transaction ::
  "durable_config \<Rightarrow> (nat \<Rightarrow> int) \<Rightarrow> execution_request \<Rightarrow> string \<Rightarrow> database \<Rightarrow>
     (unit, acquired \<times> database) result" where
  "acquire_transaction cfg clock q binding db =
     (if dc_requireSessionLease cfg \<and> \<not> session_leased q (clock 0) db then Inl ()
      else and_then (upsert_session q db) (\<lambda>db1.
        if db_executions db1 (xq_executionId q) = None \<and> db_idempotency db1 (xq_idempotencyKey q) = None
        then insert_owner cfg q binding (clock 1) (clock 2) db1
        else answer_existing cfg q binding (clock 1) db1))"

section \<open>Keeping and ending an execution\<close>

text \<open>The renewal of the lease by the heartbeat, and whether it found the lease.\<close>

definition renew_lease :: "durable_config \<Rightarrow> execution_request \<Rightarrow> int \<Rightarrow> database \<Rightarrow> bool \<times> database" where
  "renew_lease cfg q now db =
     (case db_idempotency db (xq_idempotencyKey q) of
        None \<Rightarrow> (False, db)
      | Some r \<Rightarrow>
          if ik_executionId r = xq_executionId q \<and> ik_status r = IS_IN_PROGRESS \<and> ik_ownerExpiresAt r > now
          then (True, db\<lparr>db_idempotency := (db_idempotency db)(xq_idempotencyKey q \<mapsto>
                 r\<lparr>ik_ownerExpiresAt := now + dc_ownerLeaseMs cfg\<rparr>)\<rparr>)
          else (False, db))"

type_synonym owner_result = "execution_result \<times> execution_record"

definition unknownAfterLeaseLoss ::
  "execution_request \<Rightarrow> utc_timestamp \<Rightarrow> owner_result \<Rightarrow> owner_result" where
  "unknownAfterLeaseLoss q completedAt owner =
     (let startedAt = xr_startedAt (fst owner);
          started = runningRecord (initialRecord q startedAt) startedAt;
          attempts = er_attempts (snd owner)
      in (error_result q X_OUTCOME_UNKNOWN (int (length attempts)) False startedAt completedAt EE_OUTCOME_UNKNOWN,
          (record_moved started X_RUNNING X_OUTCOME_UNKNOWN completedAt)\<lparr>er_attempts := attempts\<rparr>))"

text \<open>The result of an owner that threw.\<close>

definition failed_owner :: "execution_request \<Rightarrow> utc_timestamp \<Rightarrow> owner_result" where
  "failed_owner q ts =
     (error_result q X_FAILED 0 False ts ts EE_INTERNAL_EXECUTION_ERROR,
      record_moved (runningRecord (initialRecord q ts) ts) X_RUNNING X_FAILED ts)"

definition attempt_row_of :: "execution_attempt \<Rightarrow> attempt_row" where
  "attempt_row_of a =
     \<lparr>aw_startedAt = ea_startedAt a, aw_state_started = False, aw_completedAt = Some (ea_completedAt a),
      aw_outcome = Some (ea_outcome a), aw_errorCode = map_option Code_error (ea_errorCode a)\<rparr>"

fun store_attempts ::
  "durable_config \<Rightarrow> execution_request \<Rightarrow> execution_attempt list \<Rightarrow> database \<Rightarrow> (unit, database) result" where
  "store_attempts cfg q [] db = Inr db"
| "store_attempts cfg q (a # as) db =
     (let db1 = set_attempt (xq_executionId q) (ea_attempt a) (attempt_row_of a) db
      in and_then (if ea_attempt a > 1
                   then appendExecutionAudit cfg q ''execution.retry'' (ea_startedAt a)
                          [(''attempt'', js_nat (ea_attempt a))] db1
                   else Inr db1) (store_attempts cfg q as))"

definition final_event :: "execution_state \<Rightarrow> string" where
  "final_event status =
     (if status = X_SUCCEEDED then ''execution.succeeded''
      else if status = X_OUTCOME_UNKNOWN then ''execution.outcome_unknown'' else ''execution.failed'')"

fun execution_state_text :: "execution_state \<Rightarrow> string" where
  "execution_state_text X_CREATED = ''CREATED''"
| "execution_state_text X_RUNNING = ''RUNNING''"
| "execution_state_text X_SUCCEEDED = ''SUCCEEDED''"
| "execution_state_text X_FAILED = ''FAILED''"
| "execution_state_text X_RETRY_EXHAUSTED = ''RETRY_EXHAUSTED''"
| "execution_state_text X_OUTCOME_UNKNOWN = ''OUTCOME_UNKNOWN''"
| "execution_state_text X_REJECTED = ''REJECTED''"

text \<open>\<open>#finalize\<close>, for an owner that still owns.\<close>

definition store_final ::
  "durable_config \<Rightarrow> int \<Rightarrow> execution_request \<Rightarrow> owner_result \<Rightarrow> database \<Rightarrow>
     (unit, owner_result \<times> database) result" where
  "store_final cfg auditAt q owner db =
     (case (db_idempotency db (xq_idempotencyKey q), db_executions db (xq_executionId q)) of
        (Some key, Some row) \<Rightarrow>
          if ik_executionId key = xq_executionId q \<and> ik_status key = IS_IN_PROGRESS \<and> ew_state row = X_RUNNING
          then and_then (store_attempts cfg q (er_attempts (snd owner))
                 (db\<lparr>db_executions := (db_executions db)(xq_executionId q \<mapsto>
                   row\<lparr>ew_state := xr_status (fst owner), ew_record := snd owner, ew_result := Some (fst owner)\<rparr>)\<rparr>)) (\<lambda>db1.
               and_then (appendExecutionAudit cfg q (final_event (xr_status (fst owner))) auditAt
                   [(''status'', J_str (execution_state_text (xr_status (fst owner)))),
                    (''attemptCount'', js_nat (xr_attemptCount (fst owner)))]
                 (db1\<lparr>db_idempotency := (db_idempotency db1)(xq_idempotencyKey q \<mapsto>
                   key\<lparr>ik_status := (if xr_status (fst owner) = X_OUTCOME_UNKNOWN then IS_OUTCOME_UNKNOWN
                                     else IS_COMPLETED),
                       ik_result := Some (fst owner)\<rparr>)\<rparr>)) (\<lambda>db2. Inr (owner, db2)))
          else Inl ()
      | _ \<Rightarrow> Inl ())"

definition finalize_transaction ::
  "durable_config \<Rightarrow> (nat \<Rightarrow> int) \<Rightarrow> utc_timestamp \<Rightarrow> execution_request \<Rightarrow> owner_result \<Rightarrow> database \<Rightarrow>
     (unit, owner_result \<times> database) result" where
  "finalize_transaction cfg clock processAt q owner db =
     store_final cfg (clock 1) q
       (if dc_requireSessionLease cfg \<and> \<not> session_leased q (clock 0) db \<and>
           xr_status (fst owner) \<noteq> X_OUTCOME_UNKNOWN
        then unknownAfterLeaseLoss q processAt owner else owner) db"

end
