(* ===== verification/DurableGuarantees.thy ===== *)
theory DurableGuarantees
  imports DurableExecution
begin

text \<open>
  What the tables of the durable coordinator guarantee to any number of processes. A history is
  a sequence of committed transactions of any processes, each at any readings of the clocks. The
  specification is a ledger: for each key the execution that owns it, what it was acquired for,
  and its outcome once there is one.
\<close>

section \<open>Histories\<close>

datatype db_event =
  Ev_acquired execution_request string acquired bool
| Ev_renewed execution_request bool
| Ev_finalized execution_request owner_result
| Ev_attempt execution_event
| Ev_audited
| Ev_sessions

text \<open>Whether the key of a request is owned by a lease that is over.\<close>

definition lease_over :: "execution_request \<Rightarrow> int \<Rightarrow> database \<Rightarrow> bool" where
  "lease_over q now db = (case db_idempotency db (xq_idempotencyKey q) of
     None \<Rightarrow> False | Some r \<Rightarrow> ik_ownerExpiresAt r \<le> now)"

inductive db_step :: "durable_config \<Rightarrow> db_event \<Rightarrow> database \<Rightarrow> database \<Rightarrow> bool" where
  acquire: "acquire_transaction cfg clock q binding db = Inr (a, db') \<Longrightarrow>
    db_step cfg (Ev_acquired q binding a (lease_over q (clock 1) db)) db db'"
| renew: "renew_lease cfg q now db = (ok, db') \<Longrightarrow> db_step cfg (Ev_renewed q ok) db db'"
| finalize: "finalize_transaction cfg clock processAt q owner db = Inr (stored, db') \<Longrightarrow>
    db_step cfg (Ev_finalized q stored) db db'"
| attempt: "emit_attempt e db = Inr db' \<Longrightarrow> db_step cfg (Ev_attempt e) db db'"
| audit: "appendExecutionAudit cfg q ty ts metadata db = Inr db' \<Longrightarrow> db_step cfg Ev_audited db db'"
| sessions: "db_step cfg Ev_sessions db (db\<lparr>db_sessions := rows\<rparr>)"

inductive_cases db_step_cases: "db_step cfg e db db'"

inductive db_run :: "durable_config \<Rightarrow> database \<Rightarrow> db_event list \<Rightarrow> database \<Rightarrow> bool" where
  db_run_Nil: "db_run cfg db [] db"
| db_run_Cons: "db_step cfg e db db' \<Longrightarrow> db_run cfg db' es db'' \<Longrightarrow> db_run cfg db (e # es) db''"

inductive_simps db_run_simps [simp]: "db_run cfg db [] db'" "db_run cfg db (e # es) db'"

lemma db_run_append [simp]:
  "db_run cfg db (es @ fs) db' \<longleftrightarrow> (\<exists>mid. db_run cfg db es mid \<and> db_run cfg mid fs db')"
  by (induction es arbitrary: db) auto

section \<open>The specification\<close>

record ledger_entry =
  le_execution :: string
  le_fingerprint :: string
  le_binding :: string
  le_outcome :: "execution_result option"

type_synonym ledger = "string \<rightharpoonup> ledger_entry"

definition executions_of :: "ledger \<Rightarrow> string set" where
  "executions_of L = le_execution ` ran L"

definition claimed_for :: "execution_request \<Rightarrow> string \<Rightarrow> ledger_entry \<Rightarrow> bool" where
  "claimed_for q binding e \<longleftrightarrow> le_fingerprint e = xq_actionFingerprint q \<and> le_binding e = binding"

text \<open>The answers the ledger allows, and what an event does to it.\<close>

fun ledger_allows :: "db_event \<Rightarrow> ledger \<Rightarrow> bool" where
  "ledger_allows (Ev_acquired q b Dur_owner over) L \<longleftrightarrow>
     L (xq_idempotencyKey q) = None \<and> xq_executionId q \<notin> executions_of L"
| "ledger_allows (Ev_acquired q b Dur_conflict over) L \<longleftrightarrow>
     (case L (xq_idempotencyKey q) of
        None \<Rightarrow> xq_executionId q \<in> executions_of L | Some e \<Rightarrow> \<not> claimed_for q b e)"
| "ledger_allows (Ev_acquired q b (Dur_duplicate r) over) L \<longleftrightarrow>
     (\<exists>e r0. L (xq_idempotencyKey q) = Some e \<and> claimed_for q b e \<and> le_outcome e = Some r0 \<and>
        r = deduplicated r0)"
| "ledger_allows (Ev_acquired q b (Dur_in_progress u) over) L \<longleftrightarrow>
     (\<exists>e. L (xq_idempotencyKey q) = Some e \<and> claimed_for q b e \<and> le_outcome e = None \<and>
        xr_status u = X_OUTCOME_UNKNOWN \<and> xr_executionId u = le_execution e \<and> xr_deduplicated u)"
| "ledger_allows (Ev_finalized q stored) L \<longleftrightarrow>
     (\<exists>e. L (xq_idempotencyKey q) = Some e \<and> le_execution e = xq_executionId q \<and> le_outcome e = None)"
| "ledger_allows (Ev_renewed q ok) L \<longleftrightarrow>
     (ok \<longrightarrow> (\<exists>e. L (xq_idempotencyKey q) = Some e \<and> le_execution e = xq_executionId q \<and> le_outcome e = None))"
| "ledger_allows _ L \<longleftrightarrow> True"

definition set_outcome :: "string \<Rightarrow> execution_result \<Rightarrow> ledger \<Rightarrow> ledger" where
  "set_outcome k r L = L(k := map_option (le_outcome_update (\<lambda>_. Some r)) (L k))"

fun ledger_after :: "db_event \<Rightarrow> ledger \<Rightarrow> ledger" where
  "ledger_after (Ev_acquired q b Dur_owner over) L = L(xq_idempotencyKey q \<mapsto>
     \<lparr>le_execution = xq_executionId q, le_fingerprint = xq_actionFingerprint q, le_binding = b,
      le_outcome = None\<rparr>)"
| "ledger_after (Ev_acquired q b (Dur_in_progress u) over) L =
     (if over then set_outcome (xq_idempotencyKey q) u L else L)"
| "ledger_after (Ev_finalized q stored) L = set_outcome (xq_idempotencyKey q) (fst stored) L"
| "ledger_after _ L = L"

fun ledger_history :: "ledger \<Rightarrow> db_event list \<Rightarrow> ledger \<Rightarrow> bool" where
  "ledger_history L [] L' \<longleftrightarrow> L' = L"
| "ledger_history L (e # es) L' \<longleftrightarrow> ledger_allows e L \<and> ledger_history (ledger_after e L) es L'"

definition ledger_of :: "database \<Rightarrow> ledger" where
  "ledger_of db = (\<lambda>k. map_option (\<lambda>r.
     \<lparr>le_execution = ik_executionId r, le_fingerprint = ik_fingerprint r,
      le_binding = ik_requestBinding r, le_outcome = ik_result r\<rparr>) (db_idempotency db k))"

section \<open>The invariant of the tables\<close>

text \<open>A key and its execution tell the same; every execution belongs to the key of its request.\<close>

definition key_linked :: "database \<Rightarrow> string \<Rightarrow> idempotency_row \<Rightarrow> bool" where
  "key_linked db k r \<longleftrightarrow> (ik_status r = IS_IN_PROGRESS \<longleftrightarrow> ik_result r = None) \<and>
     (\<exists>row. db_executions db (ik_executionId r) = Some row \<and> xq_idempotencyKey (ew_request row) = k \<and>
        ew_result row = ik_result r \<and> (ik_result r = None \<longrightarrow> ew_state row = X_RUNNING))"

definition db_linked :: "database \<Rightarrow> bool" where
  "db_linked db \<longleftrightarrow> (\<forall>k r. db_idempotency db k = Some r \<longrightarrow> key_linked db k r) \<and>
     (\<forall>x row. db_executions db x = Some row \<longrightarrow>
        (\<exists>r. db_idempotency db (xq_idempotencyKey (ew_request row)) = Some r \<and> ik_executionId r = x))"

definition empty_database :: database where
  "empty_database = \<lparr>db_sessions = Map.empty, db_executions = Map.empty,
     db_idempotency = Map.empty, db_attempts = [], db_audit = []\<rparr>"

lemma db_linked_empty [simp]: "db_linked empty_database"
  by (simp add: db_linked_def empty_database_def)

lemma ledger_of_key: "ledger_of db k = map_option (\<lambda>r.
     \<lparr>le_execution = ik_executionId r, le_fingerprint = ik_fingerprint r,
      le_binding = ik_requestBinding r, le_outcome = ik_result r\<rparr>) (db_idempotency db k)"
  by (simp add: ledger_of_def)

lemma ledger_of_empty [simp]: "ledger_of empty_database = Map.empty"
  by (simp add: ledger_of_def empty_database_def)

text \<open>Two databases with the same keys and executions.\<close>

definition same_claims :: "database \<Rightarrow> database \<Rightarrow> bool" where
  "same_claims db db' \<longleftrightarrow>
     db_executions db' = db_executions db \<and> db_idempotency db' = db_idempotency db"

lemma same_claimsD:
  "same_claims db db' \<Longrightarrow> db_linked db \<Longrightarrow> db_linked db'"
  "same_claims db db' \<Longrightarrow> ledger_of db' = ledger_of db"
  by (simp_all add: same_claims_def db_linked_def key_linked_def ledger_of_def)

lemma executions_of_ledger:
  assumes "db_linked db"
  shows "x \<in> executions_of (ledger_of db) \<longleftrightarrow> db_executions db x \<noteq> None"
proof -
  have "x \<in> executions_of (ledger_of db) \<longleftrightarrow> (\<exists>k r. db_idempotency db k = Some r \<and> ik_executionId r = x)"
    by (force simp: executions_of_def ledger_of_def ran_def image_iff)
  also have "\<dots> \<longleftrightarrow> db_executions db x \<noteq> None"
    using assms unfolding db_linked_def key_linked_def by blast
  finally show ?thesis .
qed

section \<open>What the transactions change\<close>

lemma same_claims_trans: "same_claims a b \<Longrightarrow> same_claims b c \<Longrightarrow> same_claims a c"
  by (simp add: same_claims_def)

lemma audit_frame: "appendExecutionAudit cfg q ty ts metadata db = Inr db' \<Longrightarrow> same_claims db db'"
  by (auto simp: appendExecutionAudit_def same_claims_def split: if_splits)

lemma upsert_frame: "upsert_session q db = Inr db' \<Longrightarrow> same_claims db db'"
  by (auto simp: upsert_session_def same_claims_def split: if_splits option.splits)

lemma attempt_frame: "emit_attempt e db = Inr db' \<Longrightarrow> same_claims db db'"
  by (auto simp: emit_attempt_def same_claims_def set_attempt_def Let_def split: if_splits option.splits)

lemma close_frame: "same_claims db (close_attempts x ts db)"
  by (simp add: same_claims_def close_attempts_def)

lemma store_attempts_frame: "store_attempts cfg q as db = Inr db' \<Longrightarrow> same_claims db db'"
proof (induction as arbitrary: db)
  case (Cons a as)
  then obtain db1 where "store_attempts cfg q as db1 = Inr db'" "same_claims (set_attempt (xq_executionId q) (ea_attempt a) (attempt_row_of a) db) db1"
    by (auto simp: Let_def same_claims_def dest: audit_frame split: if_splits)
  with Cons.IH [of db1] show ?case by (simp add: same_claims_def set_attempt_def)
qed (simp add: same_claims_def)

text \<open>The rows of an owner, and the rows of an execution that ends with a result.\<close>

definition claims_begin ::
  "durable_config \<Rightarrow> execution_request \<Rightarrow> string \<Rightarrow> utc_timestamp \<Rightarrow> int \<Rightarrow> database \<Rightarrow> database \<Rightarrow> bool" where
  "claims_begin cfg q binding ts insertedAt db db' \<longleftrightarrow>
     db_executions db (xq_executionId q) = None \<and> db_idempotency db (xq_idempotencyKey q) = None \<and>
     db_executions db' = (db_executions db)(xq_executionId q \<mapsto>
       \<lparr>ew_request = q, ew_state = X_RUNNING, ew_record = runningRecord (initialRecord q ts) ts,
        ew_result = None, ew_createdAt = ts\<rparr>) \<and>
     db_idempotency db' = (db_idempotency db)(xq_idempotencyKey q \<mapsto>
       \<lparr>ik_fingerprint = xq_actionFingerprint q, ik_requestBinding = binding,
        ik_executionId = xq_executionId q, ik_status = IS_IN_PROGRESS, ik_result = None,
        ik_ownerExpiresAt = insertedAt + dc_ownerLeaseMs cfg\<rparr>)"

definition claims_end :: "string \<Rightarrow> execution_result \<Rightarrow> database \<Rightarrow> database \<Rightarrow> bool" where
  "claims_end k r db db' \<longleftrightarrow> (\<exists>key row st row'.
     db_idempotency db k = Some key \<and> ik_status key = IS_IN_PROGRESS \<and> st \<noteq> IS_IN_PROGRESS \<and>
     db_executions db (ik_executionId key) = Some row \<and> ew_state row = X_RUNNING \<and>
     db_idempotency db' = (db_idempotency db)(k \<mapsto> key\<lparr>ik_status := st, ik_result := Some r\<rparr>) \<and>
     db_executions db' = (db_executions db)(ik_executionId key \<mapsto> row') \<and>
     ew_request row' = ew_request row \<and> ew_createdAt row' = ew_createdAt row \<and> ew_result row' = Some r)"

lemma claims_endI:
  "db_idempotency db k = Some key \<Longrightarrow> ik_status key = IS_IN_PROGRESS \<Longrightarrow> st \<noteq> IS_IN_PROGRESS \<Longrightarrow>
   db_executions db (ik_executionId key) = Some row \<Longrightarrow> ew_state row = X_RUNNING \<Longrightarrow>
   db_idempotency db' = (db_idempotency db)(k \<mapsto> key\<lparr>ik_status := st, ik_result := Some r\<rparr>) \<Longrightarrow>
   db_executions db' = (db_executions db)(ik_executionId key \<mapsto> row') \<Longrightarrow>
   ew_request row' = ew_request row \<Longrightarrow> ew_createdAt row' = ew_createdAt row \<Longrightarrow> ew_result row' = Some r \<Longrightarrow>
   claims_end k r db db'"
  unfolding claims_end_def by blast

lemma insert_owner_effect:
  "insert_owner cfg q b ts e db = Inr (a, db') \<Longrightarrow>
   db_executions db (xq_executionId q) = None \<Longrightarrow> db_idempotency db (xq_idempotencyKey q) = None \<Longrightarrow>
   a = Dur_owner \<and> claims_begin cfg q b ts e db db'"
  by (auto simp: insert_owner_def claims_begin_def same_claims_def dest!: audit_frame)

lemma take_over_effect:
  assumes "take_over cfg q key unknown running db = Inr db'" "db_idempotency db (xq_idempotencyKey q) = Some key"
    and "key_linked db (xq_idempotencyKey q) key" "ik_result key = None"
  shows "claims_end (xq_idempotencyKey q) unknown db db'"
proof -
  from assms(3,4) obtain row where row: "db_executions db (ik_executionId key) = Some row"
      "ew_state row = X_RUNNING" "ik_status key = IS_IN_PROGRESS"
    by (auto simp: key_linked_def)
  from assms(1) row close_frame [of _ "ik_executionId key"] audit_frame
  have "db_idempotency db' = (db_idempotency db)(xq_idempotencyKey q \<mapsto>
        key\<lparr>ik_status := IS_OUTCOME_UNKNOWN, ik_result := Some unknown\<rparr>)"
    and "db_executions db' = (db_executions db)(ik_executionId key \<mapsto>
        row\<lparr>ew_state := X_OUTCOME_UNKNOWN, ew_result := Some unknown,
          ew_record := record_moved (ew_record row) (er_state (ew_record row)) X_OUTCOME_UNKNOWN (xr_completedAt unknown)\<rparr>)"
    by (auto simp: take_over_def Let_def same_claims_def dest!: audit_frame)
  from claims_endI [OF assms(2) row(3) _ row(1,2) this] show ?thesis by simp
qed

lemma store_final_effect:
  assumes "store_final cfg t q owner db = Inr (stored, db')"
  shows "stored = owner \<and> claims_end (xq_idempotencyKey q) (fst stored) db db' \<and>
    (\<exists>key. db_idempotency db (xq_idempotencyKey q) = Some key \<and> ik_executionId key = xq_executionId q)"
proof -
  from assms obtain key row where row: "db_idempotency db (xq_idempotencyKey q) = Some key"
      "db_executions db (xq_executionId q) = Some row" "ik_executionId key = xq_executionId q"
      "ik_status key = IS_IN_PROGRESS" "ew_state row = X_RUNNING"
    by (auto simp: store_final_def split: option.splits if_splits)
  from assms row have "stored = owner"
    "db_idempotency db' = (db_idempotency db)(xq_idempotencyKey q \<mapsto> key\<lparr>ik_status :=
       (if xr_status (fst owner) = X_OUTCOME_UNKNOWN then IS_OUTCOME_UNKNOWN else IS_COMPLETED),
       ik_result := Some (fst owner)\<rparr>)"
    "db_executions db' = (db_executions db)(xq_executionId q \<mapsto>
       row\<lparr>ew_state := xr_status (fst owner), ew_record := snd owner, ew_result := Some (fst owner)\<rparr>)"
    by (auto simp: store_final_def same_claims_def dest!: store_attempts_frame audit_frame)
  moreover from claims_endI [OF row(1,4) _ _ row(5) this(2)] this(3) row
  have "claims_end (xq_idempotencyKey q) (fst owner) db db'" by simp
  ultimately show ?thesis using row by simp
qed

lemma finalize_effect:
  assumes "finalize_transaction cfg clock t q owner db = Inr (stored, db')"
  shows "claims_end (xq_idempotencyKey q) (fst stored) db db' \<and>
    (\<exists>key. db_idempotency db (xq_idempotencyKey q) = Some key \<and> ik_executionId key = xq_executionId q)"
  using assms store_final_effect unfolding finalize_transaction_def by blast

text \<open>The answer to a request whose key or execution is known.\<close>

definition existing_answer ::
  "execution_request \<Rightarrow> string \<Rightarrow> bool \<Rightarrow> acquired \<Rightarrow> database \<Rightarrow> database \<Rightarrow> bool" where
  "existing_answer q b over a db db' \<longleftrightarrow>
     (case db_idempotency db (xq_idempotencyKey q) of
        None \<Rightarrow> a = Dur_conflict \<and> same_claims db db'
      | Some key \<Rightarrow>
          if ik_fingerprint key \<noteq> xq_actionFingerprint q \<or> ik_requestBinding key \<noteq> b
          then a = Dur_conflict \<and> same_claims db db'
          else case ik_result key of
                 Some r \<Rightarrow> a = Dur_duplicate (deduplicated r) \<and> same_claims db db'
               | None \<Rightarrow> \<exists>u. a = Dur_in_progress u \<and> xr_status u = X_OUTCOME_UNKNOWN \<and>
                   xr_executionId u = ik_executionId key \<and> xr_deduplicated u \<and>
                   (if over then claims_end (xq_idempotencyKey q) u db db' else same_claims db db'))"

lemma unknownResult_simps [simp]:
  "xr_status (unknownResult q s n t) = X_OUTCOME_UNKNOWN"
  "xr_executionId (unknownResult q s n t) = xq_executionId q"
  "xr_deduplicated (unknownResult q s n t)"
  by (simp_all add: unknownResult_def error_result_def)

lemma claims_end_frame: "claims_end k r db mid \<Longrightarrow> same_claims mid db' \<Longrightarrow> claims_end k r db db'"
  by (simp add: claims_end_def same_claims_def)

lemma answer_existing_effect:
  assumes "answer_existing cfg q b now db = Inr (a, db')" "db_linked db"
  shows "existing_answer q b (lease_over q now db) a db db'"
proof (cases "db_idempotency db (xq_idempotencyKey q)")
  case None
  with assms show ?thesis by (simp add: answer_existing_def existing_answer_def same_claims_def)
next
  case (Some key)
  then have linked: "key_linked db (xq_idempotencyKey q) key" using assms(2) by (simp add: db_linked_def)
  show ?thesis
  proof (cases "ik_fingerprint key = xq_actionFingerprint q \<and> ik_requestBinding key = b")
    case False
    with assms Some show ?thesis by (auto simp: answer_existing_def existing_answer_def same_claims_def)
  next
    case claimed: True
    show ?thesis
    proof (cases "ik_result key")
      case None
      note over = claims_end_frame [OF take_over_effect [OF _ Some linked None] audit_frame]
      from None assms(1) Some claimed linked show ?thesis
        by (auto simp: answer_existing_def existing_answer_def Let_def lease_over_def
            dest: over audit_frame split: if_splits)
    next
      case Result: (Some r)
      with linked have "ik_status key \<noteq> IS_IN_PROGRESS" by (simp add: key_linked_def)
      with assms(1) Some claimed Result show ?thesis
        by (auto simp: answer_existing_def existing_answer_def Let_def dest: audit_frame)
    qed
  qed
qed

text \<open>What an acquisition answers and changes.\<close>

definition unclaimed :: "execution_request \<Rightarrow> database \<Rightarrow> bool" where
  "unclaimed q db \<longleftrightarrow>
     db_executions db (xq_executionId q) = None \<and> db_idempotency db (xq_idempotencyKey q) = None"

lemma same_claims_before:
  "same_claims db mid \<Longrightarrow> unclaimed q mid = unclaimed q db"
  "same_claims db mid \<Longrightarrow> lease_over q now mid = lease_over q now db"
  "same_claims db mid \<Longrightarrow> claims_begin cfg q b t e mid db' = claims_begin cfg q b t e db db'"
  "same_claims db mid \<Longrightarrow> claims_end k r mid db' = claims_end k r db db'"
  "same_claims db mid \<Longrightarrow> same_claims mid db' = same_claims db db'"
  by (simp_all add: same_claims_def unclaimed_def lease_over_def claims_begin_def claims_end_def)

lemma existing_answer_before:
  assumes "same_claims db mid"
  shows "existing_answer q b over a mid db' = existing_answer q b over a db db'"
proof -
  have "db_idempotency mid = db_idempotency db" using assms by (simp add: same_claims_def)
  then show ?thesis by (simp only: existing_answer_def same_claims_before [OF assms])
qed

lemma acquire_effect:
  assumes "acquire_transaction cfg clock q b db = Inr (a, db')" "db_linked db"
  shows "if unclaimed q db then a = Dur_owner \<and> claims_begin cfg q b (clock 1) (clock 2) db db'
    else existing_answer q b (lease_over q (clock 1) db) a db db'"
proof -
  from assms(1) obtain mid where mid: "upsert_session q db = Inr mid"
    and rest: "if unclaimed q mid then insert_owner cfg q b (clock 1) (clock 2) mid = Inr (a, db')
      else answer_existing cfg q b (clock 1) mid = Inr (a, db')"
    by (auto simp: acquire_transaction_def unclaimed_def split: if_splits)
  note same = upsert_frame [OF mid]
  show ?thesis
  proof (cases "unclaimed q mid")
    case True
    with rest insert_owner_effect [of cfg q b _ _ mid a db'] same show ?thesis
      by (simp add: same_claims_before) (simp add: same_claims_def unclaimed_def)
  next
    case False
    with rest answer_existing_effect [of cfg q b _ mid a db'] same_claimsD(1) [OF same assms(2)] same
    show ?thesis by (simp add: same_claims_before existing_answer_before)
  qed
qed

section \<open>The tables refine the ledger\<close>

lemma key_linked_other:
  assumes "db_linked db" "db_idempotency db k = Some r" "db_idempotency db k' = Some r'" "k \<noteq> k'"
  shows "ik_executionId r \<noteq> ik_executionId r'"
  using assms unfolding db_linked_def key_linked_def by (metis (no_types, lifting) option.inject)

lemma claims_begin_linked:
  assumes "claims_begin cfg q b t e db db'" "db_linked db"
  shows "db_linked db'"
proof -
  from assms(1) have new: "db_executions db (xq_executionId q) = None" "db_idempotency db (xq_idempotencyKey q) = None"
    by (simp_all add: claims_begin_def)
  have "ik_executionId r \<noteq> xq_executionId q" if "db_idempotency db k = Some r" for k r
    using assms(2) that new(1) unfolding db_linked_def key_linked_def by fastforce
  moreover have "xq_idempotencyKey (ew_request row) \<noteq> xq_idempotencyKey q" if "db_executions db x = Some row" for x row
    using assms(2) that new(2) unfolding db_linked_def by fastforce
  ultimately show ?thesis
    using assms by (auto simp: claims_begin_def db_linked_def key_linked_def)
qed

lemma claims_end_linked:
  assumes "claims_end k r db db'" "db_linked db"
  shows "db_linked db'"
proof -
  from assms(1) obtain key row st row' where key: "db_idempotency db k = Some key" "st \<noteq> IS_IN_PROGRESS"
    "db_executions db (ik_executionId key) = Some row"
    "db_idempotency db' = (db_idempotency db)(k \<mapsto> key\<lparr>ik_status := st, ik_result := Some r\<rparr>)"
    "db_executions db' = (db_executions db)(ik_executionId key \<mapsto> row')"
    "ew_request row' = ew_request row" "ew_result row' = Some r"
    unfolding claims_end_def by blast
  have "key_linked db k key" using assms(2) key(1) by (simp add: db_linked_def)
  with key(3) have "xq_idempotencyKey (ew_request row) = k" by (auto simp: key_linked_def)
  moreover have "ik_executionId r' = ik_executionId key \<longleftrightarrow> k' = k" if "db_idempotency db k' = Some r'" for k' r'
    using key_linked_other [OF assms(2) key(1) that] key(1) that by (cases "k = k'") auto
  moreover have "\<exists>r'. db_idempotency db (xq_idempotencyKey (ew_request row')) = Some r' \<and> ik_executionId r' = x"
    if "db_executions db x = Some row'" for x row'
    using assms(2) that by (simp add: db_linked_def)
  moreover have "key_linked db k' r'" if "db_idempotency db k' = Some r'" for k' r'
    using assms(2) that by (simp add: db_linked_def)
  ultimately show ?thesis
    using key by (fastforce simp: db_linked_def key_linked_def)
qed

lemma claims_begin_ledger:
  "claims_begin cfg q b t e db db' \<Longrightarrow>
   ledger_of db' = ledger_after (Ev_acquired q b Dur_owner over) (ledger_of db)"
  by (rule ext) (simp add: claims_begin_def ledger_of_def)

lemma claims_end_ledger: "claims_end k r db db' \<Longrightarrow> ledger_of db' = set_outcome k r (ledger_of db)"
  by (rule ext) (auto simp: claims_end_def ledger_of_def set_outcome_def)

lemma claims_end_open: "claims_end k r db db' \<Longrightarrow> db_linked db \<Longrightarrow>
  \<exists>e. ledger_of db k = Some e \<and> le_outcome e = None"
  by (force simp: claims_end_def ledger_of_def db_linked_def key_linked_def)

lemma acquire_refines:
  assumes "acquire_transaction cfg clock q b db = Inr (a, db')" "db_linked db"
  shows "db_linked db' \<and> ledger_allows (Ev_acquired q b a (lease_over q (clock 1) db)) (ledger_of db) \<and>
    ledger_of db' = ledger_after (Ev_acquired q b a (lease_over q (clock 1) db)) (ledger_of db)"
proof (cases "unclaimed q db")
  case True
  with acquire_effect [OF assms] have began: "a = Dur_owner" "claims_begin cfg q b (clock 1) (clock 2) db db'" by auto
  with True claims_begin_linked [OF began(2) assms(2)] claims_begin_ledger [OF began(2)] show ?thesis
    by (auto simp: executions_of_ledger [OF assms(2)] unclaimed_def) (simp add: ledger_of_def)
next
  case False
  with acquire_effect [OF assms] have answer: "existing_answer q b (lease_over q (clock 1) db) a db db'" by auto
  show ?thesis
  proof (cases "db_idempotency db (xq_idempotencyKey q)")
    case None
    with answer False same_claimsD(1) [OF _ assms(2)] same_claimsD(2) [of db db'] show ?thesis
      by (auto simp: existing_answer_def executions_of_ledger [OF assms(2)] unclaimed_def ledger_of_key)
  next
    case (Some key)
    with answer same_claimsD(1) [OF _ assms(2)] same_claimsD(2) [of db db']
      claims_end_linked [OF _ assms(2)] claims_end_ledger [of "xq_idempotencyKey q" _ db db']
    show ?thesis
      by (auto simp: existing_answer_def claimed_for_def ledger_of_key split: if_splits option.splits)
  qed
qed

lemma finalize_refines:
  assumes "finalize_transaction cfg clock t q owner db = Inr (stored, db')" "db_linked db"
  shows "db_linked db' \<and> ledger_allows (Ev_finalized q stored) (ledger_of db) \<and>
    ledger_of db' = ledger_after (Ev_finalized q stored) (ledger_of db)"
  using finalize_effect [OF assms(1)] claims_end_linked [OF _ assms(2)] claims_end_ledger
    claims_end_open [OF _ assms(2)]
  by (fastforce simp: ledger_of_key)

lemma renew_refines:
  assumes "renew_lease cfg q now db = (ok, db')" "db_linked db"
  shows "db_linked db' \<and> ledger_allows (Ev_renewed q ok) (ledger_of db) \<and> ledger_of db' = ledger_of db"
proof (cases ok)
  case True
  with assms(1) obtain r where r: "db_idempotency db (xq_idempotencyKey q) = Some r"
      "ik_executionId r = xq_executionId q" "ik_status r = IS_IN_PROGRESS"
      "db' = db\<lparr>db_idempotency := (db_idempotency db)(xq_idempotencyKey q \<mapsto>
         r\<lparr>ik_ownerExpiresAt := now + dc_ownerLeaseMs cfg\<rparr>)\<rparr>"
    by (auto simp: renew_lease_def split: option.splits if_splits)
  with assms(2) have "ik_result r = None" by (auto simp: db_linked_def key_linked_def)
  moreover have "db_linked db'"
    using assms(2) r by (fastforce simp: db_linked_def key_linked_def)
  moreover have "ledger_of db' = ledger_of db"
    using r by (auto simp: ledger_of_def)
  ultimately show ?thesis using r by (auto simp: ledger_of_key)
next
  case False
  with assms show ?thesis by (auto simp: renew_lease_def split: option.splits if_splits)
qed

lemma step_refines:
  assumes "db_step cfg e db db'" "db_linked db"
  shows "db_linked db' \<and> ledger_allows e (ledger_of db) \<and> ledger_of db' = ledger_after e (ledger_of db)"
  using assms
proof (cases rule: db_step.cases)
  case acquire
  with acquire_refines assms(2) show ?thesis by blast
next
  case renew
  with renew_refines [of cfg] assms(2) show ?thesis by fastforce
next
  case finalize
  with finalize_refines assms(2) show ?thesis by blast
next
  case attempt
  then show ?thesis using attempt_frame same_claimsD assms(2) by fastforce
next
  case audit
  then show ?thesis using audit_frame same_claimsD assms(2) by fastforce
next
  case sessions
  then have "same_claims db db'" by (simp add: same_claims_def)
  with same_claimsD [of db db'] assms(2) sessions show ?thesis by simp
qed

lemma run_refines:
  "db_run cfg db es db' \<Longrightarrow> db_linked db \<Longrightarrow>
   db_linked db' \<and> ledger_history (ledger_of db) es (ledger_of db')"
  by (induction rule: db_run.induct) (auto dest: step_refines)

section \<open>What a ledger guarantees\<close>

definition owner_of_key :: "string \<Rightarrow> db_event \<Rightarrow> bool" where
  "owner_of_key k e \<longleftrightarrow> (case e of
     Ev_acquired q b a over \<Rightarrow> xq_idempotencyKey q = k \<and> a = Dur_owner | _ \<Rightarrow> False)"

definition owner_of_execution :: "string \<Rightarrow> db_event \<Rightarrow> bool" where
  "owner_of_execution x e \<longleftrightarrow> (case e of
     Ev_acquired q b a over \<Rightarrow> xq_executionId q = x \<and> a = Dur_owner | _ \<Rightarrow> False)"

text \<open>The outcome an event gives a key, and the one it tells.\<close>

definition ends_key :: "string \<Rightarrow> db_event \<Rightarrow> execution_result option" where
  "ends_key k e = (case e of
     Ev_finalized q stored \<Rightarrow> if xq_idempotencyKey q = k then Some (fst stored) else None
   | Ev_acquired q b (Dur_in_progress u) over \<Rightarrow> if xq_idempotencyKey q = k \<and> over then Some u else None
   | _ \<Rightarrow> None)"

definition outcome_of :: "ledger \<Rightarrow> string \<Rightarrow> execution_result option" where
  "outcome_of L k = (case L k of None \<Rightarrow> None | Some e \<Rightarrow> le_outcome e)"

lemma ledger_event_cases:
  obtains (owner) q b over where "e = Ev_acquired q b Dur_owner over"
  | (finalized) q stored where "e = Ev_finalized q stored"
  | (expired) q b u where "e = Ev_acquired q b (Dur_in_progress u) True"
  | (other) "\<And>k x L. \<not> owner_of_key k e \<and> \<not> owner_of_execution x e \<and> ends_key k e = None \<and> ledger_after e L = L"
proof (cases e)
  case (Ev_acquired q b a over)
  with owner expired other show ?thesis
    by (cases a; cases over) (auto simp: owner_of_key_def owner_of_execution_def ends_key_def)
qed (use finalized other in \<open>auto simp: owner_of_key_def owner_of_execution_def ends_key_def\<close>)

lemma executions_of_outcome [simp]: "executions_of (set_outcome k r L) = executions_of L"
proof -
  have "le_execution ` ran (set_outcome k r L) = le_execution ` ran L"
    by (auto simp: set_outcome_def ran_def image_iff) (metis (no_types, lifting) ledger_entry.select_convs(1) ledger_entry.surjective ledger_entry.update_convs(4) option.map(2))+
  then show ?thesis by (simp add: executions_of_def)
qed

lemma executions_of_new:
  "L k = None \<Longrightarrow> executions_of (L(k \<mapsto> e)) = insert (le_execution e) (executions_of L)"
  by (simp add: executions_of_def)

text \<open>What an event makes true, and can make true once only.\<close>

lemma ledger_once:
  assumes step: "\<And>e L. ledger_allows e L \<Longrightarrow> P (ledger_after e L) \<longleftrightarrow> P L \<or> f e"
    and fresh: "\<And>e L. ledger_allows e L \<Longrightarrow> f e \<Longrightarrow> \<not> P L"
    and history: "ledger_history L es L'"
  shows "(P L \<longrightarrow> P L') \<and> length (filter f es) = (if \<not> P L \<and> P L' then 1 else 0)"
  using history
proof (induction es arbitrary: L)
  case (Cons e es)
  then have e: "ledger_allows e L" and es: "ledger_history (ledger_after e L) es L'" by simp_all
  show ?case using Cons.IH [OF es] step [OF e] fresh [OF e] by auto
qed simp

lemma owner_of_key_once:
  "ledger_history L es L' \<Longrightarrow> length (filter (owner_of_key k) es) = (if L k = None \<and> L' k \<noteq> None then 1 else 0)"
proof (drule ledger_once [where P = "\<lambda>L. L k \<noteq> None" and f = "owner_of_key k", rotated 2])
  show "(ledger_after e L k \<noteq> None) = (L k \<noteq> None \<or> owner_of_key k e)" for e L
    by (cases e rule: ledger_event_cases) (auto simp: owner_of_key_def set_outcome_def)
  show "ledger_allows e L \<Longrightarrow> owner_of_key k e \<Longrightarrow> \<not> L k \<noteq> None" for e L
    by (cases e rule: ledger_event_cases) (auto simp: owner_of_key_def)
qed (simp split: if_splits)

lemma owner_of_execution_once:
  "ledger_history L es L' \<Longrightarrow> length (filter (owner_of_execution x) es) \<le> 1"
proof (drule ledger_once [where P = "\<lambda>L. x \<in> executions_of L" and f = "owner_of_execution x", rotated 2])
  show "ledger_allows e L \<Longrightarrow> (x \<in> executions_of (ledger_after e L)) = (x \<in> executions_of L \<or> owner_of_execution x e)" for e L
    by (cases e rule: ledger_event_cases)
      (auto simp: owner_of_execution_def executions_of_new)
  show "ledger_allows e L \<Longrightarrow> owner_of_execution x e \<Longrightarrow> x \<notin> executions_of L" for e L
    by (cases e rule: ledger_event_cases) (auto simp: owner_of_execution_def)
qed (simp split: if_splits)

lemma outcome_of_new: "outcome_of (L(k' \<mapsto> e)) k = (if k = k' then le_outcome e else outcome_of L k)"
  by (simp add: outcome_of_def)

lemma outcome_of_set:
  "L k' = Some e \<Longrightarrow> outcome_of (set_outcome k' r L) k = (if k = k' then Some r else outcome_of L k)"
  by (simp add: outcome_of_def set_outcome_def)

lemma outcome_of_entry: "L k = None \<Longrightarrow> outcome_of L k = None" "L k = Some e \<Longrightarrow> outcome_of L k = le_outcome e"
  by (simp_all add: outcome_of_def)

lemma outcome_after:
  assumes "ledger_allows e L"
  shows "outcome_of (ledger_after e L) k = (if ends_key k e = None then outcome_of L k else ends_key k e)"
  using assms by (cases e rule: ledger_event_cases)
    (auto simp: ends_key_def outcome_of_new outcome_of_set outcome_of_entry)

lemma ends_key_fresh:
  assumes "ledger_allows e L" "ends_key k e \<noteq> None"
  shows "outcome_of L k = None"
  using assms by (cases e rule: ledger_event_cases)
    (auto simp: ends_key_def outcome_of_entry split: if_splits)

lemma ends_key_once:
  assumes "ledger_history L es L'"
  shows "length (filter (\<lambda>e. ends_key k e \<noteq> None) es) \<le> 1"
  using ledger_once [where P = "\<lambda>L. outcome_of L k \<noteq> None" for k, OF _ _ assms, of k "\<lambda>e. ends_key k e \<noteq> None"] outcome_after ends_key_fresh
  by (auto split: if_splits)

text \<open>An outcome stays, so whatever is told of a key is its outcome at the end.\<close>

lemma outcome_stays: "ledger_history L es L' \<Longrightarrow> outcome_of L k = Some r \<Longrightarrow> outcome_of L' k = Some r"
proof (induction es arbitrary: L)
  case (Cons e es)
  then have e: "ledger_allows e L" "ledger_history (ledger_after e L) es L'" by simp_all
  with Cons.prems(2) ends_key_fresh [OF e(1), of k] have "ends_key k e = None"
    by (cases "ends_key k e") auto
  with outcome_after [OF e(1), of k] Cons.prems(2) Cons.IH [OF e(2)] show ?case by simp
qed simp

lemma told_outcome:
  assumes "ledger_history L es L'" "e \<in> set es"
  shows "(\<forall>q b r over. e = Ev_acquired q b (Dur_duplicate r) over \<longrightarrow>
      (\<exists>r0. outcome_of L' (xq_idempotencyKey q) = Some r0 \<and> r = deduplicated r0)) \<and>
    (\<forall>k r. ends_key k e = Some r \<longrightarrow> outcome_of L' k = Some r)"
  using assms
proof (induction es arbitrary: L)
  case (Cons e' es)
  then have allowed: "ledger_allows e' L" and rest: "ledger_history (ledger_after e' L) es L'" by simp_all
  show ?case
  proof (cases "e \<in> set es")
    case True
    with Cons.IH [OF rest] show ?thesis by blast
  next
    case False
    with Cons.prems(2) have e: "e' = e" by simp
    have "\<exists>r0. outcome_of L' (xq_idempotencyKey q) = Some r0 \<and> r = deduplicated r0"
      if "e = Ev_acquired q b (Dur_duplicate r) over" for q b r over
    proof -
      from allowed that e obtain r0 where "outcome_of L (xq_idempotencyKey q) = Some r0" "r = deduplicated r0"
        by (auto simp: outcome_of_entry)
      with outcome_stays [OF rest] that e show ?thesis by auto
    qed
    moreover have "outcome_of L' k = Some r" if "ends_key k e = Some r" for k r
      using outcome_after [OF allowed, of k] that e outcome_stays [OF rest] by simp
    ultimately show ?thesis by blast
  qed
qed simp

lemma ledger_outcome: "outcome_of (ledger_of db) k = Option.bind (db_idempotency db k) ik_result"
  by (cases "db_idempotency db k") (simp_all add: outcome_of_def ledger_of_key)

section \<open>A live owner can finish\<close>

text \<open>The execution of a request is running and its key is still its own.\<close>

definition owns :: "execution_request \<Rightarrow> database \<Rightarrow> bool" where
  "owns q db \<longleftrightarrow> (\<exists>key row. db_idempotency db (xq_idempotencyKey q) = Some key \<and>
     ik_executionId key = xq_executionId q \<and> ik_status key = IS_IN_PROGRESS \<and>
     db_executions db (xq_executionId q) = Some row \<and> ew_state row = X_RUNNING)"

lemma owns_ledger:
  assumes "db_linked db"
  shows "owns q db \<longleftrightarrow> (\<exists>e. ledger_of db (xq_idempotencyKey q) = Some e \<and>
    le_execution e = xq_executionId q \<and> le_outcome e = None)"
proof (cases "db_idempotency db (xq_idempotencyKey q)")
  case (Some key)
  then have "key_linked db (xq_idempotencyKey q) key" using assms by (simp add: db_linked_def)
  with Some show ?thesis by (auto simp: owns_def ledger_of_key key_linked_def)
qed (simp add: owns_def ledger_of_key)

lemma entry_after:
  assumes "ledger_allows e L" "L k = Some x"
  shows "\<exists>y. ledger_after e L k = Some y \<and> le_execution y = le_execution x"
  using assms by (cases e rule: ledger_event_cases) (auto simp: set_outcome_def)

lemma entry_stays:
  "ledger_history L es L' \<Longrightarrow> L k = Some x \<Longrightarrow> \<exists>y. L' k = Some y \<and> le_execution y = le_execution x"
proof (induction es arbitrary: L x)
  case (Cons e es)
  then obtain y where "ledger_after e L k = Some y" "le_execution y = le_execution x"
    using entry_after [of e L k x] by auto
  with Cons.IH [of "ledger_after e L" y] Cons.prems(1) show ?case by simp
qed simp

lemma outcome_unless_ended:
  "ledger_history L es L' \<Longrightarrow> \<forall>e \<in> set es. ends_key k e = None \<Longrightarrow> outcome_of L' k = outcome_of L k"
  by (induction es arbitrary: L) (auto simp: outcome_after)

lemma safe_object: "safe_metadata (J_obj kvs) \<longleftrightarrow>
  (\<forall>(k, v) \<in> set kvs. \<not> list_ex (found_in k) forbiddenMetadataKey \<and> safe_metadata v)"
  by (auto simp: list_all_iff)

lemma safe_final_metadata:
  "safe_metadata (J_obj [(''status'', J_str (execution_state_text st)), (''attemptCount'', js_nat n)])"
proof -
  have "\<not> list_ex (found_in ''status'') forbiddenMetadataKey"
    by (rule none_found, code_simp) (simp add: pattern_defs)
  moreover have "\<not> list_ex (found_in ''attemptCount'') forbiddenMetadataKey"
    by (rule none_found, code_simp) (simp add: pattern_defs)
  moreover have "\<not> list_ex (found_in (execution_state_text st)) sensitive_text"
    by (induction st) (simp only: execution_state_text.simps, rule none_found, code_simp, simp add: pattern_defs)+
  moreover have "safe_metadata (js_nat n)" by (simp add: js_nat_def Let_def)
  ultimately show ?thesis unfolding safe_object by simp
qed

lemma safe_retry_metadata: "safe_metadata (J_obj [(''attempt'', js_nat n)])"
proof -
  have "\<not> list_ex (found_in ''attempt'') forbiddenMetadataKey"
    by (rule none_found, code_simp) (simp add: pattern_defs)
  moreover have "safe_metadata (js_nat n)" by (simp add: js_nat_def Let_def)
  ultimately show ?thesis unfolding safe_object by simp
qed

lemma store_attempts_succeeds: "\<exists>db'. store_attempts cfg q as db = Inr db'"
proof (induction as arbitrary: db)
  case (Cons a as)
  then show ?case
    by (auto simp: Let_def appendExecutionAudit_def safe_retry_metadata simp del: safe_metadata.simps)
qed simp

lemma owner_can_store:
  assumes "owns q db"
  shows "\<exists>db'. store_final cfg t q owner db = Inr (owner, db')"
proof -
  from assms obtain key row where row: "db_idempotency db (xq_idempotencyKey q) = Some key"
      "db_executions db (xq_executionId q) = Some row" "ik_executionId key = xq_executionId q"
      "ik_status key = IS_IN_PROGRESS" "ew_state row = X_RUNNING"
    by (auto simp: owns_def)
  define db1 where "db1 = db\<lparr>db_executions := (db_executions db)(xq_executionId q \<mapsto>
    row\<lparr>ew_state := xr_status (fst owner), ew_record := snd owner, ew_result := Some (fst owner)\<rparr>)\<rparr>"
  obtain db2 where "store_attempts cfg q (er_attempts (snd owner)) db1 = Inr db2"
    using store_attempts_succeeds by blast
  with row show ?thesis
    by (simp add: store_final_def db1_def appendExecutionAudit_def safe_final_metadata
        del: safe_metadata.simps)
qed

section \<open>The guarantees\<close>

text \<open>
  C37. The tables implement the ledger: whatever any number of processes commit, in any order and
  at any readings of the database clock, every answer is one the ledger allows (ownership only
  of a key and an execution that are free, conflict exactly when the key was claimed for
  something else or the execution by another key, the stored outcome once there is one, and
  otherwise \<open>OUTCOME_UNKNOWN\<close> under the owner's execution) and the tables change as the ledger does.
\<close>

theorem durable_tables_refine_ledger:
  assumes "db_run cfg empty_database es db"
  shows "ledger_history Map.empty es (ledger_of db)"
  using run_refines [OF assms] by simp

text \<open>
  C38. One owner, one outcome, and everyone is told it: of all acquisitions in a history at most
  one is answered \<open>OWNER\<close> for a key, and at most one for an execution; a key gets at most one
  outcome, whether stored by its owner or declared unknown after the lease; and whatever outcome
  was stored, declared, or told to a duplicate is the one the key has at the end.
\<close>

theorem one_owner_one_outcome:
  assumes "db_run cfg empty_database es db"
  shows "length (filter (owner_of_key k) es) \<le> 1 \<and> length (filter (owner_of_execution x) es) \<le> 1 \<and>
    length (filter (\<lambda>e. ends_key k e \<noteq> None) es) \<le> 1 \<and>
    (\<forall>e \<in> set es. \<forall>r. ends_key k e = Some r \<longrightarrow> Option.bind (db_idempotency db k) ik_result = Some r) \<and>
    (\<forall>q b r over. Ev_acquired q b (Dur_duplicate r) over \<in> set es \<longrightarrow>
       map_option deduplicated (Option.bind (db_idempotency db (xq_idempotencyKey q)) ik_result) = Some r)"
proof -
  have history: "ledger_history Map.empty es (ledger_of db)" using run_refines [OF assms] by simp
  have "Option.bind (db_idempotency db k) ik_result = Some r" if "e \<in> set es" "ends_key k e = Some r" for e r
    using told_outcome [OF history that(1)] that(2) by (simp add: ledger_outcome)
  moreover have "map_option deduplicated (Option.bind (db_idempotency db (xq_idempotencyKey q)) ik_result) = Some r"
    if "Ev_acquired q b (Dur_duplicate r) over \<in> set es" for q b r over
    using told_outcome [OF history that] by (auto simp: ledger_outcome)
  ultimately show ?thesis
    using owner_of_key_once [OF history, of k] owner_of_execution_once [OF history, of x]
      ends_key_once [OF history, of k] by (simp split: if_splits)
qed


end
