(* ===== verification/DurableProcess.thy ===== *)
theory DurableProcess
  imports DurableExecution
begin

text \<open>
  The durable coordinator in a process: \<open>execute\<close>, \<open>#runOwner\<close>, \<open>#heartbeat\<close>,
  \<open>#auditDeduplication\<close> and the map of local flights, over the transactions of
  \<open>DurableExecution\<close>. The world it shares with the rest of the process and with every other
  process is the database, the flights and the promises; it takes the place of the consumer's
  state in a run of the executor, so \<open>durable_execute\<close> is a coordinator of the executor. At every
  statement the rest of the world runs before and after; a commit may be lost, or not be seen.
  The coordinator of short leases, whose answers only delay, is one such pause.
\<close>

section \<open>The world and its environment\<close>

datatype fate = Commits | Aborts | Commits_unseen

record durable_env =
  de_clock :: "nat \<Rightarrow> nat \<Rightarrow> int"
  de_process :: "nat \<Rightarrow> utc_timestamp"
  de_fate :: "nat \<Rightarrow> fate"
  de_lease_lost :: "nat \<Rightarrow> bool"
  de_readable :: "nat \<Rightarrow> bool"

record local_flight =
  lf_fingerprint :: string
  lf_requestBinding :: string
  lf_promise :: nat

text \<open>A promise is known by its key and its number.\<close>

record 'y durable_world =
  dw_db :: database
  dw_inflight :: "string \<rightharpoonup> local_flight"
  dw_promises :: "string \<times> nat \<rightharpoonup> (thrown, execution_result) result"
  dw_next :: nat
  dw_rest :: 'y

type_synonym ('y, 'a) durable_exec = "('y durable_world, 'a) exec"

definition world_of :: "'z run \<Rightarrow> 'z" where
  "world_of s = sh_consumer (rn_shared s)"

definition with_world :: "'z \<Rightarrow> 'z run \<Rightarrow> 'z run" where
  "with_world w s = s\<lparr>rn_shared := (rn_shared s)\<lparr>sh_consumer := w\<rparr>\<rparr>"

definition database_error :: thrown where
  "database_error = Foreign_object No_failure_type"

definition pause :: "'z exec_env \<Rightarrow> ('z, unit) exec" where
  "pause env = as_update (\<lambda>s. ((), interleave env s))"

text \<open>\<open>new Date()\<close> of the process.\<close>

definition process_now :: "durable_env \<Rightarrow> ('z, utc_timestamp) exec" where
  "process_now de = as_update (\<lambda>s. (de_process de (rn_tick s), tick s))"

definition transaction ::
  "durable_env \<Rightarrow> 'y durable_world exec_env \<Rightarrow> ((nat \<Rightarrow> int) \<Rightarrow> database \<Rightarrow> (unit, 'a \<times> database) result) \<Rightarrow>
     ('y, 'a) durable_exec" where
  "transaction de env f s =
     (let s1 = interleave env s; now = de_fate de (rn_tick s1); w = world_of s1 in
      case f (de_clock de (rn_tick s1)) (dw_db w) of
        Inl _ \<Rightarrow> (Throws database_error, interleave env s1)
      | Inr (x, db) \<Rightarrow>
          if now = Aborts then (Throws database_error, interleave env s1)
          else let s2 = interleave env (with_world (w\<lparr>dw_db := db\<rparr>) s1)
               in (if now = Commits then Returns x else Throws database_error, s2))"

section \<open>The heartbeat\<close>

text \<open>
  One beat per interval until the owner is done: what the others committed meanwhile, the clock
  of the database, and what became of the renewal.
\<close>

datatype renewal_reply = In_time | Too_late | Not_applied

record beat =
  bt_others :: "database \<Rightarrow> database"
  bt_now :: int
  bt_reply :: renewal_reply

fun heartbeat :: "durable_config \<Rightarrow> execution_request \<Rightarrow> beat list \<Rightarrow> database \<Rightarrow> bool \<times> database" where
  "heartbeat cfg q [] db = (False, db)"
| "heartbeat cfg q (b # bs) db =
     (if bt_reply b = Not_applied then (True, bt_others b db)
      else case renew_lease cfg q (bt_now b) (bt_others b db) of (renewed, db') \<Rightarrow>
             if renewed \<and> bt_reply b = In_time then heartbeat cfg q bs db' else (True, db'))"

text \<open>
  In a run of the process the renewals are among the steps of the rest of the world; whether one
  of them was lost is an answer of the environment.
\<close>

definition await_heartbeat :: "durable_env \<Rightarrow> 'z exec_env \<Rightarrow> ('z, bool) exec" where
  "await_heartbeat de env = as_update (\<lambda>s. (de_lease_lost de (rn_tick s), interleave env s))"

section \<open>Running as the owner\<close>

definition read_result ::
  "durable_env \<Rightarrow> 'y durable_world exec_env \<Rightarrow> string \<Rightarrow> ('y, execution_result option) durable_exec" where
  "read_result de env x s =
     (let s1 = interleave env s in
      if de_readable de (rn_tick s)
      then (Returns (getResult (dw_db (world_of s1)) x), interleave env s1)
      else (Throws database_error, s1))"

text \<open>\<open>#finalize\<close>, and what is read again when it fails.\<close>

definition finalize_owner ::
  "durable_config \<Rightarrow> durable_env \<Rightarrow> 'y durable_world exec_env \<Rightarrow> execution_request \<Rightarrow> owner_result \<Rightarrow>
     ('y, execution_result) durable_exec" where
  "finalize_owner cfg de env q owner =
     as_then (process_now de) (\<lambda>processAt.
     as_try (transaction de env (\<lambda>clock. finalize_transaction cfg clock processAt q owner))
       (\<lambda>e. as_try (read_result de env (xq_executionId q)) (\<lambda>_. as_throw e)
              (\<lambda>stored. case stored of Some r \<Rightarrow> as_return r | None \<Rightarrow> as_throw e))
       (\<lambda>stored. as_return (fst stored)))"

definition runOwner ::
  "durable_config \<Rightarrow> durable_env \<Rightarrow> 'y durable_world exec_env \<Rightarrow> execution_request \<Rightarrow>
     ('y, owner_result) durable_exec \<Rightarrow> ('y, execution_result) durable_exec" where
  "runOwner cfg de env q owner =
     as_then (as_catch owner (\<lambda>_. as_then (process_now de) (\<lambda>t. as_return (failed_owner q t)))) (\<lambda>result.
     as_then (await_heartbeat de env) (\<lambda>lost.
     as_then (process_now de) (\<lambda>t.
     finalize_owner cfg de env q (if lost then unknownAfterLeaseLoss q t result else result))))"

section \<open>Local flights\<close>

definition start_flight :: "execution_request \<Rightarrow> string \<Rightarrow> ('y, nat) durable_exec" where
  "start_flight q binding = as_update (\<lambda>s. let w = world_of s in
     (dw_next w, with_world (w\<lparr>dw_next := Suc (dw_next w),
        dw_inflight := (dw_inflight w)(xq_idempotencyKey q \<mapsto>
          \<lparr>lf_fingerprint = xq_actionFingerprint q, lf_requestBinding = binding,
           lf_promise = dw_next w\<rparr>)\<rparr>) s))"

definition settle_promise ::
  "string \<Rightarrow> nat \<Rightarrow> (thrown, execution_result) result \<Rightarrow> 'y durable_world run \<Rightarrow> 'y durable_world run" where
  "settle_promise k p v s = (let w = world_of s in
     with_world (w\<lparr>dw_promises := (dw_promises w)((k, p) \<mapsto> v)\<rparr>) s)"

text \<open>The promise of a run settles as the run does.\<close>

definition promised ::
  "string \<Rightarrow> nat \<Rightarrow> ('y, execution_result) durable_exec \<Rightarrow> ('y, execution_result) durable_exec" where
  "promised k p m s =
     (case m s of
        (Returns r, s') \<Rightarrow> (Returns r, settle_promise k p (Inr r) s')
      | (Throws e, s') \<Rightarrow> (Throws e, settle_promise k p (Inl e) s')
      | (Pending, s') \<Rightarrow> (Pending, s'))"

definition end_flight :: "string \<Rightarrow> nat \<Rightarrow> 'y durable_world run \<Rightarrow> 'y durable_world run" where
  "end_flight k p s = (let w = world_of s in
     if map_option lf_promise (dw_inflight w k) = Some p
     then with_world (w\<lparr>dw_inflight := (dw_inflight w)(k := None)\<rparr>) s else s)"

definition await_flight ::
  "'y durable_world exec_env \<Rightarrow> string \<Rightarrow> nat \<Rightarrow> ('y, execution_result) durable_exec" where
  "await_flight env k p s =
     (let s' = interleave env s in
      case dw_promises (world_of s') (k, p) of
        None \<Rightarrow> (Pending, s')
      | Some (Inl e) \<Rightarrow> (Throws e, s')
      | Some (Inr r) \<Rightarrow> (Returns r, s'))"

definition auditDeduplication ::
  "durable_config \<Rightarrow> durable_env \<Rightarrow> 'y durable_world exec_env \<Rightarrow> execution_request \<Rightarrow> string \<Rightarrow>
     (string \<times> json) list \<Rightarrow> ('y, unit) durable_exec" where
  "auditDeduplication cfg de env q originalExecutionId metadata =
     transaction de env (\<lambda>clock db.
       and_then (appendExecutionAudit cfg (q\<lparr>xq_executionId := originalExecutionId\<rparr>)
           ''idempotency.deduplicated'' (clock 0)
           ((''originalExecutionId'', J_str originalExecutionId) # metadata) db)
         (\<lambda>db'. Inr ((), db')))"

section \<open>The public operation\<close>

definition answer_conflicting :: "durable_env \<Rightarrow> execution_request \<Rightarrow> ('z, execution_result) exec" where
  "answer_conflicting de q = as_then (process_now de) (\<lambda>t. as_return (conflictResult q t))"

definition join_flight ::
  "durable_config \<Rightarrow> durable_env \<Rightarrow> 'y durable_world exec_env \<Rightarrow> execution_request \<Rightarrow> string \<Rightarrow> local_flight \<Rightarrow>
     ('y, execution_result) durable_exec" where
  "join_flight cfg de env q binding f =
     (if lf_fingerprint f \<noteq> xq_actionFingerprint q \<or> lf_requestBinding f \<noteq> binding
      then answer_conflicting de q
      else as_then (await_flight env (xq_idempotencyKey q) (lf_promise f)) (\<lambda>r.
           as_then (auditDeduplication cfg de env q (xr_executionId r) [(''local'', J_bool True)]) (\<lambda>_.
           as_return (deduplicated r))))"

definition own_flight ::
  "durable_config \<Rightarrow> durable_env \<Rightarrow> 'y durable_world exec_env \<Rightarrow> execution_request \<Rightarrow> string \<Rightarrow>
     ('y, owner_result) durable_exec \<Rightarrow> ('y, execution_result) durable_exec" where
  "own_flight cfg de env q binding owner =
     as_then (start_flight q binding) (\<lambda>p.
     as_finally (promised (xq_idempotencyKey q) p (runOwner cfg de env q owner))
       (\<lambda>s. end_flight (xq_idempotencyKey q) p (interleave env s)))"

definition durable_execute ::
  "durable_config \<Rightarrow> durable_env \<Rightarrow> 'y durable_world exec_env \<Rightarrow> execution_request \<Rightarrow> string \<Rightarrow>
     ('y, owner_result) durable_exec \<Rightarrow> ('y, execution_result) durable_exec" where
  "durable_execute cfg de env q binding owner =
     as_finally (as_then (pause env) (\<lambda>_.
       as_then (as_get (\<lambda>s. dw_inflight (world_of s) (xq_idempotencyKey q))) (\<lambda>local.
       case local of
         Some f \<Rightarrow> join_flight cfg de env q binding f
       | None \<Rightarrow>
           as_then (transaction de env (\<lambda>clock. acquire_transaction cfg clock q binding)) (\<lambda>acquired.
           case acquired of
             Dur_conflict \<Rightarrow> answer_conflicting de q
           | Dur_duplicate r \<Rightarrow> as_return r
           | Dur_in_progress r \<Rightarrow> as_return r
           | Dur_owner \<Rightarrow> own_flight cfg de env q binding owner))))
       (interleave env)"

text \<open>An executor whose coordinator is this one; its consumer works on the rest of the world.\<close>

definition resting ::
  "(nat \<Rightarrow> consume_command \<Rightarrow> 'y \<Rightarrow> (thrown, unit) result \<times> 'y) \<Rightarrow>
     nat \<Rightarrow> consume_command \<Rightarrow> 'y durable_world \<Rightarrow> (thrown, unit) result \<times> 'y durable_world" where
  "resting consumer n c w = (case consumer n c (dw_rest w) of (r, y) \<Rightarrow> (r, w\<lparr>dw_rest := y\<rparr>))"

definition durably ::
  "durable_config \<Rightarrow> durable_env \<Rightarrow> 'y durable_world exec_env \<Rightarrow>
     (nat \<Rightarrow> consume_command \<Rightarrow> 'y \<Rightarrow> (thrown, unit) result \<times> 'y) \<Rightarrow>
     'y durable_world executor \<Rightarrow> 'y durable_world executor" where
  "durably dc de env consumer cfg = cfg
     \<lparr>xc_coordinator := Some (durable_execute dc de env), xc_consumer := resting consumer\<rparr>"

end
