(* ===== verification/DurableAnswers.thy ===== *)
theory DurableAnswers
  imports DurableProcess DurableGuarantees ExecutorInvariants
begin

text \<open>
  What the durable coordinator guarantees to the callers of one process, whatever the rest of
  the process and all other processes commit: what is answered is stored, and nothing runs for a
  key that is taken. The guarantees of the tables are those of \<open>DurableGuarantees\<close>.
\<close>

section \<open>The rest of the world\<close>

text \<open>The outcome stored for a key, and the claim of a key by an execution.\<close>

definition told :: "string \<Rightarrow> execution_result \<Rightarrow> 'y durable_world \<Rightarrow> bool" where
  "told k r w \<longleftrightarrow> Option.bind (db_idempotency (dw_db w) k) ik_result = Some r"

definition claimed_by :: "string \<Rightarrow> string \<Rightarrow> 'y durable_world \<Rightarrow> bool" where
  "claimed_by k x w \<longleftrightarrow> (\<exists>r. db_idempotency (dw_db w) k = Some r \<and> ik_executionId r = x)"

definition world_ok :: "'y durable_world \<Rightarrow> bool" where
  "world_ok w \<longleftrightarrow> db_linked (dw_db w) \<and>
     (\<forall>k p r. dw_promises w (k, p) = Some (Inr r) \<longrightarrow> told k r w)"

text \<open>
  What others may do: commit transactions of the coordinator, and fulfil promises with results
  that are stored.
\<close>

definition world_step :: "durable_config \<Rightarrow> 'y durable_world \<Rightarrow> 'y durable_world \<Rightarrow> bool" where
  "world_step dc w w' \<longleftrightarrow> (world_ok w \<longrightarrow> world_ok w') \<and> (\<exists>es. db_run dc (dw_db w) es (dw_db w'))"

lemma world_step_refl [simp]: "world_step dc w w"
  by (auto simp: world_step_def intro: db_run_Nil)

lemma world_step_trans: "world_step dc w w' \<Longrightarrow> world_step dc w' w'' \<Longrightarrow> world_step dc w w''"
  unfolding world_step_def by (metis db_run_append)

lemma world_step_ok: "world_step dc w w' \<Longrightarrow> world_ok w \<Longrightarrow> world_ok w'"
  by (simp add: world_step_def)

lemma world_step_history:
  assumes "world_step dc w w'" "world_ok w"
  obtains es where "ledger_history (ledger_of (dw_db w)) es (ledger_of (dw_db w'))"
  using assms run_refines unfolding world_step_def world_ok_def by blast

lemma told_stays: "world_step dc w w' \<Longrightarrow> world_ok w \<Longrightarrow> told k r w \<Longrightarrow> told k r w'"
  by (erule (1) world_step_history) (simp add: told_def outcome_stays flip: ledger_outcome)

lemma claimed_by_ledger:
  "claimed_by k x w \<longleftrightarrow> (\<exists>e. ledger_of (dw_db w) k = Some e \<and> le_execution e = x)"
  by (auto simp: claimed_by_def ledger_of_key)

lemma claimed_stays: "world_step dc w w' \<Longrightarrow> world_ok w \<Longrightarrow> claimed_by k x w \<Longrightarrow> claimed_by k x w'"
  by (erule (1) world_step_history) (auto simp: claimed_by_ledger dest: entry_stays)

definition step_of :: "durable_config \<Rightarrow> 'y durable_world run \<Rightarrow> 'y durable_world run \<Rightarrow> bool" where
  "step_of dc s s' \<longleftrightarrow> world_step dc (world_of s) (world_of s')"

lemma world_of_simps [simp]:
  "world_of (tick s) = world_of s" "world_of (with_world w s) = w"
  "world_of (interleave env s) = sh_consumer (xv_others env (rn_tick s) (rn_shared s))"
  by (simp_all add: world_of_def tick_def with_world_def interleave_def)

text \<open>A transaction of the coordinator is a step.\<close>

lemma database_step:
  assumes "db_run dc (dw_db w) es db" "world_ok w"
  shows "world_step dc w (w\<lparr>dw_db := db\<rparr>)" "world_ok (w\<lparr>dw_db := db\<rparr>)"
proof -
  from run_refines [OF assms(1)] assms(2) have linked: "db_linked db"
    and history: "ledger_history (ledger_of (dw_db w)) es (ledger_of db)" by (simp_all add: world_ok_def)
  have "told k r (w\<lparr>dw_db := db\<rparr>)" if "told k r w" for k r
    using outcome_stays [OF history] that by (simp add: told_def flip: ledger_outcome)
  with assms linked show "world_ok (w\<lparr>dw_db := db\<rparr>)" by (auto simp: world_ok_def)
  with assms show "world_step dc w (w\<lparr>dw_db := db\<rparr>)" by (auto simp: world_step_def)
qed

section \<open>Runs that only step\<close>

text \<open>The contract of a piece of code: from a good world it steps, and ensures \<open>Q\<close> of its value.\<close>

definition ensures ::
  "durable_config \<Rightarrow> ('y durable_world \<Rightarrow> bool) \<Rightarrow> ('y, 'a) durable_exec \<Rightarrow>
     ('a \<Rightarrow> 'y durable_world \<Rightarrow> bool) \<Rightarrow> bool" where
  "ensures dc P m Q \<longleftrightarrow> (\<forall>s. world_ok (world_of s) \<longrightarrow> P (world_of s) \<longrightarrow>
     wp m (\<lambda>x s'. step_of dc s s' \<and> Q x (world_of s')) (\<lambda>e. step_of dc s) (step_of dc s) s)"

text \<open>A property the rest of the world cannot break.\<close>

definition stays :: "durable_config \<Rightarrow> ('y durable_world \<Rightarrow> bool) \<Rightarrow> bool" where
  "stays dc P \<longleftrightarrow> (\<forall>w w'. world_ok w \<longrightarrow> world_step dc w w' \<longrightarrow> P w \<longrightarrow> P w')"

lemma stays_rules [simp]:
  "stays dc (\<lambda>w. True)" "stays dc (told k r)" "stays dc (claimed_by k x)"
  by (auto simp: stays_def intro: told_stays claimed_stays)

lemma stays_conj: "stays dc P \<Longrightarrow> stays dc Q \<Longrightarrow> stays dc (\<lambda>w. P w \<and> Q w)"
  unfolding stays_def by blast

lemma stays_ex: "(\<And>x. stays dc (P x)) \<Longrightarrow> stays dc (\<lambda>w. \<exists>x. P x w)"
  unfolding stays_def by blast

lemma stays_fact [simp]: "stays dc (\<lambda>w. B)"
  by (simp add: stays_def)

lemma ensures_try:
  assumes "stays dc P" "ensures dc P m Q" "\<And>x. ensures dc (\<lambda>w. P w \<and> Q x w) (k x) R"
    and "\<And>e. ensures dc P (h e) R"
  shows "ensures dc P (as_try m h k) R"
  unfolding ensures_def
proof (intro allI impI)
  fix s :: "'a durable_world run"
  assume s: "world_ok (world_of s)" "P (world_of s)"
  have later: "P (world_of s')" "world_ok (world_of s')" if "step_of dc s s'" for s'
    using assms(1) s that unfolding stays_def step_of_def by (blast dest: world_step_ok)+
  have run: "wp m (\<lambda>x s'. step_of dc s s' \<and> Q x (world_of s')) (\<lambda>e. step_of dc s) (step_of dc s) s"
    using assms(2) s unfolding ensures_def by blast
  have on: "wp n (\<lambda>x s''. step_of dc s s'' \<and> R x (world_of s'')) (\<lambda>e. step_of dc s) (step_of dc s) s'"
    if "step_of dc s s'" and n: "wp n (\<lambda>x s''. step_of dc s' s'' \<and> R x (world_of s'')) (\<lambda>e. step_of dc s') (step_of dc s') s'"
    for n s'
    by (rule wp_mono [OF n]) (use that(1) in \<open>auto simp: step_of_def intro: world_step_trans\<close>)
  show "wp (as_try m h k) (\<lambda>x s'. step_of dc s s' \<and> R x (world_of s')) (\<lambda>e. step_of dc s) (step_of dc s) s"
    unfolding wp_try
  proof (rule wp_mono [OF run])
    fix x s' assume x: "step_of dc s s' \<and> Q x (world_of s')"
    with assms(3) later show "wp (k x) (\<lambda>x s'. step_of dc s s' \<and> R x (world_of s')) (\<lambda>e. step_of dc s) (step_of dc s) s'"
      unfolding ensures_def by (intro on) auto
  next
    fix e s' assume "step_of dc s s'"
    with assms(4) later show "wp (h e) (\<lambda>x s'. step_of dc s s' \<and> R x (world_of s')) (\<lambda>e. step_of dc s) (step_of dc s) s'"
      unfolding ensures_def by (intro on) auto
  qed
qed

lemma ensures_return: "(\<And>w. world_ok w \<Longrightarrow> P w \<Longrightarrow> Q x w) \<Longrightarrow> ensures dc P (as_return x) Q"
  by (simp add: ensures_def step_of_def)

lemma ensures_throw: "ensures dc P (as_throw e) Q"
  by (simp add: ensures_def step_of_def)

lemma ensures_weaken:
  assumes "ensures dc P m Q" "\<And>w. P' w \<Longrightarrow> P w" "\<And>x w. world_ok w \<Longrightarrow> Q x w \<Longrightarrow> Q' x w"
  shows "ensures dc P' m Q'"
  unfolding ensures_def
proof (intro allI impI)
  fix s :: "'a durable_world run"
  assume s: "world_ok (world_of s)" "P' (world_of s)"
  then have "wp m (\<lambda>x s'. step_of dc s s' \<and> Q x (world_of s')) (\<lambda>e. step_of dc s) (step_of dc s) s"
    using assms(1,2) unfolding ensures_def by blast
  then show "wp m (\<lambda>x s'. step_of dc s s' \<and> Q' x (world_of s')) (\<lambda>e. step_of dc s) (step_of dc s) s"
    by (rule wp_mono) (use s assms(3) world_step_ok [of dc "world_of s"] in \<open>auto simp: step_of_def\<close>)
qed

lemma ensures_then:
  "stays dc P \<Longrightarrow> ensures dc P m Q \<Longrightarrow> (\<And>x. ensures dc (\<lambda>w. P w \<and> Q x w) (k x) R) \<Longrightarrow>
   ensures dc P (as_then m k) R"
  unfolding as_then_is_try by (rule ensures_try) (auto intro: ensures_throw)

lemma ensures_catch:
  "stays dc P \<Longrightarrow> ensures dc P m Q \<Longrightarrow> (\<And>e. ensures dc P (h e) Q) \<Longrightarrow> ensures dc P (as_catch m h) Q"
  unfolding as_catch_is_try by (rule ensures_try [where Q = Q]) (auto intro: ensures_return)

lemma ensures_finally:
  assumes m: "ensures dc P m Q" and f: "\<And>s. world_ok (world_of s) \<Longrightarrow> step_of dc s (f s)" and Q: "\<And>x. stays dc (Q x)"
  shows "ensures dc P (as_finally m f) Q"
  unfolding ensures_def
proof (intro allI impI)
  fix s :: "'a durable_world run"
  assume s: "world_ok (world_of s)" "P (world_of s)"
  have later: "step_of dc s (f s')" "Q x (world_of s') \<Longrightarrow> Q x (world_of (f s'))" if "step_of dc s s'" for x s'
    using f [of s'] that s Q world_step_ok [of dc "world_of s" "world_of s'"]
    unfolding step_of_def stays_def by (blast intro: world_step_trans)+
  from m s have "wp m (\<lambda>x s'. step_of dc s s' \<and> Q x (world_of s')) (\<lambda>e. step_of dc s) (step_of dc s) s"
    unfolding ensures_def by blast
  then show "wp (as_finally m f) (\<lambda>x s'. step_of dc s s' \<and> Q x (world_of s')) (\<lambda>e. step_of dc s) (step_of dc s) s"
    unfolding wp_finally by (rule wp_mono) (use later in auto)
qed

lemma ensures_process_now: "stays dc P \<Longrightarrow> ensures dc P (process_now de) (\<lambda>_. P)"
  by (simp add: ensures_def process_now_def step_of_def)

text \<open>The environments of this section: whatever others do is a step.\<close>

definition relies :: "durable_config \<Rightarrow> 'y durable_world exec_env \<Rightarrow> bool" where
  "relies dc env \<longleftrightarrow> (\<forall>n sh. world_step dc (sh_consumer sh) (sh_consumer (xv_others env n sh)))"

lemma interleave_step: "relies dc env \<Longrightarrow> step_of dc s (interleave env s)"
  by (simp add: relies_def step_of_def) (simp add: world_of_def)

lemma ensures_pause: "relies dc env \<Longrightarrow> stays dc P \<Longrightarrow> ensures dc P (pause env) (\<lambda>_. P)"
  using interleave_step [of dc env] by (auto simp: ensures_def pause_def step_of_def stays_def simp del: world_of_simps)

lemma ensures_heartbeat: "relies dc env \<Longrightarrow> ensures dc P (await_heartbeat de env) (\<lambda>_ w. True)"
  using interleave_step [of dc env] by (auto simp: ensures_def await_heartbeat_def Let_def)

lemma ensures_transaction:
  assumes env: "relies dc env" and P: "stays dc P" and Q: "\<And>x. stays dc (Q x)"
    and f: "\<And>clock w x db. world_ok w \<Longrightarrow> P w \<Longrightarrow> f clock (dw_db w) = Inr (x, db) \<Longrightarrow>
      (\<exists>es. db_run dc (dw_db w) es db) \<and> Q x (w\<lparr>dw_db := db\<rparr>)"
  shows "ensures dc P (transaction de env f) Q"
  unfolding ensures_def
proof (intro allI impI)
  fix s :: "'a durable_world run"
  assume s: "world_ok (world_of s)" "P (world_of s)"
  define s1 where "s1 = interleave env s"
  have s1: "step_of dc s s1" "world_ok (world_of s1)" "P (world_of s1)"
    using interleave_step [OF env, of s] s P world_step_ok unfolding s1_def step_of_def stays_def by blast+
  have aborted: "step_of dc s (interleave env s1)"
    using s1(1) interleave_step [OF env, of s1] unfolding step_of_def by (rule world_step_trans)
  have committed: "step_of dc s (interleave env s2) \<and> Q x (world_of (interleave env s2))"
    if "f clock (dw_db (world_of s1)) = Inr (x, db)" and "s2 = with_world ((world_of s1)\<lparr>dw_db := db\<rparr>) s1" for clock x db s2
  proof -
    from f [OF s1(2,3) that(1)] database_step [OF _ s1(2)]
    have w: "world_step dc (world_of s1) (world_of s2)" "world_ok (world_of s2)" "Q x (world_of s2)"
      using that(2) by auto
    with Q interleave_step [OF env, of s2] s1(1) show ?thesis
      unfolding step_of_def stays_def by (blast intro: world_step_trans)
  qed
  show "wp (transaction de env f) (\<lambda>x s'. step_of dc s s' \<and> Q x (world_of s')) (\<lambda>e. step_of dc s) (step_of dc s) s"
    unfolding wp_def transaction_def Let_def s1_def [symmetric]
    using aborted committed by (auto split: sum.split prod.split)
qed

section \<open>The parts of the coordinator\<close>

definition acquired_ok :: "execution_request \<Rightarrow> acquired \<Rightarrow> 'y durable_world \<Rightarrow> bool" where
  "acquired_ok q a w = (case a of
     Dur_owner \<Rightarrow> claimed_by (xq_idempotencyKey q) (xq_executionId q) w
   | Dur_conflict \<Rightarrow> True
   | Dur_duplicate r \<Rightarrow> \<exists>r0. told (xq_idempotencyKey q) r0 w \<and> r = deduplicated r0
   | Dur_in_progress r \<Rightarrow> xr_status r = X_OUTCOME_UNKNOWN \<and> xr_deduplicated r)"

lemma run_one: "db_step dc e db db' \<Longrightarrow> \<exists>es. db_run dc db es db'"
  using db_run_Cons db_run_Nil by blast

lemma ensures_acquire:
  assumes "relies dc env"
  shows "ensures dc (\<lambda>w. True) (transaction de env (\<lambda>clock. acquire_transaction dc clock q b)) (acquired_ok q)"
proof (rule ensures_transaction [OF assms])
  show "stays dc (acquired_ok q a)" for a
    by (cases a) (auto simp: acquired_ok_def stays_def intro: told_stays claimed_stays)
  fix clock w a db
  assume w: "world_ok (w :: 'a durable_world)" and a: "acquire_transaction dc clock q b (dw_db w) = Inr (a, db)"
  from acquire_refines [OF a] w have "acquired_ok q a (w\<lparr>dw_db := db\<rparr>)"
    by (cases a) (auto simp: world_ok_def acquired_ok_def claimed_by_ledger told_def outcome_of_entry
        simp flip: ledger_outcome split: if_splits)
  with run_one [OF db_step.acquire [OF a]]
  show "(\<exists>es. db_run dc (dw_db w) es db) \<and> acquired_ok q a (w\<lparr>dw_db := db\<rparr>)" by simp
qed simp

lemma ensures_read_result:
  assumes "relies dc env"
  shows "ensures dc (claimed_by k x) (read_result de env x) (\<lambda>r w. r = None \<or> told k (the r) w)"
  unfolding ensures_def
proof (intro allI impI)
  fix s :: "'a durable_world run"
  assume s: "world_ok (world_of s)" "claimed_by k x (world_of s)"
  define s1 where "s1 = interleave env s"
  have s1: "step_of dc s s1" "world_ok (world_of s1)" "claimed_by k x (world_of s1)"
    using interleave_step [OF assms, of s] s world_step_ok claimed_stays unfolding s1_def step_of_def by blast+
  then have stored: "told k r (world_of s1)" if "getResult (dw_db (world_of s1)) x = Some r" for r
    using that by (fastforce simp: told_def claimed_by_def getResult_def world_ok_def db_linked_def key_linked_def)
  have "step_of dc s1 (interleave env s1)" by (rule interleave_step [OF assms])
  with s1 stored have "step_of dc s (interleave env s1) \<and>
      (getResult (dw_db (world_of s1)) x = None \<or> told k (the (getResult (dw_db (world_of s1)) x)) (world_of (interleave env s1)))"
    unfolding step_of_def by (auto intro: world_step_trans told_stays simp del: world_of_simps)
  with s1 show "wp (read_result de env x) (\<lambda>r s'. step_of dc s s' \<and> (r = None \<or> told k (the r) (world_of s')))
      (\<lambda>e. step_of dc s) (step_of dc s) s"
    by (simp add: wp_def read_result_def Let_def flip: s1_def)
qed

lemma ensures_reread:
  assumes "relies dc env"
  shows "ensures dc (claimed_by k x) (as_try (read_result de env x) (\<lambda>_. as_throw e)
    (\<lambda>stored. case stored of Some r \<Rightarrow> as_return r | None \<Rightarrow> as_throw e)) (told k)"
  by (rule ensures_try [OF stays_rules(3) ensures_read_result [OF assms]])
    (auto intro: ensures_return ensures_throw split: option.split)

lemma ensures_finalize:
  assumes "relies dc env"
  shows "ensures dc (claimed_by (xq_idempotencyKey q) (xq_executionId q)) (finalize_owner dc de env q owner)
    (told (xq_idempotencyKey q))"
proof -
  have commit: "(\<exists>es. db_run dc (dw_db w) es db) \<and> told (xq_idempotencyKey q) (fst stored) (w\<lparr>dw_db := db\<rparr>)"
    if "world_ok w" and f: "finalize_transaction dc clock t q owner (dw_db w) = Inr (stored, db)"
    for clock t stored db and w :: "'a durable_world"
    using run_one [OF db_step.finalize [OF f]] finalize_effect [OF f] by (auto simp: told_def claims_end_def)
  show ?thesis
    unfolding finalize_owner_def
    by (rule ensures_then [OF stays_rules(3) ensures_process_now [OF stays_rules(3)]],
        rule ensures_try [where Q = "\<lambda>stored. told (xq_idempotencyKey q) (fst stored)"])
      (auto intro!: stays_conj ensures_transaction [OF assms] commit ensures_return
        ensures_weaken [OF ensures_reread [OF assms]])
qed

lemma ensures_runOwner:
  assumes env: "relies dc env" and owner: "ensures dc (\<lambda>_. True) owner (\<lambda>_ _. True)"
  shows "ensures dc (claimed_by (xq_idempotencyKey q) (xq_executionId q)) (runOwner dc de env q owner)
    (told (xq_idempotencyKey q))"
proof -
  let ?C = "claimed_by (xq_idempotencyKey q) (xq_executionId q)"
  have C: "stays dc (\<lambda>w. ?C w \<and> True)" "ensures dc ?C owner (\<lambda>_ _. True)"
    by (auto intro: ensures_weaken [OF owner] stays_conj)
  have now: "ensures dc P (process_now de) (\<lambda>_ _. True)" if "stays dc P" for P
    by (rule ensures_weaken [OF ensures_process_now [OF that]]) auto
  have "ensures dc ?C (as_catch owner (\<lambda>_. as_then (process_now de) (\<lambda>t. as_return (failed_owner q t)))) (\<lambda>_ _. True)"
    by (rule ensures_catch [OF _ C(2)]) (auto intro!: ensures_then [OF _ now] ensures_return)
  then show ?thesis
    unfolding runOwner_def
    by (rule ensures_then [OF stays_rules(3)], intro ensures_then [OF _ ensures_heartbeat [OF env]]
        ensures_then [OF _ now] ensures_weaken [OF ensures_finalize [OF env]])
      (auto intro!: stays_conj)
qed

text \<open>Promises are settled with what is stored.\<close>

lemma settle_step:
  assumes "world_ok (world_of s)" "\<And>r. v = Inr r \<Longrightarrow> told k r (world_of s)"
  shows "step_of dc s (settle_promise k p v s)"
    "told k r (world_of (settle_promise k p v s)) = told k r (world_of s)"
proof -
  show "told k r (world_of (settle_promise k p v s)) = told k r (world_of s)"
    by (simp add: settle_promise_def Let_def told_def)
  have "world_ok (world_of (settle_promise k p v s))"
    using assms by (auto simp: settle_promise_def Let_def world_ok_def told_def)
  then show "step_of dc s (settle_promise k p v s)"
    by (auto simp: step_of_def world_step_def settle_promise_def Let_def intro: db_run_Nil)
qed

lemma ensures_promised:
  assumes "ensures dc P m (told k)"
  shows "ensures dc P (promised k p m) (told k)"
  unfolding ensures_def
proof (intro allI impI)
  fix s :: "'a durable_world run"
  assume s: "world_ok (world_of s)" "P (world_of s)"
  with assms have run: "wp m (\<lambda>r s'. step_of dc s s' \<and> told k r (world_of s')) (\<lambda>e. step_of dc s) (step_of dc s) s"
    unfolding ensures_def by blast
  have settle: "step_of dc s (settle_promise k p v s') \<and> (\<forall>r. v = Inr r \<longrightarrow> told k r (world_of (settle_promise k p v s')))"
    if "step_of dc s s'" "\<And>r. v = Inr r \<Longrightarrow> told k r (world_of s')" for v s'
    using that s(1) settle_step [of s' v k] world_step_ok [of dc "world_of s" "world_of s'"]
    unfolding step_of_def by (auto intro: world_step_trans)
  show "wp (promised k p m) (\<lambda>r s'. step_of dc s s' \<and> told k r (world_of s')) (\<lambda>e. step_of dc s) (step_of dc s) s"
    using run settle by (auto simp: wp_def promised_def split: prod.splits settled.splits)
qed

lemma start_flight_step: "ensures dc P (start_flight q b) (\<lambda>_ _. True)"
  by (auto simp: ensures_def start_flight_def Let_def step_of_def world_step_def world_ok_def told_def
      intro: db_run_Nil)

lemma end_flight_step: "step_of dc s (end_flight k p s)"
  by (auto simp: end_flight_def Let_def step_of_def world_step_def world_ok_def told_def intro: db_run_Nil)

lemma ensures_own_flight:
  assumes env: "relies dc env" and owner: "ensures dc (\<lambda>_. True) owner (\<lambda>_ _. True)"
  shows "ensures dc (claimed_by (xq_idempotencyKey q) (xq_executionId q)) (own_flight dc de env q b owner)
    (told (xq_idempotencyKey q))"
  unfolding own_flight_def
proof (rule ensures_then [OF stays_rules(3) start_flight_step], rule ensures_finally)
  show "ensures dc (\<lambda>w. claimed_by (xq_idempotencyKey q) (xq_executionId q) w \<and> True)
      (promised (xq_idempotencyKey q) p (runOwner dc de env q owner)) (told (xq_idempotencyKey q))" for p
    by (rule ensures_weaken [OF ensures_promised [OF ensures_runOwner [OF env owner]]]) auto
  show "step_of dc s (end_flight k p (interleave env s))" for s k p
    using interleave_step [OF env, of s] end_flight_step [of dc "interleave env s"]
    unfolding step_of_def by (rule world_step_trans)
qed simp

lemma ensures_await_flight:
  assumes "relies dc env"
  shows "ensures dc P (await_flight env k p) (told k)"
  unfolding ensures_def
proof (intro allI impI)
  fix s :: "'a durable_world run"
  assume "world_ok (world_of s)"
  with interleave_step [OF assms, of s] have "step_of dc s (interleave env s)" "world_ok (world_of (interleave env s))"
    unfolding step_of_def by (blast dest: world_step_ok)+
  then show "wp (await_flight env k p) (\<lambda>r s'. step_of dc s s' \<and> told k r (world_of s')) (\<lambda>e. step_of dc s) (step_of dc s) s"
    by (auto simp: wp_def await_flight_def Let_def world_ok_def simp del: world_of_simps split: option.split sum.split)
qed

lemma ensures_audit:
  assumes "relies dc env" "stays dc P"
  shows "ensures dc P (auditDeduplication dc de env q x md) (\<lambda>_ _. True)"
  unfolding auditDeduplication_def
  by (rule ensures_transaction [OF assms]) (auto intro: run_one db_step.audit)

section \<open>What is answered\<close>

text \<open>A conflict, the unknown outcome of an execution in progress, or what is stored for the key.\<close>

definition sound_answer :: "string \<Rightarrow> execution_result \<Rightarrow> 'y durable_world \<Rightarrow> bool" where
  "sound_answer k r w \<longleftrightarrow>
     xr_status r = X_REJECTED \<and> xr_error r = Some (safeExecutionError EE_IDEMPOTENCY_CONFLICT False) \<or>
     xr_status r = X_OUTCOME_UNKNOWN \<and> xr_deduplicated r \<or>
     (\<exists>r0. told k r0 w \<and> (r = r0 \<or> r = deduplicated r0))"

lemma sound_answer_stays: "stays dc (sound_answer k r)"
  by (auto simp: sound_answer_def stays_def intro: told_stays)

lemma ensures_conflicting: "stays dc P \<Longrightarrow> ensures dc P (answer_conflicting de q) (sound_answer k)"
  unfolding answer_conflicting_def
  by (rule ensures_then [OF _ ensures_process_now])
    (auto intro!: ensures_return simp: sound_answer_def conflictResult_def error_result_def)

lemma ensures_join:
  assumes "relies dc env"
  shows "ensures dc (\<lambda>_. True) (join_flight dc de env q b f) (sound_answer (xq_idempotencyKey q))"
proof (cases "lf_fingerprint f \<noteq> xq_actionFingerprint q \<or> lf_requestBinding f \<noteq> b")
  case False
  have "ensures dc (\<lambda>w. told (xq_idempotencyKey q) r w)
      (as_then (auditDeduplication dc de env q (xr_executionId r) md) (\<lambda>_. as_return (deduplicated r)))
      (sound_answer (xq_idempotencyKey q))" for r md
    by (rule ensures_then [OF _ ensures_audit [OF assms]]) (auto intro!: ensures_return simp: sound_answer_def)
  with False show ?thesis
    unfolding join_flight_def
    by (auto intro!: ensures_then [OF _ ensures_await_flight [OF assms]] intro: ensures_weaken)
qed (simp add: join_flight_def ensures_conflicting)

lemma ensures_durable_execute:
  assumes env: "relies dc env" and owner: "ensures dc (\<lambda>_. True) owner (\<lambda>_ _. True)"
  shows "ensures dc (\<lambda>_. True) (durable_execute dc de env q b owner) (sound_answer (xq_idempotencyKey q))"
  unfolding durable_execute_def
proof (rule ensures_finally)
  let ?k = "xq_idempotencyKey q"
  have answer: "ensures dc (\<lambda>w. acquired_ok q a w) (case a of
      Dur_conflict \<Rightarrow> answer_conflicting de q | Dur_duplicate r \<Rightarrow> as_return r | Dur_in_progress r \<Rightarrow> as_return r
    | Dur_owner \<Rightarrow> own_flight dc de env q b owner) (sound_answer ?k)" for a
  proof (cases a)
    case Dur_owner
    then show ?thesis
      by (auto simp: acquired_ok_def sound_answer_def intro!: ensures_weaken [OF ensures_own_flight [OF env owner]])
  qed (auto simp: acquired_ok_def sound_answer_def intro!: ensures_return ensures_conflicting)
  have acquire: "ensures dc (\<lambda>_. True) (as_then (transaction de env (\<lambda>clock. acquire_transaction dc clock q b)) (\<lambda>a.
      case a of Dur_conflict \<Rightarrow> answer_conflicting de q | Dur_duplicate r \<Rightarrow> as_return r
      | Dur_in_progress r \<Rightarrow> as_return r | Dur_owner \<Rightarrow> own_flight dc de env q b owner)) (sound_answer ?k)"
    by (rule ensures_then [OF _ ensures_acquire [OF env]]) (auto intro: ensures_weaken [OF answer])
  have local: "ensures dc (\<lambda>_. True) (as_get g) (\<lambda>_ _. True)" for g
    by (simp add: ensures_def step_of_def)
  show "ensures dc (\<lambda>_. True) (as_then (pause env) (\<lambda>_.
       as_then (as_get (\<lambda>s. dw_inflight (world_of s) ?k)) (\<lambda>local.
       case local of
         Some f \<Rightarrow> join_flight dc de env q b f
       | None \<Rightarrow> as_then (transaction de env (\<lambda>clock. acquire_transaction dc clock q b)) (\<lambda>acquired.
           case acquired of
             Dur_conflict \<Rightarrow> answer_conflicting de q
           | Dur_duplicate r \<Rightarrow> as_return r
           | Dur_in_progress r \<Rightarrow> as_return r
           | Dur_owner \<Rightarrow> own_flight dc de env q b owner)))) (sound_answer ?k)"
    by (rule ensures_then [OF _ ensures_pause [OF env]], simp_all, rule ensures_then [OF _ local])
      (auto intro: acquire ensures_join [OF env] split: option.split)
qed (auto intro: interleave_step [OF env] sound_answer_stays)

section \<open>The executor over the coordinator\<close>

definition world_relies :: "durable_config \<Rightarrow> 'y durable_world shared \<Rightarrow> 'y durable_world shared \<Rightarrow> bool" where
  "world_relies dc sh sh' \<longleftrightarrow> world_step dc (sh_consumer sh) (sh_consumer sh')"

lemma rest_step: "world_step dc w (w\<lparr>dw_rest := y\<rparr>)"
  by (auto simp: world_step_def world_ok_def told_def intro: db_run_Nil)

interpretation steps: executor_invariant "durably dc de env' consumer cfg" "relying (world_relies dc) env"
  "step_of dc s0" for dc de env' consumer cfg env s0
proof unfold_locales
  fix s
  show "step_of dc s0 s \<Longrightarrow> step_of dc s0 (interleave (relying (world_relies dc) env) s)"
    using relying_others [of "world_relies dc" env "rn_tick s" "rn_shared s"]
    by (auto simp: step_of_def world_relies_def world_of_def interleave_def intro: world_step_trans)
  show "step_of dc s0 s \<Longrightarrow> xc_consumer (durably dc de env' consumer cfg) n c (sh_consumer (rn_shared s)) = (Inl e, z) \<Longrightarrow>
      step_of dc s0 (set_consumer z s)" for n c e z
    by (auto simp: durably_def resting_def step_of_def world_of_def set_defs intro: world_step_trans rest_step split: prod.splits)
  show "step_of dc s0 s \<Longrightarrow> xc_consumer (durably dc de env' consumer cfg) n c (sh_consumer (rn_shared s)) = (Inr (), z) \<Longrightarrow>
      step_of dc s0 (log_step (Authorization_consumed c) (set_consumer z s))" for n c z
    by (auto simp: durably_def resting_def step_of_def world_of_def set_defs intro: world_step_trans rest_step split: prod.splits)
qed (auto simp: step_of_def world_of_def set_defs)

lemma relies_relying: "relies dc env \<Longrightarrow> relying (world_relies dc) env = env"
  by (rule relying_eq) (simp add: relies_def world_relies_def)

lemma ensures_durable_owner:
  assumes "relies dc env"
  shows "ensures dc (\<lambda>_. True) (durable_owner (durably dc de env' consumer cfg) env q) (\<lambda>_ _. True)"
proof -
  have "step_of dc s (snd (durable_owner (durably dc de env' consumer cfg) env q s))" for s
    using steps.keepsD [OF steps.keeps_durable_owner, of dc s s de env' consumer cfg env q]
    unfolding relies_relying [OF assms] by (simp add: step_of_def)
  then show ?thesis by (simp add: ensures_def wp_any)
qed

text \<open>
  C40. A durable execution answers what is stored: over any commits of other processes, lost and
  unseen commits, lost leases and local duplicates, what \<open>execute\<close> answers to a valid request is a
  conflict, the unknown outcome of an execution in progress elsewhere, or the one outcome that the
  tables hold for its key; and all this execution does to the tables is a history of transactions.
\<close>

theorem durable_execution_answers_what_is_stored:
  assumes "relies dc env" "world_ok (world_of s)"
    and "validated (xc_sha cfg) (xc_clone cfg) (xc_registry cfg) (sh_policy (rn_shared s)) (Some q) = Inr (q, d, b)"
    and "execute (durably dc de env consumer cfg) env (Some q) s = (Returns r, s')"
  shows "sound_answer (xq_idempotencyKey q) r (world_of s') \<and> world_step dc (world_of s) (world_of s')"
proof -
  let ?cfg = "durably dc de env consumer cfg"
  have forget [simp]: "world_of (forget_execution q' b' s'') = world_of s''" for q' b' s''
    by (simp add: forget_execution_def world_of_def)
  have "ensures dc (\<lambda>_. True) (durable_execute dc de env q b (durable_owner ?cfg env q)) (sound_answer (xq_idempotencyKey q))"
    by (rule ensures_durable_execute [OF assms(1) ensures_durable_owner [OF assms(1)]])
  moreover have "step_of dc s'' (forget_execution q b s'')" for s'' by (simp add: step_of_def)
  ultimately have "ensures dc (\<lambda>_. True)
      (as_finally (durable_execute dc de env q b (durable_owner ?cfg env q)) (forget_execution q b))
      (sound_answer (xq_idempotencyKey q))"
    by (rule ensures_finally) (rule sound_answer_stays)
  then have run: "wp (as_finally (durable_execute dc de env q b (durable_owner ?cfg env q)) (forget_execution q b))
      (\<lambda>r s'. step_of dc (tick s) s' \<and> sound_answer (xq_idempotencyKey q) r (world_of s'))
      (\<lambda>e. step_of dc (tick s)) (step_of dc (tick s)) (tick s)"
    using assms(2) unfolding ensures_def by simp
  obtain ts where "execute ?cfg env (Some q) s =
      as_finally (durable_execute dc de env q b (durable_owner ?cfg env q)) (forget_execution q b) (tick s)"
  proof (cases "toUtcTimestamp (Epoch_int (xv_clock env (rn_tick s)))")
    case (Inl e)
    with assms(4) show thesis by (simp add: execute_def durably_def with_validated_def as_then_def now_utc_def)
  next
    case (Inr ts)
    with assms(3) that show thesis
      by (simp add: execute_def with_validated_def as_then_def now_utc_def as_get_def durably_def tick_def)
  qed
  with wp_returns [OF run] assms(4) show ?thesis by (simp add: step_of_def)
qed

text \<open>
  Every call that goes through a coordinator ends without a record of its execution in the
  process, also the call that was only answered a conflict or a duplicate while another call of
  the same execution is still running and needs that record.
\<close>

lemma durable_call_forgets_record:
  assumes "xc_coordinator cfg = Some coordinator"
    and "validated (xc_sha cfg) (xc_clone cfg) (xc_registry cfg) (sh_policy (rn_shared s)) (Some q) = Inr (q, d, b)"
    and "execute cfg env (Some q) s = (Returns r, s')"
  shows "sh_records (rn_shared s') (xq_executionId q) = None"
  using assms
  by (auto simp: execute_def with_validated_def as_then_def as_get_def now_utc_def tick_def as_finally_def
      forget_execution_def records_delete_def split: sum.splits prod.splits settled.splits)

section \<open>Nothing runs for a key that is taken\<close>

lemma taken_not_owner:
  assumes "world_ok w" "claimed_by (xq_idempotencyKey q) x w"
    and "acquire_transaction dc clock q b (dw_db w) = Inr (a, db)"
  shows "a \<noteq> Dur_owner"
  using acquire_refines [OF assms(3)] assms(1,2) by (auto simp: world_ok_def claimed_by_ledger)

lemma transaction_value:
  "transaction de env f s = (Returns x, s') \<Longrightarrow>
   \<exists>clock db. f clock (dw_db (world_of (interleave env s))) = Inr (x, db)"
  unfolding transaction_def Let_def
  by (cases "f (de_clock de (rn_tick (interleave env s))) (dw_db (world_of (interleave env s)))")
    (auto simp del: world_of_simps split: if_splits intro!: exI [of _ "de_clock de (rn_tick (interleave env s))"])

lemma as_finally_cong: "m s = m' s \<Longrightarrow> as_finally m f s = as_finally m' f s"
  by (simp add: as_finally_def)

lemma as_then_pause: "as_then (pause env) k s = k () (interleave env s)"
  by (simp add: as_then_def pause_def as_update_def)

lemma as_then_get: "as_then (as_get f) k s = k (f s) s"
  by (simp add: as_then_def as_get_def)

text \<open>What the owner would do does not matter.\<close>

lemma taken_ignores_owner:
  assumes env: "relies dc env" and s: "world_ok (world_of s)" "claimed_by (xq_idempotencyKey q) x (world_of s)"
  shows "durable_execute dc de env q b owner s = durable_execute dc de env q b owner' s"
proof -
  have later: "world_ok (world_of (interleave env s'))" "claimed_by (xq_idempotencyKey q) x (world_of (interleave env s'))"
    if "world_ok (world_of s')" "claimed_by (xq_idempotencyKey q) x (world_of s')" for s'
    using interleave_step [OF env, of s'] that unfolding step_of_def by (blast dest: world_step_ok intro: claimed_stays)+
  let ?T = "transaction de env (\<lambda>clock. acquire_transaction dc clock q b)"
  have "a \<noteq> Dur_owner" if "?T (interleave env s) = (Returns a, s')" for a s'
    using transaction_value [OF that] taken_not_owner [OF later [OF later [OF s]]] by blast
  then have "as_then ?T (case_acquired (own_flight dc de env q b owner) c d i) (interleave env s) =
      as_then ?T (case_acquired (own_flight dc de env q b owner') c d i) (interleave env s)" for c d i
    unfolding as_then_def
    by (cases "?T (interleave env s)") (auto split: settled.split acquired.split)
  then show ?thesis
    unfolding durable_execute_def
    by (intro as_finally_cong) (simp add: as_then_pause as_then_get split: option.split)
qed

definition logless :: "('z, 'a) exec \<Rightarrow> bool" where
  "logless m \<longleftrightarrow> (\<forall>s. rn_log (snd (m s)) = rn_log s)"

named_theorems logless_rules "code that adds nothing to the log"

lemma logless_control [logless_rules]:
  "logless (as_return x)" "logless (as_throw e)" "logless (as_get f)"
  by (simp_all add: logless_def as_return_def as_throw_def as_get_def)

lemma logless_try [logless_rules]:
  "logless m \<Longrightarrow> (\<And>e. logless (h e)) \<Longrightarrow> (\<And>x. logless (k x)) \<Longrightarrow> logless (as_try m h k)"
  unfolding logless_def as_try_def by (auto split: prod.split settled.split) (metis snd_conv)+

lemma logless_then [logless_rules]: "logless m \<Longrightarrow> (\<And>x. logless (k x)) \<Longrightarrow> logless (as_then m k)"
  unfolding as_then_is_try by (intro logless_rules)

lemma logless_catch [logless_rules]: "logless m \<Longrightarrow> (\<And>e. logless (h e)) \<Longrightarrow> logless (as_catch m h)"
  unfolding as_catch_is_try by (intro logless_rules)

lemma logless_finally: "logless m \<Longrightarrow> (\<And>s. rn_log (f s) = rn_log s) \<Longrightarrow> logless (as_finally m f)"
  unfolding logless_def as_finally_def by (auto split: prod.split settled.split) (metis snd_conv)+

lemma rn_log_with_world [simp]: "rn_log (with_world w s) = rn_log s"
  by (simp add: with_world_def)

lemma logless_parts [logless_rules]:
  "logless (pause env)" "logless (process_now de)" "logless (await_heartbeat de env)" "logless (start_flight q b)"
  "logless (transaction de env f)" "logless (read_result de env x)" "logless (await_flight env k p)"
  by (simp_all add: logless_def pause_def process_now_def await_heartbeat_def start_flight_def as_update_def
      transaction_def read_result_def await_flight_def Let_def split: sum.split option.split)

lemma logless_promised [logless_rules]: "logless m \<Longrightarrow> logless (promised k p m)"
  unfolding logless_def promised_def settle_promise_def Let_def
  by (auto split: prod.split settled.split) (metis snd_conv)+

lemma logless_cases [logless_rules]:
  "logless m \<Longrightarrow> (\<And>x. logless (f x)) \<Longrightarrow> logless (case v of None \<Rightarrow> m | Some x \<Rightarrow> f x)"
  "logless m \<Longrightarrow> logless n \<Longrightarrow> logless (if c then m else n)"
  "logless o1 \<Longrightarrow> logless c1 \<Longrightarrow> (\<And>x. logless (d x)) \<Longrightarrow> (\<And>x. logless (i x)) \<Longrightarrow> logless (case_acquired o1 c1 d i a)"
  by (simp_all split: option.split acquired.split)

lemma logless_durable: "logless owner \<Longrightarrow> logless (durable_execute dc de env q b owner)"
  unfolding durable_execute_def own_flight_def join_flight_def answer_conflicting_def
    auditDeduplication_def runOwner_def finalize_owner_def
  by (intro logless_rules logless_finally) (simp_all add: end_flight_def Let_def)

text \<open>
  C5. Nothing runs for a key that is taken: once any process has claimed the idempotency key of a
  request, no execution of it anywhere consumes a decision or an authorization, calls the tool,
  reconciles, or emits an event, whatever else happens in the meantime.
\<close>

theorem taken_key_runs_nothing:
  assumes "relies dc env" "world_ok (world_of s)" "claimed_by (xq_idempotencyKey q) x (world_of s)"
  shows "rn_log (snd (execute (durably dc de env consumer cfg) env (Some q) s)) = rn_log s"
proof -
  have run: "rn_log (snd (as_finally (durable_execute dc de env q b owner) (forget_execution q b) (tick s))) = rn_log s" for b owner
  proof -
    have "logless (as_finally (durable_execute dc de env q b (as_throw database_error)) (forget_execution q b))"
      by (intro logless_finally logless_durable logless_rules) (simp add: forget_execution_def)
    moreover have "as_finally (durable_execute dc de env q b owner) f (tick s) =
        as_finally (durable_execute dc de env q b (as_throw database_error)) f (tick s)" for f
      using taken_ignores_owner [OF assms(1), of "tick s" q x de b owner "as_throw database_error"] assms(2,3)
      by (simp add: as_finally_def)
    ultimately show ?thesis by (simp add: logless_def)
  qed
  show ?thesis
    using run validated_Inr(1)
    by (auto simp: execute_def durably_def with_validated_def as_then_def as_get_def now_utc_def as_return_def
        split: sum.split prod.split dest!: validated_Inr(1))
qed

end
