(* ===== verification/DurableExamples.thy ===== *)
theory DurableExamples
  imports DurableAnswers ExecutorExamples
begin

text \<open>
  The durable guarantees at the charging slot: one process acquires the key and stores a result,
  another that asks for it meanwhile is told that it is in progress, and after that is told the
  stored result.
\<close>

section \<open>A history\<close>

lemma db_run_snoc: "db_run cfg db es mid \<Longrightarrow> db_run cfg mid fs db' \<Longrightarrow> db_run cfg db (es @ fs) db'"
  by auto

definition plain_durable :: durable_config where
  "plain_durable = \<lparr>dc_ownerLeaseMs = 30000, dc_requireSessionLease = False, dc_uuid = (\<lambda>_. ''uuid'')\<rparr>"

definition other_execution :: execution_request where
  "other_execution = slot_execution\<lparr>xq_executionId := ''exe-2''\<rparr>"

lemma other_execution_fields [simp]:
  "xq_executionId other_execution = ''exe-2''" "xq_actionFingerprint other_execution = some_hash"
  "xq_idempotencyKey other_execution = ''key-1''" "xq_sessionId other_execution = xq_sessionId slot_execution"
  "xq_userId other_execution = xq_userId slot_execution" "xq_vehicleId other_execution = xq_vehicleId slot_execution"
  by (simp_all add: other_execution_def)

definition slot_owner :: owner_result where
  "slot_owner = failed_owner slot_execution 2500"

lemma slot_owner_result: "fst slot_owner =
  error_result slot_execution X_FAILED 0 False 2500 2500 EE_INTERNAL_EXECUTION_ERROR"
  by (simp add: slot_owner_def failed_owner_def)

lemma safe_decision: "safe_metadata (J_obj
  [(''decision'', J_str (decision_text (po_decision slot_decision))), (''ruleId'', J_str (po_ruleId slot_decision))])"
proof -
  have "\<not> list_ex (found_in ''decision'') forbiddenMetadataKey" "\<not> list_ex (found_in ''ruleId'') forbiddenMetadataKey"
    by (rule none_found, code_simp, simp add: pattern_defs)+
  moreover have "\<not> list_ex (found_in (decision_text (po_decision slot_decision))) sensitive_text"
    "\<not> list_ex (found_in (po_ruleId slot_decision)) sensitive_text"
    by (simp add: slot_decision_def, rule none_found, code_simp, simp add: pattern_defs)+
  ultimately show ?thesis unfolding safe_object by simp
qed

lemma safe_original:
  "safe_metadata (J_obj [(''originalExecutionId'', J_str ''exe-1'')])"
  "safe_metadata (J_obj [(''originalExecutionId'', J_str ''exe-1''), (''inProgress'', J_bool True)])"
proof -
  have "\<not> list_ex (found_in ''originalExecutionId'') forbiddenMetadataKey" by code_simp
  moreover have "\<not> list_ex (found_in ''inProgress'') forbiddenMetadataKey"
    by (rule none_found, code_simp, simp add: pattern_defs)
  moreover have "\<not> list_ex (found_in ''exe-1'') sensitive_text"
    by (rule none_found, code_simp, simp add: pattern_defs)
  ultimately show "safe_metadata (J_obj [(''originalExecutionId'', J_str ''exe-1'')])"
    "safe_metadata (J_obj [(''originalExecutionId'', J_str ''exe-1''), (''inProgress'', J_bool True)])"
    unfolding safe_object by simp_all
qed

text \<open>The tables after the acquisition, and after the finalization.\<close>

definition slot_acquired :: database where
  "slot_acquired = (case acquire_transaction plain_durable (\<lambda>_. 2000) slot_execution some_hash empty_database of
     Inl _ \<Rightarrow> empty_database | Inr (_, db) \<Rightarrow> db)"

definition slot_finalized :: database where
  "slot_finalized = (case finalize_transaction plain_durable (\<lambda>_. 2500) 2500 slot_execution slot_owner slot_acquired of
     Inl _ \<Rightarrow> empty_database | Inr (_, db) \<Rightarrow> db)"

lemma slot_acquire: "acquire_transaction plain_durable (\<lambda>_. 2000) slot_execution some_hash empty_database =
  Inr (Dur_owner, slot_acquired)"
proof -
  have "\<exists>db. acquire_transaction plain_durable (\<lambda>_. 2000) slot_execution some_hash empty_database = Inr (Dur_owner, db)"
    using safe_decision
    by (simp add: acquire_transaction_def plain_durable_def upsert_session_def empty_database_def insert_owner_def
        appendExecutionAudit_def del: safe_metadata.simps) (simp add: safe_object)
  then show ?thesis by (auto simp: slot_acquired_def)
qed

lemma slot_acquired_owns: "db_linked slot_acquired" "owns slot_execution slot_acquired"
proof -
  note acquired = acquire_refines [OF slot_acquire db_linked_empty]
  then show "db_linked slot_acquired" by simp
  then show "owns slot_execution slot_acquired"
    using acquired by (simp add: owns_ledger)
qed

lemma slot_finalize: "finalize_transaction plain_durable (\<lambda>_. 2500) 2500 slot_execution slot_owner slot_acquired =
  Inr (slot_owner, slot_finalized)"
proof -
  from owner_can_store [OF slot_acquired_owns(2), of plain_durable 2500 slot_owner] obtain db where
    "finalize_transaction plain_durable (\<lambda>_. 2500) 2500 slot_execution slot_owner slot_acquired = Inr (slot_owner, db)"
    by (auto simp: finalize_transaction_def plain_durable_def)
  then show ?thesis by (simp add: slot_finalized_def)
qed

lemma slot_first_steps: "db_run plain_durable empty_database
    [Ev_acquired slot_execution some_hash Dur_owner False, Ev_finalized slot_execution slot_owner] slot_finalized"
  using db_step.acquire [OF slot_acquire] db_step.finalize [OF slot_finalize]
  by (auto simp: lease_over_def empty_database_def)

lemma slot_finalized_linked: "db_linked slot_finalized"
  using run_refines [OF slot_first_steps] by simp

text \<open>Another process asks for the finished execution.\<close>

definition slot_key :: idempotency_row where
  "slot_key = the (db_idempotency slot_finalized ''key-1'')"

lemma slot_finalized_key:
  "db_idempotency slot_finalized ''key-1'' = Some slot_key" "ik_result slot_key = Some (fst slot_owner)"
  "ik_fingerprint slot_key = some_hash" "ik_requestBinding slot_key = some_hash"
  "ik_executionId slot_key = ''exe-1''" "ik_status slot_key \<noteq> IS_IN_PROGRESS"
proof -
  have "ledger_of slot_finalized ''key-1'' = Some \<lparr>le_execution = ''exe-1'', le_fingerprint = some_hash,
      le_binding = some_hash, le_outcome = Some (fst slot_owner)\<rparr>"
    using run_refines [OF slot_first_steps] by (simp add: set_outcome_def)
  then obtain key where key: "db_idempotency slot_finalized ''key-1'' = Some key" "ik_result key = Some (fst slot_owner)"
      "ik_fingerprint key = some_hash" "ik_requestBinding key = some_hash" "ik_executionId key = ''exe-1''"
    by (auto simp: ledger_of_key)
  then have "key_linked slot_finalized ''key-1'' key" using slot_finalized_linked by (simp add: db_linked_def)
  with key show "db_idempotency slot_finalized ''key-1'' = Some slot_key" "ik_result slot_key = Some (fst slot_owner)"
    "ik_fingerprint slot_key = some_hash" "ik_requestBinding slot_key = some_hash"
    "ik_executionId slot_key = ''exe-1''" "ik_status slot_key \<noteq> IS_IN_PROGRESS"
    by (simp_all add: slot_key_def key_linked_def)
qed

text \<open>The same with no session left.\<close>

definition slot_stored :: database where
  "slot_stored = slot_finalized\<lparr>db_sessions := Map.empty\<rparr>"

lemma slot_steps: "db_run plain_durable empty_database
    [Ev_acquired slot_execution some_hash Dur_owner False, Ev_finalized slot_execution slot_owner, Ev_sessions] slot_stored"
proof -
  have "db_run plain_durable slot_finalized [Ev_sessions] slot_stored"
    by (simp add: slot_stored_def db_step.sessions)
  from db_run_snoc [OF slot_first_steps this] show ?thesis by (simp only: append.simps)
qed

lemma slot_answer:
  assumes "xq_idempotencyKey q = ''key-1''" "xq_actionFingerprint q = some_hash"
  shows "\<exists>db. acquire_transaction plain_durable clock q some_hash slot_stored =
    Inr (Dur_duplicate (deduplicated (fst slot_owner)), db)"
  using assms slot_finalized_key safe_original(1)
  by (cases "ik_status slot_key")
    (simp_all add: acquire_transaction_def plain_durable_def upsert_session_def answer_existing_def slot_stored_def
      appendExecutionAudit_def Let_def del: safe_metadata.simps)

definition slot_events :: "db_event list" where
  "slot_events =
    [Ev_acquired slot_execution some_hash Dur_owner False, Ev_finalized slot_execution slot_owner, Ev_sessions,
     Ev_acquired other_execution some_hash (Dur_duplicate (deduplicated (fst slot_owner)))
       (lease_over other_execution 40000 slot_stored)]"

lemma slot_events_facts:
  "length slot_events = 4" "length (filter (owner_of_key ''key-1'') slot_events) = 1"
  "Ev_finalized slot_execution slot_owner \<in> set slot_events"
  by (simp_all add: slot_events_def owner_of_key_def)

lemma slot_history: "\<exists>db. db_run plain_durable empty_database slot_events db"
proof -
  from slot_answer [of other_execution "\<lambda>_. 40000"] obtain db where
    "acquire_transaction plain_durable (\<lambda>_. 40000) other_execution some_hash slot_stored =
       Inr (Dur_duplicate (deduplicated (fst slot_owner)), db)" by auto
  from db_step.acquire [OF this] have "db_run plain_durable slot_stored [Ev_acquired other_execution some_hash
      (Dur_duplicate (deduplicated (fst slot_owner))) (lease_over other_execution 40000 slot_stored)] db" by simp
  from db_run_snoc [OF slot_steps this] show ?thesis
    unfolding slot_events_def by (auto simp only: append.simps)
qed

section \<open>Witnesses\<close>

theorem durable_tables_refine_ledger_witness:
  "\<exists>db. ledger_history Map.empty slot_events (ledger_of db) \<and> ledger_of db ''key-1'' \<noteq> None"
proof -
  from slot_history obtain db where run: "db_run plain_durable empty_database slot_events db" by blast
  note history = durable_tables_refine_ledger [OF run]
  from owner_of_key_once [OF history, of "''key-1''", unfolded slot_events_facts(2)]
  have "ledger_of db ''key-1'' \<noteq> None" by (rule contrapos_pn) simp
  with history show ?thesis by (intro exI conjI)
qed

theorem one_owner_one_outcome_witness:
  "\<exists>db. db_run plain_durable empty_database slot_events db \<and>
    Option.bind (db_idempotency db ''key-1'') ik_result = Some (fst slot_owner)"
proof -
  from slot_history obtain db where run: "db_run plain_durable empty_database slot_events db" by blast
  have "ends_key ''key-1'' (Ev_finalized slot_execution slot_owner) = Some (fst slot_owner)"
    by (simp add: ends_key_def)
  with slot_events_facts(3) one_owner_one_outcome [OF run, of "''key-1''" "''exe-1''"] have
    "Option.bind (db_idempotency db ''key-1'') ik_result = Some (fst slot_owner)" by blast
  with run show ?thesis by blast
qed


text \<open>A process that replays the finished execution, in a world that does nothing else.\<close>

definition slot_world :: "action_repository world durable_world" where
  "slot_world = \<lparr>dw_db = slot_stored, dw_inflight = Map.empty, dw_promises = Map.empty, dw_next = 0,
     dw_rest = stored_world slot_ready\<rparr>"

lemma slot_world_ok: "relies plain_durable plain_env" "world_ok slot_world" "claimed_by ''key-1'' ''exe-1'' slot_world"
proof -
  have "db_linked slot_stored" using run_refines [OF slot_steps] by simp
  then show "world_ok slot_world" by (simp add: world_ok_def slot_world_def)
  show "relies plain_durable plain_env" by (simp add: relies_def)
  show "claimed_by ''key-1'' ''exe-1'' slot_world"
    using slot_finalized_key by (simp add: claimed_by_def slot_world_def slot_stored_def)
qed

definition reliable_durable :: durable_env where
  "reliable_durable = \<lparr>de_clock = (\<lambda>_ _. 3000), de_process = (\<lambda>_. 3000), de_fate = (\<lambda>_. Commits),
     de_lease_lost = (\<lambda>_. False), de_readable = (\<lambda>_. True)\<rparr>"

definition slot_base :: "action_repository world durable_world executor" where
  "slot_base = \<lparr>xc_registry = slot_registry, xc_retry = default_retry, xc_has_reconciler = False,
     xc_sha = (\<lambda>_. some_hash), xc_clone = Some, xc_consumer = (\<lambda>n c z. (Inr (), z)), xc_coordinator = None\<rparr>"

abbreviation slot_durable :: "action_repository world durable_world executor" where
  "slot_durable \<equiv> durably plain_durable reliable_durable plain_env
     (service_consumer slot_service slot_env) slot_base"

lemma slot_replayed: "\<exists>s'. execute slot_durable plain_env (Some slot_execution) (starting_with slot_world) =
  (Returns (deduplicated (fst slot_owner)), s')"
proof -
  from slot_answer [of slot_execution "\<lambda>_. 3000"] obtain db where answer:
    "acquire_transaction plain_durable (\<lambda>_. 3000) slot_execution some_hash slot_stored =
      Inr (Dur_duplicate (deduplicated (fst slot_owner)), db)" by auto
  have world: "sh_consumer (rn_shared (starting_with slot_world)) = slot_world"
    "dw_inflight slot_world = Map.empty" "dw_db slot_world = slot_stored"
    by (simp_all add: starting_with_def new_components_def slot_world_def)
  show ?thesis
    by (simp add: execute_def durably_def with_validated_def slot_validated slot_base_def as_then_def now_utc_def
        toUtcTimestamp_def as_get_def as_finally_def durable_execute_def pause_def as_update_def
        world_of_def tick_def world transaction_def Let_def reliable_durable_def answer as_return_def)
qed

theorem durable_execution_answers_what_is_stored_witness:
  "\<exists>s'. execute slot_durable plain_env (Some slot_execution) (starting_with slot_world) =
      (Returns (deduplicated (fst slot_owner)), s') \<and>
    sound_answer ''key-1'' (deduplicated (fst slot_owner)) (world_of s')"
proof -
  have world: "world_ok (world_of (starting_with slot_world))"
    using slot_world_ok(2) by (simp add: world_of_def starting_with_def new_components_def)
  have valid: "validated (xc_sha slot_base) (xc_clone slot_base) (xc_registry slot_base)
      (sh_policy (rn_shared (starting_with slot_world))) (Some slot_execution) = Inr (slot_execution, slot_tool, some_hash)"
    by (simp add: slot_base_def slot_validated)
  obtain s' where run: "execute slot_durable plain_env (Some slot_execution) (starting_with slot_world) =
      (Returns (deduplicated (fst slot_owner)), s')" using slot_replayed by blast
  from durable_execution_answers_what_is_stored [OF slot_world_ok(1) world valid run] run show ?thesis by auto
qed

theorem taken_key_runs_nothing_witness:
  "rn_log (snd (execute slot_durable plain_env (Some slot_execution) (starting_with slot_world))) = []"
  using taken_key_runs_nothing [OF slot_world_ok(1), of "starting_with slot_world" slot_execution "''exe-1''"
      reliable_durable "service_consumer slot_service slot_env" slot_base] slot_world_ok(2,3)
  by (simp add: world_of_def starting_with_def new_components_def)

end
