(* ===== verification/CanonicalBinding.thy ===== *)
theory CanonicalBinding
  imports Canonical
begin

text \<open>
  What a canonical serialization tells: two values have the same text exactly when they are the
  same data, up to the order of object keys and the sign of zero. So a fingerprint binds every
  field of an action. The proof reads a text from the left: a token ends where the next
  delimiter begins.
\<close>

section \<open>The data of a value\<close>

fun unsigned_number :: "js_number \<Rightarrow> js_number" where
  "unsigned_number (Js_zero neg) = Js_zero False"
| "unsigned_number x = x"

primrec unsigned_zero :: "json \<Rightarrow> json" where
  "unsigned_zero J_null = J_null"
| "unsigned_zero (J_bool b) = J_bool b"
| "unsigned_zero (J_num x) = J_num (unsigned_number x)"
| "unsigned_zero (J_str s) = J_str s"
| "unsigned_zero (J_arr vs) = J_arr (map unsigned_zero vs)"
| "unsigned_zero (J_obj kvs) = J_obj (map (map_prod id unsigned_zero) kvs)"
| "unsigned_zero J_non_json = J_non_json"
| "unsigned_zero J_exotic = J_exotic"
| "unsigned_zero J_bad_array = J_bad_array"
| "unsigned_zero J_backref = J_backref"

definition json_data :: "json \<Rightarrow> json" where
  "json_data v = json_norm (unsigned_zero v)"

lemma insort_key_map: "insort_key f (g x) (map g xs) = map g (insort_key (\<lambda>y. f (g y)) x xs)"
  by (induction xs) auto

lemma sort_key_map: "sort_key f (map g xs) = map g (sort_key (\<lambda>y. f (g y)) xs)"
  by (induction xs) (simp_all add: insort_key_map)

lemma sort_key_fst_map [simp]: "sort_key fst (map (map_prod id g) kvs) = map (map_prod id g) (sort_key fst kvs)"
  by (simp add: sort_key_map)

lemma json_data_simps [simp]:
  "json_data J_null = J_null" "json_data (J_bool b) = J_bool b" "json_data (J_num x) = J_num (unsigned_number x)"
  "json_data (J_str s) = J_str s" "json_data (J_arr vs) = J_arr (map json_data vs)"
  "json_data (J_obj kvs) = J_obj (map (map_prod id json_data) (sort_key fst kvs))"
proof -
  have "map (map_prod id json_norm) (map (map_prod id unsigned_zero) kvs) = map (map_prod id (\<lambda>v. json_norm (unsigned_zero v))) kvs"
    for kvs :: "(string \<times> json) list" by (simp add: prod.map_comp comp_def id_def)
  then show "json_data (J_obj kvs) = J_obj (map (map_prod id json_data) (sort_key fst kvs))"
    by (simp add: json_data_def [abs_def] del: map_map)
qed (simp_all add: json_data_def)

lemma sort_key_idem [simp]: "sort_key f (sort_key f xs) = sort_key f xs"
  by (simp add: sort_key_id_if_sorted)

lemma canonical_unsigned: "canonical_value (unsigned_zero v) = canonical_value v"
proof (induction v)
  case (J_num x)
  then show ?case by (cases x) simp_all
next
  case (J_arr vs)
  then have "map canonical_value (map unsigned_zero vs) = map canonical_value vs" by simp
  then show ?case by (simp only: unsigned_zero.simps canonical_value.simps)
next
  case (J_obj kvs)
  then have "map (map_prod id canonical_value) (map (map_prod id unsigned_zero) kvs) = map (map_prod id canonical_value) kvs"
    by (auto simp: snds.simps)
  then show ?case by (simp only: unsigned_zero.simps canonical_value.simps)
qed simp_all

lemma canonical_norm: "canonical_value (json_norm v) = canonical_value v"
proof (induction v)
  case (J_arr vs)
  then have "map canonical_value (map json_norm vs) = map canonical_value vs" by simp
  then show ?case by (simp only: json_norm.simps canonical_value.simps)
next
  case (J_obj kvs)
  then have "map (map_prod id canonical_value) (map (map_prod id json_norm) (sort_key fst kvs)) =
      map (map_prod id canonical_value) (sort_key fst kvs)"
    by (auto simp: snds.simps)
  then show ?case
    by (simp add: canonical_object_def del: map_map)
qed simp_all

lemma canonical_data: "canonical_value (json_data v) = canonical_value v"
  by (simp add: json_data_def canonical_norm canonical_unsigned)

section \<open>Reading a number\<close>

lemma digit_char_code: "d < 10 \<Longrightarrow> of_char (digit_char d) = (48 + d :: nat)"
  by (simp add: digit_char_def)

lemma digit_char_not:
  assumes "d < 10"
  shows "digit_char d \<noteq> CHR ''e''" "digit_char d \<noteq> CHR ''.''" "digit_char d \<noteq> CHR ''-''" "digit_char d \<noteq> CHR ''+''"
proof -
  have "digit_char d = c \<Longrightarrow> 48 \<le> (of_char c :: nat) \<and> (of_char c :: nat) \<le> 57" for c
    using digit_char_code [OF assms] assms by auto
  from this [of "CHR ''e''"] this [of "CHR ''.''"] this [of "CHR ''-''"] this [of "CHR ''+''"]
  show "digit_char d \<noteq> CHR ''e''" "digit_char d \<noteq> CHR ''.''" "digit_char d \<noteq> CHR ''-''" "digit_char d \<noteq> CHR ''+''"
    by auto
qed

text \<open>The digits and the position of the point of a printed number.\<close>

definition read_exponent :: "string \<Rightarrow> int" where
  "read_exponent s = (case s of [] \<Rightarrow> 0
     | c # t \<Rightarrow> (if c = CHR ''-'' then - 1 else 1) * int (digits_value (map char_digit t)))"

definition read_mantissa :: "string \<Rightarrow> string \<Rightarrow> nat list \<times> int" where
  "read_mantissa whole fraction =
     (let ds = map char_digit (whole @ fraction)
      in (rev (dropWhile (\<lambda>d. d = 0) (rev (dropWhile (\<lambda>d. d = 0) ds))),
          int (length whole) - int (length (takeWhile (\<lambda>d. d = 0) ds))))"

definition read_finite :: "string \<Rightarrow> nat list \<times> int" where
  "read_finite s =
     (let m = takeWhile (\<lambda>c. c \<noteq> CHR ''e'') s; e = drop 1 (dropWhile (\<lambda>c. c \<noteq> CHR ''e'') s)
      in case read_mantissa (takeWhile (\<lambda>c. c \<noteq> CHR ''.'') m) (drop 1 (dropWhile (\<lambda>c. c \<noteq> CHR ''.'') m)) of
           (ds, n) \<Rightarrow> (ds, n + read_exponent e))"

lemma char_digit_0 [simp]: "char_digit (CHR ''0'') = 0"
  by (simp add: char_digit_def)

lemma span_all: "\<forall>x \<in> set xs. P x \<Longrightarrow> takeWhile P xs = xs" "\<forall>x \<in> set xs. P x \<Longrightarrow> dropWhile P xs = []"
  by (simp_all add: takeWhile_eq_all_conv)

lemma span_at: "\<forall>x \<in> set xs. P x \<Longrightarrow> \<not> P y \<Longrightarrow> takeWhile P (xs @ y # ys) = xs"
  "\<forall>x \<in> set xs. P x \<Longrightarrow> \<not> P y \<Longrightarrow> dropWhile P (xs @ y # ys) = y # ys"
  by (induction xs) auto

lemma all_part: "\<forall>x \<in> set xs. P x \<Longrightarrow> \<forall>x \<in> set (take m xs). P x" "\<forall>x \<in> set xs. P x \<Longrightarrow> \<forall>x \<in> set (drop m xs). P x"
  by (auto dest: in_set_takeD in_set_dropD)

lemma mantissa_digits:
  assumes "ds \<noteq> []" "hd ds \<noteq> 0" "last ds \<noteq> 0" "\<forall>d \<in> set ds. d < 10" "map char_digit (whole @ fraction) = replicate a 0 @ ds @ replicate b 0"
  shows "read_mantissa whole fraction = (ds, int (length whole) - int a)"
proof -
  obtain x xs where x: "ds = x # xs" "x \<noteq> 0" using assms(1,2) by (cases ds) auto
  obtain ys y where y: "ds = ys @ [y]" "y \<noteq> 0" using assms(1,3) by (cases ds rule: rev_cases) auto
  have "dropWhile (\<lambda>d. d = 0) (replicate a 0 @ ds @ replicate b 0) = ds @ replicate b (0 :: nat)"
    using x by (simp add: dropWhile_append)
  moreover have "takeWhile (\<lambda>d. d = 0) (replicate a 0 @ ds @ replicate b 0) = replicate a (0 :: nat)"
    using x by (simp add: takeWhile_append)
  moreover have "dropWhile (\<lambda>d. d = 0) (rev (ds @ replicate b 0)) = rev ds"
    using y by (simp add: dropWhile_append)
  ultimately show ?thesis unfolding read_mantissa_def Let_def assms(5) by simp
qed

lemma read_finite_split:
  assumes "\<forall>c \<in> set whole. c \<noteq> CHR ''e'' \<and> c \<noteq> CHR ''.''" "\<forall>c \<in> set fraction. c \<noteq> CHR ''e''"
  shows "read_finite (whole @ ''.'' @ fraction) = read_mantissa whole fraction"
    and "read_finite whole = read_mantissa whole []"
    and "read_finite (whole @ ''.'' @ fraction @ ''e'' @ e) =
      (case read_mantissa whole fraction of (ds, n) \<Rightarrow> (ds, n + read_exponent e))"
    and "read_finite (whole @ ''e'' @ e) = (case read_mantissa whole [] of (ds, n) \<Rightarrow> (ds, n + read_exponent e))"
proof -
  let ?e = "\<lambda>c. c \<noteq> CHR ''e''" and ?p = "\<lambda>c. c \<noteq> CHR ''.''"
  have w: "\<forall>c \<in> set whole. ?e c" "\<forall>c \<in> set whole. ?p c" using assms(1) by auto
  have m: "\<forall>c \<in> set (whole @ CHR ''.'' # fraction). ?e c" using assms by auto
  have no_exponent: "read_exponent [] = 0" by (simp add: read_exponent_def)
  note spans = span_all [OF m] span_all [OF w(1)] span_all [OF w(2)] span_at [OF w(2), of "CHR ''.''"]
    span_at [OF m, of "CHR ''e''", unfolded append_assoc append_Cons] span_at [OF w(1), of "CHR ''e''"]
  show "read_finite (whole @ ''.'' @ fraction) = read_mantissa whole fraction"
    "read_finite whole = read_mantissa whole []"
    "read_finite (whole @ ''.'' @ fraction @ ''e'' @ e) =
      (case read_mantissa whole fraction of (ds, n) \<Rightarrow> (ds, n + read_exponent e))"
    "read_finite (whole @ ''e'' @ e) = (case read_mantissa whole [] of (ds, n) \<Rightarrow> (ds, n + read_exponent e))"
    unfolding read_finite_def Let_def
    by (simp_all add: spans no_exponent del: takeWhile_append dropWhile_append split: prod.split)
qed

lemma zero_char [simp]: "digit_char 0 = CHR ''0''"
  by code_simp

lemma read_exponent_sign:
  "read_exponent ((if i < 0 then ''-'' else ''+'') @ nat_string (nat \<bar>i\<bar>)) = i"
  by (simp add: read_exponent_def)

lemma read_finite_string:
  assumes ok: "ds \<noteq> []" "hd ds \<noteq> 0" "last ds \<noteq> 0" "\<forall>d \<in> set ds. d < 10"
  shows "read_finite (finite_string ds n) = (ds, n)"
proof -
  let ?s = "map digit_char ds" and ?k = "int (length ds)"
  have digits: "\<forall>c \<in> set ?s. c \<noteq> CHR ''e'' \<and> c \<noteq> CHR ''.''" using ok(4) digit_char_not by auto
  note parts = all_part [OF digits]
  have zeros: "\<forall>c \<in> set (replicate m (CHR ''0'')). c \<noteq> CHR ''e'' \<and> c \<noteq> CHR ''.''" for m by auto
  have read_back: "map char_digit ?s = ds" by (rule digits_of_string [OF ok(4)])
  consider (integer) "?k \<le> n" "n \<le> 21" | (point) "0 < n" "n \<le> 21" "n < ?k"
    | (small) "-6 < n" "n \<le> 0" | (exponent) "\<not> (?k \<le> n \<and> n \<le> 21)" "\<not> (0 < n \<and> n \<le> 21)" "\<not> (-6 < n \<and> n \<le> 0)"
    by linarith
  then show ?thesis
  proof cases
    case integer
    have "\<forall>c \<in> set (?s @ replicate (nat (n - ?k)) (CHR ''0'')). c \<noteq> CHR ''e'' \<and> c \<noteq> CHR ''.''"
      using digits zeros by auto
    note split = read_finite_split(2) [OF this, of "[]"]
    have "map char_digit ((?s @ replicate (nat (n - ?k)) (CHR ''0'')) @ []) =
        replicate 0 0 @ ds @ replicate (nat (n - ?k)) 0" using read_back by (simp del: map_map)
    from mantissa_digits [OF ok this] split integer show ?thesis
      by (simp add: finite_string_def Let_def)
  next
    case point
    have "\<forall>c \<in> set (take (nat n) ?s). c \<noteq> CHR ''e'' \<and> c \<noteq> CHR ''.''" "\<forall>c \<in> set (drop (nat n) ?s). c \<noteq> CHR ''e''"
      using parts(1) [of "nat n"] parts(2) [of "nat n"] by simp_all
    note split = read_finite_split(1) [OF this]
    have "map char_digit (take (nat n) ?s @ drop (nat n) ?s) = replicate 0 0 @ ds @ replicate 0 0"
      using read_back by (simp only: append_take_drop_id) simp
    from mantissa_digits [OF ok this] split point show ?thesis
      by (simp add: finite_string_def Let_def min_def)
  next
    case small
    have "\<forall>c \<in> set ''0''. c \<noteq> CHR ''e'' \<and> c \<noteq> CHR ''.''" "\<forall>c \<in> set (replicate (nat (- n)) (CHR ''0'') @ ?s). c \<noteq> CHR ''e''"
      using digits by auto
    note split = read_finite_split(1) [OF this]
    have "map char_digit (''0'' @ replicate (nat (- n)) (CHR ''0'') @ ?s) = replicate (Suc (nat (- n))) 0 @ ds @ replicate 0 0"
      using read_back by (simp del: map_map)
    note mantissa = mantissa_digits [OF ok this]
    have "\<not> ?k \<le> n" using small ok(1) by (cases ds) auto
    with mantissa split small show ?thesis
      by (simp add: finite_string_def Let_def)
  next
    case exponent
    let ?e = "(if n - 1 < 0 then ''-'' else ''+'') @ nat_string (nat \<bar>n - 1\<bar>)"
    have halves: "\<forall>c \<in> set (take 1 ?s). c \<noteq> CHR ''e'' \<and> c \<noteq> CHR ''.''" "\<forall>c \<in> set (drop 1 ?s). c \<noteq> CHR ''e''"
      using parts(1) [of 1] parts(2) [of 1] by simp_all
    have whole: "map char_digit (take 1 ?s @ drop 1 ?s) = replicate 0 0 @ ds @ replicate 0 0"
      using read_back by (simp only: append_take_drop_id) simp
    have one: "length (take 1 ?s) = 1" using ok(1) by (cases ds) auto
    have tail: "drop 1 ?s = [] \<longleftrightarrow> ?k = 1" using ok(1) by (cases ds) auto
    have printed: "finite_string ds n = take 1 ?s @ (if ?k = 1 then [] else ''.'' @ drop 1 ?s) @ ''e'' @ ?e"
      using exponent unfolding finite_string_def Let_def by (simp only: if_False)
    have "read_finite (take 1 ?s @ (if ?k = 1 then [] else ''.'' @ drop 1 ?s) @ ''e'' @ ?e) =
        (case read_mantissa (take 1 ?s) (drop 1 ?s) of (ds, m) \<Rightarrow> (ds, m + read_exponent ?e))"
    proof (cases "?k = 1")
      case True
      then have "drop 1 ?s = []" using tail by blast
      with True read_finite_split(4) [OF halves, of ?e] show ?thesis by (simp only: simp_thms if_True append_Nil)
    next
      case False
      with read_finite_split(3) [OF halves, of ?e] show ?thesis by (simp only: if_False append_assoc)
    qed
    also have "\<dots> = (ds, n)"
      unfolding mantissa_digits [OF ok whole] one split_conv read_exponent_sign by simp
    finally show ?thesis unfolding printed .
  qed
qed

text \<open>No number contains a delimiter, and its sign can be told.\<close>

definition delimiter :: "char \<Rightarrow> bool" where
  "delimiter c \<longleftrightarrow> c \<in> set '',]}''"

lemma digit_char_token: "d < 10 \<Longrightarrow> \<not> delimiter (digit_char d)"
proof -
  assume d: "d < 10"
  have "digit_char d = c \<Longrightarrow> 48 \<le> (of_char c :: nat) \<and> (of_char c :: nat) \<le> 57" for c
    using digit_char_code [OF d] d by auto
  from this [of "CHR '',''"] this [of "CHR '']''"] this [of "CHR ''}''"] show ?thesis by (auto simp: delimiter_def)
qed

lemma finite_string_token:
  assumes "\<forall>d \<in> set ds. d < 10" "c \<in> set (finite_string ds n)"
  shows "\<not> delimiter c"
proof -
  have signs: "\<not> delimiter (CHR ''.'')" "\<not> delimiter (CHR ''e'')" "\<not> delimiter (CHR ''-'')" "\<not> delimiter (CHR ''+'')"
    "\<not> delimiter (CHR ''0'')" by (simp_all add: delimiter_def)
  have "\<not> delimiter (digit_char d)" if "d \<in> set ds \<or> d \<in> set (nat_digits m)" for d m
    using that assms(1) nat_digits_less digit_char_token by blast
  then have "\<forall>c \<in> set (map digit_char ds) \<union> set (nat_string m). \<not> delimiter c" for m
    by (auto simp: nat_string_def)
  with assms(2) signs show ?thesis
    unfolding finite_string_def Let_def
    by (auto split: if_splits dest: in_set_takeD in_set_dropD simp del: set_map)
qed

lemma finite_string_start:
  assumes "ds \<noteq> []" "\<forall>d \<in> set ds. d < 10"
  obtains d r where "finite_string ds n = digit_char d # r" "d < 10"
proof -
  obtain x xs where x: "ds = x # xs" "x < 10" using assms by (cases ds) auto
  then have "\<exists>r. finite_string ds n = digit_char x # r \<or> finite_string ds n = digit_char 0 # r"
    by (auto simp: finite_string_def Let_def take_Cons' simp del: ex_simps)
  with that x(2) show thesis by fastforce
qed

lemma number_inject:
  assumes "number_ok x" "number_ok y" "canonical_number x = Some a" "canonical_number y = Some a"
  shows "unsigned_number x = unsigned_number y"
proof -
  have finite: "(finite_string ds' n' \<noteq> ''-'' @ finite_string ds n) \<and> (finite_string ds n \<noteq> ''0'') \<and>
      (finite_string ds n = finite_string ds' n' \<longrightarrow> ds = ds' \<and> n = n')"
    if "number_ok (Js_finite neg ds n)" "number_ok (Js_finite neg' ds' n')" for neg ds n neg' ds' n'
  proof -
    from that have ok: "ds \<noteq> []" "hd ds \<noteq> 0" "last ds \<noteq> 0" "\<forall>d \<in> set ds. d < 10"
      "ds' \<noteq> []" "hd ds' \<noteq> 0" "last ds' \<noteq> 0" "\<forall>d \<in> set ds'. d < 10"
      by (auto simp: number_ok_def list_all_iff)
    note readings = read_finite_string [OF ok(1-4), of n] read_finite_string [OF ok(5-8), of n']
    obtain d r where "finite_string ds' n' = digit_char d # r" "d < 10"
      using finite_string_start [OF ok(5,8)] by blast
    moreover have "finite_string ds n = ''0'' \<Longrightarrow> ds = []"
      using readings(1) by (auto simp: read_finite_def read_mantissa_def Let_def)
    ultimately show ?thesis
      using readings ok(1) digit_char_not(3) by (metis append_Cons append_Nil list.inject prod.inject)
  qed
  from assms show ?thesis
    using finite by (cases x; cases y) (auto split: if_splits dest: sym)
qed

section \<open>Reading a string\<close>

definition hex_value :: "char \<Rightarrow> nat" where
  "hex_value c = (if (of_char c :: nat) < 58 then of_char c - 48 else of_char c - 87)"

lemma hex_value_digit [simp]: "d < 16 \<Longrightarrow> hex_value (hex_digit d) = d"
  by (simp add: hex_value_def hex_digit_def)

definition read_char :: "string \<Rightarrow> char \<times> string" where
  "read_char s = (case s of [] \<Rightarrow> (CHR 0x00, []) | c # r \<Rightarrow>
     if c \<noteq> CHR 0x5C then (c, r)
     else case r of
       CHR ''b'' # t \<Rightarrow> (CHR 0x08, t) | CHR ''f'' # t \<Rightarrow> (CHR 0x0C, t)
     | CHR ''n'' # t \<Rightarrow> (CHR 0x0A, t) | CHR ''r'' # t \<Rightarrow> (CHR 0x0D, t) | CHR ''t'' # t \<Rightarrow> (CHR 0x09, t)
     | CHR ''u'' # z1 # z2 # h # l # t \<Rightarrow> (char_of (16 * hex_value h + hex_value l), t)
     | x # t \<Rightarrow> (x, t) | [] \<Rightarrow> (CHR 0x00, []))"

lemma read_escape: "read_char (escape_char c @ u) = (c, u)"
proof -
  let ?n = "of_char c :: nat"
  consider (quote) "c = CHR 0x22" | (backslash) "c = CHR 0x5C"
    | (named) "c \<in> {CHR 0x08, CHR 0x0C, CHR 0x0A, CHR 0x0D, CHR 0x09}"
    | (control) "c \<notin> {CHR 0x22, CHR 0x5C, CHR 0x08, CHR 0x0C, CHR 0x0A, CHR 0x0D, CHR 0x09}" "?n < 32"
    | (plain) "c \<notin> {CHR 0x22, CHR 0x5C, CHR 0x08, CHR 0x0C, CHR 0x0A, CHR 0x0D, CHR 0x09}" "\<not> ?n < 32"
    by blast
  then show ?thesis
  proof cases
    case control
    then have "16 * hex_value (hex_digit (?n div 16)) + hex_value (hex_digit (?n mod 16)) = ?n" by simp
    with control show ?thesis by (simp add: escape_char_def read_char_def)
  qed (auto simp: escape_char_def read_char_def)
qed

lemma escape_start: "\<exists>d r. escape_char c = d # r \<and> d \<noteq> CHR 0x22"
  by (auto simp: escape_char_def)

lemma content_unique:
  "concat (map escape_char x) @ CHR 0x22 # s = concat (map escape_char y) @ CHR 0x22 # t \<Longrightarrow> x = y \<and> s = t"
proof (induction x arbitrary: y)
  case Nil
  show ?case
  proof (cases y)
    case (Cons d y')
    with Nil escape_start [of d] show ?thesis by auto
  qed (use Nil in simp)
next
  case (Cons c x)
  obtain d y' where y: "y = d # y'"
    using Cons.prems escape_start [of c] by (cases y) auto
  let ?u = "concat (map escape_char x) @ CHR 0x22 # s" and ?v = "concat (map escape_char y') @ CHR 0x22 # t"
  have "escape_char c @ ?u = escape_char d @ ?v" using Cons.prems y by simp
  then have "read_char (escape_char c @ ?u) = read_char (escape_char d @ ?v)" by (rule arg_cong)
  then have "c = d" "?u = ?v" unfolding read_escape by simp_all
  with Cons.IH y show ?case by blast
qed

lemma quote_unique: "quote_string x @ s = quote_string y @ t \<Longrightarrow> x = y \<and> s = t"
  using content_unique [of x s y t] by (simp add: quote_string_def)

section \<open>Reading a value\<close>

definition ends :: "string \<Rightarrow> bool" where
  "ends s \<longleftrightarrow> s = [] \<or> delimiter (hd s)"

lemma ends_simps [simp]: "ends []" "ends (c # s) = delimiter c"
  by (simp_all add: ends_def)

lemma delimiters [simp]: "delimiter (CHR '','')" "delimiter (CHR '']'')" "delimiter (CHR ''}'')"
  by (simp_all add: delimiter_def)

lemma all_some_Some: "all_some ms = Some xs \<longleftrightarrow> ms = map Some xs"
proof (induction ms arbitrary: xs rule: all_some.induct)
  case (3 x ms)
  then show ?case by (cases xs) auto
qed auto

text \<open>The first character of a token.\<close>

definition number_start :: "char \<Rightarrow> bool" where
  "number_start c \<longleftrightarrow> c = CHR ''-'' \<or> (48 \<le> (of_char c :: nat) \<and> (of_char c :: nat) \<le> 57)"

lemma number_start_not [simp]:
  "\<not> number_start (CHR ''n'')" "\<not> number_start (CHR ''t'')" "\<not> number_start (CHR ''f'')"
  "\<not> number_start (CHR 0x22)" "\<not> number_start (CHR ''['')" "\<not> number_start (CHR ''{'')"
  "number_start c \<Longrightarrow> \<not> delimiter c"
  by (auto simp: number_start_def delimiter_def)

lemma number_start_digit: "d < 10 \<Longrightarrow> number_start (digit_char d)" "number_start (CHR ''-'')" "number_start (CHR ''0'')"
  by (simp_all add: number_start_def digit_char_code)

lemma number_starts:
  assumes "canonical_number x = Some a" "number_ok x"
  shows "\<exists>c r. a = c # r \<and> number_start c"
proof (cases x)
  case (Js_finite neg ds n)
  with assms(2) have "ds \<noteq> []" "\<forall>d \<in> set ds. d < 10" by (auto simp: number_ok_def list_all_iff)
  then obtain d r where "finite_string ds n = digit_char d # r" "d < 10" by (rule finite_string_start)
  with assms(1) Js_finite number_start_digit(1) [of d] number_start_digit(2) show ?thesis
    by (cases neg) auto
qed (use assms number_start_digit(3) in auto)

lemma number_token:
  assumes "canonical_number x = Some a" "number_ok x" "c \<in> set a"
  shows "\<not> delimiter c"
proof (cases x)
  case (Js_finite neg ds n)
  with assms finite_string_token [of ds c n] show ?thesis
    by (auto simp: number_ok_def list_all_iff delimiter_def split: if_splits)
qed (use assms in \<open>auto simp: delimiter_def\<close>)

lemma number_unique:
  assumes x: "canonical_number x = Some a" "number_ok x" and y: "canonical_number y = Some b" "number_ok y"
    and same: "a @ s = b @ t" "ends s" "ends t"
  shows "unsigned_number x = unsigned_number y \<and> s = t"
proof -
  have "takeWhile (\<lambda>c. \<not> delimiter c) (a @ s) = a" if "\<forall>c \<in> set a. \<not> delimiter c" "ends s" for a s
    using that by (cases s) (simp_all add: takeWhile_append)
  then have "a = b" using number_token [OF x] number_token [OF y] same by metis
  with number_inject [OF x(2) y(2) x(1)] y(1) same(1) show ?thesis by simp
qed

lemma value_starts:
  assumes "canonical_value v = Some a" "json_ok v"
  shows "\<exists>c r. a = c # r \<and> \<not> delimiter c"
proof (cases v)
  case (J_num x)
  with number_starts [of x a] assms number_start_not(7) show ?thesis by auto
qed (use assms in \<open>auto simp: delimiter_def quote_string_def canonical_array_def canonical_object_def\<close>)

text \<open>Lists of tokens, separated by commas and closed by a delimiter of their own.\<close>

lemma join_comma_split:
  "join_comma (p # ps) @ c # s = p @ (if ps = [] then c # s else CHR '','' # join_comma ps @ c # s)"
  by (cases ps) simp_all

lemma join_unique:
  assumes c: "delimiter c" "c \<noteq> CHR '',''"
  shows "map f xs = map Some ps \<Longrightarrow> map f ys = map Some qs \<Longrightarrow>
    (\<And>x a. x \<in> set xs \<union> set ys \<Longrightarrow> f x = Some a \<Longrightarrow> \<exists>d r. a = d # r \<and> \<not> delimiter d) \<Longrightarrow>
    (\<And>x y a b s t. x \<in> set xs \<Longrightarrow> y \<in> set ys \<Longrightarrow> f x = Some a \<Longrightarrow> f y = Some b \<Longrightarrow>
      a @ s = b @ t \<Longrightarrow> ends s \<Longrightarrow> ends t \<Longrightarrow> g x = g y \<and> s = t) \<Longrightarrow>
    join_comma ps @ c # s = join_comma qs @ c # t \<Longrightarrow> map g xs = map g ys \<and> s = t"
proof (induction xs arbitrary: ys ps qs)
  case Nil
  show ?case
  proof (cases ys)
    case (Cons y ys')
    with Nil.prems(2) obtain q qs' where q: "qs = q # qs'" "f y = Some q" by (cases qs) auto
    with Nil.prems(3) [of y q] Cons obtain d r where "q = d # r" "\<not> delimiter d" by auto
    with Nil.prems(1,5) q c show ?thesis by (auto simp: join_comma_split simp del: join_comma.simps(2,3))
  qed (use Nil.prems in auto)
next
  case (Cons x xs)
  from Cons.prems(1) obtain p ps' where p: "ps = p # ps'" "f x = Some p" "map f xs = map Some ps'" by (cases ps) auto
  with Cons.prems(3) [of x p] obtain d r where start: "p = d # r" "\<not> delimiter d" by auto
  show ?case
  proof (cases ys)
    case Nil
    with Cons.prems(2,5) p start c show ?thesis by (auto simp: join_comma_split simp del: join_comma.simps(2,3))
  next
    case ys: (Cons y ys')
    with Cons.prems(2) obtain q qs' where q: "qs = q # qs'" "f y = Some q" "map f ys' = map Some qs'" by (cases qs) auto
    define u where "u = (if ps' = [] then c # s else CHR '','' # join_comma ps' @ c # s)"
    define v where "v = (if qs' = [] then c # t else CHR '','' # join_comma qs' @ c # t)"
    have "p @ u = q @ v" using Cons.prems(5) unfolding p(1) q(1) join_comma_split u_def v_def .
    moreover have "ends u" "ends v" using c by (simp_all add: u_def v_def)
    ultimately have same: "g x = g y" "u = v" using Cons.prems(4) [of x y p q u v] p q ys by auto
    show ?thesis
    proof (cases "ps' = [] \<or> qs' = []")
      case True
      with same(2) c have "ps' = []" "qs' = []" "s = t" by (auto simp: u_def v_def split: if_splits)
      with p q ys same(1) show ?thesis by simp
    next
      case False
      with same(2) have "join_comma ps' @ c # s = join_comma qs' @ c # t" by (simp add: u_def v_def)
      moreover have "\<exists>d r. a = d # r \<and> \<not> delimiter d" if "z \<in> set xs \<union> set ys'" "f z = Some a" for z a
        using Cons.prems(3) [of z a] that ys by auto
      moreover have "g z = g z' \<and> s' = t'" if "z \<in> set xs" "z' \<in> set ys'" "f z = Some a" "f z' = Some b"
        "a @ s' = b @ t'" "ends s'" "ends t'" for z z' a b s' t'
        using Cons.prems(4) [of z z' a b s' t'] that ys by simp
      ultimately have "map g xs = map g ys' \<and> s = t" by (rule Cons.IH [OF p(3) q(3), rotated 2])
      with same(1) ys show ?thesis by simp
    qed
  qed
qed

lemma canonical_array_Some:
  "canonical_value (J_arr vs) = Some a \<longleftrightarrow>
   (\<exists>ps. map canonical_value vs = map Some ps \<and> a = CHR ''['' # join_comma ps @ CHR '']'' # [])"
  by (auto simp: canonical_array_def all_some_Some)

definition canonical_entry :: "string \<times> json \<Rightarrow> string option" where
  "canonical_entry kv = map_option (\<lambda>p. quote_string (fst kv) @ CHR '':'' # p) (canonical_value (snd kv))"

lemma canonical_object_Some:
  "canonical_value (J_obj kvs) = Some a \<longleftrightarrow>
   (\<exists>ps. map canonical_entry (sort_key fst kvs) = map Some ps \<and> a = CHR ''{'' # join_comma ps @ CHR ''}'' # [])"
proof -
  have "map canonical_member (map (map_prod id canonical_value) xs) = map canonical_entry xs" for xs
    by (simp add: canonical_member_def canonical_entry_def)
  then show ?thesis by (auto simp: canonical_object_def all_some_Some simp del: map_map)
qed

definition reads_apart :: "json \<Rightarrow> bool" where
  "reads_apart v \<longleftrightarrow> (\<forall>w a b s t. canonical_value v = Some a \<longrightarrow> canonical_value w = Some b \<longrightarrow>
     json_ok v \<longrightarrow> json_ok w \<longrightarrow> a @ s = b @ t \<longrightarrow> ends s \<longrightarrow> ends t \<longrightarrow> json_data v = json_data w \<and> s = t)"

lemma entry_unique:
  assumes "reads_apart v" "canonical_entry (k, v) = Some a" "canonical_entry (k', w) = Some b" "json_ok v" "json_ok w"
    "a @ s = b @ t" "ends s" "ends t"
  shows "map_prod id json_data (k, v) = map_prod id json_data (k', w) \<and> s = t"
proof -
  from assms(2,3) obtain p q where p: "canonical_value v = Some p" "a = quote_string k @ CHR '':'' # p"
    and q: "canonical_value w = Some q" "b = quote_string k' @ CHR '':'' # q"
    by (auto simp: canonical_entry_def)
  from assms(6) have "quote_string k @ CHR '':'' # p @ s = quote_string k' @ CHR '':'' # q @ t"
    unfolding p(2) q(2) by simp
  from quote_unique [OF this] have "k = k'" "p @ s = q @ t" by simp_all
  moreover from this(2) assms(1,4,5,7,8) p(1) q(1) have "json_data v = json_data w \<and> s = t"
    unfolding reads_apart_def by blast
  ultimately show ?thesis by simp
qed

lemma literal_reads_apart:
  assumes "v = J_null \<or> v = J_bool True \<or> v = J_bool False"
  shows "reads_apart v"
  unfolding reads_apart_def
proof (intro allI impI)
  fix w a b s t
  assume v: "canonical_value v = Some a" and w: "canonical_value w = Some b" "json_ok w" and same: "a @ s = b @ t"
  show "json_data v = json_data w \<and> s = t"
  proof (cases w)
    case (J_num y)
    with w number_starts [of y b] v same assms show ?thesis by auto
  qed (use assms v w(1) same in \<open>auto simp: canonical_array_def canonical_object_def quote_string_def split: if_splits\<close>)
qed

lemma value_reads_apart: "reads_apart v"
proof (induction v)
  case (J_num x)
  show ?case
    unfolding reads_apart_def
  proof (intro allI impI)
    fix w a b s t
    assume v: "canonical_value (J_num x) = Some a" "json_ok (J_num x)" and w: "canonical_value w = Some b" "json_ok w"
      and same: "a @ s = b @ t" "ends s" "ends t"
    from v number_starts [of x a] obtain c r where c: "a = c # r" "number_start c" by auto
    show "json_data (J_num x) = json_data w \<and> s = t"
    proof (cases w)
      case (J_num y)
      with v w same number_unique [of x a y b s t] show ?thesis by simp
    qed (use c w(1) same(1) in \<open>auto simp: quote_string_def canonical_array_def canonical_object_def split: if_splits\<close>)
  qed
next
  case (J_arr vs)
  show ?case
    unfolding reads_apart_def
  proof (intro allI impI)
    fix w a b s t
    assume v: "canonical_value (J_arr vs) = Some a" "json_ok (J_arr vs)" and w: "canonical_value w = Some b" "json_ok w"
      and same: "a @ s = b @ t" "ends s" "ends t"
    from v(1) obtain ps where ps: "map canonical_value vs = map Some ps" "a = CHR ''['' # join_comma ps @ CHR '']'' # []"
      unfolding canonical_array_Some by blast
    show "json_data (J_arr vs) = json_data w \<and> s = t"
    proof (cases w)
      case ws: (J_arr ws)
      with w(1) obtain qs where qs: "map canonical_value ws = map Some qs" "b = CHR ''['' # join_comma qs @ CHR '']'' # []"
        unfolding ws canonical_array_Some by blast
      have oks: "z \<in> set vs \<Longrightarrow> json_ok z" "z \<in> set ws \<Longrightarrow> json_ok z" for z
        using v(2) w(2) ws by (auto simp: list_all_iff)
      have "map json_data vs = map json_data ws \<and> s = t"
      proof (rule join_unique [OF _ _ ps(1) qs(1)])
        show "\<exists>d r. p = d # r \<and> \<not> delimiter d" if "z \<in> set vs \<union> set ws" "canonical_value z = Some p" for z p
          using value_starts that oks by auto
        show "json_data x = json_data y \<and> s' = t'" if "x \<in> set vs" "y \<in> set ws" "canonical_value x = Some p"
          "canonical_value y = Some q" "p @ s' = q @ t'" "ends s'" "ends t'" for x y p q s' t'
          using J_arr [OF that(1)] that oks unfolding reads_apart_def by blast
        show "join_comma ps @ CHR '']'' # s = join_comma qs @ CHR '']'' # t" using same(1) ps(2) qs(2) by simp
      qed simp_all
      with ws show ?thesis by simp
    next
      case (J_num y)
      with w number_starts [of y b] ps(2) same(1) show ?thesis by auto
    qed (use ps(2) w(1) same(1) in \<open>auto simp: quote_string_def canonical_object_def split: if_splits\<close>)
  qed
next
  case (J_obj kvs)
  show ?case
    unfolding reads_apart_def
  proof (intro allI impI)
    fix w a b s t
    assume v: "canonical_value (J_obj kvs) = Some a" "json_ok (J_obj kvs)" and w: "canonical_value w = Some b" "json_ok w"
      and same: "a @ s = b @ t" "ends s" "ends t"
    from v(1) obtain ps where ps: "map canonical_entry (sort_key fst kvs) = map Some ps" "a = CHR ''{'' # join_comma ps @ CHR ''}'' # []"
      unfolding canonical_object_Some by blast
    show "json_data (J_obj kvs) = json_data w \<and> s = t"
    proof (cases w)
      case ws: (J_obj kws)
      with w(1) obtain qs where qs: "map canonical_entry (sort_key fst kws) = map Some qs" "b = CHR ''{'' # join_comma qs @ CHR ''}'' # []"
        unfolding ws canonical_object_Some by blast
      have oks: "z \<in> set kvs \<Longrightarrow> json_ok (snd z)" "z \<in> set kws \<Longrightarrow> json_ok (snd z)" for z
        using v(2) w(2) ws by (auto simp: list_all_iff)
      have "map (map_prod id json_data) (sort_key fst kvs) = map (map_prod id json_data) (sort_key fst kws) \<and> s = t"
      proof (rule join_unique [OF _ _ ps(1) qs(1)])
        show "\<exists>d r. p = d # r \<and> \<not> delimiter d" if "canonical_entry z = Some p" for z p
          using that by (auto simp: canonical_entry_def quote_string_def delimiter_def)
        show "map_prod id json_data x = map_prod id json_data y \<and> s' = t'" if "x \<in> set (sort_key fst kvs)" "y \<in> set (sort_key fst kws)"
          "canonical_entry x = Some p" "canonical_entry y = Some q" "p @ s' = q @ t'" "ends s'" "ends t'" for x y p q s' t'
          using J_obj [of x "snd x"] that oks [of x] oks(2) [of y] entry_unique [of "snd x" "fst x" p "fst y" "snd y" q s' t']
          by (simp add: snds.simps)
        show "join_comma ps @ CHR ''}'' # s = join_comma qs @ CHR ''}'' # t" using same(1) ps(2) qs(2) by simp
      qed simp_all
      with ws show ?thesis by simp
    next
      case (J_num y)
      with w number_starts [of y b] ps(2) same(1) show ?thesis by auto
    qed (use ps(2) w(1) same(1) in \<open>auto simp: quote_string_def canonical_array_def split: if_splits\<close>)
  qed
next
  case (J_str x)
  show ?case
    unfolding reads_apart_def
  proof (intro allI impI)
    fix w a b s t
    assume v: "canonical_value (J_str x) = Some a" and w: "canonical_value w = Some b" "json_ok w" and same: "a @ s = b @ t"
    show "json_data (J_str x) = json_data w \<and> s = t"
    proof (cases w)
      case (J_num y)
      with w number_starts [of y b] v same show ?thesis by (auto simp: quote_string_def)
    qed (use v w(1) same in \<open>auto simp: canonical_array_def canonical_object_def quote_string_def
          dest: quote_unique [unfolded quote_string_def] split: if_splits\<close>)
  qed
next
  case (J_bool x)
  show ?case by (cases x) (simp_all add: literal_reads_apart)
next
  case J_null
  show ?case by (simp add: literal_reads_apart)
qed (simp_all add: reads_apart_def)

section \<open>The guarantees\<close>

text \<open>
  A serialization tells all of a value's data: of two values that can be serialized, the texts are
  the same exactly when the data are.
\<close>

theorem canonical_serialization_is_faithful:
  assumes "json_ok v" "json_ok w" "canonicalSerialize v = Inr a" "canonicalSerialize w = Inr b"
  shows "a = b \<longleftrightarrow> json_data v = json_data w"
proof -
  have v: "canonical_value v = Some a" and w: "canonical_value w = Some b"
    using assms(3,4) by (simp_all add: canonicalSerialize_def split: option.splits)
  show ?thesis
  proof
    assume "a = b"
    with value_reads_apart [of v, unfolded reads_apart_def, rule_format, OF v w assms(1,2), of "[]" "[]"]
    show "json_data v = json_data w" by simp
  next
    assume "json_data v = json_data w"
    with v w canonical_data [of v] canonical_data [of w] show "a = b" by simp
  qed
qed

text \<open>Whole numbers print their value.\<close>

lemma nat_digits_hd: "n \<noteq> 0 \<Longrightarrow> hd (nat_digits n) \<noteq> 0"
proof (induction n rule: nat_digits.induct)
  case (1 n)
  have "nat_digits (n div 10) \<noteq> []" by (simp add: nat_digits.simps [of "n div 10"])
  with 1 show ?case by (cases "n < 10") (auto simp: nat_digits.simps [of n])
qed

definition trimmed :: "nat list \<Rightarrow> nat list" where
  "trimmed ds = rev (dropWhile (\<lambda>d. d = 0) (rev ds))"

lemma trimmed_zeros: "\<exists>m. ds = trimmed ds @ replicate m 0"
proof -
  let ?P = "\<lambda>d :: nat. d = 0"
  have "rev ds = takeWhile ?P (rev ds) @ dropWhile ?P (rev ds)" by simp
  then have "ds = trimmed ds @ rev (takeWhile ?P (rev ds))" unfolding trimmed_def by (metis rev_append rev_rev_ident)
  moreover have "rev (takeWhile ?P (rev ds)) = replicate (length (takeWhile ?P (rev ds))) 0"
    by (rule replicate_eqI) (auto dest: set_takeWhileD)
  ultimately show ?thesis by metis
qed

lemma js_nat_trimmed:
  "js_nat n = (if n = 0 then J_num (Js_zero False)
     else J_num (Js_finite (n < 0) (trimmed (nat_digits (nat \<bar>n\<bar>))) (int (length (nat_digits (nat \<bar>n\<bar>))))))"
  by (simp add: js_nat_def trimmed_def Let_def)

lemma js_nat_ok: "json_ok (js_nat n)"
proof (cases "n = 0")
  case False
  let ?ds = "nat_digits (nat \<bar>n\<bar>)"
  obtain m where m: "?ds = trimmed ?ds @ replicate m 0" using trimmed_zeros by blast
  have head: "hd ?ds \<noteq> 0" "?ds \<noteq> []" using nat_digits_hd [of "nat \<bar>n\<bar>"] False by (auto simp: nat_digits.simps [of "nat \<bar>n\<bar>"])
  then have nonempty: "trimmed ?ds \<noteq> []" using m by (cases m) (auto dest: arg_cong [where f = hd])
  moreover have "hd (trimmed ?ds) \<noteq> 0" using head(1) nonempty m by (metis hd_append2)
  moreover have "last (trimmed ?ds) \<noteq> 0"
    using nonempty hd_dropWhile [of "\<lambda>d. d = 0" "rev ?ds"] by (auto simp: trimmed_def last_rev)
  moreover have "d < 10" if "d \<in> set (trimmed ?ds)" for d
    using that nat_digits_less set_dropWhileD by (fastforce simp: trimmed_def)
  ultimately show ?thesis using False by (simp add: js_nat_trimmed number_ok_def list_all_iff)
qed (simp add: js_nat_trimmed number_ok_def)

lemma js_nat_inject: "js_nat m = js_nat n \<longleftrightarrow> m = n"
proof
  assume same: "js_nat m = js_nat n"
  show "m = n"
  proof (cases "m = 0 \<or> n = 0")
    case True
    with same show ?thesis by (auto simp: js_nat_trimmed split: if_splits)
  next
    case False
    let ?ds = "\<lambda>n. nat_digits (nat \<bar>n\<bar>)"
    from False same have eq: "(m < 0) = (n < 0)" "trimmed (?ds m) = trimmed (?ds n)" "length (?ds m) = length (?ds n)"
      by (simp_all add: js_nat_trimmed)
    obtain a b where "?ds m = trimmed (?ds m) @ replicate a 0" "?ds n = trimmed (?ds n) @ replicate b 0"
      using trimmed_zeros by metis
    with eq(2,3) have "?ds m = ?ds n" by (metis add_left_cancel length_append length_replicate)
    then have "nat \<bar>m\<bar> = nat \<bar>n\<bar>" by (metis digits_value_nat_digits)
    with eq(1) show ?thesis by linarith
  qed
qed simp

lemma js_nat_data [simp]: "json_data (js_nat n) = js_nat n"
  by (simp add: js_nat_trimmed)

lemma fingerprint_object_ok: "json_ok (fi_validatedArguments i) \<Longrightarrow> json_ok (fingerprint_object i)"
  using js_nat_ok by (simp add: fingerprint_object_def)

text \<open>The fields of a fingerprint, with the arguments as data.\<close>

definition fingerprint_fields :: "fingerprint_input \<Rightarrow> (string \<times> json) list" where
  "fingerprint_fields i =
     [(''toolName'', J_str (fi_toolName i)), (''validatedArguments'', json_data (fi_validatedArguments i)),
      (''sessionId'', J_str (fi_sessionId i)), (''userId'', J_str (fi_userId i)), (''vehicleId'', J_str (fi_vehicleId i)),
      (''contextSnapshotId'', J_str (fi_contextSnapshotId i)), (''contextVersion'', js_nat (fi_contextVersion i))]"

lemma fingerprint_object_fields: "json_data (fingerprint_object i) = J_obj (sort_key fst (fingerprint_fields i))"
proof -
  have "map (map_prod id json_data)
      [(''toolName'', J_str (fi_toolName i)), (''validatedArguments'', fi_validatedArguments i),
      (''sessionId'', J_str (fi_sessionId i)), (''userId'', J_str (fi_userId i)), (''vehicleId'', J_str (fi_vehicleId i)),
      (''contextSnapshotId'', J_str (fi_contextSnapshotId i)), (''contextVersion'', js_nat (fi_contextVersion i))] = fingerprint_fields i"
    by (simp add: fingerprint_fields_def)
  then show ?thesis
    unfolding fingerprint_object_def json_data_simps sort_key_fst_map [symmetric] by (rule arg_cong)
qed

definition same_action :: "fingerprint_input \<Rightarrow> fingerprint_input \<Rightarrow> bool" where
  "same_action i j \<longleftrightarrow>
     fi_toolName i = fi_toolName j \<and> fi_sessionId i = fi_sessionId j \<and> fi_userId i = fi_userId j \<and>
     fi_vehicleId i = fi_vehicleId j \<and> fi_contextSnapshotId i = fi_contextSnapshotId j \<and>
     fi_contextVersion i = fi_contextVersion j \<and>
     json_data (fi_validatedArguments i) = json_data (fi_validatedArguments j)"

lemma fingerprint_object_data:
  "json_data (fingerprint_object i) = json_data (fingerprint_object j) \<longleftrightarrow> same_action i j"
proof
  assume "json_data (fingerprint_object i) = json_data (fingerprint_object j)"
  then have "sort_key fst (fingerprint_fields i) = sort_key fst (fingerprint_fields j)"
    unfolding fingerprint_object_fields by (rule json.inject(5) [THEN iffD1])
  then have "set (fingerprint_fields i) = set (fingerprint_fields j)" by (metis set_sort)
  then have "kv \<in> set (fingerprint_fields i) \<Longrightarrow> kv \<in> set (fingerprint_fields j)" for kv by simp
  note field = this [unfolded fingerprint_fields_def]
  show "same_action i j"
    using field [of "(''toolName'', J_str (fi_toolName i))"] field [of "(''sessionId'', J_str (fi_sessionId i))"]
      field [of "(''userId'', J_str (fi_userId i))"] field [of "(''vehicleId'', J_str (fi_vehicleId i))"]
      field [of "(''contextSnapshotId'', J_str (fi_contextSnapshotId i))"]
      field [of "(''contextVersion'', js_nat (fi_contextVersion i))"]
      field [of "(''validatedArguments'', json_data (fi_validatedArguments i))"]
    unfolding same_action_def by (simp add: js_nat_inject)
next
  assume "same_action i j"
  then have "fingerprint_fields i = fingerprint_fields j" by (simp add: fingerprint_fields_def same_action_def)
  then show "json_data (fingerprint_object i) = json_data (fingerprint_object j)"
    unfolding fingerprint_object_fields by simp
qed

text \<open>
  C20. A fingerprint binds the action: two fingerprints, of inputs that can be serialized, are equal
  exactly when the tool, the session, the user, the vehicle, the snapshot, the context version and
  the arguments (up to the order of keys and the sign of zero) are the same, unless the hash has
  a collision on the two serializations.
\<close>

theorem fingerprints_bind_actions:
  assumes "json_ok (fi_validatedArguments i)" "json_ok (fi_validatedArguments j)"
    and "createActionFingerprint sha i = Inr h" "createActionFingerprint sha j = Inr h'"
    and "\<And>a b. canonicalSerialize (fingerprint_object i) = Inr a \<Longrightarrow>
      canonicalSerialize (fingerprint_object j) = Inr b \<Longrightarrow> sha a = sha b \<Longrightarrow> a = b"
  shows "h = h' \<longleftrightarrow> same_action i j"
proof -
  obtain a b where a: "canonicalSerialize (fingerprint_object i) = Inr a" "h = sha a"
    and b: "canonicalSerialize (fingerprint_object j) = Inr b" "h' = sha b"
    using assms(3,4) by (auto simp: createActionFingerprint_def split: sum.splits)
  have "h = h' \<longleftrightarrow> a = b" using assms(5) [OF a(1) b(1)] a(2) b(2) by auto
  also have "\<dots> \<longleftrightarrow> json_data (fingerprint_object i) = json_data (fingerprint_object j)"
    by (rule canonical_serialization_is_faithful [OF fingerprint_object_ok [OF assms(1)] fingerprint_object_ok [OF assms(2)] a(1) b(1)])
  finally show ?thesis unfolding fingerprint_object_data .
qed

definition slot_input :: "string \<Rightarrow> fingerprint_input" where
  "slot_input u = \<lparr>fi_toolName = ''reserve_charging_slot'',
     fi_validatedArguments = J_obj [(''stationId'', J_str ''s-1''), (''minutes'', js_nat 30)],
     fi_sessionId = ''ses-1'', fi_userId = u, fi_vehicleId = ''veh-1'', fi_contextSnapshotId = ''ctx:5'',
     fi_contextVersion = 5\<rparr>"

theorem fingerprints_bind_actions_witness:
  "\<exists>h h'. createActionFingerprint id (slot_input ''user-1'') = Inr h \<and>
    createActionFingerprint id (slot_input ''user-2'') = Inr h' \<and> h \<noteq> h'"
proof -
  have ok: "json_ok (fi_validatedArguments (slot_input u))" for u
    using js_nat_ok by (simp add: slot_input_def)
  have "\<exists>h. createActionFingerprint id (slot_input u) = Inr h" for u
  proof -
    have "canonical_value (fingerprint_object (slot_input u)) \<noteq> None"
      by (simp add: fingerprint_object_def slot_input_def canonical_object_def canonical_member_def js_nat_def Let_def)
    then show ?thesis by (auto simp: createActionFingerprint_def canonicalSerialize_def)
  qed
  then obtain h h' where h: "createActionFingerprint id (slot_input ''user-1'') = Inr h"
    "createActionFingerprint id (slot_input ''user-2'') = Inr h'" by metis
  have "\<not> same_action (slot_input ''user-1'') (slot_input ''user-2'')" by (simp add: same_action_def slot_input_def)
  with fingerprints_bind_actions [OF ok ok h] have "h \<noteq> h'" by simp
  with h show ?thesis by blast
qed

end
