(* ===== verification/UrgentEvents.thy ===== *)
theory UrgentEvents
  imports Domain PolicyRules CanonicalBinding ExecRecords "HOL-Library.Product_Lexorder"
begin

text \<open>
  Urgent events, \<open>packages/urgent-events/src\<close>: what an event is and when it is accepted
  (\<open>model.ts\<close>), how urgent it is (\<open>classifier.ts\<close>), what it calls for (\<open>planner.ts\<close>), and the
  durable table that gives every event one owner at a time, \<open>packages/persistence/src/urgent-event.ts\<close>
  with the records of \<open>repository.ts\<close>. A transaction is a function on the table; processes
  interleave between transactions.
\<close>

section \<open>Events\<close>

text \<open>\<open>UrgentEventValidationError\<close>, \<open>UrgentEventTransientError\<close> with its delay, \<open>UrgentEventPermanentError\<close>.\<close>

datatype urgent_failure = Urgent_invalid | Urgent_transient "int option" | Urgent_permanent

datatype urgent_severity = SV_INFO | SV_WARNING | SV_HIGH | SV_CRITICAL
datatype urgent_source = SO_VEHICLE | SO_SIMULATOR | SO_SERVICE

text \<open>The event type and its payload.\<close>

datatype urgent_payload =
  LOW_SOC rat
| CHARGING_INTERRUPTED string
| VEHICLE_FAULT string bool
| ROUTE_BLOCKED "string option" string
| ASSISTANCE_REQUIRED string bool

record urgent_event =
  ue_eventId :: string
  ue_source :: urgent_source
  ue_vehicleId :: string
  ue_occurredAt :: utc_timestamp
  ue_receivedAt :: utc_timestamp
  ue_severity :: urgent_severity
  ue_correlationId :: string
  ue_payload :: urgent_payload

text \<open>The pattern \<open>^[A-Z0-9_]+$\<close> with at most 64 characters.\<close>

definition safe_code :: "string \<Rightarrow> bool" where
  "safe_code s \<longleftrightarrow> s \<noteq> [] \<and> length s \<le> 64 \<and>
     list_all (\<lambda>c. is_digit c \<or> c = CHR ''_'' \<or> c \<in> set ''ABCDEFGHIJKLMNOPQRSTUVWXYZ'') s"

fun payload_ok :: "urgent_payload \<Rightarrow> bool" where
  "payload_ok (LOW_SOC soc) \<longleftrightarrow> 0 \<le> soc \<and> soc \<le> 100"
| "payload_ok (CHARGING_INTERRUPTED reason) \<longleftrightarrow> safe_code reason"
| "payload_ok (VEHICLE_FAULT fault_code critical) \<longleftrightarrow> safe_code fault_code"
| "payload_ok (ROUTE_BLOCKED route reason) \<longleftrightarrow>
     (case route of None \<Rightarrow> True | Some r \<Rightarrow> r \<noteq> [] \<and> length r \<le> 128) \<and> safe_code reason"
| "payload_ok (ASSISTANCE_REQUIRED reason danger) \<longleftrightarrow> safe_code reason"

definition UrgentEventSchema :: "urgent_event \<Rightarrow> bool" where
  "UrgentEventSchema e \<longleftrightarrow> safe_id 127 (ue_eventId e) \<and> safe_id 127 (ue_correlationId e) \<and>
     domain_id (ue_vehicleId e) \<and> payload_ok (ue_payload e)"

text \<open>
  An input: the event it may be read as; whether its timestamps have the form of one where they
  are none (\<open>2026-02-30T...\<close> has it), and the five fields by which a refused input can still be
  told, where they are strings, with what \<open>Date.parse\<close> makes of the last.
\<close>

record urgent_input =
  ui_event :: "urgent_event untyped"
  ui_patterned :: bool
  ui_isRecord :: bool
  ui_eventId :: "string option"
  ui_eventType :: "string option"
  ui_vehicleId :: "string option"
  ui_correlationId :: "string option"
  ui_receivedAt :: "string option"
  ui_receivedMs :: "int option"

text \<open>\<open>Some\<close> failure, or the error of the domain for a timestamp that only has the form of one.\<close>

definition parseUrgentEvent :: "urgent_input \<Rightarrow> (urgent_failure option, urgent_event) result" where
  "parseUrgentEvent i = (case ui_event i of
     Uncloneable \<Rightarrow> Inl (Some Urgent_invalid)
   | Misshaped _ \<Rightarrow> Inl (Some Urgent_invalid)
   | Shaped e \<Rightarrow>
       let real = iso_range (ue_occurredAt e) \<and> iso_range (ue_receivedAt e) in
       if \<not> UrgentEventSchema e \<or> \<not> real \<and> \<not> ui_patterned i then Inl (Some Urgent_invalid)
       else (case (timestampMs (ue_occurredAt e) ''urgentEvent.occurredAt'',
                   timestampMs (ue_receivedAt e) ''urgentEvent.receivedAt'') of
               (Inr occurred, Inr received) \<Rightarrow>
                 if occurred > received then Inl (Some Urgent_invalid) else Inr e
             | _ \<Rightarrow> Inl None))"

record rejectable =
  rj_eventId :: string
  rj_eventType :: string
  rj_vehicleId :: string
  rj_correlationId :: string
  rj_receivedAt :: string
  rj_receivedMs :: int

definition readRejectableEventIdentity :: "urgent_input \<Rightarrow> rejectable option" where
  "readRejectableEventIdentity i =
     (if \<not> ui_isRecord i then None
      else case (ui_eventId i, ui_eventType i, ui_vehicleId i, ui_correlationId i, ui_receivedAt i, ui_receivedMs i) of
        (Some eventId, Some typeName, Some vehicleId, Some correlationId, Some receivedAt, Some ms) \<Rightarrow>
          if safe_id 127 eventId \<and> safe_id 127 correlationId \<and>
             typeName \<noteq> [] \<and> length typeName \<le> 64 \<and> vehicleId \<noteq> [] \<and> length vehicleId \<le> 128
          then Some \<lparr>rj_eventId = eventId, rj_eventType = typeName, rj_vehicleId = vehicleId,
                     rj_correlationId = correlationId, rj_receivedAt = receivedAt, rj_receivedMs = ms\<rparr>
          else None
      | _ \<Rightarrow> None)"

section \<open>Fingerprints\<close>

text \<open>
  The canonical text of an event. Its member names are ordered the same by \<open>localeCompare\<close> and by
  code units. The printing of numbers and of timestamps is a parameter.
\<close>

record urgent_printing =
  up_sha :: "string \<Rightarrow> string"
  up_number :: "rat \<Rightarrow> js_number"
  up_iso :: "utc_timestamp \<Rightarrow> string"

fun event_type_of :: "urgent_payload \<Rightarrow> string" where
  "event_type_of (LOW_SOC _) = ''LOW_SOC''"
| "event_type_of (CHARGING_INTERRUPTED _) = ''CHARGING_INTERRUPTED''"
| "event_type_of (VEHICLE_FAULT _ _) = ''VEHICLE_FAULT''"
| "event_type_of (ROUTE_BLOCKED _ _) = ''ROUTE_BLOCKED''"
| "event_type_of (ASSISTANCE_REQUIRED _ _) = ''ASSISTANCE_REQUIRED''"

fun payload_members :: "(rat \<Rightarrow> js_number) \<Rightarrow> urgent_payload \<Rightarrow> (string \<times> json) list" where
  "payload_members num (LOW_SOC soc) = [(''reportedSoc'', J_num (num soc))]"
| "payload_members num (CHARGING_INTERRUPTED reason) = [(''reasonCode'', J_str reason)]"
| "payload_members num (VEHICLE_FAULT fault_code critical) =
     [(''critical'', J_bool critical), (''faultCode'', J_str fault_code)]"
| "payload_members num (ROUTE_BLOCKED route reason) = (''reasonCode'', J_str reason) #
     (case route of None \<Rightarrow> [] | Some r \<Rightarrow> [(''routeId'', J_str r)])"
| "payload_members num (ASSISTANCE_REQUIRED reason danger) =
     [(''immediateDanger'', J_bool danger), (''reasonCode'', J_str reason)]"

fun severity_name :: "urgent_severity \<Rightarrow> string" where
  "severity_name SV_INFO = ''INFO''"
| "severity_name SV_WARNING = ''WARNING''"
| "severity_name SV_HIGH = ''HIGH''"
| "severity_name SV_CRITICAL = ''CRITICAL''"

fun source_name :: "urgent_source \<Rightarrow> string" where
  "source_name SO_VEHICLE = ''VEHICLE''"
| "source_name SO_SIMULATOR = ''SIMULATOR''"
| "source_name SO_SERVICE = ''SERVICE''"

definition event_json :: "urgent_printing \<Rightarrow> urgent_event \<Rightarrow> json" where
  "event_json pr e = J_obj
     [(''correlationId'', J_str (ue_correlationId e)), (''eventId'', J_str (ue_eventId e)),
      (''eventType'', J_str (event_type_of (ue_payload e))), (''occurredAt'', J_str (up_iso pr (ue_occurredAt e))),
      (''payload'', J_obj (payload_members (up_number pr) (ue_payload e))),
      (''receivedAt'', J_str (up_iso pr (ue_receivedAt e))), (''schemaVersion'', js_nat 1),
      (''severity'', J_str (severity_name (ue_severity e))), (''source'', J_str (source_name (ue_source e))),
      (''vehicleId'', J_str (ue_vehicleId e))]"

definition urgentEventFingerprint :: "urgent_printing \<Rightarrow> urgent_event \<Rightarrow> string" where
  "urgentEventFingerprint pr e =
     up_sha pr (case canonical_value (event_json pr e) of None \<Rightarrow> [] | Some canonical \<Rightarrow> canonical)"

section \<open>Classification and planning\<close>

record urgent_thresholds =
  th_lowSocCriticalPercent :: rat
  th_lowSocHighPercent :: rat
  th_lowSocWarningPercent :: rat
  th_lowSocActionPercent :: rat
  th_lowSocRecoveredPercent :: rat

definition URGENT_EVENT_THRESHOLDS :: urgent_thresholds where
  "URGENT_EVENT_THRESHOLDS = \<lparr>th_lowSocCriticalPercent = 5, th_lowSocHighPercent = 15,
     th_lowSocWarningPercent = 30, th_lowSocActionPercent = 15, th_lowSocRecoveredPercent = 20\<rparr>"

definition classify_event :: "urgent_event \<Rightarrow> urgent_severity" where
  "classify_event e = (case ue_payload e of
     LOW_SOC soc \<Rightarrow>
       if soc \<le> th_lowSocCriticalPercent URGENT_EVENT_THRESHOLDS then SV_CRITICAL
       else if soc \<le> th_lowSocHighPercent URGENT_EVENT_THRESHOLDS then SV_HIGH
       else if soc \<le> th_lowSocWarningPercent URGENT_EVENT_THRESHOLDS then SV_WARNING else SV_INFO
   | CHARGING_INTERRUPTED _ \<Rightarrow> SV_HIGH
   | VEHICLE_FAULT _ critical \<Rightarrow> if critical then SV_CRITICAL else SV_HIGH
   | ROUTE_BLOCKED _ _ \<Rightarrow> SV_WARNING
   | ASSISTANCE_REQUIRED _ danger \<Rightarrow> if danger then SV_CRITICAL else SV_HIGH)"

record urgent_candidate =
  uc_toolName :: string
  uc_arguments :: json
  uc_safeSummary :: string

datatype urgent_plan = Plan_action urgent_candidate | Plan_resolved string | Plan_replan string

definition plan_action :: "string \<Rightarrow> (string \<times> json) list \<Rightarrow> string \<Rightarrow> urgent_plan" where
  "plan_action name args summary =
     Plan_action \<lparr>uc_toolName = name, uc_arguments = J_obj args, uc_safeSummary = summary\<rparr>"

definition plan_event :: "urgent_event \<Rightarrow> driving_context \<Rightarrow> urgent_plan" where
  "plan_event e x = (case ue_payload e of
     LOW_SOC _ \<Rightarrow>
       if ve_soc (cx_vehicle x) \<ge> th_lowSocRecoveredPercent URGENT_EVENT_THRESHOLDS
       then Plan_resolved ''Current vehicle state no longer indicates actionable low SOC.''
       else if ve_soc (cx_vehicle x) > th_lowSocActionPercent URGENT_EVENT_THRESHOLDS
       then Plan_resolved ''Current SOC is above the urgent charging-action threshold.''
       else plan_action ''reroute_to_charger'' [(''stationId'', J_str ''station-pudong-001'')]
              ''Low SOC requires user-confirmed rerouting to a known available charger.''
   | CHARGING_INTERRUPTED _ \<Rightarrow>
       if ve_chargingState (cx_vehicle x) \<noteq> CH_fault
       then Plan_resolved ''Current charging state no longer reports a charging fault.''
       else plan_action ''get_charging_status'' []
              ''Charging interruption requires a fresh charging-status read.''
   | VEHICLE_FAULT fault_code _ \<Rightarrow>
       plan_action ''request_roadside_assistance'' [(''reason'', J_str (''Vehicle fault '' @ fault_code))]
         ''A validated vehicle fault requires user-confirmed roadside assistance.''
   | ROUTE_BLOCKED route _ \<Rightarrow>
       if route \<noteq> None \<and> tp_routeId (cx_trip x) \<noteq> route
       then Plan_resolved ''The blocked route is no longer the current route.''
       else Plan_replan ''The current route is blocked and requires a fresh plan.''
   | ASSISTANCE_REQUIRED reason _ \<Rightarrow>
       plan_action ''request_emergency_support'' [(''reason'', J_str (''Assistance required: '' @ reason))]
         ''Assistance requires explicit user confirmation before support is requested.'')"

section \<open>Records\<close>

datatype urgent_status =
  UE_RECEIVED | UE_PROCESSING | UE_HANDLED | UE_REJECTED | UE_REPLAN_REQUIRED | UE_FAILED

text \<open>\<open>resultCode\<close>: a constant of the processor, the reason of a decision, or the status of an execution.\<close>

datatype urgent_code =
  UK_CONTEXT_UNAVAILABLE
| UK_NO_ACTION_REQUIRED
| UK_REPLAN_REQUIRED
| UK_URGENT_EVENT_INVALID
| UK_URGENT_EVENT_TRANSIENT_FAILURE
| UK_URGENT_EVENT_PERMANENT_FAILURE
| UK_URGENT_EVENT_INTERNAL_FAILURE
| UK_URGENT_EVENT_ID_CONFLICT
| UK_reason policy_reason
| UK_execution execution_state

record urgent_result =
  uo_safeSummary :: string
  uo_toolName :: "string option"
  uo_policyDecision :: "decision_type option"
  uo_actionId :: "string option"
  uo_executionId :: "string option"
  uo_requiresConfirmation :: "bool option"
  uo_resultCode :: "urgent_code option"

definition summary_only :: "string \<Rightarrow> urgent_result" where
  "summary_only summary = \<lparr>uo_safeSummary = summary, uo_toolName = None, uo_policyDecision = None,
     uo_actionId = None, uo_executionId = None, uo_requiresConfirmation = None, uo_resultCode = None\<rparr>"

record urgent_record =
  uv_eventId :: string
  uv_eventFingerprint :: string
  uv_eventType :: string
  uv_vehicleId :: string
  uv_severity :: urgent_severity
  uv_status :: urgent_status
  uv_receivedAt :: utc_timestamp
  uv_processedAt :: "utc_timestamp option"
  uv_correlationId :: string
  uv_processingOwner :: "string option"
  uv_processingExpiresAt :: "utc_timestamp option"
  uv_attemptCount :: nat
  uv_result :: urgent_result

type_synonym urgent_table = "string \<rightharpoonup> urgent_record"

record claim_input =
  cl_event :: urgent_event
  cl_severity :: urgent_severity
  cl_ownerId :: string
  cl_now :: utc_timestamp
  cl_leaseMs :: int

datatype urgent_claim = Claimed urgent_record | Duplicate urgent_record | Conflict urgent_record

section \<open>The table\<close>

text \<open>\<open>insert ... on conflict (event_id) do nothing\<close>.\<close>

definition insert_new :: "urgent_record \<Rightarrow> urgent_table \<Rightarrow> urgent_table" where
  "insert_new r t = (if t (uv_eventId r) \<noteq> None then t else t(uv_eventId r \<mapsto> r))"

definition received_record :: "string \<Rightarrow> claim_input \<Rightarrow> urgent_record" where
  "received_record fingerprint c = \<lparr>uv_eventId = ue_eventId (cl_event c), uv_eventFingerprint = fingerprint,
     uv_eventType = event_type_of (ue_payload (cl_event c)), uv_vehicleId = ue_vehicleId (cl_event c),
     uv_severity = cl_severity c, uv_status = UE_RECEIVED, uv_receivedAt = ue_receivedAt (cl_event c),
     uv_processedAt = None, uv_correlationId = ue_correlationId (cl_event c), uv_processingOwner = None,
     uv_processingExpiresAt = None, uv_attemptCount = 0,
     uv_result = summary_only ''Urgent event received.''\<rparr>"

text \<open>A comparison with null is not true.\<close>

definition claimable :: "string \<Rightarrow> utc_timestamp \<Rightarrow> urgent_record \<Rightarrow> bool" where
  "claimable fingerprint now r \<longleftrightarrow> uv_eventFingerprint r = fingerprint \<and>
     (uv_status r \<in> {UE_RECEIVED, UE_FAILED} \<or> uv_status r = UE_PROCESSING \<and>
        (case uv_processingExpiresAt r of None \<Rightarrow> False | Some expires \<Rightarrow> expires \<le> now))"

definition claimed_record :: "claim_input \<Rightarrow> urgent_record \<Rightarrow> urgent_record" where
  "claimed_record c r = r\<lparr>uv_status := UE_PROCESSING, uv_processingOwner := Some (cl_ownerId c),
     uv_processingExpiresAt := Some (cl_now c + cl_leaseMs c), uv_processedAt := None,
     uv_attemptCount := uv_attemptCount r + 1,
     uv_result := summary_only ''Urgent event processing is in progress.''\<rparr>"

text \<open>
  The transaction of a claim: the insert and the conditional update. When it claims nothing it
  changed nothing, and the statement that then reads the row sees what is committed by then.
\<close>

definition claim_transaction :: "string \<Rightarrow> claim_input \<Rightarrow> urgent_table \<Rightarrow> urgent_record option \<times> urgent_table" where
  "claim_transaction fingerprint c t =
     (let t1 = insert_new (received_record fingerprint c) t; k = ue_eventId (cl_event c) in
      case t1 k of
        None \<Rightarrow> (None, t1)
      | Some r \<Rightarrow> if claimable fingerprint (cl_now c) r
                  then (Some (claimed_record c r), t1(k \<mapsto> claimed_record c r)) else (None, t1))"

definition claim_answer :: "string \<Rightarrow> urgent_record \<Rightarrow> urgent_claim" where
  "claim_answer fingerprint r = (if uv_eventFingerprint r \<noteq> fingerprint then Conflict r else Duplicate r)"

record completion =
  co_eventId :: string
  co_ownerId :: string
  co_status :: urgent_status
  co_processedAt :: utc_timestamp
  co_outcome :: urgent_result

definition completed_record :: "completion \<Rightarrow> urgent_record \<Rightarrow> urgent_record" where
  "completed_record c r = r\<lparr>uv_status := co_status c, uv_processedAt := Some (co_processedAt c),
     uv_processingOwner := None, uv_processingExpiresAt := None, uv_result := co_outcome c\<rparr>"

definition complete_transaction :: "completion \<Rightarrow> urgent_table \<Rightarrow> urgent_record option \<times> urgent_table" where
  "complete_transaction c t = (case t (co_eventId c) of
     None \<Rightarrow> (None, t)
   | Some r \<Rightarrow> if uv_status r = UE_PROCESSING \<and> uv_processingOwner r = Some (co_ownerId c)
               then (Some (completed_record c r), t(co_eventId c \<mapsto> completed_record c r)) else (None, t))"

text \<open>The record of an input that is no event; its fingerprint is of the five fields.\<close>

definition rejected_record :: "urgent_printing \<Rightarrow> rejectable \<Rightarrow> utc_timestamp \<Rightarrow> utc_timestamp \<Rightarrow> urgent_record" where
  "rejected_record pr j receivedAt processedAt =
     \<lparr>uv_eventId = rj_eventId j,
      uv_eventFingerprint = up_sha pr (''{'' @ join_comma (map (\<lambda>(k, v). quote_string k @ '':'' @ quote_string v)
        [(''eventId'', rj_eventId j), (''eventType'', rj_eventType j), (''vehicleId'', rj_vehicleId j),
         (''receivedAt'', up_iso pr receivedAt), (''correlationId'', rj_correlationId j)]) @ ''}''),
      uv_eventType = ''UNKNOWN'', uv_vehicleId = rj_vehicleId j, uv_severity = SV_WARNING,
      uv_status = UE_REJECTED, uv_receivedAt = receivedAt, uv_processedAt = Some processedAt,
      uv_correlationId = rj_correlationId j, uv_processingOwner = None, uv_processingExpiresAt = None,
      uv_attemptCount = 1,
      uv_result = (summary_only ''Urgent event failed validation and was not executed.'')
                    \<lparr>uo_resultCode := Some UK_URGENT_EVENT_INVALID\<rparr>\<rparr>"

definition reject_transaction :: "urgent_record \<Rightarrow> urgent_table \<Rightarrow> urgent_record option \<times> urgent_table" where
  "reject_transaction r t = (if t (uv_eventId r) \<noteq> None then (None, t) else (Some r, insert_new r t))"

text \<open>The database orders the rows; event ids are compared by code units here.\<close>

definition listByVehicle :: "string \<Rightarrow> int \<Rightarrow> urgent_record list \<Rightarrow> (unit, urgent_record list) result" where
  "listByVehicle vehicleId limit rows =
     (if \<not> is_safe_integer limit \<or> limit < 1 \<or> limit > 100 then Inl ()
      else Inr (take (nat limit) (rev (sort_key (\<lambda>r. (uv_receivedAt r, uv_eventId r))
                 (filter (\<lambda>r. uv_vehicleId r = vehicleId) rows)))))"

section \<open>Notifications and observations\<close>

datatype urgent_notification_type =
  NT_received | NT_action_required | NT_confirmation_required | NT_resolved | NT_failed

record urgent_notification =
  nf_notificationId :: string
  nf_notificationType :: urgent_notification_type
  nf_eventId :: string
  nf_eventType :: string
  nf_vehicleId :: string
  nf_userId :: string
  nf_severity :: urgent_severity
  nf_status :: urgent_status
  nf_safeSummary :: string
  nf_runId :: string
  nf_traceId :: string
  nf_timestamp :: utc_timestamp
  nf_actionId :: "string option"
  nf_sessionId :: "string option"
  nf_toolName :: "string option"
  nf_riskLevel :: "risk_level option"
  nf_expiresAt :: "utc_timestamp option"
  nf_confirmationCredential :: "string option"

datatype urgent_observation_type =
  UO_event_received
| UO_event_duplicate
| UO_event_rejected
| UO_event_processed
| UO_event_failed
| UO_context_load_started
| UO_context_load_completed
| UO_policy_evaluate_started
| UO_policy_evaluate_completed
| UO_executor_started
| UO_executor_completed
| UO_confirmation_required

text \<open>Of the error code of an observation only its presence is kept.\<close>

record urgent_observation =
  uw_observationType :: urgent_observation_type
  uw_eventId :: string
  uw_eventType :: string
  uw_severity :: urgent_severity
  uw_status :: urgent_status
  uw_runId :: string
  uw_traceId :: string
  uw_timestamp :: utc_timestamp
  uw_toolName :: "string option"
  uw_actionId :: "string option"
  uw_executionId :: "string option"
  uw_policyDecision :: "decision_type option"
  uw_failed :: bool

text \<open>What a process keeps of urgent events: the table it shares with all others, and what it told.\<close>

record urgent_state =
  us_table :: urgent_table
  us_notifications :: "urgent_notification list"
  us_observations :: "urgent_observation list"

end
