(* ===== verification/AgentState.thy ===== *)
theory AgentState
  imports Executor ActionService UrgentEvents
begin

text \<open>
  What a run of the agent works on, \<open>packages/agent-runtime/src\<close>: the errors of
  \<open>runtime-errors.ts\<close>, the state machine of a run (\<open>agent-run.ts\<close>), the events
  (\<open>runtime-events.ts\<close>, with \<open>createEvent\<close>, \<open>emit\<close> and \<open>emitRuntime\<close> of
  \<open>production-runtime.ts\<close>) and the channel of the confirmation challenges
  (\<open>trusted-confirmation-channel.ts\<close>). A run works on the executor's process state and on a
  scene: what else it shares with the rest of the process, and its own evidence. At every await
  the rest of the process runs: other runs, other tool calls of the same run, the loss of the
  session lease, a cancellation.
\<close>

section \<open>Errors\<close>

datatype runtime_error_code =
  RC_CONFIGURATION_ERROR
| RC_CONTEXT_LOAD_FAILED
| RC_CONTEXT_INVALID
| RC_CAPABILITY_RESOLUTION_FAILED
| RC_MODEL_ERROR
| RC_TOOL_ERROR
| RC_POLICY_DENIED
| RC_POLICY_REPLAN_REQUIRED
| RC_POLICY_CONFIRMATION_REQUIRED
| RC_SESSION_BUSY
| RC_RUN_CANCELLED
| RC_INTERNAL_ERROR

datatype policy_control = PC_DENIED | PC_REPLAN_REQUIRED | PC_CONFIRMATION_REQUIRED

text \<open>What the message of an error of the session's persistence tells.\<close>

datatype persistence_failure = Identity_mismatch | Lease_lost | Persistence_unavailable

text \<open>
  What a run throws. An \<open>AgentRuntimeError\<close> is its code and whether it is retryable; a
  \<open>ContextLoadFailure\<close> is one that carries a recovery receipt. The messages are left out. The
  handling of urgent events works on the same components and has its own errors.
\<close>

datatype agent_thrown =
  Agent_error runtime_error_code bool
| Context_load_failure "recovery_receipt option"
| Policy_control policy_control policy_decision
| Policy_lifecycle
| Tool_failure tool_error_code
| Persistence_failure persistence_failure
| Urgent_error urgent_failure
| Other_thrown

definition is_agent_error :: "agent_thrown \<Rightarrow> bool" where
  "is_agent_error e \<longleftrightarrow> (case e of Agent_error _ _ \<Rightarrow> True | Context_load_failure _ \<Rightarrow> True | _ \<Rightarrow> False)"

definition safeRuntimeError :: "agent_thrown \<Rightarrow> runtime_error_code \<times> bool" where
  "safeRuntimeError e = (case e of
     Agent_error code retryable \<Rightarrow> (code, retryable)
   | Context_load_failure _ \<Rightarrow> (RC_CONTEXT_LOAD_FAILED, True)
   | _ \<Rightarrow> (RC_INTERNAL_ERROR, False))"

section \<open>The state machine of a run\<close>

datatype run_status =
  RUN_CREATED
| CONTEXT_LOADING
| CAPABILITY_RESOLUTION
| MODEL_RUNNING
| TOOL_REQUESTED
| TOOL_PROCESSING
| MODEL_RESUMED
| RUN_SUCCEEDED
| RUN_FAILED
| RUN_CANCELLED

definition terminal_status :: "run_status \<Rightarrow> bool" where
  "terminal_status st \<longleftrightarrow> st \<in> {RUN_SUCCEEDED, RUN_FAILED, RUN_CANCELLED}"

fun legal_run :: "run_status \<Rightarrow> run_status list" where
  "legal_run RUN_CREATED = [CONTEXT_LOADING, RUN_CANCELLED, RUN_FAILED]"
| "legal_run CONTEXT_LOADING = [CAPABILITY_RESOLUTION, RUN_CANCELLED, RUN_FAILED]"
| "legal_run CAPABILITY_RESOLUTION = [MODEL_RUNNING, RUN_CANCELLED, RUN_FAILED]"
| "legal_run MODEL_RUNNING = [TOOL_REQUESTED, RUN_SUCCEEDED, RUN_CANCELLED, RUN_FAILED]"
| "legal_run TOOL_REQUESTED = [TOOL_PROCESSING, RUN_CANCELLED, RUN_FAILED]"
| "legal_run TOOL_PROCESSING = [MODEL_RESUMED, RUN_CANCELLED, RUN_FAILED]"
| "legal_run MODEL_RESUMED = [MODEL_RUNNING, TOOL_REQUESTED, RUN_SUCCEEDED, RUN_CANCELLED, RUN_FAILED]"
| "legal_run _ = []"

record agent_run =
  ar_runId :: string
  ar_sessionId :: string
  ar_traceId :: string
  ar_createdAt :: utc_timestamp
  ar_contextSnapshotId :: "string option"
  ar_status :: run_status
  ar_history :: "run_status list"

definition new_agent_run :: "string \<Rightarrow> string \<Rightarrow> string \<Rightarrow> utc_timestamp \<Rightarrow> agent_run" where
  "new_agent_run runId sessionId traceId createdAt =
     \<lparr>ar_runId = runId, ar_sessionId = sessionId, ar_traceId = traceId, ar_createdAt = createdAt,
      ar_contextSnapshotId = None, ar_status = RUN_CREATED, ar_history = [RUN_CREATED]\<rparr>"

definition attachContext :: "agent_run \<Rightarrow> string \<Rightarrow> (agent_thrown, agent_run) result" where
  "attachContext r snapshotId =
     (if ar_contextSnapshotId r \<noteq> None \<and> ar_contextSnapshotId r \<noteq> Some snapshotId
      then Inl (Agent_error RC_INTERNAL_ERROR False)
      else Inr (r\<lparr>ar_contextSnapshotId := Some snapshotId\<rparr>))"

definition canTransition :: "agent_run \<Rightarrow> run_status \<Rightarrow> bool" where
  "canTransition r next_status \<longleftrightarrow> next_status \<in> set (legal_run (ar_status r))"

definition run_transition :: "agent_run \<Rightarrow> run_status \<Rightarrow> (agent_thrown, agent_run) result" where
  "run_transition r next_status =
     (if \<not> canTransition r next_status then Inl (Agent_error RC_INTERNAL_ERROR False)
      else Inr (r\<lparr>ar_status := next_status, ar_history := ar_history r @ [next_status]\<rparr>))"

section \<open>Events and evidence\<close>

datatype runtime_event_type =
  RE_run_started
| RE_context_loaded
| RE_capabilities_resolved
| RE_model_started
| RE_tool_requested
| RE_evaluation_started
| RE_decision_made
| RE_execution_blocked
| RE_tool_completed
| RE_model_resumed
| RE_run_completed
| RE_run_failed

text \<open>
  The metadata of an event, but for the constants \<open>runtimeMode\<close> and \<open>boundary\<close>.
\<close>

record runtime_metadata =
  md_toolName :: "string option"
  md_toolCallId :: "string option"
  md_contextVersion :: "int option"
  md_contextFreshness :: "freshness_status option"
  md_availableToolCount :: "nat option"
  md_isError :: "bool option"
  md_errorCode :: "runtime_error_code option"
  md_decision :: "decision_type option"
  md_ruleId :: "string option"
  md_reasonCode :: "policy_reason option"
  md_planIncomplete :: bool

definition no_metadata :: runtime_metadata where
  "no_metadata = \<lparr>md_toolName = None, md_toolCallId = None, md_contextVersion = None,
     md_contextFreshness = None, md_availableToolCount = None, md_isError = None,
     md_errorCode = None, md_decision = None, md_ruleId = None, md_reasonCode = None,
     md_planIncomplete = False\<rparr>"

record runtime_event =
  ev_eventId :: string
  ev_eventType :: runtime_event_type
  ev_runId :: string
  ev_sessionId :: string
  ev_traceId :: string
  ev_timestamp :: utc_timestamp
  ev_metadata :: runtime_metadata

record tool_evidence =
  tv_toolName :: string
  tv_succeeded :: bool
  tv_completedAfterCancel :: bool
  tv_validatedArguments :: "json option"
  tv_result :: "json option"
  tv_policyControl :: "policy_control option"

section \<open>Sessions and the events of Pi\<close>

text \<open>
  The agent of a session is a library; of its state the source reads and writes the messages
  (of which it looks at the role and the text) and the names of its tools.
\<close>

datatype message_role = From_user | From_assistant | From_tool

record session_message =
  sm_role :: message_role
  sm_text :: string

record agent_session =
  se_activeRun :: "string option"
  se_createdAt :: utc_timestamp
  se_updatedAt :: utc_timestamp
  se_messages :: "session_message list"
  se_tools :: "string list"

datatype pi_event =
  Message_update string
| Turn_start
| Tool_execution_start string string
| Tool_execution_end string string bool
| Turn_end bool nat
| Pi_other

text \<open>What the agent does in a prompt: it tells its listeners, calls a tool, adds a message.\<close>

datatype pi_step = Pi_tells pi_event | Pi_calls string json | Pi_adds session_message

text \<open>The state of \<open>PiEventAdapter\<close>.\<close>

record pi_state =
  pw_callIds :: "string \<rightharpoonup> nat"
  pw_next :: nat
  pw_active :: "string \<rightharpoonup> string"
  pw_completed :: "string list"
  pw_toolErrors :: nat

definition new_pi_state :: pi_state where
  "new_pi_state = \<lparr>pw_callIds = Map.empty, pw_next = 1, pw_active = Map.empty,
     pw_completed = [], pw_toolErrors = 0\<rparr>"

section \<open>The scene\<close>

text \<open>
  The first nine fields are shared by the runs of the process: the snapshot builder of the
  context loader, the sequences of the allocators, the issued ids, the challenges in the trusted
  channel, the sessions with those being created, and the urgent events. The others belong to the run: its state
  machine, its events, the evidence for its result, the confirmations it asked for, the flags of
  its closures, whether its id is among the cancelled ones, whether the signal of its tool calls
  is aborted, and its adapter of the events of Pi.
\<close>

record scene =
  sn_builder :: snapshot_builder
  sn_sequences :: sequence_store
  sn_issuedRunIds :: "string list"
  sn_issuedTraceIds :: "string list"
  sn_issuedEventIds :: "string list"
  sn_challenges :: "string \<rightharpoonup> confirmation_challenge"
  sn_sessions :: "string \<rightharpoonup> agent_session"
  sn_pendingSessions :: "string list"
  sn_urgent :: urgent_state
  sn_run :: agent_run
  sn_available :: "string list"
  sn_events :: "runtime_event list"
  sn_decisions :: "policy_decision list"
  sn_executions :: "tool_evidence list"
  sn_confirmations :: "safe_result list"
  sn_receipts :: "recovery_receipt list"
  sn_intents :: "string list"
  sn_sinkFailed :: bool
  sn_boundaryFailed :: bool
  sn_leaseLost :: bool
  sn_inFlight :: bool
  sn_committed :: bool
  sn_cancelled :: bool
  sn_aborted :: bool
  sn_pi :: pi_state

record 'z agent =
  ag_exec :: "'z run"
  ag_scene :: scene

type_synonym ('z, 'a) agentic = "('z agent, agent_thrown, 'a) async"

text \<open>
  The environment: the executor's, what the rest of the process does to the scene at an await,
  and the answers of what the run calls, by the running position. \<open>None\<close> is a rejection, or an
  id factory that throws. \<open>av_sleep\<close> is the sleeper of the recovery manager, \<open>av_first\<close> picks
  the one that comes first among several rejections.
\<close>

record 'z agent_env =
  av_exec :: "'z exec_env"
  av_around :: "nat \<Rightarrow> scene \<Rightarrow> scene"
  av_actions :: action_env
  av_vehicleTrip :: "nat \<Rightarrow> int \<Rightarrow> (thrown, vehicle_state untyped \<times> trip_state untyped \<times> int) result"
  av_vehicle :: "nat \<Rightarrow> int \<Rightarrow> (thrown, vehicle_state untyped) result"
  av_trip :: "nat \<Rightarrow> int \<Rightarrow> (thrown, trip_state untyped) result"
  av_weather :: "nat \<Rightarrow> weather_state untyped option"
  av_user :: "nat \<Rightarrow> driving_user untyped option"
  av_capabilities :: "nat \<Rightarrow> vehicle_capabilities untyped option"
  av_services :: "nat \<Rightarrow> (string \<times> bool) list option"
  av_sleep :: "nat \<Rightarrow> int \<Rightarrow> thrown option"
  av_first :: "nat \<Rightarrow> nat"
  av_eventId :: "nat \<Rightarrow> string option"
  av_fallback :: "nat \<Rightarrow> string \<times> utc_timestamp"
  av_deliver :: "nat \<Rightarrow> bool"
  av_runId :: "nat \<Rightarrow> string option"
  av_traceId :: "nat \<Rightarrow> string option"
  av_fallbackId :: "nat \<Rightarrow> nat \<Rightarrow> string"
  av_coordinate :: "nat \<Rightarrow> (agent_thrown, bool) result"
  av_release :: "nat \<Rightarrow> (agent_thrown, unit) result"
  av_bind :: "nat \<Rightarrow> (agent_thrown, unit) result"
  av_history :: "nat \<Rightarrow> (agent_thrown, session_message list) result"
  av_append :: "nat \<Rightarrow> (agent_thrown, unit) result"
  av_delta :: "nat \<Rightarrow> (agent_thrown, unit) result"
  av_usage :: "nat \<Rightarrow> (agent_thrown, unit) result"
  av_pi :: "nat \<Rightarrow> pi_step list"
  av_promptEnd :: "nat \<Rightarrow> (agent_thrown, unit) result"
  av_sessionError :: "nat \<Rightarrow> bool"
  av_executionId :: "nat \<Rightarrow> string"
  av_direct :: "nat \<Rightarrow> (tool_error_code, json) result"

section \<open>Primitive steps\<close>

definition position :: "'z agent \<Rightarrow> nat" where
  "position s = rn_tick (ag_exec s)"

definition clock_at :: "'z agent_env \<Rightarrow> nat \<Rightarrow> int" where
  "clock_at env n = xv_clock (av_exec env) n"

definition advance :: "nat \<Rightarrow> 'z agent \<Rightarrow> 'z agent" where
  "advance k s = s\<lparr>ag_exec := (ag_exec s)\<lparr>rn_tick := rn_tick (ag_exec s) + k\<rparr>\<rparr>"

text \<open>
  An await: the rest of the process runs. It has no hold of the state machine of the run, an
  object that only \<open>run\<close> and its listener move.
\<close>

definition let_others_run :: "'z agent_env \<Rightarrow> 'z agent \<Rightarrow> 'z agent" where
  "let_others_run env s = s\<lparr>ag_exec := interleave (av_exec env) (ag_exec s),
     ag_scene := (av_around env (position s) (ag_scene s))\<lparr>sn_run := sn_run (ag_scene s)\<rparr>\<rparr>"

text \<open>An await whose answer is the environment's.\<close>

definition await_answer :: "'z agent_env \<Rightarrow> (nat \<Rightarrow> (agent_thrown, 'a) result) \<Rightarrow> ('z, 'a) agentic" where
  "await_answer env answer s =
     (let s' = let_others_run env s
      in case answer (position s) of Inl e \<Rightarrow> (Throws e, s') | Inr x \<Rightarrow> (Returns x, s'))"

definition in_scene :: "(scene \<Rightarrow> 'a \<times> scene) \<Rightarrow> ('z, 'a) agentic" where
  "in_scene f = as_update (\<lambda>s. case f (ag_scene s) of (x, sc) \<Rightarrow> (x, s\<lparr>ag_scene := sc\<rparr>))"

definition amend :: "(scene \<Rightarrow> scene) \<Rightarrow> ('z, unit) agentic" where
  "amend f = in_scene (\<lambda>sc. ((), f sc))"

definition read_scene :: "(scene \<Rightarrow> 'a) \<Rightarrow> ('z, 'a) agentic" where
  "read_scene f = as_get (\<lambda>s. f (ag_scene s))"

text \<open>A call of the executor, which awaits and interleaves by itself.\<close>

definition in_exec :: "'z agent_env \<Rightarrow> ('z, 'a) exec \<Rightarrow> ('z, 'a) agentic" where
  "in_exec env m s =
     (case m (ag_exec s) of (r, run) \<Rightarrow>
        let s' = let_others_run env (s\<lparr>ag_exec := run\<rparr>)
        in case r of
             Returns x \<Rightarrow> (Returns x, s') | Throws e \<Rightarrow> (Throws Other_thrown, s') | Pending \<Rightarrow> (Pending, s'))"

text \<open>
  A call of the confirmation service, whose world is the executor's consumer or a part of it.
\<close>

definition in_service ::
  "('z \<Rightarrow> 'r world) \<Rightarrow> ('r world \<Rightarrow> 'z \<Rightarrow> 'z) \<Rightarrow> 'z agent_env \<Rightarrow> ('r, 'a) act \<Rightarrow> ('z, 'a) agentic" where
  "in_service world_in put_world env m s =
     (let sh = rn_shared (ag_exec s) in
      case m (world_in (sh_consumer sh)) of (r, w) \<Rightarrow>
        let s' = let_others_run env (s\<lparr>ag_exec := (ag_exec s)\<lparr>rn_shared :=
                   sh\<lparr>sh_consumer := put_world w (sh_consumer sh)\<rparr>\<rparr>\<rparr>)
        in case r of Inl e \<Rightarrow> (Throws Other_thrown, s') | Inr x \<Rightarrow> (Returns x, s'))"

text \<open>\<open>toUtcTimestamp(clock.nowMs())\<close>.\<close>

definition agent_now :: "'z agent_env \<Rightarrow> ('z, utc_timestamp) agentic" where
  "agent_now env s =
     (case toUtcTimestamp (Epoch_int (clock_at env (position s))) of
        Inl _ \<Rightarrow> (Throws Other_thrown, advance 1 s)
      | Inr ts \<Rightarrow> (Returns ts, advance 1 s))"

definition or_other :: "('e, 'a) result \<Rightarrow> ('z, 'a) agentic" where
  "or_other r = (case r of Inl _ \<Rightarrow> as_throw Other_thrown | Inr x \<Rightarrow> as_return x)"

definition insist :: "bool \<Rightarrow> agent_thrown \<Rightarrow> ('z, unit) agentic" where
  "insist ok e = (if ok then as_return () else as_throw e)"

definition move_run :: "run_status \<Rightarrow> ('z, unit) agentic" where
  "move_run next_status =
     as_then (read_scene (\<lambda>sc. run_transition (sn_run sc) next_status)) (\<lambda>r.
     as_then (as_lift r) (\<lambda>run. amend (\<lambda>sc. sc\<lparr>sn_run := run\<rparr>)))"

section \<open>Delivering events\<close>

definition ISSUED_EVENT_ID_RETENTION :: nat where
  "ISSUED_EVENT_ID_RETENTION = 2048"

text \<open>A set in insertion order, whose oldest members are dropped above the bound.\<close>

definition rememberIssuedId :: "string list \<Rightarrow> string \<Rightarrow> nat \<Rightarrow> string list" where
  "rememberIssuedId issued ident retention =
     (let added = (if ident \<in> set issued then issued else issued @ [ident])
      in drop (length added - retention) added)"

definition runtime_event_of ::
  "agent_run \<Rightarrow> string \<Rightarrow> runtime_event_type \<Rightarrow> utc_timestamp \<Rightarrow> runtime_metadata \<Rightarrow> runtime_event" where
  "runtime_event_of r eventId eventType ts metadata =
     \<lparr>ev_eventId = eventId, ev_eventType = eventType, ev_runId = ar_runId r,
      ev_sessionId = ar_sessionId r, ev_traceId = ar_traceId r, ev_timestamp = ts,
      ev_metadata = metadata\<rparr>"

text \<open>
  An event whose id cannot be made, is malformed or was issued before, or whose time cannot be
  read, is replaced by a fallback event, and the boundary of the run has failed.
\<close>

definition fresh_event_id :: "'z agent_env \<Rightarrow> nat \<Rightarrow> string list \<Rightarrow> (string \<times> utc_timestamp) option" where
  "fresh_event_id env n issued =
     (case (av_eventId env n, toUtcTimestamp (Epoch_int (clock_at env n))) of
        (Some ident, Inr ts) \<Rightarrow> if safe_id 127 ident \<and> ident \<notin> set issued then Some (ident, ts) else None
      | _ \<Rightarrow> None)"

definition createEvent ::
  "'z agent_env \<Rightarrow> runtime_event_type \<Rightarrow> runtime_metadata \<Rightarrow> ('z, runtime_event) agentic" where
  "createEvent env eventType metadata = as_update (\<lambda>s.
     let sc = ag_scene s; made = fresh_event_id env (position s) (sn_issuedEventIds sc);
         (ident, ts) = (case made of None \<Rightarrow> av_fallback env (position s) | Some x \<Rightarrow> x);
         sc' = sc\<lparr>sn_issuedEventIds :=
             rememberIssuedId (sn_issuedEventIds sc) ident ISSUED_EVENT_ID_RETENTION,
           sn_boundaryFailed := sn_boundaryFailed sc \<or> made = None\<rparr>
     in (runtime_event_of (sn_run sc) ident eventType ts metadata, advance 1 (s\<lparr>ag_scene := sc'\<rparr>)))"

definition deliver_event :: "'z agent_env \<Rightarrow> ('z, unit) agentic" where
  "deliver_event env = as_update (\<lambda>s.
     let s' = let_others_run env s
     in ((), if av_deliver env (position s) then s'
             else s'\<lparr>ag_scene := (ag_scene s')\<lparr>sn_sinkFailed := True\<rparr>\<rparr>))"

definition emit_run_event :: "'z agent_env \<Rightarrow> runtime_event \<Rightarrow> ('z, unit) agentic" where
  "emit_run_event env event =
     as_then (amend (\<lambda>sc. sc\<lparr>sn_events := sn_events sc @ [event]\<rparr>)) (\<lambda>_. deliver_event env)"

definition throwIfRuntimeBoundaryFailed :: "('z, unit) agentic" where
  "throwIfRuntimeBoundaryFailed =
     as_then (read_scene sn_boundaryFailed) (\<lambda>failed. insist (\<not> failed) (Agent_error RC_INTERNAL_ERROR False))"

definition throwIfSinkFailed :: "('z, unit) agentic" where
  "throwIfSinkFailed =
     as_then (read_scene sn_sinkFailed) (\<lambda>failed. insist (\<not> failed) (Agent_error RC_INTERNAL_ERROR False))"

definition throwIfSessionLeaseLost :: "('z, unit) agentic" where
  "throwIfSessionLeaseLost =
     as_then (read_scene sn_leaseLost) (\<lambda>lost. insist (\<not> lost) (Agent_error RC_SESSION_BUSY False))"

definition throwIfCancelled :: "('z, unit) agentic" where
  "throwIfCancelled =
     as_then (read_scene sn_cancelled) (\<lambda>cancelled. insist (\<not> cancelled) (Agent_error RC_RUN_CANCELLED False))"

definition emitRuntime ::
  "'z agent_env \<Rightarrow> runtime_event_type \<Rightarrow> runtime_metadata \<Rightarrow> ('z, unit) agentic" where
  "emitRuntime env eventType metadata =
     as_then (createEvent env eventType metadata) (\<lambda>event.
     as_then throwIfRuntimeBoundaryFailed (\<lambda>_.
       emit_run_event env event))"

section \<open>The trusted channel of challenges\<close>

definition purgeExpired :: "int \<Rightarrow> (string \<rightharpoonup> confirmation_challenge) \<Rightarrow> (string \<rightharpoonup> confirmation_challenge)" where
  "purgeExpired nowMs challenges = (\<lambda>k. case challenges k of
     None \<Rightarrow> None | Some c \<Rightarrow> if ch_expiresAt c \<le> nowMs then None else Some c)"

definition publish ::
  "int \<Rightarrow> confirmation_challenge \<Rightarrow> (string \<rightharpoonup> confirmation_challenge)
     \<Rightarrow> (unit, unit) result \<times> (string \<rightharpoonup> confirmation_challenge)" where
  "publish nowMs c challenges =
     (let kept = purgeExpired nowMs challenges in
      if \<not> iso_range (ch_expiresAt c) \<or> ch_expiresAt c \<le> nowMs then (Inl (), kept)
      else if kept (ch_actionId c) \<noteq> None then (Inl (), kept)
      else (Inr (), kept(ch_actionId c \<mapsto> c)))"

definition take_challenge ::
  "int \<Rightarrow> string \<Rightarrow> (string \<rightharpoonup> confirmation_challenge)
     \<Rightarrow> confirmation_challenge option \<times> (string \<rightharpoonup> confirmation_challenge)" where
  "take_challenge nowMs actionId challenges =
     (case challenges actionId of
        None \<Rightarrow> (None, challenges)
      | Some c \<Rightarrow> (if ch_expiresAt c \<le> nowMs then None else Some c, challenges(actionId := None)))"

definition discard :: "string \<Rightarrow> (string \<rightharpoonup> confirmation_challenge) \<Rightarrow> (string \<rightharpoonup> confirmation_challenge)" where
  "discard actionId challenges = challenges(actionId := None)"

text \<open>A taken challenge is gone: it is handed out at most once.\<close>

lemma take_once:
  "take_challenge now actionId m = (Some c, m') \<Longrightarrow> fst (take_challenge now' actionId m') = None"
  by (auto simp: take_challenge_def split: option.splits if_splits)

lemma publish_take:
  "publish now c m = (Inr (), m') \<Longrightarrow> now' < ch_expiresAt c \<Longrightarrow>
   take_challenge now' (ch_actionId c) m' = (Some c, m'(ch_actionId c := None))"
  by (auto simp: publish_def take_challenge_def Let_def split: if_splits)

end
