(* ===== verification/ContextLoading.thy ===== *)
theory ContextLoading
  imports AgentState
begin

text \<open>
  Loading the current context, \<open>packages/agent-runtime/src/context-loader.ts\<close>: the sources are
  read in parallel, the vehicle and trip states with bounded recovery; the snapshot builder
  stamps and validates them; the freshness of the snapshot and of its two states is judged. A
  context that is stamped in the future of the clock is loaded once more.
\<close>

section \<open>Reading the sources\<close>

text \<open>
  \<open>lc_atomic\<close> is whether the provider samples the two states together. What throws in
  \<open>latestVersionProvider\<close> is the left side.
\<close>

record context_loader =
  lc_atomic :: bool
  lc_requirement :: freshness_requirement
  lc_latest :: "nat \<Rightarrow> driving_context \<Rightarrow> (agent_thrown, number_arg) result"
  lc_recovery :: recovery_manager

definition new_context_loader :: "bool \<Rightarrow> recovery_manager \<Rightarrow> context_loader" where
  "new_context_loader atomic recovery =
     \<lparr>lc_atomic = atomic, lc_requirement = \<lparr>fr_maxAgeMs = 5000, fr_requiresLatest = True\<rparr>,
      lc_latest = (\<lambda>_ x. Inr (Arg_int (cx_contextVersion x))), lc_recovery = recovery\<rparr>"

record context_source =
  lo_parts :: snapshot_source
  lo_services :: "(string \<times> bool) list"
  lo_generation :: "int option"

text \<open>The receipts of what was rejected: \<open>None\<close> for an error that is no exhausted recovery.\<close>

fun receipt_of :: "read_error \<Rightarrow> recovery_receipt option" where
  "receipt_of (Read_exhausted r) = Some r"
| "receipt_of (Read_sleeper_threw e) = None"

definition rejection :: "(read_error, 'a) result \<Rightarrow> recovery_receipt option list" where
  "rejection r = (case r of Inl e \<Rightarrow> [receipt_of e] | Inr _ \<Rightarrow> [])"

definition missing :: "'a option \<Rightarrow> recovery_receipt option list" where
  "missing x = (if x = None then [None] else [])"

definition load_states ::
  "context_loader \<Rightarrow> 'z agent_env \<Rightarrow> nat \<Rightarrow>
     (recovery_receipt option list, vehicle_state untyped \<times> trip_state untyped \<times> int option) result" where
  "load_states cl env n =
     (if lc_atomic cl
      then (case fst (executeRead (lc_recovery cl) (av_vehicleTrip env n) (av_sleep env n)) of
              Inl e \<Rightarrow> Inl [receipt_of e]
            | Inr (v, t, generation) \<Rightarrow> Inr (v, t, Some generation))
      else (case (fst (executeRead (lc_recovery cl) (av_vehicle env n) (av_sleep env n)),
                  fst (executeRead (lc_recovery cl) (av_trip env n) (av_sleep env n))) of
              (Inr v, Inr t) \<Rightarrow> Inr (v, t, None)
            | (rv, rt) \<Rightarrow> Inl (rejection rv @ rejection rt)))"

text \<open>\<open>Promise.all\<close> rejects with the rejection that comes first.\<close>

definition load_source :: "context_loader \<Rightarrow> 'z agent_env \<Rightarrow> ('z, context_source) agentic" where
  "load_source cl env s =
     (let n = position s; states = load_states cl env n;
          rejected = (case states of Inl rs \<Rightarrow> rs | Inr _ \<Rightarrow> []) @ missing (av_weather env n) @
            missing (av_user env n) @ missing (av_capabilities env n) @ missing (av_services env n);
          s' = let_others_run env s
      in case (states, av_weather env n, av_user env n, av_capabilities env n, av_services env n) of
           (Inr (v, t, generation), Some w, Some u, Some c, Some services) \<Rightarrow>
             (Returns \<lparr>lo_parts = \<lparr>so_vehicle = v, so_trip = t, so_weather = w, so_user = u,
                        so_capabilities = c\<rparr>, lo_services = services, lo_generation = generation\<rparr>, s')
         | _ \<Rightarrow> (Throws (Context_load_failure (rejected ! (av_first env n mod length rejected))), s'))"

section \<open>Freshness\<close>

fun first_with :: "freshness_status list \<Rightarrow> freshness_result list \<Rightarrow> freshness_result option" where
  "first_with [] rs = None"
| "first_with (st # sts) rs =
     (case filter (\<lambda>r. fz_status r = st) rs of [] \<Rightarrow> first_with sts rs | r # _ \<Rightarrow> Some r)"

definition selectEffectiveFreshness :: "freshness_result \<Rightarrow> freshness_result list \<Rightarrow> freshness_result" where
  "selectEffectiveFreshness r rs =
     (case first_with [FS_INVALID_FUTURE_TIMESTAMP, FS_NOT_LATEST, FS_STALE, FS_FRESH] (r # rs) of
        Some x \<Rightarrow> x | None \<Rightarrow> r\<lparr>fz_status := FS_STALE\<rparr>)"

definition with_vehicle_time :: "driving_context \<Rightarrow> driving_context" where
  "with_vehicle_time x = x\<lparr>cx_capturedAt := ve_timestamp (cx_vehicle x)\<rparr>"

definition with_trip_time :: "driving_context \<Rightarrow> driving_context" where
  "with_trip_time x = x\<lparr>cx_capturedAt := tp_timestamp (cx_trip x)\<rparr>"

record loaded_context =
  lx_snapshot :: driving_context
  lx_services :: "(string \<times> bool) list"
  lx_loadAttempts :: int
  lx_generation :: "int option"
  lx_status :: freshness_status
  lx_context :: freshness_result
  lx_vehicle :: freshness_result
  lx_trip :: freshness_result

section \<open>Loading\<close>

text \<open>
  What the \<open>try\<close> block throws: an error of the domain (with its issues), an
  \<open>AgentRuntimeError\<close>, or anything else.
\<close>

datatype load_error = Load_domain domain_error | Load_thrown agent_thrown

definition isFutureTimestampValidationError :: "load_error \<Rightarrow> bool" where
  "isFutureTimestampValidationError e = (case e of
     Load_domain d \<Rightarrow> list_ex (\<lambda>i. di_code i = DE_INVALID_TIMESTAMP \<and> di_future i) (dv_issues d)
   | Load_thrown _ \<Rightarrow> False)"

definition domain_step :: "(domain_error, 'a) result \<Rightarrow> (load_error, 'a) result" where
  "domain_step r = (case r of Inl e \<Rightarrow> Inl (Load_domain e) | Inr x \<Rightarrow> Inr x)"

text \<open>The clock is read when the snapshot is made and at each of the three judgements.\<close>

definition judge ::
  "context_loader \<Rightarrow> (nat \<Rightarrow> int) \<Rightarrow> nat \<Rightarrow> context_source \<Rightarrow> int \<Rightarrow> driving_context \<Rightarrow>
     (load_error, loaded_context) result" where
  "judge cl clock n src attempt x =
     (let req = lc_requirement cl; source_req = \<lparr>fr_maxAgeMs = fr_maxAgeMs req, fr_requiresLatest = False\<rparr>
      in and_then (case lc_latest cl n x of Inl e \<Rightarrow> Inl (Load_thrown e) | Inr v \<Rightarrow> Inr v) (\<lambda>latest.
         and_then (domain_step (evaluate_freshness (Epoch_int (clock (n + 1))) x req latest)) (\<lambda>context.
         and_then (domain_step (evaluate_freshness (Epoch_int (clock (n + 2))) (with_vehicle_time x)
             source_req Arg_undefined)) (\<lambda>vehicle.
         and_then (domain_step (evaluate_freshness (Epoch_int (clock (n + 3))) (with_trip_time x)
             source_req Arg_undefined)) (\<lambda>trip.
           Inr \<lparr>lx_snapshot = x, lx_services = lo_services src, lx_loadAttempts = attempt + 1,
             lx_generation = lo_generation src,
             lx_status = fz_status (selectEffectiveFreshness context [vehicle, trip]),
             lx_context = context, lx_vehicle = vehicle, lx_trip = trip\<rparr>)))))"

definition check_source ::
  "context_loader \<Rightarrow> 'z agent_env \<Rightarrow> context_source \<Rightarrow> int \<Rightarrow> ('z, (load_error, loaded_context) result) agentic" where
  "check_source cl env src attempt = as_update (\<lambda>s.
     let sc = ag_scene s; n = position s;
         (made, b, st) = snapshot_create (sn_builder sc) (Epoch_int (clock_at env n)) (lo_parts src)
           (sn_sequences sc);
         s' = advance 4 (s\<lparr>ag_scene := sc\<lparr>sn_builder := b, sn_sequences := st\<rparr>\<rparr>)
     in (and_then (domain_step made) (judge cl (clock_at env) n src attempt), s'))"

definition load_attempt ::
  "context_loader \<Rightarrow> 'z agent_env \<Rightarrow> int \<Rightarrow> ('z, loaded_context) agentic \<Rightarrow> ('z, loaded_context) agentic" where
  "load_attempt cl env attempt again =
     as_then (load_source cl env) (\<lambda>src.
     as_then (check_source cl env src attempt) (\<lambda>r.
     case r of
       Inr loaded \<Rightarrow> as_return loaded
     | Inl e \<Rightarrow>
         if attempt = 0 \<and> isFutureTimestampValidationError e then again
         else (case e of
             Load_thrown t \<Rightarrow> if is_agent_error t then as_throw t
                              else as_throw (Agent_error RC_CONTEXT_INVALID False)
           | Load_domain _ \<Rightarrow> if isFutureTimestampValidationError e
                              then as_throw (Agent_error RC_POLICY_REPLAN_REQUIRED True)
                              else as_throw (Agent_error RC_CONTEXT_INVALID False))))"

text \<open>The loop has two rounds; only the first goes on to the next.\<close>

definition context_load :: "context_loader \<Rightarrow> 'z agent_env \<Rightarrow> ('z, loaded_context) agentic" where
  "context_load cl env = load_attempt cl env 0 (load_attempt cl env 1
     (as_throw (Agent_error RC_POLICY_REPLAN_REQUIRED True)))"

section \<open>What a loaded context is\<close>

lemma first_with_Some: "first_with sts rs = Some r \<Longrightarrow> r \<in> set rs \<and> fz_status r \<in> set sts"
  by (induction sts) (auto split: list.splits dest!: filter_eq_ConsD)

lemma first_with_earlier:
  "x \<in> set rs \<Longrightarrow> fz_status x \<in> set sts \<Longrightarrow>
   \<exists>y. first_with (sts @ later) rs = Some y \<and> fz_status y \<in> set sts"
proof (induction sts)
  case (Cons st sts)
  show ?case
  proof (cases "filter (\<lambda>r. fz_status r = st) rs")
    case Nil
    then have "fz_status x \<noteq> st" using Cons.prems(1) by (auto simp: filter_empty_conv)
    with Cons Nil show ?thesis by auto
  next
    case (Cons y ys)
    then have "fz_status y = st" by (auto dest: filter_eq_ConsD)
    with Cons show ?thesis by simp
  qed
qed simp

definition freshness_precedence :: "freshness_status list" where
  "freshness_precedence = [FS_INVALID_FUTURE_TIMESTAMP, FS_NOT_LATEST, FS_STALE]"

lemma selectEffectiveFreshness_first:
  "\<exists>x. first_with (freshness_precedence @ [FS_FRESH]) (r # rs) = Some x \<and>
     selectEffectiveFreshness r rs = x \<and> x \<in> set (r # rs)"
proof -
  have "fz_status r \<in> set (freshness_precedence @ [FS_FRESH])"
    by (cases "fz_status r") (simp_all add: freshness_precedence_def)
  then obtain x where x: "first_with (freshness_precedence @ [FS_FRESH]) (r # rs) = Some x"
    using first_with_earlier [of r "r # rs" "freshness_precedence @ [FS_FRESH]" "[]"] by auto
  moreover have "freshness_precedence @ [FS_FRESH] =
      [FS_INVALID_FUTURE_TIMESTAMP, FS_NOT_LATEST, FS_STALE, FS_FRESH]"
    by (simp add: freshness_precedence_def)
  ultimately show ?thesis
    using first_with_Some [OF x] by (simp only: selectEffectiveFreshness_def option.case) blast
qed

lemma selectEffectiveFreshness_mem: "selectEffectiveFreshness r rs \<in> set (r # rs)"
  using selectEffectiveFreshness_first by blast

lemma selectEffectiveFreshness_fresh:
  assumes "fz_status (selectEffectiveFreshness r rs) = FS_FRESH" "x \<in> set (r # rs)"
  shows "fz_status x = FS_FRESH"
proof (rule ccontr)
  assume "fz_status x \<noteq> FS_FRESH"
  then have "fz_status x \<in> set freshness_precedence"
    by (cases "fz_status x") (simp_all add: freshness_precedence_def)
  from first_with_earlier [OF assms(2) this, of "[FS_FRESH]"]
  obtain y where y: "first_with (freshness_precedence @ [FS_FRESH]) (r # rs) = Some y"
    "fz_status y \<in> set freshness_precedence" by blast
  with selectEffectiveFreshness_first [of r rs] have "y = selectEffectiveFreshness r rs" by auto
  with y(2) assms(1) show False by (simp add: freshness_precedence_def)
qed

lemma snapshot_create_made:
  assumes "snapshot_create b (Epoch_int now) src st = (Inr x, b', st')"
  shows "context_valid x \<and> cx_capturedAt x = now \<and> so_vehicle src = Shaped (cx_vehicle x) \<and>
    so_trip src = Shaped (cx_trip x) \<and> so_weather src = Shaped (cx_weather x) \<and>
    so_user src = Shaped (cx_user x) \<and> so_capabilities src = Shaped (cx_capabilities x)"
proof -
  obtain n i where "parseDrivingContext (snapshot_candidate src now n i) (Epoch_int now) = Inr x"
    using assms by (auto simp: snapshot_create_def toUtcTimestamp_def domain_fail_def
        split: sum.splits prod.splits option.splits if_splits)
  then show ?thesis
    by (auto simp: parseDrivingContext_iff snapshot_candidate_def split: untyped.splits if_splits)
qed

end
