(* ===== verification/GuardedCalls.thy ===== *)
theory GuardedCalls
  imports ContextLoading
begin

text \<open>
  A tool call of the model, \<open>packages/agent-runtime/src\<close>: the adapter that receives it
  (\<open>pi-tool-adapter.ts\<close>), the policy guard it must pass (\<open>policy-guarded-tool-handler.ts\<close>) and
  the closures the runtime hands to the guard (\<open>providePolicyInput\<close>, \<open>confirmationRequired\<close>
  and \<open>allowedExecution\<close> in \<open>run\<close> of \<open>production-runtime.ts\<close>). The binding of arguments from
  the prompt and the output schemas are parameters.
\<close>

section \<open>Configuration\<close>

datatype runtime_mode = Read_only | Development

text \<open>
  The registry of the runtime is the executor's, and the world of the confirmation service is
  found in the executor's consumer (it is all of it, or what the durable coordinator calls the
  rest). \<open>rt_bind\<close> is \<open>ToolArgumentBinder.bind\<close>,
  \<open>rt_output_ok\<close> the compiled output schema, \<open>rt_required\<close> the required fields of the input
  schema. The patterns of \<open>GoalToolRouter\<close> and \<open>CriticalPathGuard\<close> are Unicode regular
  expressions on the prompt: \<open>rt_matches\<close> tells whether the pattern for a tool matches,
  \<open>rt_needs_no_tool\<close> is \<open>EXPLICIT_NO_TOOL\<close>. \<open>rt_collation\<close> is the order of \<open>localeCompare\<close>,
  \<open>rt_literal\<close> the identity of an object literal, which no registered definition has.
\<close>

datatype memory_kind = No_memory | Restores_all | Restores_recent

record ('z, 'r) runtime =
  rt_mode :: runtime_mode
  rt_executor :: "'z executor"
  rt_service :: "'r confirmation_service"
  rt_world :: "'z \<Rightarrow> 'r world"
  rt_put_world :: "'r world \<Rightarrow> 'z \<Rightarrow> 'z"
  rt_engine :: policy_engine
  rt_profiles :: profile_registry
  rt_loader :: context_loader
  rt_bind :: "string \<Rightarrow> string \<Rightarrow> json \<Rightarrow> json"
  rt_output_ok :: "tool_definition \<Rightarrow> json \<Rightarrow> bool"
  rt_required :: "tool_definition \<Rightarrow> string list"
  rt_collation :: "string \<Rightarrow> nat"
  rt_matches :: "string \<Rightarrow> string \<Rightarrow> bool"
  rt_needs_no_tool :: "string \<Rightarrow> bool"
  rt_literal :: nat
  rt_sanitize :: "string \<Rightarrow> string"
  rt_coordinated :: bool
  rt_memory :: memory_kind
  rt_historyLimit :: nat
  rt_delta_sink :: bool
  rt_usage_sink :: bool

definition rt_registry :: "('z, 'r) runtime \<Rightarrow> tool_registry" where
  "rt_registry rt = xc_registry (rt_executor rt)"

definition rt_clone :: "('z, 'r) runtime \<Rightarrow> json \<Rightarrow> json option" where
  "rt_clone rt = xc_clone (rt_executor rt)"

text \<open>\<open>structuredClone\<close>, which throws for a value that is not data.\<close>

definition copied :: "('z, 'r) runtime \<Rightarrow> json \<Rightarrow> agent_thrown \<Rightarrow> ('z, json) agentic" where
  "copied rt v e = (case rt_clone rt v of None \<Rightarrow> as_throw e | Some w \<Rightarrow> as_return w)"

section \<open>The input of the policy engine\<close>

definition capability_flags :: "vehicle_capabilities \<Rightarrow> (string \<times> bool) list" where
  "capability_flags c =
     [(''navigation'', ca_navigation c), (''charging'', ca_charging c),
      (''cabinTemperature'', ca_cabinTemperature c), (''seatHeating'', ca_seatHeating c),
      (''media'', ca_media c), (''roadsideAssistance'', ca_roadsideAssistance c)]"

definition availability_of :: "loaded_context \<Rightarrow> resolution_context" where
  "availability_of l = \<lparr>rc_capabilities = capability_flags (cx_capabilities (lx_snapshot l)),
                        rc_services = lx_services l\<rparr>"

record policy_evaluation =
  pe_candidate :: policy_candidate
  pe_snapshot :: driving_context

definition fingerprint_of ::
  "('z, 'r) runtime \<Rightarrow> agent_run \<Rightarrow> tool_definition \<Rightarrow> json \<Rightarrow> driving_context \<Rightarrow> string \<Rightarrow> int \<Rightarrow>
     (action_error_code, string) result" where
  "fingerprint_of rt r d args x snapshotId version = createActionFingerprint (xc_sha (rt_executor rt))
     \<lparr>fi_toolName = td_name d, fi_validatedArguments = args, fi_sessionId = ar_sessionId r,
      fi_userId = us_userId (cx_user x), fi_vehicleId = ve_vehicleId (cx_vehicle x),
      fi_contextSnapshotId = snapshotId, fi_contextVersion = version\<rparr>"

definition latest_of :: "tool_profile \<Rightarrow> loaded_context \<Rightarrow> number_arg" where
  "latest_of pf l =
     (if fr_requiresLatest (tf_freshnessRequirement pf)
      then (case fz_latestVersion (lx_context l) of None \<Rightarrow> Arg_undefined | Some v \<Rightarrow> Arg_int v)
      else Arg_undefined)"

text \<open>The three judgements of the context under the tool's own requirement.\<close>

definition effective_freshness ::
  "'z agent_env \<Rightarrow> tool_profile \<Rightarrow> loaded_context \<Rightarrow> ('z, freshness_result) agentic" where
  "effective_freshness env pf l s =
     (let n = position s; x = lx_snapshot l; req = tf_freshnessRequirement pf; latest = latest_of pf l
      in or_other (and_then (evaluate_freshness (Epoch_int (clock_at env n)) x req latest) (\<lambda>c.
         and_then (evaluate_freshness (Epoch_int (clock_at env (n + 1))) (with_vehicle_time x) req latest) (\<lambda>v.
         and_then (evaluate_freshness (Epoch_int (clock_at env (n + 2))) (with_trip_time x) req latest) (\<lambda>t.
           Inr (selectEffectiveFreshness c [v, t]))))) (advance 3 s))"

definition policy_candidate_of ::
  "agent_run \<Rightarrow> tool_definition \<Rightarrow> json \<Rightarrow> loaded_context \<Rightarrow> freshness_result \<Rightarrow>
     conflict_result option \<Rightarrow> string \<Rightarrow> policy_candidate" where
  "policy_candidate_of r d args l fresh conflict fingerprint =
     \<lparr>pc_isRecord = True, pc_toolDefinition = Some (raw_of_definition d),
      pc_validatedArguments = args, pc_trustedDefinition = True,
      pc_contextSnapshot = Some (Shaped (lx_snapshot l)), pc_freshness = raw_of_freshness fresh,
      pc_availability = Some (availability_of l), pc_conflict = map_option raw_of_conflict conflict,
      pc_executionBinding = \<lparr>rb_runId = Some (ar_runId r), rb_sessionId = Some (ar_sessionId r),
        rb_traceId = Some (ar_traceId r), rb_actionFingerprint = Some fingerprint\<rparr>\<rparr>"

text \<open>
  \<open>providePolicyInput\<close>: before a side effect the context is loaded again and compared with the
  one the run planned with.
\<close>

definition providePolicyInput ::
  "('z, 'r) runtime \<Rightarrow> 'z agent_env \<Rightarrow> loaded_context \<Rightarrow> tool_definition \<Rightarrow> json \<Rightarrow>
     ('z, policy_evaluation) agentic" where
  "providePolicyInput rt env planned d args =
     (case rt_profiles rt (td_name d) of
        None \<Rightarrow> as_throw Other_thrown
      | Some pf \<Rightarrow>
          as_then (if td_sideEffect d then context_load (rt_loader rt) env else as_return planned) (\<lambda>current.
          as_then (if td_sideEffect d
                   then as_then (or_other (detect_conflict (lx_snapshot planned) (lx_snapshot current)
                                   (Paths (map Some (tf_relevantContextPaths pf))))) (\<lambda>k. as_return (Some k))
                   else as_return None) (\<lambda>conflict.
          as_then (effective_freshness env pf current) (\<lambda>fresh.
          as_then (read_scene sn_run) (\<lambda>r.
          as_then (or_other (fingerprint_of rt r d args (lx_snapshot current)
                     (cx_snapshotId (lx_snapshot current)) (cx_contextVersion (lx_snapshot current)))) (\<lambda>fingerprint.
            as_return \<lparr>pe_candidate = policy_candidate_of r d args current fresh conflict fingerprint,
                       pe_snapshot = lx_snapshot current\<rparr>))))))"

section \<open>The policy guard\<close>

definition control_result :: "decision_type \<Rightarrow> policy_control" where
  "control_result t = (case t of
     PD_DENY \<Rightarrow> PC_DENIED | PD_REPLAN \<Rightarrow> PC_REPLAN_REQUIRED | _ \<Rightarrow> PC_CONFIRMATION_REQUIRED)"

record 'z guard_options =
  gd_inputProvider :: "tool_definition \<Rightarrow> json \<Rightarrow> ('z, policy_evaluation) agentic"
  gd_isTrusted :: "tool_definition \<Rightarrow> bool"
  gd_evaluationStarted :: "string \<Rightarrow> ('z, unit) agentic"
  gd_decisionMade :: "policy_decision \<Rightarrow> ('z, unit) agentic"
  gd_executionBlocked :: "policy_decision \<Rightarrow> ('z, unit) agentic"
  gd_confirmationRequired ::
    "(tool_definition \<Rightarrow> json \<Rightarrow> policy_decision \<Rightarrow> policy_evaluation \<Rightarrow> ('z, unit) agentic) option"
  gd_allowedExecution ::
    "(tool_definition \<Rightarrow> json \<Rightarrow> policy_decision \<Rightarrow> policy_evaluation \<Rightarrow> ('z, json) agentic) option"

text \<open>The input when none could be provided: nothing of it is trusted.\<close>

definition untrusted_candidate :: "tool_definition \<Rightarrow> json \<Rightarrow> policy_candidate" where
  "untrusted_candidate d args = absent_candidate\<lparr>pc_isRecord := True,
     pc_toolDefinition := Some (raw_of_definition d), pc_validatedArguments := args\<rparr>"

definition guarded_candidate ::
  "('z, 'x) guard_options_scheme \<Rightarrow> tool_definition \<Rightarrow> json \<Rightarrow> policy_evaluation option \<Rightarrow> policy_candidate" where
  "guarded_candidate g d args provided =
     (case provided of
        None \<Rightarrow> untrusted_candidate d args
      | Some p \<Rightarrow> (pe_candidate p)\<lparr>pc_toolDefinition := Some (raw_of_definition d),
          pc_validatedArguments := args, pc_trustedDefinition := gd_isTrusted g d\<rparr>)"

definition evaluate_policy ::
  "('z, 'r) runtime \<Rightarrow> policy_candidate \<Rightarrow> utc_timestamp \<Rightarrow> ('z, policy_decision) agentic" where
  "evaluate_policy rt candidate evaluatedAt = as_update (\<lambda>s.
     case evaluate (rt_clone rt) (rt_engine rt) (sh_policy (rn_shared (ag_exec s))) (Input candidate)
            (Some evaluatedAt) of (dec, st) \<Rightarrow>
       (dec, s\<lparr>ag_exec := (ag_exec s)\<lparr>rn_shared := (rn_shared (ag_exec s))\<lparr>sh_policy := st\<rparr>\<rparr>\<rparr>))"

definition or_lifecycle :: "('z, 'a) agentic \<Rightarrow> ('z, 'a) agentic" where
  "or_lifecycle m = as_catch m (\<lambda>_. as_throw Policy_lifecycle)"

definition guard_execute ::
  "('z, 'r) runtime \<Rightarrow> 'z agent_env \<Rightarrow> 'z guard_options \<Rightarrow> tool_definition \<Rightarrow> json \<Rightarrow>
     ('z, json) agentic \<Rightarrow> ('z, json) agentic" where
  "guard_execute rt env g d args handler =
     as_then (agent_now env) (\<lambda>evaluatedAt.
     as_then (or_lifecycle (gd_evaluationStarted g (td_name d))) (\<lambda>_.
     as_then (as_catch (as_then (gd_inputProvider g d args) (\<lambda>p. as_return (Some p)))
                (\<lambda>_. as_return None)) (\<lambda>provided.
     as_then (evaluate_policy rt (guarded_candidate g d args provided) evaluatedAt) (\<lambda>dec.
     as_then (or_lifecycle (gd_decisionMade g dec)) (\<lambda>_.
     if po_decision dec \<noteq> PD_ALLOW
     then as_then (or_lifecycle (gd_executionBlocked g dec)) (\<lambda>_.
          as_then (case (gd_confirmationRequired g, provided) of
                     (Some ask, Some p) \<Rightarrow>
                       if po_decision dec = PD_REQUIRE_CONFIRMATION then or_lifecycle (ask d args dec p)
                       else as_return ()
                   | _ \<Rightarrow> as_return ()) (\<lambda>_.
            as_throw (Policy_control (control_result (po_decision dec)) dec)))
     else (case (gd_allowedExecution g, provided) of
             (Some run, Some p) \<Rightarrow> run d args dec p
           | _ \<Rightarrow> handler))))))"

section \<open>The closures of the runtime\<close>

text \<open>
  Asking the user: at most one pending action per intent and run. The challenge goes to the
  trusted channel; when it cannot be published the action is cancelled.
\<close>

definition service_now :: "('z, 'r) runtime \<Rightarrow> 'z agent \<Rightarrow> 'r confirmation_service" where
  "service_now rt s = (rt_service rt)\<lparr>sv_policy := sh_policy (rn_shared (ag_exec s))\<rparr>"

definition create_action ::
  "('z, 'r) runtime \<Rightarrow> 'z agent_env \<Rightarrow> create_command \<Rightarrow> ('z, action_creation) agentic" where
  "create_action rt env c s = in_service (rt_world rt) (rt_put_world rt) env (service_create (service_now rt s) (av_actions env) c) s"

definition publish_challenge ::
  "'z agent_env \<Rightarrow> confirmation_challenge \<Rightarrow> ('z, unit) agentic" where
  "publish_challenge env c s =
     (let sc = ag_scene s; (r, m) = publish (clock_at env (position s)) c (sn_challenges sc);
          s' = let_others_run env (s\<lparr>ag_scene := sc\<lparr>sn_challenges := m\<rparr>\<rparr>)
      in case r of Inl _ \<Rightarrow> (Throws Other_thrown, s') | Inr _ \<Rightarrow> (Returns (), s'))"

definition cancel_command :: "pending_action \<Rightarrow> bound_command" where
  "cancel_command a = \<lparr>bc_actionId = pa_actionId a, bc_sessionId = pa_sessionId a,
                       bc_userId = pa_userId a\<rparr>"

definition withdraw ::
  "('z, 'r) runtime \<Rightarrow> 'z agent_env \<Rightarrow> pending_action \<Rightarrow> ('z, unit) agentic" where
  "withdraw rt env a =
     as_then (as_catch (as_then (\<lambda>s. in_service (rt_world rt) (rt_put_world rt) env
                 (service_cancel (service_now rt s) (av_actions env) (cancel_command a)) s) (\<lambda>_. as_return ()))
               (\<lambda>_. as_return ())) (\<lambda>_.
       amend (\<lambda>sc. sc\<lparr>sn_challenges := discard (pa_actionId a) (sn_challenges sc)\<rparr>))"

definition create_command_of ::
  "agent_run \<Rightarrow> tool_definition \<Rightarrow> json \<Rightarrow> policy_decision \<Rightarrow> driving_context \<Rightarrow> create_command" where
  "create_command_of r d args dec x =
     \<lparr>cr_definition = d, cr_validatedArguments = args, cr_runId = ar_runId r,
      cr_sessionId = ar_sessionId r, cr_traceId = ar_traceId r, cr_userId = us_userId (cx_user x),
      cr_vehicleId = ve_vehicleId (cx_vehicle x), cr_policyDecision = dec, cr_contextSnapshot = x\<rparr>"

definition ask_user ::
  "('z, 'r) runtime \<Rightarrow> 'z agent_env \<Rightarrow> create_command \<Rightarrow> ('z, unit) agentic" where
  "ask_user rt env c =
     as_then (create_action rt env c) (\<lambda>made.
     as_then (as_catch (publish_challenge env (ac_trustedChallenge made))
                (\<lambda>e. as_then (withdraw rt env (ac_action made)) (\<lambda>_. as_throw e))) (\<lambda>_.
       amend (\<lambda>sc. sc\<lparr>sn_confirmations := sn_confirmations sc @ [ac_safeResult made]\<rparr>)))"

definition confirmationRequired ::
  "('z, 'r) runtime \<Rightarrow> 'z agent_env \<Rightarrow> loaded_context \<Rightarrow> tool_definition \<Rightarrow> json \<Rightarrow>
     policy_decision \<Rightarrow> policy_evaluation \<Rightarrow> ('z, unit) agentic" where
  "confirmationRequired rt env planned d args dec p =
     as_then throwIfSessionLeaseLost (\<lambda>_.
     as_then (read_scene sn_run) (\<lambda>r.
     as_then (or_other (fingerprint_of rt r d args (pe_snapshot p)
                (cx_snapshotId (lx_snapshot planned)) (cx_contextVersion (lx_snapshot planned)))) (\<lambda>intent.
     as_then (read_scene sn_intents) (\<lambda>intents.
     if intent \<in> set intents then as_return ()
     else as_then (amend (\<lambda>sc. sc\<lparr>sn_intents := sn_intents sc @ [intent]\<rparr>)) (\<lambda>_.
          as_catch (ask_user rt env (create_command_of r d args dec (pe_snapshot p)))
            (\<lambda>e. as_then (amend (\<lambda>sc. sc\<lparr>sn_intents := filter (\<lambda>i. i \<noteq> intent) (sn_intents sc)\<rparr>)) (\<lambda>_.
                   as_throw e)))))))"

text \<open>Executing what was allowed: one request to the executor, bound to the decision.\<close>

definition allowed_request ::
  "agent_run \<Rightarrow> string \<Rightarrow> tool_definition \<Rightarrow> json \<Rightarrow> policy_decision \<Rightarrow> driving_context \<Rightarrow> string \<Rightarrow>
     utc_timestamp \<Rightarrow> execution_request" where
  "allowed_request r executionId d args dec x fingerprint createdAt =
     \<lparr>xq_executionId = executionId, xq_toolName = td_name d, xq_validatedArguments = args,
      xq_actionFingerprint = fingerprint, xq_runId = ar_runId r, xq_sessionId = ar_sessionId r,
      xq_userId = us_userId (cx_user x), xq_vehicleId = ve_vehicleId (cx_vehicle x),
      xq_traceId = ar_traceId r, xq_riskLevel = td_riskLevel d, xq_policyDecision = dec,
      xq_actionId = None, xq_authorizationId = None,
      xq_contextSnapshotId = Some (cx_snapshotId x), xq_contextVersion = Some (cx_contextVersion x),
      xq_idempotencyKey = ''run:'' @ ar_runId r @ '':'' @ td_name d @ '':'' @ take 24 fingerprint,
      xq_createdAt = createdAt\<rparr>"

definition run_request ::
  "('z, 'r) runtime \<Rightarrow> 'z agent_env \<Rightarrow> 'z executor \<Rightarrow> execution_request \<Rightarrow> ('z, execution_result) agentic" where
  "run_request rt env cfg q = in_exec env (execute cfg (av_exec env) (Some q))"

text \<open>\<open>ToolExecutionError\<close> of an execution that did not succeed.\<close>

definition execution_failure :: "execution_result \<Rightarrow> agent_thrown" where
  "execution_failure x = Tool_failure
     (if map_option se_code (xr_error x) = Some EE_DEPENDENCY_TIMEOUT then TE_DEPENDENCY_TIMEOUT
      else TE_DEPENDENCY_UNAVAILABLE)"

definition allowedExecution ::
  "('z, 'r) runtime \<Rightarrow> 'z agent_env \<Rightarrow> tool_definition \<Rightarrow> json \<Rightarrow> policy_decision \<Rightarrow>
     policy_evaluation \<Rightarrow> ('z, json) agentic" where
  "allowedExecution rt env d args dec p =
     as_then throwIfSessionLeaseLost (\<lambda>_.
     as_then (read_scene sn_run) (\<lambda>r.
     let x = pe_snapshot p in
     as_then (or_other (fingerprint_of rt r d args x (cx_snapshotId x) (cx_contextVersion x))) (\<lambda>fingerprint.
     as_then (amend (\<lambda>sc. sc\<lparr>sn_inFlight := True\<rparr>)) (\<lambda>_.
     as_then (as_get (\<lambda>s. av_executionId env (position s))) (\<lambda>executionId.
     as_then (agent_now env) (\<lambda>createdAt.
     as_then (as_finally (run_request rt env (rt_executor rt)
                 (allowed_request r executionId d args dec x fingerprint createdAt))
               (\<lambda>s. s\<lparr>ag_scene := (ag_scene s)\<lparr>sn_inFlight := False\<rparr>\<rparr>)) (\<lambda>result.
     as_then (amend (\<lambda>sc. case xr_recovery result of
                None \<Rightarrow> sc | Some receipt \<Rightarrow> sc\<lparr>sn_receipts := sn_receipts sc @ [receipt]\<rparr>)) (\<lambda>_.
     if xr_status result \<noteq> X_SUCCEEDED then as_throw (execution_failure result)
     else as_then (amend (\<lambda>sc. sc\<lparr>sn_committed := True\<rparr>)) (\<lambda>_.
            as_return (case xr_result result of None \<Rightarrow> J_non_json | Some v \<Rightarrow> v))))))))))"

definition decision_metadata :: "policy_decision \<Rightarrow> runtime_metadata" where
  "decision_metadata dec = no_metadata\<lparr>md_toolName := Some (po_toolName dec),
     md_decision := Some (po_decision dec), md_ruleId := Some (po_ruleId dec),
     md_contextVersion := po_contextVersion dec\<rparr>"

definition observe_started :: "'z agent_env \<Rightarrow> string \<Rightarrow> ('z, unit) agentic" where
  "observe_started env name =
     as_then (emitRuntime env RE_evaluation_started (no_metadata\<lparr>md_toolName := Some name\<rparr>)) (\<lambda>_.
       throwIfSinkFailed)"

definition observe_decision :: "'z agent_env \<Rightarrow> policy_decision \<Rightarrow> ('z, unit) agentic" where
  "observe_decision env dec =
     as_then (amend (\<lambda>sc. sc\<lparr>sn_decisions := sn_decisions sc @ [dec]\<rparr>)) (\<lambda>_.
     as_then (emitRuntime env RE_decision_made
                ((decision_metadata dec)\<lparr>md_reasonCode := Some (po_reasonCode dec)\<rparr>)) (\<lambda>_.
       throwIfSinkFailed))"

definition observe_blocked :: "'z agent_env \<Rightarrow> policy_decision \<Rightarrow> ('z, unit) agentic" where
  "observe_blocked env dec =
     as_then (emitRuntime env RE_execution_blocked (decision_metadata dec)) (\<lambda>_. throwIfSinkFailed)"

definition trusted_definition :: "('z, 'r) runtime \<Rightarrow> tool_definition \<Rightarrow> bool" where
  "trusted_definition rt d \<longleftrightarrow> map_option td_ref (registry_get (rt_registry rt) (td_name d)) = Some (td_ref d)"

definition runtime_guard ::
  "('z, 'r) runtime \<Rightarrow> 'z agent_env \<Rightarrow> loaded_context \<Rightarrow> 'z guard_options" where
  "runtime_guard rt env planned =
     \<lparr>gd_inputProvider = providePolicyInput rt env planned, gd_isTrusted = trusted_definition rt,
      gd_evaluationStarted = observe_started env, gd_decisionMade = observe_decision env,
      gd_executionBlocked = observe_blocked env,
      gd_confirmationRequired = Some (confirmationRequired rt env planned),
      gd_allowedExecution = Some (allowedExecution rt env)\<rparr>"

section \<open>The adapter\<close>

text \<open>
  A call from Pi has the signal of its prompt, a repair of the plan has none. The handler behind
  the guard is the tool itself, past the executor.
\<close>

definition signalAborted :: "bool \<Rightarrow> scene \<Rightarrow> bool" where
  "signalAborted sig sc \<longleftrightarrow> sig \<and> sn_aborted sc"

definition direct_handler ::
  "'z agent_env \<Rightarrow> bool \<Rightarrow> tool_definition \<Rightarrow> json \<Rightarrow> ('z, json) agentic" where
  "direct_handler env sig d args s =
     (if signalAborted sig (ag_scene s) then (Throws (Tool_failure TE_DEPENDENCY_UNAVAILABLE), s)
      else let r = av_direct env (position s);
               outcome = (case r of Inl c \<Rightarrow> Inl (Tool_execution_error
                   \<lparr>te_code = c, te_toolName = td_name d, te_failureType = None\<rparr>) | Inr v \<Rightarrow> Inr v);
               s' = let_others_run env (s\<lparr>ag_exec := log_step (Tool_called (td_name d) args 0 [] outcome) (ag_exec s)\<rparr>)
           in case r of Inl c \<Rightarrow> (Throws (Tool_failure c), s') | Inr v \<Rightarrow> (Returns v, s'))"

definition observe_execution ::
  "bool \<Rightarrow> tool_definition \<Rightarrow> json \<Rightarrow> bool \<Rightarrow> json option \<Rightarrow> policy_control option \<Rightarrow>
     ('z, unit) agentic" where
  "observe_execution sig d args ok value control = amend (\<lambda>sc. sc\<lparr>sn_executions := sn_executions sc @
     [\<lparr>tv_toolName = td_name d, tv_succeeded = ok, tv_completedAfterCancel = signalAborted sig sc,
       tv_validatedArguments = Some args, tv_result = value, tv_policyControl = control\<rparr>]\<rparr>)"

definition control_of :: "agent_thrown \<Rightarrow> policy_control option" where
  "control_of e = (case e of Policy_control c _ \<Rightarrow> Some c | _ \<Rightarrow> None)"

text \<open>A tool result of the adapter, but for the constant fields of its details.\<close>

record tool_reply =
  ty_toolName :: string
  ty_result :: json
  ty_mode :: runtime_mode

definition adapter_output ::
  "('z, 'r) runtime \<Rightarrow> bool \<Rightarrow> tool_definition \<Rightarrow> json \<Rightarrow> json \<Rightarrow> ('z, tool_reply) agentic" where
  "adapter_output rt sig d args value =
     (let invalid = as_then (observe_execution sig d args False None None) (\<lambda>_.
                      as_throw (Tool_failure TE_DEPENDENCY_RESPONSE_INVALID)) in
      if \<not> rt_output_ok rt d value then invalid
      else case rt_clone rt value of
        None \<Rightarrow> invalid
      | Some safe \<Rightarrow>
          as_then (read_scene (signalAborted sig)) (\<lambda>cancelled.
          as_then (observe_execution sig d args True (Some safe) None) (\<lambda>_.
          if cancelled then as_throw (Tool_failure TE_DEPENDENCY_UNAVAILABLE)
          else as_return \<lparr>ty_toolName = td_name d, ty_result = safe, ty_mode = rt_mode rt\<rparr>)))"

definition adapter_execute ::
  "('z, 'r) runtime \<Rightarrow> 'z agent_env \<Rightarrow> loaded_context \<Rightarrow> string \<Rightarrow> bool \<Rightarrow> tool_definition \<Rightarrow>
     json \<Rightarrow> ('z, tool_reply) agentic" where
  "adapter_execute rt env planned prompt sig d parameters =
     as_then (read_scene (signalAborted sig)) (\<lambda>aborted.
     if aborted then as_throw (Tool_failure TE_DEPENDENCY_UNAVAILABLE)
     else as_then (copied rt (rt_bind rt (td_name d) prompt parameters)
                     (Tool_failure TE_TOOL_VALIDATION_ERROR)) (\<lambda>args.
     if \<not> td_input_ok d args then as_throw (Tool_failure TE_TOOL_VALIDATION_ERROR)
     else as_then (as_catch (guard_execute rt env (runtime_guard rt env planned) d args
                        (direct_handler env sig d args))
                    (\<lambda>e. as_then (observe_execution sig d args False None (control_of e)) (\<lambda>_. as_throw e))) (\<lambda>value.
            adapter_output rt sig d args value)))"

end
