(* ===== verification/AgentRuns.thy ===== *)
theory AgentRuns
  imports GuardedCalls
begin

text \<open>
  A run of the agent, \<open>packages/agent-runtime/src\<close>: \<open>run\<close> of \<open>production-runtime.ts\<close>, with the
  sessions (\<open>session.ts\<close>), the routing of the goal (\<open>goal-router.ts\<close>), the completeness of the
  plan (\<open>critical-path-guard.ts\<close>) and the adapter of the events of Pi
  (\<open>pi-event-adapter.ts\<close>). What Pi does in a prompt is a list of steps of the environment: any
  list is a behaviour of the model and of the library. The heartbeat of the session lease is part
  of the rest of the process, which may lose the lease at any await.
\<close>

section \<open>Requests, identities and results\<close>

record agent_request =
  gq_sessionId :: string
  gq_prompt :: string
  gq_traceId :: "string option"

definition validateRequest :: "agent_request \<Rightarrow> (agent_thrown, unit) result" where
  "validateRequest q =
     (if \<not> safe_id 127 (gq_sessionId q) \<or> blank (gq_prompt q) \<or> 32000 < length (gq_prompt q) \<or>
         (case gq_traceId q of None \<Rightarrow> False | Some t \<Rightarrow> \<not> safe_id 127 t)
      then Inl (Agent_error RC_INTERNAL_ERROR False) else Inr ())"

definition sessionPersistenceRuntimeError :: "agent_thrown \<Rightarrow> runtime_error_code \<times> bool" where
  "sessionPersistenceRuntimeError e =
     (if is_agent_error e then safeRuntimeError e
      else case e of
          Persistence_failure Identity_mismatch \<Rightarrow> (RC_INTERNAL_ERROR, False)
        | Persistence_failure Lease_lost \<Rightarrow> (RC_SESSION_BUSY, True)
        | _ \<Rightarrow> (RC_CONTEXT_LOAD_FAILED, True))"

definition ISSUED_RUN_ID_RETENTION :: nat where
  "ISSUED_RUN_ID_RETENTION = 256"

text \<open>
  The first of the candidates that was not issued. When the candidates are distinct, as random
  ids are, there is one among the first that outnumber the issued ids.
\<close>

definition unissued :: "string list \<Rightarrow> (nat \<Rightarrow> string) \<Rightarrow> string option" where
  "unissued issued candidates = find (\<lambda>c. c \<notin> set issued) (map candidates [0..<Suc (length issued)])"

text \<open>The id and whether its factory failed, with the ids issued then.\<close>

definition generateId ::
  "string option \<Rightarrow> (nat \<Rightarrow> string) \<Rightarrow> string list \<Rightarrow> ((string \<times> bool) \<times> string list) option" where
  "generateId made candidates issued =
     (case made of
        Some ident \<Rightarrow>
          if safe_id 127 ident \<and> ident \<notin> set issued
          then Some ((ident, False), rememberIssuedId issued ident ISSUED_RUN_ID_RETENTION)
          else map_option (\<lambda>c. ((c, True), rememberIssuedId issued c ISSUED_RUN_ID_RETENTION))
                 (unissued issued candidates)
      | None \<Rightarrow> map_option (\<lambda>c. ((c, True), rememberIssuedId issued c ISSUED_RUN_ID_RETENTION))
                 (unissued issued candidates))"

definition identify :: "'z agent_env \<Rightarrow> agent_request \<Rightarrow> ('z, (string \<times> bool) \<times> (string \<times> bool)) agentic" where
  "identify env q s =
     (let n = position s; sc = ag_scene s in
      case generateId (av_runId env n) (av_fallbackId env n) (sn_issuedRunIds sc) of
        None \<Rightarrow> (Pending, s)
      | Some (runId, issued) \<Rightarrow>
          let s1 = advance 1 (s\<lparr>ag_scene := sc\<lparr>sn_issuedRunIds := issued\<rparr>\<rparr>) in
          case gq_traceId q of
            Some t \<Rightarrow> (Returns (runId, (t, False)), s1)
          | None \<Rightarrow>
              (case generateId (av_traceId env n) (av_fallbackId env (n + 1)) (sn_issuedTraceIds sc) of
                 None \<Rightarrow> (Pending, s1)
               | Some (traceId, issuedTraces) \<Rightarrow> (Returns (runId, traceId),
                   s1\<lparr>ag_scene := (ag_scene s1)\<lparr>sn_issuedTraceIds := issuedTraces\<rparr>\<rparr>)))"

text \<open>The evidence and the flags of a new run.\<close>

definition begin_run :: "agent_run \<Rightarrow> bool \<Rightarrow> scene \<Rightarrow> scene" where
  "begin_run r failed sc = sc\<lparr>sn_run := r, sn_available := [], sn_events := [], sn_decisions := [],
     sn_executions := [], sn_confirmations := [], sn_receipts := [], sn_intents := [],
     sn_sinkFailed := False, sn_boundaryFailed := failed, sn_leaseLost := False,
     sn_inFlight := False, sn_committed := False, sn_cancelled := False, sn_aborted := False,
     sn_pi := new_pi_state\<rparr>"

definition start_run :: "'z agent_env \<Rightarrow> agent_request \<Rightarrow> ('z, unit) agentic" where
  "start_run env q =
     as_then (identify env q) (\<lambda>ids.
     as_then (agent_now env) (\<lambda>ts.
       amend (begin_run (new_agent_run (fst (fst ids)) (gq_sessionId q) (fst (snd ids)) ts)
         (snd (fst ids) \<or> snd (snd ids)))))"

datatype run_verdict = Run_succeeded | Run_failed | Run_cancelled

record run_result =
  ro_status :: run_verdict
  ro_response :: string
  ro_run :: agent_run
  ro_events :: "runtime_event list"
  ro_available :: "string list"
  ro_executions :: "tool_evidence list"
  ro_decisions :: "policy_decision list"
  ro_confirmations :: "safe_result list"
  ro_receipts :: "recovery_receipt list"
  ro_context :: "loaded_context option"
  ro_error :: "(runtime_error_code \<times> bool) option"

definition run_result_of ::
  "run_verdict \<Rightarrow> string \<Rightarrow> loaded_context option \<Rightarrow> (runtime_error_code \<times> bool) option \<Rightarrow> scene \<Rightarrow> run_result" where
  "run_result_of status response context failure sc =
     \<lparr>ro_status = status, ro_response = response, ro_run = sn_run sc, ro_events = sn_events sc,
      ro_available = sn_available sc, ro_executions = sn_executions sc,
      ro_decisions = sn_decisions sc, ro_confirmations = sn_confirmations sc,
      ro_receipts = sn_receipts sc, ro_context = context, ro_error = failure\<rparr>"

definition safeFailureResponse :: "runtime_error_code \<Rightarrow> string" where
  "safeFailureResponse code = (case code of
     RC_POLICY_CONFIRMATION_REQUIRED \<Rightarrow>
       ''User confirmation is required before this action can proceed.''
   | RC_CONTEXT_LOAD_FAILED \<Rightarrow>
       ''Current vehicle or trip state is temporarily unavailable after a bounded retry. No action was executed, and the requested result cannot be confirmed.''
   | RC_TOOL_ERROR \<Rightarrow>
       ''The requested operation did not complete after bounded recovery. The system stopped safely and cannot confirm the result.''
   | RC_POLICY_DENIED \<Rightarrow>
       ''Deterministic safety policy denied the requested operation. No action was executed.''
   | RC_POLICY_REPLAN_REQUIRED \<Rightarrow>
       ''The current context changed or is stale. No action was executed; a fresh plan is required.''
   | RC_RUN_CANCELLED \<Rightarrow>
       ''The request was cancelled before completion. The result cannot be confirmed.''
   | _ \<Rightarrow>
       ''The request failed safely. No action was executed, and the current result cannot be confirmed.'')"

definition conclude ::
  "run_verdict \<Rightarrow> string \<Rightarrow> loaded_context option \<Rightarrow> (runtime_error_code \<times> bool) option \<Rightarrow>
     ('z, run_result) agentic" where
  "conclude status response context failure = read_scene (run_result_of status response context failure)"

definition emit_failed :: "'z agent_env \<Rightarrow> runtime_error_code \<Rightarrow> ('z, unit) agentic" where
  "emit_failed env code =
     as_then (createEvent env RE_run_failed (no_metadata\<lparr>md_errorCode := Some code\<rparr>)) (emit_run_event env)"

definition fail_run ::
  "'z agent_env \<Rightarrow> runtime_error_code \<times> bool \<Rightarrow> ('z, run_result) agentic" where
  "fail_run env failure =
     as_then (move_run RUN_FAILED) (\<lambda>_.
     as_then (emit_failed env (fst failure)) (\<lambda>_.
       conclude Run_failed (safeFailureResponse (fst failure)) None (Some failure)))"

section \<open>The session\<close>

text \<open>The lease of the session at the coordinator, when there is one.\<close>

definition coordinate :: "('z, 'r) runtime \<Rightarrow> 'z agent_env \<Rightarrow> ('z, bool) agentic" where
  "coordinate rt env = (if rt_coordinated rt then await_answer env (av_coordinate env) else as_return True)"

text \<open>Waiting for the heartbeat to stop, or for the calls of the tool adapter.\<close>

definition await_others :: "'z agent_env \<Rightarrow> ('z, unit) agentic" where
  "await_others env = await_answer env (\<lambda>_. Inr ())"

definition release_lease :: "('z, 'r) runtime \<Rightarrow> 'z agent_env \<Rightarrow> ('z, unit) agentic" where
  "release_lease rt env =
     await_answer env (if rt_coordinated rt then av_release env else (\<lambda>_. Inr ()))"

definition on_session :: "string \<Rightarrow> (agent_session \<Rightarrow> agent_session) \<Rightarrow> ('z, unit) agentic" where
  "on_session sessionId f = amend (\<lambda>sc. sc\<lparr>sn_sessions :=
     (sn_sessions sc)(sessionId := map_option f (sn_sessions sc sessionId))\<rparr>)"

definition touch :: "'z agent_env \<Rightarrow> string \<Rightarrow> ('z, unit) agentic" where
  "touch env sessionId =
     as_then (agent_now env) (\<lambda>ts. on_session sessionId (\<lambda>se. se\<lparr>se_updatedAt := ts\<rparr>))"

definition in_session :: "string \<Rightarrow> (agent_session \<Rightarrow> 'a) \<Rightarrow> scene \<Rightarrow> 'a option" where
  "in_session sessionId f sc = map_option f (sn_sessions sc sessionId)"

definition session_acquire :: "'z agent_env \<Rightarrow> string \<Rightarrow> ('z, bool) agentic" where
  "session_acquire env sessionId =
     as_then (read_scene (in_session sessionId se_activeRun)) (\<lambda>active.
     if active \<noteq> Some None then as_return False
     else as_then (read_scene (\<lambda>sc. ar_runId (sn_run sc))) (\<lambda>runId.
          as_then (on_session sessionId (\<lambda>se. se\<lparr>se_activeRun := Some runId\<rparr>)) (\<lambda>_.
          as_then (touch env sessionId) (\<lambda>_. as_return True))))"

definition session_release :: "'z agent_env \<Rightarrow> string \<Rightarrow> ('z, unit) agentic" where
  "session_release env sessionId =
     as_then (read_scene (\<lambda>sc. (in_session sessionId se_activeRun sc, ar_runId (sn_run sc)))) (\<lambda>(active, runId).
     if active = Some (Some runId)
     then as_then (on_session sessionId (\<lambda>se. se\<lparr>se_activeRun := None\<rparr>)) (\<lambda>_. touch env sessionId)
     else as_return ())"

definition setTools :: "'z agent_env \<Rightarrow> string \<Rightarrow> string list \<Rightarrow> ('z, unit) agentic" where
  "setTools env sessionId names =
     as_then (on_session sessionId (\<lambda>se. se\<lparr>se_tools := names\<rparr>)) (\<lambda>_. touch env sessionId)"

definition checkpoint :: "string \<Rightarrow> ('z, nat) agentic" where
  "checkpoint sessionId = read_scene (\<lambda>sc. case in_session sessionId (\<lambda>se. length (se_messages se)) sc of
     None \<Rightarrow> 0 | Some n \<Rightarrow> n)"

definition last_n :: "nat \<Rightarrow> 'a list \<Rightarrow> 'a list" where
  "last_n n xs = drop (length xs - n) xs"

text \<open>The recent messages, from the first of the user on.\<close>

definition trimmed :: "nat \<Rightarrow> session_message list \<Rightarrow> session_message list" where
  "trimmed n ms = (if length ms \<le> n then ms else dropWhile (\<lambda>m. sm_role m \<noteq> From_user) (last_n n ms))"

definition trimHistory :: "'z agent_env \<Rightarrow> string \<Rightarrow> nat \<Rightarrow> ('z, unit) agentic" where
  "trimHistory env sessionId n =
     as_then (checkpoint sessionId) (\<lambda>count.
     if count \<le> n then as_return ()
     else as_then (on_session sessionId (\<lambda>se. se\<lparr>se_messages := trimmed n (se_messages se)\<rparr>)) (\<lambda>_.
            touch env sessionId))"

definition rollback :: "'z agent_env \<Rightarrow> string \<Rightarrow> nat \<Rightarrow> ('z, unit) agentic" where
  "rollback env sessionId n =
     as_then (on_session sessionId (\<lambda>se. se\<lparr>se_messages := take n (se_messages se)\<rparr>)) (\<lambda>_.
       touch env sessionId)"

definition lastAssistantText :: "agent_session \<Rightarrow> string" where
  "lastAssistantText se =
     (case rev (filter (\<lambda>m. sm_role m = From_assistant) (se_messages se)) of [] \<Rightarrow> [] | m # _ \<Rightarrow> sm_text m)"

text \<open>\<open>AgentSessionStore.getOrCreate\<close> with the factory of the runtime.\<close>

definition restored :: "('z, 'r) runtime \<Rightarrow> session_message list \<Rightarrow> session_message list" where
  "restored rt history = (case rt_memory rt of
     No_memory \<Rightarrow> [] | Restores_all \<Rightarrow> last_n (rt_historyLimit rt) history | Restores_recent \<Rightarrow> history)"

definition new_session :: "utc_timestamp \<Rightarrow> session_message list \<Rightarrow> agent_session" where
  "new_session ts history = \<lparr>se_activeRun = None, se_createdAt = ts, se_updatedAt = ts,
     se_messages = history, se_tools = []\<rparr>"

definition create_session :: "('z, 'r) runtime \<Rightarrow> 'z agent_env \<Rightarrow> ('z, agent_session) agentic" where
  "create_session rt env =
     as_then (if rt_memory rt = No_memory then as_return [] else await_answer env (av_history env)) (\<lambda>history.
     as_then (agent_now env) (\<lambda>ts. as_return (new_session ts (restored rt history))))"

definition not_pending :: "string \<Rightarrow> scene \<Rightarrow> scene" where
  "not_pending sessionId sc =
     sc\<lparr>sn_pendingSessions := filter (\<lambda>i. i \<noteq> sessionId) (sn_pendingSessions sc)\<rparr>"

text \<open>A session that another run is creating: created, failed, or still being created for ever.\<close>

definition await_session :: "'z agent_env \<Rightarrow> string \<Rightarrow> ('z, unit) agentic" where
  "await_session env sessionId s =
     (let s' = let_others_run env s; sc = ag_scene s' in
      if sn_sessions sc sessionId \<noteq> None then (Returns (), s')
      else if sessionId \<in> set (sn_pendingSessions sc) then (Pending, s')
      else (case av_history env (position s) of Inl e \<Rightarrow> (Throws e, s') | Inr _ \<Rightarrow> (Throws Other_thrown, s')))"

definition getOrCreate :: "('z, 'r) runtime \<Rightarrow> 'z agent_env \<Rightarrow> string \<Rightarrow> ('z, unit) agentic" where
  "getOrCreate rt env sessionId =
     as_then (read_scene (\<lambda>sc. (sn_sessions sc sessionId \<noteq> None, sessionId \<in> set (sn_pendingSessions sc)))) (\<lambda>(found, pending).
     if found then as_return ()
     else if pending then await_session env sessionId
     else as_then (amend (\<lambda>sc. sc\<lparr>sn_pendingSessions := sessionId # sn_pendingSessions sc\<rparr>)) (\<lambda>_.
          as_then (as_catch (create_session rt env)
                     (\<lambda>e. as_then (amend (not_pending sessionId)) (\<lambda>_. as_throw e))) (\<lambda>se.
            amend (\<lambda>sc. not_pending sessionId (sc\<lparr>sn_sessions := (sn_sessions sc)(sessionId \<mapsto> se)\<rparr>)))))"

text \<open>The first part of a run, up to its session.\<close>

definition attach :: "string \<Rightarrow> ('z, unit) agentic" where
  "attach snapshotId =
     as_then (read_scene (\<lambda>sc. attachContext (sn_run sc) snapshotId)) (\<lambda>r.
     as_then (as_lift r) (\<lambda>run. amend (\<lambda>sc. sc\<lparr>sn_run := run\<rparr>)))"

definition open_session ::
  "('z, 'r) runtime \<Rightarrow> 'z agent_env \<Rightarrow> agent_request \<Rightarrow> ('z, loaded_context) agentic" where
  "open_session rt env q =
     as_then (move_run CONTEXT_LOADING) (\<lambda>_.
     as_then (context_load (rt_loader rt) env) (\<lambda>loaded.
     as_then (attach (cx_snapshotId (lx_snapshot loaded))) (\<lambda>_.
     as_then (agent_now env) (\<lambda>_.
     as_then (if rt_memory rt = No_memory then as_return () else await_answer env (av_bind env)) (\<lambda>_.
     as_then (getOrCreate rt env (gq_sessionId q)) (\<lambda>_.
     as_then throwIfSessionLeaseLost (\<lambda>_.
       as_return loaded)))))))"

definition lease_error :: "runtime_error_code \<times> bool" where
  "lease_error = (RC_SESSION_BUSY, False)"

definition if_running :: "('z, unit) agentic \<Rightarrow> ('z, unit) agentic" where
  "if_running m = as_then (read_scene (\<lambda>sc. terminal_status (ar_status (sn_run sc)))) (\<lambda>over.
     if over then as_return () else m)"

definition not_opened ::
  "('z, 'r) runtime \<Rightarrow> 'z agent_env \<Rightarrow> agent_thrown \<Rightarrow> ('z, run_result) agentic" where
  "not_opened rt env e =
     as_then (amend (\<lambda>sc. case e of
         Context_load_failure (Some receipt) \<Rightarrow> sc\<lparr>sn_receipts := sn_receipts sc @ [receipt]\<rparr> | _ \<Rightarrow> sc)) (\<lambda>_.
     as_then (await_others env) (\<lambda>_.
     as_then (release_lease rt env) (\<lambda>_.
     as_then (read_scene sn_leaseLost) (\<lambda>lost.
     let failure = (if lost then lease_error else sessionPersistenceRuntimeError e) in
     as_then (if_running (move_run RUN_FAILED)) (\<lambda>_.
     as_then (emit_failed env (fst failure)) (\<lambda>_.
       conclude Run_failed (safeFailureResponse (fst failure)) None (Some failure)))))))"

section \<open>The goal and its plan\<close>

datatype operation = Op_read | Op_write

text \<open>\<open>ROUTING_RULES\<close>, but for their patterns.\<close>

definition ROUTING_RULES :: "(string \<times> operation) list" where
  "ROUTING_RULES =
     [(''reroute_to_charger'', Op_write), (''reserve_charging_slot'', Op_write),
      (''cancel_charging_reservation'', Op_write), (''request_roadside_assistance'', Op_write),
      (''request_emergency_support'', Op_write), (''set_cabin_temperature'', Op_write),
      (''set_seat_heating'', Op_write), (''set_media_volume'', Op_write),
      (''set_navigation_destination'', Op_write), (''search_charging_stations'', Op_read),
      (''get_charging_status'', Op_read), (''get_weather'', Op_read),
      (''get_trip_state'', Op_read), (''get_vehicle_state'', Op_read)]"

datatype intent_class = NO_TOOL | INTENT_READ | INTENT_WRITE | INTENT_MIXED | AMBIGUOUS

record goal_plan =
  gp_intentClass :: intent_class
  gp_candidates :: "string list"

definition plan_goal :: "('z, 'r) runtime \<Rightarrow> string \<Rightarrow> tool_definition list \<Rightarrow> goal_plan" where
  "plan_goal rt prompt available =
     (let matched = filter (\<lambda>r. rt_matches rt (fst r) prompt) ROUTING_RULES; ops = set (map snd matched) in
      if matched = []
      then (if rt_needs_no_tool rt prompt then \<lparr>gp_intentClass = NO_TOOL, gp_candidates = []\<rparr>
            else \<lparr>gp_intentClass = AMBIGUOUS, gp_candidates = map td_name available\<rparr>)
      else \<lparr>gp_intentClass = (if ops = {Op_read, Op_write} then INTENT_MIXED
                               else if Op_write \<in> ops then INTENT_WRITE else INTENT_READ),
            gp_candidates = filter (\<lambda>n. n \<in> set (map td_name available)) (map fst matched)\<rparr>)"

text \<open>\<open>CriticalPathGuard\<close>: what a goal must lead to, whatever the model proposes.\<close>

definition FORMAL_CRITICAL_CAPABILITIES :: "string list" where
  "FORMAL_CRITICAL_CAPABILITIES =
     [''set_navigation_destination'', ''reroute_to_charger'', ''reserve_charging_slot'',
      ''cancel_charging_reservation'', ''request_roadside_assistance'', ''request_emergency_support'']"

record critical_envelope =
  ce_toolMapping :: string
  ce_supported :: bool
  ce_knownArguments :: json
  ce_missingArguments :: "string list"

definition json_record :: "json \<Rightarrow> json" where
  "json_record v = (case v of J_obj kvs \<Rightarrow> J_obj kvs | _ \<Rightarrow> J_obj [])"

definition has_member :: "json \<Rightarrow> string \<Rightarrow> bool" where
  "has_member v k \<longleftrightarrow> (case v of J_obj kvs \<Rightarrow> k \<in> set (map fst kvs) | _ \<Rightarrow> False)"

definition missingArguments :: "('z, 'r) runtime \<Rightarrow> tool_definition \<Rightarrow> json \<Rightarrow> string list" where
  "missingArguments rt d args =
     (let gaps = filter (\<lambda>k. \<not> has_member args k) (rt_required rt d) in
      if \<not> td_schemas_compile d then [''<invalid-schema>'']
      else if td_input_ok d args then gaps
      else if gaps \<noteq> [] then gaps else [''<invalid-or-unknown>''])"

definition resolve_critical ::
  "('z, 'r) runtime \<Rightarrow> string \<Rightarrow> goal_plan \<Rightarrow> tool_definition list \<Rightarrow> critical_envelope list" where
  "resolve_critical rt prompt plan available =
     concat (map (\<lambda>name.
         case (name \<in> set FORMAL_CRITICAL_CAPABILITIES, map_of (rev (map (\<lambda>d. (td_name d, d)) available)) name) of
           (True, Some d) \<Rightarrow>
             (let known = json_record (rt_bind rt name prompt (J_obj [])) in
              [\<lparr>ce_toolMapping = name, ce_supported = True, ce_knownArguments = known,
                ce_missingArguments = missingArguments rt d known\<rparr>])
         | _ \<Rightarrow> [])
       (if gp_intentClass plan = AMBIGUOUS then [] else gp_candidates plan)) @
     map (\<lambda>name. \<lparr>ce_toolMapping = name, ce_supported = False, ce_knownArguments = J_obj [],
                  ce_missingArguments = []\<rparr>)
       (filter (\<lambda>name. rt_matches rt name prompt) FORBIDDEN_TOOL_NAMES)"

definition missing_actions :: "critical_envelope list \<Rightarrow> string list \<Rightarrow> string list" where
  "missing_actions envelopes planned =
     map ce_toolMapping (filter (\<lambda>e. ce_supported e \<and> ce_toolMapping e \<notin> set planned) envelopes)"

definition constrainedRepair ::
  "critical_envelope list \<Rightarrow> string list \<Rightarrow> (unit, (string \<times> json) list) result" where
  "constrainedRepair envelopes planned =
     (let wanted = filter (\<lambda>e. ce_supported e \<and> ce_toolMapping e \<in> set (missing_actions envelopes planned)) envelopes in
      if list_ex (\<lambda>e. ce_missingArguments e \<noteq> []) wanted then Inl ()
      else Inr (map (\<lambda>e. (ce_toolMapping e, ce_knownArguments e)) wanted))"

text \<open>The tools the model gets to see.\<close>

definition mode_available :: "('z, 'r) runtime \<Rightarrow> tool_definition list \<Rightarrow> tool_definition list" where
  "mode_available rt ds = filter (\<lambda>d. rt_mode rt = Read_only \<longrightarrow> td_riskLevel d = R0) ds"

definition exposed_tools :: "('z, 'r) runtime \<Rightarrow> string \<Rightarrow> tool_definition list \<Rightarrow> tool_definition list" where
  "exposed_tools rt prompt ds =
     (let modeAvailable = mode_available rt ds
      in filter (\<lambda>d. td_name d \<in> set (gp_candidates (plan_goal rt prompt modeAvailable))) modeAvailable)"

definition exposure_ok :: "('z, 'r) runtime \<Rightarrow> tool_definition list \<Rightarrow> tool_definition list \<Rightarrow> bool" where
  "exposure_ok rt ds exposed \<longleftrightarrow>
     list_all (\<lambda>d. td_name d \<in> set FORMAL_TOOL_NAMES) ds \<and>
     list_all (\<lambda>d. td_name d \<notin> set FORBIDDEN_TOOL_NAMES) exposed \<and>
     (rt_mode rt = Read_only \<longrightarrow> list_all (\<lambda>d. \<not> td_sideEffect d) exposed)"

definition resolve_tools ::
  "('z, 'r) runtime \<Rightarrow> string \<Rightarrow> loaded_context \<Rightarrow> (agent_thrown, tool_definition list \<times> tool_definition list) result" where
  "resolve_tools rt prompt loaded =
     (case resolve (rt_collation rt) (rt_registry rt) (Some (availability_of loaded)) of
        Inl _ \<Rightarrow> Inl (Agent_error RC_CAPABILITY_RESOLUTION_FAILED False)
      | Inr ds \<Rightarrow>
          (let exposed = exposed_tools rt prompt ds in
           if exposure_ok rt ds exposed then Inr (mode_available rt ds, exposed)
           else Inl (Agent_error RC_CAPABILITY_RESOLUTION_FAILED False)))"

text \<open>The check of the plan before the model is asked: the policy decides on what is certain.\<close>

definition literal_definition :: "('z, 'r) runtime \<Rightarrow> string \<Rightarrow> raw_definition" where
  "literal_definition rt name = \<lparr>rd_ref = rt_literal rt, rd_isArray = False, rd_name = Some name,
     rd_riskLevel = None, rd_sideEffect = None, rd_requiredCapabilities = Paths_not_array,
     rd_requiredServices = Paths_not_array, rd_inputSchema_isObject = False,
     rd_inputSchema_check = (\<lambda>_. None), rd_execute_isFunction = False\<rparr>"

definition precheck_candidate :: "('z, 'r) runtime \<Rightarrow> critical_envelope \<Rightarrow> policy_candidate" where
  "precheck_candidate rt e = absent_candidate\<lparr>pc_isRecord := True,
     pc_toolDefinition := Some (literal_definition rt (ce_toolMapping e)),
     pc_validatedArguments := ce_knownArguments e\<rparr>"

definition precheck_input ::
  "('z, 'r) runtime \<Rightarrow> 'z agent_env \<Rightarrow> loaded_context \<Rightarrow> tool_definition list \<Rightarrow> critical_envelope \<Rightarrow>
     ('z, policy_candidate) agentic" where
  "precheck_input rt env planned exposed e =
     (case find (\<lambda>d. td_name d = ce_toolMapping e) exposed of
        Some d \<Rightarrow> if ce_supported e \<and> ce_missingArguments e = []
                  then as_then (providePolicyInput rt env planned d (ce_knownArguments e)) (\<lambda>p.
                         as_return (pe_candidate p))
                  else as_return (precheck_candidate rt e)
      | None \<Rightarrow> as_return (precheck_candidate rt e))"

definition precheck ::
  "('z, 'r) runtime \<Rightarrow> 'z agent_env \<Rightarrow> loaded_context \<Rightarrow> tool_definition list \<Rightarrow> critical_envelope \<Rightarrow>
     ('z, unit) agentic" where
  "precheck rt env planned exposed e =
     (if ce_supported e \<and> ce_missingArguments e \<noteq> [] then as_return ()
      else as_then (emitRuntime env RE_evaluation_started
                      (no_metadata\<lparr>md_toolName := Some (ce_toolMapping e)\<rparr>)) (\<lambda>_.
           as_then (precheck_input rt env planned exposed e) (\<lambda>candidate.
           as_then (agent_now env) (\<lambda>ts.
           as_then (evaluate_policy rt candidate ts) (\<lambda>dec.
             observe_decision env dec)))))"

fun each :: "('a \<Rightarrow> ('z, unit) agentic) \<Rightarrow> 'a list \<Rightarrow> ('z, unit) agentic" where
  "each f [] = as_return ()"
| "each f (x # xs) = as_then (f x) (\<lambda>_. each f xs)"

section \<open>The events of Pi\<close>

definition on_pi :: "(pi_state \<Rightarrow> pi_state) \<Rightarrow> ('z, unit) agentic" where
  "on_pi f = amend (\<lambda>sc. sc\<lparr>sn_pi := f (sn_pi sc)\<rparr>)"

definition safeToolName :: "string list \<Rightarrow> string \<Rightarrow> string" where
  "safeToolName exposed name = (if name \<in> set exposed then name else ''unregistered_tool'')"

definition safeToolCallId :: "string \<Rightarrow> ('z, string) agentic" where
  "safeToolCallId raw = in_scene (\<lambda>sc. let p = sn_pi sc in
     case pw_callIds p raw of
       Some n \<Rightarrow> (''tool-call:'' @ nat_string n, sc)
     | None \<Rightarrow> (''tool-call:'' @ nat_string (pw_next p),
         sc\<lparr>sn_pi := p\<lparr>pw_next := Suc (pw_next p), pw_callIds := (pw_callIds p)(raw \<mapsto> pw_next p)\<rparr>\<rparr>))"

definition pi_runtime_event ::
  "'z agent_env \<Rightarrow> runtime_event_type \<Rightarrow> runtime_metadata \<Rightarrow> ('z, unit) agentic" where
  "pi_runtime_event env eventType metadata =
     as_then (createEvent env eventType metadata) (\<lambda>event.
     as_then throwIfRuntimeBoundaryFailed (\<lambda>_.
     as_then (emit_run_event env event) (\<lambda>_.
       throwIfSinkFailed)))"

definition assertComplete :: "('z, unit) agentic" where
  "assertComplete = as_then (read_scene (\<lambda>sc. pw_active (sn_pi sc) = Map.empty)) (\<lambda>complete.
     insist complete (Agent_error RC_INTERNAL_ERROR False))"

definition run_status_is :: "run_status list \<Rightarrow> scene \<Rightarrow> bool" where
  "run_status_is sts sc \<longleftrightarrow> ar_status (sn_run sc) \<in> set sts"

definition observe_start :: "'z agent_env \<Rightarrow> string list \<Rightarrow> string \<Rightarrow> string \<Rightarrow> ('z, unit) agentic" where
  "observe_start env exposed callId name =
     as_then (read_scene (run_status_is [MODEL_RUNNING, MODEL_RESUMED, TOOL_PROCESSING])) (\<lambda>ok.
     as_then (insist ok (Agent_error RC_INTERNAL_ERROR False)) (\<lambda>_.
     as_then (read_scene (\<lambda>sc. pw_active (sn_pi sc) callId \<noteq> None \<or> callId \<in> set (pw_completed (sn_pi sc)))) (\<lambda>repeated.
     as_then (insist (\<not> repeated) (Agent_error RC_INTERNAL_ERROR False)) (\<lambda>_.
     as_then (on_pi (\<lambda>p. p\<lparr>pw_active := (pw_active p)(callId \<mapsto> name)\<rparr>)) (\<lambda>_.
     as_then (read_scene (run_status_is [TOOL_PROCESSING])) (\<lambda>processing.
     as_then (if processing then as_return ()
              else as_then (move_run TOOL_REQUESTED) (\<lambda>_. move_run TOOL_PROCESSING)) (\<lambda>_.
     as_then (safeToolCallId callId) (\<lambda>safeId.
       pi_runtime_event env RE_tool_requested (no_metadata\<lparr>md_toolName := Some (safeToolName exposed name),
         md_toolCallId := Some safeId\<rparr>)))))))))"

definition observe_end :: "'z agent_env \<Rightarrow> string list \<Rightarrow> string \<Rightarrow> string \<Rightarrow> bool \<Rightarrow> ('z, unit) agentic" where
  "observe_end env exposed callId name isError =
     as_then (read_scene (\<lambda>sc. pw_active (sn_pi sc) callId)) (\<lambda>started.
     as_then (insist (started = Some name) (Agent_error RC_INTERNAL_ERROR False)) (\<lambda>_.
     as_then (on_pi (\<lambda>p. if isError then p\<lparr>pw_toolErrors := Suc (pw_toolErrors p)\<rparr> else p)) (\<lambda>_.
     as_then (safeToolCallId callId) (\<lambda>safeId.
     as_then (pi_runtime_event env RE_tool_completed (no_metadata\<lparr>md_toolName := Some (safeToolName exposed name),
         md_toolCallId := Some safeId, md_isError := Some isError\<rparr>)) (\<lambda>_.
       on_pi (\<lambda>p. p\<lparr>pw_active := (pw_active p)(callId := None), pw_completed := callId # pw_completed p\<rparr>))))))"

definition observe_turn_end ::
  "('z, 'r) runtime \<Rightarrow> 'z agent_env \<Rightarrow> bool \<Rightarrow> nat \<Rightarrow> ('z, unit) agentic" where
  "observe_turn_end rt env fromAssistant toolResults =
     as_then (if fromAssistant \<and> rt_usage_sink rt then await_answer env (av_usage env) else as_return ()) (\<lambda>_.
     if toolResults = 0 then as_return ()
     else as_then (read_scene (run_status_is [TOOL_PROCESSING])) (\<lambda>processing.
          as_then (insist processing (Agent_error RC_INTERNAL_ERROR False)) (\<lambda>_.
          as_then assertComplete (\<lambda>_.
          as_then (move_run MODEL_RESUMED) (\<lambda>_.
            pi_runtime_event env RE_model_resumed no_metadata)))))"

fun observe :: "('z, 'r) runtime \<Rightarrow> 'z agent_env \<Rightarrow> string list \<Rightarrow> pi_event \<Rightarrow> ('z, unit) agentic" where
  "observe rt env exposed (Message_update delta) =
     (if rt_delta_sink rt \<and> rt_sanitize rt delta \<noteq> [] then await_answer env (av_delta env) else as_return ())"
| "observe rt env exposed Turn_start =
     as_then (read_scene (run_status_is [MODEL_RESUMED])) (\<lambda>resumed.
     if resumed then as_then (move_run MODEL_RUNNING) (\<lambda>_. pi_runtime_event env RE_model_started no_metadata)
     else as_return ())"
| "observe rt env exposed (Tool_execution_start callId name) = observe_start env exposed callId name"
| "observe rt env exposed (Tool_execution_end callId name isError) = observe_end env exposed callId name isError"
| "observe rt env exposed (Turn_end fromAssistant toolResults) = observe_turn_end rt env fromAssistant toolResults"
| "observe rt env exposed Pi_other = as_return ()"

text \<open>
  A step of Pi. What a listener or a tool throws is the library's to handle; a call of a tool it
  does not know reaches none. How the prompt ends is the environment's answer.
\<close>

definition ignore_thrown :: "('z, 'a) agentic \<Rightarrow> ('z, unit) agentic" where
  "ignore_thrown m = as_try m (\<lambda>_. as_return ()) (\<lambda>_. as_return ())"

definition pi_does ::
  "('z, 'r) runtime \<Rightarrow> 'z agent_env \<Rightarrow> agent_request \<Rightarrow> loaded_context \<Rightarrow> tool_definition list \<Rightarrow> pi_step \<Rightarrow>
     ('z, unit) agentic" where
  "pi_does rt env q planned exposed st =
     (case st of
        Pi_tells e \<Rightarrow> ignore_thrown (observe rt env (map td_name exposed) e)
      | Pi_calls name parameters \<Rightarrow>
          (case find (\<lambda>d. td_name d = name) exposed of
             None \<Rightarrow> as_return ()
           | Some d \<Rightarrow> ignore_thrown (adapter_execute rt env planned (gq_prompt q) True d parameters))
      | Pi_adds m \<Rightarrow> on_session (gq_sessionId q) (\<lambda>se. se\<lparr>se_messages := se_messages se @ [m]\<rparr>))"

definition session_prompt ::
  "('z, 'r) runtime \<Rightarrow> 'z agent_env \<Rightarrow> agent_request \<Rightarrow> loaded_context \<Rightarrow> tool_definition list \<Rightarrow>
     ('z, unit) agentic" where
  "session_prompt rt env q planned exposed =
     as_then (amend (\<lambda>sc. sc\<lparr>sn_aborted := False, sn_pi := new_pi_state\<rparr>)) (\<lambda>_.
     as_then (as_get (\<lambda>s. av_pi env (position s))) (\<lambda>sts.
     as_then (each (pi_does rt env q planned exposed) sts) (\<lambda>_.
       await_answer env (av_promptEnd env))))"

section \<open>Repairing the plan\<close>

definition is_control :: "agent_thrown \<Rightarrow> bool" where
  "is_control e \<longleftrightarrow> (case e of Policy_control _ _ \<Rightarrow> True | _ \<Rightarrow> False)"

definition repair_metadata :: "string \<Rightarrow> nat \<Rightarrow> runtime_metadata" where
  "repair_metadata name k = no_metadata\<lparr>md_toolName := Some name,
     md_toolCallId := Some (''constrained-repair:'' @ nat_string k)\<rparr>"

definition repair_call ::
  "('z, 'r) runtime \<Rightarrow> 'z agent_env \<Rightarrow> agent_request \<Rightarrow> loaded_context \<Rightarrow> tool_definition list \<Rightarrow>
     nat \<times> string \<times> json \<Rightarrow> ('z, unit) agentic" where
  "repair_call rt env q planned exposed repair =
     (case repair of (k, name, args) \<Rightarrow>
        case find (\<lambda>d. td_name d = name) exposed of
          None \<Rightarrow> as_throw (Agent_error RC_TOOL_ERROR False)
        | Some d \<Rightarrow>
            as_then (emitRuntime env RE_tool_requested ((repair_metadata name k)\<lparr>md_planIncomplete := True\<rparr>)) (\<lambda>_.
            as_then (as_try (adapter_execute rt env planned (gq_prompt q) False d args)
                       (\<lambda>e. as_return (Some e)) (\<lambda>_. as_return None)) (\<lambda>failed.
            as_then (emitRuntime env RE_tool_completed
                       ((repair_metadata name k)\<lparr>md_isError := Some (failed \<noteq> None)\<rparr>)) (\<lambda>_.
              insist (case failed of None \<Rightarrow> True | Some e \<Rightarrow> is_control e) (Agent_error RC_TOOL_ERROR False)))))"

definition repair_all ::
  "('z, 'r) runtime \<Rightarrow> 'z agent_env \<Rightarrow> agent_request \<Rightarrow> loaded_context \<Rightarrow> tool_definition list \<Rightarrow>
     (string \<times> json) list \<Rightarrow> ('z, unit) agentic" where
  "repair_all rt env q planned exposed repairs =
     as_then (read_scene (run_status_is [MODEL_RUNNING, MODEL_RESUMED])) (\<lambda>modelling.
     as_then (if modelling then as_then (move_run TOOL_REQUESTED) (\<lambda>_. move_run TOOL_PROCESSING)
              else as_return ()) (\<lambda>_.
     as_then (each (repair_call rt env q planned exposed) (zip [1..<Suc (length repairs)] repairs)) (\<lambda>_.
     as_then (read_scene (run_status_is [TOOL_PROCESSING])) (\<lambda>processing.
     if processing then as_then (move_run MODEL_RESUMED) (\<lambda>_. emitRuntime env RE_model_resumed no_metadata)
     else as_return ()))))"

definition complete_plan ::
  "('z, 'r) runtime \<Rightarrow> 'z agent_env \<Rightarrow> agent_request \<Rightarrow> loaded_context \<Rightarrow> tool_definition list \<Rightarrow>
     critical_envelope list \<Rightarrow> ('z, unit) agentic" where
  "complete_plan rt env q planned exposed envelopes =
     as_then (read_scene (\<lambda>sc. map tv_toolName (sn_executions sc))) (\<lambda>done_names.
     if missing_actions envelopes done_names = [] then as_return ()
     else (case constrainedRepair envelopes done_names of
             Inl _ \<Rightarrow> as_throw (Agent_error RC_TOOL_ERROR False)
           | Inr repairs \<Rightarrow> if repairs = [] then as_return ()
                            else repair_all rt env q planned exposed repairs))"

section \<open>The body of a run\<close>

definition prepare_tools ::
  "('z, 'r) runtime \<Rightarrow> 'z agent_env \<Rightarrow> agent_request \<Rightarrow> loaded_context \<Rightarrow>
     ('z, tool_definition list \<times> critical_envelope list) agentic" where
  "prepare_tools rt env q loaded =
     as_then (emitRuntime env RE_context_loaded (no_metadata\<lparr>
         md_contextVersion := Some (cx_contextVersion (lx_snapshot loaded)),
         md_contextFreshness := Some (lx_status loaded)\<rparr>)) (\<lambda>_.
     as_then throwIfSinkFailed (\<lambda>_.
     as_then throwIfCancelled (\<lambda>_.
     as_then throwIfSessionLeaseLost (\<lambda>_.
     as_then (move_run CAPABILITY_RESOLUTION) (\<lambda>_.
     as_then (as_lift (resolve_tools rt (gq_prompt q) loaded)) (\<lambda>(modeAvailable, exposed).
     let plan = plan_goal rt (gq_prompt q) modeAvailable;
         envelopes = resolve_critical rt (gq_prompt q) plan modeAvailable in
     as_then (amend (\<lambda>sc. sc\<lparr>sn_available := map td_name exposed\<rparr>)) (\<lambda>_.
     as_then (emitRuntime env RE_capabilities_resolved (no_metadata\<lparr>
         md_availableToolCount := Some (length exposed),
         md_contextVersion := Some (cx_contextVersion (lx_snapshot loaded))\<rparr>)) (\<lambda>_.
     as_then throwIfSinkFailed (\<lambda>_.
     as_then (each (precheck rt env loaded exposed) envelopes) (\<lambda>_.
       as_return (exposed, envelopes)))))))))))"

definition unless_committed :: "('z, unit) agentic \<Rightarrow> ('z, unit) agentic" where
  "unless_committed m = as_then (read_scene sn_committed) (\<lambda>committed. if committed then as_return () else m)"

definition ask_model ::
  "('z, 'r) runtime \<Rightarrow> 'z agent_env \<Rightarrow> agent_request \<Rightarrow> loaded_context \<Rightarrow> tool_definition list \<Rightarrow>
     ('z, unit) agentic" where
  "ask_model rt env q loaded exposed =
     as_then (setTools env (gq_sessionId q) (map td_name exposed)) (\<lambda>_.
     as_then throwIfCancelled (\<lambda>_.
     as_then (unless_committed throwIfSessionLeaseLost) (\<lambda>_.
     as_then (move_run MODEL_RUNNING) (\<lambda>_.
     as_then (emitRuntime env RE_model_started no_metadata) (\<lambda>_.
     as_then throwIfSinkFailed (\<lambda>_.
       session_prompt rt env q loaded exposed))))))"

text \<open>What the run did must end it: the first control result, or an error of a tool.\<close>

definition control_error :: "policy_control \<Rightarrow> agent_thrown" where
  "control_error c = (case c of
     PC_DENIED \<Rightarrow> Agent_error RC_POLICY_DENIED False
   | PC_REPLAN_REQUIRED \<Rightarrow> Agent_error RC_POLICY_REPLAN_REQUIRED True
   | PC_CONFIRMATION_REQUIRED \<Rightarrow> Agent_error RC_POLICY_CONFIRMATION_REQUIRED False)"

definition first_control :: "tool_evidence list \<Rightarrow> policy_control option" where
  "first_control ts = (case filter (\<lambda>t. tv_policyControl t \<noteq> None) ts of [] \<Rightarrow> None | t # _ \<Rightarrow> tv_policyControl t)"

definition check_outcome :: "'z agent_env \<Rightarrow> ('z, unit) agentic" where
  "check_outcome env =
     as_then (as_get (\<lambda>s. av_sessionError env (position s))) (\<lambda>failed.
     as_then (insist (\<not> failed) (Agent_error RC_MODEL_ERROR True)) (\<lambda>_.
     as_then assertComplete (\<lambda>_.
     as_then (read_scene (\<lambda>sc. first_control (sn_executions sc))) (\<lambda>control.
     as_then (case control of None \<Rightarrow> as_return () | Some c \<Rightarrow> as_throw (control_error c)) (\<lambda>_.
     as_then (read_scene (\<lambda>sc. pw_toolErrors (sn_pi sc))) (\<lambda>errors.
     as_then (insist (errors = 0) (Agent_error RC_TOOL_ERROR False)) (\<lambda>_.
     as_then (read_scene (run_status_is [MODEL_RUNNING, MODEL_RESUMED])) (\<lambda>ok.
       insist ok (Agent_error RC_INTERNAL_ERROR False)))))))))"

definition remember_turn :: "('z, 'r) runtime \<Rightarrow> 'z agent_env \<Rightarrow> ('z, unit) agentic" where
  "remember_turn rt env =
     as_then (read_scene (\<lambda>sc. sn_committed sc \<and> sn_leaseLost sc)) (\<lambda>late.
     if late \<or> rt_memory rt = No_memory then as_return ()
     else as_catch (as_then (agent_now env) (\<lambda>_. await_answer env (av_append env)))
            (\<lambda>e. as_throw (case sessionPersistenceRuntimeError e of (code, retryable) \<Rightarrow> Agent_error code retryable)))"

definition deliver_completed :: "'z agent_env \<Rightarrow> ('z, unit) agentic" where
  "deliver_completed env =
     as_then (createEvent env RE_run_completed no_metadata) (\<lambda>event.
     as_then throwIfRuntimeBoundaryFailed (\<lambda>_.
     as_then (deliver_event env) (\<lambda>_.
     as_then throwIfSinkFailed (\<lambda>_.
       amend (\<lambda>sc. sc\<lparr>sn_events := sn_events sc @ [event]\<rparr>)))))"

definition finish_run ::
  "('z, 'r) runtime \<Rightarrow> 'z agent_env \<Rightarrow> agent_request \<Rightarrow> loaded_context \<Rightarrow> ('z, run_result) agentic" where
  "finish_run rt env q loaded =
     as_then (await_others env) (\<lambda>_.
     as_then throwIfSinkFailed (\<lambda>_.
     as_then throwIfCancelled (\<lambda>_.
     as_then (unless_committed throwIfSessionLeaseLost) (\<lambda>_.
     as_then (read_scene (\<lambda>sc. case in_session (gq_sessionId q) lastAssistantText sc of
         None \<Rightarrow> [] | Some t \<Rightarrow> rt_sanitize rt t)) (\<lambda>response.
     as_then (check_outcome env) (\<lambda>_.
     as_then (unless_committed throwIfSessionLeaseLost) (\<lambda>_.
     as_then (remember_turn rt env) (\<lambda>_.
     as_then (unless_committed throwIfSessionLeaseLost) (\<lambda>_.
     as_then (deliver_completed env) (\<lambda>_.
     as_then (move_run RUN_SUCCEEDED) (\<lambda>_.
       conclude Run_succeeded response (Some loaded) None)))))))))))"

definition converse ::
  "('z, 'r) runtime \<Rightarrow> 'z agent_env \<Rightarrow> agent_request \<Rightarrow> loaded_context \<Rightarrow> ('z, run_result) agentic" where
  "converse rt env q loaded =
     as_then (prepare_tools rt env q loaded) (\<lambda>(exposed, envelopes).
     as_then (ask_model rt env q loaded exposed) (\<lambda>_.
     as_then (complete_plan rt env q loaded exposed envelopes) (\<lambda>_.
       finish_run rt env q loaded)))"

text \<open>The \<open>catch\<close> and the \<open>finally\<close> of \<open>run\<close>.\<close>

definition failed_run ::
  "'z agent_env \<Rightarrow> agent_request \<Rightarrow> loaded_context \<Rightarrow> nat \<Rightarrow> agent_thrown \<Rightarrow> ('z, run_result) agentic" where
  "failed_run env q loaded mark e =
     as_then (await_others env) (\<lambda>_.
     as_then (read_scene (\<lambda>sc. (sn_cancelled sc, sn_leaseLost sc \<and> \<not> sn_committed sc))) (\<lambda>(cancelled, lost).
     let failure = (if lost then lease_error
                    else if cancelled then (RC_RUN_CANCELLED, False) else safeRuntimeError e);
         over = cancelled \<and> \<not> lost in
     as_then (if_running (move_run (if over then RUN_CANCELLED else RUN_FAILED))) (\<lambda>_.
     as_then (rollback env (gq_sessionId q) mark) (\<lambda>_.
     as_then (emit_failed env (fst failure)) (\<lambda>_.
       conclude (if over then Run_cancelled else Run_failed) (safeFailureResponse (fst failure))
         (Some loaded) (Some failure))))))"

definition close_run :: "('z, 'r) runtime \<Rightarrow> 'z agent_env \<Rightarrow> agent_request \<Rightarrow> ('z, unit) agentic" where
  "close_run rt env q =
     as_then (amend (\<lambda>sc. sc\<lparr>sn_cancelled := False\<rparr>)) (\<lambda>_.
     as_then (trimHistory env (gq_sessionId q) (rt_historyLimit rt)) (\<lambda>_.
     as_then (session_release env (gq_sessionId q)) (\<lambda>_.
     as_then (await_others env) (\<lambda>_.
       ignore_thrown (release_lease rt env)))))"

definition finally_do :: "('z, 'a) agentic \<Rightarrow> ('z, unit) agentic \<Rightarrow> ('z, 'a) agentic" where
  "finally_do m f = as_try m (\<lambda>e. as_then f (\<lambda>_. as_throw e)) (\<lambda>x. as_then f (\<lambda>_. as_return x))"

definition opened_run ::
  "('z, 'r) runtime \<Rightarrow> 'z agent_env \<Rightarrow> agent_request \<Rightarrow> loaded_context \<Rightarrow> ('z, run_result) agentic" where
  "opened_run rt env q loaded =
     as_then (session_acquire env (gq_sessionId q)) (\<lambda>acquired.
     if \<not> acquired
     then as_then (await_others env) (\<lambda>_.
          as_then (release_lease rt env) (\<lambda>_. fail_run env lease_error))
     else as_then throwIfSessionLeaseLost (\<lambda>_.
          as_then (checkpoint (gq_sessionId q)) (\<lambda>mark.
            finally_do (as_catch (converse rt env q loaded) (failed_run env q loaded mark))
              (close_run rt env q))))"

definition coordinated_run ::
  "('z, 'r) runtime \<Rightarrow> 'z agent_env \<Rightarrow> agent_request \<Rightarrow> ('z, run_result) agentic" where
  "coordinated_run rt env q =
     as_then (coordinate rt env) (\<lambda>coordinated.
     if \<not> coordinated then fail_run env lease_error
     else as_try (open_session rt env q) (not_opened rt env) (opened_run rt env q))"

definition agent_run_internal_error :: "runtime_error_code \<times> bool" where
  "agent_run_internal_error = (RC_INTERNAL_ERROR, False)"

definition run ::
  "('z, 'r) runtime \<Rightarrow> 'z agent_env \<Rightarrow> agent_request \<Rightarrow> ('z, run_result) agentic" where
  "run rt env q =
     as_then (as_lift (validateRequest q)) (\<lambda>_.
     as_then (start_run env q) (\<lambda>_.
     as_then (createEvent env RE_run_started no_metadata) (\<lambda>started.
     as_then (read_scene sn_boundaryFailed) (\<lambda>failed.
     if failed then fail_run env agent_run_internal_error
     else as_then (emit_run_event env started) (\<lambda>_.
          as_then (read_scene sn_sinkFailed) (\<lambda>undelivered.
          if undelivered then fail_run env agent_run_internal_error
          else coordinated_run rt env q))))))"

end
