(* ===== verification/QuietCode.thy ===== *)
theory QuietCode
  imports AgentRuns ExecutorGuarantees
begin

text \<open>
  Most code of the runtime neither calls a tool nor moves the run. An observation of the state
  that sees only these is unchanged by all other code: the locale states what such an observation
  must not see, and the lemmas of its context follow for each of them.
\<close>

section \<open>Code that preserves an observation\<close>

definition preserves :: "('z agent \<Rightarrow> 'x) \<Rightarrow> ('z, 'a) agentic \<Rightarrow> bool" where
  "preserves f m \<longleftrightarrow> (\<forall>s. f (snd (m s)) = f s)"

named_theorems preserves_rules "code that preserves an observation"

lemma preserves_control [preserves_rules]:
  "preserves f (as_return x)" "preserves f (as_throw e)" "preserves f (as_get g)" "preserves f (as_lift r)"
  by (simp_all add: preserves_def as_return_def as_throw_def as_get_def as_lift_def split: sum.split)

lemma preserves_try [preserves_rules]:
  "preserves f m \<Longrightarrow> (\<And>e. preserves f (h e)) \<Longrightarrow> (\<And>x. preserves f (k x)) \<Longrightarrow> preserves f (as_try m h k)"
  unfolding preserves_def as_try_def by (auto split: prod.split settled.split) (metis snd_conv)+

lemma preserves_then [preserves_rules]:
  "preserves f m \<Longrightarrow> (\<And>x. preserves f (k x)) \<Longrightarrow> preserves f (as_then m k)"
  unfolding as_then_is_try by (intro preserves_rules)

lemma preserves_catch [preserves_rules]:
  "preserves f m \<Longrightarrow> (\<And>e. preserves f (h e)) \<Longrightarrow> preserves f (as_catch m h)"
  unfolding as_catch_is_try by (intro preserves_rules)

lemma preserves_finally: "preserves f m \<Longrightarrow> (\<And>s. f (g s) = f s) \<Longrightarrow> preserves f (as_finally m g)"
  unfolding preserves_def as_finally_def by (auto split: prod.split settled.split) (metis snd_conv)+

lemma preserves_finally_do: "preserves f m \<Longrightarrow> preserves f k \<Longrightarrow> preserves f (finally_do m k)"
  unfolding finally_do_def by (intro preserves_rules)

lemma preserves_cases [preserves_rules]:
  "preserves f m \<Longrightarrow> preserves f n \<Longrightarrow> preserves f (if c then m else n)"
  "preserves f m \<Longrightarrow> (\<And>x. preserves f (g x)) \<Longrightarrow> preserves f (case v of None \<Rightarrow> m | Some x \<Rightarrow> g x)"
  "(\<And>x. preserves f (h x)) \<Longrightarrow> (\<And>x. preserves f (g x)) \<Longrightarrow> preserves f (case r of Inl x \<Rightarrow> h x | Inr x \<Rightarrow> g x)"
  "(\<And>x y. preserves f (c2 x y)) \<Longrightarrow> preserves f (case p of (x, y) \<Rightarrow> c2 x y)"
  by (simp_all split: option.split sum.split prod.split)

lemma preserves_each: "(\<And>x. preserves f (g x)) \<Longrightarrow> preserves f (each g xs)"
  by (induction xs) (simp_all add: preserves_rules)

lemma preserves_ignore [preserves_rules]: "preserves f m \<Longrightarrow> preserves f (ignore_thrown m)"
  unfolding ignore_thrown_def by (intro preserves_rules)

lemma preserves_lifted [preserves_rules]:
  "preserves f (or_other r)" "preserves f (insist c e)" "preserves f (copied rt v e)" "preserves f (read_scene h)"
  unfolding or_other_def insist_def copied_def read_scene_def by (intro preserves_rules)+

lemma preserves_lifecycle [preserves_rules]: "preserves f m \<Longrightarrow> preserves f (or_lifecycle m)"
  unfolding or_lifecycle_def by (intro preserves_rules)

lemma preserves_guards [preserves_rules]:
  "preserves f throwIfRuntimeBoundaryFailed" "preserves f throwIfSinkFailed"
  "preserves f throwIfSessionLeaseLost" "preserves f throwIfCancelled" "preserves f assertComplete"
  unfolding throwIfRuntimeBoundaryFailed_def throwIfSinkFailed_def throwIfSessionLeaseLost_def
    throwIfCancelled_def assertComplete_def by (intro preserves_rules)+

lemma preserves_more_guards [preserves_rules]:
  "preserves f m \<Longrightarrow> preserves f (unless_committed m)" "preserves f m \<Longrightarrow> preserves f (if_running m)"
  "preserves f (conclude st response planned failure)"
  unfolding unless_committed_def if_running_def conclude_def by (intro preserves_rules; assumption?)+

section \<open>What a bystander sees\<close>

text \<open>
  An observation that time, the rest of the process, the shared components and all of the scene
  but the state machine of the run leave alone.
\<close>

locale bystander =
  fixes f :: "'z agent \<Rightarrow> 'x"
  assumes time: "f (advance k s) = f s"
    and others: "f (let_others_run env s) = f s"
    and scene: "sn_run sc = sn_run (ag_scene s) \<Longrightarrow> f (s\<lparr>ag_scene := sc\<rparr>) = f s"
    and components: "f (s\<lparr>ag_exec := (ag_exec s)\<lparr>rn_shared := sh\<rparr>\<rparr>) = f s"
begin

lemmas unseen = time others scene components

lemma await [preserves_rules]: "preserves f (await_answer env g)"
  by (simp add: preserves_def await_answer_def Let_def unseen split: sum.split)

lemma amends: "(\<And>sc. sn_run (g sc) = sn_run sc) \<Longrightarrow> preserves f (amend g)"
  by (simp add: preserves_def amend_def in_scene_def as_update_def unseen)

lemma service [preserves_rules]:
  "preserves f (\<lambda>s. in_service w p env (m s) s)" "preserves f (in_service w p env n)"
  by (simp_all add: preserves_def in_service_def Let_def unseen split: prod.split sum.split)

lemma now [preserves_rules]: "preserves f (agent_now env)"
  by (simp add: preserves_def agent_now_def unseen split: sum.split)

lemma event_parts [preserves_rules]: "preserves f (createEvent env t md)" "preserves f (deliver_event env)"
  by (simp_all add: preserves_def createEvent_def deliver_event_def as_update_def Let_def unseen split: prod.split)

lemma events [preserves_rules]:
  "preserves f (emit_run_event env ev)" "preserves f (emitRuntime env t md)"
  "preserves f (emit_failed env code)" "preserves f (pi_runtime_event env t md)" "preserves f (deliver_completed env)"
  unfolding emit_run_event_def emitRuntime_def emit_failed_def pi_runtime_event_def deliver_completed_def
  by (intro preserves_rules amends; simp)+

lemma load [preserves_rules]: "preserves f (context_load cl env)"
proof -
  have parts: "preserves f (load_source cl env)" "preserves f (check_source cl env src k)" for src k
    by (simp_all add: preserves_def load_source_def check_source_def as_update_def Let_def unseen
        split: prod.split option.split sum.split)
  have "preserves f again \<Longrightarrow> preserves f (load_attempt cl env k again)" for k again
    unfolding load_attempt_def
    by (intro preserves_rules parts) (auto intro!: preserves_rules split: load_error.split)
  then show ?thesis unfolding context_load_def by (blast intro: preserves_rules)
qed

lemma policy_parts [preserves_rules]:
  "preserves f (effective_freshness env pf l)" "preserves f (evaluate_policy rt c ts)"
  by (simp_all add: preserves_def effective_freshness_def evaluate_policy_def as_update_def Let_def or_other_def
      as_throw_def as_return_def unseen split: sum.split prod.split)

lemma provide [preserves_rules]: "preserves f (providePolicyInput rt env planned d args)"
  unfolding providePolicyInput_def by (intro preserves_rules)

lemma observers [preserves_rules]:
  "preserves f (observe_started env name)" "preserves f (observe_decision env dec)"
  "preserves f (observe_blocked env dec)" "preserves f (observe_execution sig d args ok v c)"
  unfolding observe_started_def observe_decision_def observe_blocked_def observe_execution_def
  by (intro preserves_rules amends; simp)+

lemma confirmation [preserves_rules]: "preserves f (confirmationRequired rt env planned d args dec p)"
proof -
  have "preserves f (publish_challenge env c)" for c
    by (simp add: preserves_def publish_challenge_def Let_def unseen split: prod.split sum.split)
  moreover have "preserves f (create_action rt env c)" for c
    unfolding create_action_def by (rule service)
  ultimately show ?thesis
    unfolding confirmationRequired_def ask_user_def withdraw_def by (intro preserves_rules amends) simp_all
qed

lemma adapter_replies [preserves_rules]: "preserves f (adapter_output rt sig d args v)"
  unfolding adapter_output_def Let_def by (intro preserves_rules)

section \<open>The runs and their sessions\<close>

lemma sessions [preserves_rules]:
  "preserves f (on_session i g)" "preserves f (touch env i)" "preserves f (session_acquire env i)"
  "preserves f (session_release env i)" "preserves f (setTools env i ns)" "preserves f (checkpoint i)"
  "preserves f (trimHistory env i n)" "preserves f (rollback env i n)"
proof -
  show on: "preserves f (on_session i g)" for g
    unfolding on_session_def by (rule amends) simp
  show touch: "preserves f (touch env i)"
    unfolding touch_def by (intro preserves_rules on)
  show mark: "preserves f (checkpoint i)"
    unfolding checkpoint_def by (intro preserves_rules)
  show "preserves f (session_acquire env i)" "preserves f (session_release env i)"
    "preserves f (setTools env i ns)" "preserves f (trimHistory env i n)" "preserves f (rollback env i n)"
    unfolding session_acquire_def session_release_def setTools_def trimHistory_def rollback_def
    by (intro preserves_rules on touch mark)+
qed

lemma getting_session [preserves_rules]: "preserves f (getOrCreate rt env i)"
proof -
  have "preserves f (create_session rt env)"
    unfolding create_session_def by (intro preserves_rules)
  moreover have "preserves f (await_session env i)"
    by (simp add: preserves_def await_session_def Let_def unseen split: sum.split)
  ultimately show ?thesis
    unfolding getOrCreate_def by (intro preserves_rules amends) (simp_all add: not_pending_def)
qed

lemma coordination [preserves_rules]:
  "preserves f (coordinate rt env)" "preserves f (await_others env)" "preserves f (release_lease rt env)"
  unfolding coordinate_def await_others_def release_lease_def by (intro preserves_rules)+

lemma closing [preserves_rules]: "preserves f (close_run rt env q)"
  unfolding close_run_def by (intro preserves_rules amends) simp

lemma prechecks [preserves_rules]: "preserves f (precheck rt env planned exposed e)"
  unfolding precheck_def precheck_input_def by (intro preserves_rules)

lemma pi_parts [preserves_rules]:
  "preserves f (on_pi g)" "preserves f (safeToolCallId raw)" "preserves f (observe_end env exposed i n bad)"
proof -
  show on: "preserves f (on_pi g)" for g
    unfolding on_pi_def by (rule amends) simp
  show safe: "preserves f (safeToolCallId raw)" for raw
    by (simp add: preserves_def safeToolCallId_def in_scene_def as_update_def Let_def unseen split: option.split)
  show "preserves f (observe_end env exposed i n bad)"
    unfolding observe_end_def by (intro preserves_rules on safe)
qed

lemma endings [preserves_rules]: "preserves f (check_outcome env)" "preserves f (remember_turn rt env)"
  unfolding check_outcome_def remember_turn_def by (intro preserves_rules)+

end

end
