(* ===== verification/CallGuarantees.thy ===== *)
theory CallGuarantees
  imports QuietCode
begin

text \<open>
  Nothing the model proposes reaches a tool unchecked. The proofs read the steps a call adds to
  the executor's log: all code of the runtime is toolless but the one call of the executor, which
  is reached only with a decision the policy engine made during this very call.
\<close>

section \<open>Code that reaches no tool\<close>

definition steps_of :: "'z agent \<Rightarrow> external_step list" where
  "steps_of s = filter significant (rn_log (ag_exec s))"

lemma steps_of_parts [simp]:
  "steps_of (s\<lparr>ag_scene := sc\<rparr>) = steps_of s" "steps_of (advance n s) = steps_of s"
  "steps_of (let_others_run env s) = steps_of s"
  "steps_of (s\<lparr>ag_exec := (ag_exec s)\<lparr>rn_shared := sh\<rparr>\<rparr>) = steps_of s"
  by (simp_all add: steps_of_def advance_def let_others_run_def interleave_def)

interpretation tools: bystander steps_of
  by unfold_locales simp_all

abbreviation toolless :: "('z, 'a) agentic \<Rightarrow> bool" where
  "toolless \<equiv> preserves steps_of"

lemma toolless_scene [preserves_rules]: "toolless (in_scene g)" "toolless (amend h)"
  by (simp_all add: preserves_def in_scene_def amend_def as_update_def split: prod.split)

lemma toolless_move [preserves_rules]: "toolless (move_run st)" "toolless (attach x)"
  unfolding move_run_def attach_def by (intro preserves_rules)+

section \<open>Code that reaches tools under a condition\<close>

definition acts :: "('z, 'a) agentic \<Rightarrow> (external_step list \<Rightarrow> bool) \<Rightarrow> bool" where
  "acts m G \<longleftrightarrow> (\<forall>s. \<exists>l. steps_of (snd (m s)) = steps_of s @ l \<and> G l)"

lemma acts_toolless: "toolless m \<Longrightarrow> G [] \<Longrightarrow> acts m G"
  unfolding preserves_def acts_def by (metis append_Nil2)

text \<open>Toolless code first; what it returned may be used.\<close>

lemma acts_after:
  assumes "toolless m" "G []" "\<And>s x s'. m s = (Returns x, s') \<Longrightarrow> acts (f x) G"
  shows "acts (as_then m f) G"
  unfolding acts_def
proof
  fix s
  obtain r s' where m: "m s = (r, s')" by (cases "m s")
  with assms(1) have same: "steps_of s' = steps_of s" unfolding preserves_def by (metis snd_conv)
  show "\<exists>l. steps_of (snd (as_then m f s)) = steps_of s @ l \<and> G l"
  proof (cases r)
    case (Returns x)
    with assms(3) m have "acts (f x) G" by blast
    then obtain l where "steps_of (snd (f x s')) = steps_of s' @ l" "G l" unfolding acts_def by blast
    with m Returns same show ?thesis by (auto simp: as_then_def)
  qed (use m same assms(2) in \<open>simp_all add: as_then_def\<close>)
qed

text \<open>Toolless code afterwards.\<close>

lemma acts_before_try:
  assumes "acts m G" "\<And>e. toolless (h e)" "\<And>x. toolless (k x)"
  shows "acts (as_try m h k) G"
  unfolding acts_def
proof
  fix s
  obtain r s' where m: "m s = (r, s')" by (cases "m s")
  with assms(1) obtain l where "steps_of s' = steps_of s @ l" "G l" unfolding acts_def by (metis snd_conv)
  with m assms(2,3) show "\<exists>l. steps_of (snd (as_try m h k s)) = steps_of s @ l \<and> G l"
    by (cases r) (auto simp: as_try_def preserves_def)
qed

lemma acts_if: "acts m G \<Longrightarrow> acts n G \<Longrightarrow> acts (if c then m else n) G"
  by simp

lemma acts_then: "acts m G \<Longrightarrow> (\<And>x. toolless (k x)) \<Longrightarrow> acts (as_then m k) G"
  unfolding as_then_is_try by (intro acts_before_try preserves_rules)

lemma acts_catch: "acts m G \<Longrightarrow> (\<And>e. toolless (h e)) \<Longrightarrow> acts (as_catch m h) G"
  unfolding as_catch_is_try by (intro acts_before_try preserves_rules)

lemma acts_finally: "acts m G \<Longrightarrow> (\<And>s. steps_of (f s) = steps_of s) \<Longrightarrow> acts (as_finally m f) G"
  unfolding acts_def as_finally_def by (auto split: prod.split settled.split) (metis snd_conv)+

section \<open>One call of the executor\<close>

text \<open>
  A coordinator of executions is transparent when what it adds to the log is what the owner it
  was given adds, if it runs it at all.
\<close>

definition transparent :: "'z coordinator \<Rightarrow> bool" where
  "transparent c \<longleftrightarrow> (\<forall>G q b m. G [] \<longrightarrow> adds m (\<lambda>_. G) \<longrightarrow> adds (c q b m) (\<lambda>_. G))"

definition plain_or_transparent :: "'z executor \<Rightarrow> bool" where
  "plain_or_transparent cfg \<longleftrightarrow>
     (case xc_coordinator cfg of None \<Rightarrow> True | Some c \<Rightarrow> transparent c)"

lemma adds_durable_owner: "adds (durable_owner cfg env q) (\<lambda>_. follows_protocol cfg (Some q))"
  unfolding durable_owner_def
  by (intro adds_then_silent adds_execute_local) (auto intro!: silent_rules)

lemma adds_execute:
  assumes "plain_or_transparent cfg"
  shows "adds (execute cfg env (Some q)) (\<lambda>_. follows_protocol cfg (Some q))"
proof (cases "xc_coordinator cfg")
  case None
  then show ?thesis by (simp add: execute_def adds_execute_local)
next
  case (Some c)
  have empty: "follows_protocol cfg (Some q) []" by (simp add: follows_protocol_def)
  from Some assms have "transparent c" by (simp add: plain_or_transparent_def)
  then have owner: "adds (c q b (durable_owner cfg env q)) (\<lambda>_. follows_protocol cfg (Some q))" for b
    using empty adds_durable_owner unfolding transparent_def by blast
  have continue: "adds (case v of Inl code \<Rightarrow> as_return (invalid_result (Some q) code ts)
      | Inr (q', d, b) \<Rightarrow> as_finally (c q' b (durable_owner cfg env q')) (forget_execution q' b))
      (\<lambda>_. follows_protocol cfg (Some q))"
    if "v = validated (xc_sha cfg) (xc_clone cfg) (xc_registry cfg) issued (Some q)" for v ts issued
  proof (cases v)
    case (Inr x)
    obtain q' d b where x: "x = (q', d, b)" by (cases x)
    have "q' = q" using validated_Inr(1) [OF that [unfolded Inr x, symmetric]] by simp
    with owner show ?thesis
      unfolding Inr x sum.case prod.case by (intro adds_finally) (simp_all add: forget_execution_def)
  qed (simp add: empty)
  show ?thesis
    unfolding execute_def Some option.case with_validated_def
    by (intro adds_silent_then adds_get_then silent_rules continue) (simp_all add: empty)
qed

lemma acts_run_request:
  fixes cfg :: "'z executor"
  assumes "plain_or_transparent cfg"
  shows "acts (run_request rt env cfg q) (follows_protocol cfg (Some q))"
  unfolding acts_def
proof
  fix s :: "'z agent"
  obtain r run where e: "execute cfg (av_exec env) (Some q) (ag_exec s) = (r, run)" by force
  with adds_execute [OF assms, of "av_exec env" q] obtain l where
    l: "rn_log run = rn_log (ag_exec s) @ l" "follows_protocol cfg (Some q) (filter significant l)"
    unfolding adds_def by (metis snd_conv)
  have "steps_of (snd (run_request rt env cfg q s)) = filter significant (rn_log run)"
    by (auto simp: run_request_def in_exec_def e Let_def steps_of_def let_others_run_def interleave_def
        split: settled.split)
  with l show "\<exists>l. steps_of (snd (run_request rt env cfg q s)) = steps_of s @ l \<and> follows_protocol cfg (Some q) l"
    by (auto simp: steps_of_def)
qed

section \<open>What an allowed call is based on\<close>

text \<open>
  A context that an action may rely on: it is valid, it and its two states are no older than the
  tool's profile permits by the clock readings of the call, and nothing the tool depends on
  differs from the context the run planned with.
\<close>

definition young :: "int \<Rightarrow> utc_timestamp \<Rightarrow> int \<Rightarrow> bool" where
  "young now ts maxAgeMs \<longleftrightarrow> 0 \<le> now - ts \<and> now - ts \<le> maxAgeMs"

definition current_for :: "'z agent_env \<Rightarrow> tool_profile \<Rightarrow> driving_context \<Rightarrow> driving_context \<Rightarrow> bool" where
  "current_for env pf planned x \<longleftrightarrow> context_valid x \<and>
     (\<exists>n. let maxAge = fr_maxAgeMs (tf_freshnessRequirement pf) in
        young (clock_at env n) (cx_capturedAt x) maxAge \<and>
        young (clock_at env (n + 1)) (ve_timestamp (cx_vehicle x)) maxAge \<and>
        young (clock_at env (n + 2)) (tp_timestamp (cx_trip x)) maxAge) \<and>
     (\<forall>path \<in> set (tf_relevantContextPaths pf). valueAt planned path = valueAt x path)"

text \<open>What \<open>providePolicyInput\<close> returns.\<close>

definition provided_by ::
  "('z, 'r) runtime \<Rightarrow> 'z agent_env \<Rightarrow> loaded_context \<Rightarrow> tool_definition \<Rightarrow> json \<Rightarrow> policy_evaluation \<Rightarrow> bool" where
  "provided_by rt env planned d args p \<longleftrightarrow> (\<exists>pf r current conflict fresh fingerprint s s'.
     rt_profiles rt (td_name d) = Some pf \<and>
     pe_candidate p = policy_candidate_of r d args current fresh conflict fingerprint \<and>
     pe_snapshot p = lx_snapshot current \<and>
     (td_sideEffect d \<longrightarrow> (\<exists>k. conflict = Some k \<and> detect_conflict (lx_snapshot planned) (lx_snapshot current)
        (Paths (map Some (tf_relevantContextPaths pf))) = Inr k)) \<and>
     effective_freshness env pf current s = (Returns fresh, s'))"

lemma then_returns:
  "as_then m f s = (Returns x, s') \<longleftrightarrow> (\<exists>y s1. m s = (Returns y, s1) \<and> f y s1 = (Returns x, s'))"
  by (auto simp: as_then_def split: prod.split settled.split)

lemma or_other_returns: "or_other r s = (Returns x, s') \<longleftrightarrow> r = Inr x \<and> s' = s"
  by (auto simp: or_other_def as_throw_def as_return_def split: sum.split)

lemma provide_returns:
  fixes env :: "'z agent_env"
  assumes "providePolicyInput rt env planned d args s = (Returns p, s')"
  shows "provided_by rt env planned d args p"
proof -
  obtain pf where pf: "rt_profiles rt (td_name d) = Some pf"
    using assms by (auto simp: providePolicyInput_def as_throw_def split: option.splits)
  obtain current s1 conflict s2 fresh s3 r fp s5 where
    c: "((if td_sideEffect d
          then as_then (or_other (detect_conflict (lx_snapshot planned) (lx_snapshot current)
                 (Paths (map Some (tf_relevantContextPaths pf))))) (\<lambda>k. as_return (Some k))
          else as_return None) :: ('z, conflict_result option) agentic) s1 = (Returns conflict, s2)"
    and f: "effective_freshness env pf current s2 = (Returns fresh, s3)"
    and p: "(as_return \<lparr>pe_candidate = policy_candidate_of r d args current fresh conflict fp,
      pe_snapshot = lx_snapshot current\<rparr> :: ('z, policy_evaluation) agentic) s5 = (Returns p, s')"
    using assms unfolding providePolicyInput_def pf option.case then_returns
    by (elim exE conjE) (erule (2) that)
  from c have "td_sideEffect d \<longrightarrow> (\<exists>k. conflict = Some k \<and> detect_conflict (lx_snapshot planned)
      (lx_snapshot current) (Paths (map Some (tf_relevantContextPaths pf))) = Inr k)"
    by (auto simp: then_returns or_other_returns as_return_def)
  moreover from p have "pe_candidate p = policy_candidate_of r d args current fresh conflict fp"
    "pe_snapshot p = lx_snapshot current" by (auto simp: as_return_def)
  ultimately show ?thesis using pf f unfolding provided_by_def by blast
qed

text \<open>The definition an ALLOW decision of the default engine is for.\<close>

lemma allow_definition:
  assumes "po_decision (fst (evaluate clone default_engine st (Input c) now)) = PD_ALLOW"
    and "pc_toolDefinition c = Some (raw_of_definition d)"
  shows "\<exists>pf. default_profile_map (td_name d) = Some pf \<and> td_riskLevel d = tf_riskLevel pf \<and>
    td_sideEffect d = tf_sideEffect pf"
proof -
  from assms(1) obtain rec: "pc_isRecord c" and valid: "ri_inputValid (normalize c now default_profile_map)"
    by (rule allow_input) auto
  then have "fst (validatePolicyDefinition (Some (raw_of_definition d)) (default_profile_map (td_name d))
      (pc_validatedArguments c))"
    using assms(2) by (simp add: normalize_def as_record_def Let_def raw_name_def raw_of_definition_def)
  then show ?thesis
    by (auto simp: validatePolicyDefinition_def raw_of_definition_def split: option.splits if_splits)
qed

lemma low_risk_profile:
  assumes "default_profile_map name = Some pf" "tf_riskLevel pf = R1"
  shows "tf_sideEffect pf \<and> tf_freshnessRequirement pf = lowRiskFreshness \<and>
    set (tf_relevantContextPaths pf) \<subseteq> set CONTEXT_RELEVANT_PATHS"
proof -
  have pf: "pf \<in> set TOOL_POLICY_PROFILES" using assms(1) default_profile_mem by blast
  then have "validateProfile pf = Inr ()" using default_profiles_valid by (simp add: list_all_iff)
  then have "set (tf_relevantContextPaths pf) \<subseteq> set CONTEXT_RELEVANT_PATHS"
    by (auto simp: validateProfile_def uniqueKnown_def list_all_iff split: if_splits)
  moreover have "tf_sideEffect pf \<and> tf_freshnessRequirement pf = lowRiskFreshness"
    using pf assms(2) by (auto simp: TOOL_POLICY_PROFILES_def profile_def Let_def)
  ultimately show ?thesis by simp
qed

text \<open>The three judgements behind a FRESH verdict.\<close>

lemma fresh_judgement:
  assumes "evaluate_freshness (Epoch_int now) x req latest = Inr f" "fz_status f = FS_FRESH"
  shows "young now (cx_capturedAt x) (fr_maxAgeMs req)"
  using freshness_fresh_iff [of "Epoch_int now" x req latest] assms by (auto simp: young_def)

lemma effective_returns:
  "effective_freshness env pf current s = (Returns fresh, s') \<Longrightarrow> \<exists>c v t.
     evaluate_freshness (Epoch_int (clock_at env (position s))) (lx_snapshot current)
       (tf_freshnessRequirement pf) (latest_of pf current) = Inr c \<and>
     evaluate_freshness (Epoch_int (clock_at env (position s + 1))) (with_vehicle_time (lx_snapshot current))
       (tf_freshnessRequirement pf) (latest_of pf current) = Inr v \<and>
     evaluate_freshness (Epoch_int (clock_at env (position s + 2))) (with_trip_time (lx_snapshot current))
       (tf_freshnessRequirement pf) (latest_of pf current) = Inr t \<and>
     fresh = selectEffectiveFreshness c [v, t]"
  unfolding effective_freshness_def Let_def or_other_returns and_then_Inr sum.inject by blast

lemma with_times:
  "cx_capturedAt (with_vehicle_time x) = ve_timestamp (cx_vehicle x)"
  "cx_capturedAt (with_trip_time x) = tp_timestamp (cx_trip x)"
  "cx_contextVersion (with_vehicle_time x) = cx_contextVersion x"
  "cx_contextVersion (with_trip_time x) = cx_contextVersion x"
  by (simp_all add: with_vehicle_time_def with_trip_time_def)

lemma fresh_context:
  assumes "effective_freshness env pf current s = (Returns fresh, s')" "fz_status fresh = FS_FRESH"
  shows "\<exists>n. young (clock_at env n) (cx_capturedAt (lx_snapshot current)) (fr_maxAgeMs (tf_freshnessRequirement pf)) \<and>
    young (clock_at env (n + 1)) (ve_timestamp (cx_vehicle (lx_snapshot current)))
      (fr_maxAgeMs (tf_freshnessRequirement pf)) \<and>
    young (clock_at env (n + 2)) (tp_timestamp (cx_trip (lx_snapshot current)))
      (fr_maxAgeMs (tf_freshnessRequirement pf))"
proof -
  obtain c v t where
    c: "evaluate_freshness (Epoch_int (clock_at env (position s))) (lx_snapshot current)
       (tf_freshnessRequirement pf) (latest_of pf current) = Inr c"
    and v: "evaluate_freshness (Epoch_int (clock_at env (position s + 1))) (with_vehicle_time (lx_snapshot current))
       (tf_freshnessRequirement pf) (latest_of pf current) = Inr v"
    and t: "evaluate_freshness (Epoch_int (clock_at env (position s + 2))) (with_trip_time (lx_snapshot current))
       (tf_freshnessRequirement pf) (latest_of pf current) = Inr t"
    and fresh: "fresh = selectEffectiveFreshness c [v, t]"
    using effective_returns [OF assms(1)] by blast
  have status: "fz_status f = FS_FRESH" if "f \<in> set [c, v, t]" for f
    using assms(2) that unfolding fresh by (rule selectEffectiveFreshness_fresh)
  have "fz_status c = FS_FRESH" "fz_status v = FS_FRESH" "fz_status t = FS_FRESH"
    by (rule status, simp)+
  from fresh_judgement [OF c this(1)] fresh_judgement [OF v this(2)] fresh_judgement [OF t this(3)]
  show ?thesis unfolding with_times by blast
qed

lemma selected_fresh:
  assumes "effective_freshness env pf current s = (Returns fresh, s')"
    and "rf_latestVersion (raw_of_freshness fresh) = Arg_int (cx_contextVersion (lx_snapshot current))"
    and "rf_ageMs (raw_of_freshness fresh) = Some age" "0 \<le> age"
    and "age \<le> of_int (fr_maxAgeMs (tf_freshnessRequirement pf))"
  shows "fz_status fresh = FS_FRESH"
proof -
  have age: "0 \<le> fz_ageMs fresh" "fz_ageMs fresh \<le> fr_maxAgeMs (tf_freshnessRequirement pf)"
    using assms(3,4,5) by (auto simp: raw_of_freshness_def)
  from assms(2) have latest: "fz_latestVersion fresh = Some (cx_contextVersion (lx_snapshot current))"
    by (simp add: raw_of_freshness_def split: option.splits)
  have verdict: "fz_status f = FS_FRESH"
    if "evaluate_freshness now x req lv = Inr f" "cx_contextVersion x = cx_contextVersion (lx_snapshot current)"
      "req = tf_freshnessRequirement pf" "f = fresh" for now x req lv f
    using that age latest
    by (auto simp: evaluate_freshness_def domain_fail_def Let_def split: if_splits)
  have "\<exists>now x lv. evaluate_freshness now x (tf_freshnessRequirement pf) lv = Inr fresh \<and>
      cx_contextVersion x = cx_contextVersion (lx_snapshot current)"
  proof -
    obtain c v t where r: "evaluate_freshness (Epoch_int (clock_at env (position s))) (lx_snapshot current)
       (tf_freshnessRequirement pf) (latest_of pf current) = Inr c"
      "evaluate_freshness (Epoch_int (clock_at env (position s + 1))) (with_vehicle_time (lx_snapshot current))
       (tf_freshnessRequirement pf) (latest_of pf current) = Inr v"
      "evaluate_freshness (Epoch_int (clock_at env (position s + 2))) (with_trip_time (lx_snapshot current))
       (tf_freshnessRequirement pf) (latest_of pf current) = Inr t"
      "fresh = selectEffectiveFreshness c [v, t]"
      using effective_returns [OF assms(1)] by blast
    have "fresh \<in> {c, v, t}" using selectEffectiveFreshness_mem [of c "[v, t]"] r(4) by simp
    then show ?thesis using r(1-3) with_times(3,4) by blast
  qed
  with verdict show ?thesis by blast
qed

lemma guarded_candidate_definition [simp]:
  "pc_toolDefinition (guarded_candidate g d args provided) = Some (raw_of_definition d)"
  "pc_validatedArguments (guarded_candidate g d args provided) = args"
  "pc_trustedDefinition (guarded_candidate g d args (Some p)) = gd_isTrusted g d"
  "\<not> pc_trustedDefinition (guarded_candidate g d args None)"
  "pc_contextSnapshot (guarded_candidate g d args (Some p)) = pc_contextSnapshot (pe_candidate p)"
  "pc_freshness (guarded_candidate g d args (Some p)) = pc_freshness (pe_candidate p)"
  "pc_conflict (guarded_candidate g d args (Some p)) = pc_conflict (pe_candidate p)"
  by (cases provided; simp add: guarded_candidate_def untrusted_candidate_def absent_candidate_def)+

lemma no_relevant_change:
  assumes "detect_conflict planned x (Paths (map Some ps)) = Inr k" "set ps \<subseteq> set CONTEXT_RELEVANT_PATHS"
    and "rk_status (raw_of_conflict k) \<in> {Some CF_NO_CONFLICT, Some CF_VERSION_CHANGED_BUT_IRRELEVANT}"
  shows "\<forall>p \<in> set ps. valueAt planned p = valueAt x p"
proof -
  from assms(3) have "cf_status k \<noteq> CF_RELEVANT_STATE_CHANGED" by (auto simp: raw_of_conflict_def)
  with detect_conflict_exact [of planned x ps] assms(1,2) show ?thesis by auto
qed

lemma allowed_evidence:
  assumes allow: "po_decision (fst (evaluate clone default_engine st
      (Input (guarded_candidate g d args provided)) now)) = PD_ALLOW"
    and prov: "\<And>p. provided = Some p \<Longrightarrow> provided_by rt env planned d args p"
    and profiles: "rt_profiles rt = default_profile_map"
  shows "\<exists>p pf. provided = Some p \<and> gd_isTrusted g d \<and> td_input_ok d args \<and>
    default_profile_map (td_name d) = Some pf \<and> td_riskLevel d = tf_riskLevel pf \<and>
    tf_riskLevel pf \<in> {R0, R1} \<and> context_valid (pe_snapshot p) \<and>
    (tf_riskLevel pf = R1 \<longrightarrow> current_for env pf (lx_snapshot planned) (pe_snapshot p))"
proof -
  let ?c = "guarded_candidate g d args provided"
  obtain pf' x where ev: "pc_trustedDefinition ?c" "pf' \<in> set TOOL_POLICY_PROFILES" "td_name d = tf_toolName pf'"
    "tf_riskLevel pf' \<in> {R0, R1}" "td_input_ok d args"
    "pc_contextSnapshot ?c = Some (Shaped x)" "context_valid x"
    and r1: "tf_riskLevel pf' = R1 \<longrightarrow>
       rf_latestVersion (pc_freshness ?c) = Arg_int (cx_contextVersion x) \<and>
       (\<exists>age. rf_ageMs (pc_freshness ?c) = Some age \<and> 0 \<le> age \<and> age \<le> 2000) \<and>
       (\<forall>k. pc_conflict ?c = Some k \<longrightarrow>
          rk_status k \<in> {Some CF_NO_CONFLICT, Some CF_VERSION_CHANGED_BUT_IRRELEVANT})"
    using allow_evidence [OF allow] by (auto simp: raw_of_definition_def split: if_splits)
  obtain pf where pf: "default_profile_map (td_name d) = Some pf" "td_riskLevel d = tf_riskLevel pf"
    "td_sideEffect d = tf_sideEffect pf"
    using allow_definition [OF allow] by auto
  have same: "pf' = pf" using default_profile_get [OF ev(2)] ev(3) pf(1) by simp
  obtain p where p: "provided = Some p" using ev(1) by (cases provided) auto
  obtain r current conflict fresh fingerprint s s' where
    cand: "pe_candidate p = policy_candidate_of r d args current fresh conflict fingerprint"
    and snap: "pe_snapshot p = lx_snapshot current"
    and k: "td_sideEffect d \<longrightarrow> (\<exists>k. conflict = Some k \<and> detect_conflict (lx_snapshot planned) (lx_snapshot current)
        (Paths (map Some (tf_relevantContextPaths pf))) = Inr k)"
    and f: "effective_freshness env pf current s = (Returns fresh, s')"
    using prov [OF p] pf(1) profiles unfolding provided_by_def by auto
  have x: "x = lx_snapshot current" using ev(6) cand p by (simp add: policy_candidate_of_def)
  have "current_for env pf (lx_snapshot planned) (lx_snapshot current)" if risk: "tf_riskLevel pf = R1"
  proof -
    note low = low_risk_profile [OF pf(1) risk]
    obtain age where age: "rf_ageMs (raw_of_freshness fresh) = Some age" "0 \<le> age" "age \<le> 2000"
      and latest: "rf_latestVersion (raw_of_freshness fresh) = Arg_int (cx_contextVersion (lx_snapshot current))"
      and kinds: "\<forall>k. map_option raw_of_conflict conflict = Some k \<longrightarrow>
          rk_status k \<in> {Some CF_NO_CONFLICT, Some CF_VERSION_CHANGED_BUT_IRRELEVANT}"
      using r1 risk same cand p x by (auto simp: policy_candidate_of_def)
    have "fz_status fresh = FS_FRESH"
      using low age(3) by (intro selected_fresh [OF f latest age(1,2)]) (simp add: lowRiskFreshness_def)
    moreover have "\<forall>path \<in> set (tf_relevantContextPaths pf).
        valueAt (lx_snapshot planned) path = valueAt (lx_snapshot current) path"
      using k low pf(3) kinds no_relevant_change by fastforce
    ultimately show ?thesis
      using fresh_context [OF f] ev(7) x unfolding current_for_def Let_def by blast
  qed
  with ev p pf same snap x show ?thesis by auto
qed

section \<open>The guarantee\<close>

text \<open>What a call may add to the log.\<close>

definition checked_call ::
  "('z, 'r) runtime \<Rightarrow> 'z agent_env \<Rightarrow> loaded_context \<Rightarrow> tool_definition \<Rightarrow> json \<Rightarrow> external_step list \<Rightarrow> bool" where
  "checked_call rt env planned d args steps \<longleftrightarrow> steps = [] \<or>
     (\<exists>pf q calls x. default_profile_map (td_name d) = Some pf \<and> td_riskLevel d = tf_riskLevel pf \<and>
        tf_riskLevel pf \<in> {R0, R1} \<and> td_input_ok d args \<and> context_valid x \<and>
        (tf_riskLevel pf = R1 \<longrightarrow> current_for env pf (lx_snapshot planned) x) \<and>
        po_decision (xq_policyDecision q) = PD_ALLOW \<and> xq_validatedArguments q = args \<and>
        xq_userId q = us_userId (cx_user x) \<and> xq_vehicleId q = ve_vehicleId (cx_vehicle x) \<and>
        steps = Policy_consumed (xq_policyDecision q) # calls \<and>
        calls_from (xc_retry (rt_executor rt)) q d 1 calls)"

lemma checked_call_empty [simp]: "checked_call rt env planned d args []"
  by (simp add: checked_call_def)

lemma checked_execution:
  assumes "follows_protocol (rt_executor rt) (Some q) steps" "registry_get (rt_registry rt) (td_name d) = Some d"
    and "q = allowed_request r i d args dec (pe_snapshot p) fp ts" "po_decision dec = PD_ALLOW"
    and "default_profile_map (td_name d) = Some pf" "td_riskLevel d = tf_riskLevel pf"
    "tf_riskLevel pf \<in> {R0, R1}" "td_input_ok d args" "context_valid (pe_snapshot p)"
    "tf_riskLevel pf = R1 \<longrightarrow> current_for env pf (lx_snapshot planned) (pe_snapshot p)"
  shows "checked_call rt env planned d args steps"
proof (cases steps)
  case (Cons grant calls)
  have q: "xq_toolName q = td_name d" "xq_riskLevel q = td_riskLevel d" "xq_policyDecision q = dec"
    "xq_validatedArguments q = args" "xq_userId q = us_userId (cx_user (pe_snapshot p))"
    "xq_vehicleId q = ve_vehicleId (cx_vehicle (pe_snapshot p))"
    using assms(3) by (simp_all add: allowed_request_def)
  have "grants q d grant" "calls_from (xc_retry (rt_executor rt)) q d 1 calls"
    using assms(1,2) q(1) Cons by (simp_all add: follows_protocol_def rt_registry_def)
  moreover from this(1) have "grant = Policy_consumed dec"
    using assms(6,7) q(2,3) by (auto simp: grants_def low_risk_def)
  ultimately show ?thesis
    using assms(4-10) q Cons unfolding checked_call_def by blast
qed simp

lemma acts_allowed:
  assumes "plain_or_transparent (rt_executor rt)"
    and "\<And>r i fp ts steps. follows_protocol (rt_executor rt)
      (Some (allowed_request r i d args dec (pe_snapshot p) fp ts)) steps \<Longrightarrow> G steps" "G []"
  shows "acts (allowedExecution rt env d args dec p) G"
proof -
  have run: "acts (run_request rt env (rt_executor rt) (allowed_request r i d args dec (pe_snapshot p) fp ts)) G"
    for r i fp ts
    using acts_run_request [OF assms(1)] assms(2) unfolding acts_def by blast
  show ?thesis
    unfolding allowedExecution_def Let_def
    by (intro acts_after [where G = G] preserves_rules assms(3) acts_then acts_finally run) simp_all
qed

lemma evaluated_decision:
  "evaluate_policy rt c ts s = (Returns dec, s') \<Longrightarrow>
   \<exists>st. dec = fst (evaluate (rt_clone rt) (rt_engine rt) st (Input c) (Some ts))"
  by (auto simp: evaluate_policy_def as_update_def split: prod.splits) (metis fst_conv)

lemma provided_input:
  assumes "as_catch (as_then (providePolicyInput rt env planned d args) (\<lambda>p. as_return (Some p)))
      (\<lambda>_. as_return None) s = (Returns (Some p), s')"
  shows "provided_by rt env planned d args p"
proof (cases "providePolicyInput rt env planned d args s")
  case (Pair r s1)
  with assms have "providePolicyInput rt env planned d args s = (Returns p, s1)"
    by (cases r) (auto simp: as_catch_def as_then_def as_return_def)
  then show ?thesis by (rule provide_returns)
qed

text \<open>The configuration of the production factory, but for what it leaves to its caller.\<close>

definition production_wiring :: "('z, 'r) runtime \<Rightarrow> bool" where
  "production_wiring rt \<longleftrightarrow> rt_engine rt = default_engine \<and> rt_profiles rt = default_profile_map \<and>
     registry_inv (rt_registry rt) \<and> plain_or_transparent (rt_executor rt)"

lemma both_given:
  "(case (Some f, v) of (None, _) \<Rightarrow> h | (Some a, None) \<Rightarrow> h | (Some a, Some p) \<Rightarrow> k a p) =
   (case v of None \<Rightarrow> h | Some p \<Rightarrow> k f p)"
  by (cases v) simp_all

lemma acts_guard:
  assumes "production_wiring rt" "registry_get (rt_registry rt) (td_name d) = Some d"
  shows "acts (guard_execute rt env (runtime_guard rt env planned) d args handler)
    (checked_call rt env planned d args)"
proof -
  let ?G = "checked_call rt env planned d args" and ?g = "runtime_guard rt env planned"
  have fields: "gd_inputProvider ?g = providePolicyInput rt env planned"
    "gd_evaluationStarted ?g = observe_started env" "gd_decisionMade ?g = observe_decision env"
    "gd_executionBlocked ?g = observe_blocked env"
    "gd_confirmationRequired ?g = Some (confirmationRequired rt env planned)"
    "gd_allowedExecution ?g = Some (allowedExecution rt env)"
    by (simp_all add: runtime_guard_def)
  have prof: "rt_profiles rt = default_profile_map" using assms(1) by (simp add: production_wiring_def)
  have allowed: "acts (case provided of None \<Rightarrow> handler | Some p \<Rightarrow> allowedExecution rt env d args dec p) ?G"
    if dec: "dec = fst (evaluate (rt_clone rt) (rt_engine rt) st (Input (guarded_candidate ?g d args provided)) (Some ts))"
      and prov: "\<And>p. provided = Some p \<Longrightarrow> provided_by rt env planned d args p"
      and allow: "po_decision dec = PD_ALLOW" for dec provided st ts
  proof -
    have "po_decision (fst (evaluate (rt_clone rt) default_engine st
        (Input (guarded_candidate ?g d args provided)) (Some ts))) = PD_ALLOW"
      using dec allow assms(1) by (simp add: production_wiring_def)
    from allowed_evidence [OF this prov prof] obtain p pf where
      e: "provided = Some p" "td_input_ok d args" "default_profile_map (td_name d) = Some pf"
        "td_riskLevel d = tf_riskLevel pf" "tf_riskLevel pf \<in> {R0, R1}" "context_valid (pe_snapshot p)"
        "tf_riskLevel pf = R1 \<longrightarrow> current_for env pf (lx_snapshot planned) (pe_snapshot p)"
      by auto
    show ?thesis
      unfolding e(1) option.case
      by (rule acts_allowed)
        (use assms in \<open>auto simp: production_wiring_def intro: checked_execution [OF _ assms(2) refl allow e(3,4,5,2,6,7)]\<close>)
  qed
  have blocked: "acts (as_then (or_lifecycle (observe_blocked env dec)) (\<lambda>_.
      as_then (case provided of None \<Rightarrow> as_return () | Some p \<Rightarrow>
         if po_decision dec = PD_REQUIRE_CONFIRMATION then or_lifecycle (confirmationRequired rt env planned d args dec p)
         else as_return ()) (\<lambda>_. as_throw e))) ?G" for provided dec e
    by (rule acts_toolless) (intro preserves_rules, simp)
  have last: "acts (if po_decision dec \<noteq> PD_ALLOW
      then as_then (or_lifecycle (observe_blocked env dec)) (\<lambda>_.
        as_then (case provided of None \<Rightarrow> as_return () | Some p \<Rightarrow>
           if po_decision dec = PD_REQUIRE_CONFIRMATION then or_lifecycle (confirmationRequired rt env planned d args dec p)
           else as_return ()) (\<lambda>_. as_throw (Policy_control (control_result (po_decision dec)) dec)))
      else (case provided of None \<Rightarrow> handler | Some p \<Rightarrow> allowedExecution rt env d args dec p)) ?G"
    if "evaluate_policy rt (guarded_candidate ?g d args provided) ts s1 = (Returns dec, s2)"
      and "\<And>p. provided = Some p \<Longrightarrow> provided_by rt env planned d args p" for provided ts s1 dec s2
    using evaluated_decision [OF that(1)] allowed [OF _ that(2)] blocked by (cases "po_decision dec = PD_ALLOW") auto
  show ?thesis
    unfolding guard_execute_def fields both_given
    apply (rule acts_after [where G = ?G], intro preserves_rules, simp)+
    subgoal for s ts s1 s2 u s3 s4 provided s5 s6 dec s7 s8 v s9
      by (rule last [of provided ts s6 dec s7]) (use provided_input in auto)
    done
qed

text \<open>The whole adapter, on the arguments bound from the prompt.\<close>

lemma acts_adapter:
  assumes "production_wiring rt" "registry_get (rt_registry rt) (td_name d) = Some d"
  shows "acts (adapter_execute rt env planned prompt sig d parameters) (\<lambda>steps. steps = [] \<or>
    (\<exists>args. rt_clone rt (rt_bind rt (td_name d) prompt parameters) = Some args \<and>
       checked_call rt env planned d args steps))" (is "acts _ ?G")
proof -
  have call: "acts (as_then (as_catch (guard_execute rt env (runtime_guard rt env planned) d args (direct_handler env sig d args))
        (\<lambda>e. as_then (observe_execution sig d args False None (control_of e)) (\<lambda>_. as_throw e)))
      (\<lambda>v. adapter_output rt sig d args v)) ?G"
    if "rt_clone rt (rt_bind rt (td_name d) prompt parameters) = Some args" for args
  proof -
    have "acts (guard_execute rt env (runtime_guard rt env planned) d args (direct_handler env sig d args)) ?G"
      using acts_guard [OF assms] that unfolding acts_def by blast
    then show ?thesis by (intro acts_then acts_catch preserves_rules)
  qed
  show ?thesis
    unfolding adapter_execute_def
    apply (rule acts_after [where G = ?G], intro preserves_rules, simp)
    apply (rule acts_if)
     apply (rule acts_toolless, intro preserves_rules, simp)
    apply (rule acts_after [where G = ?G], intro preserves_rules, simp)
    apply (rule acts_if)
     apply (rule acts_toolless, intro preserves_rules, simp)
    apply (rule call)
    apply (auto simp: copied_def as_throw_def as_return_def split: option.splits)
    done
qed

end
