(* ===== verification/RunGuarantees.thy ===== *)
theory RunGuarantees
  imports CallGuarantees
begin

text \<open>
  What a whole run guarantees: which external steps it takes, and how it ends. The run is
  composed from its parts with the rules of \<open>QuietCode\<close> and \<open>CallGuarantees\<close>.
\<close>

lemma acts_cases:
  "acts m G \<Longrightarrow> acts n G \<Longrightarrow> acts (if c then m else n) G"
  "acts m G \<Longrightarrow> (\<And>x. acts (f x) G) \<Longrightarrow> acts (case v of None \<Rightarrow> m | Some x \<Rightarrow> f x) G"
  "(\<And>x. acts (g x) G) \<Longrightarrow> (\<And>x. acts (f x) G) \<Longrightarrow> acts (case r of Inl x \<Rightarrow> g x | Inr x \<Rightarrow> f x) G"
  by (simp_all split: option.split sum.split)

section \<open>Sequences of guarded calls\<close>

text \<open>Steps that may be taken in any number and order.\<close>

locale step_language =
  fixes G :: "external_step list \<Rightarrow> bool"
  assumes empty: "G []" and append: "G a \<Longrightarrow> G b \<Longrightarrow> G (a @ b)"
begin

lemma toolless_acts: "toolless m \<Longrightarrow> acts m G"
  by (erule acts_toolless) (rule empty)

lemma sequence_try:
  assumes "acts m G" "\<And>e. acts (h e) G" "\<And>s x s'. m s = (Returns x, s') \<Longrightarrow> acts (k x) G"
  shows "acts (as_try m h k) G"
  unfolding acts_def
proof
  fix s
  obtain r s' where m: "m s = (r, s')" by (cases "m s")
  with assms(1) obtain l where l: "steps_of s' = steps_of s @ l" "G l" unfolding acts_def by (metis snd_conv)
  show "\<exists>l. steps_of (snd (as_try m h k s)) = steps_of s @ l \<and> G l"
  proof (cases r)
    case (Returns x)
    with assms(3) m obtain l' where "steps_of (snd (k x s')) = steps_of s' @ l'" "G l'" unfolding acts_def by blast
    with l m Returns append show ?thesis by (auto simp: as_try_def)
  next
    case (Throws e)
    with assms(2) obtain l' where "steps_of (snd (h e s')) = steps_of s' @ l'" "G l'" unfolding acts_def by blast
    with l m Throws append show ?thesis by (auto simp: as_try_def)
  qed (use l m in \<open>simp_all add: as_try_def\<close>)
qed

lemma sequence_then:
  "acts m G \<Longrightarrow> (\<And>s x s'. m s = (Returns x, s') \<Longrightarrow> acts (k x) G) \<Longrightarrow> acts (as_then m k) G"
  unfolding as_then_is_try by (rule sequence_try) (auto intro: toolless_acts preserves_rules)

lemma sequence_catch: "acts m G \<Longrightarrow> (\<And>e. acts (h e) G) \<Longrightarrow> acts (as_catch m h) G"
  unfolding as_catch_is_try by (rule sequence_try) (auto intro: toolless_acts preserves_rules)

lemma sequence_each: "(\<And>x. acts (f x) G) \<Longrightarrow> acts (each f xs) G"
  by (induction xs) (auto intro: sequence_then toolless_acts preserves_rules)

lemma sequence_finally: "acts m G \<Longrightarrow> acts f G \<Longrightarrow> acts (finally_do m f) G"
  unfolding finally_do_def
  by (intro sequence_try sequence_then) (auto intro: toolless_acts preserves_rules)

end

text \<open>
  A guarded call: of a registered tool that is not forbidden, in the read-only mode of one that
  only reads, with arguments bound from the prompt.
\<close>

definition guarded_call ::
  "('z, 'r) runtime \<Rightarrow> 'z agent_env \<Rightarrow> agent_request \<Rightarrow> loaded_context \<Rightarrow> external_step list \<Rightarrow> bool" where
  "guarded_call rt env q planned steps \<longleftrightarrow> (\<exists>d parameters args.
     registry_get (rt_registry rt) (td_name d) = Some d \<and> td_name d \<notin> set FORBIDDEN_TOOL_NAMES \<and>
     (rt_mode rt = Read_only \<longrightarrow> td_riskLevel d = R0 \<and> \<not> td_sideEffect d) \<and>
     rt_clone rt (rt_bind rt (td_name d) (gq_prompt q) parameters) = Some args \<and>
     checked_call rt env planned d args steps)"

definition guarded_calls ::
  "('z, 'r) runtime \<Rightarrow> 'z agent_env \<Rightarrow> agent_request \<Rightarrow> loaded_context \<Rightarrow> external_step list \<Rightarrow> bool" where
  "guarded_calls rt env q planned steps \<longleftrightarrow>
     (\<exists>pieces. steps = concat pieces \<and> list_all (guarded_call rt env q planned) pieces)"

interpretation calls: step_language "guarded_calls rt env q planned"
proof
  show "guarded_calls rt env q planned []"
    unfolding guarded_calls_def by (rule exI [of _ "[]"]) simp
  show "guarded_calls rt env q planned (a @ b)"
    if "guarded_calls rt env q planned a" "guarded_calls rt env q planned b" for a b
    using that unfolding guarded_calls_def by (metis concat_append list_all_append)
qed

lemma guarded_calls_one: "guarded_call rt env q planned steps \<Longrightarrow> guarded_calls rt env q planned steps"
  unfolding guarded_calls_def by (rule exI [of _ "[steps]"]) simp

section \<open>The tools of a run\<close>

definition usable :: "('z, 'r) runtime \<Rightarrow> tool_definition \<Rightarrow> bool" where
  "usable rt d \<longleftrightarrow> registry_get (rt_registry rt) (td_name d) = Some d \<and> td_name d \<notin> set FORBIDDEN_TOOL_NAMES \<and>
     (rt_mode rt = Read_only \<longrightarrow> td_riskLevel d = R0 \<and> \<not> td_sideEffect d)"

lemma resolved_registered:
  assumes "resolve collation r ctx = Inr ds" "registry_inv r" "d \<in> set ds"
  shows "registry_get r (td_name d) = Some d"
proof -
  have "\<exists>n. (n, d) \<in> set (tr_definitions r)"
    using assms(1,3) by (force simp: resolve_def registry_list_def split: sum.splits)
  with assms(2) have "(td_name d, d) \<in> set (tr_definitions r)" "distinct (map fst (tr_definitions r))"
    by (auto simp: registry_inv_def)
  then show ?thesis by (simp add: registry_get_def)
qed

lemma resolve_tools_usable:
  assumes "resolve_tools rt prompt loaded = Inr (available, exposed)" "registry_inv (rt_registry rt)"
  shows "list_all (usable rt) exposed"
proof -
  obtain ds where ds: "resolve (rt_collation rt) (rt_registry rt) (Some (availability_of loaded)) = Inr ds"
    "exposed = exposed_tools rt prompt ds" "exposure_ok rt ds exposed"
    using assms(1) by (auto simp: resolve_tools_def Let_def split: sum.splits if_splits)
  have "d \<in> set ds \<and> (rt_mode rt = Read_only \<longrightarrow> td_riskLevel d = R0)" if "d \<in> set exposed" for d
    using that ds(2) by (auto simp: exposed_tools_def mode_available_def Let_def)
  with ds(3) resolved_registered [OF ds(1) assms(2)] show ?thesis
    by (auto simp: list_all_iff usable_def exposure_ok_def)
qed

lemma prepare_tools_returns:
  assumes "prepare_tools rt env q loaded s = (Returns (exposed, envelopes), s')" "registry_inv (rt_registry rt)"
  shows "list_all (usable rt) exposed"
proof -
  have "\<exists>available. resolve_tools rt (gq_prompt q) loaded = Inr (available, exposed)"
    using assms(1)
    by (cases "resolve_tools rt (gq_prompt q) loaded")
      (auto simp: prepare_tools_def then_returns Let_def as_lift_def as_return_def split: prod.splits)
  with resolve_tools_usable assms(2) show ?thesis by blast
qed

section \<open>The parts of a run\<close>

lemma find_usable: "list_all (usable rt) exposed \<Longrightarrow> find P exposed = Some d \<Longrightarrow> usable rt d"
  by (auto simp: find_Some_iff list_all_iff)

lemma acts_tool:
  assumes "production_wiring rt" "usable rt d"
  shows "acts (adapter_execute rt env planned (gq_prompt q) sig d parameters) (guarded_calls rt env q planned)"
proof -
  have reg: "registry_get (rt_registry rt) (td_name d) = Some d" using assms(2) by (simp add: usable_def)
  have "guarded_calls rt env q planned steps"
    if "steps = [] \<or> (\<exists>args. rt_clone rt (rt_bind rt (td_name d) (gq_prompt q) parameters) = Some args \<and>
          checked_call rt env planned d args steps)" for steps
    using that assms(2) calls.empty guarded_calls_one unfolding guarded_call_def usable_def by metis
  with acts_adapter [OF assms(1) reg, of env planned "gq_prompt q" sig parameters] show ?thesis
    unfolding acts_def by blast
qed

lemma acts_ignore: "acts m (guarded_calls rt env q planned) \<Longrightarrow> acts (ignore_thrown m) (guarded_calls rt env q planned)"
  unfolding ignore_thrown_def by (rule calls.sequence_try) (auto intro: calls.toolless_acts preserves_rules)

lemma toolless_observe [preserves_rules]: "toolless (observe rt env exposed e)"
  by (cases e) (auto simp: observe_start_def observe_turn_end_def intro!: preserves_rules)

lemma acts_pi:
  assumes "production_wiring rt" "list_all (usable rt) exposed"
  shows "acts (pi_does rt env q planned exposed st) (guarded_calls rt env q planned)"
proof (cases st)
  case (Pi_calls name parameters)
  have "acts (ignore_thrown (adapter_execute rt env planned (gq_prompt q) True d parameters)) (guarded_calls rt env q planned)"
    if "find (\<lambda>d. td_name d = name) exposed = Some d" for d
    by (intro acts_ignore acts_tool assms(1) find_usable [OF assms(2) that])
  with Pi_calls show ?thesis
    by (auto simp: pi_does_def intro: calls.toolless_acts preserves_rules split: option.split)
qed (auto simp: pi_does_def intro!: calls.toolless_acts preserves_rules)

lemma acts_model:
  assumes "production_wiring rt" "list_all (usable rt) exposed"
  shows "acts (ask_model rt env q planned exposed) (guarded_calls rt env q planned)"
proof -
  have "acts (session_prompt rt env q planned exposed) (guarded_calls rt env q planned)"
    unfolding session_prompt_def
    by (intro acts_pi assms calls.sequence_then calls.sequence_each calls.toolless_acts preserves_rules)
  note prompted = this
  show ?thesis
    unfolding ask_model_def by (intro prompted calls.sequence_then calls.toolless_acts preserves_rules)
qed

lemma acts_repair:
  assumes "production_wiring rt" "list_all (usable rt) exposed"
  shows "acts (complete_plan rt env q planned exposed envelopes) (guarded_calls rt env q planned)"
proof -
  have call: "acts (repair_call rt env q planned exposed repair) (guarded_calls rt env q planned)" for repair
  proof -
    obtain k name args where repair: "repair = (k, name, args)" by (cases repair)
    have tool: "acts (adapter_execute rt env planned (gq_prompt q) False d args) (guarded_calls rt env q planned)"
      if "find (\<lambda>d. td_name d = name) exposed = Some d" for d
      by (intro acts_tool assms(1) find_usable [OF assms(2) that])
    show ?thesis
      unfolding repair_call_def repair prod.case
      by (cases "find (\<lambda>d. td_name d = name) exposed")
        (auto intro!: tool calls.sequence_then calls.sequence_try intro: calls.toolless_acts preserves_rules)
  qed
  show ?thesis
    unfolding complete_plan_def repair_all_def
    by (intro call calls.sequence_then calls.sequence_each acts_cases calls.toolless_acts preserves_rules)
qed

section \<open>The body and the whole run\<close>

lemma toolless_identify: "toolless (identify env q)"
  by (auto simp: preserves_def identify_def Let_def split: option.split prod.split)

lemma acts_converse:
  assumes "production_wiring rt"
  shows "acts (converse rt env q planned) (guarded_calls rt env q planned)"
proof -
  have inv: "registry_inv (rt_registry rt)" using assms by (simp add: production_wiring_def)
  have after: "acts (case p of (exposed, envelopes) \<Rightarrow> as_then (ask_model rt env q planned exposed) (\<lambda>_.
      as_then (complete_plan rt env q planned exposed envelopes) (\<lambda>_. finish_run rt env q planned)))
      (guarded_calls rt env q planned)"
    if "prepare_tools rt env q planned s = (Returns p, s')" for p s s'
  proof -
    obtain exposed envelopes where p: "p = (exposed, envelopes)" by (cases p)
    have ok: "list_all (usable rt) exposed" using that inv unfolding p by (rule prepare_tools_returns)
    have "toolless (finish_run rt env q planned)"
      unfolding finish_run_def by (intro preserves_rules)
    then show ?thesis
      unfolding p prod.case by (intro acts_model acts_repair assms ok calls.sequence_then calls.toolless_acts)
  qed
  have "toolless (prepare_tools rt env q planned)"
    unfolding prepare_tools_def Let_def by (intro preserves_rules preserves_each)
  then show ?thesis
    unfolding converse_def by (intro after calls.sequence_then calls.toolless_acts)
qed

text \<open>What a result must satisfy, wherever it is concluded.\<close>

definition results_in :: "('a \<Rightarrow> bool) \<Rightarrow> ('z, 'a) agentic \<Rightarrow> bool" where
  "results_in P m \<longleftrightarrow> (\<forall>s r s'. m s = (Returns r, s') \<longrightarrow> P r)"

lemma results_rules:
  "P x \<Longrightarrow> results_in P (as_return x)"
  "results_in P (as_throw e)"
  "(\<And>x. results_in P (k x)) \<Longrightarrow> results_in P (as_then m1 k)"
  "(\<And>e. results_in P (h e)) \<Longrightarrow> (\<And>x. results_in P (k2 x)) \<Longrightarrow> results_in P (as_try m2 h k2)"
  "results_in P n \<Longrightarrow> (\<And>e. results_in P (h e)) \<Longrightarrow> results_in P (as_catch n h)"
  "results_in P n \<Longrightarrow> results_in P (finally_do n f)"
  "results_in P n \<Longrightarrow> results_in P n' \<Longrightarrow> results_in P (if c then n else n')"
  "(\<And>x y. results_in P (f2 x y)) \<Longrightarrow> results_in P (case p of (x, y) \<Rightarrow> f2 x y)"
  by (auto simp: results_in_def as_return_def as_throw_def as_then_def as_try_def as_catch_def finally_do_def
      split: prod.splits settled.splits)

lemma results_conclude: "(\<And>sc. P (run_result_of status response planned failure sc)) \<Longrightarrow>
    results_in P (conclude status response planned failure)"
  by (simp add: results_in_def conclude_def read_scene_def as_get_def)

text \<open>What the steps of a run are, by its result.\<close>

definition taken ::
  "('z, 'r) runtime \<Rightarrow> 'z agent_env \<Rightarrow> agent_request \<Rightarrow> external_step list \<Rightarrow>
     (agent_thrown, run_result) settled \<times> 'z agent \<Rightarrow> bool" where
  "taken rt env q before out \<longleftrightarrow> (\<exists>planned l. steps_of (snd out) = before @ l \<and>
     guarded_calls rt env q planned l \<and>
     (l = [] \<or> (\<exists>s0 s1. context_load (rt_loader rt) env s0 = (Returns planned, s1))) \<and>
     (\<forall>r. fst out = Returns r \<longrightarrow> ro_context r = Some planned \<or> ro_context r = None \<and> l = []))"

definition run_takes :: "('z, 'r) runtime \<Rightarrow> 'z agent_env \<Rightarrow> agent_request \<Rightarrow> ('z, run_result) agentic \<Rightarrow> bool" where
  "run_takes rt env q m \<longleftrightarrow> (\<forall>s. taken rt env q (steps_of s) (m s))"

lemma taken_nothing:
  "steps_of s' = before \<Longrightarrow> (\<And>x. r = Returns x \<Longrightarrow> ro_context x = None) \<Longrightarrow> taken rt env q before (r, s')"
  unfolding taken_def by (intro exI [of _ "[]"] exI) (auto simp: calls.empty)

lemma takes_try:
  assumes "toolless m" "\<And>e. run_takes rt env q (h e)" "\<And>s x s'. m s = (Returns x, s') \<Longrightarrow> run_takes rt env q (k x)"
  shows "run_takes rt env q (as_try m h k)"
  unfolding run_takes_def
proof
  fix s
  obtain r s' where m: "m s = (r, s')" by (cases "m s")
  with assms(1) have same: "steps_of s' = steps_of s" unfolding preserves_def by (metis snd_conv)
  show "taken rt env q (steps_of s) (as_try m h k s)"
  proof (cases r)
    case (Returns x)
    with assms(3) m have "run_takes rt env q (k x)" by blast
    with m Returns show ?thesis unfolding run_takes_def same [symmetric] by (simp add: as_try_def)
  next
    case (Throws e)
    with assms(2) m show ?thesis unfolding run_takes_def same [symmetric] by (simp add: as_try_def)
  qed (auto simp: as_try_def m intro: taken_nothing same)
qed

lemma takes_plain: "toolless m \<Longrightarrow> results_in (\<lambda>r. ro_context r = None) m \<Longrightarrow> run_takes rt env q m"
  unfolding run_takes_def preserves_def results_in_def by (metis prod.collapse taken_nothing)

lemma takes_after:
  "toolless m \<Longrightarrow> (\<And>s x s'. m s = (Returns x, s') \<Longrightarrow> run_takes rt env q (k x)) \<Longrightarrow> run_takes rt env q (as_then m k)"
  unfolding as_then_is_try
  by (rule takes_try) (auto intro!: takes_plain preserves_rules results_rules)

lemma takes_if: "run_takes rt env q m \<Longrightarrow> run_takes rt env q n \<Longrightarrow> run_takes rt env q (if c then m else n)"
  by simp

lemma takes_acts:
  assumes "acts m (guarded_calls rt env q planned)" "results_in (\<lambda>r. ro_context r = Some planned) m"
    and "context_load (rt_loader rt) env s0 = (Returns planned, s1)"
  shows "run_takes rt env q m"
  unfolding run_takes_def taken_def
proof
  fix s
  obtain l where "steps_of (snd (m s)) = steps_of s @ l" "guarded_calls rt env q planned l"
    using assms(1) unfolding acts_def by blast
  moreover have "ro_context r = Some planned" if "fst (m s) = Returns r" for r
    using assms(2) that unfolding results_in_def by (metis prod.collapse)
  ultimately show "\<exists>planned l. steps_of (snd (m s)) = steps_of s @ l \<and> guarded_calls rt env q planned l \<and>
     (l = [] \<or> (\<exists>s0 s1. context_load (rt_loader rt) env s0 = (Returns planned, s1))) \<and>
     (\<forall>r. fst (m s) = Returns r \<longrightarrow> ro_context r = Some planned \<or> ro_context r = None \<and> l = [])"
    using assms(3) by blast
qed

lemma takes_fail: "run_takes rt env q (fail_run env failure)"
  unfolding fail_run_def
  by (intro takes_plain preserves_rules results_rules results_conclude) (simp add: run_result_of_def)

lemma takes_opened:
  assumes "production_wiring rt" "context_load (rt_loader rt) env s0 = (Returns planned, s1)"
  shows "run_takes rt env q (opened_run rt env q planned)"
proof -
  let ?body = "\<lambda>mark. finally_do (as_catch (converse rt env q planned) (failed_run env q planned mark)) (close_run rt env q)"
  have failed: "toolless (failed_run env q planned mark e)" for mark e
    unfolding failed_run_def Let_def by (intro preserves_rules)
  have body: "acts (?body mark) (guarded_calls rt env q planned)" for mark
    by (intro calls.sequence_finally calls.sequence_catch acts_converse assms(1) calls.toolless_acts failed preserves_rules)
  have result: "results_in (\<lambda>r. ro_context r = Some planned) (?body mark)" for mark
    unfolding converse_def failed_run_def finish_run_def Let_def
    by (intro results_rules results_conclude) (simp_all add: run_result_of_def)
  show ?thesis
    unfolding opened_run_def
    by (intro takes_acts [OF body result assms(2)] takes_fail takes_after takes_if preserves_rules)
qed

lemma open_session_loads:
  "open_session rt env q s = (Returns planned, s') \<Longrightarrow>
   \<exists>s0 s1. context_load (rt_loader rt) env s0 = (Returns planned, s1)"
  by (auto simp: open_session_def then_returns as_return_def)

lemma takes_run:
  assumes "production_wiring rt"
  shows "run_takes rt env q (run rt env q)"
proof -
  have opened: "run_takes rt env q (opened_run rt env q planned)"
    if "open_session rt env q s = (Returns planned, s')" for planned s s'
    using open_session_loads [OF that] takes_opened [OF assms] by blast
  have parts: "toolless (open_session rt env q)" "toolless (start_run env q)" "toolless (not_opened rt env e)" for e
    unfolding open_session_def start_run_def not_opened_def Let_def
    by (intro preserves_rules toolless_identify)+
  have not_opened: "run_takes rt env q (not_opened rt env e)" for e
    unfolding not_opened_def Let_def
    by (intro takes_plain preserves_rules results_rules results_conclude) (simp add: run_result_of_def)
  show ?thesis
    unfolding run_def coordinated_run_def
    by (intro takes_after takes_if takes_fail takes_try opened not_opened parts preserves_rules)
qed


end
