(* ===== verification/RunOutcomes.thy ===== *)
theory RunOutcomes
  imports RunGuarantees
begin

text \<open>
  How a run ends: the state machine of the run only makes legal moves, and what the run answers
  is what the machine says.
\<close>

section \<open>Runs that are well formed\<close>

fun legal_path :: "run_status list \<Rightarrow> bool" where
  "legal_path (x # y # zs) \<longleftrightarrow> y \<in> set (legal_run x) \<and> legal_path (y # zs)"
| "legal_path [x] \<longleftrightarrow> True"
| "legal_path [] \<longleftrightarrow> False"

lemma legal_path_snoc: "legal_path xs \<Longrightarrow> y \<in> set (legal_run (last xs)) \<Longrightarrow> legal_path (xs @ [y])"
  by (induction xs rule: legal_path.induct) auto

definition run_wf :: "agent_run \<Rightarrow> bool" where
  "run_wf r \<longleftrightarrow> legal_path (ar_history r) \<and> hd (ar_history r) = RUN_CREATED \<and>
     last (ar_history r) = ar_status r"

definition under_way :: "agent_run \<Rightarrow> bool" where
  "under_way r \<longleftrightarrow> run_wf r \<and> \<not> terminal_status (ar_status r)"

lemma run_wf_new: "run_wf (new_agent_run runId sessionId traceId ts)"
  by (simp add: run_wf_def new_agent_run_def)

lemma live_new: "under_way (new_agent_run runId sessionId traceId ts)"
  unfolding under_way_def by (simp add: run_wf_new) (simp add: new_agent_run_def terminal_status_def)

lemma run_wf_transition: "run_wf r \<Longrightarrow> run_transition r st = Inr r' \<Longrightarrow> run_wf r' \<and> ar_status r' = st"
  by (cases "ar_history r = []")
    (auto simp: run_wf_def run_transition_def canTransition_def legal_path_snoc hd_append split: if_splits)

lemma run_wf_attach: "attachContext r x = Inr r' \<Longrightarrow> run_wf r' = run_wf r \<and> ar_status r' = ar_status r"
  by (auto simp: attachContext_def run_wf_def split: if_splits)

section \<open>Code that leaves the run alive\<close>

abbreviation run_of :: "'z agent \<Rightarrow> agent_run" where
  "run_of s \<equiv> sn_run (ag_scene s)"

interpretation moves: bystander run_of
  by unfold_locales (simp_all add: advance_def let_others_run_def)

definition stays_live :: "('z, 'a) agentic \<Rightarrow> bool" where
  "stays_live m \<longleftrightarrow> (\<forall>s. under_way (run_of s) \<longrightarrow> under_way (run_of (snd (m s))))"

named_theorems live_rules "code that leaves a live run alive"

lemma live_preserves: "preserves run_of m \<Longrightarrow> stays_live m"
  by (simp add: preserves_def stays_live_def)

lemma live_try:
  "stays_live m \<Longrightarrow> (\<And>e. stays_live (h e)) \<Longrightarrow> (\<And>x. stays_live (k x)) \<Longrightarrow> stays_live (as_try m h k)"
  unfolding stays_live_def as_try_def by (auto split: prod.split settled.split)

lemma live_sequence [live_rules]:
  "stays_live m \<Longrightarrow> (\<And>x. stays_live (k x)) \<Longrightarrow> stays_live (as_then m k)"
  "stays_live n \<Longrightarrow> (\<And>e. stays_live (h e)) \<Longrightarrow> stays_live (as_catch n h)"
  by (simp_all add: as_then_is_try as_catch_is_try live_try live_preserves preserves_control)

lemma live_cases [live_rules]:
  "stays_live m \<Longrightarrow> stays_live n \<Longrightarrow> stays_live (if c then m else n)"
  "stays_live m \<Longrightarrow> (\<And>x. stays_live (f x)) \<Longrightarrow> stays_live (case v of None \<Rightarrow> m | Some x \<Rightarrow> f x)"
  "(\<And>x. stays_live (g x)) \<Longrightarrow> (\<And>x. stays_live (f x)) \<Longrightarrow> stays_live (case r of Inl x \<Rightarrow> g x | Inr x \<Rightarrow> f x)"
  "(\<And>x y. stays_live (f2 x y)) \<Longrightarrow> stays_live (case p of (x, y) \<Rightarrow> f2 x y)"
  by (simp_all split: option.split sum.split prod.split)

lemma live_each: "(\<And>x. stays_live (f x)) \<Longrightarrow> stays_live (each f xs)"
  by (induction xs) (auto intro: live_rules live_preserves preserves_rules)

lemma live_ignore: "stays_live m \<Longrightarrow> stays_live (ignore_thrown m)"
  by (simp add: ignore_thrown_def live_try live_preserves preserves_control)

lemma move_run_states:
  "move_run st s = (Returns (), s') \<Longrightarrow> run_wf (run_of s) \<Longrightarrow> run_wf (run_of s') \<and> ar_status (run_of s') = st"
  "move_run st s = (Throws e, s') \<Longrightarrow> run_of s' = run_of s"
  by (auto simp: move_run_def as_then_def read_scene_def as_get_def as_lift_def amend_def in_scene_def
      as_update_def dest: run_wf_transition split: sum.splits)

lemma move_run_settles: "move_run st s \<noteq> (Pending, s')"
  by (simp add: move_run_def as_then_def read_scene_def as_get_def as_lift_def amend_def in_scene_def
      as_update_def split: sum.split)

lemma live_move: "\<not> terminal_status st \<Longrightarrow> stays_live (move_run st)"
  unfolding stays_live_def
proof (intro allI impI)
  fix s :: "'z agent"
  assume st: "\<not> terminal_status st" and l: "under_way (run_of s)"
  obtain r s' where m: "move_run st s = (r, s')" by (cases "move_run st s")
  show "under_way (run_of (snd (move_run st s)))"
  proof (cases r)
    case (Returns u)
    with m l st move_run_states(1) [of st s s'] show ?thesis by (simp add: under_way_def)
  next
    case (Throws e)
    with m l move_run_states(2) [of st s e s'] show ?thesis by simp
  qed (use m move_run_settles in auto)
qed

lemma live_moves [live_rules]:
  "stays_live (move_run CONTEXT_LOADING)" "stays_live (move_run CAPABILITY_RESOLUTION)"
  "stays_live (move_run MODEL_RUNNING)" "stays_live (move_run TOOL_REQUESTED)"
  "stays_live (move_run TOOL_PROCESSING)" "stays_live (move_run MODEL_RESUMED)"
  by (simp_all add: live_move terminal_status_def)

lemma live_attach [live_rules]: "stays_live (attach x)"
  by (auto simp: stays_live_def attach_def as_then_def read_scene_def as_get_def as_lift_def amend_def
      in_scene_def as_update_def under_way_def dest: run_wf_attach split: sum.split)

section \<open>The parts of a run\<close>

lemma preserves_adapter [preserves_rules]: "preserves run_of (adapter_execute rt env planned prompt sig d parameters)"
proof -
  have run: "preserves run_of (run_request rt env cfg q)" for cfg q
    by (auto simp: preserves_def run_request_def in_exec_def Let_def moves.others split: prod.split settled.split)
  have allowed: "preserves run_of (allowedExecution rt env d args dec p)" for args dec p
    unfolding allowedExecution_def Let_def
    by (intro preserves_rules moves.amends preserves_finally run) (simp_all split: option.split)
  have direct: "preserves run_of (direct_handler env sig d args)" for args
    by (simp add: preserves_def direct_handler_def Let_def moves.others split: sum.split)
  have guard: "preserves run_of (guard_execute rt env (runtime_guard rt env planned) d args (direct_handler env sig d args))" for args
    unfolding guard_execute_def runtime_guard_def guard_options.select_convs both_given
    by (intro preserves_rules allowed direct)
  show ?thesis
    unfolding adapter_execute_def by (intro preserves_rules guard)
qed

lemma live_observe: "stays_live (observe rt env exposed e)"
  by (cases e) (auto simp: observe_start_def observe_turn_end_def intro!: live_rules intro: live_preserves preserves_rules)

lemma live_model: "stays_live (ask_model rt env q planned exposed)"
proof -
  have "stays_live (pi_does rt env q planned exposed st)" for st
    by (cases st) (auto simp: pi_does_def intro!: live_ignore live_observe intro: live_preserves preserves_rules split: option.split)
  note step = this
  show ?thesis
    unfolding ask_model_def session_prompt_def
    by (intro step live_rules live_each live_preserves moves.amends preserves_rules) simp_all
qed

lemma live_repair: "stays_live (complete_plan rt env q planned exposed envelopes)"
proof -
  have "stays_live (repair_call rt env q planned exposed repair)" for repair
    by (auto simp: repair_call_def intro!: live_preserves preserves_rules split: prod.split option.split)
  note call = this
  show ?thesis
    unfolding complete_plan_def repair_all_def
    by (intro call live_rules live_each live_preserves preserves_rules)
qed

lemma live_prepare: "stays_live (prepare_tools rt env q planned)"
  unfolding prepare_tools_def Let_def
  by (intro live_rules live_each live_preserves moves.amends preserves_rules) simp_all

lemma live_open: "stays_live (open_session rt env q)"
  unfolding open_session_def
  by (intro live_rules live_preserves preserves_rules)

section \<open>How a run ends\<close>

text \<open>
  A result is in order when its run is well formed and has ended as the result says, and a
  failure is answered with the response for its code.
\<close>

definition verdict_status :: "run_verdict \<Rightarrow> run_status" where
  "verdict_status v = (case v of
     Run_succeeded \<Rightarrow> RUN_SUCCEEDED | Run_failed \<Rightarrow> RUN_FAILED | Run_cancelled \<Rightarrow> RUN_CANCELLED)"

definition in_order :: "run_result \<Rightarrow> bool" where
  "in_order r \<longleftrightarrow> run_wf (ro_run r) \<and> ar_status (ro_run r) = verdict_status (ro_status r) \<and>
     (case ro_error r of
        None \<Rightarrow> ro_status r = Run_succeeded
      | Some (code, _) \<Rightarrow> ro_status r \<noteq> Run_succeeded \<and> ro_response r = safeFailureResponse code \<and>
          (ro_status r = Run_cancelled \<longrightarrow> code = RC_RUN_CANCELLED))"

definition ends_well :: "('z, run_result) agentic \<Rightarrow> bool" where
  "ends_well m \<longleftrightarrow> (\<forall>s r s'. under_way (run_of s) \<longrightarrow> m s = (Returns r, s') \<longrightarrow> in_order r)"

definition throws_live :: "('z, 'a) agentic \<Rightarrow> bool" where
  "throws_live m \<longleftrightarrow> (\<forall>s e s'. under_way (run_of s) \<longrightarrow> m s = (Throws e, s') \<longrightarrow> under_way (run_of s'))"

lemma return_then: "as_then (as_return x) f = f x"
  by (rule ext) (simp add: as_then_def as_return_def)

lemma then_assoc: "as_then (as_then m f) g = as_then m (\<lambda>x. as_then (f x) g)"
  by (rule ext) (simp add: as_then_def split: prod.split settled.split)

lemma ends_then: "stays_live m \<Longrightarrow> (\<And>x. ends_well (k x)) \<Longrightarrow> ends_well (as_then m k)"
  unfolding ends_well_def stays_live_def by (auto simp: then_returns) (metis snd_conv)

lemma ends_try:
  "stays_live m \<Longrightarrow> (\<And>e. ends_well (h e)) \<Longrightarrow> (\<And>x. ends_well (k x)) \<Longrightarrow> ends_well (as_try m h k)"
  unfolding ends_well_def stays_live_def as_try_def
  by (auto split: prod.splits settled.splits) (metis snd_conv)+

lemma ends_catch:
  "ends_well m \<Longrightarrow> throws_live m \<Longrightarrow> (\<And>e. ends_well (h e)) \<Longrightarrow> ends_well (as_catch m h)"
  unfolding ends_well_def throws_live_def as_catch_def by (fastforce split: prod.splits settled.splits)

lemma ends_finally: "ends_well m \<Longrightarrow> ends_well (finally_do m f)"
  unfolding ends_well_def finally_do_def as_try_def
  by (auto simp: then_returns as_return_def as_throw_def split: prod.splits settled.splits)

lemma ends_if: "ends_well m \<Longrightarrow> ends_well n \<Longrightarrow> ends_well (if c then m else n)"
  by simp

lemma throws_then: "stays_live m \<Longrightarrow> (\<And>x. throws_live (k x)) \<Longrightarrow> throws_live (as_then m k)"
  unfolding throws_live_def stays_live_def as_then_def
  by (auto split: prod.splits settled.splits) (metis snd_conv)?

text \<open>The last move, and nothing that moves the run after it.\<close>

lemma ends_with_move:
  assumes "preserves run_of m" "\<And>sc. run_wf (sn_run sc) \<Longrightarrow> ar_status (sn_run sc) = st \<Longrightarrow>
    in_order (run_result_of v response planned failure sc)"
  shows "ends_well (as_then (move_run st) (\<lambda>_. as_then m (\<lambda>_. conclude v response planned failure)))"
  unfolding ends_well_def
proof (intro allI impI)
  fix s r s'
  assume l: "under_way (run_of s)"
    and run: "as_then (move_run st) (\<lambda>_. as_then m (\<lambda>_. conclude v response planned failure)) s = (Returns r, s')"
  obtain s1 where s1: "move_run st s = (Returns (), s1)" "as_then m (\<lambda>_. conclude v response planned failure) s1 = (Returns r, s')"
    using run unfolding then_returns by auto
  then obtain y s2 where s2: "m s1 = (Returns y, s2)" "conclude v response planned failure s2 = (Returns r, s')"
    unfolding then_returns by blast
  have "run_wf (run_of s1)" "ar_status (run_of s1) = st"
    using move_run_states(1) [OF s1(1)] l by (auto simp: under_way_def)
  moreover have "run_of s2 = run_of s1"
    using assms(1) s2(1) unfolding preserves_def by (metis snd_conv)
  ultimately show "in_order r"
    using assms(2) [of "ag_scene s2"] s2(2) by (auto simp: conclude_def read_scene_def as_get_def)
qed

lemma ends_running: "ends_well (as_then m k) \<Longrightarrow> ends_well (as_then (if_running m) k)"
  unfolding ends_well_def by (auto simp: if_running_def as_then_def read_scene_def as_get_def under_way_def)

lemma ends_fail_run: "ends_well (fail_run env failure)"
  unfolding fail_run_def
  by (intro ends_with_move preserves_rules)
    (cases failure, simp add: in_order_def run_result_of_def verdict_status_def)

lemma ends_converse: "ends_well (converse rt env q planned)" "throws_live (converse rt env q planned)"
proof -
  have checks: "preserves run_of (check_outcome env)" "preserves run_of (remember_turn rt env)"
    by (rule moves.endings)+
  have last: "ends_well (as_then (move_run RUN_SUCCEEDED) (\<lambda>_. conclude Run_succeeded response (Some planned) None))" for response
    using ends_with_move [of "as_return ()" RUN_SUCCEEDED Run_succeeded response "Some planned" None]
    unfolding return_then
    by (simp add: preserves_control in_order_def run_result_of_def verdict_status_def)
  have over: "throws_live (as_then (move_run RUN_SUCCEEDED) (\<lambda>_. conclude Run_succeeded response (Some planned) None))" for response
    by (auto simp: throws_live_def as_then_def conclude_def read_scene_def as_get_def
        split: prod.splits settled.splits dest!: move_run_states(2))
  have pairs: "ends_well (case p of (x, y) \<Rightarrow> m x y)" if "\<And>x y. ends_well (m x y)" for p m
    using that by (simp split: prod.split)
  have pairs': "throws_live (case p of (x, y) \<Rightarrow> m x y)" if "\<And>x y. throws_live (m x y)" for p m
    using that by (simp split: prod.split)
  show "ends_well (converse rt env q planned)"
    unfolding converse_def finish_run_def
    by (intro last ends_then pairs live_prepare live_model live_repair live_preserves checks preserves_rules)
  show "throws_live (converse rt env q planned)"
    unfolding converse_def finish_run_def
    by (intro over throws_then pairs' live_prepare live_model live_repair live_preserves checks preserves_rules)
qed

lemma ends_failed: "ends_well (failed_run env q planned mark e)"
proof -
  have last: "ends_well (as_then (if_running (move_run (if over then RUN_CANCELLED else RUN_FAILED))) (\<lambda>_.
     as_then (rollback env i mark) (\<lambda>_. as_then (emit_failed env (fst failure)) (\<lambda>_.
       conclude (if over then Run_cancelled else Run_failed) (safeFailureResponse (fst failure)) (Some planned) (Some failure)))))"
    if "over \<longrightarrow> fst failure = RC_RUN_CANCELLED" for over i and failure :: "runtime_error_code \<times> bool"
  proof -
    have "ends_well (as_then (if_running (move_run (if over then RUN_CANCELLED else RUN_FAILED))) (\<lambda>_.
       as_then (as_then (rollback env i mark) (\<lambda>_. emit_failed env (fst failure))) (\<lambda>_.
         conclude (if over then Run_cancelled else Run_failed) (safeFailureResponse (fst failure)) (Some planned) (Some failure))))"
      by (intro ends_running ends_with_move preserves_rules)
        (use that in \<open>cases failure, simp add: in_order_def run_result_of_def verdict_status_def\<close>)
    then show ?thesis by (simp only: then_assoc)
  qed
  have pairs: "ends_well (case p of (x, y) \<Rightarrow> m x y)" if "\<And>x y. ends_well (m x y)" for p m
    using that by (simp split: prod.split)
  show ?thesis
    unfolding failed_run_def Let_def
    by (intro last ends_then pairs live_preserves preserves_rules) simp
qed

lemma ends_not_opened: "ends_well (not_opened rt env e)"
proof -
  have last: "ends_well (as_then (if_running (move_run RUN_FAILED)) (\<lambda>_. as_then (emit_failed env (fst failure)) (\<lambda>_.
       conclude Run_failed (safeFailureResponse (fst failure)) None (Some failure))))"
    for failure :: "runtime_error_code \<times> bool"
    by (intro ends_running ends_with_move preserves_rules)
      (cases failure, simp add: in_order_def run_result_of_def verdict_status_def)
  show ?thesis
    unfolding not_opened_def Let_def
    by (intro last ends_then live_preserves moves.amends preserves_rules)
      (auto split: agent_thrown.split option.split)
qed

lemma ends_coordinated: "ends_well (coordinated_run rt env q)"
  unfolding coordinated_run_def opened_run_def
  by (intro ends_then ends_try ends_if ends_finally ends_catch ends_fail_run ends_converse ends_failed
      ends_not_opened live_open live_preserves preserves_rules)

text \<open>
  C4. A run that answers has ended, and its answer is what its state machine says: the history of
  the returned run is a path of legal transitions from \<open>RUN_CREATED\<close> to its status, the status is
  the terminal one of the verdict (succeeded, failed or cancelled), and the result carries an
  error exactly when it did not succeed, with the response text of that error. This holds on
  every path through a run: refused identities, undeliverable events, a busy session, a context
  that cannot be loaded, whatever Pi emits, repairs, cancellation and loss of the lease.
\<close>

theorem run_answers_its_state_machine:
  assumes "run rt env q s = (Returns r, s')"
  shows "legal_path (ar_history (ro_run r)) \<and> hd (ar_history (ro_run r)) = RUN_CREATED \<and>
    last (ar_history (ro_run r)) = ar_status (ro_run r) \<and>
    ar_status (ro_run r) = verdict_status (ro_status r) \<and>
    (case ro_error r of
       None \<Rightarrow> ro_status r = Run_succeeded
     | Some (code, _) \<Rightarrow> ro_status r \<noteq> Run_succeeded \<and> ro_response r = safeFailureResponse code)"
proof -
  have ends: "ends_well (fail_run env failure)" "ends_well (coordinated_run rt env q)" for failure
    by (rule ends_fail_run ends_coordinated)+
  have after: "ends_well (as_then (createEvent env RE_run_started no_metadata) (\<lambda>started.
     as_then (read_scene sn_boundaryFailed) (\<lambda>failed.
     if failed then fail_run env agent_run_internal_error
     else as_then (emit_run_event env started) (\<lambda>_.
          as_then (read_scene sn_sinkFailed) (\<lambda>undelivered.
          if undelivered then fail_run env agent_run_internal_error
          else coordinated_run rt env q)))))"
    by (intro ends ends_then ends_if live_preserves preserves_rules)
  obtain s1 where s1: "start_run env q s = (Returns (), s1)"
    and r: "as_then (createEvent env RE_run_started no_metadata) (\<lambda>started.
     as_then (read_scene sn_boundaryFailed) (\<lambda>failed.
     if failed then fail_run env agent_run_internal_error
     else as_then (emit_run_event env started) (\<lambda>_.
          as_then (read_scene sn_sinkFailed) (\<lambda>undelivered.
          if undelivered then fail_run env agent_run_internal_error
          else coordinated_run rt env q)))) s1 = (Returns r, s')"
    using assms unfolding run_def then_returns by (auto simp: as_lift_def split: sum.splits)
  have "under_way (run_of s1)"
    using s1 by (auto simp: start_run_def then_returns amend_def in_scene_def as_update_def begin_run_def live_new)
  with after r have "in_order r" unfolding ends_well_def by blast
  then show ?thesis by (auto simp: in_order_def run_wf_def split: option.splits)
qed

end
