(* ===== verification/ConfirmedCalls.thy ===== *)
theory ConfirmedCalls
  imports RunGuarantees
begin

text \<open>
  Executing what the user confirmed, \<open>packages/agent-runtime/src\<close>: \<open>confirmAndExecute\<close> and
  \<open>confirmAndComplete\<close> of \<open>production-runtime.ts\<close> with the answer to the user of
  \<open>final-response.ts\<close>, and what they guarantee.
\<close>

section \<open>Confirming and executing\<close>

definition service_get :: "'r confirmation_service \<Rightarrow> string \<Rightarrow> ('r, pending_action option) act" where
  "service_get sv actionId =
     act_then (act_repo (\<lambda>m. (rp_get (sv_ops sv) m actionId, m))) (\<lambda>found. act_return (map_option pd_action found))"

definition get_pending :: "('z, 'r) runtime \<Rightarrow> 'z agent_env \<Rightarrow> string \<Rightarrow> ('z, pending_action option) agentic" where
  "get_pending rt env actionId s =
     in_service (rt_world rt) (rt_put_world rt) env (service_get (service_now rt s) actionId) s"

text \<open>The action and its authorization: of a confirmation, or of one that was not executed yet.\<close>

definition authorize_action ::
  "('z, 'r) runtime \<Rightarrow> 'z agent_env \<Rightarrow> confirm_command \<Rightarrow> pending_action \<Rightarrow>
     ('z, pending_action \<times> execution_authorization option) agentic" where
  "authorize_action rt env c pending s = in_service (rt_world rt) (rt_put_world rt) env
     (if pa_state pending = AS_READY_FOR_EXECUTION
      then act_then (resumeReadyForExecution (service_now rt s) (bound_command.truncate c))
             (\<lambda>(a, auth). act_return (a, Some auth))
      else act_then (service_confirm (service_now rt s) (av_actions env) c)
             (\<lambda>oc. act_return (oc_action oc, oc_authorization oc))) s"

definition confirmed_request ::
  "pending_action \<Rightarrow> execution_authorization \<Rightarrow> string \<Rightarrow> utc_timestamp \<Rightarrow> execution_request" where
  "confirmed_request a auth executionId createdAt =
     \<lparr>xq_executionId = executionId, xq_toolName = pa_toolName a,
      xq_validatedArguments = pa_validatedArguments a, xq_actionFingerprint = pa_actionFingerprint a,
      xq_runId = pa_runId a, xq_sessionId = pa_sessionId a, xq_userId = pa_userId a,
      xq_vehicleId = pa_vehicleId a, xq_traceId = pa_traceId a, xq_riskLevel = pa_riskLevel a,
      xq_policyDecision = pa_policyDecision a, xq_actionId = Some (pa_actionId a),
      xq_authorizationId = Some (ea_authorizationId auth),
      xq_contextSnapshotId = Some (ea_contextSnapshotId auth),
      xq_contextVersion = Some (ea_contextVersion auth),
      xq_idempotencyKey = ''confirmed:'' @ pa_actionId a, xq_createdAt = createdAt\<rparr>"

definition internal_error :: agent_thrown where
  "internal_error = Agent_error RC_INTERNAL_ERROR False"

definition execute_authorized ::
  "('z, 'r) runtime \<Rightarrow> 'z agent_env \<Rightarrow> pending_action \<Rightarrow> execution_authorization \<Rightarrow>
     ('z, execution_result) agentic" where
  "execute_authorized rt env a auth =
     (case registry_get (rt_registry rt) (pa_toolName a) of
        None \<Rightarrow> as_throw internal_error
      | Some d \<Rightarrow>
          if td_riskLevel d \<noteq> pa_riskLevel a then as_throw internal_error
          else as_then (as_get (\<lambda>s. av_executionId env (position s))) (\<lambda>executionId.
               as_then (agent_now env) (\<lambda>createdAt.
                 run_request rt env (rt_executor rt) (confirmed_request a auth executionId createdAt))))"

definition execute_confirmed ::
  "('z, 'r) runtime \<Rightarrow> 'z agent_env \<Rightarrow> confirm_command \<Rightarrow> pending_action \<Rightarrow> ('z, execution_result) agentic" where
  "execute_confirmed rt env c pending =
     as_then (authorize_action rt env c pending) (\<lambda>outcome.
     as_then throwIfSessionLeaseLost (\<lambda>_.
     case snd outcome of
       None \<Rightarrow> as_throw (Agent_error RC_POLICY_REPLAN_REQUIRED False)
     | Some auth \<Rightarrow> execute_authorized rt env (fst outcome) auth))"

definition confirmAndExecute ::
  "('z, 'r) runtime \<Rightarrow> 'z agent_env \<Rightarrow> confirm_command \<Rightarrow> ('z, execution_result) agentic" where
  "confirmAndExecute rt env c =
     as_then (get_pending rt env (bc_actionId c)) (\<lambda>found.
     case found of
       None \<Rightarrow> as_throw internal_error
     | Some pending \<Rightarrow>
         as_then (coordinate rt env) (\<lambda>coordinated.
         if \<not> coordinated then as_throw (Agent_error RC_SESSION_BUSY False)
         else as_then (amend (\<lambda>sc. sc\<lparr>sn_leaseLost := False\<rparr>)) (\<lambda>_.
              finally_do (execute_confirmed rt env c pending)
                (as_then (await_others env) (\<lambda>_. ignore_thrown (release_lease rt env))))))"

section \<open>The answer to the user\<close>

datatype state_refresh = Refreshed string int | Refresh_unavailable

datatype action_stage =
  ACTION_PROPOSED | POLICY_CHECKED | CONFIRMATION_CREATED | USER_CONFIRMED | EXECUTING | EXECUTED
| STATE_REFRESHED | FINAL_RESPONSE

record action_completion =
  cm_actionId :: string
  cm_toolName :: string
  cm_idempotencyKey :: string
  cm_execution :: execution_result
  cm_stateRefresh :: state_refresh
  cm_lifecycle :: "action_stage list"
  cm_response :: string

definition responseForExecution :: "execution_result \<Rightarrow> state_refresh \<Rightarrow> string" where
  "responseForExecution x refresh =
     (if xr_status x = X_SUCCEEDED
      then (if refresh \<noteq> Refresh_unavailable
            then ''The requested action completed successfully, and the current state was refreshed.''
            else ''The requested action completed successfully, but the current state could not be refreshed.'')
      else if xr_status x = X_OUTCOME_UNKNOWN
      then ''The external service outcome could not be confirmed. No blind retry was issued.''
      else if xr_status x = X_RETRY_EXHAUSTED
      then ''The requested action was not executed to a confirmed completion after bounded retries. No further action was issued.''
      else ''The requested action failed and was not executed to a confirmed completion.'')"

text \<open>The pattern of a success claim: one of three phrases between word boundaries.\<close>

definition word_char :: "char \<Rightarrow> bool" where
  "word_char c \<longleftrightarrow> is_lower c \<or> is_digit c \<or> c = CHR ''_'' \<or> c \<in> set ''ABCDEFGHIJKLMNOPQRSTUVWXYZ''"

definition lower_char :: "char \<Rightarrow> char" where
  "lower_char c = (let n = (of_char c :: nat) in if 65 \<le> n \<and> n \<le> 90 then char_of (n + 32) else c)"

definition phrase_here :: "string \<Rightarrow> string \<Rightarrow> bool" where
  "phrase_here phrase text \<longleftrightarrow> take (length phrase) text = phrase \<and>
     (case drop (length phrase) text of [] \<Rightarrow> True | c # _ \<Rightarrow> \<not> word_char c)"

fun has_phrase :: "string list \<Rightarrow> bool \<Rightarrow> string \<Rightarrow> bool" where
  "has_phrase phrases inside [] = False"
| "has_phrase phrases inside (c # cs) =
     ((\<not> inside \<and> list_ex (\<lambda>p. phrase_here p (c # cs)) phrases) \<or> has_phrase phrases (word_char c) cs)"

definition success_phrases :: "string list" where
  "success_phrases = [''completed successfully'', ''succeeded'', ''was executed'']"

definition claims_success :: "string \<Rightarrow> bool" where
  "claims_success response \<longleftrightarrow> has_phrase success_phrases False (map lower_char response)"

definition finalResponseMatchesExecution :: "string \<Rightarrow> execution_result \<Rightarrow> bool" where
  "finalResponseMatchesExecution response x \<longleftrightarrow>
     \<not> blank response \<and> (xr_status x = X_SUCCEEDED \<or> \<not> claims_success response)"

definition completed_lifecycle :: "execution_result \<Rightarrow> state_refresh \<Rightarrow> action_stage list" where
  "completed_lifecycle x refresh =
     [ACTION_PROPOSED, POLICY_CHECKED, CONFIRMATION_CREATED, USER_CONFIRMED, EXECUTING] @
     (if xr_status x = X_SUCCEEDED then [EXECUTED] else []) @
     (if refresh \<noteq> Refresh_unavailable then [STATE_REFRESHED] else []) @ [FINAL_RESPONSE]"

definition createConfirmedActionCompletion ::
  "string \<Rightarrow> string \<Rightarrow> execution_result \<Rightarrow> state_refresh \<Rightarrow> (agent_thrown, action_completion) result" where
  "createConfirmedActionCompletion actionId toolName x refresh =
     (let response = responseForExecution x refresh in
      if \<not> finalResponseMatchesExecution response x then Inl Other_thrown
      else Inr \<lparr>cm_actionId = actionId, cm_toolName = toolName,
        cm_idempotencyKey = ''confirmed:'' @ actionId, cm_execution = x, cm_stateRefresh = refresh,
        cm_lifecycle = completed_lifecycle x refresh, cm_response = response\<rparr>)"

definition confirmAndComplete ::
  "('z, 'r) runtime \<Rightarrow> 'z agent_env \<Rightarrow> confirm_command \<Rightarrow> ('z, action_completion) agentic" where
  "confirmAndComplete rt env c =
     as_then (get_pending rt env (bc_actionId c)) (\<lambda>found.
     case found of
       None \<Rightarrow> as_throw internal_error
     | Some pending \<Rightarrow>
         as_then (confirmAndExecute rt env c) (\<lambda>x.
         as_then (as_try (context_load (rt_loader rt) env) (\<lambda>_. as_return Refresh_unavailable)
                    (\<lambda>l. as_return (Refreshed (cx_snapshotId (lx_snapshot l)) (cx_contextVersion (lx_snapshot l))))) (\<lambda>refresh.
           as_lift (createConfirmedActionCompletion (bc_actionId c) (pa_toolName pending) x refresh))))"

section \<open>What reaches the outside\<close>

text \<open>
  Nothing, or the execution of one request, made of an action and the authorization that the
  service returned for this very command.
\<close>

definition confirmed_steps ::
  "('z, 'r) runtime \<Rightarrow> 'z agent_env \<Rightarrow> confirm_command \<Rightarrow> external_step list \<Rightarrow> bool" where
  "confirmed_steps rt env c steps \<longleftrightarrow> steps = [] \<or>
     (\<exists>pending a auth x ts d grant calls s0 s1.
        authorize_action rt env c pending s0 = (Returns (a, Some auth), s1) \<and>
        registry_get (rt_registry rt) (pa_toolName a) = Some d \<and> td_riskLevel d = pa_riskLevel a \<and>
        steps = grant # calls \<and> grants (confirmed_request a auth x ts) d grant \<and>
        calls_from (xc_retry (rt_executor rt)) (confirmed_request a auth x ts) d 1 calls)"

lemma confirmed_steps_empty [simp]: "confirmed_steps rt env c []"
  by (simp add: confirmed_steps_def)

lemma toolless_service_calls [preserves_rules]:
  "toolless (get_pending rt env i)" "toolless (authorize_action rt env c pending)"
  unfolding get_pending_def authorize_action_def by (rule tools.service)+

lemma acts_authorized:
  assumes "plain_or_transparent (rt_executor rt)"
    and "authorize_action rt env c pending s0 = (Returns (a, Some auth), s1)"
  shows "acts (execute_authorized rt env a auth) (confirmed_steps rt env c)"
proof (cases "registry_get (rt_registry rt) (pa_toolName a)")
  case (Some d)
  have "confirmed_steps rt env c steps"
    if "follows_protocol (rt_executor rt) (Some (confirmed_request a auth x ts)) steps"
      "td_riskLevel d = pa_riskLevel a" for x ts steps
  proof (cases steps)
    case (Cons grant calls)
    have "xq_toolName (confirmed_request a auth x ts) = pa_toolName a" by (simp add: confirmed_request_def)
    with that(1) Cons Some have "grants (confirmed_request a auth x ts) d grant"
      "calls_from (xc_retry (rt_executor rt)) (confirmed_request a auth x ts) d 1 calls"
      by (simp_all add: follows_protocol_def rt_registry_def)
    with assms(2) Some that(2) Cons show ?thesis unfolding confirmed_steps_def by blast
  qed simp
  then have run: "acts (run_request rt env (rt_executor rt) (confirmed_request a auth x ts)) (confirmed_steps rt env c)"
    if "td_riskLevel d = pa_riskLevel a" for x ts
    using acts_run_request [OF assms(1)] that unfolding acts_def by blast
  show ?thesis
  proof (cases "td_riskLevel d = pa_riskLevel a")
    case True
    then show ?thesis
      unfolding execute_authorized_def Some option.case
      by (auto intro!: run acts_after [where G = "confirmed_steps rt env c"] preserves_rules)
  qed (auto simp: execute_authorized_def Some intro!: acts_toolless preserves_rules)
qed (auto simp: execute_authorized_def intro!: acts_toolless preserves_rules)

lemma acts_confirmed:
  assumes "plain_or_transparent (rt_executor rt)"
  shows "acts (execute_confirmed rt env c pending) (confirmed_steps rt env c)"
proof -
  have after: "acts (case snd outcome of None \<Rightarrow> as_throw (Agent_error RC_POLICY_REPLAN_REQUIRED False)
     | Some auth \<Rightarrow> execute_authorized rt env (fst outcome) auth) (confirmed_steps rt env c)"
    if "authorize_action rt env c pending s = (Returns outcome, s')" for outcome s s'
  proof (cases "snd outcome")
    case (Some auth)
    with that have "authorize_action rt env c pending s = (Returns (fst outcome, Some auth), s')"
      by (metis prod.collapse)
    from acts_authorized [OF assms this] Some show ?thesis by simp
  qed (auto intro!: acts_toolless preserves_rules)
  show ?thesis
    unfolding execute_confirmed_def
    by (intro after acts_after [where G = "confirmed_steps rt env c"] preserves_rules confirmed_steps_empty)
qed

lemma acts_then_toolless:
  "acts m G \<Longrightarrow> toolless f \<Longrightarrow> acts (finally_do m f) G"
  unfolding finally_do_def by (intro acts_before_try preserves_rules)


section \<open>What the user is told\<close>

lemma claims:
  "\<not> claims_success ''The external service outcome could not be confirmed. No blind retry was issued.''"
  "\<not> claims_success ''The requested action was not executed to a confirmed completion after bounded retries. No further action was issued.''"
  "\<not> claims_success ''The requested action failed and was not executed to a confirmed completion.''"
  "claims_success ''The requested action completed successfully, and the current state was refreshed.''"
  "claims_success ''The requested action completed successfully, but the current state could not be refreshed.''"
  by code_simp+

text \<open>
  The answer is honest: it claims success exactly when the execution succeeded, and the stages
  it reports are those that were reached.
\<close>

lemma completion_is_honest:
  "\<exists>cm. createConfirmedActionCompletion actionId toolName x refresh = Inr cm \<and> cm_execution cm = x \<and>
     (claims_success (cm_response cm) \<longleftrightarrow> xr_status x = X_SUCCEEDED) \<and>
     (EXECUTED \<in> set (cm_lifecycle cm) \<longleftrightarrow> xr_status x = X_SUCCEEDED) \<and>
     (STATE_REFRESHED \<in> set (cm_lifecycle cm) \<longleftrightarrow> refresh \<noteq> Refresh_unavailable)"
proof -
  let ?r = "responseForExecution x refresh"
  have "claims_success ?r \<longleftrightarrow> xr_status x = X_SUCCEEDED"
    by (simp add: responseForExecution_def claims)
  moreover have "\<not> blank ?r"
    by (simp add: responseForExecution_def blank_def)
  ultimately show ?thesis
    by (simp add: createConfirmedActionCompletion_def finalResponseMatchesExecution_def
        completed_lifecycle_def Let_def)
qed

end
