(* ===== verification/DurableCalls.thy ===== *)
theory DurableCalls
  imports CallGuarantees DurableAnswers
begin

text \<open>
  The guarantee on the tool calls of a run holds behind the durable coordinator too: the
  coordinator adds no external step of its own, and runs the owner it was given at most as it is.
\<close>

section \<open>The durable coordinator is transparent\<close>

lemma adds_logless: "logless m \<Longrightarrow> G [] \<Longrightarrow> adds m (\<lambda>_. G)"
  unfolding logless_def by (intro adds_same_log) auto

lemma adds_logless_then:
  "logless m \<Longrightarrow> G [] \<Longrightarrow> (\<And>x. adds (f x) (\<lambda>_. G)) \<Longrightarrow> adds (as_then m f) (\<lambda>_. G)"
  unfolding adds_def logless_def as_then_def
  by (auto split: prod.split settled.split) (metis append_Nil2 filter.simps(1) snd_conv)+

lemma adds_then_logless:
  "adds m (\<lambda>_. G) \<Longrightarrow> (\<And>x. logless (f x)) \<Longrightarrow> adds (as_then m f) (\<lambda>_. G)"
  unfolding adds_def logless_def as_then_def
  by (auto split: prod.split settled.split) (metis snd_conv)+

lemma adds_catch_logless:
  "adds m (\<lambda>_. G) \<Longrightarrow> (\<And>e. logless (h e)) \<Longrightarrow> adds (as_catch m h) (\<lambda>_. G)"
  unfolding adds_def logless_def as_catch_def
  by (auto split: prod.split settled.split) (metis snd_conv)+

lemma adds_promised: "adds m (\<lambda>_. G) \<Longrightarrow> adds (promised k p m) (\<lambda>_. G)"
  unfolding adds_def promised_def settle_promise_def Let_def
  by (auto split: prod.split settled.split) (metis snd_conv)+

lemma durable_transparent:
  fixes env :: "'y durable_world exec_env"
  shows "transparent (durable_execute dc de env)"
  unfolding transparent_def
proof (intro allI impI)
  fix G :: "external_step list \<Rightarrow> bool" and q b and m :: "('y, owner_result) durable_exec"
  assume G: "G []" and m: "adds m (\<lambda>_. G)"
  have own: "adds (own_flight dc de env q b m) (\<lambda>_. G)"
    unfolding own_flight_def runOwner_def finalize_owner_def
    by (intro adds_logless_then adds_finally adds_promised adds_then_logless adds_catch_logless
        logless_rules m G) (simp add: end_flight_def Let_def)
  have joined: "logless (join_flight dc de env q b f)" "logless (answer_conflicting de q)" for f
    unfolding join_flight_def answer_conflicting_def auditDeduplication_def by (intro logless_rules)+
  have acquired: "adds (case_acquired (own_flight dc de env q b m) (answer_conflicting de q)
      as_return as_return a) (\<lambda>_. G)" for a
    using own G by (cases a) (simp_all add: adds_logless joined)
  have flights: "adds (case local of
         Some f \<Rightarrow> join_flight dc de env q b f
       | None \<Rightarrow> as_then (transaction de env (\<lambda>clock. acquire_transaction dc clock q b)) (\<lambda>acquired.
           case_acquired (own_flight dc de env q b m) (answer_conflicting de q) as_return as_return acquired)) (\<lambda>_. G)" for local
    by (cases local) (simp_all add: adds_logless joined adds_logless_then logless_parts(5) G acquired)
  show "adds (durable_execute dc de env q b m) (\<lambda>_. G)"
    unfolding durable_execute_def
    by (intro adds_finally adds_logless_then adds_get_then logless_rules G flights) simp
qed

end
