(* ===== verification/RunExamples.thy ===== *)
theory RunExamples
  imports RunOutcomes ConfirmedCalls DurableCalls DurableExamples
begin

text \<open>
  The guarantees of the runtime at concrete ones: over the executor of \<open>ExecutorExamples\<close>, and
  over the durable coordinator.
\<close>

definition no_states :: "nat \<Rightarrow> int \<Rightarrow> (thrown, 'a) result" where
  "no_states n k = Inl (Foreign_object No_failure_type)"

definition quiet_env :: "'z agent_env" where
  "quiet_env = \<lparr>av_exec = plain_env, av_around = (\<lambda>_ sc. sc), av_actions = slot_env,
     av_vehicleTrip = no_states, av_vehicle = no_states, av_trip = no_states,
     av_weather = (\<lambda>_. None), av_user = (\<lambda>_. None), av_capabilities = (\<lambda>_. None),
     av_services = (\<lambda>_. None), av_sleep = (\<lambda>_ _. None), av_first = (\<lambda>_. 0),
     av_eventId = (\<lambda>n. Some (''ev-'' @ nat_string n)), av_fallback = (\<lambda>n. (''event-fallback:1'', 2000)),
     av_deliver = (\<lambda>_. True), av_runId = (\<lambda>_. None), av_traceId = (\<lambda>_. Some ''tr-1''),
     av_fallbackId = (\<lambda>_ k. ''run-fallback:'' @ nat_string k),
     av_coordinate = (\<lambda>_. Inr True), av_release = (\<lambda>_. Inr ()), av_bind = (\<lambda>_. Inr ()),
     av_history = (\<lambda>_. Inr []), av_append = (\<lambda>_. Inr ()), av_delta = (\<lambda>_. Inr ()),
     av_usage = (\<lambda>_. Inr ()), av_pi = (\<lambda>_. [Pi_calls ''set_media_volume'' (J_obj [])]),
     av_promptEnd = (\<lambda>_. Inr ()), av_sessionError = (\<lambda>_. False), av_executionId = (\<lambda>_. ''exe-1''),
     av_direct = (\<lambda>_. Inl TE_DEPENDENCY_UNAVAILABLE)\<rparr>"

definition default_recovery :: recovery_manager where
  "default_recovery = (case new_recovery_manager None None of Inr rm \<Rightarrow> rm)"

definition runtime_over :: "'z executor \<Rightarrow> ('z, action_repository) runtime" where
  "runtime_over x = \<lparr>rt_mode = Development, rt_executor = x, rt_service = slot_service,
     rt_world = (\<lambda>_. stored_world slot_pending), rt_put_world = (\<lambda>_ z. z),
     rt_engine = default_engine, rt_profiles = default_profile_map,
     rt_loader = new_context_loader True default_recovery, rt_bind = (\<lambda>_ _ v. v),
     rt_output_ok = (\<lambda>_ _. True), rt_required = (\<lambda>_. []), rt_collation = length,
     rt_matches = (\<lambda>_ _. False), rt_needs_no_tool = (\<lambda>_. False), rt_literal = 1000,
     rt_sanitize = (\<lambda>s. s), rt_coordinated = False, rt_memory = No_memory, rt_historyLimit = 40,
     rt_delta_sink = False, rt_usage_sink = False\<rparr>"

definition volume_prompt :: agent_request where
  "volume_prompt = \<lparr>gq_sessionId = ''ses-1'', gq_prompt = ''Please set the volume to 3'', gq_traceId = Some ''tr-1''\<rparr>"

definition start_scene :: scene where
  "start_scene = \<lparr>sn_builder = \<lparr>sb_version = Process_version, sb_snapshot = \<lparr>sa_prefix = ''ctx'', sa_cell = Process_snapshot ''ctx''\<rparr>, sb_previous = None\<rparr>,
     sn_sequences = process_start, sn_issuedRunIds = [], sn_issuedTraceIds = [], sn_issuedEventIds = [],
     sn_challenges = Map.empty, sn_sessions = Map.empty, sn_pendingSessions = [],
     sn_urgent = \<lparr>us_table = Map.empty, us_notifications = [], us_observations = []\<rparr>,
     sn_run = new_agent_run ''run-0'' ''ses-0'' ''tr-0'' 2000, sn_available = [], sn_events = [],
     sn_decisions = [], sn_executions = [], sn_confirmations = [], sn_receipts = [], sn_intents = [],
     sn_sinkFailed = False, sn_boundaryFailed = False, sn_leaseLost = False, sn_inFlight = False,
     sn_committed = False, sn_cancelled = False, sn_aborted = False, sn_pi = new_pi_state\<rparr>"

definition started_agent :: "'z run \<Rightarrow> 'z agent" where
  "started_agent r = \<lparr>ag_exec = r, ag_scene = start_scene\<rparr>"

lemma media_registry_inv: "registry_inv media_registry"
  using registry_inv_step [OF registry_inv_new, of "Reg_register media_tool_definition"]
  by (simp add: media_registry_def)

lemma media_wiring: "production_wiring (runtime_over media_executor)"
  by (simp add: production_wiring_def runtime_over_def rt_registry_def media_registry_inv
      plain_or_transparent_def) (simp add: media_executor_def)


lemma quiet_env_fields [simp]:
  "av_exec quiet_env = plain_env" "av_around quiet_env = (\<lambda>_ sc. sc)" "av_runId quiet_env = (\<lambda>_. None)"
  "av_fallbackId quiet_env = (\<lambda>_ k. ''run-fallback:'' @ nat_string k)"
  "av_eventId quiet_env = (\<lambda>n. Some (''ev-'' @ nat_string n))"
  "av_fallback quiet_env = (\<lambda>n. (''event-fallback:1'', 2000))" "av_deliver quiet_env = (\<lambda>_. True)"
  by (simp_all add: quiet_env_def)

lemma volume_prompt_fields [simp]:
  "gq_sessionId volume_prompt = ''ses-1''" "gq_traceId volume_prompt = Some ''tr-1''"
  by (simp_all add: volume_prompt_def)

lemma volume_prompt_valid: "validateRequest volume_prompt = Inr ()"
  by (simp add: validateRequest_def) (simp add: volume_prompt_def blank_def)

lemma start_scene_fields [simp]:
  "sn_issuedRunIds start_scene = []" "sn_issuedEventIds start_scene = []"
  by (simp_all add: start_scene_def)

lemma refused_run:
  "\<exists>r s'. run (runtime_over media_executor) quiet_env volume_prompt (started_agent media_start) = (Returns r, s')"
  by (simp add: run_def as_then_def as_lift_def volume_prompt_valid start_run_def identify_def generateId_def
      unissued_def Let_def started_agent_def position_def agent_now_def clock_at_def toUtcTimestamp_def iso_2000
      amend_def in_scene_def as_update_def begin_run_def createEvent_def advance_def read_scene_def as_get_def
      fail_run_def move_run_def run_transition_def canTransition_def new_agent_run_def emit_failed_def
      emit_run_event_def deliver_event_def let_others_run_def conclude_def split: option.split prod.split)

lemma durable_wiring:
  "plain_or_transparent (rt_executor (runtime_over (durably dc de env consumer cfg)))"
  by (simp add: plain_or_transparent_def runtime_over_def durably_def durable_transparent)

theorem run_answers_its_state_machine_witness:
  "\<exists>r s'. run (runtime_over media_executor) quiet_env volume_prompt (started_agent media_start) = (Returns r, s') \<and>
     legal_path (ar_history (ro_run r)) \<and> ar_status (ro_run r) = verdict_status (ro_status r)"
proof -
  obtain r s' where run: "run (runtime_over media_executor) quiet_env volume_prompt (started_agent media_start) = (Returns r, s')"
    using refused_run by blast
  from run_answers_its_state_machine [OF run] run show ?thesis by blast
qed

definition slot_confirmation :: confirm_command where
  "slot_confirmation = \<lparr>bc_actionId = ''act-1'', bc_sessionId = ''ses-1'', bc_userId = ''user-1'',
     cf_confirmationToken = ''token-123''\<rparr>"

definition durable_runtime :: "(action_repository world durable_world, action_repository) runtime" where
  "durable_runtime = runtime_over (durably plain_durable reliable_durable plain_env
     (\<lambda>n c z. (Inr (), z)) slot_base)"


end
