(* ===== verification/UrgentGuarantees.thy ===== *)
theory UrgentGuarantees
  imports UrgentEvents
begin

text \<open>
  What the table of urgent events guarantees to any number of processes: in every history of
  committed transactions an event has one owner at a time, and one end.
\<close>

section \<open>Histories\<close>

datatype table_step = Claims claim_input | Completes completion | Rejects urgent_record

definition step_event :: "table_step \<Rightarrow> string" where
  "step_event st = (case st of
     Claims c \<Rightarrow> ue_eventId (cl_event c) | Completes c \<Rightarrow> co_eventId c | Rejects r \<Rightarrow> uv_eventId r)"

definition table_does :: "urgent_printing \<Rightarrow> table_step \<Rightarrow> urgent_table \<Rightarrow> urgent_record option \<times> urgent_table" where
  "table_does pr st t = (case st of
     Claims c \<Rightarrow> claim_transaction (urgentEventFingerprint pr (cl_event c)) c t
   | Completes c \<Rightarrow> complete_transaction c t
   | Rejects r \<Rightarrow> reject_transaction r t)"

text \<open>What the processor asks of the table: a completion ends the processing, a rejection is one.\<close>

definition asked_properly :: "table_step \<Rightarrow> bool" where
  "asked_properly st \<longleftrightarrow> (case st of
     Claims _ \<Rightarrow> True
   | Completes c \<Rightarrow> co_status c \<notin> {UE_RECEIVED, UE_PROCESSING}
   | Rejects r \<Rightarrow> uv_status r = UE_REJECTED)"

text \<open>The steps on an event that took effect.\<close>

fun effective :: "urgent_printing \<Rightarrow> string \<Rightarrow> table_step list \<Rightarrow> urgent_table \<Rightarrow> table_step list" where
  "effective pr k [] t = []"
| "effective pr k (st # sts) t =
     (case table_does pr st t of (answer, t') \<Rightarrow>
        (if answer \<noteq> None \<and> step_event st = k then [st] else []) @ effective pr k sts t')"

text \<open>
  Which step on an event may take effect after which: a claim once the lease of the one before is
  over, or after a failure; a completion only by the owner.
\<close>

fun may_follow :: "table_step \<Rightarrow> table_step \<Rightarrow> bool" where
  "may_follow (Claims c) (Claims c') \<longleftrightarrow> cl_now c + cl_leaseMs c \<le> cl_now c'"
| "may_follow (Claims c) (Completes d) \<longleftrightarrow> co_ownerId d = cl_ownerId c"
| "may_follow (Completes d) (Claims c) \<longleftrightarrow> co_status d = UE_FAILED"
| "may_follow _ _ \<longleftrightarrow> False"

section \<open>The row of an event\<close>

definition left_by :: "table_step \<Rightarrow> urgent_record \<Rightarrow> bool" where
  "left_by st r \<longleftrightarrow> (case st of
     Claims c \<Rightarrow> uv_status r = UE_PROCESSING \<and> uv_processingOwner r = Some (cl_ownerId c) \<and>
       uv_processingExpiresAt r = Some (cl_now c + cl_leaseMs c)
   | Completes c \<Rightarrow> uv_status r = co_status c
   | Rejects _ \<Rightarrow> uv_status r = UE_REJECTED)"

text \<open>The row as the last effective step left it.\<close>

definition row_after :: "table_step option \<Rightarrow> urgent_record option \<Rightarrow> bool" where
  "row_after prev row \<longleftrightarrow> (case prev of None \<Rightarrow> row = None | Some st \<Rightarrow> asked_properly st \<and> (\<exists>r. row = Some r \<and> left_by st r))"

lemma untouched: "table_does pr st t = (answer, t') \<Longrightarrow> answer = None \<or> step_event st \<noteq> k \<Longrightarrow> t' k = t k"
  by (auto simp: table_does_def step_event_def claim_transaction_def complete_transaction_def
      reject_transaction_def insert_new_def received_record_def claimable_def Let_def
      split: table_step.splits option.splits if_splits)

lemma leaves: "table_does pr st t = (Some r, t') \<Longrightarrow> asked_properly st \<Longrightarrow> t' (step_event st) = Some r \<and> left_by st r"
  by (auto simp: table_does_def step_event_def asked_properly_def left_by_def claim_transaction_def complete_transaction_def
      reject_transaction_def claimed_record_def completed_record_def insert_new_def Let_def
      split: table_step.splits option.splits if_splits)

text \<open>What a row must be for a step to take effect.\<close>

lemma takes_effect:
  "claim_transaction fp c t = (Some r', t') \<Longrightarrow> t (ue_eventId (cl_event c)) = Some r \<Longrightarrow> claimable fp (cl_now c) r"
  "complete_transaction d t = (Some r', t') \<Longrightarrow> t (co_eventId d) = Some r \<Longrightarrow>
     uv_status r = UE_PROCESSING \<and> uv_processingOwner r = Some (co_ownerId d)"
  "reject_transaction e t = (Some r', t') \<Longrightarrow> t (uv_eventId e) = None"
  by (simp_all add: claim_transaction_def complete_transaction_def reject_transaction_def insert_new_def Let_def
      split: if_splits)

lemma follows_last:
  assumes row: "row_after (Some st) (t (step_event st'))" and does: "table_does pr st' t = (Some r', t')"
  shows "may_follow st st'"
proof -
  from row obtain r where r: "t (step_event st') = Some r" "left_by st r" and proper: "asked_properly st"
    by (auto simp: row_after_def)
  show ?thesis
  proof (cases st')
    case (Claims c)
    with does r(1) have "claimable (urgentEventFingerprint pr (cl_event c)) (cl_now c) r"
      using takes_effect(1) [of "urgentEventFingerprint pr (cl_event c)" c t r' t' r]
      by (simp add: table_does_def step_event_def)
    with Claims r(2) proper show ?thesis
      by (cases st) (auto simp: left_by_def claimable_def asked_properly_def)
  next
    case (Completes d)
    with does r(1) have "uv_status r = UE_PROCESSING \<and> uv_processingOwner r = Some (co_ownerId d)"
      using takes_effect(2) [of d t r' t' r] by (simp add: table_does_def step_event_def)
    with Completes r(2) proper show ?thesis
      by (cases st) (auto simp: left_by_def asked_properly_def)
  next
    case (Rejects e)
    with does r(1) takes_effect(3) [of e t r' t'] show ?thesis by (simp add: table_does_def step_event_def)
  qed
qed

lemma effective_orderly:
  assumes "row_after prev (t k)" "list_all asked_properly sts"
  shows "successively may_follow ((case prev of None \<Rightarrow> [] | Some st \<Rightarrow> [st]) @ effective pr k sts t)"
  using assms
proof (induction sts arbitrary: prev t)
  case (Cons st sts)
  from Cons.prems(2) have proper: "asked_properly st" "list_all asked_properly sts" by simp_all
  obtain answer t' where does: "table_does pr st t = (answer, t')" by (rule prod.exhaust)
  show ?case
  proof (cases "answer \<noteq> None \<and> step_event st = k")
    case True
    then obtain r where r: "answer = Some r" "step_event st = k" by (elim conjE not_None_eq [THEN iffD1, THEN exE])
    have "t' k = Some r \<and> left_by st r"
      using leaves [OF does [unfolded r(1)] proper(1)] unfolding r(2) .
    then have "row_after (Some st) (t' k)" using proper(1) by (simp add: row_after_def)
    from Cons.IH [of _ t', OF this proper(2)] have ih: "successively may_follow (st # effective pr k sts t')" by simp
    have now: "effective pr k (st # sts) t = st # effective pr k sts t'" using does r by simp
    show ?thesis
    proof (cases prev)
      case (Some before)
      with Cons.prems(1) r(2) have "row_after (Some before) (t (step_event st))" by simp
      then have "may_follow before st"
        using does [unfolded r(1)] by (rule follows_last [where t = t and st' = st])
      with ih show ?thesis unfolding now Some by simp
    next
      case None
      from ih show ?thesis unfolding now None by simp
    qed
  next
    case False
    then have "t' k = t k" using untouched [OF does, of k] by simp
    with Cons.prems(1) have "row_after prev (t' k)" by simp
    then have ih: "successively may_follow ((case prev of None \<Rightarrow> [] | Some st \<Rightarrow> [st]) @ effective pr k sts t')"
      using proper(2) by (rule Cons.IH)
    have now: "effective pr k (st # sts) t = effective pr k sts t'" using does False by auto
    from ih show ?thesis unfolding now .
  qed
next
  case Nil
  show ?case by (simp split: option.split)
qed

text \<open>
  C7. An urgent event has one owner at a time and one end, whatever any number of processes ask of
  the table and in whatever order: of two claims that take effect one after the other the second
  comes after the lease of the first, only the owner of the last claim completes the event, and
  after a completion nothing takes effect again unless the event had failed. So at most one
  completion of an event is other than a failure, and it is the last word.
\<close>

theorem urgent_event_one_owner_one_end:
  assumes "list_all asked_properly sts"
  shows "successively may_follow (effective pr k sts Map.empty) \<and>
    (\<forall>before d later. effective pr k sts Map.empty = before @ Completes d # later \<longrightarrow>
       co_status d = UE_FAILED \<or> later = [])"
proof (intro conjI allI impI)
  show orderly: "successively may_follow (effective pr k sts Map.empty)"
    using effective_orderly [of None Map.empty k sts pr] assms by (simp add: row_after_def)
  show "co_status d = UE_FAILED \<or> later = []"
    if "effective pr k sts Map.empty = before @ Completes d # later" for before d later
  proof (cases later)
    case (Cons st more)
    with orderly that have "may_follow (Completes d) st" by (simp add: successively_append_iff)
    then show ?thesis by (cases st) simp_all
  qed simp
qed

section \<open>A history\<close>

text \<open>One process claims an event and dies; when its lease is over another claims it and handles it.\<close>

definition soc_event :: urgent_event where
  "soc_event = \<lparr>ue_eventId = ''event-1'', ue_source = SO_VEHICLE, ue_vehicleId = ''veh-1'', ue_occurredAt = 1000,
     ue_receivedAt = 2000, ue_severity = SV_INFO, ue_correlationId = ''corr-1'', ue_payload = LOW_SOC 9\<rparr>"

definition claim_by :: "string \<Rightarrow> utc_timestamp \<Rightarrow> claim_input" where
  "claim_by owner now = \<lparr>cl_event = soc_event, cl_severity = SV_HIGH, cl_ownerId = owner, cl_now = now, cl_leaseMs = 30000\<rparr>"

definition handled_by :: "string \<Rightarrow> completion" where
  "handled_by owner = \<lparr>co_eventId = ''event-1'', co_ownerId = owner, co_status = UE_HANDLED, co_processedAt = 50000,
     co_outcome = summary_only ''done''\<rparr>"

definition plain_printing :: urgent_printing where
  "plain_printing = \<lparr>up_sha = (\<lambda>s. s), up_number = (\<lambda>_. Js_zero False), up_iso = (\<lambda>_. ''t'')\<rparr>"

definition taken_over :: "table_step list" where
  "taken_over = [Claims (claim_by ''first'' 3000), Claims (claim_by ''second'' 5000), Claims (claim_by ''second'' 40000),
     Completes (handled_by ''first''), Completes (handled_by ''second'')]"

lemma claim_by_fields [simp]:
  "cl_event (claim_by owner now) = soc_event" "cl_ownerId (claim_by owner now) = owner"
  "cl_now (claim_by owner now) = now" "cl_leaseMs (claim_by owner now) = 30000" "ue_eventId soc_event = ''event-1''"
  "co_eventId (handled_by owner) = ''event-1''" "co_ownerId (handled_by owner) = owner"
  "co_status (handled_by owner) = UE_HANDLED"
  by (simp_all add: claim_by_def soc_event_def handled_by_def)

lemma taken_over_effective:
  "effective pr ''event-1'' taken_over Map.empty =
     [Claims (claim_by ''first'' 3000), Claims (claim_by ''second'' 40000), Completes (handled_by ''second'')]"
  by (simp add: taken_over_def table_does_def step_event_def claim_transaction_def complete_transaction_def insert_new_def
      received_record_def claimable_def claimed_record_def Let_def)

theorem urgent_event_one_owner_one_end_witness:
  "successively may_follow (effective plain_printing ''event-1'' taken_over Map.empty) \<and>
   effective plain_printing ''event-1'' taken_over Map.empty =
     [Claims (claim_by ''first'' 3000), Claims (claim_by ''second'' 40000), Completes (handled_by ''second'')]"
  using urgent_event_one_owner_one_end [of taken_over] taken_over_effective
  by (simp add: taken_over_def asked_properly_def)

end
