(* ===== verification/UrgentDispatch.thy ===== *)
theory UrgentDispatch
  imports ConfirmedCalls
begin

text \<open>
  Acting on an urgent event, \<open>packages/urgent-events/src/dispatcher.ts\<close>. The dispatcher has the same
  parts as the runtime of the agent (context loader, registry, policy engine and profiles, confirmation
  service over the repository of pending actions, executor), so it is given the record \<open>runtime\<close>, and
  works on the same state. Its ids are derived from the event, so that a redelivered event finds
  what it had started.
\<close>

section \<open>Configuration and environment\<close>

text \<open>
  \<open>ug_credential\<close> is the keyed hash of the action id under the secret, \<open>ug_notifies\<close> whether there is
  a notification sink.
\<close>

record urgent_config =
  ug_userId :: string
  ug_credential :: "string \<Rightarrow> string"
  ug_claimLeaseMs :: int
  ug_notifies :: bool
  ug_printing :: urgent_printing
  ug_maxDeliver :: nat
  ug_nakDelayMs :: int

datatype db_fate = Db_commits | Db_aborts | Db_commits_unseen

text \<open>
  What else the environment answers, by the running position: the execution stored for an id, what
  becomes of a transaction and of a read, the owner ids, the delivery and ids of notifications, how
  many event ids of the action lifecycle were drawn, and whether a dead letter is published.
\<close>

record urgent_env =
  un_recovered :: "nat \<Rightarrow> (agent_thrown, (execution_request \<times> execution_result option) option) result"
  un_fate :: "nat \<Rightarrow> db_fate"
  un_readable :: "nat \<Rightarrow> bool"
  un_owner :: "nat \<Rightarrow> string"
  un_delivered :: "nat \<Rightarrow> bool"
  un_notificationId :: "nat \<Rightarrow> string"
  un_sequence :: "nat \<Rightarrow> nat"
  un_published :: "nat \<Rightarrow> bool"

section \<open>Identities\<close>

record dispatch_identity =
  dn_runId :: string
  dn_sessionId :: string
  dn_traceId :: string

definition stableId :: "urgent_config \<Rightarrow> string \<Rightarrow> nat \<Rightarrow> string \<Rightarrow> string" where
  "stableId cfg kind len v = kind @ '':'' @ take len (up_sha (ug_printing cfg) v)"

definition urgent_identity :: "urgent_config \<Rightarrow> urgent_event \<Rightarrow> dispatch_identity" where
  "urgent_identity cfg e =
     \<lparr>dn_runId = stableId cfg ''urgent-run'' 40 (ue_eventId e),
      dn_sessionId = stableId cfg ''urgent-session'' 40 (ue_eventId e),
      dn_traceId = take 32 (up_sha (ug_printing cfg) (ue_correlationId e))\<rparr>"

section \<open>Observations\<close>

definition observation ::
  "urgent_observation_type \<Rightarrow> urgent_event \<Rightarrow> urgent_severity \<Rightarrow> urgent_status \<Rightarrow> string \<Rightarrow> string \<Rightarrow> urgent_observation" where
  "observation ty e severity status runId traceId =
     \<lparr>uw_observationType = ty, uw_eventId = ue_eventId e, uw_eventType = event_type_of (ue_payload e),
      uw_severity = severity, uw_status = status, uw_runId = runId, uw_traceId = traceId,
      uw_timestamp = 0, uw_toolName = None, uw_actionId = None, uw_executionId = None,
      uw_policyDecision = None, uw_failed = False\<rparr>"

text \<open>The timestamp is read when the observation is made.\<close>

definition observe_urgent :: "'z agent_env \<Rightarrow> urgent_observation \<Rightarrow> ('z, unit) agentic" where
  "observe_urgent env ob =
     as_then (agent_now env) (\<lambda>ts.
       amend (\<lambda>sc. sc\<lparr>sn_urgent := (sn_urgent sc)\<lparr>us_observations :=
         us_observations (sn_urgent sc) @ [ob\<lparr>uw_timestamp := ts\<rparr>]\<rparr>\<rparr>))"

section \<open>What a dispatch is given and returns\<close>

record dispatch_input =
  dp_event :: urgent_event
  dp_severity :: urgent_severity
  dp_planningContext :: driving_context
  dp_candidate :: urgent_candidate

datatype dispatch_outcome =
  Urgent_executed policy_decision execution_result
| Urgent_confirmation policy_decision pending_action safe_result string
| Urgent_refused policy_decision

record dispatch_result =
  dr_outcome :: dispatch_outcome
  dr_identity :: dispatch_identity
  dr_toolName :: string

definition transient :: agent_thrown where
  "transient = Urgent_error (Urgent_transient None)"

definition permanent :: agent_thrown where
  "permanent = Urgent_error Urgent_permanent"

definition observed ::
  "urgent_config \<Rightarrow> urgent_observation_type \<Rightarrow> dispatch_input \<Rightarrow> urgent_status \<Rightarrow> tool_definition \<Rightarrow> urgent_observation" where
  "observed cfg ty i status d =
     (let w = urgent_identity cfg (dp_event i) in
      (observation ty (dp_event i) (dp_severity i) status (dn_runId w) (dn_traceId w))\<lparr>uw_toolName := Some (td_name d)\<rparr>)"

section \<open>Executions of an earlier delivery\<close>

definition recovered_execution ::
  "urgent_config \<Rightarrow> urgent_event \<Rightarrow> tool_definition \<Rightarrow> (execution_request \<times> execution_result option) option \<Rightarrow>
     (agent_thrown, (policy_decision \<times> execution_result) option) result" where
  "recovered_execution cfg e d stored = (case stored of
     None \<Rightarrow> Inr None
   | Some (q, None) \<Rightarrow> Inl transient
   | Some (q, Some x) \<Rightarrow>
       if xq_toolName q \<noteq> td_name d \<or> xq_sessionId q \<noteq> dn_sessionId (urgent_identity cfg e) \<or>
          xq_vehicleId q \<noteq> ue_vehicleId e then Inl permanent
       else if xr_status x \<noteq> X_SUCCEEDED then Inl transient
       else Inr (Some (xq_policyDecision q, x)))"

section \<open>The input of the policy engine\<close>

definition urgent_fingerprint ::
  "('z, 'r) runtime \<Rightarrow> urgent_config \<Rightarrow> urgent_event \<Rightarrow> tool_definition \<Rightarrow> json \<Rightarrow> driving_context \<Rightarrow>
     (action_error_code, string) result" where
  "urgent_fingerprint rt cfg e d args x = createActionFingerprint (xc_sha (rt_executor rt))
     \<lparr>fi_toolName = td_name d, fi_validatedArguments = args,
      fi_sessionId = dn_sessionId (urgent_identity cfg e), fi_userId = ug_userId cfg,
      fi_vehicleId = ue_vehicleId e, fi_contextSnapshotId = cx_snapshotId x,
      fi_contextVersion = cx_contextVersion x\<rparr>"

definition urgent_policy_candidate ::
  "dispatch_identity \<Rightarrow> bool \<Rightarrow> tool_definition \<Rightarrow> json \<Rightarrow> loaded_context \<Rightarrow> freshness_result \<Rightarrow>
     conflict_result option \<Rightarrow> string \<Rightarrow> policy_candidate" where
  "urgent_policy_candidate w trusted d args l fresh conflict fingerprint =
     \<lparr>pc_isRecord = True, pc_toolDefinition = Some (raw_of_definition d),
      pc_validatedArguments = args, pc_trustedDefinition = trusted,
      pc_contextSnapshot = Some (Shaped (lx_snapshot l)), pc_freshness = raw_of_freshness fresh,
      pc_availability = Some (availability_of l), pc_conflict = map_option raw_of_conflict conflict,
      pc_executionBinding = \<lparr>rb_runId = Some (dn_runId w), rb_sessionId = Some (dn_sessionId w),
        rb_traceId = Some (dn_traceId w), rb_actionFingerprint = Some fingerprint\<rparr>\<rparr>"

text \<open>The current context, its comparison with the planning context, and the decision.\<close>

definition load_current ::
  "('z, 'r) runtime \<Rightarrow> 'z agent_env \<Rightarrow> urgent_config \<Rightarrow> dispatch_input \<Rightarrow> tool_definition \<Rightarrow> ('z, loaded_context) agentic" where
  "load_current rt env cfg i d =
     as_then (observe_urgent env (observed cfg UO_context_load_started i UE_PROCESSING d)) (\<lambda>_.
     as_then (as_catch (context_load (rt_loader rt) env) (\<lambda>_. as_throw transient)) (\<lambda>current.
     as_then (observe_urgent env (observed cfg UO_context_load_completed i UE_PROCESSING d)) (\<lambda>_.
     as_then (insist (ve_vehicleId (cx_vehicle (lx_snapshot current)) = ue_vehicleId (dp_event i)) permanent) (\<lambda>_.
       as_return current))))"

definition decide_urgent ::
  "('z, 'r) runtime \<Rightarrow> 'z agent_env \<Rightarrow> urgent_config \<Rightarrow> dispatch_input \<Rightarrow> tool_definition \<Rightarrow> tool_profile \<Rightarrow>
     json \<Rightarrow> loaded_context \<Rightarrow> ('z, string \<times> policy_decision) agentic" where
  "decide_urgent rt env cfg i d pf args current =
     as_then (if td_sideEffect d
              then as_then (or_other (detect_conflict (dp_planningContext i) (lx_snapshot current)
                     (Paths (map Some (tf_relevantContextPaths pf))))) (\<lambda>k. as_return (Some k))
              else as_return None) (\<lambda>conflict.
     as_then (effective_freshness env pf current) (\<lambda>fresh.
     as_then (or_other (urgent_fingerprint rt cfg (dp_event i) d args (lx_snapshot current))) (\<lambda>fingerprint.
     as_then (observe_urgent env (observed cfg UO_policy_evaluate_started i UE_PROCESSING d)) (\<lambda>_.
     as_then (agent_now env) (\<lambda>evaluatedAt.
     as_then (evaluate_policy rt (urgent_policy_candidate (urgent_identity cfg (dp_event i)) (trusted_definition rt d)
                d args current fresh conflict fingerprint) evaluatedAt) (\<lambda>dec.
     as_then (observe_urgent env ((observed cfg UO_policy_evaluate_completed i UE_PROCESSING d)
                \<lparr>uw_policyDecision := Some (po_decision dec)\<rparr>)) (\<lambda>_.
       as_return (fingerprint, dec))))))))"

section \<open>Asking the user\<close>

definition urgent_action_id :: "urgent_config \<Rightarrow> urgent_event \<Rightarrow> string" where
  "urgent_action_id cfg e = stableId cfg ''urgent-action'' 40 (ue_eventId e)"

definition urgent_actions :: "urgent_config \<Rightarrow> 'z agent_env \<Rightarrow> urgent_env \<Rightarrow> urgent_event \<Rightarrow> action_env" where
  "urgent_actions cfg env ue e = (av_actions env)
     \<lparr>en_actionId := (\<lambda>_. Some (urgent_action_id cfg e)),
      en_confirmationId := (\<lambda>_. Some (stableId cfg ''urgent-confirmation'' 40 (ue_eventId e))),
      en_authorizationId := (\<lambda>_. Some (stableId cfg ''urgent-authorization'' 40 (ue_eventId e))),
      en_eventId := (\<lambda>n. Some (stableId cfg ''urgent-action-event'' 32 (ue_eventId e) @ '':'' @ nat_string (un_sequence ue n))),
      en_token := (\<lambda>_. Some (ug_credential cfg (urgent_action_id cfg e)))\<rparr>"

definition validateRecoveredAction :: "urgent_config \<Rightarrow> urgent_event \<Rightarrow> tool_definition \<Rightarrow> pending_action \<Rightarrow> bool" where
  "validateRecoveredAction cfg e d a \<longleftrightarrow> pa_state a = AS_AWAITING_CONFIRMATION \<and> pa_toolName a = td_name d \<and>
     pa_sessionId a = dn_sessionId (urgent_identity cfg e) \<and> pa_userId a = ug_userId cfg \<and>
     pa_vehicleId a = ue_vehicleId e"

definition recovered_action ::
  "urgent_config \<Rightarrow> urgent_event \<Rightarrow> tool_definition \<Rightarrow> pending_action \<Rightarrow> ('z, pending_action \<times> safe_result) agentic" where
  "recovered_action cfg e d a =
     as_then (insist (validateRecoveredAction cfg e d a) permanent) (\<lambda>_.
       as_return (a, \<lparr>sr_actionId = urgent_action_id cfg e, sr_toolName = pa_toolName a,
         sr_riskLevel = pa_riskLevel a, sr_expiresAt = pa_expiresAt a, sr_summary = pa_confirmationSummary a\<rparr>))"

definition urgent_create_command ::
  "urgent_config \<Rightarrow> urgent_event \<Rightarrow> tool_definition \<Rightarrow> json \<Rightarrow> policy_decision \<Rightarrow> driving_context \<Rightarrow> create_command" where
  "urgent_create_command cfg e d args dec x =
     \<lparr>cr_definition = d, cr_validatedArguments = args, cr_runId = dn_runId (urgent_identity cfg e),
      cr_sessionId = dn_sessionId (urgent_identity cfg e), cr_traceId = dn_traceId (urgent_identity cfg e),
      cr_userId = ug_userId cfg, cr_vehicleId = ue_vehicleId e, cr_policyDecision = dec,
      cr_contextSnapshot = x\<rparr>"

definition create_urgent ::
  "('z, 'r) runtime \<Rightarrow> 'z agent_env \<Rightarrow> urgent_config \<Rightarrow> urgent_env \<Rightarrow> urgent_event \<Rightarrow> create_command \<Rightarrow>
     ('z, action_creation) agentic" where
  "create_urgent rt env cfg ue e c s =
     in_service (rt_world rt) (rt_put_world rt) env (service_create (service_now rt s) (urgent_actions cfg env ue e) c) s"

definition createOrRecoverConfirmation ::
  "('z, 'r) runtime \<Rightarrow> 'z agent_env \<Rightarrow> urgent_config \<Rightarrow> urgent_env \<Rightarrow> urgent_event \<Rightarrow> tool_definition \<Rightarrow> json \<Rightarrow>
     policy_decision \<Rightarrow> driving_context \<Rightarrow> ('z, pending_action \<times> safe_result) agentic" where
  "createOrRecoverConfirmation rt env cfg ue e d args dec x =
     as_then (get_pending rt env (urgent_action_id cfg e)) (\<lambda>existing. case existing of
        Some a \<Rightarrow> recovered_action cfg e d a
      | None \<Rightarrow>
          as_try (create_urgent rt env cfg ue e (urgent_create_command cfg e d args dec x))
            (\<lambda>error. as_then (get_pending rt env (urgent_action_id cfg e)) (\<lambda>recovered. case recovered of
               None \<Rightarrow> as_throw error
             | Some a \<Rightarrow> recovered_action cfg e d a))
            (\<lambda>made. as_return (ac_action made, ac_safeResult made)))"

section \<open>Executing\<close>

definition urgent_execution_id :: "urgent_config \<Rightarrow> urgent_event \<Rightarrow> string" where
  "urgent_execution_id cfg e = stableId cfg ''urgent-execution'' 40 (ue_eventId e)"

definition urgent_request ::
  "urgent_config \<Rightarrow> urgent_event \<Rightarrow> tool_definition \<Rightarrow> json \<Rightarrow> policy_decision \<Rightarrow> driving_context \<Rightarrow> string \<Rightarrow>
     utc_timestamp \<Rightarrow> execution_request" where
  "urgent_request cfg e d args dec x fingerprint createdAt =
     (let w = urgent_identity cfg e in
     \<lparr>xq_executionId = urgent_execution_id cfg e, xq_toolName = td_name d, xq_validatedArguments = args,
      xq_actionFingerprint = fingerprint, xq_runId = dn_runId w, xq_sessionId = dn_sessionId w,
      xq_userId = ug_userId cfg, xq_vehicleId = ue_vehicleId e, xq_traceId = dn_traceId w,
      xq_riskLevel = td_riskLevel d, xq_policyDecision = dec, xq_actionId = None, xq_authorizationId = None,
      xq_contextSnapshotId = Some (cx_snapshotId x), xq_contextVersion = Some (cx_contextVersion x),
      xq_idempotencyKey = stableId cfg ''urgent-idempotency'' 40 (ue_eventId e), xq_createdAt = createdAt\<rparr>)"

definition execute_urgent ::
  "('z, 'r) runtime \<Rightarrow> 'z agent_env \<Rightarrow> urgent_config \<Rightarrow> dispatch_input \<Rightarrow> tool_definition \<Rightarrow> json \<Rightarrow> string \<Rightarrow>
     policy_decision \<Rightarrow> driving_context \<Rightarrow> ('z, execution_result) agentic" where
  "execute_urgent rt env cfg i d args fingerprint dec x =
     (let ob = (\<lambda>ty. (observed cfg ty i UE_PROCESSING d)\<lparr>uw_executionId := Some (urgent_execution_id cfg (dp_event i)),
                  uw_policyDecision := Some (po_decision dec)\<rparr>) in
     as_then (observe_urgent env (ob UO_executor_started)) (\<lambda>_.
     as_then (agent_now env) (\<lambda>createdAt.
     as_then (run_request rt env (rt_executor rt)
                (urgent_request cfg (dp_event i) d args dec x fingerprint createdAt)) (\<lambda>execution.
     as_then (observe_urgent env ((ob UO_executor_completed)
                \<lparr>uw_failed := xr_status execution \<noteq> X_SUCCEEDED \<and> xr_error execution \<noteq> None\<rparr>)) (\<lambda>_.
     as_then (insist (xr_status execution = X_SUCCEEDED) transient) (\<lambda>_.
       as_return execution))))))"

definition execute_coordinated ::
  "('z, 'r) runtime \<Rightarrow> 'z agent_env \<Rightarrow> urgent_config \<Rightarrow> dispatch_input \<Rightarrow> tool_definition \<Rightarrow> json \<Rightarrow> string \<Rightarrow>
     policy_decision \<Rightarrow> driving_context \<Rightarrow> ('z, execution_result) agentic" where
  "execute_coordinated rt env cfg i d args fingerprint dec x =
     as_then (await_answer env (av_coordinate env)) (\<lambda>coordinated.
     if \<not> coordinated then as_throw transient
     else finally_do (execute_urgent rt env cfg i d args fingerprint dec x) (await_answer env (av_release env)))"

section \<open>The dispatch\<close>

definition act_on_decision ::
  "('z, 'r) runtime \<Rightarrow> 'z agent_env \<Rightarrow> urgent_config \<Rightarrow> urgent_env \<Rightarrow> dispatch_input \<Rightarrow> tool_definition \<Rightarrow> json \<Rightarrow>
     loaded_context \<Rightarrow> string \<Rightarrow> policy_decision \<Rightarrow> ('z, dispatch_outcome) agentic" where
  "act_on_decision rt env cfg ue i d args current fingerprint dec = (case po_decision dec of
     PD_DENY \<Rightarrow> as_return (Urgent_refused dec)
   | PD_REPLAN \<Rightarrow> as_return (Urgent_refused dec)
   | PD_REQUIRE_CONFIRMATION \<Rightarrow>
       as_then (createOrRecoverConfirmation rt env cfg ue (dp_event i) d args dec (lx_snapshot current)) (\<lambda>(a, safe).
       as_then (observe_urgent env ((observed cfg UO_confirmation_required i UE_HANDLED d)
                  \<lparr>uw_actionId := Some (pa_actionId a), uw_policyDecision := Some (po_decision dec)\<rparr>)) (\<lambda>_.
         as_return (Urgent_confirmation dec a safe (ug_credential cfg (urgent_action_id cfg (dp_event i))))))
   | PD_ALLOW \<Rightarrow>
       as_then (execute_coordinated rt env cfg i d args fingerprint dec (lx_snapshot current)) (\<lambda>x.
         as_return (Urgent_executed dec x)))"

definition dispatch_tool ::
  "('z, 'r) runtime \<Rightarrow> 'z agent_env \<Rightarrow> urgent_config \<Rightarrow> urgent_env \<Rightarrow> dispatch_input \<Rightarrow> tool_definition \<Rightarrow> tool_profile \<Rightarrow>
     ('z, dispatch_outcome) agentic" where
  "dispatch_tool rt env cfg ue i d pf =
     as_then (copied rt (uc_arguments (dp_candidate i)) Other_thrown) (\<lambda>args.
     as_then (insist (td_input_ok d args) permanent) (\<lambda>_.
     as_then (agent_now env) (\<lambda>_.
     as_then (await_answer env (av_bind env)) (\<lambda>_.
     as_then (await_answer env (un_recovered ue)) (\<lambda>stored.
     as_then (as_lift (recovered_execution cfg (dp_event i) d stored)) (\<lambda>recovered.
     case recovered of
       Some (dec, x) \<Rightarrow> as_return (Urgent_executed dec x)
     | None \<Rightarrow>
         as_then (load_current rt env cfg i d) (\<lambda>current.
         as_then (decide_urgent rt env cfg i d pf args current) (\<lambda>(fingerprint, dec).
           act_on_decision rt env cfg ue i d args current fingerprint dec))))))))"

definition dispatch ::
  "('z, 'r) runtime \<Rightarrow> 'z agent_env \<Rightarrow> urgent_config \<Rightarrow> urgent_env \<Rightarrow> dispatch_input \<Rightarrow> ('z, dispatch_result) agentic" where
  "dispatch rt env cfg ue i =
     (case registry_get (rt_registry rt) (uc_toolName (dp_candidate i)) of
        None \<Rightarrow> as_throw permanent
      | Some d \<Rightarrow>
          (case rt_profiles rt (td_name d) of
             None \<Rightarrow> as_throw permanent
           | Some pf \<Rightarrow>
               as_then (dispatch_tool rt env cfg ue i d pf) (\<lambda>out.
                 as_return \<lparr>dr_outcome = out, dr_identity = urgent_identity cfg (dp_event i),
                            dr_toolName = td_name d\<rparr>)))"

end
