(* ===== verification/UrgentProcessing.thy ===== *)
theory UrgentProcessing
  imports UrgentDispatch
begin

text \<open>
  Processing urgent events, \<open>packages/urgent-events/src\<close>: \<open>processor.ts\<close> claims an event, loads the
  context, plans, dispatches and completes the record; \<open>UrgentEventConsumer.handle\<close> of \<open>nats.ts\<close>
  settles the message that brought the event; \<open>notifications.ts\<close>.
\<close>

section \<open>The table\<close>

definition put_table :: "urgent_table \<Rightarrow> 'z agent \<Rightarrow> 'z agent" where
  "put_table t s = s\<lparr>ag_scene := (ag_scene s)\<lparr>sn_urgent := (sn_urgent (ag_scene s))\<lparr>us_table := t\<rparr>\<rparr>\<rparr>"

definition urgent_transaction ::
  "'z agent_env \<Rightarrow> urgent_env \<Rightarrow> (urgent_table \<Rightarrow> 'a \<times> urgent_table) \<Rightarrow> ('z, 'a) agentic" where
  "urgent_transaction env ue f s =
     (let s1 = let_others_run env s; now = un_fate ue (position s1) in
      case f (us_table (sn_urgent (ag_scene s1))) of (x, t) \<Rightarrow>
        if now = Db_aborts then (Throws Other_thrown, let_others_run env s1)
        else let s2 = let_others_run env (put_table t s1)
             in (if now = Db_commits then Returns x else Throws Other_thrown, s2))"

definition urgent_get :: "'z agent_env \<Rightarrow> urgent_env \<Rightarrow> string \<Rightarrow> ('z, urgent_record option) agentic" where
  "urgent_get env ue eventId s =
     (let s1 = let_others_run env s in
      (if un_readable ue (position s1) then Returns (us_table (sn_urgent (ag_scene s1)) eventId)
       else Throws Other_thrown, let_others_run env s1))"

definition found :: "'a option \<Rightarrow> ('z, 'a) agentic" where
  "found x = (case x of None \<Rightarrow> as_throw Other_thrown | Some r \<Rightarrow> as_return r)"

definition claim_event ::
  "'z agent_env \<Rightarrow> urgent_config \<Rightarrow> urgent_env \<Rightarrow> claim_input \<Rightarrow> ('z, urgent_claim) agentic" where
  "claim_event env cfg ue c =
     (let fingerprint = urgentEventFingerprint (ug_printing cfg) (cl_event c) in
     as_then (urgent_transaction env ue (claim_transaction fingerprint c)) (\<lambda>claimed. case claimed of
       Some r \<Rightarrow> as_return (Claimed r)
     | None \<Rightarrow> as_then (urgent_get env ue (ue_eventId (cl_event c))) (\<lambda>row.
               as_then (found row) (\<lambda>r. as_return (claim_answer fingerprint r)))))"

definition reject_event :: "'z agent_env \<Rightarrow> urgent_env \<Rightarrow> urgent_record \<Rightarrow> ('z, urgent_record) agentic" where
  "reject_event env ue rejected =
     as_then (urgent_transaction env ue (reject_transaction rejected)) (\<lambda>inserted. case inserted of
       Some r \<Rightarrow> as_return r
     | None \<Rightarrow> as_then (urgent_get env ue (uv_eventId rejected)) found)"

section \<open>Completing, observing, notifying\<close>

definition complete_event ::
  "'z agent_env \<Rightarrow> urgent_env \<Rightarrow> urgent_event \<Rightarrow> string \<Rightarrow> urgent_status \<Rightarrow> urgent_result \<Rightarrow> ('z, urgent_record) agentic" where
  "complete_event env ue e ownerId status outcome =
     as_then (agent_now env) (\<lambda>ts.
     as_then (urgent_transaction env ue (complete_transaction
        \<lparr>co_eventId = ue_eventId e, co_ownerId = ownerId, co_status = status, co_processedAt = ts, co_outcome = outcome\<rparr>))
       found)"

definition notification ::
  "urgent_notification_type \<Rightarrow> urgent_status \<Rightarrow> string \<Rightarrow> urgent_notification" where
  "notification ty status summary =
     \<lparr>nf_notificationId = [], nf_notificationType = ty, nf_eventId = [], nf_eventType = [], nf_vehicleId = [],
      nf_userId = [], nf_severity = SV_INFO, nf_status = status, nf_safeSummary = summary, nf_runId = [],
      nf_traceId = [], nf_timestamp = 0, nf_actionId = None, nf_sessionId = None, nf_toolName = None,
      nf_riskLevel = None, nf_expiresAt = None, nf_confirmationCredential = None\<rparr>"

text \<open>The fields every notification of an event has are filled in when it is sent.\<close>

definition addressed ::
  "urgent_config \<Rightarrow> urgent_event \<Rightarrow> urgent_severity \<Rightarrow> string \<Rightarrow> utc_timestamp \<Rightarrow> urgent_notification \<Rightarrow> urgent_notification" where
  "addressed cfg e severity ident ts n = n\<lparr>nf_notificationId := ident, nf_eventId := ue_eventId e,
     nf_eventType := event_type_of (ue_payload e), nf_vehicleId := ue_vehicleId e, nf_userId := ug_userId cfg,
     nf_severity := severity, nf_runId := dn_runId (urgent_identity cfg e),
     nf_traceId := dn_traceId (urgent_identity cfg e), nf_timestamp := ts\<rparr>"

definition notify_urgent ::
  "'z agent_env \<Rightarrow> urgent_config \<Rightarrow> urgent_env \<Rightarrow> urgent_event \<Rightarrow> urgent_severity \<Rightarrow> urgent_notification \<Rightarrow> ('z, unit) agentic" where
  "notify_urgent env cfg ue e severity n =
     (if \<not> ug_notifies cfg then as_return ()
      else as_then (as_get (\<lambda>s. un_notificationId ue (position s))) (\<lambda>ident.
           as_then (agent_now env) (\<lambda>ts.
           as_then (amend (\<lambda>sc. sc\<lparr>sn_urgent := (sn_urgent sc)\<lparr>us_notifications :=
             us_notifications (sn_urgent sc) @ [addressed cfg e severity ident ts n]\<rparr>\<rparr>)) (\<lambda>_.
             await_answer env (\<lambda>k. if un_delivered ue k then Inr () else Inl Other_thrown)))))"

definition seen ::
  "urgent_config \<Rightarrow> urgent_observation_type \<Rightarrow> urgent_event \<Rightarrow> urgent_severity \<Rightarrow> urgent_status \<Rightarrow> urgent_observation" where
  "seen cfg ty e severity status =
     observation ty e severity status (dn_runId (urgent_identity cfg e)) (dn_traceId (urgent_identity cfg e))"

section \<open>The end of an event\<close>

datatype disposition = DP_HANDLED | DP_DUPLICATE | DP_REJECTED | DP_REPLAN_REQUIRED

record processing_result =
  px_disposition :: disposition
  px_record :: "urgent_record option"
  px_invalidEventId :: "string option"

text \<open>
  Every path of the processor that settles an event completes the record, then observes, then
  notifies, then returns. An ending says with what.
\<close>

record ending =
  ed_status :: urgent_status
  ed_outcome :: urgent_result
  ed_observation :: "urgent_observation \<Rightarrow> urgent_observation"
  ed_notification :: urgent_notification
  ed_disposition :: disposition

definition settle ::
  "'z agent_env \<Rightarrow> urgent_config \<Rightarrow> urgent_env \<Rightarrow> urgent_event \<Rightarrow> urgent_severity \<Rightarrow> string \<Rightarrow> ending \<Rightarrow>
     ('z, processing_result) agentic" where
  "settle env cfg ue e severity ownerId n =
     as_then (complete_event env ue e ownerId (ed_status n) (ed_outcome n)) (\<lambda>r.
     as_then (observe_urgent env (ed_observation n (seen cfg UO_event_processed e severity (uv_status r)))) (\<lambda>_.
     as_then (notify_urgent env cfg ue e severity ((ed_notification n)\<lparr>nf_status := uv_status r\<rparr>)) (\<lambda>_.
       as_return \<lparr>px_disposition = ed_disposition n, px_record = Some r, px_invalidEventId = None\<rparr>)))"

definition ending_of ::
  "urgent_status \<Rightarrow> urgent_result \<Rightarrow> urgent_observation_type \<Rightarrow> bool \<Rightarrow> urgent_notification_type \<Rightarrow> disposition \<Rightarrow> ending" where
  "ending_of status outcome ty failed nt disp =
     \<lparr>ed_status = status, ed_outcome = outcome,
      ed_observation = (\<lambda>ob. ob\<lparr>uw_observationType := ty, uw_failed := failed\<rparr>),
      ed_notification = notification nt status (uo_safeSummary outcome), ed_disposition = disp\<rparr>"

definition context_unavailable :: ending where
  "context_unavailable = ending_of UE_REPLAN_REQUIRED
     ((summary_only ''Current Context is unavailable; no Tool was executed.'')\<lparr>uo_resultCode := Some UK_CONTEXT_UNAVAILABLE\<rparr>)
     UO_event_failed True NT_failed DP_REPLAN_REQUIRED"

definition resolved :: "string \<Rightarrow> ending" where
  "resolved summary = ending_of UE_HANDLED
     ((summary_only summary)\<lparr>uo_requiresConfirmation := Some False, uo_resultCode := Some UK_NO_ACTION_REQUIRED\<rparr>)
     UO_event_processed False NT_resolved DP_HANDLED"

definition replan :: "string \<Rightarrow> ending" where
  "replan summary = ending_of UE_REPLAN_REQUIRED
     ((summary_only summary)\<lparr>uo_resultCode := Some UK_REPLAN_REQUIRED\<rparr>)
     UO_event_processed False NT_action_required DP_REPLAN_REQUIRED"

definition blocked :: ending where
  "blocked = ending_of UE_REJECTED
     ((summary_only ''Urgent event was blocked permanently before Tool execution.'')
        \<lparr>uo_resultCode := Some UK_URGENT_EVENT_PERMANENT_FAILURE\<rparr>)
     UO_event_rejected True NT_failed DP_REJECTED"

definition refused :: "string \<Rightarrow> policy_decision \<Rightarrow> ending" where
  "refused toolName dec =
     (let denied = (po_decision dec = PD_DENY);
          n = ending_of (if denied then UE_REJECTED else UE_REPLAN_REQUIRED)
            ((summary_only (if denied then ''Policy denied the candidate action; no Tool was executed.''
                            else ''Policy requires replanning against refreshed Context; no Tool was executed.''))
               \<lparr>uo_toolName := Some toolName, uo_policyDecision := Some (po_decision dec),
                uo_resultCode := Some (UK_reason (po_reasonCode dec))\<rparr>)
            UO_event_processed False (if denied then NT_failed else NT_action_required)
            (if denied then DP_REJECTED else DP_REPLAN_REQUIRED)
      in n\<lparr>ed_observation := (\<lambda>ob. ob\<lparr>uw_toolName := Some toolName, uw_policyDecision := Some (po_decision dec)\<rparr>),
           ed_notification := (ed_notification n)\<lparr>nf_toolName := Some toolName\<rparr>\<rparr>)"

definition awaiting_user ::
  "string \<Rightarrow> string \<Rightarrow> policy_decision \<Rightarrow> pending_action \<Rightarrow> string \<Rightarrow> ending" where
  "awaiting_user summary toolName dec a credential =
     (let n = ending_of UE_HANDLED
            ((summary_only summary)\<lparr>uo_toolName := Some toolName, uo_policyDecision := Some (po_decision dec),
               uo_actionId := Some (pa_actionId a), uo_requiresConfirmation := Some True,
               uo_resultCode := Some (UK_reason (po_reasonCode dec))\<rparr>)
            UO_event_processed False NT_confirmation_required DP_HANDLED
      in n\<lparr>ed_observation := (\<lambda>ob. ob\<lparr>uw_toolName := Some toolName, uw_actionId := Some (pa_actionId a),
             uw_policyDecision := Some (po_decision dec)\<rparr>),
           ed_notification := (ed_notification n)\<lparr>nf_actionId := Some (pa_actionId a),
             nf_sessionId := Some (pa_sessionId a), nf_toolName := Some toolName,
             nf_riskLevel := Some (pa_riskLevel a), nf_expiresAt := Some (pa_expiresAt a),
             nf_confirmationCredential := Some credential\<rparr>\<rparr>)"

definition executed :: "string \<Rightarrow> string \<Rightarrow> policy_decision \<Rightarrow> execution_result \<Rightarrow> ending" where
  "executed summary toolName dec x =
     (let n = ending_of UE_HANDLED
            ((summary_only summary)\<lparr>uo_toolName := Some toolName, uo_policyDecision := Some (po_decision dec),
               uo_executionId := Some (xr_executionId x), uo_requiresConfirmation := Some False,
               uo_resultCode := Some (UK_execution (xr_status x))\<rparr>)
            UO_event_processed False NT_resolved DP_HANDLED
      in n\<lparr>ed_observation := (\<lambda>ob. ob\<lparr>uw_toolName := Some toolName, uw_executionId := Some (xr_executionId x),
             uw_policyDecision := Some (po_decision dec)\<rparr>),
           ed_notification := (ed_notification n)\<lparr>nf_toolName := Some toolName\<rparr>\<rparr>)"

definition dispatch_ending :: "string \<Rightarrow> dispatch_result \<Rightarrow> ending" where
  "dispatch_ending summary r = (case dr_outcome r of
     Urgent_refused dec \<Rightarrow> refused (dr_toolName r) dec
   | Urgent_confirmation dec a safe credential \<Rightarrow> awaiting_user summary (dr_toolName r) dec a credential
   | Urgent_executed dec x \<Rightarrow> executed summary (dr_toolName r) dec x)"

section \<open>Processing\<close>

definition handle_claimed ::
  "('z, 'r) runtime \<Rightarrow> 'z agent_env \<Rightarrow> urgent_config \<Rightarrow> urgent_env \<Rightarrow> urgent_event \<Rightarrow> urgent_severity \<Rightarrow> string \<Rightarrow>
     ('z, processing_result) agentic" where
  "handle_claimed rt env cfg ue e severity ownerId =
     as_try (context_load (rt_loader rt) env)
       (\<lambda>_. settle env cfg ue e severity ownerId context_unavailable)
       (\<lambda>loaded.
         as_then (insist (ve_vehicleId (cx_vehicle (lx_snapshot loaded)) = ue_vehicleId e) permanent) (\<lambda>_.
         case plan_event e (lx_snapshot loaded) of
           Plan_resolved summary \<Rightarrow> settle env cfg ue e severity ownerId (resolved summary)
         | Plan_replan summary \<Rightarrow> settle env cfg ue e severity ownerId (replan summary)
         | Plan_action candidate \<Rightarrow>
             as_then (dispatch rt env cfg ue \<lparr>dp_event = e, dp_severity = severity,
                dp_planningContext = lx_snapshot loaded, dp_candidate = candidate\<rparr>) (\<lambda>r.
               settle env cfg ue e severity ownerId (dispatch_ending (uc_safeSummary candidate) r))))"

text \<open>The handler of errors: a permanent one rejects the event, any other leaves it to a redelivery.\<close>

definition failed_processing ::
  "'z agent_env \<Rightarrow> urgent_config \<Rightarrow> urgent_env \<Rightarrow> urgent_event \<Rightarrow> urgent_severity \<Rightarrow> string \<Rightarrow> agent_thrown \<Rightarrow>
     ('z, processing_result) agentic" where
  "failed_processing env cfg ue e severity ownerId error =
     (if error = permanent then settle env cfg ue e severity ownerId blocked
      else let known = (case error of Urgent_error (Urgent_transient _) \<Rightarrow> True | _ \<Rightarrow> False) in
           as_then (ignore_thrown (complete_event env ue e ownerId UE_FAILED
             ((summary_only ''Urgent event processing failed safely; no blind execution was permitted.'')
                \<lparr>uo_resultCode := Some (if known then UK_URGENT_EVENT_TRANSIENT_FAILURE
                                      else UK_URGENT_EVENT_INTERNAL_FAILURE)\<rparr>))) (\<lambda>_.
           as_then (observe_urgent env ((seen cfg UO_event_failed e severity UE_FAILED)\<lparr>uw_failed := True\<rparr>)) (\<lambda>_.
             as_throw (if known then error else transient))))"

definition retry_delay :: "urgent_config \<Rightarrow> urgent_record \<Rightarrow> int \<Rightarrow> int" where
  "retry_delay cfg r now = (case uv_processingExpiresAt r of
     None \<Rightarrow> ug_claimLeaseMs cfg | Some expires \<Rightarrow> max 100 (expires - now + 100))"

definition owned_elsewhere ::
  "'z agent_env \<Rightarrow> urgent_config \<Rightarrow> urgent_event \<Rightarrow> urgent_severity \<Rightarrow> urgent_record \<Rightarrow> ('z, processing_result) agentic" where
  "owned_elsewhere env cfg e severity r =
     as_then (observe_urgent env (seen cfg UO_event_duplicate e severity (uv_status r))) (\<lambda>_.
     if uv_status r = UE_PROCESSING
     then as_then (as_update (\<lambda>s. (clock_at env (position s), advance 1 s))) (\<lambda>now.
            as_throw (Urgent_error (Urgent_transient (Some (retry_delay cfg r now)))))
     else as_return \<lparr>px_disposition = DP_DUPLICATE, px_record = Some r, px_invalidEventId = None\<rparr>)"

definition own_event ::
  "('z, 'r) runtime \<Rightarrow> 'z agent_env \<Rightarrow> urgent_config \<Rightarrow> urgent_env \<Rightarrow> urgent_event \<Rightarrow> urgent_severity \<Rightarrow> string \<Rightarrow>
     ('z, processing_result) agentic" where
  "own_event rt env cfg ue e severity ownerId =
     as_then (observe_urgent env (seen cfg UO_event_received e severity UE_PROCESSING)) (\<lambda>_.
     as_then (notify_urgent env cfg ue e severity (notification NT_received UE_PROCESSING
        ''Urgent vehicle event received and accepted for safe processing.'')) (\<lambda>_.
       as_catch (handle_claimed rt env cfg ue e severity ownerId)
         (failed_processing env cfg ue e severity ownerId)))"

definition process_event ::
  "('z, 'r) runtime \<Rightarrow> 'z agent_env \<Rightarrow> urgent_config \<Rightarrow> urgent_env \<Rightarrow> urgent_event \<Rightarrow> ('z, processing_result) agentic" where
  "process_event rt env cfg ue e =
     (let severity = classify_event e in
     as_then (as_get (\<lambda>s. un_owner ue (position s))) (\<lambda>ownerId.
     as_then (as_catch (as_then (agent_now env) (\<lambda>now.
                claim_event env cfg ue \<lparr>cl_event = e, cl_severity = severity, cl_ownerId = ownerId, cl_now = now,
                  cl_leaseMs = ug_claimLeaseMs cfg\<rparr>)) (\<lambda>_. as_throw transient)) (\<lambda>claim. case claim of
       Conflict r \<Rightarrow>
         as_then (observe_urgent env ((seen cfg UO_event_rejected e severity (uv_status r))\<lparr>uw_failed := True\<rparr>)) (\<lambda>_.
           as_return \<lparr>px_disposition = DP_REJECTED, px_record = None, px_invalidEventId = Some (ue_eventId e)\<rparr>)
     | Duplicate r \<Rightarrow> owned_elsewhere env cfg e severity r
     | Claimed r \<Rightarrow> own_event rt env cfg ue e severity ownerId)))"

definition invalid_observation :: "urgent_config \<Rightarrow> rejectable \<Rightarrow> urgent_observation" where
  "invalid_observation cfg j =
     \<lparr>uw_observationType = UO_event_rejected, uw_eventId = rj_eventId j, uw_eventType = ''UNKNOWN'',
      uw_severity = SV_WARNING, uw_status = UE_REJECTED, uw_runId = ''urgent-invalid:'' @ rj_eventId j,
      uw_traceId = take 32 (up_sha (ug_printing cfg) (rj_correlationId j)), uw_timestamp = 0,
      uw_toolName = None, uw_actionId = None, uw_executionId = None, uw_policyDecision = None, uw_failed = True\<rparr>"

definition rejectInvalid ::
  "'z agent_env \<Rightarrow> urgent_config \<Rightarrow> urgent_env \<Rightarrow> urgent_input \<Rightarrow> ('z, processing_result) agentic" where
  "rejectInvalid env cfg ue input = (case readRejectableEventIdentity input of
     None \<Rightarrow> as_return \<lparr>px_disposition = DP_REJECTED, px_record = None, px_invalidEventId = None\<rparr>
   | Some j \<Rightarrow>
       as_then (as_try (as_then (or_other (toUtcTimestamp (Epoch_int (rj_receivedMs j)))) (\<lambda>receivedAt.
                  as_then (agent_now env) (\<lambda>processedAt.
                    reject_event env ue (rejected_record (ug_printing cfg) j receivedAt processedAt))))
                  (\<lambda>_. as_return None) (\<lambda>r. as_return (Some r))) (\<lambda>stored.
       as_then (observe_urgent env (invalid_observation cfg j)) (\<lambda>_.
         as_return \<lparr>px_disposition = DP_REJECTED, px_record = stored, px_invalidEventId = Some (rj_eventId j)\<rparr>)))"

definition process_input ::
  "('z, 'r) runtime \<Rightarrow> 'z agent_env \<Rightarrow> urgent_config \<Rightarrow> urgent_env \<Rightarrow> urgent_input \<Rightarrow> ('z, processing_result) agentic" where
  "process_input rt env cfg ue input = (case parseUrgentEvent input of
     Inl (Some f) \<Rightarrow> rejectInvalid env cfg ue input
   | Inl None \<Rightarrow> as_throw Other_thrown
   | Inr e \<Rightarrow> process_event rt env cfg ue e)"

section \<open>The message\<close>

datatype dead_letter_reason =
  URGENT_EVENT_INVALID_JSON | URGENT_EVENT_REJECTED | URGENT_EVENT_REDELIVERY_EXHAUSTED | URGENT_EVENT_PERMANENT_FAILURE

record dead_letter =
  dl_reasonCode :: dead_letter_reason
  dl_deliveryCount :: nat
  dl_eventId :: "string option"
  dl_eventType :: "string option"
  dl_vehicleId :: "string option"
  dl_receivedAt :: "string option"

datatype settlement = Acknowledged | Nacked int

text \<open>What a delivery ends with: the dead letters that were published, and how the message was settled.\<close>

type_synonym delivery = "dead_letter list \<times> settlement"

definition dead_letter_of ::
  "urgent_input option \<Rightarrow> dead_letter_reason \<Rightarrow> nat \<Rightarrow> string option \<Rightarrow> dead_letter" where
  "dead_letter_of input reason deliveryCount invalidEventId =
     (let j = (case input of None \<Rightarrow> None | Some i \<Rightarrow> readRejectableEventIdentity i) in
     \<lparr>dl_reasonCode = reason, dl_deliveryCount = deliveryCount,
      dl_eventId = (case invalidEventId of Some k \<Rightarrow> Some k | None \<Rightarrow> map_option rj_eventId j),
      dl_eventType = map_option rj_eventType j, dl_vehicleId = map_option rj_vehicleId j,
      dl_receivedAt = map_option rj_receivedAt j\<rparr>)"

definition publishDlq :: "'z agent_env \<Rightarrow> urgent_env \<Rightarrow> dead_letter \<Rightarrow> ('z, dead_letter list) agentic" where
  "publishDlq env ue letter =
     await_answer env (\<lambda>n. if un_published ue n then Inr [letter] else Inl Other_thrown)"

definition settle_processed ::
  "'z agent_env \<Rightarrow> urgent_env \<Rightarrow> urgent_input \<Rightarrow> nat \<Rightarrow> processing_result \<Rightarrow> ('z, delivery) agentic" where
  "settle_processed env ue input count r =
     (if px_disposition r = DP_REJECTED
      then as_then (publishDlq env ue (dead_letter_of (Some input) URGENT_EVENT_REJECTED count (px_invalidEventId r)))
             (\<lambda>letters. as_return (letters, Acknowledged))
      else as_return ([], Acknowledged))"

definition settle_failed ::
  "'z agent_env \<Rightarrow> urgent_config \<Rightarrow> urgent_env \<Rightarrow> urgent_input \<Rightarrow> nat \<Rightarrow> agent_thrown \<Rightarrow> ('z, delivery) agentic" where
  "settle_failed env cfg ue input count error =
     (let dead = (\<lambda>reason. as_then (publishDlq env ue (dead_letter_of (Some input) reason count None))
                    (\<lambda>letters. as_return (letters, Acknowledged))) in
      case error of
        Urgent_error (Urgent_transient delay) \<Rightarrow>
          if count < ug_maxDeliver cfg
          then as_return ([], Nacked (case delay of None \<Rightarrow> ug_nakDelayMs cfg | Some ms \<Rightarrow> ms))
          else dead URGENT_EVENT_REDELIVERY_EXHAUSTED
      | _ \<Rightarrow> dead URGENT_EVENT_PERMANENT_FAILURE)"

definition handle_message ::
  "('z, 'r) runtime \<Rightarrow> 'z agent_env \<Rightarrow> urgent_config \<Rightarrow> urgent_env \<Rightarrow> nat \<Rightarrow> urgent_input option \<Rightarrow> ('z, delivery) agentic" where
  "handle_message rt env cfg ue count message = (case message of
     None \<Rightarrow> as_then (publishDlq env ue (dead_letter_of None URGENT_EVENT_INVALID_JSON count None))
               (\<lambda>letters. as_return (letters, Acknowledged))
   | Some input \<Rightarrow>
       as_catch (as_then (process_input rt env cfg ue input) (settle_processed env ue input count))
         (settle_failed env cfg ue input count))"

end
