(* ===== verification/UrgentSafety.thy ===== *)
theory UrgentSafety
  imports UrgentProcessing RunGuarantees
begin

text \<open>
  What the handling of an urgent event guarantees: what it executes by itself, and how its message
  is settled.
\<close>

section \<open>Code that reaches no tool\<close>

lemma toolless_observe_urgent [preserves_rules]: "toolless (observe_urgent env ob)"
  unfolding observe_urgent_def by (intro preserves_rules)

lemma toolless_table [preserves_rules]: "toolless (urgent_transaction env ue f)" "toolless (urgent_get env ue k)"
  by (simp_all add: preserves_def urgent_transaction_def urgent_get_def put_table_def Let_def split: prod.split)

lemma toolless_found [preserves_rules]: "toolless (found x)"
  unfolding found_def by (intro preserves_rules)

lemma toolless_table_calls [preserves_rules]:
  "toolless (claim_event env cfg ue c)" "toolless (reject_event env ue r)" "toolless (complete_event env ue e ow st out)"
  unfolding claim_event_def reject_event_def complete_event_def Let_def by (intro preserves_rules)+

lemma toolless_notify [preserves_rules]: "toolless (notify_urgent env cfg ue e sv n)"
  unfolding notify_urgent_def by (intro preserves_rules)

lemma toolless_settle [preserves_rules]: "toolless (settle env cfg ue e sv ow n)"
  unfolding settle_def by (intro preserves_rules)

lemma toolless_failed [preserves_rules]: "toolless (failed_processing env cfg ue e sv ow error)"
  unfolding failed_processing_def Let_def by (intro preserves_rules)

lemma toolless_clock [preserves_rules]: "toolless (as_update (\<lambda>s. (g s, advance k s)))"
  by (simp add: preserves_def as_update_def)

lemma toolless_duplicate [preserves_rules]: "toolless (owned_elsewhere env cfg e sv r)"
  unfolding owned_elsewhere_def by (intro preserves_rules)

lemma toolless_reject_invalid [preserves_rules]: "toolless (rejectInvalid env cfg ue input)"
  unfolding rejectInvalid_def by (intro preserves_rules)

lemma toolless_message [preserves_rules]:
  "toolless (publishDlq env ue letter)" "toolless (settle_processed env ue input n r)"
  unfolding publishDlq_def settle_processed_def by (intro preserves_rules)+

lemma toolless_settle_failed [preserves_rules]: "toolless (settle_failed env cfg ue input n error)"
  unfolding settle_failed_def Let_def
  by (auto intro!: preserves_rules split: agent_thrown.split urgent_failure.split)

lemma toolless_confirmation [preserves_rules]: "toolless (createOrRecoverConfirmation rt env cfg ue e d args dec x)"
proof -
  have "toolless (create_urgent rt env cfg ue e c)" for c
    unfolding create_urgent_def by (rule tools.service)
  moreover have "toolless (get_pending rt env k)" for k
    unfolding get_pending_def by (rule tools.service)
  ultimately show ?thesis
    unfolding createOrRecoverConfirmation_def recovered_action_def by (intro preserves_rules)
qed

lemma toolless_input [preserves_rules]:
  "toolless (load_current rt env cfg i d)" "toolless (decide_urgent rt env cfg i d pf args current)"
  unfolding load_current_def decide_urgent_def by (intro preserves_rules)+

section \<open>What an urgent event may execute\<close>

text \<open>Nothing, or one allowed execution of the reading of the charging status.\<close>

definition reads_charging_status ::
  "('z, 'r) runtime \<Rightarrow> urgent_config \<Rightarrow> urgent_event \<Rightarrow> external_step list \<Rightarrow> bool" where
  "reads_charging_status rt cfg e steps \<longleftrightarrow> steps = [] \<or>
     (\<exists>reason d q calls. ue_payload e = CHARGING_INTERRUPTED reason \<and>
        registry_get (rt_registry rt) ''get_charging_status'' = Some d \<and> td_riskLevel d = R0 \<and> \<not> td_sideEffect d \<and>
        po_decision (xq_policyDecision q) = PD_ALLOW \<and> rt_clone rt (J_obj []) = Some (xq_validatedArguments q) \<and>
        xq_userId q = ug_userId cfg \<and> xq_vehicleId q = ue_vehicleId e \<and>
        steps = Policy_consumed (xq_policyDecision q) # calls \<and>
        calls_from (xc_retry (rt_executor rt)) q d 1 calls)"

lemma reads_nothing [simp]: "reads_charging_status rt cfg e []"
  by (simp add: reads_charging_status_def)

lemma urgent_risks:
  assumes "default_profile_map name = Some pf" "tf_riskLevel pf \<in> {R0, R1}"
  shows "name \<notin> {''reroute_to_charger'', ''request_roadside_assistance'', ''request_emergency_support''}"
    and "name = ''get_charging_status'' \<Longrightarrow> tf_riskLevel pf = R0 \<and> \<not> tf_sideEffect pf"
  using default_profile_mem [OF assms(1)] assms(2)
  by (auto simp: TOOL_POLICY_PROFILES_def profile_def Let_def)

lemma plan_low_risk:
  assumes "plan_event e x = Plan_action c" "default_profile_map (uc_toolName c) = Some pf" "tf_riskLevel pf \<in> {R0, R1}"
  shows "\<exists>reason. ue_payload e = CHARGING_INTERRUPTED reason \<and> uc_toolName c = ''get_charging_status'' \<and>
    uc_arguments c = J_obj [] \<and> tf_riskLevel pf = R0 \<and> \<not> tf_sideEffect pf"
  using assms(1) urgent_risks [OF assms(2,3)]
  by (auto simp: plan_event_def plan_action_def split: urgent_payload.splits if_splits)

text \<open>The decision of a dispatch is for the tool it dispatches.\<close>

lemma decided:
  assumes "decide_urgent rt env cfg i d pf args current s = (Returns (fp, dec), s')"
  shows "\<exists>c st ts. dec = fst (evaluate (rt_clone rt) (rt_engine rt) st (Input c) (Some ts)) \<and>
    pc_toolDefinition c = Some (raw_of_definition d)"
proof -
  obtain conflict fresh fp' ts dec' s1 s2 where
    e: "evaluate_policy rt (urgent_policy_candidate (urgent_identity cfg (dp_event i)) (trusted_definition rt d)
         d args current fresh conflict fp') ts s1 = (Returns dec', s2)" and r: "dec' = dec"
    using assms unfolding decide_urgent_def then_returns as_return_def by auto
  then show ?thesis
    using evaluated_decision [OF e] unfolding urgent_policy_candidate_def by fastforce
qed

lemma allowed_urgent:
  assumes "po_decision dec = PD_ALLOW" "dec = fst (evaluate clone default_engine st (Input c) (Some ts))"
    and "pc_toolDefinition c = Some (raw_of_definition d)"
  shows "\<exists>pf. default_profile_map (td_name d) = Some pf \<and> tf_riskLevel pf \<in> {R0, R1} \<and>
    td_riskLevel d = tf_riskLevel pf \<and> td_sideEffect d = tf_sideEffect pf"
proof -
  have allow: "po_decision (fst (evaluate clone default_engine st (Input c) (Some ts))) = PD_ALLOW"
    using assms(1,2) by simp
  obtain p where p: "p \<in> set TOOL_POLICY_PROFILES" "td_name d = tf_toolName p" "tf_riskLevel p \<in> {R0, R1}"
    using allow_evidence [OF allow] assms(3) by (auto simp: raw_of_definition_def split: if_splits)
  then have "default_profile_map (td_name d) = Some p" using default_profile_get by metis
  with allow_definition [OF allow assms(3)] p(3) show ?thesis by auto
qed

lemma acts_execute_urgent:
  assumes "plain_or_transparent (rt_executor rt)"
    and "\<And>ts steps. follows_protocol (rt_executor rt)
      (Some (urgent_request cfg (dp_event i) d args dec x fp ts)) steps \<Longrightarrow> G steps" "G []"
  shows "acts (execute_coordinated rt env cfg i d args fp dec x) G"
proof -
  have run: "acts (run_request rt env (rt_executor rt) (urgent_request cfg (dp_event i) d args dec x fp ts)) G" for ts
    using acts_run_request [OF assms(1)] assms(2) unfolding acts_def by blast
  have execute: "acts (execute_urgent rt env cfg i d args fp dec x) G"
    unfolding execute_urgent_def Let_def
    by (intro acts_after [where G = G] acts_then run preserves_rules assms(3))
  show ?thesis
    unfolding execute_coordinated_def finally_do_def
    by (intro acts_after [where G = G] acts_if acts_before_try execute acts_toolless [where G = G] preserves_rules assms(3))
qed

lemma charging_read_protocol:
  assumes "follows_protocol (rt_executor rt) (Some (urgent_request cfg e d args dec x fp ts)) steps"
    and "registry_get (rt_registry rt) ''get_charging_status'' = Some d" "td_name d = ''get_charging_status''"
    and "td_riskLevel d = R0" "\<not> td_sideEffect d" "ue_payload e = CHARGING_INTERRUPTED reason"
    and "rt_clone rt (J_obj []) = Some args"
  shows "reads_charging_status rt cfg e steps"
proof (cases steps)
  case (Cons grant calls)
  let ?q = "urgent_request cfg e d args dec x fp ts"
  have q: "xq_toolName ?q = td_name d" "xq_riskLevel ?q = R0" "xq_validatedArguments ?q = args"
    "xq_userId ?q = ug_userId cfg" "xq_vehicleId ?q = ue_vehicleId e"
    using assms(4) by (simp_all add: urgent_request_def Let_def)
  have "grants ?q d grant" "calls_from (xc_retry (rt_executor rt)) ?q d 1 calls"
    using assms(1,2,3) q(1) Cons by (simp_all add: follows_protocol_def rt_registry_def)
  moreover from this(1) have "grant = Policy_consumed (xq_policyDecision ?q)" "po_decision (xq_policyDecision ?q) = PD_ALLOW"
    using q(2) by (simp_all add: grants_def low_risk_def)
  ultimately show ?thesis
    using assms(2,4-7) q(3-5) Cons unfolding reads_charging_status_def
    by (intro disjI2 exI [of _ reason] exI [of _ d] exI [of _ ?q] exI [of _ calls]) simp
qed simp

lemma acts_decision:
  assumes wiring: "production_wiring rt" and plan: "plan_event (dp_event i) y = Plan_action (dp_candidate i)"
    and d: "registry_get (rt_registry rt) (uc_toolName (dp_candidate i)) = Some d"
    and args: "rt_clone rt (uc_arguments (dp_candidate i)) = Some args"
    and dec: "dec = fst (evaluate (rt_clone rt) (rt_engine rt) st (Input c) (Some ts))"
      "pc_toolDefinition c = Some (raw_of_definition d)"
  shows "acts (act_on_decision rt env cfg ue i d args current fp dec) (reads_charging_status rt cfg (dp_event i))"
proof (cases "po_decision dec = PD_ALLOW")
  case True
  have wired: "rt_engine rt = default_engine" "plain_or_transparent (rt_executor rt)"
    "td_name d = uc_toolName (dp_candidate i)"
    using wiring registry_get_inv [OF _ d] by (auto simp: production_wiring_def)
  obtain pf where pf: "default_profile_map (td_name d) = Some pf" "tf_riskLevel pf \<in> {R0, R1}"
    "td_riskLevel d = tf_riskLevel pf" "td_sideEffect d = tf_sideEffect pf"
    using allowed_urgent [OF True dec [unfolded wired(1)]] by blast
  obtain reason where r: "ue_payload (dp_event i) = CHARGING_INTERRUPTED reason"
    "uc_toolName (dp_candidate i) = ''get_charging_status''" "uc_arguments (dp_candidate i) = J_obj []"
    "tf_riskLevel pf = R0" "\<not> tf_sideEffect pf"
    using plan_low_risk [OF plan pf(1) [unfolded wired(3)] pf(2)] by blast
  have "acts (execute_coordinated rt env cfg i d args fp dec (lx_snapshot current))
      (reads_charging_status rt cfg (dp_event i))"
    using d args pf(3,4) r wired(3)
    by (intro acts_execute_urgent [OF wired(2)] reads_nothing charging_read_protocol) simp_all
  then show ?thesis
    unfolding act_on_decision_def True decision_type.case by (intro acts_then preserves_rules)
next
  case False
  then have "toolless (act_on_decision rt env cfg ue i d args current fp dec)"
    unfolding act_on_decision_def by (cases "po_decision dec") (auto intro!: preserves_rules)
  then show ?thesis by (rule acts_toolless) simp
qed

lemma acts_dispatch:
  assumes "production_wiring rt" "plan_event (dp_event i) y = Plan_action (dp_candidate i)"
  shows "acts (dispatch rt env cfg ue i) (reads_charging_status rt cfg (dp_event i))" (is "acts _ ?G")
proof -
  have tool: "acts (dispatch_tool rt env cfg ue i d pf) ?G"
    if d: "registry_get (rt_registry rt) (uc_toolName (dp_candidate i)) = Some d" for d pf
  proof -
    have after: "acts (case recovered of
        None \<Rightarrow> as_then (load_current rt env cfg i d) (\<lambda>current.
          as_then (decide_urgent rt env cfg i d pf args current) (\<lambda>(fp, dec).
            act_on_decision rt env cfg ue i d args current fp dec))
      | Some (dec, x) \<Rightarrow> as_return (Urgent_executed dec x)) ?G"
      if args: "rt_clone rt (uc_arguments (dp_candidate i)) = Some args" for recovered args
    proof -
      have "acts (case x of (fp, dec) \<Rightarrow> act_on_decision rt env cfg ue i d args current fp dec) ?G"
        if "decide_urgent rt env cfg i d pf args current s = (Returns x, s')" for current s x s'
      proof (cases x)
        case (Pair fp dec)
        from decided [OF that [unfolded Pair]] acts_decision [OF assms d args] Pair show ?thesis by auto
      qed
      then have "acts (as_then (load_current rt env cfg i d) (\<lambda>current.
          as_then (decide_urgent rt env cfg i d pf args current) (\<lambda>(fp, dec).
            act_on_decision rt env cfg ue i d args current fp dec))) ?G"
        by (intro acts_after [where G = ?G] preserves_rules reads_nothing)
      then show ?thesis by (auto intro!: acts_toolless preserves_rules split: option.split)
    qed
    show ?thesis
      unfolding dispatch_tool_def
      apply (rule acts_after [where G = ?G], intro preserves_rules, simp)+
      apply (rule after)
      apply (auto simp: copied_def as_throw_def as_return_def split: option.splits)
      done
  qed
  show ?thesis
    unfolding dispatch_def
    by (auto intro!: acts_toolless acts_then tool preserves_rules split: option.split)
qed

lemma acts_try_toolless:
  assumes "toolless m" "\<And>e. acts (h e) G" "\<And>x. acts (k x) G" "G []"
  shows "acts (as_try m h k) G"
  unfolding acts_def
proof
  fix s
  obtain r s' where m: "m s = (r, s')" by (cases "m s")
  with assms(1) have same: "steps_of s' = steps_of s" unfolding preserves_def by (metis snd_conv)
  show "\<exists>l. steps_of (snd (as_try m h k s)) = steps_of s @ l \<and> G l"
    using assms(2-4) m same unfolding acts_def by (cases r) (simp_all add: as_try_def, metis+)
qed

lemma acts_handle_claimed:
  assumes "production_wiring rt"
  shows "acts (handle_claimed rt env cfg ue e sv ow) (reads_charging_status rt cfg e)" (is "acts _ ?G")
proof -
  have plan: "acts (case plan_event e y of
      Plan_resolved summary \<Rightarrow> settle env cfg ue e sv ow (resolved summary)
    | Plan_replan summary \<Rightarrow> settle env cfg ue e sv ow (replan summary)
    | Plan_action candidate \<Rightarrow>
        as_then (dispatch rt env cfg ue \<lparr>dp_event = e, dp_severity = sv, dp_planningContext = y, dp_candidate = candidate\<rparr>)
          (\<lambda>r. settle env cfg ue e sv ow (dispatch_ending (uc_safeSummary candidate) r))) ?G" for y
  proof (cases "plan_event e y")
    case (Plan_action candidate)
    let ?i = "\<lparr>dp_event = e, dp_severity = sv, dp_planningContext = y, dp_candidate = candidate\<rparr>"
    have "acts (dispatch rt env cfg ue ?i) ?G"
      using acts_dispatch [OF assms, of ?i y env cfg ue] Plan_action by simp
    then show ?thesis unfolding Plan_action urgent_plan.case by (intro acts_then preserves_rules)
  qed (auto intro!: acts_toolless preserves_rules)
  show ?thesis
    unfolding handle_claimed_def
    by (intro acts_try_toolless acts_after [where G = ?G] plan acts_toolless [where m = "settle _ _ _ _ _ _ _"]
        preserves_rules reads_nothing)
qed

lemma acts_process_event:
  assumes "production_wiring rt"
  shows "acts (process_event rt env cfg ue e) (reads_charging_status rt cfg e)" (is "acts _ ?G")
proof -
  have own: "acts (own_event rt env cfg ue e sv ow) ?G" for sv ow
    unfolding own_event_def
    by (intro acts_after [where G = ?G] acts_catch acts_handle_claimed [OF assms] preserves_rules reads_nothing)
  have claim: "acts (case claim of
       Conflict r \<Rightarrow> as_then (observe_urgent env (ob r)) (\<lambda>_. as_return out)
     | Duplicate r \<Rightarrow> owned_elsewhere env cfg e sv r
     | Claimed r \<Rightarrow> own_event rt env cfg ue e sv ow) ?G" for claim ob out sv ow
    by (cases claim) (auto intro!: own acts_toolless preserves_rules)
  show ?thesis
    unfolding process_event_def Let_def
    by (intro acts_after [where G = ?G] claim preserves_rules reads_nothing)
qed

text \<open>
  C2. An urgent event executes nothing by itself but a reading of the charging status. Whatever a
  message of the event stream holds, whatever the context says, whatever runs concurrently and
  however often it is redelivered: the external steps of handling one delivery are none, or one
  execution of the registered \<open>get_charging_status\<close> (risk R0, no side effect) with empty arguments,
  for the vehicle of the event and the configured user, that begins by consuming an ALLOW decision
  and follows the retry policy; and this only for a valid event that says that charging was
  interrupted. Everything else an event may call for waits for its user.
\<close>

theorem urgent_event_executes_only_a_read:
  assumes "production_wiring rt"
  shows "\<exists>steps. steps_of (snd (handle_message rt env cfg ue count message s)) = steps_of s @ steps \<and>
    (steps = [] \<or>
     (\<exists>input e reason d q calls. message = Some input \<and> parseUrgentEvent input = Inr e \<and>
        ue_payload e = CHARGING_INTERRUPTED reason \<and>
        registry_get (rt_registry rt) ''get_charging_status'' = Some d \<and> td_riskLevel d = R0 \<and> \<not> td_sideEffect d \<and>
        po_decision (xq_policyDecision q) = PD_ALLOW \<and> rt_clone rt (J_obj []) = Some (xq_validatedArguments q) \<and>
        xq_userId q = ug_userId cfg \<and> xq_vehicleId q = ue_vehicleId e \<and>
        steps = Policy_consumed (xq_policyDecision q) # calls \<and>
        calls_from (xc_retry (rt_executor rt)) q d 1 calls))"
    (is "\<exists>steps. _ \<and> ?G steps")
proof -
  have none: "?G []" by simp
  have "acts (handle_message rt env cfg ue count message) ?G"
  proof (cases message)
    case (Some input)
    have "acts (process_input rt env cfg ue input) ?G"
    proof (cases "parseUrgentEvent input")
      case (Inr e)
      have "acts (process_event rt env cfg ue e) ?G"
        using acts_process_event [OF assms] Some Inr unfolding acts_def reads_charging_status_def by blast
      with Inr show ?thesis by (simp add: process_input_def)
    next
      case (Inl f)
      then have "toolless (process_input rt env cfg ue input)"
        by (cases f) (auto simp: process_input_def intro!: preserves_rules)
      then show ?thesis using none by (rule acts_toolless)
    qed
    then show ?thesis
      unfolding handle_message_def Some option.case by (intro acts_catch acts_then preserves_rules)
  next
    case None
    have "toolless (handle_message rt env cfg ue count message)"
      unfolding handle_message_def None option.case by (intro preserves_rules)
    then show ?thesis using none by (rule acts_toolless)
  qed
  then show ?thesis unfolding acts_def by blast
qed

section \<open>What a processed event is told to be\<close>

text \<open>The disposition tells the status of the record that is returned with it.\<close>

definition truthful :: "processing_result \<Rightarrow> bool" where
  "truthful p \<longleftrightarrow> (case px_disposition p of
     DP_REJECTED \<Rightarrow> True
   | DP_HANDLED \<Rightarrow> (\<exists>r. px_record p = Some r \<and> uv_status r = UE_HANDLED)
   | DP_REPLAN_REQUIRED \<Rightarrow> (\<exists>r. px_record p = Some r \<and> uv_status r = UE_REPLAN_REQUIRED)
   | DP_DUPLICATE \<Rightarrow> (\<exists>r. px_record p = Some r \<and> uv_status r \<noteq> UE_PROCESSING))"

definition consistent :: "ending \<Rightarrow> bool" where
  "consistent n \<longleftrightarrow> (ed_status n, ed_disposition n) \<in>
     {(UE_HANDLED, DP_HANDLED), (UE_REPLAN_REQUIRED, DP_REPLAN_REQUIRED), (UE_REJECTED, DP_REJECTED)}"

lemma endings_consistent:
  "consistent context_unavailable" "consistent (resolved t)" "consistent (replan t)" "consistent blocked"
  "consistent (dispatch_ending t r)"
  by (simp_all add: consistent_def context_unavailable_def resolved_def replan_def blocked_def dispatch_ending_def
      refused_def awaiting_user_def executed_def ending_of_def Let_def split: dispatch_outcome.split)

lemma results_after:
  "(\<And>s x s'. m s = (Returns x, s') \<Longrightarrow> results_in P (k x)) \<Longrightarrow> results_in P (as_then m k)"
  unfolding results_in_def then_returns by blast

lemma transaction_returns:
  assumes "urgent_transaction env ue f s = (Returns x, s')"
  shows "\<exists>t. fst (f t) = x"
proof -
  let ?t = "us_table (sn_urgent (ag_scene (let_others_run env s)))"
  obtain y t' where f: "f ?t = (y, t')" by (cases "f ?t")
  with assms have "y = x" by (auto simp: urgent_transaction_def Let_def split: if_splits)
  with f show ?thesis by (metis fst_conv)
qed

lemma found_returns: "found x s = (Returns r, s') \<longleftrightarrow> x = Some r \<and> s' = s"
  by (auto simp: found_def as_throw_def as_return_def split: option.split)

lemma completes_as_asked:
  assumes "complete_event env ue e ow st out s = (Returns r, s')"
  shows "uv_status r = st"
proof -
  obtain ts row s1 s2 where row: "urgent_transaction env ue (complete_transaction
      \<lparr>co_eventId = ue_eventId e, co_ownerId = ow, co_status = st, co_processedAt = ts, co_outcome = out\<rparr>) s1 =
      (Returns row, s2)" and r: "row = Some r"
    using assms unfolding complete_event_def then_returns found_returns by blast
  obtain t where "fst (complete_transaction \<lparr>co_eventId = ue_eventId e, co_ownerId = ow, co_status = st,
      co_processedAt = ts, co_outcome = out\<rparr> t) = Some r"
    using transaction_returns [OF row] r by blast
  then show ?thesis
    by (auto simp: complete_transaction_def completed_record_def split: option.splits if_splits)
qed

lemma settle_truthful:
  assumes "consistent n"
  shows "results_in truthful (settle env cfg ue e sv ow n)"
  unfolding settle_def
proof (rule results_after)
  fix s r s'
  assume "complete_event env ue e ow (ed_status n) (ed_outcome n) s = (Returns r, s')"
  then have "uv_status r = ed_status n" by (rule completes_as_asked)
  with assms show "results_in truthful
     (as_then (observe_urgent env (ed_observation n (seen cfg UO_event_processed e sv (uv_status r)))) (\<lambda>_.
      as_then (notify_urgent env cfg ue e sv ((ed_notification n)\<lparr>nf_status := uv_status r\<rparr>)) (\<lambda>_.
        as_return \<lparr>px_disposition = ed_disposition n, px_record = Some r, px_invalidEventId = None\<rparr>)))"
    by (intro results_rules) (auto simp: consistent_def truthful_def)
qed

lemma handled_truthful: "results_in truthful (handle_claimed rt env cfg ue e sv ow)"
proof -
  have "results_in truthful (case plan_event e y of
      Plan_resolved summary \<Rightarrow> settle env cfg ue e sv ow (resolved summary)
    | Plan_replan summary \<Rightarrow> settle env cfg ue e sv ow (replan summary)
    | Plan_action candidate \<Rightarrow> as_then (dispatch rt env cfg ue (i candidate))
        (\<lambda>r. settle env cfg ue e sv ow (dispatch_ending (uc_safeSummary candidate) r)))" for y i
    by (auto intro!: results_rules settle_truthful endings_consistent split: urgent_plan.split)
  then show ?thesis
    unfolding handle_claimed_def by (intro results_rules settle_truthful endings_consistent)
qed

lemma processed_truthful: "results_in truthful (process_input rt env cfg ue input)"
proof -
  have failed: "results_in truthful (failed_processing env cfg ue e sv ow error)" for e sv ow error
    unfolding failed_processing_def Let_def by (intro results_rules settle_truthful endings_consistent)
  have own: "results_in truthful (own_event rt env cfg ue e sv ow)" for e sv ow
    unfolding own_event_def by (intro results_rules handled_truthful failed)
  have other: "results_in truthful (owned_elsewhere env cfg e sv r)" for e sv r
    by (cases "uv_status r = UE_PROCESSING")
      (auto simp: owned_elsewhere_def truthful_def intro!: results_rules)
  have event: "results_in truthful (process_event rt env cfg ue e)" for e
    unfolding process_event_def Let_def
    by (rule results_rules)+ (auto simp: truthful_def intro!: results_rules own other split: urgent_claim.split)
  have "results_in truthful (rejectInvalid env cfg ue input)"
    by (auto simp: rejectInvalid_def truthful_def intro!: results_rules split: option.split)
  with event show ?thesis
    by (auto simp: process_input_def intro!: results_rules split: sum.split option.split)
qed

section \<open>How a message is settled\<close>

lemma dlq_returns: "publishDlq env ue letter s = (Returns letters, s') \<Longrightarrow> letters = [letter]"
  by (auto simp: publishDlq_def await_answer_def Let_def split: if_splits)

lemma settle_failed_returns:
  assumes "settle_failed env cfg ue input count error s = (Returns (letters, how), s')"
  shows "how = Acknowledged \<and> (\<exists>letter. letters = [letter] \<and> dl_deliveryCount letter = count) \<or>
    letters = [] \<and> count < ug_maxDeliver cfg \<and> (\<exists>delay. error = Urgent_error (Urgent_transient delay) \<and>
      how = Nacked (case delay of None \<Rightarrow> ug_nakDelayMs cfg | Some ms \<Rightarrow> ms))"
proof -
  have dead: "how = Acknowledged \<and> (\<exists>letter. letters = [letter] \<and> dl_deliveryCount letter = count)"
    if "as_then (publishDlq env ue (dead_letter_of (Some input) reason count None))
          (\<lambda>letters. as_return (letters, Acknowledged)) s = (Returns (letters, how), s')" for reason
    using that unfolding then_returns as_return_def
    by (auto dest!: dlq_returns simp: dead_letter_of_def Let_def)
  show ?thesis
    using assms dead
    by (auto simp: settle_failed_def Let_def as_return_def split: agent_thrown.splits urgent_failure.splits if_splits)
qed

lemma settle_processed_returns:
  assumes "settle_processed env ue input count p s = (Returns (letters, how), s')"
  shows "how = Acknowledged \<and> (if px_disposition p = DP_REJECTED
    then \<exists>letter. letters = [letter] \<and> dl_deliveryCount letter = count else letters = [])"
  using assms unfolding settle_processed_def
  by (auto simp: then_returns as_return_def dead_letter_of_def Let_def dest!: dlq_returns split: if_splits)

lemma settle_processed_throws:
  "settle_processed env ue input count p s = (Throws error, s') \<Longrightarrow> error = Other_thrown"
  unfolding settle_processed_def publishDlq_def
  by (auto simp: as_then_def as_return_def await_answer_def Let_def split: if_splits)

lemma handled_returns:
  assumes "handle_message rt env cfg ue count (Some input) s = (Returns x, s')"
  shows "(\<exists>p s1. process_input rt env cfg ue input s = (Returns p, s1) \<and>
      settle_processed env ue input count p s1 = (Returns x, s')) \<or>
    (\<exists>error s1. settle_failed env cfg ue input count error s1 = (Returns x, s') \<and>
      (error = Other_thrown \<or> process_input rt env cfg ue input s = (Throws error, s1)))"
proof (cases "process_input rt env cfg ue input s")
  case (Pair out s1)
  note handled = assms [unfolded handle_message_def option.case as_catch_def as_then_def Pair prod.case]
  show ?thesis
  proof (cases out)
    case (Returns p)
    obtain res s2 where settled: "settle_processed env ue input count p s1 = (res, s2)" by fastforce
    with handled Returns Pair show ?thesis
      by (cases res) (auto dest: settle_processed_throws)
  qed (use handled Pair in auto)
qed

text \<open>
  C19. A message of the event stream is settled for what became of its event. It is given back for
  redelivery only when processing failed transiently and deliveries are left, after the delay that
  the failure asks for, and then no dead letter is published. It is acknowledged after a dead
  letter with the count of the delivery; or else the event was processed, was not rejected, and its
  record, returned by the table, says so: it is handled, it is to be replanned, or, for a duplicate,
  it is not being processed by anybody.
\<close>

theorem message_settled_by_outcome:
  assumes "handle_message rt env cfg ue count message s = (Returns (letters, how), s')"
  shows "case how of
     Nacked ms \<Rightarrow> letters = [] \<and> count < ug_maxDeliver cfg \<and>
       (\<exists>input delay s1. message = Some input \<and>
          process_input rt env cfg ue input s = (Throws (Urgent_error (Urgent_transient delay)), s1) \<and>
          ms = (case delay of None \<Rightarrow> ug_nakDelayMs cfg | Some d \<Rightarrow> d))
   | Acknowledged \<Rightarrow>
       (\<exists>letter. letters = [letter] \<and> dl_deliveryCount letter = count) \<or>
       letters = [] \<and> (\<exists>input p r s1. message = Some input \<and>
          process_input rt env cfg ue input s = (Returns p, s1) \<and> px_record p = Some r \<and>
          (px_disposition p, uv_status r) \<in> {(DP_HANDLED, UE_HANDLED), (DP_REPLAN_REQUIRED, UE_REPLAN_REQUIRED)} \<union>
            {DP_DUPLICATE} \<times> (- {UE_PROCESSING}))"
proof (cases message)
  case None
  then show ?thesis
    using assms by (auto simp: handle_message_def then_returns as_return_def dead_letter_of_def Let_def dest!: dlq_returns)
next
  case (Some input)
  from handled_returns [OF assms [unfolded Some]] show ?thesis
  proof (elim disjE exE conjE)
    fix p s1
    assume p: "process_input rt env cfg ue input s = (Returns p, s1)"
      and settled: "settle_processed env ue input count p s1 = (Returns (letters, how), s')"
    have "truthful p" using processed_truthful p unfolding results_in_def by blast
    with settle_processed_returns [OF settled] p Some show ?thesis
      by (cases "px_disposition p") (auto simp: truthful_def split: if_splits)
  next
    fix error s1
    assume "settle_failed env cfg ue input count error s1 = (Returns (letters, how), s')" "error = Other_thrown"
    with settle_failed_returns show ?thesis by fastforce
  next
    fix error s1
    assume failed: "settle_failed env cfg ue input count error s1 = (Returns (letters, how), s')"
      and "process_input rt env cfg ue input s = (Throws error, s1)"
    with settle_failed_returns [OF failed] Some show ?thesis by auto
  qed
qed

section \<open>Two ways to lose an event\<close>

text \<open>
  A claimed event whose first notice cannot be delivered: the error is none of the three of urgent
  events, so the message goes to the dead letters and is acknowledged, although the event was only
  taken, and its record stays in processing.
\<close>

lemma undelivered_notice_throws:
  assumes "ug_notifies cfg" "\<And>k. \<not> un_delivered ue k"
  shows "fst (own_event rt env cfg ue e sv ow s) = Throws Other_thrown"
  using assms
  by (auto simp: own_event_def observe_urgent_def notify_urgent_def as_then_def agent_now_def amend_def in_scene_def
      as_update_def as_get_def await_answer_def Let_def split: prod.splits sum.splits settled.splits)

lemma unforeseen_error_is_acknowledged:
  assumes "settle_failed env cfg ue input count Other_thrown s = (Returns (letters, how), s')"
  shows "how = Acknowledged \<and> map dl_reasonCode letters = [URGENT_EVENT_PERMANENT_FAILURE]"
  using assms unfolding settle_failed_def
  by (auto simp: then_returns as_return_def dead_letter_of_def Let_def dest!: dlq_returns)

text \<open>
  A redelivered message whose event fails between the claim that found it taken and the reading
  of the row: it is a duplicate of a failed event, and acknowledged without a dead letter.
\<close>

lemma failed_duplicate_is_acknowledged:
  assumes "uv_status r = UE_FAILED" "owned_elsewhere env cfg e sv r s = (Returns p, s')"
  shows "settle_processed env ue input count p s' = (Returns ([], Acknowledged), s')"
  using assms unfolding owned_elsewhere_def
  by (auto simp: then_returns as_return_def settle_processed_def)

end
