(* ===== verification/UrgentExamples.thy ===== *)
theory UrgentExamples
  imports UrgentSafety UrgentGuarantees RunExamples
begin

text \<open>
  The guarantees on urgent events at concrete deliveries: one that tells of an interrupted charging,
  and one that is no event.
\<close>

definition urgent_setup :: urgent_config where
  "urgent_setup = \<lparr>ug_userId = ''user-1'', ug_credential = (\<lambda>a. ''credential-of-'' @ a), ug_claimLeaseMs = 30000,
     ug_notifies = False, ug_printing = plain_printing, ug_maxDeliver = 5, ug_nakDelayMs = 500\<rparr>"

definition fair_urgent_env :: urgent_env where
  "fair_urgent_env = \<lparr>un_recovered = (\<lambda>_. Inr None), un_fate = (\<lambda>_. Db_commits), un_readable = (\<lambda>_. True),
     un_owner = (\<lambda>_. ''owner-1''), un_delivered = (\<lambda>_. True), un_notificationId = (\<lambda>_. ''note-1''),
     un_sequence = (\<lambda>_. 0), un_published = (\<lambda>_. True)\<rparr>"

definition interrupted_event :: urgent_event where
  "interrupted_event = soc_event\<lparr>ue_payload := CHARGING_INTERRUPTED ''PLUG_REMOVED''\<rparr>"

definition input_of :: "urgent_event untyped \<Rightarrow> urgent_input" where
  "input_of e = \<lparr>ui_event = e, ui_patterned = False, ui_isRecord = True, ui_eventId = Some ''event-1'',
     ui_eventType = None, ui_vehicleId = None, ui_correlationId = None, ui_receivedAt = None, ui_receivedMs = None\<rparr>"

theorem urgent_event_executes_only_a_read_witness:
  "\<exists>steps. steps_of (snd (handle_message (runtime_over media_executor) quiet_env urgent_setup fair_urgent_env 1
       (Some (input_of (Shaped interrupted_event))) (started_agent media_start))) =
     steps_of (started_agent media_start) @ steps \<and>
   (steps = [] \<or> (\<exists>(q :: execution_request) calls. steps = Policy_consumed (xq_policyDecision q) # calls \<and>
      po_decision (xq_policyDecision q) = PD_ALLOW))"
  using urgent_event_executes_only_a_read [OF media_wiring, of quiet_env urgent_setup fair_urgent_env 1
      "Some (input_of (Shaped interrupted_event))" "started_agent media_start"] by blast

lemma no_event_delivery:
  "\<exists>letters s'. handle_message (runtime_over media_executor) quiet_env urgent_setup fair_urgent_env 1
     (Some (input_of Uncloneable)) (started_agent media_start) = (Returns (letters, Acknowledged), s') \<and> letters \<noteq> []"
  by (simp add: handle_message_def process_input_def parseUrgentEvent_def input_of_def rejectInvalid_def
      readRejectableEventIdentity_def settle_processed_def publishDlq_def await_answer_def fair_urgent_env_def
      as_catch_def as_then_def as_return_def Let_def)

theorem message_settled_by_outcome_witness:
  "\<exists>letters s' letter. handle_message (runtime_over media_executor) quiet_env urgent_setup fair_urgent_env 1
     (Some (input_of Uncloneable)) (started_agent media_start) = (Returns (letters, Acknowledged), s') \<and>
     letters = [letter] \<and> dl_deliveryCount letter = 1"
proof -
  obtain letters s' where run: "handle_message (runtime_over media_executor) quiet_env urgent_setup fair_urgent_env 1
     (Some (input_of Uncloneable)) (started_agent media_start) = (Returns (letters, Acknowledged), s')" "letters \<noteq> []"
    using no_event_delivery by blast
  from message_settled_by_outcome [OF run(1)] run(2)
  obtain letter where "letters = [letter]" "dl_deliveryCount letter = 1" by auto
  with run(1) show ?thesis by blast
qed

end
