(* ===== verification/Spec2Isabelle.thy ===== *)
theory Spec2Isabelle
  imports Prelude CircuitBreaker Canonical Tools Recovery ExecRecords ExecConcurrency Admission
    Domain DrivingContext PolicyRules PolicyEngine PendingActions ActionService ActionGuarantees
    ActionExamples Async ExecutionRequests Executor ExecutorGuarantees ExecutorRecords
    ExecutorInvariants ExecutorExamples ExecutorSettles Numbers Determinism
    SimulatorState Simulator SimulatorGuarantees Fleet AuditTrail DurableExecution
    DurableGuarantees DurableProcess DurableAnswers DurableExamples CanonicalBinding
    AgentState ContextLoading GuardedCalls AgentRuns QuietCode CallGuarantees RunGuarantees
    RunOutcomes ConfirmedCalls DurableCalls RunExamples UrgentEvents UrgentGuarantees UrgentDispatch
    UrgentProcessing UrgentSafety UrgentExamples
begin

text \<open>
  Verification of the safety core of DriveGuard, a supervised in-vehicle agent.

  The program. A language model, run by the library Pi, proposes tool calls; nothing it proposes
  reaches the vehicle unchecked. A request of a user is one run of the agent. The API admits a
  bounded number of requests in arrival order. The run loads the context (vehicle, trip, user
  preferences), exposes the registered tools that are available and fit the goal of the prompt, and
  prompts the model. Every tool call it makes goes through one path: the arguments are bound from
  the prompt and validated, the context is loaded again for a side effect and compared with the
  planning context, its freshness is judged, and the deterministic policy engine decides. ALLOW
  leads to one request to the reliable executor, which consumes the decision, bounds concurrency,
  retries what is safe to retry behind a circuit breaker, and keeps one record for each execution;
  with a database the durable coordinator makes the same execution unique across processes.
  REQUIRE_CONFIRMATION leads to a pending action and a challenge on a trusted channel, past the
  model; the user confirms it, the confirmation service revalidates and authorizes it, and the
  executor consumes the authorization. DENY and REPLAN end the run with an error. The vehicle
  simulator stands behind the tools. Events of the vehicle are a second way in: each is claimed in a
  durable table, planned without a model, and its one candidate action passes the same policy engine,
  confirmation service and executor.

  Theories and sources. Definitions have the names of the source where the logic allows it.

    \<^item> \<open>Prelude\<close>: results, safe integers, \<open>UtcTimestamp\<close> texts, transition histories, lists and maps.
    \<^item> \<open>Async\<close>: asynchronous functions as runs that settle or stay pending.
    \<^item> \<open>Numbers\<close>: the 64-bit numbers of the language, where fractions are computed with.
    \<^item> \<open>Domain\<close> (packages/domain), \<open>DrivingContext\<close> (packages/context): the records with the validators
      \<open>parseDrivingContext\<close> and others; versions, snapshot ids, freshness, conflicts. A validator
      accepts exactly the valid values; the verdicts are characterized exactly; the versions of a
      history of snapshots increase and its ids differ.
    \<^item> \<open>Tools\<close> (packages/tools, packages/capabilities): definitions, registry, resolution.
    \<^item> \<open>PolicyRules\<close>, \<open>PolicyEngine\<close> (packages/policy): profiles, rules, registries, \<open>evaluate\<close> and the
      one-time use of decisions. ALLOW is given only on safe evidence, and consumed at most once.
    \<^item> \<open>Canonical\<close>, \<open>CanonicalBinding\<close> (canonical.ts of packages/action-lifecycle): canonical text of data
      and fingerprints; two values have one text exactly when they are the same data.
    \<^item> \<open>PendingActions\<close>, \<open>ActionService\<close> (packages/action-lifecycle): the state machine and repository of
      pending actions, and the confirmation service with revalidation. \<open>ActionGuarantees\<close> proves, over
      the locale \<open>pending_repository\<close> and so for the in-memory repository that interprets it, that
      stored actions stay well formed and bound, that only confirmable ones are authorized, and
      that an authorization is consumed at most once. \<open>ActionExamples\<close> evaluates one action.
    \<^item> \<open>CircuitBreaker\<close>, \<open>Recovery\<close>, \<open>ExecRecords\<close>, \<open>ExecConcurrency\<close>, \<open>ExecutionRequests\<close>, \<open>Executor\<close>
      (packages/executor): the parts of \<open>ReliableToolExecutor\<close> and \<open>execute\<close> itself. Then
      \<open>ExecutorGuarantees\<close> (one grant, then calls by the retry policy), \<open>ExecutorRecords\<close> (what the
      record says is what happened and what is answered), \<open>ExecutorInvariants\<close> (the locale
      \<open>executor_invariant\<close>: the invariants of all parts survive an execution), \<open>ExecutorSettles\<close>
      (an admitted execution ends and gives its permit back), \<open>ExecutorExamples\<close>.
    \<^item> \<open>Admission\<close> (apps/api admission-control.ts): first-in first-out admission and shutdown.
    \<^item> \<open>Determinism\<close>, \<open>SimulatorState\<close>, \<open>Simulator\<close>, \<open>Fleet\<close> (services/vehicle-simulator), with
      \<open>SimulatorGuarantees\<close>: every state shown is valid, a failed mutation changes nothing, slots are
      given exactly when bookable, vehicles do not see each other's calls.
    \<^item> \<open>AuditTrail\<close>, \<open>DurableExecution\<close>, \<open>DurableProcess\<close> (audit.ts, execution.ts, execution-events.ts and
      schema.ts of packages/persistence): the tables as a record of maps, every transaction a
      function on it, and the coordinator in a process. \<open>DurableGuarantees\<close> refines the tables to a
      ledger of owners and outcomes, for any number of processes; \<open>DurableAnswers\<close> states what
      callers are told; \<open>DurableExamples\<close> evaluates it.
    \<^item> \<open>AgentState\<close>, \<open>ContextLoading\<close>, \<open>GuardedCalls\<close>, \<open>AgentRuns\<close>, \<open>ConfirmedCalls\<close> (packages/agent-runtime):
      the state of a run; the context loader; the tool adapter and the policy guard with the
      closures \<open>run\<close> gives them; \<open>run\<close> from request to result, with sessions, goal router, critical
      path guard, events and repair; \<open>confirmAndExecute\<close> and the final answer. \<open>QuietCode\<close> has the
      rules for code that neither calls a tool nor moves the run, in the locale \<open>bystander\<close>, which
      \<open>CallGuarantees\<close> and \<open>RunOutcomes\<close> interpret for the steps and for the state machine.
      \<open>RunGuarantees\<close> composes the steps of a run, over the locale \<open>step_language\<close>: all of them are
      guarded calls. \<open>DurableCalls\<close> shows that the durable coordinator keeps this; \<open>RunExamples\<close> has
      the witnesses.
    \<^item> \<open>UrgentEvents\<close> (packages/urgent-events, urgent-event.ts of packages/persistence): urgent events
      with validation, fingerprint, classification and planning, and the durable table of events.
      \<open>UrgentGuarantees\<close>: in every history of the table an event has one owner at a time and one end.
    \<^item> \<open>UrgentDispatch\<close>, \<open>UrgentProcessing\<close> (dispatcher.ts, processor.ts and nats.ts of
      packages/urgent-events): a message from delivery to settlement. The dispatcher uses the parts of
      the runtime, and so the record \<open>runtime\<close> and the state of a run; the ids of what it starts are
      derived from the event, so that a redelivery finds it. \<open>UrgentSafety\<close>: an event executes
      nothing by itself but one allowed read, and its message is settled for what became of it;
      \<open>UrgentExamples\<close> has the witnesses.
\<close>

text \<open>
  Conventions.

    \<^item> An error is a value: \<open>Inl\<close> of a synchronous function, \<open>Throws\<close> of an asynchronous one. A promise
      that never settles is \<open>Pending\<close>, so that returning is something to prove.
    \<^item> What runs concurrently is part of the environment. An asynchronous function is interrupted at
      its awaits, where the environment changes the shared state arbitrarily, or within the
      contract a theorem names; between awaits it is one step, as the language guarantees.
    \<^item> Clocks, random ids, event sinks and the answers of tools are functions of the environment,
      read at a running position. Ids drawn until one is new are drawn from a finite list, whose
      exhaustion is a run that never settles.
    \<^item> Pi is the list of what it does in a prompt: events, tool calls and messages, in any number and
      order. No theorem restricts it.
    \<^item> A promise several callers wait for is a numbered ticket with the list of the answers given.
    \<^item> SHA-256, \<open>structuredClone\<close>, the input and output schemas of tools, the argument binder, the
      patterns on prompts and the redaction of texts are parameters; objects whose identity the
      code compares have a reference in the model.
    \<^item> Numbers of the domain are rationals, counters integers with the safe-integer guard written out,
      and the bitwise arithmetic of the simulator is on 32-bit words. Times are milliseconds since 1970,
      and in texts the canonical representation.
    \<^item> Recursion ends: attempts are bounded by the retry policy and go down by a measure, a context
      load has two rounds, and all else is structural on lists. No fuel is used.

  Not modelled, and why.

    \<^item> Of the runtime: \<open>cancel\<close> and the heartbeat of the session lease, which set flags at any time and
      so are part of the environment; the snapshots for reading; the factory, whose wiring is the
      hypothesis \<open>production_wiring\<close>; the argument binder, a table of Unicode patterns; the first
      runtime, which \<open>production-runtime.ts\<close> replaces.
    \<^item> The PostgreSQL repositories of pending actions and sessions, which are statements of a
      database; that of pending actions has the contract \<open>pending_repository\<close>.
    \<^item> Of urgent events: the publisher, the set-up of the message stream and the listeners of the
      notification hub, which only call the message broker; conversation memory.
    \<^item> HTTP services and clients, metrics, traces and logs, the browser interface: transport and output.
    \<^item> Live smoke runs and the evaluation harness, which are not part of the product.
\<close>

end
